(* ===== verification/Prelude.thy ===== *)
theory Prelude
  imports Complex_Main "HOL-Library.Word" "HOL-Library.Sublist" "HOL-Library.Char_ord" "HOL-Library.List_Lexorder" "HOL-Library.Product_Lexorder" "HOL-Library.Multiset"
begin

text \<open>
  Types, automation and generic lemmas shared by the component theories.

  A Go \<open>string\<close> or \<open>[]byte\<close> is a list of bytes, which is what \<open>string\<close> (a list of
  8-bit \<open>char\<close>s) is in HOL; its order is Go's bytewise order.  A Go \<open>int\<close> used as a
  position, size or count is \<open>int\<close>; integers of a stated width whose wrap-around can be
  observed are words.  \<open>time.Time\<close> is the number of nanoseconds since Go's zero time and
  \<open>time.Duration\<close> a number of nanoseconds.  A Go map is a partial function, a nil pointer or
  nil interface is \<open>None\<close>, and a pair \<open>(T, error)\<close> is a sum with the error on the left.
\<close>

type_synonym gotime = int
type_synonym duration = int
type_synonym uint16 = "16 word"
type_synonym uint32 = "32 word"
type_synonym uint64 = "64 word"

named_theorems kg_consts "unfolding of the named string constants of the program"
named_theorems kg_eval "equations that evaluate the model on concrete inputs"

section \<open>Strings\<close>

abbreviation has_prefix :: "string \<Rightarrow> string \<Rightarrow> bool" where
  "has_prefix p s \<equiv> take (length p) s = p"

definition cut_prefix :: "string \<Rightarrow> string \<Rightarrow> string option" where
  "cut_prefix p s = (if has_prefix p s then Some (drop (length p) s) else None)"

fun cut_at :: "char \<Rightarrow> string \<Rightarrow> (string \<times> string) option" where
  "cut_at c [] = None"
| "cut_at c (x # xs) =
     (if x = c then Some ([], xs)
      else map_option (\<lambda>(a, b). (x # a, b)) (cut_at c xs))"

definition join_with :: "string \<Rightarrow> string list \<Rightarrow> string" where
  "join_with sep xs = (case xs of [] \<Rightarrow> [] | y # ys \<Rightarrow> y @ concat (map (\<lambda>z. sep @ z) ys))"

definition substr :: "'a list \<Rightarrow> nat \<Rightarrow> nat \<Rightarrow> 'a list" where
  "substr xs i j = take (j - i) (drop i xs)"

lemma cut_prefix_Some: "cut_prefix p s = Some r \<longleftrightarrow> s = p @ r"
  by (auto simp: cut_prefix_def) (metis append_take_drop_id)

lemma cut_at_Some:
  "cut_at c s = Some (a, b) \<Longrightarrow> s = a @ c # b \<and> c \<notin> set a"
  by (induction s arbitrary: a b) (auto split: if_splits)

lemma cut_at_None: "cut_at c s = None \<longleftrightarrow> c \<notin> set s"
  by (induction s) auto

lemma cut_at_append: "c \<notin> set a \<Longrightarrow> cut_at c (a @ c # b) = Some (a, b)"
  by (induction a) auto

lemma length_substr [simp]: "length (substr xs i j) = min (j - i) (length xs - i)"
  by (simp add: substr_def)

lemma substr_full [simp]: "substr xs 0 (length xs) = xs"
  by (simp add: substr_def)

lemma substr_append: "i \<le> j \<Longrightarrow> j \<le> k \<Longrightarrow> substr xs i j @ substr xs j k = substr xs i k"
proof -
  assume le: "i \<le> j" "j \<le> k"
  then have "k - i = (j - i) + (k - j)" and "j = (j - i) + i" by auto
  then show ?thesis by (metis substr_def drop_drop take_add)
qed

section \<open>Lists\<close>

text \<open>A list is a permutation of another exactly when they have the same multiset; a filter of a
  concatenation of pairwise disjoint selections is the usual way the program builds one.\<close>

lemma mset_filter_split:
  "mset (filter P xs) + mset (filter (\<lambda>x. \<not> P x) xs) = mset xs"
  by (metis mset_filter multiset_partition)

lemma mset_concat_map_filter_distinct:
  assumes "distinct ks"
  shows "mset (concat (map (\<lambda>k. filter (\<lambda>x. f x = k) xs) ks)) = mset (filter (\<lambda>x. f x \<in> set ks) xs)"
  using assms
proof (induction ks)
  case Nil
  then show ?case by simp
next
  case (Cons k ks)
  have "filter_mset (\<lambda>x. f x = k \<or> f x \<in> set ks) (mset xs)
      = filter_mset (\<lambda>x. f x = k) (mset xs) + filter_mset (\<lambda>x. f x \<in> set ks) (mset xs)"
    using Cons.prems by (induction xs) auto
  with Cons show ?case by simp
qed

text \<open>Sorting by a key that tells the elements apart forgets the order of the input.\<close>

lemma filter_key_inj:
  assumes "inj_on f (set xs)" "k \<in> set xs"
  shows "filter (\<lambda>x. f k = f x) xs = replicate (count (mset xs) k) k"
proof -
  have "filter (\<lambda>x. f k = f x) xs = filter (\<lambda>x. k = x) xs"
    using assms by (intro filter_cong) (auto simp: inj_on_eq_iff)
  also have "\<dots> = replicate (length (filter (\<lambda>x. k = x) xs)) k"
    by (rule replicate_length_filter [symmetric])
  also have "length (filter (\<lambda>x. k = x) xs) = count (mset xs) k"
    by (induction xs) auto
  finally show ?thesis .
qed

lemma sort_key_mset_cong:
  assumes "mset xs = mset ys" "inj_on f (set xs)"
  shows "sort_key f xs = sort_key f ys"
proof (rule properties_for_sort_key)
  have sets: "set xs = set ys" "set (sort_key f ys) = set xs" using mset_eq_setD [OF assms(1)] by simp_all
  show "mset (sort_key f ys) = mset xs" by (simp add: assms(1))
  show "filter (\<lambda>x. f k = f x) (sort_key f ys) = filter (\<lambda>x. f k = f x) xs" if "k \<in> set (sort_key f ys)" for k
    using filter_key_inj [of f xs k] filter_key_inj [of f "sort_key f ys" k] that assms sets by simp
qed simp

lemma mset_map_factor:
  assumes "mset (map f xs) = mset (map f ys)"
    and "\<And>x y. x \<in> set xs \<union> set ys \<Longrightarrow> y \<in> set xs \<union> set ys \<Longrightarrow> f x = f y \<Longrightarrow> g x = g y"
  shows "mset (map g xs) = mset (map g ys)"
proof -
  define h where "h = g \<circ> inv_into (set xs \<union> set ys) f"
  have h: "g x = h (f x)" if "x \<in> set xs \<union> set ys" for x
    using that assms(2) [of x "inv_into (set xs \<union> set ys) f (f x)"]
    by (simp add: h_def inv_into_into f_inv_into_f del: Un_iff)
  have "mset (map g zs) = image_mset h (mset (map f zs))" if "set zs \<subseteq> set xs \<union> set ys" for zs
    using that h by (auto simp flip: mset_map intro!: arg_cong [where f = mset] map_cong)
  then show ?thesis using assms(1) by simp
qed

text \<open>Operations on a state that may fail: a value or an error, and the state either way.\<close>

type_synonym ('s, 'e, 'a) effect = "'s \<Rightarrow> ('e + 'a) \<times> 's"

definition ret :: "'a \<Rightarrow> ('s, 'e, 'a) effect" where
  "ret x = (\<lambda>s. (Inr x, s))"

definition fail :: "'e \<Rightarrow> ('s, 'e, 'a) effect" where
  "fail e = (\<lambda>s. (Inl e, s))"

definition and_then :: "('s, 'e, 'a) effect \<Rightarrow> ('a \<Rightarrow> ('s, 'e, 'b) effect) \<Rightarrow> ('s, 'e, 'b) effect" where
  "and_then m f = (\<lambda>s. case m s of (Inl e, s') \<Rightarrow> (Inl e, s') | (Inr x, s') \<Rightarrow> f x s')"

text \<open>The result of an operation as a value, and an operation whose error is dropped.\<close>

definition try_op :: "('s, 'e, 'a) effect \<Rightarrow> ('s, 'e, 'e + 'a) effect" where
  "try_op m = (\<lambda>s. (Inr (fst (m s)), snd (m s)))"

definition get :: "('s \<Rightarrow> 'a) \<Rightarrow> ('s, 'e, 'a) effect" where
  "get f = (\<lambda>s. (Inr (f s), s))"

definition modify :: "('s \<Rightarrow> 's) \<Rightarrow> ('s, 'e, unit) effect" where
  "modify f = (\<lambda>s. (Inr (), f s))"

definition from_sum :: "'e + 'a \<Rightarrow> ('s, 'e, 'a) effect" where
  "from_sum r = (\<lambda>s. (r, s))"

fun for_each :: "('a \<Rightarrow> ('s, 'e, unit) effect) \<Rightarrow> 'a list \<Rightarrow> ('s, 'e, unit) effect" where
  "for_each f [] = ret ()"
| "for_each f (x # xs) = and_then (f x) (\<lambda>_. for_each f xs)"

lemma effect_Inr:
  "and_then m f s = (Inr y, s'') \<longleftrightarrow> (\<exists>x s'. m s = (Inr x, s') \<and> f x s' = (Inr y, s''))"
  "ret x s = (Inr y, s'') \<longleftrightarrow> x = y \<and> s = s''"
  "fail e s \<noteq> (Inr y, s'')"
  "get g s = (Inr y, s'') \<longleftrightarrow> g s = y \<and> s = s''"
  "modify h s = (Inr u, s'') \<longleftrightarrow> h s = s''"
  "from_sum r s = (Inr y, s'') \<longleftrightarrow> r = Inr y \<and> s = s''"
  by (auto simp: and_then_def ret_def fail_def get_def modify_def from_sum_def split: prod.splits sum.splits)

end
