(* ===== verification/Utf8.thy ===== *)
theory Utf8
  imports Prelude
begin

text \<open>
  Go's conversions between strings and runes, as \<open>range\<close> over a string, \<open>[]rune(s)\<close>,
  \<open>string(runes)\<close> and \<open>utf8.RuneStart\<close> compute them: an invalid byte decodes to the rune
  U+FFFD of width one, and a rune that is no scalar value encodes as U+FFFD.  The file also holds
  \<open>unicode.IsDigit\<close> (general category Nd of Unicode 15, the version of Go 1.25).
  The lemmas give the two round trips on which the stream window relies.
\<close>

type_synonym rune = nat

definition rune_error :: rune where
  "rune_error = 0xFFFD"

definition byte :: "char \<Rightarrow> nat" where
  "byte c = of_char c"

definition of_byte :: "nat \<Rightarrow> char" where
  "of_byte n = char_of n"

definition in_range :: "nat \<Rightarrow> nat \<Rightarrow> nat \<Rightarrow> bool" where
  "in_range lo hi b \<longleftrightarrow> lo \<le> b \<and> b \<le> hi"

definition second_low :: "nat \<Rightarrow> nat" where
  "second_low b0 = (if b0 = 0xE0 then 0xA0 else if b0 = 0xF0 then 0x90 else 0x80)"

definition second_high :: "nat \<Rightarrow> nat" where
  "second_high b0 = (if b0 = 0xED then 0x9F else if b0 = 0xF4 then 0x8F else 0xBF)"

definition cont :: "nat \<Rightarrow> bool" where
  "cont b \<longleftrightarrow> in_range 0x80 0xBF b"

definition rune_start :: "nat \<Rightarrow> bool" where
  "rune_start b \<longleftrightarrow> \<not> cont b"

text \<open>The rune at the head of a non-empty byte list and its width; \<open>None\<close> for bytes that start
  no valid encoding.\<close>

fun decode_valid :: "nat list \<Rightarrow> (rune \<times> nat) option" where
  "decode_valid [] = None"
| "decode_valid (b0 # bs) =
     (if b0 < 0x80 then Some (b0, 1)
      else if in_range 0xC2 0xDF b0 then
        (case bs of
           b1 # _ \<Rightarrow> if cont b1 then Some ((b0 - 0xC0) * 64 + (b1 - 0x80), 2) else None
         | _ \<Rightarrow> None)
      else if in_range 0xE0 0xEF b0 then
        (case bs of
           b1 # b2 # _ \<Rightarrow>
             if in_range (second_low b0) (second_high b0) b1 \<and> cont b2
             then Some ((b0 - 0xE0) * 4096 + (b1 - 0x80) * 64 + (b2 - 0x80), 3) else None
         | _ \<Rightarrow> None)
      else if in_range 0xF0 0xF4 b0 then
        (case bs of
           b1 # b2 # b3 # _ \<Rightarrow>
             if in_range (second_low b0) (second_high b0) b1 \<and> cont b2 \<and> cont b3
             then Some ((b0 - 0xF0) * 262144 + (b1 - 0x80) * 4096 + (b2 - 0x80) * 64 + (b3 - 0x80), 4)
             else None
         | _ \<Rightarrow> None)
      else None)"

definition decode_rune :: "nat list \<Rightarrow> rune \<times> nat" where
  "decode_rune bs = (case decode_valid bs of Some rn \<Rightarrow> rn | None \<Rightarrow> (rune_error, 1))"

definition valid_rune :: "rune \<Rightarrow> bool" where
  "valid_rune r \<longleftrightarrow> r \<le> 0x10FFFF \<and> \<not> in_range 0xD800 0xDFFF r"

definition encode_scalar :: "rune \<Rightarrow> nat list" where
  "encode_scalar r =
     (if r < 0x80 then [r]
      else if r < 0x800 then [0xC0 + r div 64, 0x80 + r mod 64]
      else if r < 0x10000 then [0xE0 + r div 4096, 0x80 + r div 64 mod 64, 0x80 + r mod 64]
      else [0xF0 + r div 262144, 0x80 + r div 4096 mod 64, 0x80 + r div 64 mod 64, 0x80 + r mod 64])"

definition encode_rune :: "rune \<Rightarrow> nat list" where
  "encode_rune r = encode_scalar (if valid_rune r then r else rune_error)"

lemma decode_valid_width: "decode_valid bs = Some (r, n) \<Longrightarrow> 0 < n \<and> n \<le> length bs"
  by (cases bs) (auto split: if_splits list.splits)

lemma decode_rune_width: "decode_rune bs = (r, n) \<Longrightarrow> 0 < n"
  by (auto simp: decode_rune_def split: option.splits dest: decode_valid_width)

function runes_of_bytes :: "nat list \<Rightarrow> rune list" where
  "runes_of_bytes bs =
     (if bs = [] then []
      else (let rn = decode_rune bs in fst rn # runes_of_bytes (drop (snd rn) bs)))"
  by pat_completeness auto
termination
  by (relation "measure length") (simp_all add: decode_rune_width [OF prod.collapse [symmetric]])

declare runes_of_bytes.simps [simp del]

definition runes_of_string :: "string \<Rightarrow> rune list" where
  "runes_of_string s = runes_of_bytes (map byte s)"

definition string_of_runes :: "rune list \<Rightarrow> string" where
  "string_of_runes rs = map of_byte (concat (map encode_rune rs))"

text \<open>A string every rune of which decodes from a valid encoding.\<close>

function valid_bytes :: "nat list \<Rightarrow> bool" where
  "valid_bytes bs =
     (bs = [] \<or>
      (case decode_valid bs of None \<Rightarrow> False | Some rn \<Rightarrow> 0 < snd rn \<and> valid_bytes (drop (snd rn) bs)))"
  by pat_completeness auto
termination
  by (relation "measure length") (auto dest: decode_valid_width)

declare valid_bytes.simps [simp del]

definition valid_utf8 :: "string \<Rightarrow> bool" where
  "valid_utf8 s \<longleftrightarrow> valid_bytes (map byte s)"

section \<open>Round trips\<close>

lemmas utf8_defs = in_range_def second_low_def second_high_def cont_def valid_rune_def encode_scalar_def

lemma base64_digits:
  fixes r :: nat
  shows "r = r div 4096 * 4096 + r div 64 mod 64 * 64 + r mod 64"
    and "r = r div 262144 * 262144 + r div 4096 mod 64 * 4096 + r div 64 mod 64 * 64 + r mod 64"
proof -
  have 1: "r div 4096 = r div 64 div 64" and 2: "r div 262144 = r div 4096 div 64"
    by (simp_all flip: div_mult2_eq)
  have a: "r = r div 64 * 64 + r mod 64" and b: "r div 64 = r div 4096 * 64 + r div 64 mod 64"
    and c: "r div 4096 = r div 262144 * 64 + r div 4096 mod 64"
    by (simp_all add: 1 2)
  from a b show "r = r div 4096 * 4096 + r div 64 mod 64 * 64 + r mod 64" by linarith
  with c show "r = r div 262144 * 262144 + r div 4096 mod 64 * 4096 + r div 64 mod 64 * 64 + r mod 64"
    by linarith
qed

lemma decode_three:
  assumes r: "r = a * 4096 + b * 64 + c" "b < 64" "c < 64" and v: "valid_rune r" "0x800 \<le> r" "r < 0x10000"
  shows "decode_valid ([0xE0 + a, 0x80 + b, 0x80 + c] @ bs) = Some (r, 3)"
proof -
  have "a < 16" "a = 0 \<longrightarrow> 32 \<le> b" "a = 13 \<longrightarrow> b < 32"
    using r v by (auto simp: utf8_defs)
  then show ?thesis using r by (auto simp: utf8_defs)
qed

lemma decode_four:
  assumes r: "r = a * 262144 + b * 4096 + c * 64 + d" "b < 64" "c < 64" "d < 64"
    and v: "valid_rune r" "0x10000 \<le> r"
  shows "decode_valid ([0xF0 + a, 0x80 + b, 0x80 + c, 0x80 + d] @ bs) = Some (r, 4)"
proof -
  have "a < 5" "a = 0 \<longrightarrow> 16 \<le> b" "a = 4 \<longrightarrow> b < 16"
    using r v by (auto simp: utf8_defs)
  then show ?thesis using r by (auto simp: utf8_defs)
qed

lemma decode_encode_scalar:
  assumes "valid_rune r"
  shows "decode_valid (encode_scalar r @ bs) = Some (r, length (encode_scalar r))"
proof -
  consider "r < 0x80" | "0x80 \<le> r" "r < 0x800" | "0x800 \<le> r" "r < 0x10000" | "0x10000 \<le> r"
    by linarith
  then show ?thesis
  proof cases
    case 1
    then show ?thesis by (simp add: encode_scalar_def)
  next
    case 2
    then have "2 \<le> r div 64" "r div 64 < 32" by auto
    moreover have "r mod 64 < 64" by simp
    ultimately show ?thesis using 2 by (auto simp: utf8_defs)
  next
    case 3
    with decode_three [OF base64_digits(1) _ _ assms] show ?thesis by (simp add: encode_scalar_def)
  next
    case 4
    with decode_four [OF base64_digits(2) _ _ _ assms] show ?thesis by (simp add: encode_scalar_def)
  qed
qed

lemma digits_of_three:
  fixes a b c :: nat
  assumes "b < 64" "c < 64"
  shows "(a * 4096 + b * 64 + c) div 4096 = a" "(a * 4096 + b * 64 + c) div 64 mod 64 = b"
    "(a * 4096 + b * 64 + c) mod 64 = c"
proof -
  show "(a * 4096 + b * 64 + c) div 4096 = a" using assms by linarith
  have "(a * 4096 + b * 64 + c) div 64 = a * 64 + b" using assms by linarith
  then show "(a * 4096 + b * 64 + c) div 64 mod 64 = b" using assms by simp
  have "a * 4096 + b * 64 + c = (a * 64 + b) * 64 + c" by simp
  then show "(a * 4096 + b * 64 + c) mod 64 = c" using assms by (metis mod_less mod_mult_self3)
qed

lemma digits_of_four:
  fixes a b c d :: nat
  assumes "b < 64" "c < 64" "d < 64"
  shows "(a * 262144 + b * 4096 + c * 64 + d) div 262144 = a"
    "(a * 262144 + b * 4096 + c * 64 + d) div 4096 mod 64 = b"
    "(a * 262144 + b * 4096 + c * 64 + d) div 64 mod 64 = c"
    "(a * 262144 + b * 4096 + c * 64 + d) mod 64 = d"
proof -
  have eq: "a * 262144 + b * 4096 + c * 64 + d = (a * 64 + b) * 4096 + c * 64 + d" by simp
  show "(a * 262144 + b * 4096 + c * 64 + d) div 262144 = a" using assms by linarith
  show "(a * 262144 + b * 4096 + c * 64 + d) div 64 mod 64 = c"
    "(a * 262144 + b * 4096 + c * 64 + d) mod 64 = d"
    unfolding eq by (rule digits_of_three [OF assms(2,3)])+
  have "(a * 262144 + b * 4096 + c * 64 + d) div 4096 = a * 64 + b"
    unfolding eq by (rule digits_of_three [OF assms(2,3)])
  then show "(a * 262144 + b * 4096 + c * 64 + d) div 4096 mod 64 = b" using assms by simp
qed

lemma encode_decode_two:
  assumes "2 \<le> a" "a < 32" "b < 64" "r = a * 64 + b"
  shows "valid_rune r \<and> encode_scalar r = [0xC0 + a, 0x80 + b]"
proof -
  have "0x80 \<le> r" "r < 0x800" "r div 64 = a" "r mod 64 = b" using assms by auto
  then show ?thesis by (simp add: utf8_defs)
qed

lemma encode_decode_three:
  assumes "a < 16" "b < 64" "c < 64" "a = 0 \<longrightarrow> 32 \<le> b" "a = 13 \<longrightarrow> b < 32" "r = a * 4096 + b * 64 + c"
  shows "valid_rune r \<and> encode_scalar r = [0xE0 + a, 0x80 + b, 0x80 + c]"
proof -
  have "0x800 \<le> r" "r < 0x10000" using assms by (cases "a = 0"; simp)+
  moreover have "valid_rune r" using assms by (cases "a < 13"; cases "a = 13"; auto simp: utf8_defs)
  ultimately show ?thesis
    using digits_of_three [OF assms(2,3), of a] by (simp add: encode_scalar_def assms(6))
qed

lemma encode_decode_four:
  assumes "a < 5" "b < 64" "c < 64" "d < 64" "a = 0 \<longrightarrow> 16 \<le> b" "a = 4 \<longrightarrow> b < 16"
    "r = a * 262144 + b * 4096 + c * 64 + d"
  shows "valid_rune r \<and> encode_scalar r = [0xF0 + a, 0x80 + b, 0x80 + c, 0x80 + d]"
proof -
  have "0x10000 \<le> r" "r \<le> 0x10FFFF" using assms by (cases "a = 0"; cases "a = 4"; simp)+
  then show ?thesis
    using digits_of_four [OF assms(2,3,4), of a]
    by (simp add: encode_scalar_def valid_rune_def in_range_def assms(7))
qed

lemma encode_decode_scalar:
  assumes "decode_valid bs = Some (r, n)"
  shows "valid_rune r \<and> take n bs = encode_scalar r"
proof (cases bs)
  case Nil
  with assms show ?thesis by simp
next
  case (Cons b0 cs)
  note dec = assms [unfolded Cons]
  consider "b0 < 0x80" | "in_range 0xC2 0xDF b0" | "in_range 0xE0 0xEF b0" | "in_range 0xF0 0xF4 b0"
    using dec by (auto split: if_splits)
  then show ?thesis
  proof cases
    case 1
    with dec Cons show ?thesis by (auto simp: utf8_defs)
  next
    case 2
    then obtain b1 ds where cs: "cs = b1 # ds" "cont b1" "r = (b0 - 0xC0) * 64 + (b1 - 0x80)" "n = 2"
      using dec by (auto simp: in_range_def split: list.splits if_splits)
    then have "valid_rune r \<and> encode_scalar r = [0xC0 + (b0 - 0xC0), 0x80 + (b1 - 0x80)]"
      using 2 by (intro encode_decode_two) (auto simp: utf8_defs)
    with 2 cs Cons show ?thesis by (auto simp: utf8_defs)
  next
    case 3
    then obtain b1 b2 ds where cs: "cs = b1 # b2 # ds" "in_range (second_low b0) (second_high b0) b1"
        "cont b2" "r = (b0 - 0xE0) * 4096 + (b1 - 0x80) * 64 + (b2 - 0x80)" "n = 3"
      using dec by (auto simp: in_range_def split: list.splits if_splits)
    then have "valid_rune r \<and> encode_scalar r = [0xE0 + (b0 - 0xE0), 0x80 + (b1 - 0x80), 0x80 + (b2 - 0x80)]"
      using 3 by (intro encode_decode_three) (auto simp: utf8_defs split: if_splits)
    with 3 cs Cons show ?thesis by (auto simp: utf8_defs split: if_splits)
  next
    case 4
    then obtain b1 b2 b3 ds where cs: "cs = b1 # b2 # b3 # ds" "in_range (second_low b0) (second_high b0) b1"
        "cont b2" "cont b3" "n = 4"
        "r = (b0 - 0xF0) * 262144 + (b1 - 0x80) * 4096 + (b2 - 0x80) * 64 + (b3 - 0x80)"
      using dec by (auto simp: in_range_def split: list.splits if_splits)
    then have "valid_rune r \<and> encode_scalar r =
        [0xF0 + (b0 - 0xF0), 0x80 + (b1 - 0x80), 0x80 + (b2 - 0x80), 0x80 + (b3 - 0x80)]"
      using 4 by (intro encode_decode_four) (auto simp: utf8_defs split: if_splits)
    with 4 cs Cons show ?thesis by (auto simp: utf8_defs split: if_splits)
  qed
qed

section \<open>The conversions between strings and runes\<close>

lemma runes_Nil [simp]: "runes_of_bytes [] = []"
  by (simp add: runes_of_bytes.simps)

text \<open>Equations that evaluate on concrete byte lists.\<close>

lemma runes_of_bytes_Cons:
  "runes_of_bytes (b # bs) = (case decode_rune (b # bs) of (r, n) \<Rightarrow> r # runes_of_bytes (drop (n - 1) bs))"
proof -
  have "0 < snd (decode_rune (b # bs))" by (rule decode_rune_width [OF prod.collapse [symmetric]])
  then show ?thesis
    by (subst runes_of_bytes.simps) (simp add: Let_def split_beta drop_Cons' del: drop_Suc_Cons)
qed

declare runes_of_bytes.simps [code del]
declare runes_Nil [code] runes_of_bytes_Cons [code]

lemma runes_of_bytes_ascii: "\<forall>b\<in>set bs. b < 0x80 \<Longrightarrow> runes_of_bytes bs = bs"
  by (induction bs) (simp_all add: runes_of_bytes_Cons decode_rune_def)

lemma runes_of_string_ascii [kg_eval]:
  "list_all (\<lambda>c. byte c < 0x80) s \<Longrightarrow> runes_of_string s = map byte s"
  by (simp add: runes_of_string_def runes_of_bytes_ascii list_all_iff)

lemma encode_scalar_nonempty [simp]: "encode_scalar r \<noteq> []"
  by (simp add: encode_scalar_def)

lemma runes_encode:
  assumes "valid_rune r"
  shows "runes_of_bytes (encode_scalar r @ bs) = r # runes_of_bytes bs"
  by (subst runes_of_bytes.simps) (simp add: decode_rune_def decode_encode_scalar [OF assms])

lemma encode_scalar_bytes: "valid_rune r \<Longrightarrow> b \<in> set (encode_scalar r) \<Longrightarrow> b < 256"
  by (auto simp: encode_scalar_def valid_rune_def split: if_splits)

lemma valid_rune_error [simp]: "valid_rune rune_error"
  by (simp add: valid_rune_def rune_error_def in_range_def)

lemma byte_of_byte: "b < 256 \<Longrightarrow> byte (of_byte b) = b"
  by (simp add: byte_def of_byte_def)

lemma of_byte_byte [simp]: "of_byte (byte c) = c"
  by (simp add: byte_def of_byte_def)

lemma map_byte_encode:
  "valid_rune r \<Longrightarrow> map byte (map of_byte (encode_scalar r)) = encode_scalar r"
  using encode_scalar_bytes [of r] by (simp add: map_idI byte_of_byte)

text \<open>Encoding a list of scalar values and decoding it again gives the list back.\<close>

lemma runes_of_string_of_runes:
  "\<forall>r\<in>set rs. valid_rune r \<Longrightarrow> runes_of_string (string_of_runes rs) = rs"
proof (induction rs)
  case Nil
  then show ?case by (simp add: runes_of_string_def string_of_runes_def)
next
  case (Cons r rs)
  then have "runes_of_string (string_of_runes (r # rs)) =
      runes_of_bytes (encode_scalar r @ map byte (string_of_runes rs))"
    using map_byte_encode [of r]
    by (simp add: runes_of_string_def string_of_runes_def encode_rune_def)
  also have "\<dots> = r # runes_of_string (string_of_runes rs)"
    using Cons.prems by (simp add: runes_encode runes_of_string_def)
  finally show ?case using Cons by simp
qed

text \<open>Every decoded rune is a scalar value, and re-encoding the runes of a valid string gives the
  string back.\<close>

lemma decode_rune_valid: "valid_rune (fst (decode_rune bs))"
  using encode_decode_scalar [of bs] by (auto simp: decode_rune_def split: option.splits)

lemma runes_valid: "r \<in> set (runes_of_bytes bs) \<Longrightarrow> valid_rune r"
proof (induction bs rule: runes_of_bytes.induct)
  case (1 bs)
  then show ?case
    by (subst (asm) (2) runes_of_bytes.simps) (auto simp: Let_def decode_rune_valid split: if_splits)
qed

lemma concat_encode_runes:
  "valid_bytes bs \<Longrightarrow> concat (map encode_rune (runes_of_bytes bs)) = bs"
proof (induction bs rule: runes_of_bytes.induct)
  case (1 bs)
  show ?case
  proof (cases "bs = []")
    case False
    with "1.prems" obtain r n where d: "decode_valid bs = Some (r, n)" and v: "valid_bytes (drop n bs)"
      by (subst (asm) valid_bytes.simps) (auto split: option.splits)
    have e: "valid_rune r" "take n bs = encode_scalar r" using encode_decode_scalar [OF d] by auto
    have "concat (map encode_rune (runes_of_bytes bs)) =
        encode_rune r @ concat (map encode_rune (runes_of_bytes (drop n bs)))"
      using False d by (subst runes_of_bytes.simps) (simp add: decode_rune_def)
    also have "\<dots> = take n bs @ drop n bs"
      using "1.IH" [OF False refl] d v e by (simp add: decode_rune_def encode_rune_def [of r])
    finally show ?thesis by simp
  qed simp
qed

lemma string_of_runes_of_string: "valid_utf8 s \<Longrightarrow> string_of_runes (runes_of_string s) = s"
  by (simp add: string_of_runes_def runes_of_string_def valid_utf8_def concat_encode_runes map_idI)

lemma length_runes_of_bytes: "length (runes_of_bytes bs) \<le> length bs"
proof (induction bs rule: runes_of_bytes.induct)
  case (1 bs)
  show ?case
  proof (cases "bs = []")
    case False
    have "0 < snd (decode_rune bs)" by (rule decode_rune_width [OF prod.collapse [symmetric]])
    moreover have "0 < length bs" using False by simp
    moreover have "length (runes_of_bytes (drop (snd (decode_rune bs)) bs)) \<le> length bs - snd (decode_rune bs)"
      using "1.IH" [OF False refl] by simp
    ultimately have "length (runes_of_bytes (drop (snd (decode_rune bs)) bs)) < length bs" by linarith
    then show ?thesis using False by (subst runes_of_bytes.simps) (simp add: Let_def)
  qed simp
qed

section \<open>Decimal digits\<close>

text \<open>First code points of the runs of decimal digits (general category Nd): every run has ten
  members but the mathematical digits at U+1D7CE, which have fifty.\<close>

definition nd_starts :: "rune list" where
  "nd_starts =
     [0x30, 0x660, 0x6F0, 0x7C0, 0x966, 0x9E6, 0xA66, 0xAE6, 0xB66, 0xBE6, 0xC66, 0xCE6, 0xD66,
      0xDE6, 0xE50, 0xED0, 0xF20, 0x1040, 0x1090, 0x17E0, 0x1810, 0x1946, 0x19D0, 0x1A80, 0x1A90,
      0x1B50, 0x1BB0, 0x1C40, 0x1C50, 0xA620, 0xA8D0, 0xA900, 0xA9D0, 0xA9F0, 0xAA50, 0xABF0,
      0xFF10, 0x104A0, 0x10D30, 0x11066, 0x110F0, 0x11136, 0x111D0, 0x112F0, 0x11450, 0x114D0,
      0x11650, 0x116C0, 0x11730, 0x118E0, 0x11950, 0x11C50, 0x11D50, 0x11DA0, 0x11F50, 0x16A60,
      0x16AC0, 0x16B50, 0x1D7CE, 0x1D7D8, 0x1D7E2, 0x1D7EC, 0x1D7F6, 0x1E140, 0x1E2F0, 0x1E4F0,
      0x1E950, 0x1FBF0]"

definition is_digit :: "rune \<Rightarrow> bool" where
  "is_digit r \<longleftrightarrow> (\<exists>s\<in>set nd_starts. s \<le> r \<and> r < s + 10)"

lemma is_digit_ascii: "r < 0x80 \<Longrightarrow> is_digit r \<longleftrightarrow> 0x30 \<le> r \<and> r \<le> 0x39"
  by (auto simp: is_digit_def nd_starts_def)

lemma is_digit_low: "is_digit r \<Longrightarrow> 0x30 \<le> r"
  by (auto simp: is_digit_def nd_starts_def)

end
