(* ===== verification/Platform.thy ===== *)
theory Platform
  imports Utf8
begin

text \<open>
  The primitives of Go's standard library whose results the model takes from the environment, as
  one record that every definition using them is given: the SHA-256 digest, the RE2 regular
  expression engine (does a pattern compile, and \<open>FindAllStringIndex\<close>) and JSON encodings.
  What the code relies on is stated by the predicates \<open>sha256_ok\<close> and \<open>regexp_ok\<close>: a digest
  has 32 bytes, and the matches of a pattern are byte ranges of the text, in order and without
  overlap.  The file also holds \<open>encoding/hex\<close>, which is computed.
\<close>

record platform =
  sha256 :: "string \<Rightarrow> string"
  regexp_compiles :: "string \<Rightarrow> bool"
  regexp_find_all :: "string \<Rightarrow> string \<Rightarrow> (nat \<times> nat) list"

definition sha256_size :: nat where
  "sha256_size = 32"

definition sha256_ok :: "platform \<Rightarrow> bool" where
  "sha256_ok P \<longleftrightarrow> (\<forall>s. length (sha256 P s) = sha256_size)"

definition regexp_ok :: "platform \<Rightarrow> bool" where
  "regexp_ok P \<longleftrightarrow>
     (\<forall>re s. (\<forall>(i, j)\<in>set (regexp_find_all P re s). i \<le> j \<and> j \<le> length s) \<and>
             sorted_wrt (\<lambda>(i, j) (k, l). j \<le> k) (regexp_find_all P re s))"

section \<open>Hexadecimal encoding\<close>

definition hex_digit :: "nat \<Rightarrow> char" where
  "hex_digit n = of_byte (if n < 10 then 0x30 + n else 0x61 + (n - 10))"

definition hex_value :: "char \<Rightarrow> nat option" where
  "hex_value c =
     (let b = byte c in
      if in_range 0x30 0x39 b then Some (b - 0x30)
      else if in_range 0x61 0x66 b then Some (b - 0x61 + 10)
      else if in_range 0x41 0x46 b then Some (b - 0x41 + 10)
      else None)"

fun hex_encode :: "string \<Rightarrow> string" where
  "hex_encode [] = []"
| "hex_encode (c # cs) = hex_digit (byte c div 16) # hex_digit (byte c mod 16) # hex_encode cs"

fun hex_decode :: "string \<Rightarrow> string option" where
  "hex_decode [] = Some []"
| "hex_decode [_] = None"
| "hex_decode (a # b # cs) =
     (case (hex_value a, hex_value b) of
        (Some x, Some y) \<Rightarrow> map_option ((#) (of_byte (16 * x + y))) (hex_decode cs)
      | _ \<Rightarrow> None)"

lemma byte_less [simp]: "byte c < 256"
  by (simp add: byte_def)

lemma hex_value_digit: "n < 16 \<Longrightarrow> hex_value (hex_digit n) = Some n"
  by (simp add: hex_value_def hex_digit_def byte_of_byte in_range_def)

lemma hex_decode_encode [simp]: "hex_decode (hex_encode s) = Some s"
proof (induction s)
  case (Cons c s)
  have "byte c div 16 < 16" using byte_less [of c] by linarith
  with Cons show ?case by (simp add: hex_value_digit)
qed simp

lemma hex_encode_inject: "hex_encode s = hex_encode t \<Longrightarrow> s = t"
  by (metis hex_decode_encode option.inject)

lemma length_hex_encode [simp]: "length (hex_encode s) = 2 * length s"
  by (induction s) auto

section \<open>A concrete environment\<close>

text \<open>An environment with computable parts, at which hypotheses about the platform are checked:
  a pattern matches where the text starts with it, and a digest is 32 copies of one byte that
  depends on the length of the text.\<close>

definition sample_platform :: platform where
  "sample_platform =
     \<lparr>sha256 = (\<lambda>s. replicate 32 (of_byte (length s mod 256))),
      regexp_compiles = (\<lambda>re. True),
      regexp_find_all = (\<lambda>re s. if re \<noteq> [] \<and> has_prefix re s then [(0, length re)] else [])\<rparr>"

lemma sample_platform_simps [simp]:
  "regexp_find_all sample_platform re s = (if re \<noteq> [] \<and> has_prefix re s then [(0, length re)] else [])"
  "regexp_compiles sample_platform re"
  "sha256 sample_platform s = replicate 32 (of_byte (length s mod 256))"
  by (simp_all add: sample_platform_def)

lemma sample_sha256_ok [simp]: "sha256_ok sample_platform"
  by (simp add: sha256_ok_def sha256_size_def)

lemma sample_regexp_ok [simp]: "regexp_ok sample_platform"
proof -
  have "length re \<le> length s" if "take (length re) s = re" for re s :: string
    using that by (metis length_take min.cobounded1)
  then show ?thesis by (auto simp: regexp_ok_def)
qed

end
