(* ===== verification/Detection.thy ===== *)
theory Detection
  imports Platform
begin

text \<open>
  \<open>internal/contexts/detection/domain\<close>: detector definitions, their compilation into regular
  expression detectors with an optional validator, the Luhn check, matching, and the registry.
  The pattern engine is the parameter \<open>P\<close> of the operations.
\<close>

section \<open>Types (types.go)\<close>

type_synonym Kind = string
type_synonym Direction = string

definition KindRegex :: Kind where [kg_consts]: "KindRegex = ''regex''"
definition KindEmail :: Kind where [kg_consts]: "KindEmail = ''email''"
definition KindPhone :: Kind where [kg_consts]: "KindPhone = ''phone''"
definition KindPaymentCard :: Kind where [kg_consts]: "KindPaymentCard = ''payment_card''"
definition KindSecret :: Kind where [kg_consts]: "KindSecret = ''secret''"

definition DirectionInput :: Direction where [kg_consts]: "DirectionInput = ''input''"
definition DirectionOutput :: Direction where [kg_consts]: "DirectionOutput = ''output''"

lemma kind_distinct [simp]:
  "KindRegex \<noteq> KindEmail" "KindRegex \<noteq> KindPhone" "KindRegex \<noteq> KindPaymentCard" "KindRegex \<noteq> KindSecret"
  "KindEmail \<noteq> KindRegex" "KindEmail \<noteq> KindPhone" "KindEmail \<noteq> KindPaymentCard" "KindEmail \<noteq> KindSecret"
  "KindPhone \<noteq> KindRegex" "KindPhone \<noteq> KindEmail" "KindPhone \<noteq> KindPaymentCard" "KindPhone \<noteq> KindSecret"
  "KindPaymentCard \<noteq> KindRegex" "KindPaymentCard \<noteq> KindEmail" "KindPaymentCard \<noteq> KindPhone" "KindPaymentCard \<noteq> KindSecret"
  "KindSecret \<noteq> KindRegex" "KindSecret \<noteq> KindEmail" "KindSecret \<noteq> KindPhone" "KindSecret \<noteq> KindPaymentCard"
  by (simp_all add: kg_consts)

lemma direction_distinct [simp]:
  "DirectionInput \<noteq> DirectionOutput" "DirectionOutput \<noteq> DirectionInput"
  "DirectionInput \<noteq> []" "DirectionOutput \<noteq> []"
  by (simp_all add: kg_consts)

record Definition =
  def_Key :: string
  def_Kind :: Kind
  def_Pattern :: string
  def_Categories :: "string list"

record Input =
  in_Direction :: Direction
  in_Text :: string

record Finding =
  fnd_DetectorKey :: string
  fnd_Category :: string
  fnd_Start :: int
  fnd_End :: int
  fnd_ValueHash :: string

section \<open>The Luhn check (luhn.go)\<close>

definition luhn_digits :: "string \<Rightarrow> int list" where
  "luhn_digits v = map (\<lambda>r. int r - 48) (filter is_digit (runes_of_string v))"

text \<open>The loop from the last digit to the first, over the reversed digits.\<close>

fun luhn_loop :: "int list \<Rightarrow> int \<Rightarrow> bool \<Rightarrow> int" where
  "luhn_loop [] acc dbl = acc"
| "luhn_loop (digit # ds) acc dbl =
     (let digit' = (if dbl then (let d = digit * 2 in if d > 9 then d - 9 else d) else digit)
      in luhn_loop ds (acc + digit') (\<not> dbl))"

definition validLuhn :: "string \<Rightarrow> bool" where
  "validLuhn v =
     (let digits = luhn_digits v in
      if length digits < 13 \<or> length digits > 19 then False
      else luhn_loop (rev digits) 0 False mod 10 = 0)"

section \<open>Patterns and compilation (pii.go, regex.go)\<close>

text \<open>HOL's string literals have no backslash, so the sources of the built-in patterns are written
  with a tilde, which none of them contains, in its place.\<close>

definition re_source :: "string \<Rightarrow> string" where
  "re_source s = map (\<lambda>c. if c = CHR ''~'' then CHR 0x5C else c) s"

definition emailPattern :: string where
  "emailPattern = re_source ''(?i)~b[a-z0-9._%+~-]+@[a-z0-9.~-]+~.[a-z]{2,}~b''"
definition phonePattern :: string where
  "phonePattern = re_source
     ''(?i)~b(?:~+?~d{1,3}[~s.-]?)?(?:~(?~d{3}~)?[~s.-]?)~d{3}[~s.-]?~d{4}~b''"
definition paymentCardPattern :: string where
  "paymentCardPattern = re_source ''~b(?:~d[ -]?){13,19}~b''"
definition secretPattern :: string where
  "secretPattern = re_source
     ''(?i)~b(?:sk|pk|api|token|secret)[-_][a-z0-9][a-z0-9_-]{16,}~b''"

definition defaultRegexCategory :: string where
  "defaultRegexCategory = ''custom.regex''"

datatype detector_error =
    DetectorKeyRequired
  | DetectorPatternRequired string
  | UnknownDetectorKind string Kind
  | DetectorPatternInvalid string

record regexDetector =
  rd_key :: string
  rd_re :: string
  rd_categories :: "string list"
  rd_validator :: "(string \<Rightarrow> bool) option"

definition normalizeCategories :: "string list \<Rightarrow> string \<Rightarrow> string list" where
  "normalizeCategories categories fallback =
     (if categories = [] then [fallback]
      else let normalized = filter (\<lambda>c. c \<noteq> []) categories
           in if normalized = [] then [fallback] else normalized)"

type_synonym normalized = "string \<times> string list \<times> (string \<Rightarrow> bool) option"

definition customPattern :: "string \<Rightarrow> string \<Rightarrow> string list \<Rightarrow> string \<Rightarrow> detector_error + normalized" where
  "customPattern key pattern categories fallbackCategory =
     (if pattern = [] then Inl (DetectorPatternRequired key)
      else Inr (pattern, normalizeCategories categories fallbackCategory, None))"

definition builtInPattern ::
  "string \<Rightarrow> string list \<Rightarrow> string \<Rightarrow> string \<Rightarrow> (string \<Rightarrow> bool) option \<Rightarrow> detector_error + normalized" where
  "builtInPattern pattern categories fallbackPattern fallbackCategory validator =
     Inr (if pattern = [] then fallbackPattern else pattern,
          normalizeCategories categories fallbackCategory, validator)"

definition normalizeDefinition :: "Definition \<Rightarrow> detector_error + normalized" where
  "normalizeDefinition d =
     (if def_Kind d = KindRegex then
        customPattern (def_Key d) (def_Pattern d) (def_Categories d) defaultRegexCategory
      else if def_Kind d = KindEmail then
        builtInPattern (def_Pattern d) (def_Categories d) emailPattern ''pii.email'' None
      else if def_Kind d = KindPhone then
        builtInPattern (def_Pattern d) (def_Categories d) phonePattern ''pii.phone'' None
      else if def_Kind d = KindPaymentCard then
        builtInPattern (def_Pattern d) (def_Categories d) paymentCardPattern ''pii.payment_card'' (Some validLuhn)
      else if def_Kind d = KindSecret then
        builtInPattern (def_Pattern d) (def_Categories d) secretPattern ''secret.token'' None
      else Inl (UnknownDetectorKind (def_Key d) (def_Kind d)))"

definition Compile :: "platform \<Rightarrow> Definition \<Rightarrow> detector_error + regexDetector" where
  "Compile P d =
     (if def_Key d = [] then Inl DetectorKeyRequired
      else case normalizeDefinition d of
        Inl e \<Rightarrow> Inl e
      | Inr (pattern, categories, validator) \<Rightarrow>
          if \<not> regexp_compiles P pattern then Inl (DetectorPatternInvalid (def_Key d))
          else Inr \<lparr>rd_key = def_Key d, rd_re = pattern, rd_categories = categories, rd_validator = validator\<rparr>)"

section \<open>Matching and the registry (regex.go, types.go)\<close>

definition hashValue :: "platform \<Rightarrow> string \<Rightarrow> string" where
  "hashValue P v = hex_encode (sha256 P v)"

definition accepts :: "regexDetector \<Rightarrow> string \<Rightarrow> bool" where
  "accepts d v = (case rd_validator d of None \<Rightarrow> True | Some f \<Rightarrow> f v)"

definition findings_at :: "platform \<Rightarrow> regexDetector \<Rightarrow> string \<Rightarrow> nat \<times> nat \<Rightarrow> Finding list" where
  "findings_at P d text ij =
     (let v = substr text (fst ij) (snd ij) in
      if \<not> accepts d v then []
      else map (\<lambda>category. \<lparr>fnd_DetectorKey = rd_key d, fnd_Category = category,
                  fnd_Start = int (fst ij), fnd_End = int (snd ij), fnd_ValueHash = hashValue P v\<rparr>)
             (rd_categories d))"

definition Match :: "platform \<Rightarrow> regexDetector \<Rightarrow> Input \<Rightarrow> Finding list" where
  "Match P d inp =
     (if in_Text inp = [] then []
      else concat (map (findings_at P d (in_Text inp)) (regexp_find_all P (rd_re d) (in_Text inp))))"

type_synonym Registry = "regexDetector list"

fun CompileAll :: "platform \<Rightarrow> Definition list \<Rightarrow> detector_error + Registry" where
  "CompileAll P [] = Inr []"
| "CompileAll P (d # ds) =
     (case Compile P d of
        Inl e \<Rightarrow> Inl e
      | Inr det \<Rightarrow> (case CompileAll P ds of Inl e \<Rightarrow> Inl e | Inr dets \<Rightarrow> Inr (det # dets)))"

definition Registry_Match :: "platform \<Rightarrow> Registry \<Rightarrow> Input \<Rightarrow> Finding list" where
  "Registry_Match P r inp = concat (map (\<lambda>d. Match P d inp) r)"

section \<open>Compiled detectors\<close>

lemma normalizeCategories_nonempty:
  "fallback \<noteq> [] \<Longrightarrow> normalizeCategories cs fallback \<noteq> [] \<and> [] \<notin> set (normalizeCategories cs fallback)"
  by (auto simp: normalizeCategories_def Let_def)

lemma Compile_Inr:
  assumes "Compile P d = Inr r"
  shows "rd_key r = def_Key d" "def_Key d \<noteq> []" "regexp_compiles P (rd_re r)"
    "rd_categories r \<noteq> []" "[] \<notin> set (rd_categories r)"
    "rd_validator r = (if def_Kind d = KindPaymentCard then Some validLuhn else None)"
    "def_Pattern d \<noteq> [] \<Longrightarrow> rd_re r = def_Pattern d"
  using assms
  by (auto simp: Compile_def normalizeDefinition_def customPattern_def builtInPattern_def
      defaultRegexCategory_def normalizeCategories_nonempty split: if_splits)

text \<open>The definitions that do not compile, error by error.\<close>

lemma Compile_Inl:
  "Compile P d = Inl DetectorKeyRequired \<longleftrightarrow> def_Key d = []"
  "Compile P d = Inl (DetectorPatternRequired k) \<longleftrightarrow>
     k = def_Key d \<and> def_Key d \<noteq> [] \<and> def_Kind d = KindRegex \<and> def_Pattern d = []"
  "Compile P d = Inl (UnknownDetectorKind k t) \<longleftrightarrow>
     k = def_Key d \<and> t = def_Kind d \<and> def_Key d \<noteq> [] \<and>
     def_Kind d \<notin> {KindRegex, KindEmail, KindPhone, KindPaymentCard, KindSecret}"
  by (auto simp: Compile_def normalizeDefinition_def customPattern_def builtInPattern_def)

lemma regexp_ok_bounds:
  "regexp_ok P \<Longrightarrow> (i, j) \<in> set (regexp_find_all P re s) \<Longrightarrow> i \<le> j \<and> j \<le> length s"
  by (fastforce simp: regexp_ok_def)

lemma Match_iff:
  "f \<in> set (Match P d inp) \<longleftrightarrow>
     in_Text inp \<noteq> [] \<and>
     (\<exists>ij\<in>set (regexp_find_all P (rd_re d) (in_Text inp)). \<exists>c\<in>set (rd_categories d).
        accepts d (substr (in_Text inp) (fst ij) (snd ij)) \<and>
        f = \<lparr>fnd_DetectorKey = rd_key d, fnd_Category = c, fnd_Start = int (fst ij),
             fnd_End = int (snd ij), fnd_ValueHash = hashValue P (substr (in_Text inp) (fst ij) (snd ij))\<rparr>)"
  by (auto simp: Match_def findings_at_def Let_def)

lemma CompileAll_Inr:
  "CompileAll P ds = Inr reg \<Longrightarrow> list_all2 (\<lambda>d r. Compile P d = Inr r) ds reg"
  by (induction ds arbitrary: reg) (auto split: sum.splits)

lemma CompileAll_mem:
  "CompileAll P ds = Inr reg \<Longrightarrow> r \<in> set reg \<Longrightarrow> \<exists>d\<in>set ds. Compile P d = Inr r"
  by (drule CompileAll_Inr) (fastforce simp: list_all2_conv_all_nth in_set_conv_nth)

section \<open>The Luhn sum\<close>

definition luhn_weight :: "bool \<Rightarrow> int \<Rightarrow> int" where
  "luhn_weight dbl d = (if dbl then (if d * 2 > 9 then d * 2 - 9 else d * 2) else d)"

fun luhn_total :: "bool \<Rightarrow> int list \<Rightarrow> int" where
  "luhn_total dbl [] = 0"
| "luhn_total dbl (d # ds) = luhn_weight dbl d + luhn_total (\<not> dbl) ds"

lemma luhn_loop_total: "luhn_loop ds acc dbl = acc + luhn_total dbl ds"
  by (induction ds acc dbl rule: luhn_loop.induct) (simp_all add: luhn_weight_def Let_def)

fun flip_by :: "bool \<Rightarrow> nat \<Rightarrow> bool" where
  "flip_by dbl 0 = dbl"
| "flip_by dbl (Suc n) = flip_by (\<not> dbl) n"

lemma flip_by_odd: "flip_by dbl n = (dbl \<noteq> odd n)"
  by (induction n arbitrary: dbl) auto

lemma luhn_total_append:
  "luhn_total dbl (xs @ ys) = luhn_total dbl xs + luhn_total (flip_by dbl (length xs)) ys"
  by (induction xs arbitrary: dbl) auto

abbreviation decimal :: "int \<Rightarrow> bool" where
  "decimal d \<equiv> 0 \<le> d \<and> d \<le> 9"

lemma luhn_weight_bounds: "decimal d \<Longrightarrow> decimal (luhn_weight dbl d)"
  by (auto simp: luhn_weight_def)

lemma luhn_weight_inj: "decimal d \<Longrightarrow> decimal e \<Longrightarrow> luhn_weight dbl d = luhn_weight dbl e \<Longrightarrow> d = e"
  by (auto simp: luhn_weight_def split: if_splits; presburger)

lemma mod_ten_cancel:
  fixes a b :: int
  assumes "decimal a" "decimal b" "(x + a) mod 10 = 0" "(x + b) mod 10 = 0"
  shows "a = b"
proof -
  have "(a - b) mod 10 = 0" using assms(3,4) by presburger
  with assms(1,2) show ?thesis by presburger
qed

lemma mod_ten_diff: "((x::int) + a) mod 10 = 0 \<Longrightarrow> (x + b) mod 10 = 0 \<Longrightarrow> (a - b) mod 10 = 0"
  by presburger

lemma luhn_digits_nonneg: "d \<in> set (luhn_digits v) \<Longrightarrow> 0 \<le> d"
  using is_digit_low by (fastforce simp: luhn_digits_def)

lemma validLuhn_total:
  "validLuhn v \<longleftrightarrow> 13 \<le> length (luhn_digits v) \<and> length (luhn_digits v) \<le> 19 \<and>
     luhn_total False (rev (luhn_digits v)) mod 10 = 0"
  by (auto simp: validLuhn_def luhn_loop_total Let_def)

lemma luhn_total_around:
  "luhn_total False (rev (xs @ d # ys)) =
     luhn_total False (rev ys) + luhn_weight (odd (length ys)) d + luhn_total (even (length ys)) (rev xs)"
  by (simp add: luhn_total_append flip_by_odd)

text \<open>What doubling adds to a digit; it determines the digit but for 0 and 9.\<close>

definition luhn_gain :: "int \<Rightarrow> int" where
  "luhn_gain d = luhn_weight True d - luhn_weight False d"

lemma luhn_gain_bounds: "decimal d \<Longrightarrow> - 4 \<le> luhn_gain d \<and> luhn_gain d \<le> 4"
  by (auto simp: luhn_gain_def luhn_weight_def)

lemma luhn_gain_inj:
  "decimal a \<Longrightarrow> decimal b \<Longrightarrow> luhn_gain a = luhn_gain b \<Longrightarrow> a = b \<or> {a, b} = {0, 9}"
  by (auto simp: luhn_gain_def luhn_weight_def doubleton_eq_iff split: if_splits)

lemma luhn_weight_swap:
  assumes "decimal a" "decimal b" "a \<noteq> b" "{a, b} \<noteq> {0, 9}"
  shows "(luhn_weight (\<not> dbl) a + luhn_weight dbl b - luhn_weight (\<not> dbl) b - luhn_weight dbl a) mod 10 \<noteq> 0"
proof -
  have "(x - y) mod 10 \<noteq> 0" if "x \<noteq> y" "- 4 \<le> x \<and> x \<le> 4" "- 4 \<le> y \<and> y \<le> 4" for x y :: int
    using that by presburger
  from this [of "luhn_gain a" "luhn_gain b"] this [of "luhn_gain b" "luhn_gain a"] show ?thesis
    using luhn_gain_inj [OF assms(1,2)] luhn_gain_bounds [OF assms(1)] luhn_gain_bounds [OF assms(2)] assms(3,4)
    by (cases dbl) (auto simp: luhn_gain_def algebra_simps)
qed

section \<open>Properties\<close>


text \<open>The Luhn check detects every substitution of a single digit: of two texts whose digits differ
  in exactly one place, at most one passes.\<close>

theorem luhn_detects_substitution:
  assumes "luhn_digits v = xs @ d # ys" "luhn_digits w = xs @ e # ys" "d \<noteq> e" "decimal d" "decimal e"
    and "validLuhn v"
  shows "\<not> validLuhn w"
proof
  assume "validLuhn w"
  let ?x = "luhn_total False (rev ys) + luhn_total (even (length ys)) (rev xs)"
  have "(?x + luhn_weight (odd (length ys)) d) mod 10 = 0" "(?x + luhn_weight (odd (length ys)) e) mod 10 = 0"
    using assms(6) \<open>validLuhn w\<close> unfolding validLuhn_total assms(1,2) luhn_total_around
    by (simp_all add: ac_simps)
  then have "luhn_weight (odd (length ys)) d = luhn_weight (odd (length ys)) e"
    by (rule mod_ten_cancel [OF luhn_weight_bounds [OF assms(4)] luhn_weight_bounds [OF assms(5)]])
  then show False using luhn_weight_inj assms(3,4,5) by blast
qed

text \<open>The Luhn check detects the transposition of two neighbouring digits, unless they are 0 and 9.\<close>

theorem luhn_detects_transposition:
  assumes "luhn_digits v = xs @ a # b # ys" "luhn_digits w = xs @ b # a # ys" "a \<noteq> b" "{a, b} \<noteq> {0, 9}"
    and "decimal a" "decimal b" "validLuhn v"
  shows "\<not> validLuhn w"
proof
  assume "validLuhn w"
  let ?o = "odd (length ys)"
  let ?x = "luhn_total False (rev ys) + luhn_total ?o (rev xs)"
  have around: "luhn_total False (rev (xs @ c # d # ys)) = ?x + (luhn_weight (\<not> ?o) c + luhn_weight ?o d)" for c d
    by (simp add: luhn_total_append flip_by_odd)
  have "(?x + (luhn_weight (\<not> ?o) a + luhn_weight ?o b)) mod 10 = 0"
      "(?x + (luhn_weight (\<not> ?o) b + luhn_weight ?o a)) mod 10 = 0"
    using assms(7) \<open>validLuhn w\<close> unfolding validLuhn_total assms(1,2) around by simp_all
  from mod_ten_diff [OF this]
  have "(luhn_weight (\<not> ?o) a + luhn_weight ?o b - luhn_weight (\<not> ?o) b - luhn_weight ?o a) mod 10 = 0"
    by (simp add: algebra_simps)
  then show False using luhn_weight_swap [OF assms(5,6,3,4), of ?o] by simp
qed

definition sample_definition :: Definition where
  "sample_definition = \<lparr>def_Key = ''d'', def_Kind = KindRegex, def_Pattern = ''ab'', def_Categories = []\<rparr>"

definition sample_detector :: regexDetector where
  "sample_detector = \<lparr>rd_key = ''d'', rd_re = ''ab'', rd_categories = [''custom.regex''], rd_validator = None\<rparr>"

definition sample_input :: Input where
  "sample_input = \<lparr>in_Direction = DirectionInput, in_Text = ''abc''\<rparr>"

lemma sample_compiles: "CompileAll sample_platform [sample_definition] = Inr [sample_detector]"
  by (simp add: Compile_def normalizeDefinition_def customPattern_def normalizeCategories_def
      defaultRegexCategory_def sample_definition_def sample_detector_def)

lemma sample_matches:
  "Registry_Match sample_platform [sample_detector] sample_input =
     [\<lparr>fnd_DetectorKey = ''d'', fnd_Category = ''custom.regex'', fnd_Start = 0, fnd_End = 2,
       fnd_ValueHash = hashValue sample_platform ''ab''\<rparr>]"
  by (simp add: Registry_Match_def Match_def findings_at_def accepts_def sample_detector_def
      sample_input_def substr_def)


lemma luhn_digits_ascii [kg_eval]:
  "list_all (\<lambda>c. byte c < 0x80) v \<Longrightarrow>
     luhn_digits v = map (\<lambda>r. int r - 48) (filter (in_range 0x30 0x39) (map byte v))"
  by (auto simp: luhn_digits_def runes_of_string_ascii list_all_iff in_range_def is_digit_ascii
      intro!: arg_cong [where f = "map _"] filter_cong)

lemma luhn_sample_digits:
  "luhn_digits ''4111 1111 1111 1111'' = [4,1,1,1,1,1,1,1,1,1,1,1,1,1,1] @ 1 # []"
  "luhn_digits ''4111-1111-1111-1112'' = [4,1,1,1,1,1,1,1,1,1,1,1,1,1,1] @ 2 # []"
  "luhn_digits ''1411 1111 1111 1111'' = [] @ 1 # 4 # [1,1,1,1,1,1,1,1,1,1,1,1,1,1]"
  "luhn_digits ''4111 1111 1111 1111'' = [] @ 4 # 1 # [1,1,1,1,1,1,1,1,1,1,1,1,1,1]"
  by (simp_all add: kg_eval byte_def in_range_def)

lemma luhn_sample_valid: "validLuhn ''4111 1111 1111 1111''"
  by (simp add: validLuhn_def luhn_sample_digits(1))

theorem luhn_detects_substitution_witness:
  "validLuhn ''4111 1111 1111 1111'' \<and> \<not> validLuhn ''4111-1111-1111-1112''"
  using luhn_detects_substitution [OF luhn_sample_digits(1,2) _ _ _ luhn_sample_valid] luhn_sample_valid by simp

theorem luhn_detects_transposition_witness:
  "validLuhn ''4111 1111 1111 1111'' \<and> \<not> validLuhn ''1411 1111 1111 1111''"
  using luhn_detects_transposition [OF luhn_sample_digits(4,3) _ _ _ _ luhn_sample_valid] luhn_sample_valid
  by (simp add: doubleton_eq_iff)

end
