(* ===== verification/Policy.thy ===== *)
theory Policy
  imports Detection
begin

text \<open>
  \<open>internal/contexts/policy/domain\<close>: bundles of detectors and rules, their compilation into an
  immutable snapshot (validation, detector resolution, the scope index, the canonical hash) and the
  evaluation of a request against a snapshot.  The JSON encoding of the canonical bundles is the
  parameter \<open>marshal\<close> (\<open>None\<close> for an encoding error).  \<open>sort.Slice\<close> is not stable; the
  model sorts by the same keys, and the hash theorem needs those keys to be distinct.
\<close>

section \<open>Types (types.go)\<close>

type_synonym Action = string
type_synonym Severity = string
type_synonym Source = string

definition ActionAllow :: Action where [kg_consts]: "ActionAllow = ''allow''"
definition ActionBlock :: Action where [kg_consts]: "ActionBlock = ''block''"
definition ActionRedact :: Action where [kg_consts]: "ActionRedact = ''redact''"
definition ActionShadowLog :: Action where [kg_consts]: "ActionShadowLog = ''shadow_log''"

definition SeverityLow :: Severity where [kg_consts]: "SeverityLow = ''low''"
definition SeverityMedium :: Severity where [kg_consts]: "SeverityMedium = ''medium''"
definition SeverityHigh :: Severity where [kg_consts]: "SeverityHigh = ''high''"
definition SeverityCritical :: Severity where [kg_consts]: "SeverityCritical = ''critical''"

definition SourceBuiltIn :: Source where [kg_consts]: "SourceBuiltIn = ''built_in''"
definition SourceUser :: Source where [kg_consts]: "SourceUser = ''user''"
definition SourceImported :: Source where [kg_consts]: "SourceImported = ''imported''"

lemma action_distinct [simp]:
  "ActionAllow \<noteq> ActionBlock" "ActionAllow \<noteq> ActionRedact" "ActionAllow \<noteq> ActionShadowLog"
  "ActionBlock \<noteq> ActionAllow" "ActionBlock \<noteq> ActionRedact" "ActionBlock \<noteq> ActionShadowLog"
  "ActionRedact \<noteq> ActionAllow" "ActionRedact \<noteq> ActionBlock" "ActionRedact \<noteq> ActionShadowLog"
  "ActionShadowLog \<noteq> ActionAllow" "ActionShadowLog \<noteq> ActionBlock" "ActionShadowLog \<noteq> ActionRedact"
  "ActionAllow \<noteq> []" "ActionBlock \<noteq> []" "ActionRedact \<noteq> []" "ActionShadowLog \<noteq> []"
  by (simp_all add: kg_consts)

record Scope =
  sc_RouteKey :: string
  sc_Provider :: string
  sc_Model :: string
  sc_Direction :: Direction

record Rule =
  rule_Key :: string
  rule_Enabled :: bool
  rule_Severity :: Severity
  rule_Action :: Action
  rule_DetectorKeys :: "string list"
  rule_Scope :: Scope

record Bundle =
  b_Key :: string
  b_Version :: string
  b_Source :: Source
  b_DefaultAction :: Action
  b_Detectors :: "Definition list"
  b_Rules :: "Rule list"

record ModelSignal =
  ms_SuggestedAction :: Action
  ms_RiskLevel :: string
  ms_Categories :: "string list"
  ms_Confidence :: rat
  ms_FallbackAction :: Action
  ms_FallbackUsed :: bool
  ms_Error :: string

record EvaluationRequest =
  req_RouteKey :: string
  req_Provider :: string
  req_Model :: string
  req_Direction :: Direction
  req_Text :: string
  req_ModelSignal :: ModelSignal

record RuleHit =
  hit_BundleKey :: string
  hit_RuleKey :: string
  hit_Severity :: Severity
  hit_Action :: Action
  hit_Findings :: "Finding list"

record Decision =
  dec_Action :: Action
  dec_DefaultAction :: Action
  dec_RuleHits :: "RuleHit list"
  dec_Findings :: "Finding list"
  dec_ModelSignal :: ModelSignal
  dec_ModelSignalApplied :: bool
  dec_SnapshotHash :: string
  dec_BundleKeys :: "string list"

text \<open>Go's zero values of the two structs.\<close>

definition zero_ModelSignal :: ModelSignal where
  "zero_ModelSignal = \<lparr>ms_SuggestedAction = [], ms_RiskLevel = [], ms_Categories = [], ms_Confidence = 0,
     ms_FallbackAction = [], ms_FallbackUsed = False, ms_Error = []\<rparr>"

definition zero_Decision :: Decision where
  "zero_Decision = \<lparr>dec_Action = [], dec_DefaultAction = [], dec_RuleHits = [], dec_Findings = [],
     dec_ModelSignal = zero_ModelSignal, dec_ModelSignalApplied = False, dec_SnapshotHash = [],
     dec_BundleKeys = []\<rparr>"

section \<open>Compiled state (snapshot.go)\<close>

record compiledDetector =
  cd_cacheKey :: string
  cd_detector :: regexDetector

record compiledRule =
  cr_bundleKey :: string
  cr_key :: string
  cr_severity :: Severity
  cr_action :: Action
  cr_scope :: Scope
  cr_detectors :: "compiledDetector list"

type_synonym scopeIndex = Scope

record Snapshot =
  snap_hash :: string
  snap_bundleKeys :: "string list"
  snap_defaultAction :: Action
  snap_rules :: "compiledRule list"
  snap_rulesByScope :: "scopeIndex \<rightharpoonup> compiledRule list"

datatype compile_error =
    BundleKeyRequired nat
  | BundleDefaultActionInvalid string Action
  | BundleDetectorInvalid string string detector_error
  | RuleKeyRequired string
  | RuleActionInvalid string string Action
  | RuleDetectorMissing string string string
  | MarshalFailed

section \<open>Action priorities\<close>

definition actionPriorities :: "Action \<rightharpoonup> int" where
  "actionPriorities = [ActionAllow \<mapsto> 0, ActionShadowLog \<mapsto> 1, ActionRedact \<mapsto> 2, ActionBlock \<mapsto> 3]"

definition validAction :: "Action \<Rightarrow> bool" where
  "validAction a = (actionPriorities a \<noteq> None)"

definition actionPriority :: "Action \<Rightarrow> int" where
  "actionPriority a = (case actionPriorities a of None \<Rightarrow> 0 | Some p \<Rightarrow> p)"

definition higherPriority :: "Action \<Rightarrow> Action \<Rightarrow> Action" where
  "higherPriority left right = (if actionPriority right > actionPriority left then right else left)"

section \<open>Canonical form and hash\<close>

definition sortedStrings :: "string list \<Rightarrow> string list" where
  "sortedStrings vs = (if vs = [] then [] else sort vs)"

definition canonicalDetectors :: "Definition list \<Rightarrow> Definition list" where
  "canonicalDetectors defs =
     sort_key (\<lambda>d. (def_Key d, def_Kind d, def_Pattern d))
       (map (\<lambda>d. d\<lparr>def_Categories := sortedStrings (def_Categories d)\<rparr>) defs)"

definition canonicalRules :: "Rule list \<Rightarrow> Rule list" where
  "canonicalRules rules =
     sort_key (\<lambda>r. (rule_Key r, rule_Action r, rule_Severity r))
       (map (\<lambda>r. r\<lparr>rule_DetectorKeys := sortedStrings (rule_DetectorKeys r)\<rparr>) rules)"

definition canonicalBundle :: "Bundle \<Rightarrow> Bundle" where
  "canonicalBundle b =
     b\<lparr>b_Detectors := canonicalDetectors (b_Detectors b), b_Rules := canonicalRules (b_Rules b)\<rparr>"

definition canonicalBundles :: "Bundle list \<Rightarrow> Bundle list" where
  "canonicalBundles bs = sort_key (\<lambda>b. (b_Key b, b_Version b)) (map canonicalBundle bs)"

definition hashBundles :: "platform \<Rightarrow> (Bundle list \<Rightarrow> string option) \<Rightarrow> Bundle list \<Rightarrow> compile_error + string" where
  "hashBundles P marshal bs =
     (case marshal (canonicalBundles bs) of
        None \<Rightarrow> Inl MarshalFailed
      | Some encoded \<Rightarrow> Inr (hex_encode (sha256 P encoded)))"

section \<open>Compilation\<close>

fun compile_detectors ::
  "platform \<Rightarrow> string \<Rightarrow> Definition list \<Rightarrow> (string \<rightharpoonup> compiledDetector) \<Rightarrow>
     compile_error + (string \<rightharpoonup> compiledDetector)" where
  "compile_detectors P key [] m = Inr m"
| "compile_detectors P key (d # ds) m =
     (case Compile P d of
        Inl e \<Rightarrow> Inl (BundleDetectorInvalid key (def_Key d) e)
      | Inr det \<Rightarrow>
          compile_detectors P key ds
            (m(def_Key d \<mapsto> \<lparr>cd_cacheKey = key @ ''/'' @ def_Key d, cd_detector = det\<rparr>)))"

definition compileDetectorMap :: "platform \<Rightarrow> Bundle \<Rightarrow> compile_error + (string \<rightharpoonup> compiledDetector)" where
  "compileDetectorMap P b = compile_detectors P (b_Key b) (b_Detectors b) Map.empty"

fun resolve_detectors ::
  "string \<Rightarrow> string \<Rightarrow> string list \<Rightarrow> (string \<rightharpoonup> compiledDetector) \<Rightarrow> compile_error + compiledDetector list" where
  "resolve_detectors bundleKey ruleKey [] m = Inr []"
| "resolve_detectors bundleKey ruleKey (k # ks) m =
     (case m k of
        None \<Rightarrow> Inl (RuleDetectorMissing bundleKey ruleKey k)
      | Some d \<Rightarrow> map_sum id ((#) d) (resolve_detectors bundleKey ruleKey ks m))"

definition detectorsForRule ::
  "string \<Rightarrow> Rule \<Rightarrow> (string \<rightharpoonup> compiledDetector) \<Rightarrow> compile_error + compiledDetector list" where
  "detectorsForRule bundleKey rule m = resolve_detectors bundleKey (rule_Key rule) (rule_DetectorKeys rule) m"

definition activeRules :: "Rule list \<Rightarrow> Rule list" where
  "activeRules rules = filter rule_Enabled rules"

text \<open>The inner loop: the active rules of one bundle, appended to the rules compiled so far.\<close>

fun compile_rules ::
  "string \<Rightarrow> (string \<rightharpoonup> compiledDetector) \<Rightarrow> Rule list \<Rightarrow> compiledRule list \<Rightarrow> compile_error + compiledRule list" where
  "compile_rules key m [] acc = Inr acc"
| "compile_rules key m (r # rs) acc =
     (if rule_Key r = [] then Inl (RuleKeyRequired key)
      else if \<not> validAction (rule_Action r) then Inl (RuleActionInvalid key (rule_Key r) (rule_Action r))
      else case detectorsForRule key r m of
        Inl e \<Rightarrow> Inl e
      | Inr ds \<Rightarrow>
          compile_rules key m rs (acc @ [\<lparr>cr_bundleKey = key, cr_key = rule_Key r, cr_severity = rule_Severity r,
            cr_action = rule_Action r, cr_scope = rule_Scope r, cr_detectors = ds\<rparr>]))"

record compile_state =
  cs_activeBundles :: "Bundle list"
  cs_compiledRules :: "compiledRule list"
  cs_bundleKeys :: "string list"
  cs_defaultAction :: Action

definition compile_bundle :: "platform \<Rightarrow> nat \<Rightarrow> Bundle \<Rightarrow> compile_state \<Rightarrow> compile_error + compile_state" where
  "compile_bundle P i b st =
     (if b_Key b = [] then Inl (BundleKeyRequired i)
      else if \<not> validAction (b_DefaultAction b)
      then Inl (BundleDefaultActionInvalid (b_Key b) (b_DefaultAction b))
      else case compileDetectorMap P b of
        Inl e \<Rightarrow> Inl e
      | Inr m \<Rightarrow>
          (let active = b\<lparr>b_Rules := activeRules (b_Rules b)\<rparr> in
           case compile_rules (b_Key b) m (b_Rules active) (cs_compiledRules st) of
             Inl e \<Rightarrow> Inl e
           | Inr rules \<Rightarrow>
               Inr \<lparr>cs_activeBundles = cs_activeBundles st @ [active], cs_compiledRules = rules,
                    cs_bundleKeys = cs_bundleKeys st @ [b_Key b],
                    cs_defaultAction = higherPriority (cs_defaultAction st) (b_DefaultAction b)\<rparr>))"

fun compile_bundles :: "platform \<Rightarrow> nat \<Rightarrow> Bundle list \<Rightarrow> compile_state \<Rightarrow> compile_error + compile_state" where
  "compile_bundles P i [] st = Inr st"
| "compile_bundles P i (b # bs) st =
     (case compile_bundle P i b st of
        Inl e \<Rightarrow> Inl e
      | Inr st' \<Rightarrow> compile_bundles P (Suc i) bs st')"

definition indexRules :: "compiledRule list \<Rightarrow> (scopeIndex \<rightharpoonup> compiledRule list)" where
  "indexRules rules =
     fold (\<lambda>r m. m(cr_scope r \<mapsto> (case m (cr_scope r) of None \<Rightarrow> [] | Some rs \<Rightarrow> rs) @ [r])) rules Map.empty"

definition init_compile :: compile_state where
  "init_compile = \<lparr>cs_activeBundles = [], cs_compiledRules = [], cs_bundleKeys = [], cs_defaultAction = ActionAllow\<rparr>"

definition CompileSnapshot :: "platform \<Rightarrow> (Bundle list \<Rightarrow> string option) \<Rightarrow> Bundle list \<Rightarrow> compile_error + Snapshot" where
  "CompileSnapshot P marshal bundles =
     (case compile_bundles P 0 bundles init_compile of
        Inl e \<Rightarrow> Inl e
      | Inr st \<Rightarrow>
          (case hashBundles P marshal (cs_activeBundles st) of
             Inl e \<Rightarrow> Inl e
           | Inr h \<Rightarrow>
               Inr \<lparr>snap_hash = h, snap_bundleKeys = cs_bundleKeys st, snap_defaultAction = cs_defaultAction st,
                    snap_rules = cs_compiledRules st, snap_rulesByScope = indexRules (cs_compiledRules st)\<rparr>))"

section \<open>Evaluation\<close>

definition stringScopeValues :: "string \<Rightarrow> string list" where
  "stringScopeValues v = (if v = [] then [[]] else [v, []])"

definition directionScopeValues :: "Direction \<Rightarrow> Direction list" where
  "directionScopeValues v = (if v = [] then [[]] else [v, []])"

definition scope_keys :: "EvaluationRequest \<Rightarrow> scopeIndex list" where
  "scope_keys req =
     concat (map (\<lambda>route. concat (map (\<lambda>prov. concat (map (\<lambda>model.
       map (\<lambda>dir. \<lparr>sc_RouteKey = route, sc_Provider = prov, sc_Model = model, sc_Direction = dir\<rparr>)
         (directionScopeValues (req_Direction req)))
       (stringScopeValues (req_Model req))))
       (stringScopeValues (req_Provider req))))
       (stringScopeValues (req_RouteKey req)))"

definition candidate_rules :: "Snapshot \<Rightarrow> EvaluationRequest \<Rightarrow> compiledRule list" where
  "candidate_rules s req =
     concat (map (\<lambda>k. case snap_rulesByScope s k of None \<Rightarrow> [] | Some rs \<Rightarrow> rs) (scope_keys req))"

definition forEachCandidateRule ::
  "Snapshot \<Rightarrow> EvaluationRequest \<Rightarrow> (compiledRule \<Rightarrow> 'st \<Rightarrow> 'st) \<Rightarrow> 'st \<Rightarrow> 'st" where
  "forEachCandidateRule s req visit st = fold visit (candidate_rules s req) st"

definition matchesScope :: "Scope \<Rightarrow> EvaluationRequest \<Rightarrow> bool" where
  "matchesScope sc req =
     (if sc_RouteKey sc \<noteq> [] \<and> sc_RouteKey sc \<noteq> req_RouteKey req then False
      else if sc_Provider sc \<noteq> [] \<and> sc_Provider sc \<noteq> req_Provider req then False
      else if sc_Model sc \<noteq> [] \<and> sc_Model sc \<noteq> req_Model req then False
      else if sc_Direction sc \<noteq> [] \<and> sc_Direction sc \<noteq> req_Direction req then False
      else True)"

type_synonym finding_cache = "string \<rightharpoonup> Finding list"

definition cached_match ::
  "platform \<Rightarrow> compiledDetector \<Rightarrow> Input \<Rightarrow> finding_cache \<Rightarrow> Finding list \<times> finding_cache" where
  "cached_match P d inp cache =
     (case cache (cd_cacheKey d) of
        Some fs \<Rightarrow> (fs, cache)
      | None \<Rightarrow> (let fs = Match P (cd_detector d) inp in (fs, cache(cd_cacheKey d \<mapsto> fs))))"

fun match_detectors ::
  "platform \<Rightarrow> compiledDetector list \<Rightarrow> Input \<Rightarrow> finding_cache \<Rightarrow> Finding list \<Rightarrow> Finding list \<times> finding_cache" where
  "match_detectors P [] inp cache acc = (acc, cache)"
| "match_detectors P (d # ds) inp cache acc =
     (let (fs, cache') = cached_match P d inp cache in match_detectors P ds inp cache' (acc @ fs))"

definition matchRule :: "platform \<Rightarrow> compiledRule \<Rightarrow> Input \<Rightarrow> finding_cache \<Rightarrow> Finding list \<times> finding_cache" where
  "matchRule P rule inp cache =
     (case cr_detectors rule of
        [] \<Rightarrow> ([], cache)
      | [d] \<Rightarrow> cached_match P d inp cache
      | ds \<Rightarrow> match_detectors P ds inp cache [])"

record eval_state =
  es_action :: Action
  es_hits :: "RuleHit list"
  es_findings :: "Finding list"
  es_cache :: finding_cache

definition visit_rule :: "platform \<Rightarrow> EvaluationRequest \<Rightarrow> Input \<Rightarrow> compiledRule \<Rightarrow> eval_state \<Rightarrow> eval_state" where
  "visit_rule P req inp rule st =
     (if \<not> matchesScope (cr_scope rule) req then st
      else let (fs, cache') = matchRule P rule inp (es_cache st); st' = st\<lparr>es_cache := cache'\<rparr> in
        if fs = [] then st'
        else st'\<lparr>es_action := higherPriority (es_action st') (cr_action rule),
                 es_hits := es_hits st' @ [\<lparr>hit_BundleKey = cr_bundleKey rule, hit_RuleKey = cr_key rule,
                   hit_Severity = cr_severity rule, hit_Action = cr_action rule, hit_Findings = fs\<rparr>],
                 es_findings := es_findings st' @ fs\<rparr>)"

definition model_action :: "ModelSignal \<Rightarrow> Action" where
  "model_action sig = (if ms_FallbackUsed sig then ms_FallbackAction sig else ms_SuggestedAction sig)"

definition Evaluate :: "platform \<Rightarrow> Snapshot option \<Rightarrow> EvaluationRequest \<Rightarrow> Decision" where
  "Evaluate P snap req =
     (case snap of
        None \<Rightarrow> zero_Decision\<lparr>dec_Action := ActionAllow, dec_DefaultAction := ActionAllow\<rparr>
      | Some s \<Rightarrow>
          (let inp = \<lparr>in_Direction = req_Direction req, in_Text = req_Text req\<rparr>;
               st = forEachCandidateRule s req (visit_rule P req inp)
                      \<lparr>es_action = snap_defaultAction s, es_hits = [], es_findings = [], es_cache = Map.empty\<rparr>;
               modelAction = model_action (req_ModelSignal req);
               applied = (validAction modelAction \<and> actionPriority modelAction > actionPriority (es_action st))
           in \<lparr>dec_Action = (if applied then modelAction else es_action st),
               dec_DefaultAction = snap_defaultAction s, dec_RuleHits = es_hits st,
               dec_Findings = es_findings st, dec_ModelSignal = req_ModelSignal req,
               dec_ModelSignalApplied = applied, dec_SnapshotHash = snap_hash s,
               dec_BundleKeys = snap_bundleKeys s\<rparr>))"

definition Hash :: "Snapshot option \<Rightarrow> string" where
  "Hash snap = (case snap of None \<Rightarrow> [] | Some s \<Rightarrow> snap_hash s)"

end
