(* ===== verification/Policy_Props.thy ===== *)
theory Policy_Props
  imports Policy
begin

text \<open>
  What the policy domain promises: the validity a compiled snapshot has, the scope index as an
  equivalent of scanning every rule, the finding cache as an equivalent of matching every detector,
  the decision as the highest priority among the default, the hits and the model signal, and the
  independence of the hash from the order of the configuration.
\<close>

section \<open>Priorities\<close>

lemma actionPriority_simps [simp]:
  "actionPriority ActionAllow = 0" "actionPriority ActionShadowLog = 1"
  "actionPriority ActionRedact = 2" "actionPriority ActionBlock = 3" "actionPriority [] = 0"
  by (simp_all add: actionPriority_def actionPriorities_def kg_consts)

lemma validAction_iff: "validAction a \<longleftrightarrow> a \<in> {ActionAllow, ActionShadowLog, ActionRedact, ActionBlock}"
  by (auto simp: validAction_def actionPriorities_def)

lemma validAction_simps [simp]:
  "validAction ActionAllow" "validAction ActionShadowLog" "validAction ActionRedact" "validAction ActionBlock"
  "\<not> validAction []"
  by (simp_all add: validAction_iff kg_consts)

lemma actionPriority_bounds: "0 \<le> actionPriority a \<and> actionPriority a \<le> 3"
  by (auto simp: actionPriority_def actionPriorities_def split: option.splits if_splits)

lemma actionPriority_block: "actionPriority a = 3 \<longleftrightarrow> a = ActionBlock"
  by (auto simp: actionPriority_def actionPriorities_def split: option.splits if_splits)

lemma actionPriority_inj: "validAction a \<Longrightarrow> validAction b \<Longrightarrow> actionPriority a = actionPriority b \<Longrightarrow> a = b"
  by (auto simp: validAction_iff)

lemma actionPriority_higher [simp]:
  "actionPriority (higherPriority a b) = max (actionPriority a) (actionPriority b)"
  by (simp add: higherPriority_def max_def)

lemma validAction_higher: "validAction a \<Longrightarrow> validAction b \<Longrightarrow> validAction (higherPriority a b)"
  by (simp add: higherPriority_def)

section \<open>Compiled snapshots are valid\<close>

lemma compile_detectors_Inr:
  assumes "compile_detectors P key ds m = Inr m'" "m' k = Some d"
  shows "m k = Some d \<or>
     (cd_cacheKey d = key @ ''/'' @ k \<and> (\<exists>df\<in>set ds. def_Key df = k \<and> Compile P df = Inr (cd_detector d)))"
  using assms(1)
proof (induction ds arbitrary: m)
  case Nil
  with assms(2) show ?case by simp
next
  case (Cons df ds)
  then obtain det where det: "Compile P df = Inr det"
    and rest: "compile_detectors P key ds
      (m(def_Key df \<mapsto> \<lparr>cd_cacheKey = key @ ''/'' @ def_Key df, cd_detector = det\<rparr>)) = Inr m'"
    by (auto split: sum.splits)
  from Cons.IH [OF rest] det show ?case by (auto split: if_splits)
qed

lemma compileDetectorMap_Inr:
  assumes "compileDetectorMap P b = Inr m" "m k = Some d"
  shows "cd_cacheKey d = b_Key b @ ''/'' @ k"
    and "\<exists>df\<in>set (b_Detectors b). def_Key df = k \<and> Compile P df = Inr (cd_detector d)"
  using compile_detectors_Inr [OF assms(1) [unfolded compileDetectorMap_def] assms(2)] by auto

lemma resolve_detectors_Inr:
  "resolve_detectors bk rk ks m = Inr ds \<Longrightarrow> list_all2 (\<lambda>k d. m k = Some d) ks ds"
  by (induction ks arbitrary: ds) (auto split: option.splits sum.splits simp: map_sum_def)

text \<open>A compiled rule comes from an enabled rule of a bundle, whose detectors it resolves.\<close>

definition rule_from :: "platform \<Rightarrow> Bundle \<Rightarrow> Rule \<Rightarrow> compiledRule \<Rightarrow> bool" where
  "rule_from P b r c \<longleftrightarrow>
     rule_Enabled r \<and> rule_Key r \<noteq> [] \<and> validAction (rule_Action r) \<and>
     cr_bundleKey c = b_Key b \<and> cr_key c = rule_Key r \<and> cr_severity c = rule_Severity r \<and>
     cr_action c = rule_Action r \<and> cr_scope c = rule_Scope r \<and>
     (\<exists>m. compileDetectorMap P b = Inr m \<and> list_all2 (\<lambda>k d. m k = Some d) (rule_DetectorKeys r) (cr_detectors c))"

lemma compile_rules_Inr:
  assumes "compile_rules (b_Key b) m rs acc = Inr rules" "compileDetectorMap P b = Inr m"
    and "\<forall>r\<in>set rs. rule_Enabled r"
  shows "\<exists>cs. rules = acc @ cs \<and> list_all2 (rule_from P b) rs cs"
  using assms(1,3)
proof (induction rs arbitrary: acc)
  case Nil
  then show ?case by simp
next
  case (Cons r rs)
  then obtain ds where ds: "detectorsForRule (b_Key b) r m = Inr ds"
    and r: "rule_Key r \<noteq> []" "validAction (rule_Action r)"
    by (auto split: if_splits sum.splits)
  let ?c = "\<lparr>cr_bundleKey = b_Key b, cr_key = rule_Key r, cr_severity = rule_Severity r,
    cr_action = rule_Action r, cr_scope = rule_Scope r, cr_detectors = ds\<rparr>"
  from Cons.prems ds r have "compile_rules (b_Key b) m rs (acc @ [?c]) = Inr rules" by simp
  with Cons obtain cs where cs: "rules = acc @ ?c # cs" "list_all2 (rule_from P b) rs cs" by fastforce
  have "list_all2 (\<lambda>k d. m k = Some d) (rule_DetectorKeys r) ds"
    using ds by (simp add: detectorsForRule_def resolve_detectors_Inr)
  then have "rule_from P b r ?c" using r Cons.prems(2) assms(2) by (simp add: rule_from_def)
  with cs show ?case by auto
qed

text \<open>The state after the bundles, in terms of the state before them.\<close>

definition bundle_valid :: "Bundle \<Rightarrow> bool" where
  "bundle_valid b \<longleftrightarrow> b_Key b \<noteq> [] \<and> validAction (b_DefaultAction b)"

definition rules_from :: "platform \<Rightarrow> Bundle \<Rightarrow> compiledRule list \<Rightarrow> bool" where
  "rules_from P b cs \<longleftrightarrow> list_all2 (rule_from P b) (activeRules (b_Rules b)) cs"

lemma compile_bundle_Inr:
  assumes "compile_bundle P i b st = Inr st'"
  shows "bundle_valid b" "cs_bundleKeys st' = cs_bundleKeys st @ [b_Key b]"
    "cs_activeBundles st' = cs_activeBundles st @ [b\<lparr>b_Rules := activeRules (b_Rules b)\<rparr>]"
    "cs_defaultAction st' = higherPriority (cs_defaultAction st) (b_DefaultAction b)"
    "\<exists>cs. cs_compiledRules st' = cs_compiledRules st @ cs \<and> rules_from P b cs"
proof -
  obtain m rules where m: "compileDetectorMap P b = Inr m"
    and r: "compile_rules (b_Key b) m (activeRules (b_Rules b)) (cs_compiledRules st) = Inr rules"
    and st': "st' = \<lparr>cs_activeBundles = cs_activeBundles st @ [b\<lparr>b_Rules := activeRules (b_Rules b)\<rparr>],
      cs_compiledRules = rules, cs_bundleKeys = cs_bundleKeys st @ [b_Key b],
      cs_defaultAction = higherPriority (cs_defaultAction st) (b_DefaultAction b)\<rparr>"
    and v: "bundle_valid b"
    using assms by (auto simp: compile_bundle_def bundle_valid_def Let_def split: if_splits sum.splits)
  show "bundle_valid b" by (rule v)
  show "cs_bundleKeys st' = cs_bundleKeys st @ [b_Key b]"
    "cs_activeBundles st' = cs_activeBundles st @ [b\<lparr>b_Rules := activeRules (b_Rules b)\<rparr>]"
    "cs_defaultAction st' = higherPriority (cs_defaultAction st) (b_DefaultAction b)"
    using st' by simp_all
  show "\<exists>cs. cs_compiledRules st' = cs_compiledRules st @ cs \<and> rules_from P b cs"
    using compile_rules_Inr [OF r m] st' by (auto simp: activeRules_def rules_from_def)
qed

lemma compile_bundles_Inr:
  assumes "compile_bundles P i bs st = Inr st'"
  shows "(\<forall>b\<in>set bs. bundle_valid b) \<and>
    cs_bundleKeys st' = cs_bundleKeys st @ map b_Key bs \<and>
    cs_activeBundles st' = cs_activeBundles st @ map (\<lambda>b. b\<lparr>b_Rules := activeRules (b_Rules b)\<rparr>) bs \<and>
    cs_defaultAction st' = fold (\<lambda>b a. higherPriority a (b_DefaultAction b)) bs (cs_defaultAction st) \<and>
    (\<exists>css. cs_compiledRules st' = cs_compiledRules st @ concat css \<and> list_all2 (rules_from P) bs css)"
  using assms
proof (induction bs arbitrary: i st)
  case Nil
  then show ?case by auto
next
  case (Cons b bs)
  then obtain st1 where b: "compile_bundle P i b st = Inr st1"
    and rest: "compile_bundles P (Suc i) bs st1 = Inr st'"
    by (auto split: sum.splits)
  note IH = Cons.IH [OF rest] and head = compile_bundle_Inr [OF b]
  obtain cs where cs: "cs_compiledRules st1 = cs_compiledRules st @ cs" "rules_from P b cs"
    using head(5) by blast
  obtain css where css: "cs_compiledRules st' = cs_compiledRules st1 @ concat css" "list_all2 (rules_from P) bs css"
    using IH by blast
  have "cs_compiledRules st' = cs_compiledRules st @ concat (cs # css) \<and> list_all2 (rules_from P) (b # bs) (cs # css)"
    using cs css by simp
  then have "\<exists>css. cs_compiledRules st' = cs_compiledRules st @ concat css \<and> list_all2 (rules_from P) (b # bs) css"
    by blast
  with IH head(1-4) show ?case by simp
qed

lemma fold_higherPriority:
  "actionPriority (fold (\<lambda>b a. higherPriority a (f b)) bs a0) = Max (insert (actionPriority a0) (actionPriority ` f ` set bs))"
proof (induction bs arbitrary: a0)
  case (Cons b bs)
  have "Max (insert (max x y) S) = Max (insert x (insert y S))" if "finite S" for x y :: int and S
    using that by (cases "S = {}") (simp_all add: max.assoc)
  then show ?case by (simp add: Cons)
qed simp

lemma validAction_fold:
  "validAction a0 \<Longrightarrow> \<forall>b\<in>set bs. validAction (f b) \<Longrightarrow> validAction (fold (\<lambda>b a. higherPriority a (f b)) bs a0)"
  by (induction bs arbitrary: a0) (auto simp: validAction_higher)

lemma CompileSnapshot_Inr:
  assumes "CompileSnapshot P marshal bs = Inr s"
  obtains css where "\<forall>b\<in>set bs. bundle_valid b" "snap_bundleKeys s = map b_Key bs"
    "snap_defaultAction s = fold (\<lambda>b a. higherPriority a (b_DefaultAction b)) bs ActionAllow"
    "snap_rules s = concat css" "list_all2 (rules_from P) bs css"
    "snap_rulesByScope s = indexRules (snap_rules s)"
    "hashBundles P marshal (map (\<lambda>b. b\<lparr>b_Rules := activeRules (b_Rules b)\<rparr>) bs) = Inr (snap_hash s)"
proof -
  obtain st h where st: "compile_bundles P 0 bs init_compile = Inr st"
    and h: "hashBundles P marshal (cs_activeBundles st) = Inr h"
    and s: "s = \<lparr>snap_hash = h, snap_bundleKeys = cs_bundleKeys st, snap_defaultAction = cs_defaultAction st,
      snap_rules = cs_compiledRules st, snap_rulesByScope = indexRules (cs_compiledRules st)\<rparr>"
    using assms by (auto simp: CompileSnapshot_def split: sum.splits)
  from compile_bundles_Inr [OF st] obtain css where
    "(\<forall>b\<in>set bs. bundle_valid b) \<and> cs_bundleKeys st = map b_Key bs \<and>
     cs_activeBundles st = map (\<lambda>b. b\<lparr>b_Rules := activeRules (b_Rules b)\<rparr>) bs \<and>
     cs_defaultAction st = fold (\<lambda>b a. higherPriority a (b_DefaultAction b)) bs ActionAllow \<and>
     cs_compiledRules st = concat css \<and> list_all2 (rules_from P) bs css"
    by (auto simp: init_compile_def)
  with h s that show ?thesis by auto
qed

section \<open>The scope index\<close>

lemma indexRules_append:
  "fold (\<lambda>r m. m(cr_scope r \<mapsto> (case m (cr_scope r) of None \<Rightarrow> [] | Some rs \<Rightarrow> rs) @ [r])) rules m0 k =
     (if filter (\<lambda>r. cr_scope r = k) rules = [] then m0 k
      else Some ((case m0 k of None \<Rightarrow> [] | Some rs \<Rightarrow> rs) @ filter (\<lambda>r. cr_scope r = k) rules))"
  by (induction rules arbitrary: m0) auto

lemma indexRules_lookup:
  "(case indexRules rules k of None \<Rightarrow> [] | Some rs \<Rightarrow> rs) = filter (\<lambda>r. cr_scope r = k) rules"
  by (simp add: indexRules_def indexRules_append)

lemma distinct_scope_values: "distinct (stringScopeValues v)" "distinct (directionScopeValues d)"
  by (simp_all add: stringScopeValues_def directionScopeValues_def)

lemma set_scope_values:
  "x \<in> set (stringScopeValues v) \<longleftrightarrow> x = [] \<or> x = v" "x \<in> set (directionScopeValues v) \<longleftrightarrow> x = [] \<or> x = v"
  by (auto simp: stringScopeValues_def directionScopeValues_def)

lemma distinct_concat_map:
  assumes "distinct xs" "\<And>x. x \<in> set xs \<Longrightarrow> distinct (f x)"
    and "\<And>x y z. z \<in> set (f x) \<Longrightarrow> z \<in> set (f y) \<Longrightarrow> x = y"
  shows "distinct (concat (map f xs))"
  using assms(1,2) by (induction xs) (auto dest: assms(3))

lemma distinct_scope_keys: "distinct (scope_keys req)"
  unfolding scope_keys_def
  by (intro distinct_concat_map distinct_scope_values) (auto simp: distinct_map distinct_scope_values inj_on_def)

lemma scope_keys_iff: "sc \<in> set (scope_keys req) \<longleftrightarrow> matchesScope sc req"
  by (cases sc) (auto simp: scope_keys_def set_scope_values matchesScope_def image_iff)

lemma candidate_rules_index:
  assumes "snap_rulesByScope s = indexRules (snap_rules s)"
  shows "candidate_rules s req = concat (map (\<lambda>k. filter (\<lambda>r. cr_scope r = k) (snap_rules s)) (scope_keys req))"
  by (simp add: candidate_rules_def assms indexRules_lookup)

lemma mset_candidate_rules:
  assumes "snap_rulesByScope s = indexRules (snap_rules s)"
  shows "mset (candidate_rules s req) = mset (filter (\<lambda>r. matchesScope (cr_scope r) req) (snap_rules s))"
  unfolding candidate_rules_index [OF assms] mset_concat_map_filter_distinct [OF distinct_scope_keys]
  by (simp add: scope_keys_iff)

section \<open>The finding cache\<close>

definition rule_findings :: "platform \<Rightarrow> Input \<Rightarrow> compiledRule \<Rightarrow> Finding list" where
  "rule_findings P inp r = concat (map (\<lambda>d. Match P (cd_detector d) inp) (cr_detectors r))"

text \<open>Every cached entry is what the detectors with its key report.\<close>

definition cache_ok :: "platform \<Rightarrow> Input \<Rightarrow> compiledDetector set \<Rightarrow> finding_cache \<Rightarrow> bool" where
  "cache_ok P inp D c \<longleftrightarrow> (\<forall>d\<in>D. \<forall>fs. c (cd_cacheKey d) = Some fs \<longrightarrow> fs = Match P (cd_detector d) inp)"

definition keys_identify :: "compiledDetector set \<Rightarrow> bool" where
  "keys_identify D \<longleftrightarrow> (\<forall>d\<in>D. \<forall>e\<in>D. cd_cacheKey d = cd_cacheKey e \<longrightarrow> cd_detector d = cd_detector e)"

lemma cached_match_ok:
  assumes "keys_identify D" "d \<in> D" "cache_ok P inp D c"
  shows "fst (cached_match P d inp c) = Match P (cd_detector d) inp"
    and "cache_ok P inp D (snd (cached_match P d inp c))"
proof -
  have "fst (cached_match P d inp c) = Match P (cd_detector d) inp \<and> cache_ok P inp D (snd (cached_match P d inp c))"
  proof (cases "c (cd_cacheKey d)")
    case None
    have "cache_ok P inp D (c(cd_cacheKey d \<mapsto> Match P (cd_detector d) inp))"
      unfolding cache_ok_def
    proof (intro ballI allI impI)
      fix e fs
      assume e: "e \<in> D" "(c(cd_cacheKey d \<mapsto> Match P (cd_detector d) inp)) (cd_cacheKey e) = Some fs"
      show "fs = Match P (cd_detector e) inp"
      proof (cases "cd_cacheKey e = cd_cacheKey d")
        case True
        then have "cd_detector e = cd_detector d" using assms(1,2) e(1) unfolding keys_identify_def by blast
        with True e(2) show ?thesis by simp
      next
        case False
        with e assms(3) show ?thesis by (simp add: cache_ok_def)
      qed
    qed
    with None show ?thesis by (simp add: cached_match_def Let_def)
  next
    case (Some fs)
    with assms(2,3) show ?thesis by (simp add: cached_match_def cache_ok_def)
  qed
  then show "fst (cached_match P d inp c) = Match P (cd_detector d) inp"
    and "cache_ok P inp D (snd (cached_match P d inp c))" by simp_all
qed

lemma match_detectors_ok:
  assumes "keys_identify D" "set ds \<subseteq> D" "cache_ok P inp D c"
  shows "fst (match_detectors P ds inp c acc) = acc @ concat (map (\<lambda>d. Match P (cd_detector d) inp) ds) \<and>
    cache_ok P inp D (snd (match_detectors P ds inp c acc))"
  using assms(2,3)
proof (induction ds arbitrary: c acc)
  case (Cons d ds)
  then have "d \<in> D" by simp
  from cached_match_ok [OF assms(1) this Cons.prems(2)] Cons show ?case
    by (simp add: split_beta)
qed simp

lemma matchRule_ok:
  assumes "keys_identify D" "set (cr_detectors r) \<subseteq> D" "cache_ok P inp D c"
  shows "fst (matchRule P r inp c) = rule_findings P inp r"
    and "cache_ok P inp D (snd (matchRule P r inp c))"
  using match_detectors_ok [OF assms, of "[]"] cached_match_ok [OF assms(1) _ assms(3)] assms(2,3)
  by (auto simp: matchRule_def rule_findings_def split: list.splits)

section \<open>The reference evaluation\<close>

text \<open>Without index or cache: the rules that match the scope, and the hits among them.\<close>

definition hit_of :: "platform \<Rightarrow> Input \<Rightarrow> compiledRule \<Rightarrow> RuleHit" where
  "hit_of P inp r = \<lparr>hit_BundleKey = cr_bundleKey r, hit_RuleKey = cr_key r, hit_Severity = cr_severity r,
     hit_Action = cr_action r, hit_Findings = rule_findings P inp r\<rparr>"

definition hits_of :: "platform \<Rightarrow> Input \<Rightarrow> compiledRule list \<Rightarrow> RuleHit list" where
  "hits_of P inp rules = map (hit_of P inp) (filter (\<lambda>r. rule_findings P inp r \<noteq> []) rules)"

definition request_input :: "EvaluationRequest \<Rightarrow> Input" where
  "request_input req = \<lparr>in_Direction = req_Direction req, in_Text = req_Text req\<rparr>"

lemma visit_rules_ok:
  assumes "keys_identify D" "\<forall>r\<in>set rules. set (cr_detectors r) \<subseteq> D \<and> matchesScope (cr_scope r) req"
    and "cache_ok P inp D (es_cache st)"
  shows "\<exists>c. fold (visit_rule P req inp) rules st =
    \<lparr>es_action = fold (\<lambda>h a. higherPriority a (hit_Action h)) (hits_of P inp rules) (es_action st),
     es_hits = es_hits st @ hits_of P inp rules,
     es_findings = es_findings st @ concat (map hit_Findings (hits_of P inp rules)), es_cache = c\<rparr>"
  using assms(2,3)
proof (induction rules arbitrary: st)
  case Nil
  then show ?case by (cases st) (simp add: hits_of_def)
next
  case (Cons r rules)
  obtain fs c' where m: "matchRule P r inp (es_cache st) = (fs, c')" by fastforce
  with matchRule_ok [OF assms(1) _ Cons.prems(2), of r] Cons.prems(1)
  have fs: "fs = rule_findings P inp r" and c': "cache_ok P inp D c'" by auto
  have step: "visit_rule P req inp r st =
    \<lparr>es_action = fold (\<lambda>h a. higherPriority a (hit_Action h)) (hits_of P inp [r]) (es_action st),
     es_hits = es_hits st @ hits_of P inp [r],
     es_findings = es_findings st @ concat (map hit_Findings (hits_of P inp [r])), es_cache = c'\<rparr>"
    using Cons.prems(1) by (simp add: visit_rule_def m Let_def hits_of_def hit_of_def fs)
  have split: "hits_of P inp (r # rules) = hits_of P inp [r] @ hits_of P inp rules"
    by (simp add: hits_of_def)
  have "cache_ok P inp D (es_cache (visit_rule P req inp r st))" using c' by (simp add: step)
  from Cons.IH [OF _ this] Cons.prems(1) show ?case by (simp add: step split)
qed

definition snap_detectors :: "Snapshot \<Rightarrow> compiledDetector set" where
  "snap_detectors s = \<Union> ((\<lambda>r. set (cr_detectors r)) ` set (snap_rules s))"

lemma candidate_rules_set:
  "snap_rulesByScope s = indexRules (snap_rules s) \<Longrightarrow>
     set (candidate_rules s req) = {r \<in> set (snap_rules s). matchesScope (cr_scope r) req}"
  using arg_cong [OF mset_candidate_rules, of s set_mset req] by simp

definition evaluate_ref :: "platform \<Rightarrow> Snapshot \<Rightarrow> EvaluationRequest \<Rightarrow> RuleHit list \<Rightarrow> Decision" where
  "evaluate_ref P s req hits =
     (let action = fold (\<lambda>h a. higherPriority a (hit_Action h)) hits (snap_defaultAction s);
          modelAction = model_action (req_ModelSignal req);
          applied = (validAction modelAction \<and> actionPriority modelAction > actionPriority action)
      in \<lparr>dec_Action = (if applied then modelAction else action), dec_DefaultAction = snap_defaultAction s,
          dec_RuleHits = hits, dec_Findings = concat (map hit_Findings hits),
          dec_ModelSignal = req_ModelSignal req, dec_ModelSignalApplied = applied,
          dec_SnapshotHash = snap_hash s, dec_BundleKeys = snap_bundleKeys s\<rparr>)"

lemma Evaluate_ref:
  assumes "snap_rulesByScope s = indexRules (snap_rules s)" "keys_identify (snap_detectors s)"
  shows "Evaluate P (Some s) req =
    evaluate_ref P s req (hits_of P (request_input req) (candidate_rules s req))"
proof -
  have "\<forall>r\<in>set (candidate_rules s req). set (cr_detectors r) \<subseteq> snap_detectors s \<and> matchesScope (cr_scope r) req"
    by (auto simp: candidate_rules_set [OF assms(1)] snap_detectors_def)
  from visit_rules_ok [OF assms(2) this, where P = P and inp = "request_input req" and
      st = "\<lparr>es_action = snap_defaultAction s, es_hits = [], es_findings = [], es_cache = Map.empty\<rparr>"]
  obtain c where
    "fold (visit_rule P req (request_input req)) (candidate_rules s req)
      \<lparr>es_action = snap_defaultAction s, es_hits = [], es_findings = [], es_cache = Map.empty\<rparr> =
     \<lparr>es_action = fold (\<lambda>h a. higherPriority a (hit_Action h)) (hits_of P (request_input req) (candidate_rules s req)) (snap_defaultAction s),
      es_hits = hits_of P (request_input req) (candidate_rules s req),
      es_findings = concat (map hit_Findings (hits_of P (request_input req) (candidate_rules s req))), es_cache = c\<rparr>"
    by (auto simp: cache_ok_def)
  then show ?thesis
    by (simp add: Evaluate_def evaluate_ref_def forEachCandidateRule_def request_input_def Let_def)
qed

lemma evaluate_ref_priority:
  "actionPriority (dec_Action (evaluate_ref P s req hits)) =
     Max (insert (actionPriority (snap_defaultAction s))
       (insert (actionPriority (model_action (req_ModelSignal req))) (actionPriority ` hit_Action ` set hits)))"
proof -
  let ?a = "fold (\<lambda>h a. higherPriority a (hit_Action h)) hits (snap_defaultAction s)"
  let ?m = "model_action (req_ModelSignal req)"
  have "\<not> validAction ?m \<Longrightarrow> actionPriority ?m = 0"
    by (auto simp: validAction_def actionPriority_def)
  then have "actionPriority (dec_Action (evaluate_ref P s req hits)) = max (actionPriority ?m) (actionPriority ?a)"
    using actionPriority_bounds [of ?a] by (auto simp: evaluate_ref_def Let_def)
  also have "\<dots> = Max (insert (actionPriority ?m) (insert (actionPriority (snap_defaultAction s)) (actionPriority ` hit_Action ` set hits)))"
    by (simp add: fold_higherPriority)
  finally show ?thesis by (simp add: insert_commute)
qed

lemma hits_of_mset_cong: "mset xs = mset ys \<Longrightarrow> mset (hits_of P inp xs) = mset (hits_of P inp ys)"
  by (simp add: hits_of_def)

section \<open>When cache keys identify detectors\<close>

lemma snap_detectors_origin:
  assumes "CompileSnapshot P marshal bs = Inr s" "d \<in> snap_detectors s"
  shows "\<exists>b\<in>set bs. \<exists>m k. compileDetectorMap P b = Inr m \<and> m k = Some d"
proof -
  from assms(1) obtain css where css: "snap_rules s = concat css" "list_all2 (rules_from P) bs css"
    by (rule CompileSnapshot_Inr)
  with assms(2) obtain cs c where c: "cs \<in> set css" "c \<in> set cs" "d \<in> set (cr_detectors c)"
    by (auto simp: snap_detectors_def)
  then obtain b where b: "b \<in> set bs" "rules_from P b cs"
    using css(2) by (fastforce simp: list_all2_conv_all_nth in_set_conv_nth)
  then obtain r where "rule_from P b r c"
    using c(2) by (fastforce simp: rules_from_def list_all2_conv_all_nth in_set_conv_nth)
  then show ?thesis
    using c(3) b(1) by (fastforce simp: rule_from_def list_all2_conv_all_nth in_set_conv_nth)
qed

definition slash_free :: "Bundle list \<Rightarrow> bool" where
  "slash_free bs \<longleftrightarrow> list_all (\<lambda>b. CHR ''/'' \<notin> set (b_Key b)) bs"

lemma keys_identify_compiled:
  assumes "CompileSnapshot P marshal bs = Inr s" "distinct (map b_Key bs)" "slash_free bs"
  shows "keys_identify (snap_detectors s)"
  unfolding keys_identify_def
proof (intro ballI impI)
  fix d e
  assume de: "d \<in> snap_detectors s" "e \<in> snap_detectors s" "cd_cacheKey d = cd_cacheKey e"
  obtain b m k where b: "b \<in> set bs" "compileDetectorMap P b = Inr m" "m k = Some d"
    using snap_detectors_origin [OF assms(1) de(1)] by blast
  obtain b' m' k' where b': "b' \<in> set bs" "compileDetectorMap P b' = Inr m'" "m' k' = Some e"
    using snap_detectors_origin [OF assms(1) de(2)] by blast
  have "b_Key b @ ''/'' @ k = b_Key b' @ ''/'' @ k'"
    using de(3) compileDetectorMap_Inr(1) [OF b(2,3)] compileDetectorMap_Inr(1) [OF b'(2,3)] by simp
  then have "cut_at CHR ''/'' (b_Key b @ CHR ''/'' # k) = cut_at CHR ''/'' (b_Key b' @ CHR ''/'' # k')" by simp
  then have "b_Key b = b_Key b' \<and> k = k'"
    using assms(3) b(1) b'(1) by (simp add: cut_at_append slash_free_def list_all_iff)
  with assms(2) b b' show "cd_detector d = cd_detector e" by (auto simp: distinct_map inj_on_def)
qed

end
