(* ===== verification/Policy_Hash.thy ===== *)
theory Policy_Hash
  imports Policy_Props
begin

text \<open>
  The canonical hash of a snapshot: what of the configuration it depends on, and what it does not
  (the order of bundles, detectors, rules, categories and detector keys, and disabled rules).
\<close>

section \<open>Contents, up to order\<close>

definition detector_content :: "Definition \<Rightarrow> string \<times> string \<times> string \<times> string multiset" where
  "detector_content d = (def_Key d, def_Kind d, def_Pattern d, mset (def_Categories d))"

definition rule_content :: "Rule \<Rightarrow> string \<times> bool \<times> Severity \<times> Action \<times> string multiset \<times> Scope" where
  "rule_content r = (rule_Key r, rule_Enabled r, rule_Severity r, rule_Action r, mset (rule_DetectorKeys r), rule_Scope r)"

definition bundle_content where
  "bundle_content (b :: Bundle) = (b_Key b, b_Version b, b_Source b, b_DefaultAction b,
     mset (map detector_content (b_Detectors b)), mset (map rule_content (activeRules (b_Rules b))))"

text \<open>The sort keys of a bundle's detectors and of its active rules tell them apart.\<close>

definition tidy :: "Bundle \<Rightarrow> bool" where
  "tidy b \<longleftrightarrow> distinct (map (\<lambda>d. (def_Key d, def_Kind d, def_Pattern d)) (b_Detectors b)) \<and>
     distinct (map (\<lambda>r. (rule_Key r, rule_Action r, rule_Severity r)) (activeRules (b_Rules b)))"

abbreviation active :: "Bundle \<Rightarrow> Bundle" where
  "active b \<equiv> b\<lparr>b_Rules := activeRules (b_Rules b)\<rparr>"

lemma sortedStrings_cong: "mset xs = mset ys \<Longrightarrow> sortedStrings xs = sortedStrings ys"
  using sort_key_mset_cong [of xs ys "\<lambda>x. x"] by (auto simp: sortedStrings_def inj_on_def)

lemma normal_detector_cong:
  "detector_content d = detector_content e \<Longrightarrow>
     d\<lparr>def_Categories := sortedStrings (def_Categories d)\<rparr> = e\<lparr>def_Categories := sortedStrings (def_Categories e)\<rparr>"
  by (cases d; cases e) (auto simp: detector_content_def intro: sortedStrings_cong)

lemma normal_rule_cong:
  "rule_content r = rule_content s \<Longrightarrow>
     r\<lparr>rule_DetectorKeys := sortedStrings (rule_DetectorKeys r)\<rparr> = s\<lparr>rule_DetectorKeys := sortedStrings (rule_DetectorKeys s)\<rparr>"
  by (cases r; cases s) (auto simp: rule_content_def intro: sortedStrings_cong)

lemma sort_key_content_cong:
  assumes "mset (map content xs) = mset (map content ys)"
    and "\<And>x y. content x = content y \<Longrightarrow> nrm x = nrm y"
    and "distinct (map (key \<circ> nrm) xs)"
  shows "sort_key key (map nrm xs) = sort_key key (map nrm ys)"
proof (rule sort_key_mset_cong)
  show "mset (map nrm xs) = mset (map nrm ys)"
    by (rule mset_map_factor [OF assms(1)]) (rule assms(2))
  show "inj_on key (set (map nrm xs))" using assms(3) by (simp add: distinct_map comp_inj_on_iff flip: map_map)
qed

lemma canonicalDetectors_cong:
  assumes "mset (map detector_content xs) = mset (map detector_content ys)"
    and "distinct (map (\<lambda>d. (def_Key d, def_Kind d, def_Pattern d)) xs)"
  shows "canonicalDetectors xs = canonicalDetectors ys"
  unfolding canonicalDetectors_def
  by (rule sort_key_content_cong [OF assms(1) normal_detector_cong]) (use assms(2) in \<open>simp_all add: comp_def\<close>)

lemma canonicalRules_cong:
  assumes "mset (map rule_content xs) = mset (map rule_content ys)"
    and "distinct (map (\<lambda>r. (rule_Key r, rule_Action r, rule_Severity r)) xs)"
  shows "canonicalRules xs = canonicalRules ys"
  unfolding canonicalRules_def
  by (rule sort_key_content_cong [OF assms(1) normal_rule_cong]) (use assms(2) in \<open>simp_all add: comp_def\<close>)

lemma canonicalBundle_cong:
  "bundle_content b = bundle_content c \<Longrightarrow> tidy b \<Longrightarrow> canonicalBundle (active b) = canonicalBundle (active c)"
  using canonicalDetectors_cong [of "b_Detectors b" "b_Detectors c"]
    canonicalRules_cong [of "activeRules (b_Rules b)" "activeRules (b_Rules c)"]
  by (cases b; cases c) (simp add: bundle_content_def canonicalBundle_def tidy_def)

lemma tidy_cong: "bundle_content b = bundle_content c \<Longrightarrow> tidy b \<Longrightarrow> tidy c"
proof -
  assume c: "bundle_content b = bundle_content c" and t: "tidy b"
  have "mset (map (\<lambda>d. (def_Key d, def_Kind d, def_Pattern d)) (b_Detectors b)) =
      mset (map (\<lambda>d. (def_Key d, def_Kind d, def_Pattern d)) (b_Detectors c))"
    by (rule mset_map_factor [where f = detector_content]) (use c in \<open>auto simp: bundle_content_def detector_content_def\<close>)
  moreover have "mset (map (\<lambda>r. (rule_Key r, rule_Action r, rule_Severity r)) (activeRules (b_Rules b))) =
      mset (map (\<lambda>r. (rule_Key r, rule_Action r, rule_Severity r)) (activeRules (b_Rules c)))"
    by (rule mset_map_factor [where f = rule_content]) (use c in \<open>auto simp: bundle_content_def rule_content_def\<close>)
  ultimately show "tidy c" using t mset_eq_imp_distinct_iff unfolding tidy_def by blast
qed

lemma canonicalBundles_cong:
  assumes "mset (map bundle_content bs) = mset (map bundle_content cs)" "list_all tidy bs"
    and "distinct (map (\<lambda>b. (b_Key b, b_Version b)) bs)"
  shows "canonicalBundles (map active bs) = canonicalBundles (map active cs)"
proof -
  have sets: "bundle_content ` set bs = bundle_content ` set cs" using mset_eq_setD [OF assms(1)] by simp
  have tidy: "tidy c" if c: "c \<in> set bs \<union> set cs" for c
  proof (cases "c \<in> set bs")
    case True
    with assms(2) show ?thesis by (simp add: list_all_iff)
  next
    case False
    with c have "bundle_content c \<in> bundle_content ` set bs" unfolding sets by simp
    then obtain b where "b \<in> set bs" "bundle_content b = bundle_content c" by auto
    with assms(2) show ?thesis by (auto simp: list_all_iff intro: tidy_cong)
  qed
  have "mset (map (canonicalBundle \<circ> active) bs) = mset (map (canonicalBundle \<circ> active) cs)"
  proof (rule mset_map_factor [OF assms(1)])
    fix b c
    assume "b \<in> set bs \<union> set cs" "bundle_content b = bundle_content c"
    then show "(canonicalBundle \<circ> active) b = (canonicalBundle \<circ> active) c"
      using tidy [of b] canonicalBundle_cong [of b c] by simp
  qed
  moreover have "inj_on (\<lambda>b. (b_Key b, b_Version b)) (set (map (canonicalBundle \<circ> active) bs))"
    using assms(3) by (auto simp: distinct_map inj_on_def canonicalBundle_def)
  ultimately show ?thesis
    using sort_key_mset_cong [of "map (canonicalBundle \<circ> active) bs" "map (canonicalBundle \<circ> active) cs"]
    by (simp add: canonicalBundles_def comp_def)
qed

text \<open>Two configurations with the same contents up to order and disabled rules compile to
  snapshots with the same hash, when the keys the canonical form sorts by are distinct.\<close>

theorem snapshot_hash_order_independent:
  assumes "CompileSnapshot P marshal bs = Inr s" "CompileSnapshot P marshal cs = Inr t"
    and "mset (map bundle_content bs) = mset (map bundle_content cs)"
    and "list_all tidy bs" "distinct (map (\<lambda>b. (b_Key b, b_Version b)) bs)"
  shows "snap_hash s = snap_hash t"
proof -
  have "hashBundles P marshal (map active bs) = Inr (snap_hash s)"
    by (rule CompileSnapshot_Inr [OF assms(1)]) simp
  moreover have "hashBundles P marshal (map active cs) = Inr (snap_hash t)"
    by (rule CompileSnapshot_Inr [OF assms(2)]) simp
  ultimately show ?thesis
    using canonicalBundles_cong [OF assms(3-5)] by (simp add: hashBundles_def split: option.splits)
qed

end
