(* ===== verification/Policy_Claims.thy ===== *)
theory Policy_Claims
  imports Policy_Hash
begin

text \<open>
  The properties of the policy domain: which configurations compile and to what, the scope index
  and the finding cache against a plain scan, the ranking of the decision, and the inputs for which
  the cache is not transparent.
\<close>

section \<open>Compilation succeeds exactly on valid configurations\<close>

definition config_ok :: "platform \<Rightarrow> Bundle \<Rightarrow> bool" where
  "config_ok P b \<longleftrightarrow> b_Key b \<noteq> [] \<and> validAction (b_DefaultAction b) \<and>
     list_all (\<lambda>d. \<not> isl (Compile P d)) (b_Detectors b) \<and>
     list_all (\<lambda>r. rule_Key r \<noteq> [] \<and> validAction (rule_Action r) \<and>
       list_all (\<lambda>k. k \<in> def_Key ` set (b_Detectors b)) (rule_DetectorKeys r)) (activeRules (b_Rules b))"

lemma not_isl_iff: "\<not> isl x \<longleftrightarrow> (\<exists>y. x = Inr y)"
  by (cases x) auto

lemma compile_detectors_ok:
  "(\<not> isl (compile_detectors P key ds m) \<longleftrightarrow> list_all (\<lambda>d. \<not> isl (Compile P d)) ds) \<and>
   (\<forall>m'. compile_detectors P key ds m = Inr m' \<longrightarrow> dom m' = dom m \<union> def_Key ` set ds)"
  by (induction ds arbitrary: m) (auto split: sum.split)

lemma resolve_detectors_ok:
  "\<not> isl (resolve_detectors bk rk ks m) \<longleftrightarrow> list_all (\<lambda>k. k \<in> dom m) ks"
  by (induction ks) (auto split: option.split simp: isl_map_sum)

lemma compile_rules_ok:
  "\<not> isl (compile_rules key m rs acc) \<longleftrightarrow>
     list_all (\<lambda>r. rule_Key r \<noteq> [] \<and> validAction (rule_Action r) \<and> list_all (\<lambda>k. k \<in> dom m) (rule_DetectorKeys r)) rs"
proof (induction rs arbitrary: acc)
  case (Cons r rs)
  have "\<not> isl (detectorsForRule key r m) \<longleftrightarrow> list_all (\<lambda>k. k \<in> dom m) (rule_DetectorKeys r)"
    by (simp add: detectorsForRule_def resolve_detectors_ok)
  with Cons show ?case by (auto split: sum.split)
qed simp

lemma compile_bundle_ok: "\<not> isl (compile_bundle P i b st) \<longleftrightarrow> config_ok P b"
proof (cases "compileDetectorMap P b")
  case (Inl e)
  then have "\<not> list_all (\<lambda>d. \<not> isl (Compile P d)) (b_Detectors b)"
    using compile_detectors_ok [of P "b_Key b" "b_Detectors b" Map.empty] by (simp add: compileDetectorMap_def)
  with Inl show ?thesis by (simp add: compile_bundle_def config_ok_def)
next
  case (Inr m)
  then have "list_all (\<lambda>d. \<not> isl (Compile P d)) (b_Detectors b)" "dom m = def_Key ` set (b_Detectors b)"
    using compile_detectors_ok [of P "b_Key b" "b_Detectors b" Map.empty] by (simp_all add: compileDetectorMap_def)
  then show ?thesis
    using compile_rules_ok [of "b_Key b" m "activeRules (b_Rules b)" "cs_compiledRules st"] Inr
    by (cases "compile_rules (b_Key b) m (activeRules (b_Rules b)) (cs_compiledRules st)")
      (auto simp: compile_bundle_def config_ok_def)
qed

lemma compile_bundles_ok: "\<not> isl (compile_bundles P i bs st) \<longleftrightarrow> list_all (config_ok P) bs"
proof (induction bs arbitrary: i st)
  case (Cons b bs)
  show ?case using Cons compile_bundle_ok [of P i b st] by (auto split: sum.split)
qed simp

text \<open>C32. A configuration compiles exactly when every bundle has a key, a known default action and
  detectors that compile, every enabled rule has a key, a known action and only detectors of its own
  bundle, and the canonical form can be encoded.  Disabled rules are not checked.\<close>

theorem compile_succeeds_iff:
  "(\<exists>s. CompileSnapshot P marshal bs = Inr s) \<longleftrightarrow>
     list_all (config_ok P) bs \<and> marshal (canonicalBundles (map active bs)) \<noteq> None"
proof -
  have "cs_activeBundles st = map active bs" if "compile_bundles P 0 bs init_compile = Inr st" for st
    using compile_bundles_Inr [OF that] by (simp add: init_compile_def)
  then show ?thesis
    using compile_bundles_ok [of P 0 bs init_compile]
    by (auto simp: CompileSnapshot_def hashBundles_def not_isl_iff split: sum.splits option.splits)
qed

text \<open>A compiled rule against the rule and the bundle it comes from.\<close>

definition compiled_from :: "platform \<Rightarrow> Bundle \<times> Rule \<Rightarrow> compiledRule \<Rightarrow> bool" where
  "compiled_from P = (\<lambda>(b, r) c. cr_bundleKey c = b_Key b \<and> cr_key c = rule_Key r \<and> cr_action c = rule_Action r \<and>
     cr_severity c = rule_Severity r \<and> cr_scope c = rule_Scope r \<and>
     list_all2 (\<lambda>k d. \<exists>df\<in>set (b_Detectors b). def_Key df = k \<and> Compile P df = Inr (cd_detector d))
       (rule_DetectorKeys r) (cr_detectors c))"

definition enabled_rules :: "Bundle list \<Rightarrow> (Bundle \<times> Rule) list" where
  "enabled_rules bs = concat (map (\<lambda>b. map (Pair b) (filter rule_Enabled (b_Rules b))) bs)"

lemma rule_from_compiled: "rule_from P b r c \<Longrightarrow> compiled_from P (b, r) c"
  using compileDetectorMap_Inr(2) by (fastforce simp: rule_from_def compiled_from_def elim: list_all2_mono)

lemma rules_from_compiled:
  "list_all2 (rules_from P) bs css \<Longrightarrow> list_all2 (compiled_from P) (enabled_rules bs) (concat css)"
proof (induction rule: list_all2_induct)
  case (Cons b bs cs css)
  have "list_all2 (compiled_from P) (map (Pair b) (filter rule_Enabled (b_Rules b))) cs"
    using Cons.hyps(1) rule_from_compiled
    by (auto simp: rules_from_def activeRules_def list_all2_map1 elim: list_all2_mono)
  with Cons.IH show ?case by (simp add: enabled_rules_def list_all2_appendI)
qed (simp add: enabled_rules_def)

text \<open>The rules of a compiled snapshot are, in order, the enabled rules of the bundles, each with
  the detectors its keys name compiled from its own bundle; the default action is the highest-ranking
  one of the bundles, \<open>allow\<close> for no bundle.\<close>

theorem compile_sound:
  assumes "CompileSnapshot P marshal bs = Inr s"
  shows "list_all2 (compiled_from P) (enabled_rules bs) (snap_rules s) \<and>
    actionPriority (snap_defaultAction s) = Max (insert 0 (actionPriority ` b_DefaultAction ` set bs)) \<and>
    validAction (snap_defaultAction s)"
proof -
  obtain css where css: "\<forall>b\<in>set bs. bundle_valid b" "snap_rules s = concat css" "list_all2 (rules_from P) bs css"
    "snap_defaultAction s = fold (\<lambda>b a. higherPriority a (b_DefaultAction b)) bs ActionAllow"
    by (rule CompileSnapshot_Inr [OF assms])
  have "validAction (snap_defaultAction s)"
    unfolding css(4) by (rule validAction_fold) (use css(1) in \<open>auto simp: bundle_valid_def\<close>)
  then show ?thesis
    using rules_from_compiled [OF css(3)] unfolding css(2,4) fold_higherPriority by simp
qed

section \<open>Evaluation\<close>

text \<open>C17. With distinct bundle keys that hold no slash, the decision on a compiled snapshot, made
  through the scope index and the finding cache, is the one of a plain scan: its hits are, up to order,
  those of every rule whose scope matches, and its action has the highest priority among the default
  action, the actions of the hits and the model signal.\<close>

theorem evaluate_equals_scan:
  assumes "CompileSnapshot P marshal bs = Inr s" "distinct (map b_Key bs)" "slash_free bs"
  shows "\<exists>hits. Evaluate P (Some s) req = evaluate_ref P s req hits \<and>
    mset hits = mset (hits_of P (request_input req) (filter (\<lambda>r. matchesScope (cr_scope r) req) (snap_rules s))) \<and>
    actionPriority (dec_Action (Evaluate P (Some s) req)) =
      Max ({actionPriority (snap_defaultAction s), actionPriority (model_action (req_ModelSignal req))} \<union>
        actionPriority ` hit_Action ` set hits)"
proof -
  have idx: "snap_rulesByScope s = indexRules (snap_rules s)" by (rule CompileSnapshot_Inr [OF assms(1)]) simp
  let ?hits = "hits_of P (request_input req) (candidate_rules s req)"
  have "Evaluate P (Some s) req = evaluate_ref P s req ?hits"
    by (rule Evaluate_ref [OF idx keys_identify_compiled [OF assms]])
  then show ?thesis
    using hits_of_mset_cong [OF mset_candidate_rules [OF idx]] evaluate_ref_priority [of P s req ?hits]
    by (intro exI [of _ ?hits]) simp
qed

text \<open>What one more rule does to the evaluation state, whatever the cache holds.\<close>

definition eval_inv :: "Action \<Rightarrow> EvaluationRequest \<Rightarrow> compiledRule set \<Rightarrow> eval_state \<Rightarrow> bool" where
  "eval_inv a0 req R st \<longleftrightarrow>
     actionPriority a0 \<le> actionPriority (es_action st) \<and>
     es_findings st = concat (map hit_Findings (es_hits st)) \<and>
     (\<forall>h\<in>set (es_hits st). actionPriority (hit_Action h) \<le> actionPriority (es_action st) \<and> hit_Findings h \<noteq> [] \<and>
        (\<exists>r\<in>R. matchesScope (cr_scope r) req \<and> hit_BundleKey h = cr_bundleKey r \<and> hit_RuleKey h = cr_key r \<and>
           hit_Severity h = cr_severity r \<and> hit_Action h = cr_action r))"

lemma visit_rule_inv: "eval_inv a0 req R st \<Longrightarrow> r \<in> R \<Longrightarrow> eval_inv a0 req R (visit_rule P req inp r st)"
  by (fastforce simp: visit_rule_def eval_inv_def Let_def split: prod.split)

lemma visit_rules_inv:
  "eval_inv a0 req R st \<Longrightarrow> set rs \<subseteq> R \<Longrightarrow> eval_inv a0 req R (fold (visit_rule P req inp) rs st)"
  by (induction rs arbitrary: st) (auto intro: visit_rule_inv)

lemma Evaluate_inv:
  "eval_inv (snap_defaultAction s) req (set (candidate_rules s req))
     (fold (visit_rule P req (request_input req)) (candidate_rules s req)
       \<lparr>es_action = snap_defaultAction s, es_hits = [], es_findings = [], es_cache = Map.empty\<rparr>)"
  by (rule visit_rules_inv) (simp_all add: eval_inv_def)

lemma actionPriority_unknown: "\<not> validAction a \<Longrightarrow> actionPriority a = 0"
  by (auto simp: validAction_def actionPriority_def)

text \<open>What a caller of \<open>Evaluate\<close> may rely on for any snapshot.\<close>

lemma Evaluate_model_signal:
  "actionPriority (model_action (req_ModelSignal req)) \<le> actionPriority (dec_Action (Evaluate P (Some s) req))"
  "dec_ModelSignal (Evaluate P (Some s) req) = req_ModelSignal req"
  using actionPriority_unknown [of "model_action (req_ModelSignal req)"] actionPriority_bounds
  by (auto simp: Evaluate_def Let_def not_less)

text \<open>C6. Whatever the snapshot, the decision is never weaker than the default action, than the action
  of any hit or than a known model action; every hit has findings and comes from a rule of the scope
  index whose scope matches the request, and the findings of the decision are those of its hits.\<close>

theorem decision_not_outranked:
  "actionPriority (snap_defaultAction s) \<le> actionPriority (dec_Action (Evaluate P (Some s) req)) \<and>
   actionPriority (model_action (req_ModelSignal req)) \<le> actionPriority (dec_Action (Evaluate P (Some s) req)) \<and>
   dec_Findings (Evaluate P (Some s) req) = concat (map hit_Findings (dec_RuleHits (Evaluate P (Some s) req))) \<and>
   (\<forall>h\<in>set (dec_RuleHits (Evaluate P (Some s) req)).
      actionPriority (hit_Action h) \<le> actionPriority (dec_Action (Evaluate P (Some s) req)) \<and> hit_Findings h \<noteq> [] \<and>
      (\<exists>r\<in>set (candidate_rules s req). matchesScope (cr_scope r) req \<and> hit_BundleKey h = cr_bundleKey r \<and>
         hit_RuleKey h = cr_key r \<and> hit_Severity h = cr_severity r \<and> hit_Action h = cr_action r))"
proof -
  show ?thesis
    using Evaluate_inv [of s req P] actionPriority_unknown [of "model_action (req_ModelSignal req)"]
      actionPriority_bounds [of "snap_defaultAction s"] Evaluate_model_signal(1) [of req P s]
    by (fastforce simp: Evaluate_def forEachCandidateRule_def request_input_def [symmetric] Let_def eval_inv_def)
qed

section \<open>The cache key\<close>

text \<open>A bundle with one regex detector and one rule on it that applies everywhere.\<close>

definition one_rule_bundle :: "string \<Rightarrow> string \<Rightarrow> string \<Rightarrow> Action \<Rightarrow> Bundle" where
  "one_rule_bundle bkey dkey pattern act =
     \<lparr>b_Key = bkey, b_Version = ''1'', b_Source = SourceUser, b_DefaultAction = ActionAllow,
      b_Detectors = [\<lparr>def_Key = dkey, def_Kind = KindRegex, def_Pattern = pattern, def_Categories = []\<rparr>],
      b_Rules = [\<lparr>rule_Key = ''r'', rule_Enabled = True, rule_Severity = SeverityHigh, rule_Action = act,
        rule_DetectorKeys = [dkey],
        rule_Scope = \<lparr>sc_RouteKey = [], sc_Provider = [], sc_Model = [], sc_Direction = []\<rparr>\<rparr>]\<rparr>"

definition no_scope :: Scope where
  "no_scope = \<lparr>sc_RouteKey = [], sc_Provider = [], sc_Model = [], sc_Direction = []\<rparr>"

definition sample_request :: "string \<Rightarrow> EvaluationRequest" where
  "sample_request text = \<lparr>req_RouteKey = ''chat'', req_Provider = [], req_Model = [],
     req_Direction = DirectionInput, req_Text = text, req_ModelSignal = zero_ModelSignal\<rparr>"

text \<open>What such a bundle compiles to.\<close>

definition one_rule_compiled :: "string \<Rightarrow> string \<Rightarrow> string \<Rightarrow> Action \<Rightarrow> compiledRule" where
  "one_rule_compiled bkey dkey pattern act =
     \<lparr>cr_bundleKey = bkey, cr_key = ''r'', cr_severity = SeverityHigh, cr_action = act, cr_scope = no_scope,
      cr_detectors = [\<lparr>cd_cacheKey = bkey @ ''/'' @ dkey,
        cd_detector = \<lparr>rd_key = dkey, rd_re = pattern, rd_categories = [''custom.regex''], rd_validator = None\<rparr>\<rparr>]\<rparr>"

lemma one_rule_compile:
  assumes "bkey \<noteq> []" "dkey \<noteq> []" "pattern \<noteq> []" "validAction act" "regexp_compiles P pattern"
  shows "compile_bundle P i (one_rule_bundle bkey dkey pattern act) st =
    Inr \<lparr>cs_activeBundles = cs_activeBundles st @ [one_rule_bundle bkey dkey pattern act],
         cs_compiledRules = cs_compiledRules st @ [one_rule_compiled bkey dkey pattern act],
         cs_bundleKeys = cs_bundleKeys st @ [bkey],
         cs_defaultAction = higherPriority (cs_defaultAction st) ActionAllow\<rparr>"
  using assms
  by (simp add: compile_bundle_def one_rule_bundle_def one_rule_compiled_def no_scope_def compileDetectorMap_def
      Compile_def normalizeDefinition_def customPattern_def normalizeCategories_def defaultRegexCategory_def
      detectorsForRule_def activeRules_def)

definition two_rule_snapshot :: "string \<Rightarrow> compiledRule list \<Rightarrow> string list \<Rightarrow> Snapshot" where
  "two_rule_snapshot h rules keys = \<lparr>snap_hash = h, snap_bundleKeys = keys, snap_defaultAction = ActionAllow,
     snap_rules = rules, snap_rulesByScope = indexRules rules\<rparr>"

lemma two_rule_compile:
  assumes "b1 \<noteq> []" "d1 \<noteq> []" "p1 \<noteq> []" "validAction a1" "b2 \<noteq> []" "d2 \<noteq> []" "p2 \<noteq> []" "validAction a2"
    and "regexp_compiles P p1" "regexp_compiles P p2" "marshal (canonicalBundles [one_rule_bundle b1 d1 p1 a1, one_rule_bundle b2 d2 p2 a2]) = Some e"
  shows "CompileSnapshot P marshal [one_rule_bundle b1 d1 p1 a1, one_rule_bundle b2 d2 p2 a2] =
    Inr (two_rule_snapshot (hex_encode (sha256 P e)) [one_rule_compiled b1 d1 p1 a1, one_rule_compiled b2 d2 p2 a2] [b1, b2])"
  using assms by (simp add: CompileSnapshot_def one_rule_compile init_compile_def hashBundles_def two_rule_snapshot_def higherPriority_def)

lemma candidate_rules_no_scope:
  assumes "\<forall>r\<in>set rules. cr_scope r = no_scope"
  shows "candidate_rules (two_rule_snapshot h rules keys) (sample_request text) = rules"
proof -
  have "filter (\<lambda>r. cr_scope r = k) rules = (if k = no_scope then rules else [])" for k
    using assms by (auto simp: filter_id_conv filter_empty_conv)
  then show ?thesis
    by (simp add: candidate_rules_index two_rule_snapshot_def scope_keys_def sample_request_def stringScopeValues_def
        directionScopeValues_def DirectionInput_def no_scope_def)
qed

lemma matchesScope_no_scope [simp]: "matchesScope no_scope req"
  by (simp add: matchesScope_def no_scope_def)

lemma matchRule_one_rule:
  "matchRule P (one_rule_compiled bkey dkey pattern act) inp =
     cached_match P \<lparr>cd_cacheKey = bkey @ ''/'' @ dkey,
       cd_detector = \<lparr>rd_key = dkey, rd_re = pattern, rd_categories = [''custom.regex''], rd_validator = None\<rparr>\<rparr> inp"
  by (rule ext) (simp add: matchRule_def one_rule_compiled_def)

text \<open>A slash in a bundle key defeats a blocking rule: the cache key of detector \<open>b/c\<close> of bundle
  \<open>a\<close> is the one of detector \<open>c\<close> of bundle \<open>a/b\<close>, so the second detector is answered with the
  findings of the first.  The text is allowed although a scan of the same compiled rules finds that the
  rule of the second bundle blocks it.\<close>

theorem cache_key_collision_misses_block:
  "\<exists>s. CompileSnapshot sample_platform (\<lambda>_. Some ''{}'')
      [one_rule_bundle ''a'' ''b/c'' ''zz'' ActionAllow, one_rule_bundle ''a/b'' ''c'' ''key'' ActionBlock] = Inr s \<and>
    dec_Action (Evaluate sample_platform (Some s) (sample_request ''key'')) = ActionAllow \<and>
    hits_of sample_platform (request_input (sample_request ''key'')) (snap_rules s) \<noteq> [] \<and>
    dec_Action (evaluate_ref sample_platform s (sample_request ''key'')
      (hits_of sample_platform (request_input (sample_request ''key'')) (snap_rules s))) = ActionBlock"
proof -
  let ?r1 = "one_rule_compiled ''a'' ''b/c'' ''zz'' ActionAllow" and ?r2 = "one_rule_compiled ''a/b'' ''c'' ''key'' ActionBlock"
  let ?s = "two_rule_snapshot (hex_encode (sha256 sample_platform ''{}'')) [?r1, ?r2] [''a'', ''a/b'']"
  have cand: "candidate_rules ?s (sample_request ''key'') = [?r1, ?r2]"
    by (rule candidate_rules_no_scope) (simp add: one_rule_compiled_def)
  have "dec_Action (Evaluate sample_platform (Some ?s) (sample_request ''key'')) = ActionAllow"
    using cand
    by (simp add: Evaluate_def forEachCandidateRule_def visit_rule_def matchRule_one_rule cached_match_def Match_def
        Let_def request_input_def sample_request_def model_action_def zero_ModelSignal_def)
       (simp add: one_rule_compiled_def two_rule_snapshot_def)
  moreover have hits: "hits_of sample_platform (request_input (sample_request ''key'')) [?r1, ?r2] =
      [hit_of sample_platform (request_input (sample_request ''key'')) ?r2]"
    by (simp add: hits_of_def rule_findings_def one_rule_compiled_def request_input_def sample_request_def Match_def
        findings_at_def accepts_def)
  ultimately show ?thesis
    by (intro exI [of _ ?s]) (simp add: two_rule_compile, simp add: two_rule_snapshot_def evaluate_ref_def hit_of_def
      one_rule_compiled_def higherPriority_def sample_request_def model_action_def zero_ModelSignal_def)
qed

section \<open>Witnesses\<close>

lemma evaluate_ref_hits [simp]: "dec_RuleHits (evaluate_ref P s req hits) = hits"
  by (simp add: evaluate_ref_def Let_def)

abbreviation bundle_a :: Bundle where "bundle_a \<equiv> one_rule_bundle ''a'' ''d'' ''key'' ActionRedact"
abbreviation bundle_b :: Bundle where "bundle_b \<equiv> one_rule_bundle ''b'' ''e'' ''ke'' ActionBlock"

abbreviation sample_snapshot :: Snapshot where
  "sample_snapshot \<equiv> two_rule_snapshot (hex_encode (sha256 sample_platform ''{}''))
     [one_rule_compiled ''a'' ''d'' ''key'' ActionRedact, one_rule_compiled ''b'' ''e'' ''ke'' ActionBlock] [''a'', ''b'']"

lemma sample_snapshot_compiles:
  "CompileSnapshot sample_platform (\<lambda>_. Some ''{}'') [bundle_a, bundle_b] = Inr sample_snapshot"
  by (rule two_rule_compile) simp_all

lemma sample_snapshot_hits:
  "dec_RuleHits (Evaluate sample_platform (Some sample_snapshot) (sample_request ''key'')) =
     [hit_of sample_platform (request_input (sample_request ''key'')) (one_rule_compiled ''a'' ''d'' ''key'' ActionRedact),
      hit_of sample_platform (request_input (sample_request ''key'')) (one_rule_compiled ''b'' ''e'' ''ke'' ActionBlock)]"
proof -
  let ?rs = "[one_rule_compiled ''a'' ''d'' ''key'' ActionRedact, one_rule_compiled ''b'' ''e'' ''ke'' ActionBlock]"
  have "Evaluate sample_platform (Some sample_snapshot) (sample_request ''key'') =
      evaluate_ref sample_platform sample_snapshot (sample_request ''key'')
        (hits_of sample_platform (request_input (sample_request ''key'')) (candidate_rules sample_snapshot (sample_request ''key'')))"
    by (rule Evaluate_ref [OF _ keys_identify_compiled [OF sample_snapshot_compiles]])
      (simp_all add: two_rule_snapshot_def one_rule_bundle_def slash_free_def)
  moreover have "candidate_rules sample_snapshot (sample_request ''key'') = ?rs"
    by (rule candidate_rules_no_scope) (simp add: one_rule_compiled_def)
  moreover have "hits_of sample_platform (request_input (sample_request ''key'')) ?rs =
      map (hit_of sample_platform (request_input (sample_request ''key''))) ?rs"
    by (simp add: hits_of_def rule_findings_def one_rule_compiled_def request_input_def sample_request_def Match_def
        findings_at_def accepts_def)
  ultimately show ?thesis by (simp add: evaluate_ref_def Let_def)
qed

theorem compile_sound_witness:
  "compiled_from sample_platform (bundle_b, hd (b_Rules bundle_b)) (one_rule_compiled ''b'' ''e'' ''ke'' ActionBlock) \<and>
   actionPriority (snap_defaultAction sample_snapshot) = 0"
  using compile_sound [OF sample_snapshot_compiles]
  by (simp add: enabled_rules_def one_rule_bundle_def two_rule_snapshot_def)

theorem evaluate_equals_scan_witness:
  "\<exists>hits. Evaluate sample_platform (Some sample_snapshot) (sample_request ''key'') =
      evaluate_ref sample_platform sample_snapshot (sample_request ''key'') hits \<and> length hits = 2"
proof -
  obtain hits where "Evaluate sample_platform (Some sample_snapshot) (sample_request ''key'') =
      evaluate_ref sample_platform sample_snapshot (sample_request ''key'') hits"
    using evaluate_equals_scan [OF sample_snapshot_compiles, of "sample_request ''key''"]
    by (auto simp: one_rule_bundle_def slash_free_def)
  moreover from this have "hits = dec_RuleHits (Evaluate sample_platform (Some sample_snapshot) (sample_request ''key''))"
    by simp
  ultimately show ?thesis using sample_snapshot_hits by auto
qed

theorem decision_not_outranked_witness:
  "dec_Action (Evaluate sample_platform (Some sample_snapshot) (sample_request ''key'')) = ActionBlock"
proof -
  have "3 \<le> actionPriority (dec_Action (Evaluate sample_platform (Some sample_snapshot) (sample_request ''key'')))"
    using decision_not_outranked [of sample_snapshot sample_platform "sample_request ''key''"] sample_snapshot_hits
    by (simp add: hit_of_def one_rule_compiled_def)
  then show ?thesis using actionPriority_bounds actionPriority_block by (metis order_antisym)
qed

theorem snapshot_hash_order_independent_witness:
  "\<exists>s t. CompileSnapshot sample_platform (\<lambda>bs. Some (concat (map b_Key bs))) [bundle_a, bundle_b] = Inr s \<and>
     CompileSnapshot sample_platform (\<lambda>bs. Some (concat (map b_Key bs))) [bundle_b, bundle_a] = Inr t \<and>
     snap_hash s = snap_hash t"
proof -
  let ?m = "\<lambda>bs. Some (concat (map b_Key bs))"
  obtain s t where st: "CompileSnapshot sample_platform ?m [bundle_a, bundle_b] = Inr s"
      "CompileSnapshot sample_platform ?m [bundle_b, bundle_a] = Inr t"
    by (simp add: two_rule_compile)
  from snapshot_hash_order_independent [OF this] have "snap_hash s = snap_hash t"
    by (simp add: one_rule_bundle_def tidy_def activeRules_def)
  with st show ?thesis by blast
qed

end
