(* ===== verification/Redaction.thy ===== *)
theory Redaction
  imports Utf8
begin

text \<open>
  \<open>internal/contexts/gateway/application/redaction.go\<close>: replacing the spans of a text by a token.
  The reference is \<open>mask\<close>, which walks over the bytes and writes one token for each maximal run
  of covered bytes; it does not mention the order of the spans, while the code sorts them with a
  sort that is not stable.
\<close>

section \<open>Model\<close>

definition RedactionToken :: string where [kg_consts]: "RedactionToken = ''[REDACTED]''"

record TextSpan =
  ts_Start :: int
  ts_End :: int

datatype redact_error = InvalidUtf8Boundary

definition validStringBoundary :: "string \<Rightarrow> int \<Rightarrow> bool" where
  "validStringBoundary text offset \<longleftrightarrow>
     offset = 0 \<or> offset = int (length text) \<or> rune_start (byte (text ! nat offset))"

fun merge_spans :: "string \<Rightarrow> TextSpan list \<Rightarrow> TextSpan list \<Rightarrow> redact_error + TextSpan list" where
  "merge_spans text [] merged = Inr merged"
| "merge_spans text (sp # spans) merged =
     (if ts_Start sp < 0 \<or> ts_End sp > int (length text) \<or> ts_Start sp \<ge> ts_End sp
      then merge_spans text spans merged
      else if \<not> validStringBoundary text (ts_Start sp) \<or> \<not> validStringBoundary text (ts_End sp)
      then Inl InvalidUtf8Boundary
      else if merged = [] \<or> ts_Start sp > ts_End (last merged)
      then merge_spans text spans (merged @ [sp])
      else if ts_End sp > ts_End (last merged)
      then merge_spans text spans (butlast merged @ [(last merged)\<lparr>ts_End := ts_End sp\<rparr>])
      else merge_spans text spans merged)"

fun write_spans :: "string \<Rightarrow> nat \<Rightarrow> TextSpan list \<Rightarrow> string" where
  "write_spans text offset [] = drop offset text"
| "write_spans text offset (sp # spans) =
     substr text offset (nat (ts_Start sp)) @ RedactionToken @ write_spans text (nat (ts_End sp)) spans"

text \<open>The body after the sort, for any result of the sort.\<close>

definition redact_sorted :: "string \<Rightarrow> TextSpan list \<Rightarrow> redact_error + (string \<times> int)" where
  "redact_sorted text sorted_spans =
     (case merge_spans text sorted_spans [] of
        Inl e \<Rightarrow> Inl e
      | Inr merged \<Rightarrow>
          if merged = [] then Inr (text, 0) else Inr (write_spans text 0 merged, int (length merged)))"

definition RedactText :: "string \<Rightarrow> TextSpan list \<Rightarrow> redact_error + (string \<times> int)" where
  "RedactText text spans =
     (if spans = [] then Inr (text, 0) else redact_sorted text (sort_key ts_Start spans))"

section \<open>The reference\<close>

definition span_in :: "string \<Rightarrow> TextSpan \<Rightarrow> bool" where
  "span_in text s \<longleftrightarrow> 0 \<le> ts_Start s \<and> ts_Start s < ts_End s \<and> ts_End s \<le> int (length text)"

definition span_aligned :: "string \<Rightarrow> TextSpan \<Rightarrow> bool" where
  "span_aligned text s \<longleftrightarrow> validStringBoundary text (ts_Start s) \<and> validStringBoundary text (ts_End s)"

definition covered :: "TextSpan set \<Rightarrow> nat \<Rightarrow> bool" where
  "covered S i \<longleftrightarrow> (\<exists>s\<in>S. ts_Start s \<le> int i \<and> int i < ts_End s)"

fun mask :: "(nat \<Rightarrow> bool) \<Rightarrow> bool \<Rightarrow> nat \<Rightarrow> string \<Rightarrow> string" where
  "mask cov inrun i [] = []"
| "mask cov inrun i (c # cs) =
     (if cov i then (if inrun then [] else RedactionToken) @ mask cov True (Suc i) cs
      else c # mask cov False (Suc i) cs)"

fun runs :: "(nat \<Rightarrow> bool) \<Rightarrow> bool \<Rightarrow> nat \<Rightarrow> string \<Rightarrow> nat" where
  "runs cov inrun i [] = 0"
| "runs cov inrun i (c # cs) =
     (if cov i then (if inrun then 0 else 1) + runs cov True (Suc i) cs else runs cov False (Suc i) cs)"

definition redact_ref :: "string \<Rightarrow> TextSpan set \<Rightarrow> redact_error + (string \<times> int)" where
  "redact_ref text S =
     (if \<exists>s\<in>S. span_in text s \<and> \<not> span_aligned text s then Inl InvalidUtf8Boundary
      else Inr (mask (covered {s \<in> S. span_in text s}) False 0 text,
                int (runs (covered {s \<in> S. span_in text s}) False 0 text)))"

section \<open>Merging\<close>

text \<open>Merged spans lie in the text, in order, with at least one byte between neighbours.\<close>

definition separated :: "string \<Rightarrow> TextSpan list \<Rightarrow> bool" where
  "separated text ms \<longleftrightarrow> list_all (span_in text) ms \<and> sorted_wrt (\<lambda>a b. ts_End a < ts_Start b) ms"

lemma covered_simps [simp]:
  "covered {} i = False" "covered (insert s S) i \<longleftrightarrow> (ts_Start s \<le> int i \<and> int i < ts_End s) \<or> covered S i"
  "covered (S \<union> T) i \<longleftrightarrow> covered S i \<or> covered T i"
  by (auto simp: covered_def)

lemma separated_snoc:
  "separated text ms \<Longrightarrow> span_in text s \<Longrightarrow> (\<forall>m\<in>set ms. ts_End m < ts_Start s) \<Longrightarrow> separated text (ms @ [s])"
  by (auto simp: separated_def sorted_wrt_append)

lemma separated_last:
  assumes "separated text ms" "ms \<noteq> []" "m \<in> set ms"
  shows "ts_End m \<le> ts_End (last ms)" "ts_Start m \<le> ts_Start (last ms)" "span_in text (last ms)"
    "m \<noteq> last ms \<Longrightarrow> ts_End m < ts_Start (last ms)"
proof -
  obtain ns where ns: "ms = ns @ [last ms]" using assms(2) by (metis append_butlast_last_id)
  have sep: "separated text (ns @ [last ms])" "m \<in> set ns \<or> m = last ms" using assms(1,3) ns by (metis, metis Un_iff empty_iff insert_iff list.set set_append)
  then show "span_in text (last ms)" by (simp add: separated_def)
  with sep show "ts_End m \<le> ts_End (last ms)" "ts_Start m \<le> ts_Start (last ms)"
    "m \<noteq> last ms \<Longrightarrow> ts_End m < ts_Start (last ms)"
    by (fastforce simp: separated_def sorted_wrt_append list_all_iff span_in_def)+
qed

lemma Collect_insert_if:
  "{t. (t = s \<or> t \<in> S) \<and> Q t} = (if Q s then insert s {t \<in> S. Q t} else {t \<in> S. Q t})"
  by auto

lemma merge_spans_ok:
  assumes "sorted (map ts_Start spans)" "separated text merged"
    and "\<forall>m\<in>set merged. \<forall>s\<in>set spans. ts_Start m \<le> ts_Start s"
  shows "case merge_spans text spans merged of
      Inl e \<Rightarrow> \<exists>s\<in>set spans. span_in text s \<and> \<not> span_aligned text s
    | Inr ms \<Rightarrow> (\<forall>s\<in>set spans. span_in text s \<longrightarrow> span_aligned text s) \<and> separated text ms \<and>
        covered (set ms) = covered (set merged \<union> {s \<in> set spans. span_in text s})"
  using assms
proof (induction spans arbitrary: merged)
  case Nil
  then show ?case by simp
next
  case (Cons s spans)
  have sorted: "sorted (map ts_Start spans)" "\<forall>t\<in>set spans. ts_Start s \<le> ts_Start t" using Cons.prems(1) by auto
  consider (out) "\<not> span_in text s" | (bad) "span_in text s" "\<not> span_aligned text s"
    | (new) "span_in text s" "span_aligned text s" "merged = [] \<or> ts_Start s > ts_End (last merged)"
    | (grow) "span_in text s" "span_aligned text s" "merged \<noteq> []" "ts_Start s \<le> ts_End (last merged)" "ts_End s > ts_End (last merged)"
    | (inside) "span_in text s" "span_aligned text s" "merged \<noteq> []" "ts_Start s \<le> ts_End (last merged)" "ts_End s \<le> ts_End (last merged)"
    by linarith
  then show ?case
  proof cases
    case out
    then have "merge_spans text (s # spans) merged = merge_spans text spans merged" by (auto simp: span_in_def)
    with Cons.IH [OF sorted(1) Cons.prems(2)] Cons.prems(3) out show ?thesis
      by (auto split: sum.splits simp: Collect_insert_if)
  next
    case bad
    then have "merge_spans text (s # spans) merged = Inl InvalidUtf8Boundary" by (auto simp: span_in_def span_aligned_def)
    with bad show ?thesis by auto
  next
    case new
    have step: "merge_spans text (s # spans) merged = merge_spans text spans (merged @ [s])"
      using new by (auto simp: span_in_def span_aligned_def)
    have "\<forall>m\<in>set merged. ts_End m < ts_Start s"
      using new(3) separated_last(1) [OF Cons.prems(2)] by fastforce
    with new have sep: "separated text (merged @ [s])" by (intro separated_snoc Cons.prems(2)) auto
    have "\<forall>m\<in>set (merged @ [s]). \<forall>t\<in>set spans. ts_Start m \<le> ts_Start t" using Cons.prems(3) sorted(2) by auto
    from Cons.IH [OF sorted(1) sep this] new(1,2) show ?thesis
      unfolding step by (auto split: sum.splits simp: Collect_insert_if)
  next
    case grow
    let ?l = "(last merged)\<lparr>ts_End := ts_End s\<rparr>"
    let ?ms = "butlast merged @ [?l]"
    have step: "merge_spans text (s # spans) merged = merge_spans text spans ?ms"
      using grow by (auto simp: span_in_def span_aligned_def)
    have m: "merged = butlast merged @ [last merged]" using grow(3) by simp
    have pre: "separated text (butlast merged)" "\<forall>m\<in>set (butlast merged). ts_End m < ts_Start (last merged)"
        "span_in text (last merged)"
      using Cons.prems(2) by (subst (asm) m, simp add: separated_def sorted_wrt_append)+
    have "span_in text ?l" using pre(3) grow(1,5) by (auto simp: span_in_def)
    with pre have sep: "separated text ?ms" by (intro separated_snoc) auto
    have "\<forall>m\<in>set ?ms. \<forall>t\<in>set spans. ts_Start m \<le> ts_Start t"
      using Cons.prems(3) last_in_set [OF grow(3)] by (auto dest: in_set_butlastD)
    note IH = Cons.IH [OF sorted(1) sep this]
    have "ts_Start (last merged) \<le> ts_Start s" using Cons.prems(3) grow(3) by simp
    moreover have "covered (set merged) i \<longleftrightarrow> covered (set (butlast merged)) i \<or>
        (ts_Start (last merged) \<le> int i \<and> int i < ts_End (last merged))" for i
      by (subst m) (auto simp: covered_def)
    moreover have "covered (set ?ms) i \<longleftrightarrow> covered (set (butlast merged)) i \<or>
        (ts_Start (last merged) \<le> int i \<and> int i < ts_End s)" for i
      by (auto simp: covered_def)
    moreover have "covered (insert s (set merged)) i \<longleftrightarrow>
        (ts_Start s \<le> int i \<and> int i < ts_End s) \<or> covered (set merged) i" for i
      by (rule covered_simps)
    ultimately have "covered (set ?ms) i \<longleftrightarrow> covered (insert s (set merged)) i" for i
      using grow(4,5) by (smt (verit))
    with IH grow(1,2) show ?thesis
      unfolding step by (auto split: sum.splits simp: Collect_insert_if fun_eq_iff)
  next
    case inside
    have step: "merge_spans text (s # spans) merged = merge_spans text spans merged"
      using inside by (auto simp: span_in_def span_aligned_def)
    have "ts_Start (last merged) \<le> ts_Start s" using Cons.prems(3) inside(3) by simp
    then have "covered (insert s (set merged)) i \<longleftrightarrow> covered (set merged) i" for i
    proof -
      have "\<exists>m\<in>set merged. ts_Start m \<le> int i \<and> int i < ts_End m" if "ts_Start s \<le> int i" "int i < ts_End s"
        using that inside(3,5) \<open>ts_Start (last merged) \<le> ts_Start s\<close> by (intro bexI [of _ "last merged"]) auto
      then show ?thesis by (auto simp: covered_def)
    qed
    then show ?thesis
      using Cons.IH [OF sorted(1) Cons.prems(2)] Cons.prems(3) inside(1,2)
      unfolding step by (auto split: sum.splits simp: Collect_insert_if fun_eq_iff)
  qed
qed

section \<open>Writing\<close>

lemma mask_uncovered:
  "n \<le> length cs \<Longrightarrow> \<forall>k<n. \<not> cov (i + k) \<Longrightarrow>
     mask cov r i cs = take n cs @ mask cov (r \<and> n = 0) (i + n) (drop n cs) \<and>
     runs cov r i cs = runs cov (r \<and> n = 0) (i + n) (drop n cs)"
proof (induction n arbitrary: r i cs)
  case (Suc n)
  then obtain c cs' where cs: "cs = c # cs'" by (cases cs) auto
  have "\<not> cov i" "\<forall>k<n. \<not> cov (Suc i + k)" using Suc.prems(2) by (force, metis Suc_mono add_Suc add_Suc_right)
  with Suc.IH [of cs' "Suc i" False] Suc.prems(1) cs show ?case by simp
qed simp

lemma mask_covered:
  "n \<le> length cs \<Longrightarrow> \<forall>k<n. cov (i + k) \<Longrightarrow> 0 < n \<Longrightarrow>
     mask cov r i cs = (if r then [] else RedactionToken) @ mask cov True (i + n) (drop n cs) \<and>
     runs cov r i cs = (if r then 0 else 1) + runs cov True (i + n) (drop n cs)"
proof (induction n arbitrary: r i cs)
  case (Suc n)
  then obtain c cs' where cs: "cs = c # cs'" by (cases cs) auto
  have c: "cov i" "\<forall>k<n. cov (Suc i + k)" using Suc.prems(2) by (force, metis Suc_mono add_Suc add_Suc_right)
  show ?case
  proof (cases "n = 0")
    case True
    with c cs show ?thesis by simp
  next
    case False
    with Suc.IH [of cs' "Suc i" True] Suc.prems(1) cs c show ?thesis by simp
  qed
qed simp

lemma mask_run_flag:
  "cs = [] \<or> \<not> cov i \<Longrightarrow> mask cov r i cs = mask cov False i cs \<and> runs cov r i cs = runs cov False i cs"
  by (cases cs) auto

lemma write_spans_mask:
  assumes "separated text ms" "\<forall>m\<in>set ms. int off \<le> ts_Start m" "off \<le> length text"
    and "\<forall>i\<ge>off. cov i = covered (set ms) i"
  shows "write_spans text off ms = mask cov False off (drop off text) \<and>
    length ms = runs cov False off (drop off text)"
  using assms
proof (induction ms arbitrary: off)
  case Nil
  then show ?case
    using mask_uncovered [of "length (drop off text)" "drop off text" cov off False] by simp
next
  case (Cons s ms)
  define a where "a = nat (ts_Start s)"
  define b where "b = nat (ts_End s)"
  have s: "span_in text s" "separated text ms" "\<forall>m\<in>set ms. ts_End s < ts_Start m"
    using Cons.prems(1) by (simp_all add: separated_def)
  have ab: "int off \<le> ts_Start s" "int a = ts_Start s" "int b = ts_End s" "off \<le> a" "a < b" "b \<le> length text"
    using s(1) Cons.prems(2) by (auto simp: span_in_def a_def b_def)
  have later: "\<not> covered (set ms) i" if "i \<le> b" for i
  proof -
    have "int i \<le> ts_End s" using that ab(3) by linarith
    with s(3) show ?thesis by (fastforce simp: covered_def)
  qed
  have gap: "\<forall>k<a - off. \<not> cov (off + k)"
  proof (intro allI impI)
    fix k assume "k < a - off"
    then have "off + k < a" by simp
    with later [of "off + k"] ab Cons.prems(4) show "\<not> cov (off + k)" by auto
  qed
  have inside: "\<forall>k<b - a. cov (a + k)" using ab Cons.prems(4) by auto
  have rest: "\<forall>i\<ge>b. cov i = covered (set ms) i" using ab Cons.prems(4) by auto
  have "\<not> cov b" using rest later [of b] by simp
  then have flag: "mask cov True b (drop b text) = mask cov False b (drop b text)"
      "runs cov True b (drop b text) = runs cov False b (drop b text)"
    using mask_run_flag [of "drop b text" cov b True] by blast+
  have "\<forall>m\<in>set ms. int b \<le> ts_Start m" using s(3) ab(3) by auto
  from Cons.IH [OF s(2) this ab(6) rest]
  have IH: "write_spans text b ms = mask cov False b (drop b text)" "length ms = runs cov False b (drop b text)"
    by blast+
  have d: "drop (a - off) (drop off text) = drop a text" "drop (b - a) (drop a text) = drop b text"
      "off + (a - off) = a" "a + (b - a) = b"
    using ab(4-6) by simp_all
  have 1: "mask cov False off (drop off text) = substr text off a @ mask cov False a (drop a text)"
      "runs cov False off (drop off text) = runs cov False a (drop a text)"
    using mask_uncovered [OF _ gap, of "drop off text" False] ab unfolding d substr_def by simp_all
  have 2: "mask cov False a (drop a text) = RedactionToken @ mask cov True b (drop b text)"
      "runs cov False a (drop a text) = 1 + runs cov True b (drop b text)"
    using mask_covered [OF _ inside, of "drop a text" False] ab unfolding d by simp_all
  show ?case by (simp add: 1 2 flag IH flip: a_def b_def)
qed

lemma mask_none: "\<forall>k. \<not> cov k \<Longrightarrow> mask cov r i cs = cs \<and> runs cov r i cs = 0"
  by (induction cs arbitrary: r i) auto

lemma redact_sorted_ref:
  assumes "sorted (map ts_Start spans)"
  shows "redact_sorted text spans = redact_ref text (set spans)"
proof (cases "merge_spans text spans []")
  case (Inl e)
  with merge_spans_ok [OF assms, of "text" "[]"] show ?thesis
    by (cases e) (auto simp: redact_sorted_def redact_ref_def separated_def)
next
  case (Inr ms)
  with merge_spans_ok [OF assms, of "text" "[]"]
  have ok: "\<forall>s\<in>set spans. span_in text s \<longrightarrow> span_aligned text s" "separated text ms"
      "covered (set ms) = covered {s \<in> set spans. span_in text s}"
    by (simp_all add: separated_def)
  have "\<forall>m\<in>set ms. int 0 \<le> ts_Start m" using ok(2) by (auto simp: separated_def list_all_iff span_in_def)
  from write_spans_mask [OF ok(2) this, where cov = "covered (set ms)"]
  have "write_spans text 0 ms = mask (covered (set ms)) False 0 text" "length ms = runs (covered (set ms)) False 0 text"
    by simp_all
  moreover have "\<not> (\<exists>s\<in>set spans. span_in text s \<and> \<not> span_aligned text s)" using ok(1) by blast
  ultimately show ?thesis
    using Inr ok(3) mask_none [of "covered (set ms)" False 0 "text"]
    by (auto simp: redact_sorted_def redact_ref_def)
qed

end
