(* ===== verification/Redaction_Claims.thy ===== *)
theory Redaction_Claims
  imports Redaction
begin

text \<open>
  The properties of \<open>RedactText\<close>: the result is the one of the reference whatever order the spans
  come in and however the sort orders equal keys, it keeps nothing of the covered bytes, and it is
  valid UTF-8 for a valid text.
\<close>

section \<open>Pieces of a valid text\<close>

lemma valid_bytes_encode: "valid_rune r \<Longrightarrow> valid_bytes (encode_scalar r @ bs) = valid_bytes bs"
  by (subst valid_bytes.simps) (simp add: decode_encode_scalar)

lemma valid_bytes_iff:
  "valid_bytes bs \<longleftrightarrow> (\<exists>rs. list_all valid_rune rs \<and> bs = concat (map encode_scalar rs))"
proof
  show "\<exists>rs. list_all valid_rune rs \<and> bs = concat (map encode_scalar rs)" if "valid_bytes bs"
    using that
  proof (induction bs rule: valid_bytes.induct)
    case (1 bs)
    show ?case
    proof (cases "bs = []")
      case True
      then show ?thesis by (intro exI [of _ "[]"]) simp
    next
      case False
      with "1.prems" obtain r n where d: "decode_valid bs = Some (r, n)" "valid_bytes (drop n bs)"
        by (subst (asm) valid_bytes.simps) (auto split: option.splits)
      with "1.IH" False obtain rs where rs: "list_all valid_rune rs" "drop n bs = concat (map encode_scalar rs)"
        by auto
      have "valid_rune r" "bs = encode_scalar r @ drop n bs" using encode_decode_scalar [OF d(1)] append_take_drop_id [of n bs] by auto
      with rs show ?thesis by (intro exI [of _ "r # rs"]) simp
    qed
  qed
  show "valid_bytes bs" if "\<exists>rs. list_all valid_rune rs \<and> bs = concat (map encode_scalar rs)"
  proof -
    have "list_all valid_rune rs \<Longrightarrow> valid_bytes (concat (map encode_scalar rs))" for rs
      by (induction rs) (simp_all add: valid_bytes_encode, simp add: valid_bytes.simps)
    with that show ?thesis by blast
  qed
qed

lemma encode_scalar_tail: "valid_rune r \<Longrightarrow> 0 < i \<Longrightarrow> i < length (encode_scalar r) \<Longrightarrow> cont (encode_scalar r ! i)"
  by (auto simp: encode_scalar_def cont_def in_range_def nth_Cons' split: if_splits)

text \<open>A position that is the end or holds no continuation byte cuts a valid text into valid texts.\<close>

lemma cut_runes:
  assumes "list_all valid_rune rs" "i \<le> length (concat (map encode_scalar rs))"
    and "i = length (concat (map encode_scalar rs)) \<or> \<not> cont (concat (map encode_scalar rs) ! i)"
  shows "\<exists>k. take i (concat (map encode_scalar rs)) = concat (map encode_scalar (take k rs)) \<and>
    drop i (concat (map encode_scalar rs)) = concat (map encode_scalar (drop k rs))"
  using assms
proof (induction rs arbitrary: i)
  case (Cons r rs)
  let ?n = "length (encode_scalar r)"
  consider (zero) "i = 0" | (mid) "0 < i" "i < ?n" | (after) "?n \<le> i" by linarith
  then show ?case
  proof cases
    case zero
    then show ?thesis by (intro exI [of _ 0]) simp
  next
    case mid
    with Cons.prems encode_scalar_tail [of r i] show ?thesis by (simp add: nth_append)
  next
    case after
    let ?t = "concat (map encode_scalar rs)"
    have "i \<le> ?n + length ?t" "i = ?n + length ?t \<or> \<not> cont ((encode_scalar r @ ?t) ! i)"
      using Cons.prems(2,3) by (simp_all del: length_concat)
    then have "i - ?n \<le> length ?t" "i - ?n = length ?t \<or> \<not> cont (?t ! (i - ?n))"
      using after by (simp_all add: nth_append del: length_concat) linarith+
    with Cons.IH [of "i - ?n"] Cons.prems(1) obtain k where
      "take (i - ?n) ?t = concat (map encode_scalar (take k rs))"
      "drop (i - ?n) ?t = concat (map encode_scalar (drop k rs))"
      by auto
    with after show ?thesis by (intro exI [of _ "Suc k"]) simp
  qed
qed simp

lemma valid_bytes_cut:
  assumes "valid_bytes bs" "i \<le> length bs" "i = length bs \<or> rune_start (bs ! i)"
  shows "valid_bytes (take i bs) \<and> valid_bytes (drop i bs)"
proof -
  obtain rs where rs: "list_all valid_rune rs" "bs = concat (map encode_scalar rs)"
    using assms(1) valid_bytes_iff by blast
  with assms(2,3) cut_runes [of rs i] obtain k where
    "take i bs = concat (map encode_scalar (take k rs))" "drop i bs = concat (map encode_scalar (drop k rs))"
    by (auto simp: rune_start_def)
  moreover have "list_all valid_rune (take k rs)" "list_all valid_rune (drop k rs)"
    using rs(1) by (auto simp: list_all_iff dest: in_set_takeD in_set_dropD)
  ultimately show ?thesis using valid_bytes_iff by metis
qed

lemma valid_bytes_append: "valid_bytes xs \<Longrightarrow> valid_bytes ys \<Longrightarrow> valid_bytes (xs @ ys)"
  unfolding valid_bytes_iff by (metis concat_append list_all_append map_append)

lemma valid_utf8_append: "valid_utf8 xs \<Longrightarrow> valid_utf8 ys \<Longrightarrow> valid_utf8 (xs @ ys)"
  by (simp add: valid_utf8_def valid_bytes_append)

lemma valid_utf8_cut:
  assumes "valid_utf8 s" "0 \<le> i" "i \<le> int (length s)" "validStringBoundary s i"
  shows "valid_utf8 (take (nat i) s)" "valid_utf8 (drop (nat i) s)"
proof -
  have "nat i = 0 \<or> nat i = length s \<or> rune_start (map byte s ! nat i)"
    using assms(2-4) by (cases "nat i < length s") (auto simp: validStringBoundary_def)
  then show "valid_utf8 (take (nat i) s)" "valid_utf8 (drop (nat i) s)"
    using valid_bytes_cut [of "map byte s" "nat i"] assms(1,3)
    by (auto simp: valid_utf8_def take_map drop_map) (simp add: valid_bytes.simps)
qed

section \<open>Merged spans stay aligned\<close>

lemma merge_spans_aligned:
  "merge_spans text spans merged = Inr ms \<Longrightarrow> list_all (span_aligned text) merged \<Longrightarrow> list_all (span_aligned text) ms"
proof (induction "text" spans merged rule: merge_spans.induct)
  case (2 tx sp spans merged)
  have "list_all (span_aligned tx) (butlast merged @ [(last merged)\<lparr>ts_End := ts_End sp\<rparr>])"
    if "merged \<noteq> []" "validStringBoundary tx (ts_End sp)"
    using that "2.prems"(2) last_in_set [OF that(1)]
    by (auto simp: list_all_iff span_aligned_def dest: in_set_butlastD)
  with 2 show ?case by (auto simp: span_aligned_def [of tx sp] split: if_splits)
qed simp

lemma valid_utf8_token: "valid_utf8 RedactionToken"
  by (simp add: valid_utf8_def RedactionToken_def valid_bytes.simps byte_def)

lemma valid_utf8_substr:
  assumes "valid_utf8 s" "validStringBoundary s (int i)" "validStringBoundary s (int j)" "i \<le> j" "j \<le> length s"
  shows "valid_utf8 (substr s i j)"
proof -
  have "valid_utf8 (take j s)" using valid_utf8_cut(1) [OF assms(1), of "int j"] assms(3,5) by simp
  moreover have "validStringBoundary (take j s) (int i)"
    using assms(2,4,5) by (cases "i = j") (auto simp: validStringBoundary_def)
  ultimately have "valid_utf8 (drop i (take j s))" using valid_utf8_cut(2) [of "take j s" "int i"] assms(4,5) by simp
  then show ?thesis by (simp add: substr_def drop_take)
qed

lemma write_spans_valid:
  assumes "valid_utf8 s" "separated s ms" "list_all (span_aligned s) ms" "\<forall>m\<in>set ms. int off \<le> ts_Start m"
    and "off \<le> length s" "validStringBoundary s (int off)"
  shows "valid_utf8 (write_spans s off ms)"
  using assms(2-6)
proof (induction ms arbitrary: off)
  case Nil
  then show ?case using valid_utf8_cut(2) [OF assms(1), of "int off"] by simp
next
  case (Cons m ms)
  obtain a b where ab: "ts_Start m = int a" "ts_End m = int b" "a < b" "b \<le> length s" "off \<le> a"
    using Cons.prems(1,3) by (cases "ts_Start m"; cases "ts_End m") (auto simp: separated_def span_in_def)
  have al: "validStringBoundary s (int a)" "validStringBoundary s (int b)"
    using Cons.prems(2) ab by (simp_all add: span_aligned_def)
  have "valid_utf8 (substr s off a)" using valid_utf8_substr [OF assms(1) Cons.prems(5) al(1)] ab by simp
  moreover have "valid_utf8 (write_spans s b ms)"
    by (rule Cons.IH) (use Cons.prems ab al in \<open>auto simp: separated_def\<close>)
  ultimately show ?case using ab by (simp add: valid_utf8_append valid_utf8_token)
qed

section \<open>Properties\<close>

lemma redact_equals_mask_base: "RedactText s spans = redact_ref s (set spans)"
  using redact_sorted_ref [of "sort_key ts_Start spans" s]
  by (auto simp: RedactText_def redact_ref_def mask_none)

text \<open>C5. Redaction replaces each maximal run of covered bytes by one token and keeps every other
  byte; it fails exactly when a span inside the text cuts a rune.  This holds for the code's sort and
  for every other order a sort by start position may give.\<close>

theorem redact_equals_mask:
  "RedactText text spans = redact_ref text (set spans) \<and>
   (\<forall>sp. mset sp = mset spans \<and> sorted (map ts_Start sp) \<longrightarrow> redact_sorted text sp = redact_ref text (set spans))"
proof -
  have "redact_sorted text sp = redact_ref text (set spans)" if "mset sp = mset spans" "sorted (map ts_Start sp)" for sp
    using redact_sorted_ref [OF that(2)] mset_eq_setD [OF that(1)] by simp
  then show ?thesis using redact_equals_mask_base by blast
qed

lemma mask_cong:
  "length cs = length ds \<Longrightarrow> \<forall>k<length cs. cov (i + k) \<or> cs ! k = ds ! k \<Longrightarrow>
     mask cov r i cs = mask cov r i ds \<and> runs cov r i cs = runs cov r i ds"
proof (induction cs arbitrary: r i ds)
  case (Cons c cs)
  then obtain d ds' where ds: "ds = d # ds'" by (cases ds) auto
  have "\<forall>k<length cs. cov (Suc i + k) \<or> cs ! k = ds' ! k" using Cons.prems ds by fastforce
  with Cons.IH [of ds' "Suc i"] Cons.prems(1) ds have
    "mask cov q (Suc i) cs = mask cov q (Suc i) ds' \<and> runs cov q (Suc i) cs = runs cov q (Suc i) ds'" for q by simp
  moreover have "cov i \<or> c = d" using Cons.prems(2) ds by fastforce
  ultimately show ?case using ds by auto
qed simp

text \<open>Nothing of the covered bytes reaches the redacted text: two texts of the same length that
  differ only inside the spans are redacted to the same text.\<close>

theorem redaction_hides:
  assumes "RedactText s spans = Inr out" "RedactText t spans = Inr out'" "length s = length t"
    and "\<And>i. i < length s \<Longrightarrow> \<not> covered {sp \<in> set spans. span_in s sp} i \<Longrightarrow> s ! i = t ! i"
  shows "out = out'"
proof -
  have "span_in s = span_in t" using assms(3) by (auto simp: span_in_def fun_eq_iff)
  moreover have "mask (covered {sp \<in> set spans. span_in s sp}) False 0 s = mask (covered {sp \<in> set spans. span_in s sp}) False 0 t \<and>
      runs (covered {sp \<in> set spans. span_in s sp}) False 0 s = runs (covered {sp \<in> set spans. span_in s sp}) False 0 t"
    by (rule mask_cong [OF assms(3)]) (use assms(4) in auto)
  moreover have "redact_ref s (set spans) = Inr out" "redact_ref t (set spans) = Inr out'"
    using assms(1,2) redact_equals_mask_base by simp_all
  ultimately show ?thesis by (auto simp: redact_ref_def split: if_splits)
qed

text \<open>The redaction of a valid UTF-8 text is valid UTF-8.\<close>

theorem redaction_valid_utf8:
  assumes "valid_utf8 s" "RedactText s spans = Inr (out, n)"
  shows "valid_utf8 out"
proof (cases "spans = []")
  case True
  with assms show ?thesis by (simp add: RedactText_def)
next
  case False
  then obtain ms where ms: "merge_spans s (sort_key ts_Start spans) [] = Inr ms" "out = (if ms = [] then s else write_spans s 0 ms)"
    using assms(2) by (auto simp: RedactText_def redact_sorted_def split: sum.splits if_splits)
  have "separated s ms" using merge_spans_ok [of "sort_key ts_Start spans" s "[]"] ms(1) by (simp add: separated_def)
  moreover have "list_all (span_aligned s) ms" using merge_spans_aligned [OF ms(1)] by simp
  moreover have "\<forall>m\<in>set ms. int 0 \<le> ts_Start m" using \<open>separated s ms\<close> by (auto simp: separated_def list_all_iff span_in_def)
  ultimately have "valid_utf8 (write_spans s 0 ms)"
    by (intro write_spans_valid [OF assms(1)]) (simp_all add: validStringBoundary_def)
  with ms(2) assms(1) show ?thesis by simp
qed

section \<open>Witnesses\<close>

definition sample_spans :: "TextSpan list" where
  "sample_spans = [\<lparr>ts_Start = 4, ts_End = 6\<rparr>, \<lparr>ts_Start = 3, ts_End = 5\<rparr>]"

lemma sample_redaction:
  "RedactText ''my key.'' sample_spans = Inr (''my [REDACTED].'', 1)"
  "RedactText ''my pin.'' sample_spans = Inr (''my [REDACTED].'', 1)"
  by (simp_all add: RedactText_def redact_sorted_def sample_spans_def validStringBoundary_def rune_start_def cont_def
      in_range_def byte_def substr_def RedactionToken_def)

theorem redact_equals_mask_witness:
  "redact_sorted ''my key.'' (rev sample_spans) = Inr (''my [REDACTED].'', 1)"
  using redact_equals_mask [of "''my key.''" sample_spans] sample_redaction(1) by (simp add: sample_spans_def)

theorem redaction_hides_witness:
  "\<exists>out. RedactText ''my key.'' sample_spans = Inr out \<and> RedactText ''my pin.'' sample_spans = Inr out"
proof -
  have "''my key.'' ! i = ''my pin.'' ! i"
    if "i < length ''my key.''" "\<not> covered {sp \<in> set sample_spans. span_in ''my key.'' sp} i" for i
  proof -
    have "{sp \<in> set sample_spans. span_in ''my key.'' sp} = set sample_spans"
      by (auto simp: sample_spans_def span_in_def)
    with that(2) have "i \<notin> {3, 4, 5}" by (auto simp: sample_spans_def)
    with that(1) show ?thesis by (auto simp: less_Suc_eq numeral_nat)
  qed
  with redaction_hides [OF sample_redaction] have
    "(''my [REDACTED].'', 1 :: int) = (''my [REDACTED].'', 1)" by simp
  with sample_redaction show ?thesis by blast
qed

theorem redaction_valid_utf8_witness:
  "RedactText ''my key.'' sample_spans = Inr (''my [REDACTED].'', 1) \<and> valid_utf8 ''my [REDACTED].''"
proof -
  have "valid_utf8 ''my key.''" by (simp add: valid_utf8_def valid_bytes.simps byte_def)
  from redaction_valid_utf8 [OF this sample_redaction(1)] sample_redaction(1) show ?thesis by simp
qed

end
