(* ===== verification/Routing.thy ===== *)
theory Routing
  imports Prelude
begin

text \<open>\<open>internal/contexts/routing/domain\<close>: routes, and the model names a request is given by its
  route's model mapping.\<close>

type_synonym ExecutionMode = string
type_synonym RoutingAction = string

definition ExecutionInline :: ExecutionMode where [kg_consts]: "ExecutionInline = ''inline''"
definition ExecutionAsyncShadow :: ExecutionMode where [kg_consts]: "ExecutionAsyncShadow = ''async_shadow''"

definition RoutingActionAllow :: RoutingAction where [kg_consts]: "RoutingActionAllow = ''allow''"
definition RoutingActionBlock :: RoutingAction where [kg_consts]: "RoutingActionBlock = ''block''"
definition RoutingActionRedact :: RoutingAction where [kg_consts]: "RoutingActionRedact = ''redact''"
definition RoutingActionShadowLog :: RoutingAction where [kg_consts]: "RoutingActionShadowLog = ''shadow_log''"

lemma execution_distinct [simp]: "ExecutionInline \<noteq> ExecutionAsyncShadow" "ExecutionAsyncShadow \<noteq> ExecutionInline"
  by (simp_all add: kg_consts)

record ModelMapping =
  mm_Requested :: string
  mm_Mapped :: string
  mm_Upstream :: string

record Route =
  rt_Key :: string
  rt_Method :: string
  rt_Path :: string
  rt_ProviderKey :: string
  rt_VerdictProviderKey :: string
  rt_ModelMapping :: ModelMapping
  rt_Execution :: ExecutionMode
  rt_Fallback :: RoutingAction
  rt_RequireClientAuth :: bool

record ResolvedModelMapping =
  rmm_Requested :: string
  rmm_Mapped :: string
  rmm_Upstream :: string
  rmm_Found :: bool

definition zero_ResolvedModelMapping :: ResolvedModelMapping where
  "zero_ResolvedModelMapping = \<lparr>rmm_Requested = [], rmm_Mapped = [], rmm_Upstream = [], rmm_Found = False\<rparr>"

definition Resolve :: "ModelMapping \<Rightarrow> string \<Rightarrow> ResolvedModelMapping" where
  "Resolve m requested =
     (if mm_Requested m \<noteq> [] \<and> mm_Requested m \<noteq> requested then zero_ResolvedModelMapping
      else
        (let mapped = (if mm_Mapped m = [] then requested else mm_Mapped m);
             upstream = (if mm_Upstream m \<noteq> [] \<and> (mm_Requested m = [] \<or> mm_Requested m = requested)
                         then mm_Upstream m else mapped);
             upstream = (if upstream = [] then requested else upstream)
         in \<lparr>rmm_Requested = requested, rmm_Mapped = mapped, rmm_Upstream = upstream, rmm_Found = True\<rparr>))"

lemma Resolve_Found: "rmm_Found (Resolve m q) \<longleftrightarrow> mm_Requested m = [] \<or> mm_Requested m = q"
  by (simp add: Resolve_def Let_def zero_ResolvedModelMapping_def)

text \<open>A resolved request always names an upstream model, unless it names no model and nothing is
  configured; the second fallback of the code is never taken.\<close>

lemma Resolve_upstream:
  "rmm_Found (Resolve m q) \<Longrightarrow>
     rmm_Upstream (Resolve m q) = (if mm_Upstream m \<noteq> [] then mm_Upstream m else if mm_Mapped m \<noteq> [] then mm_Mapped m else q)"
  by (auto simp: Resolve_def Let_def zero_ResolvedModelMapping_def)

lemma Resolve_mapped:
  "rmm_Found (Resolve m q) \<Longrightarrow> rmm_Mapped (Resolve m q) = (if mm_Mapped m \<noteq> [] then mm_Mapped m else q)"
  by (auto simp: Resolve_def Let_def zero_ResolvedModelMapping_def)

end
