(* ===== verification/Verdict.thy ===== *)
theory Verdict
  imports Prelude
begin

text \<open>
  \<open>internal/contexts/verdict\<close>: the verdict contract (types.go), the deterministic provider, the
  fallback wrapper and the HTTP provider.

  A \<open>context.Context\<close> is the moment it is done, if ever, and the error it then reports; time is
  explicit, and a provider maps a context, its start time and a request to its finishing time and
  its result or error.  The HTTP transport and the JSON codec are parameters of the HTTP provider.
\<close>

section \<open>Contexts and errors\<close>

datatype ctx_error = ContextCanceled | DeadlineExceeded

datatype verdict_error =
    CtxError ctx_error
  | EndpointRequired
  | EncodeFailed string
  | CreateRequestFailed string
  | SendFailed string
  | HttpStatus int
  | DecodeFailed string
  | ProviderError string

record vctx =
  ctx_done :: "(gotime \<times> ctx_error) option"

definition background :: vctx where
  "background = \<lparr>ctx_done = None\<rparr>"

definition ctx_Err :: "vctx \<Rightarrow> gotime \<Rightarrow> ctx_error option" where
  "ctx_Err c now = (case ctx_done c of None \<Rightarrow> None | Some (t, e) \<Rightarrow> if t \<le> now then Some e else None)"

definition WithTimeout :: "vctx \<Rightarrow> gotime \<Rightarrow> duration \<Rightarrow> vctx" where
  "WithTimeout c now d =
     (case ctx_done c of
        None \<Rightarrow> \<lparr>ctx_done = Some (now + d, DeadlineExceeded)\<rparr>
      | Some (t, e) \<Rightarrow> if t \<le> now + d then c else \<lparr>ctx_done = Some (now + d, DeadlineExceeded)\<rparr>)"

section \<open>Types (types.go)\<close>

type_synonym VerdictDirection = string
type_synonym VerdictAction = string
type_synonym RiskLevel = string

definition VerdictDirectionInput :: VerdictDirection where [kg_consts]: "VerdictDirectionInput = ''input''"
definition VerdictDirectionOutput :: VerdictDirection where [kg_consts]: "VerdictDirectionOutput = ''output''"
definition VerdictActionAllow :: VerdictAction where [kg_consts]: "VerdictActionAllow = ''allow''"
definition VerdictActionBlock :: VerdictAction where [kg_consts]: "VerdictActionBlock = ''block''"
definition VerdictActionRedact :: VerdictAction where [kg_consts]: "VerdictActionRedact = ''redact''"
definition VerdictActionShadowLog :: VerdictAction where [kg_consts]: "VerdictActionShadowLog = ''shadow_log''"
definition RiskUnknown :: RiskLevel where [kg_consts]: "RiskUnknown = ''unknown''"
definition RiskLow :: RiskLevel where [kg_consts]: "RiskLow = ''low''"
definition RiskMedium :: RiskLevel where [kg_consts]: "RiskMedium = ''medium''"
definition RiskHigh :: RiskLevel where [kg_consts]: "RiskHigh = ''high''"
definition RiskCritical :: RiskLevel where [kg_consts]: "RiskCritical = ''critical''"

record VerdictRequest =
  vr_RequestID :: string
  vr_CorrelationID :: string
  vr_RouteKey :: string
  vr_ProviderKey :: string
  vr_Model :: string
  vr_Direction :: VerdictDirection
  vr_Text :: string
  vr_Metadata :: "string \<rightharpoonup> string"

record MatchedSpan =
  span_Start :: int
  span_End :: int
  span_Category :: string
  span_TextHash :: string

record VerdictResult =
  res_RiskLevel :: RiskLevel
  res_Categories :: "string list"
  res_Confidence :: rat
  res_SuggestedAction :: VerdictAction
  res_MatchedSpans :: "MatchedSpan list"
  res_Rationale :: string
  res_Latency :: duration
  res_ProviderName :: string
  res_FallbackUsed :: bool
  res_Error :: string

definition zero_VerdictResult :: VerdictResult where
  "zero_VerdictResult = \<lparr>res_RiskLevel = [], res_Categories = [], res_Confidence = 0, res_SuggestedAction = [],
     res_MatchedSpans = [], res_Rationale = [], res_Latency = 0, res_ProviderName = [],
     res_FallbackUsed = False, res_Error = []\<rparr>"

type_synonym verdict_outcome = "gotime \<times> (verdict_error + VerdictResult)"
type_synonym verdict_provider = "vctx \<Rightarrow> gotime \<Rightarrow> VerdictRequest \<Rightarrow> verdict_outcome"

section \<open>Deterministic provider (deterministic.go)\<close>

definition positive_latency :: "duration \<Rightarrow> duration" where
  "positive_latency d = (if d \<le> 0 then 1 else d)"

text \<open>\<open>took\<close> is what the clock advances by while the provider runs.\<close>

definition deterministicProvider_Evaluate :: "VerdictResult \<Rightarrow> duration \<Rightarrow> verdict_provider" where
  "deterministicProvider_Evaluate result took ctx start req =
     (case ctx_Err ctx start of
        Some e \<Rightarrow> (start, Inl (CtxError e))
      | None \<Rightarrow> (start + took, Inr (result\<lparr>res_Latency := positive_latency took\<rparr>)))"

section \<open>Fallback wrapper (fallback.go)\<close>

record FallbackOptions =
  fo_ProviderName :: string
  fo_Timeout :: duration
  fo_Action :: VerdictAction

definition fallback_result ::
  "FallbackOptions \<Rightarrow> (verdict_error \<Rightarrow> string) \<Rightarrow> verdict_error \<Rightarrow> duration \<Rightarrow> VerdictResult" where
  "fallback_result opts error_text err took =
     (let action = (if fo_Action opts = [] then VerdictActionShadowLog else fo_Action opts) in
      zero_VerdictResult\<lparr>res_RiskLevel := RiskUnknown, res_Categories := [], res_SuggestedAction := action,
        res_Latency := positive_latency took, res_ProviderName := fo_ProviderName opts,
        res_FallbackUsed := True, res_Error := error_text err\<rparr>)"

definition fallbackProvider_Evaluate ::
  "(verdict_error \<Rightarrow> string) \<Rightarrow> verdict_provider \<Rightarrow> FallbackOptions \<Rightarrow> verdict_provider" where
  "fallbackProvider_Evaluate error_text provider opts parentCtx start req =
     (let ctx = (if fo_Timeout opts > 0 then WithTimeout parentCtx start (fo_Timeout opts) else parentCtx);
          (now, outcome) = provider ctx start req
      in case outcome of
        Inr result \<Rightarrow>
          (now, Inr (if res_Latency result \<le> 0 then result\<lparr>res_Latency := positive_latency (now - start)\<rparr> else result))
      | Inl err \<Rightarrow>
          (case ctx_Err parentCtx now of
             Some parentErr \<Rightarrow> (now, Inl (CtxError parentErr))
           | None \<Rightarrow> (now, Inr (fallback_result opts error_text err (now - start)))))"

definition WithFallback :: "(verdict_error \<Rightarrow> string) \<Rightarrow> verdict_provider \<Rightarrow> FallbackOptions \<Rightarrow> verdict_provider" where
  "WithFallback error_text provider opts = fallbackProvider_Evaluate error_text provider opts"

section \<open>HTTP provider (httpprovider/http\_provider.go)\<close>

record HTTPProviderOptions =
  hp_Name :: string
  hp_Endpoint :: string
  hp_APIKey :: string
  hp_Timeout :: duration

record httpProviderRequest =
  hpr_RequestID :: string
  hpr_CorrelationID :: string
  hpr_RouteKey :: string
  hpr_ProviderKey :: string
  hpr_Model :: string
  hpr_Direction :: VerdictDirection
  hpr_Text :: string
  hpr_Metadata :: "string \<rightharpoonup> string"

record httpProviderMatchedSpan =
  hps_Start :: int
  hps_End :: int
  hps_Category :: string
  hps_TextHash :: string

record httpProviderResult =
  hres_RiskLevel :: RiskLevel
  hres_Categories :: "string list"
  hres_Confidence :: rat
  hres_SuggestedAction :: VerdictAction
  hres_MatchedSpans :: "httpProviderMatchedSpan list"
  hres_Rationale :: string
  hres_ProviderName :: string
  hres_FallbackUsed :: bool
  hres_Error :: string

record http_call =
  call_URL :: string
  call_Headers :: "string \<rightharpoonup> string"
  call_Body :: string

text \<open>The environment of the provider: JSON, the request constructor and the transport.\<close>

record http_env =
  env_marshal :: "httpProviderRequest \<Rightarrow> string + string"
  env_new_request :: "string \<Rightarrow> string option"
  env_do :: "vctx \<Rightarrow> gotime \<Rightarrow> http_call \<Rightarrow> gotime \<times> (string + (int \<times> string))"
  env_decode :: "string \<Rightarrow> string + httpProviderResult"

definition httpProviderRequestFromDomain :: "VerdictRequest \<Rightarrow> httpProviderRequest" where
  "httpProviderRequestFromDomain r =
     \<lparr>hpr_RequestID = vr_RequestID r, hpr_CorrelationID = vr_CorrelationID r, hpr_RouteKey = vr_RouteKey r,
      hpr_ProviderKey = vr_ProviderKey r, hpr_Model = vr_Model r, hpr_Direction = vr_Direction r,
      hpr_Text = vr_Text r, hpr_Metadata = vr_Metadata r\<rparr>"

definition domainResult :: "httpProviderResult \<Rightarrow> VerdictResult" where
  "domainResult r =
     \<lparr>res_RiskLevel = hres_RiskLevel r, res_Categories = hres_Categories r, res_Confidence = hres_Confidence r,
      res_SuggestedAction = hres_SuggestedAction r,
      res_MatchedSpans = map (\<lambda>s. \<lparr>span_Start = hps_Start s, span_End = hps_End s,
        span_Category = hps_Category s, span_TextHash = hps_TextHash s\<rparr>) (hres_MatchedSpans r),
      res_Rationale = hres_Rationale r, res_Latency = 0, res_ProviderName = hres_ProviderName r,
      res_FallbackUsed = hres_FallbackUsed r, res_Error = hres_Error r\<rparr>"

definition verdict_headers :: "HTTPProviderOptions \<Rightarrow> string \<rightharpoonup> string" where
  "verdict_headers p =
     (let h = [''Content-Type'' \<mapsto> ''application/json'', ''Accept'' \<mapsto> ''application/json''] in
      if hp_APIKey p \<noteq> [] then h(''Authorization'' \<mapsto> ''Bearer '' @ hp_APIKey p) else h)"

definition httpProvider_Evaluate :: "http_env \<Rightarrow> HTTPProviderOptions \<Rightarrow> verdict_provider" where
  "httpProvider_Evaluate env p parentCtx start req =
     (if hp_Endpoint p = [] then (start, Inl EndpointRequired)
      else
        (let ctx = (if hp_Timeout p > 0 then WithTimeout parentCtx start (hp_Timeout p) else parentCtx) in
         case env_marshal env (httpProviderRequestFromDomain req) of
           Inl e \<Rightarrow> (start, Inl (EncodeFailed e))
         | Inr body \<Rightarrow>
             (case env_new_request env (hp_Endpoint p) of
                Some e \<Rightarrow> (start, Inl (CreateRequestFailed e))
              | None \<Rightarrow>
                  (let (now, reply) = env_do env ctx start
                         \<lparr>call_URL = hp_Endpoint p, call_Headers = verdict_headers p, call_Body = body\<rparr>
                   in case reply of
                     Inl e \<Rightarrow> (now, Inl (SendFailed e))
                   | Inr (status, payload) \<Rightarrow>
                       if status < 200 \<or> status \<ge> 300 then (now, Inl (HttpStatus status))
                       else case env_decode env payload of
                         Inl e \<Rightarrow> (now, Inl (DecodeFailed e))
                       | Inr wire \<Rightarrow>
                           (let result = (domainResult wire)\<lparr>res_Latency := positive_latency (now - start)\<rparr> in
                            (now, Inr (if res_ProviderName result = []
                                       then result\<lparr>res_ProviderName := hp_Name p\<rparr> else result)))))))"

section \<open>Lemmas\<close>

lemma positive_latency_pos [simp]: "positive_latency d > 0"
  by (simp add: positive_latency_def)

lemma positive_latency_id: "d > 0 \<Longrightarrow> positive_latency d = d"
  by (simp add: positive_latency_def)

lemma WithTimeout_earlier:
  "ctx_Err c now = Some e \<Longrightarrow> ctx_Err (WithTimeout c start d) now \<noteq> None"
  by (auto simp: ctx_Err_def WithTimeout_def split: option.splits prod.splits if_splits)

lemma WithTimeout_deadline: "ctx_Err (WithTimeout c start d) (start + d) \<noteq> None"
  by (auto simp: ctx_Err_def WithTimeout_def split: option.splits)

text \<open>A provider result counts as usable when its latency is positive.\<close>

lemma fallback_cases:
  assumes "provider (if fo_Timeout opts > 0 then WithTimeout ctx start (fo_Timeout opts) else ctx) start req = (now, outcome)"
  shows "fallbackProvider_Evaluate etxt provider opts ctx start req =
    (now, case outcome of
       Inr r \<Rightarrow> Inr (if res_Latency r \<le> 0 then r\<lparr>res_Latency := positive_latency (now - start)\<rparr> else r)
     | Inl e \<Rightarrow> (case ctx_Err ctx now of Some pe \<Rightarrow> Inl (CtxError pe)
                 | None \<Rightarrow> Inr (fallback_result opts etxt e (now - start))))"
  using assms by (simp add: fallbackProvider_Evaluate_def Let_def split: sum.split option.split)

lemma http_latency_positive:
  "httpProvider_Evaluate env p ctx start req = (now, Inr r) \<Longrightarrow> res_Latency r > 0"
  by (auto simp: httpProvider_Evaluate_def Let_def split: if_splits sum.splits option.splits prod.splits)


end
