(* ===== verification/Traffic.thy ===== *)
theory Traffic
  imports Platform
begin

text \<open>\<open>internal/contexts/traffic/domain\<close>: the traffic event and the body hash.\<close>

type_synonym TrafficDirection = string
type_synonym TrafficAction = string

record Event =
  ev_EventID :: string
  ev_SchemaVersion :: string
  ev_EventTime :: gotime
  ev_RequestID :: string
  ev_CorrelationID :: string
  ev_ConfigRevisionNumber :: int
  ev_SnapshotHash :: string
  ev_ClientID :: string
  ev_RouteID :: string
  ev_ProviderID :: string
  ev_VerdictProviderID :: string
  ev_PolicyBundleIDs :: "string list"
  ev_HTTPMethod :: string
  ev_APIPath :: string
  ev_EndpointKind :: string
  ev_RequestedModel :: string
  ev_MappedModel :: string
  ev_UpstreamModel :: string
  ev_GatewayStatus :: uint16
  ev_UpstreamStatus :: uint16
  ev_ErrorType :: string
  ev_BlockReason :: string
  ev_FallbackTriggered :: bool
  ev_Direction :: TrafficDirection
  ev_Verdict :: string
  ev_Action :: TrafficAction
  ev_RiskLevel :: string
  ev_Categories :: "string list"
  ev_Confidence :: rat
  ev_DetectorCategories :: "string list"
  ev_MatchedSpanCount :: uint32
  ev_PolicyRuleIDs :: "string list"
  ev_RequestHash :: string
  ev_ResponseHash :: string
  ev_RequestPayload :: string
  ev_ResponsePayload :: string
  ev_RequestBytes :: int
  ev_ResponseBytes :: int
  ev_GatewayLatency :: duration
  ev_DetectorLatency :: duration
  ev_VerdictLatency :: duration
  ev_UpstreamLatency :: duration
  ev_QueueDelay :: duration
  ev_TotalLatency :: duration
  ev_StreamingChunkCount :: int
  ev_RedactionCount :: int
  ev_TerminationReason :: string
  ev_PartialOutput :: bool
  ev_RawCapturePolicyID :: string
  ev_RetentionPolicyID :: string
  ev_CaptureReference :: string
  ev_SinkStatus :: string
  ev_RetryCount :: uint16
  ev_SpoolStatus :: string
  ev_Dropped :: bool
  ev_DropReason :: string

definition HashBody :: "platform \<Rightarrow> string \<Rightarrow> string" where
  "HashBody P body = hex_encode (sha256 P body)"

lemma length_HashBody: "sha256_ok P \<Longrightarrow> length (HashBody P body) = 64"
  by (simp add: HashBody_def sha256_ok_def sha256_size_def)

end
