(* ===== verification/Lifecycle.thy ===== *)
theory Lifecycle
  imports Policy Routing Verdict Traffic
begin

text \<open>
  \<open>internal/contexts/gateway/application/types.go\<close> and \<open>lifecycle.go\<close>: the transport-neutral
  decisions of an exchange.  A struct that embeds \<open>LifecycleDecision\<close> or another struct is an
  extension of its record.
\<close>

section \<open>Reject reasons\<close>

type_synonym RejectReason = string

definition RejectUnsupportedPath :: RejectReason where [kg_consts]: "RejectUnsupportedPath = ''unsupported_path''"
definition RejectMissingProvider :: RejectReason where [kg_consts]: "RejectMissingProvider = ''missing_provider''"
definition RejectAuditSinkUnhealthy :: RejectReason where [kg_consts]: "RejectAuditSinkUnhealthy = ''audit_sink_unhealthy''"
definition RejectMissingModelMapping :: RejectReason where [kg_consts]: "RejectMissingModelMapping = ''missing_model_mapping''"
definition RejectMissingClientKey :: RejectReason where [kg_consts]: "RejectMissingClientKey = ''missing_client_key''"
definition RejectInvalidClientKey :: RejectReason where [kg_consts]: "RejectInvalidClientKey = ''invalid_client_key''"
definition RejectDisabledClientKey :: RejectReason where [kg_consts]: "RejectDisabledClientKey = ''disabled_client_key''"
definition RejectRevokedClientKey :: RejectReason where [kg_consts]: "RejectRevokedClientKey = ''revoked_client_key''"
definition RejectMissingLimitPolicy :: RejectReason where [kg_consts]: "RejectMissingLimitPolicy = ''missing_limit_policy''"
definition RejectRateLimitExceeded :: RejectReason where [kg_consts]: "RejectRateLimitExceeded = ''rate_limit_exceeded''"
definition RejectConcurrencyLimitExceeded :: RejectReason where [kg_consts]: "RejectConcurrencyLimitExceeded = ''concurrency_limit_exceeded''"
definition RejectInvalidJSON :: RejectReason where [kg_consts]: "RejectInvalidJSON = ''invalid_json''"
definition RejectInvalidRequest :: RejectReason where [kg_consts]: "RejectInvalidRequest = ''invalid_request''"
definition RejectRequestTooLarge :: RejectReason where [kg_consts]: "RejectRequestTooLarge = ''request_too_large''"
definition RejectRedactionFailed :: RejectReason where [kg_consts]: "RejectRedactionFailed = ''redaction_failed''"
definition RejectUpstreamError :: RejectReason where [kg_consts]: "RejectUpstreamError = ''upstream_error''"
definition RejectUpstreamResponseTooLarge :: RejectReason where [kg_consts]: "RejectUpstreamResponseTooLarge = ''upstream_response_too_large''"
definition RejectBlockedInput :: RejectReason where [kg_consts]: "RejectBlockedInput = ''blocked_input''"
definition RejectBlockedOutput :: RejectReason where [kg_consts]: "RejectBlockedOutput = ''blocked_output''"

section \<open>Records\<close>

record ClientIdentity =
  ci_ID :: string

record LimitPolicy =
  lim_RequestsPerWindow :: int
  lim_Window :: duration
  lim_MaxConcurrentRequests :: int
  lim_MaxBodyBytes :: int

record PolicyEvaluationInput =
  pei_RouteKey :: string
  pei_ProviderKey :: string
  pei_Model :: string
  pei_Direction :: Direction
  pei_Text :: string
  pei_ModelSignal :: ModelSignal
  pei_FallbackAction :: Action

record LifecycleDecision =
  ld_Allowed :: bool
  ld_Reason :: RejectReason

record ModelMappingInput =
  mmi_RequestedModel :: string
  mmi_MappedModel :: string
  mmi_UpstreamModel :: string
  mmi_Found :: bool

record ModelMappingResult = LifecycleDecision +
  mmr_RequestedModel :: string
  mmr_MappedModel :: string
  mmr_UpstreamModel :: string

record DecodedRequestInput =
  dri_DecodeFailed :: bool
  dri_ModelMapping :: ModelMappingInput

record EnforcementResult =
  er_Blocked :: bool
  er_RedactionNeeded :: bool
  er_Reason :: RejectReason
  er_AllowObservation :: bool

record ExchangeInfrastructureInput =
  eii_ProviderFound :: bool
  eii_AuditHealthy :: bool

record PolicyEnforcementInput =
  pfi_Direction :: Direction
  pfi_Decision :: Decision
  pfi_RedactionAttempted :: bool
  pfi_RedactionText :: string
  pfi_RedactionCount :: int
  pfi_RedactionFailed :: bool
  pfi_RedactionFailureTag :: string

record PolicyEnforcementResult = EnforcementResult +
  per_RedactionRejected :: bool

record InputRequestLifecycleInput =
  ili_PolicyEvaluated :: bool
  ili_Decision :: Decision
  ili_RedactionAttempted :: bool
  ili_RedactionText :: string
  ili_RedactionCount :: int
  ili_RedactionFailed :: bool
  ili_RedactionFailureTag :: string

record InputRequestLifecycleResult = LifecycleDecision +
  ilr_PolicyDecisionObserved :: bool
  ilr_RedactionNeeded :: bool
  ilr_RedactionRejected :: bool

record UpstreamResponseInput =
  uri_StatusCode :: int
  uri_ReadFailed :: bool
  uri_TooLarge :: bool
  uri_DecodeFailed :: bool

record OutputResponseLifecycleInput = UpstreamResponseInput +
  oli_PolicyEvaluated :: bool
  oli_Decision :: Decision
  oli_RedactionAttempted :: bool
  oli_RedactionText :: string
  oli_RedactionCount :: int
  oli_RedactionFailed :: bool
  oli_RedactionFailureTag :: string

record OutputResponseLifecycleResult = LifecycleDecision +
  olr_PolicyDecisionObserved :: bool
  olr_RedactionNeeded :: bool
  olr_RedactionRejected :: bool

record UpstreamRequestInput =
  uqi_ProjectionFailed :: bool

record UpstreamExchangeInput =
  uei_ForwardFailed :: bool
  uei_StatusCode :: int
  uei_Stream :: bool

record UpstreamExchangeResult = LifecycleDecision +
  uer_Stream :: bool

record RequestBodyInput =
  rbi_ReadFailed :: bool
  rbi_TooLarge :: bool

record RedactionInput =
  ri_Text :: string
  ri_Redactions :: int
  ri_Failed :: bool

record StreamingLifecycleDecision =
  sld_Terminated :: bool
  sld_TerminationReason :: string

record StreamingDeltaInput =
  sdi_DeltaObserved :: bool
  sdi_PolicyDecision :: Decision
  sdi_CollectionAccepted :: bool

record TrafficEventClassificationInput =
  tci_Direction :: Direction
  tci_Decision :: Decision
  tci_Verdict :: VerdictResult
  tci_TerminationReason :: string

record TrafficEventClassification =
  tec_ErrorType :: string
  tec_BlockReason :: string
  tec_FallbackTriggered :: bool
  tec_MatchedSpanCount :: uint32
  tec_DetectorCategories :: "string list"
  tec_PolicyRuleIDs :: "string list"
  tec_Action :: TrafficAction

section \<open>Decisions (lifecycle.go)\<close>

definition allowed :: LifecycleDecision where
  "allowed = \<lparr>ld_Allowed = True, ld_Reason = []\<rparr>"

definition rejected :: "RejectReason \<Rightarrow> LifecycleDecision" where
  "rejected r = \<lparr>ld_Allowed = False, ld_Reason = r\<rparr>"

definition RouteAvailable :: "bool \<Rightarrow> LifecycleDecision" where
  "RouteAvailable found = (if \<not> found then rejected RejectUnsupportedPath else allowed)"

definition ProviderAvailable :: "bool \<Rightarrow> LifecycleDecision" where
  "ProviderAvailable found = (if \<not> found then rejected RejectMissingProvider else allowed)"

definition AuditHealthy :: "bool \<Rightarrow> LifecycleDecision" where
  "AuditHealthy healthy = (if \<not> healthy then rejected RejectAuditSinkUnhealthy else allowed)"

definition ClassifyExchangeInfrastructure :: "ExchangeInfrastructureInput \<Rightarrow> LifecycleDecision" where
  "ClassifyExchangeInfrastructure i =
     (let decision = ProviderAvailable (eii_ProviderFound i) in
      if \<not> ld_Allowed decision then decision else AuditHealthy (eii_AuditHealthy i))"

definition ResolveModelMapping :: "ModelMappingInput \<Rightarrow> ModelMappingResult" where
  "ResolveModelMapping i =
     (if \<not> mmi_Found i
      then \<lparr>ld_Allowed = False, ld_Reason = RejectMissingModelMapping, mmr_RequestedModel = mmi_RequestedModel i,
            mmr_MappedModel = [], mmr_UpstreamModel = []\<rparr>
      else \<lparr>ld_Allowed = True, ld_Reason = [], mmr_RequestedModel = mmi_RequestedModel i,
            mmr_MappedModel = mmi_MappedModel i, mmr_UpstreamModel = mmi_UpstreamModel i\<rparr>)"

definition ClassifyDecodedRequest :: "DecodedRequestInput \<Rightarrow> ModelMappingResult" where
  "ClassifyDecodedRequest i =
     (if dri_DecodeFailed i
      then \<lparr>ld_Allowed = False, ld_Reason = RejectInvalidJSON, mmr_RequestedModel = [], mmr_MappedModel = [],
            mmr_UpstreamModel = []\<rparr>
      else ResolveModelMapping (dri_ModelMapping i))"

definition blockedReason :: "Direction \<Rightarrow> RejectReason" where
  "blockedReason direction =
     (if direction = DirectionInput then RejectBlockedInput
      else if direction = DirectionOutput then RejectBlockedOutput
      else ''blocked'')"

definition redactionReason :: "RejectReason \<Rightarrow> string \<Rightarrow> RejectReason" where
  "redactionReason reason fallback =
     (if reason \<noteq> [] then reason else if fallback = [] then RejectRedactionFailed else fallback)"

definition ClassifyEnforcement :: "Direction \<Rightarrow> Decision \<Rightarrow> EnforcementResult" where
  "ClassifyEnforcement direction decision =
     (if dec_Action decision = ActionBlock
      then \<lparr>er_Blocked = True, er_RedactionNeeded = False, er_Reason = blockedReason direction, er_AllowObservation = False\<rparr>
      else if dec_Action decision = ActionRedact
      then \<lparr>er_Blocked = False, er_RedactionNeeded = True, er_Reason = [], er_AllowObservation = False\<rparr>
      else \<lparr>er_Blocked = False, er_RedactionNeeded = False, er_Reason = [], er_AllowObservation = True\<rparr>)"

definition ClassifyInputEnforcement :: "Decision \<Rightarrow> EnforcementResult" where
  "ClassifyInputEnforcement decision = ClassifyEnforcement DirectionInput decision"

definition ClassifyOutputEnforcement :: "Decision \<Rightarrow> EnforcementResult" where
  "ClassifyOutputEnforcement decision = ClassifyEnforcement DirectionOutput decision"

definition ClassifyRedaction :: "RedactionInput \<Rightarrow> LifecycleDecision" where
  "ClassifyRedaction i =
     (if ri_Failed i \<or> (ri_Redactions i = 0 \<and> ri_Text i \<noteq> []) then rejected RejectRedactionFailed else allowed)"

definition ClassifyPolicyEnforcement :: "PolicyEnforcementInput \<Rightarrow> PolicyEnforcementResult" where
  "ClassifyPolicyEnforcement i =
     (let enforcement = ClassifyEnforcement (pfi_Direction i) (pfi_Decision i);
          result = EnforcementResult.extend enforcement (PolicyEnforcementResult.fields False)
      in if er_Blocked enforcement \<or> \<not> er_RedactionNeeded enforcement \<or> \<not> pfi_RedactionAttempted i then result
         else
           (let redaction = ClassifyRedaction \<lparr>ri_Text = pfi_RedactionText i,
                  ri_Redactions = pfi_RedactionCount i, ri_Failed = pfi_RedactionFailed i\<rparr>
            in if ld_Allowed redaction then result\<lparr>er_AllowObservation := True\<rparr>
               else result\<lparr>per_RedactionRejected := True,
                           er_Reason := redactionReason (ld_Reason redaction) (pfi_RedactionFailureTag i)\<rparr>))"

definition ClassifyInputPolicyEnforcement :: "PolicyEnforcementInput \<Rightarrow> PolicyEnforcementResult" where
  "ClassifyInputPolicyEnforcement i = ClassifyPolicyEnforcement (i\<lparr>pfi_Direction := DirectionInput\<rparr>)"

definition ClassifyOutputPolicyEnforcement :: "PolicyEnforcementInput \<Rightarrow> PolicyEnforcementResult" where
  "ClassifyOutputPolicyEnforcement i = ClassifyPolicyEnforcement (i\<lparr>pfi_Direction := DirectionOutput\<rparr>)"

definition ClassifyInputRequest :: "InputRequestLifecycleInput \<Rightarrow> InputRequestLifecycleResult" where
  "ClassifyInputRequest i =
     (if \<not> ili_PolicyEvaluated i
      then \<lparr>ld_Allowed = True, ld_Reason = [], ilr_PolicyDecisionObserved = False, ilr_RedactionNeeded = False,
            ilr_RedactionRejected = False\<rparr>
      else
        (let enforcement = ClassifyInputPolicyEnforcement
               \<lparr>pfi_Direction = [], pfi_Decision = ili_Decision i, pfi_RedactionAttempted = ili_RedactionAttempted i,
                pfi_RedactionText = ili_RedactionText i, pfi_RedactionCount = ili_RedactionCount i,
                pfi_RedactionFailed = ili_RedactionFailed i, pfi_RedactionFailureTag = ili_RedactionFailureTag i\<rparr>;
             result = \<lparr>ld_Allowed = True, ld_Reason = [], ilr_PolicyDecisionObserved = True,
               ilr_RedactionNeeded = (er_RedactionNeeded enforcement \<and> \<not> ili_RedactionAttempted i),
               ilr_RedactionRejected = per_RedactionRejected enforcement\<rparr>
         in if er_Blocked enforcement \<or> per_RedactionRejected enforcement
            then result\<lparr>ld_Allowed := False, ld_Reason := er_Reason enforcement\<rparr>
            else result))"

definition ClassifyRequestBody :: "RequestBodyInput \<Rightarrow> LifecycleDecision" where
  "ClassifyRequestBody i =
     (if rbi_ReadFailed i then rejected RejectInvalidRequest
      else if rbi_TooLarge i then rejected RejectRequestTooLarge
      else allowed)"

definition ClassifyUpstreamResponse :: "'a UpstreamResponseInput_scheme \<Rightarrow> LifecycleDecision" where
  "ClassifyUpstreamResponse i =
     (if uri_ReadFailed i then rejected RejectUpstreamError
      else if uri_TooLarge i then rejected RejectUpstreamResponseTooLarge
      else if uri_StatusCode i \<ge> 400 then rejected RejectUpstreamError
      else if uri_DecodeFailed i then rejected RejectUpstreamError
      else allowed)"

definition ClassifyOutputResponse :: "OutputResponseLifecycleInput \<Rightarrow> OutputResponseLifecycleResult" where
  "ClassifyOutputResponse i =
     (let decision = ClassifyUpstreamResponse i in
      if \<not> ld_Allowed decision
      then LifecycleDecision.extend decision (OutputResponseLifecycleResult.fields False False False)
      else if \<not> oli_PolicyEvaluated i
      then \<lparr>ld_Allowed = True, ld_Reason = [], olr_PolicyDecisionObserved = False, olr_RedactionNeeded = False,
            olr_RedactionRejected = False\<rparr>
      else
        (let enforcement = ClassifyOutputPolicyEnforcement
               \<lparr>pfi_Direction = [], pfi_Decision = oli_Decision i, pfi_RedactionAttempted = oli_RedactionAttempted i,
                pfi_RedactionText = oli_RedactionText i, pfi_RedactionCount = oli_RedactionCount i,
                pfi_RedactionFailed = oli_RedactionFailed i, pfi_RedactionFailureTag = oli_RedactionFailureTag i\<rparr>;
             result = \<lparr>ld_Allowed = True, ld_Reason = [], olr_PolicyDecisionObserved = True,
               olr_RedactionNeeded = (er_RedactionNeeded enforcement \<and> \<not> oli_RedactionAttempted i),
               olr_RedactionRejected = per_RedactionRejected enforcement\<rparr>
         in if er_Blocked enforcement \<or> per_RedactionRejected enforcement
            then result\<lparr>ld_Allowed := False, ld_Reason := er_Reason enforcement\<rparr>
            else result))"

definition ClassifyUpstreamRequest :: "UpstreamRequestInput \<Rightarrow> LifecycleDecision" where
  "ClassifyUpstreamRequest i = (if uqi_ProjectionFailed i then rejected RejectInvalidRequest else allowed)"

definition ClassifyUpstreamExchange :: "UpstreamExchangeInput \<Rightarrow> UpstreamExchangeResult" where
  "ClassifyUpstreamExchange i =
     (if uei_ForwardFailed i then \<lparr>ld_Allowed = False, ld_Reason = RejectUpstreamError, uer_Stream = False\<rparr>
      else if uei_Stream i \<and> uei_StatusCode i \<ge> 400
      then \<lparr>ld_Allowed = False, ld_Reason = RejectUpstreamError, uer_Stream = False\<rparr>
      else \<lparr>ld_Allowed = True, ld_Reason = [], uer_Stream = uei_Stream i\<rparr>)"

definition ClassifyStreamingPolicy :: "Decision \<Rightarrow> StreamingLifecycleDecision" where
  "ClassifyStreamingPolicy decision =
     (if dec_Action decision = ActionBlock then \<lparr>sld_Terminated = True, sld_TerminationReason = ''stream_blocked''\<rparr>
      else if dec_Action decision = ActionRedact
      then \<lparr>sld_Terminated = True, sld_TerminationReason = ''unsupported_redaction''\<rparr>
      else \<lparr>sld_Terminated = False, sld_TerminationReason = []\<rparr>)"

definition ClassifyStreamingCollection :: "bool \<Rightarrow> StreamingLifecycleDecision" where
  "ClassifyStreamingCollection appended =
     (if \<not> appended then \<lparr>sld_Terminated = True, sld_TerminationReason = ''stream_output_too_large''\<rparr>
      else \<lparr>sld_Terminated = False, sld_TerminationReason = []\<rparr>)"

definition ClassifyStreamingDelta :: "StreamingDeltaInput \<Rightarrow> StreamingLifecycleDecision" where
  "ClassifyStreamingDelta i =
     (if \<not> sdi_DeltaObserved i then \<lparr>sld_Terminated = False, sld_TerminationReason = []\<rparr>
      else
        (let policyDecision = ClassifyStreamingPolicy (sdi_PolicyDecision i) in
         if sld_Terminated policyDecision then policyDecision
         else ClassifyStreamingCollection (sdi_CollectionAccepted i)))"

section \<open>Event classification (traffic\_event.go)\<close>

definition trafficBlockReason :: "TrafficEventClassificationInput \<Rightarrow> string" where
  "trafficBlockReason i =
     (if tci_TerminationReason i \<in> set [''unsupported_redaction'', ''stream_blocked'', ''missing_client_key'',
           ''invalid_client_key'', ''disabled_client_key'', ''revoked_client_key'', ''missing_limit_policy'',
           ''rate_limit_exceeded'', ''concurrency_limit_exceeded'']
      then tci_TerminationReason i
      else if tci_TerminationReason i \<noteq> [] then []
      else if dec_Action (tci_Decision i) \<noteq> ActionBlock then []
      else if tci_Direction i = DirectionInput then ''blocked_input''
      else if tci_Direction i = DirectionOutput then ''blocked_output''
      else ''blocked'')"

definition trafficErrorType :: "TrafficEventClassificationInput \<Rightarrow> string" where
  "trafficErrorType i =
     (if tci_TerminationReason i \<noteq> [] \<and> tci_TerminationReason i \<noteq> ''async_shadow_verdict''
      then
        (if tci_TerminationReason i = ''read_request_error'' then ''invalid_request''
         else if tci_TerminationReason i = ''missing_provider'' then ''missing_route''
         else tci_TerminationReason i)
      else
        (let reason = trafficBlockReason i in
         if reason \<noteq> [] then reason
         else if ms_Error (dec_ModelSignal (tci_Decision i)) \<noteq> [] then ''verdict_error''
         else []))"

definition trafficAction :: "TrafficEventClassificationInput \<Rightarrow> TrafficAction" where
  "trafficAction i =
     (if dec_Action (tci_Decision i) \<noteq> [] then dec_Action (tci_Decision i)
      else if tci_TerminationReason i \<noteq> [] then ActionBlock
      else [])"

definition detectorCategories :: "Decision \<Rightarrow> string list" where
  "detectorCategories d = map fnd_Category (dec_Findings d)"

definition policyRuleIDs :: "Decision \<Rightarrow> string list" where
  "policyRuleIDs d = map hit_RuleKey (dec_RuleHits d)"

definition ClassifyTrafficEvent :: "TrafficEventClassificationInput \<Rightarrow> TrafficEventClassification" where
  "ClassifyTrafficEvent i =
     \<lparr>tec_ErrorType = trafficErrorType i, tec_BlockReason = trafficBlockReason i,
      tec_FallbackTriggered = (ms_FallbackUsed (dec_ModelSignal (tci_Decision i)) \<or> res_FallbackUsed (tci_Verdict i)),
      tec_MatchedSpanCount =
        word_of_nat (length (res_MatchedSpans (tci_Verdict i)) + length (dec_Findings (tci_Decision i))),
      tec_DetectorCategories = detectorCategories (tci_Decision i),
      tec_PolicyRuleIDs = policyRuleIDs (tci_Decision i), tec_Action = trafficAction i\<rparr>"

end
