(* ===== verification/Clients.thy ===== *)
theory Clients
  imports Platform
begin

text \<open>
  \<open>internal/contexts/clients/domain\<close>: client records and keys.  \<open>crypto/rand\<close> is an argument
  (the bytes it delivers, or \<open>None\<close> when it fails); \<open>encoding/base64\<close> (raw URL alphabet) and
  \<open>encoding/hex\<close> are computed.
\<close>

section \<open>Types (types.go)\<close>

type_synonym Status = string

definition StatusEnabled :: Status where [kg_consts]: "StatusEnabled = ''enabled''"
definition StatusDisabled :: Status where [kg_consts]: "StatusDisabled = ''disabled''"
definition StatusRevoked :: Status where [kg_consts]: "StatusRevoked = ''revoked''"

record Client =
  cl_ID :: string
  cl_Name :: string
  cl_Status :: Status
  cl_KeyPrefix :: string
  cl_KeyHash :: string

record KeyMaterial =
  km_Prefix :: string
  km_Hash :: string

record RouteLimitPolicy =
  lp_RouteKey :: string
  lp_RequestsPerWindow :: int
  lp_Window :: duration
  lp_MaxConcurrentRequests :: int
  lp_MaxBodyBytes :: int
  lp_Enabled :: bool

record RouteLimitOverride =
  lo_ClientID :: string
  lo_RouteKey :: string
  lo_RequestsPerWindow :: int
  lo_Window :: duration
  lo_MaxConcurrentRequests :: int
  lo_MaxBodyBytes :: int
  lo_Enabled :: bool

section \<open>Base64, raw URL alphabet\<close>

definition b64_char :: "nat \<Rightarrow> char" where
  "b64_char n =
     of_byte (if n < 26 then 0x41 + n else if n < 52 then 0x61 + (n - 26)
              else if n < 62 then 0x30 + (n - 52) else if n = 62 then 0x2D else 0x5F)"

fun b64_encode :: "string \<Rightarrow> string" where
  "b64_encode [] = []"
| "b64_encode [a] = [b64_char (byte a div 4), b64_char (byte a mod 4 * 16)]"
| "b64_encode [a, b] =
     [b64_char (byte a div 4), b64_char (byte a mod 4 * 16 + byte b div 16), b64_char (byte b mod 16 * 4)]"
| "b64_encode (a # b # c # rest) =
     b64_char (byte a div 4) # b64_char (byte a mod 4 * 16 + byte b div 16)
       # b64_char (byte b mod 16 * 4 + byte c div 64) # b64_char (byte c mod 64) # b64_encode rest"

section \<open>Keys (key.go)\<close>

datatype key_error = ClientIDRequired | GeneratePrefixFailed | GenerateSecretFailed

definition keyHashScheme :: string where [kg_consts]: "keyHashScheme = ''sha256:''"
definition keyPrefixSize :: nat where "keyPrefixSize = 8"
definition keySecretSize :: nat where "keySecretSize = 32"

text \<open>One read of the random source: exactly the requested number of bytes, or a failure.\<close>

definition randomBytes :: "(nat \<Rightarrow> string option) \<Rightarrow> nat \<Rightarrow> string option" where
  "randomBytes rand_read n = rand_read n"

definition rand_ok :: "(nat \<Rightarrow> string option) \<Rightarrow> bool" where
  "rand_ok rand_read \<longleftrightarrow> (\<forall>n s. rand_read n = Some s \<longrightarrow> length s = n)"

definition HashKey :: "platform \<Rightarrow> string \<Rightarrow> string" where
  "HashKey P key = keyHashScheme @ hex_encode (sha256 P key)"

definition VerifyKey :: "platform \<Rightarrow> string \<Rightarrow> string \<Rightarrow> bool" where
  "VerifyKey P key storedHash =
     (case cut_prefix keyHashScheme storedHash of
        None \<Rightarrow> False
      | Some hashHex \<Rightarrow>
          (case hex_decode hashHex of
             None \<Rightarrow> False
           | Some stored \<Rightarrow> if length stored \<noteq> sha256_size then False else sha256 P key = stored))"

definition GenerateKey ::
  "platform \<Rightarrow> (nat \<Rightarrow> string option) \<Rightarrow> (nat \<Rightarrow> string option) \<Rightarrow> string \<Rightarrow> key_error + (string \<times> KeyMaterial)" where
  "GenerateKey P rand1 rand2 clientID =
     (if clientID = [] then Inl ClientIDRequired
      else case randomBytes rand1 keyPrefixSize of
        None \<Rightarrow> Inl GeneratePrefixFailed
      | Some prefixBytes \<Rightarrow>
          (case randomBytes rand2 keySecretSize of
             None \<Rightarrow> Inl GenerateSecretFailed
           | Some secretBytes \<Rightarrow>
               (let prefix = ''kgc_'' @ clientID @ ''_'' @ b64_encode prefixBytes;
                    key = prefix @ ''.'' @ b64_encode secretBytes
                in Inr (key, \<lparr>km_Prefix = prefix, km_Hash = HashKey P key\<rparr>))))"

section \<open>Lemmas\<close>

lemma length_b64_encode: "length (b64_encode s) = (4 * length s + 2) div 3"
  by (induction s rule: b64_encode.induct) auto

definition b64_alphabet :: "string \<Rightarrow> bool" where
  "b64_alphabet s \<longleftrightarrow> list_all (\<lambda>c. in_range 0x41 0x5A (byte c) \<or> in_range 0x61 0x7A (byte c) \<or>
     in_range 0x30 0x39 (byte c) \<or> byte c \<in> {0x2D, 0x5F}) s"

lemma b64_char_alphabet: "n < 64 \<Longrightarrow> b64_alphabet [b64_char n]"
  by (auto simp: b64_alphabet_def b64_char_def byte_of_byte in_range_def)

lemma b64_alphabet_Cons: "b64_alphabet (c # cs) \<longleftrightarrow> b64_alphabet [c] \<and> b64_alphabet cs"
  by (simp add: b64_alphabet_def)

lemma sextets:
  "byte a div 4 < 64" "byte a mod 4 * 16 < 64" "byte a mod 4 * 16 + byte b div 16 < 64" "byte b mod 16 * 4 < 64"
  "byte b mod 16 * 4 + byte c div 64 < 64" "byte c mod 64 < 64"
  using byte_less [of a] byte_less [of b] byte_less [of c] by linarith+

lemma b64_encode_alphabet: "b64_alphabet (b64_encode s)"
proof (induction s rule: b64_encode.induct)
  case 1
  then show ?case by (simp add: b64_alphabet_def)
qed (simp_all add: b64_alphabet_Cons [of _ "_ # _"] b64_alphabet_Cons [of _ "b64_encode _"] b64_char_alphabet sextets)

lemma b64_alphabet_no_dot: "b64_alphabet s \<Longrightarrow> CHR ''.'' \<notin> set s"
  by (auto simp: b64_alphabet_def list_all_iff in_range_def byte_def)

text \<open>A stored hash accepts exactly the keys with the same digest, and nothing that is not a hash of
  the current scheme is accepted.\<close>

lemma VerifyKey_HashKey: "sha256_ok P \<Longrightarrow> VerifyKey P key (HashKey P key') \<longleftrightarrow> sha256 P key = sha256 P key'"
  by (simp add: VerifyKey_def HashKey_def cut_prefix_def sha256_ok_def)

lemma VerifyKey_scheme: "VerifyKey P key h \<Longrightarrow> \<exists>hex. h = keyHashScheme @ hex \<and> hex_decode hex = Some (sha256 P key)"
  by (auto simp: VerifyKey_def cut_prefix_Some split: option.splits if_splits)

lemma GenerateKey_Inr:
  assumes "GenerateKey P r1 r2 cid = Inr (key, mat)"
  obtains pb sb where "r1 keyPrefixSize = Some pb" "r2 keySecretSize = Some sb"
    "km_Prefix mat = ''kgc_'' @ cid @ ''_'' @ b64_encode pb" "key = km_Prefix mat @ ''.'' @ b64_encode sb"
    "km_Hash mat = HashKey P key" "cid \<noteq> []"
  using assms by (auto simp: GenerateKey_def randomBytes_def Let_def split: if_splits option.splits)

end
