(* ===== verification/RouteLimits.thy ===== *)
theory RouteLimits
  imports Lifecycle Clients
begin

text \<open>
  \<open>internal/contexts/gateway/adapters/http/openai/limits.go\<close>: the resolver of effective limits and
  the state of the rate windows and of the concurrency counters.  Every operation of the state holds
  its mutex, so an execution is a sequence of operations.  A release closure is a handle: the key it
  releases and the identity of its \<open>sync.Once\<close>, which the state remembers when it has fired.
\<close>

section \<open>Resolver\<close>

definition limitKey :: "string \<Rightarrow> string \<Rightarrow> string" where
  "limitKey clientID routeKey = clientID @ [char_of (0 :: nat)] @ routeKey"

definition validRouteLimitPolicy :: "RouteLimitPolicy \<Rightarrow> bool" where
  "validRouteLimitPolicy p \<longleftrightarrow> lp_Enabled p \<and> lp_RouteKey p \<noteq> [] \<and> lp_RequestsPerWindow p > 0 \<and> lp_Window p > 0 \<and>
     lp_MaxConcurrentRequests p > 0 \<and> lp_MaxBodyBytes p > 0"

definition validClientRouteLimitOverride :: "RouteLimitOverride \<Rightarrow> bool" where
  "validClientRouteLimitOverride r \<longleftrightarrow> lo_Enabled r \<and> lo_ClientID r \<noteq> [] \<and> lo_RouteKey r \<noteq> [] \<and>
     lo_RequestsPerWindow r > 0 \<and> lo_Window r > 0 \<and> lo_MaxConcurrentRequests r > 0 \<and> lo_MaxBodyBytes r > 0"

record limitResolver =
  lr_protectedRoutes :: "string set"
  lr_routePolicies :: "string \<rightharpoonup> RouteLimitPolicy"
  lr_overrides :: "string \<rightharpoonup> RouteLimitPolicy"

definition override_policy :: "RouteLimitOverride \<Rightarrow> RouteLimitPolicy" where
  "override_policy r = \<lparr>lp_RouteKey = lo_RouteKey r, lp_RequestsPerWindow = lo_RequestsPerWindow r,
     lp_Window = lo_Window r, lp_MaxConcurrentRequests = lo_MaxConcurrentRequests r,
     lp_MaxBodyBytes = lo_MaxBodyBytes r, lp_Enabled = lo_Enabled r\<rparr>"

definition add_route :: "Route \<Rightarrow> limitResolver \<Rightarrow> limitResolver" where
  "add_route route r =
     (if rt_Key route \<noteq> [] \<and> rt_RequireClientAuth route
      then r\<lparr>lr_protectedRoutes := insert (rt_Key route) (lr_protectedRoutes r)\<rparr> else r)"

definition add_policy :: "RouteLimitPolicy \<Rightarrow> limitResolver \<Rightarrow> limitResolver" where
  "add_policy p r =
     (if \<not> validRouteLimitPolicy p then r
      else r\<lparr>lr_routePolicies := (lr_routePolicies r)(lp_RouteKey p \<mapsto> p),
             lr_protectedRoutes := insert (lp_RouteKey p) (lr_protectedRoutes r)\<rparr>)"

definition add_override :: "RouteLimitOverride \<Rightarrow> limitResolver \<Rightarrow> limitResolver" where
  "add_override ov r =
     (if \<not> validClientRouteLimitOverride ov then r
      else r\<lparr>lr_overrides := (lr_overrides r)(limitKey (lo_ClientID ov) (lo_RouteKey ov) \<mapsto> override_policy ov)\<rparr>)"

definition newLimitResolver ::
  "Route list \<Rightarrow> RouteLimitPolicy list \<Rightarrow> RouteLimitOverride list \<Rightarrow> limitResolver" where
  "newLimitResolver routes routePolicies overrides =
     fold add_override overrides (fold add_policy routePolicies (fold add_route routes
       \<lparr>lr_protectedRoutes = {}, lr_routePolicies = Map.empty, lr_overrides = Map.empty\<rparr>))"

definition routeProtected :: "limitResolver \<Rightarrow> string \<Rightarrow> bool" where
  "routeProtected r routeKey \<longleftrightarrow> routeKey \<in> lr_protectedRoutes r"

definition effectivePolicy :: "limitResolver \<Rightarrow> string \<Rightarrow> string \<Rightarrow> RouteLimitPolicy option" where
  "effectivePolicy r clientID routeKey =
     (case lr_routePolicies r routeKey of
        None \<Rightarrow> None
      | Some p \<Rightarrow> (case lr_overrides r (limitKey clientID routeKey) of Some p' \<Rightarrow> Some p' | None \<Rightarrow> Some p))"

definition EffectiveLimitPolicy :: "limitResolver \<Rightarrow> string \<Rightarrow> string \<Rightarrow> LimitPolicy option" where
  "EffectiveLimitPolicy r clientID routeKey =
     (case effectivePolicy r clientID routeKey of
        None \<Rightarrow> None
      | Some p \<Rightarrow> Some \<lparr>lim_RequestsPerWindow = lp_RequestsPerWindow p, lim_Window = lp_Window p,
          lim_MaxConcurrentRequests = lp_MaxConcurrentRequests p, lim_MaxBodyBytes = lp_MaxBodyBytes p\<rparr>)"

section \<open>State\<close>

record rateWindow =
  rw_start :: gotime
  rw_count :: int

record release_handle =
  rh_once :: nat
  rh_key :: string

record limitState =
  ls_rates :: "string \<rightharpoonup> rateWindow"
  ls_concurrency :: "string \<rightharpoonup> int"
  ls_next_once :: nat
  ls_fired :: "nat set"

definition newLimitState :: limitState where
  "newLimitState = \<lparr>ls_rates = Map.empty, ls_concurrency = Map.empty, ls_next_once = 0, ls_fired = {}\<rparr>"

definition rate_of :: "limitState \<Rightarrow> string \<Rightarrow> rateWindow" where
  "rate_of s key = (case ls_rates s key of None \<Rightarrow> \<lparr>rw_start = 0, rw_count = 0\<rparr> | Some w \<Rightarrow> w)"

definition concurrency_of :: "limitState \<Rightarrow> string \<Rightarrow> int" where
  "concurrency_of s key = (case ls_concurrency s key of None \<Rightarrow> 0 | Some n \<Rightarrow> n)"

definition allowRate :: "gotime \<Rightarrow> string \<Rightarrow> string \<Rightarrow> RouteLimitPolicy \<Rightarrow> limitState \<Rightarrow> bool \<times> limitState" where
  "allowRate now clientID routeKey p s =
     (if lp_RequestsPerWindow p \<le> 0 \<or> lp_Window p \<le> 0 then (False, s)
      else
        (let key = limitKey clientID routeKey; window = rate_of s key in
         if rw_start window = 0 \<or> \<not> now < rw_start window + lp_Window p
         then (True, s\<lparr>ls_rates := (ls_rates s)(key \<mapsto> \<lparr>rw_start = now, rw_count = 1\<rparr>)\<rparr>)
         else if rw_count window \<ge> lp_RequestsPerWindow p then (False, s)
         else (True, s\<lparr>ls_rates := (ls_rates s)(key \<mapsto> window\<lparr>rw_count := rw_count window + 1\<rparr>)\<rparr>)))"

definition limit_as_route_policy :: "string \<Rightarrow> LimitPolicy \<Rightarrow> RouteLimitPolicy" where
  "limit_as_route_policy routeKey p =
     \<lparr>lp_RouteKey = routeKey, lp_RequestsPerWindow = lim_RequestsPerWindow p, lp_Window = lim_Window p,
      lp_MaxConcurrentRequests = lim_MaxConcurrentRequests p, lp_MaxBodyBytes = lim_MaxBodyBytes p, lp_Enabled = True\<rparr>"

definition AllowRate :: "gotime \<Rightarrow> string \<Rightarrow> string \<Rightarrow> LimitPolicy \<Rightarrow> limitState \<Rightarrow> bool \<times> limitState" where
  "AllowRate now clientID routeKey p s = allowRate now clientID routeKey (limit_as_route_policy routeKey p) s"

definition acquireConcurrency ::
  "string \<Rightarrow> string \<Rightarrow> RouteLimitPolicy \<Rightarrow> limitState \<Rightarrow> release_handle option \<times> limitState" where
  "acquireConcurrency clientID routeKey p s =
     (if lp_MaxConcurrentRequests p \<le> 0 then (None, s)
      else
        (let key = limitKey clientID routeKey in
         if concurrency_of s key \<ge> lp_MaxConcurrentRequests p then (None, s)
         else (Some \<lparr>rh_once = ls_next_once s, rh_key = key\<rparr>,
               s\<lparr>ls_concurrency := (ls_concurrency s)(key \<mapsto> concurrency_of s key + 1),
                 ls_next_once := Suc (ls_next_once s)\<rparr>)))"

definition AcquireConcurrency ::
  "string \<Rightarrow> string \<Rightarrow> LimitPolicy \<Rightarrow> limitState \<Rightarrow> release_handle option \<times> limitState" where
  "AcquireConcurrency clientID routeKey p s = acquireConcurrency clientID routeKey (limit_as_route_policy routeKey p) s"

definition release :: "release_handle \<Rightarrow> limitState \<Rightarrow> limitState" where
  "release h s =
     (if rh_once h \<in> ls_fired s then s
      else
        (let s' = s\<lparr>ls_fired := insert (rh_once h) (ls_fired s)\<rparr> in
         if concurrency_of s (rh_key h) \<le> 1 then s'\<lparr>ls_concurrency := (ls_concurrency s)(rh_key h := None)\<rparr>
         else s'\<lparr>ls_concurrency := (ls_concurrency s)(rh_key h \<mapsto> concurrency_of s (rh_key h) - 1)\<rparr>))"

section \<open>The resolver\<close>

lemma add_simps:
  "lr_routePolicies (add_route t r) = lr_routePolicies r" "lr_overrides (add_route t r) = lr_overrides r"
  "lr_protectedRoutes (add_route t r) =
     lr_protectedRoutes r \<union> (if rt_Key t \<noteq> [] \<and> rt_RequireClientAuth t then {rt_Key t} else {})"
  "lr_overrides (add_policy p r) = lr_overrides r"
  "lr_routePolicies (add_policy p r) =
     (if validRouteLimitPolicy p then (lr_routePolicies r)(lp_RouteKey p \<mapsto> p) else lr_routePolicies r)"
  "lr_protectedRoutes (add_policy p r) =
     lr_protectedRoutes r \<union> (if validRouteLimitPolicy p then {lp_RouteKey p} else {})"
  "lr_routePolicies (add_override ov r) = lr_routePolicies r"
  "lr_protectedRoutes (add_override ov r) = lr_protectedRoutes r"
  "lr_overrides (add_override ov r) =
     (if validClientRouteLimitOverride ov
      then (lr_overrides r)(limitKey (lo_ClientID ov) (lo_RouteKey ov) \<mapsto> override_policy ov) else lr_overrides r)"
  by (simp_all add: add_route_def add_policy_def add_override_def)

lemma fold_add_route:
  "lr_routePolicies (fold add_route routes r) = lr_routePolicies r \<and> lr_overrides (fold add_route routes r) = lr_overrides r \<and>
   lr_protectedRoutes (fold add_route routes r) =
     lr_protectedRoutes r \<union> {rt_Key t | t. t \<in> set routes \<and> rt_Key t \<noteq> [] \<and> rt_RequireClientAuth t}"
  by (induction routes arbitrary: r) (auto simp: add_simps)

lemma fold_add_policy_overrides: "lr_overrides (fold add_policy ps r) = lr_overrides r"
  by (induction ps arbitrary: r) (auto simp: add_simps)

lemma fold_add_policy:
  "lr_protectedRoutes (fold add_policy ps r) = lr_protectedRoutes r \<union> (lp_RouteKey ` {p \<in> set ps. validRouteLimitPolicy p}) \<and>
   (\<forall>k p. lr_routePolicies (fold add_policy ps r) k = Some p \<longrightarrow>
      lr_routePolicies r k = Some p \<or> (p \<in> set ps \<and> validRouteLimitPolicy p \<and> lp_RouteKey p = k)) \<and>
   dom (lr_routePolicies (fold add_policy ps r)) = dom (lr_routePolicies r) \<union> (lp_RouteKey ` {p \<in> set ps. validRouteLimitPolicy p})"
proof (induction ps arbitrary: r)
  case (Cons q ps)
  show ?case
    using Cons.IH [of "add_policy q r"] by (auto simp: add_simps split: if_splits)
qed simp

lemma fold_add_override_overrides:
  "lr_overrides (fold add_override os r) k = Some p \<Longrightarrow> lr_overrides r k = Some p \<or>
     (\<exists>ov\<in>set os. validClientRouteLimitOverride ov \<and> p = override_policy ov \<and> k = limitKey (lo_ClientID ov) (lo_RouteKey ov))"
proof (induction os arbitrary: r)
  case (Cons ov os)
  then have "lr_overrides (add_override ov r) k = Some p \<or>
     (\<exists>ov\<in>set os. validClientRouteLimitOverride ov \<and> p = override_policy ov \<and> k = limitKey (lo_ClientID ov) (lo_RouteKey ov))"
    by simp
  then show ?case
  proof
    assume "lr_overrides (add_override ov r) k = Some p"
    then show ?thesis by (simp add: add_simps split: if_splits)
  qed auto
qed simp

lemma fold_add_override:
  "lr_routePolicies (fold add_override os r) = lr_routePolicies r \<and>
   lr_protectedRoutes (fold add_override os r) = lr_protectedRoutes r"
  by (induction os arbitrary: r) (simp_all add: add_simps)

text \<open>The limits that can come out of the resolver are positive, and a limit only exists for a route
  that has a valid route limit: an override alone gives none.\<close>

lemma effectivePolicy_sound:
  assumes "effectivePolicy (newLimitResolver routes ps os) cid rk = Some p"
  shows "lp_RequestsPerWindow p > 0 \<and> lp_Window p > 0 \<and> lp_MaxConcurrentRequests p > 0 \<and> lp_MaxBodyBytes p > 0 \<and>
    (\<exists>q\<in>set ps. validRouteLimitPolicy q \<and> lp_RouteKey q = rk)"
proof -
  let ?r1 = "fold add_route routes \<lparr>lr_protectedRoutes = {}, lr_routePolicies = Map.empty, lr_overrides = Map.empty\<rparr>"
  let ?r2 = "fold add_policy ps ?r1"
  let ?r = "newLimitResolver routes ps os"
  have r: "?r = fold add_override os ?r2" by (simp add: newLimitResolver_def)
  have o: "lr_overrides ?r2 = Map.empty" "lr_routePolicies ?r1 = Map.empty"
    using fold_add_route [of routes] by (simp_all add: fold_add_policy_overrides)
  obtain q where q: "lr_routePolicies ?r2 rk = Some q" "p = q \<or> lr_overrides ?r (limitKey cid rk) = Some p"
    using assms fold_add_override [of os ?r2] by (auto simp: effectivePolicy_def r split: option.splits)
  have "q \<in> set ps \<and> validRouteLimitPolicy q \<and> lp_RouteKey q = rk"
    using q(1) fold_add_policy [of ps ?r1] o(2) by auto
  moreover have "\<exists>ov\<in>set os. validClientRouteLimitOverride ov \<and> p = override_policy ov"
    if "lr_overrides ?r (limitKey cid rk) = Some p"
    using fold_add_override_overrides [OF that [unfolded r]] o(1) by auto
  ultimately show ?thesis
    using q(2) by (auto simp: validRouteLimitPolicy_def validClientRouteLimitOverride_def override_policy_def)
qed

lemma routeProtected_iff:
  "routeProtected (newLimitResolver routes ps os) rk \<longleftrightarrow>
     (\<exists>t\<in>set routes. rt_Key t = rk \<and> rk \<noteq> [] \<and> rt_RequireClientAuth t) \<or>
     (\<exists>p\<in>set ps. validRouteLimitPolicy p \<and> lp_RouteKey p = rk)"
  using fold_add_route [of routes] fold_add_policy [of ps] fold_add_override [of os]
  by (auto simp: routeProtected_def newLimitResolver_def)

end
