(* ===== verification/RouteLimits_Claims.thy ===== *)
theory RouteLimits_Claims
  imports RouteLimits
begin

text \<open>
  What the limiter guarantees over every sequence of operations: the concurrency counters are the
  numbers of reservations in flight and stay below the limit, and the rate windows admit at most
  twice the configured number of requests in any interval as long as the window.
\<close>

section \<open>Concurrency\<close>

text \<open>The operations that other goroutines may interleave, on the state and the handles issued so far.
  A handle may be released any number of times.\<close>

inductive limit_step ::
  "(string \<Rightarrow> string \<Rightarrow> LimitPolicy) \<Rightarrow> limitState \<times> release_handle set \<Rightarrow> limitState \<times> release_handle set \<Rightarrow> bool"
  for pol where
  step_rate: "limit_step pol (s, H) (snd (AllowRate now c r (pol c r) s), H)"
| step_acquire: "AcquireConcurrency c r (pol c r) s = (Some h, s') \<Longrightarrow> limit_step pol (s, H) (s', insert h H)"
| step_refused: "AcquireConcurrency c r (pol c r) s = (None, s') \<Longrightarrow> limit_step pol (s, H) (s', H)"
| step_release: "h \<in> H \<Longrightarrow> limit_step pol (s, H) (release h s, H)"

definition in_flight :: "limitState \<Rightarrow> release_handle set \<Rightarrow> string \<Rightarrow> release_handle set" where
  "in_flight s H key = {h \<in> H. rh_key h = key \<and> rh_once h \<notin> ls_fired s}"

definition limit_inv :: "limitState \<Rightarrow> release_handle set \<Rightarrow> bool" where
  "limit_inv s H \<longleftrightarrow> finite H \<and> inj_on rh_once H \<and> (\<forall>h\<in>H. rh_once h < ls_next_once s) \<and>
     ls_fired s \<subseteq> rh_once ` H \<and> (\<forall>k n. ls_concurrency s k = Some n \<longrightarrow> n > 0) \<and>
     (\<forall>k. concurrency_of s k = int (card (in_flight s H k)))"

lemma AllowRate_frame:
  "ls_concurrency (snd (AllowRate now c r p s)) = ls_concurrency s"
  "ls_next_once (snd (AllowRate now c r p s)) = ls_next_once s" "ls_fired (snd (AllowRate now c r p s)) = ls_fired s"
  by (auto simp: AllowRate_def allowRate_def Let_def)

lemma Acquire_Some:
  assumes "AcquireConcurrency c r p s = (Some h, s')"
  shows "h = \<lparr>rh_once = ls_next_once s, rh_key = limitKey c r\<rparr>" "concurrency_of s (limitKey c r) < lim_MaxConcurrentRequests p"
    "s' = s\<lparr>ls_concurrency := (ls_concurrency s)(limitKey c r \<mapsto> concurrency_of s (limitKey c r) + 1),
            ls_next_once := Suc (ls_next_once s)\<rparr>"
  using assms by (auto simp: AcquireConcurrency_def acquireConcurrency_def limit_as_route_policy_def Let_def split: if_splits)

lemma Acquire_None: "AcquireConcurrency c r p s = (None, s') \<Longrightarrow> s' = s"
  by (auto simp: AcquireConcurrency_def acquireConcurrency_def Let_def split: if_splits)

lemma limit_inv_acquire:
  assumes "limit_inv s H" "AcquireConcurrency c r p s = (Some h, s')"
  shows "limit_inv s' (insert h H)"
proof -
  let ?k = "limitKey c r"
  note h = Acquire_Some [OF assms(2)]
  have new: "h \<notin> H" "rh_once h \<notin> ls_fired s" "\<forall>g\<in>H. rh_once g \<noteq> rh_once h"
    using assms(1) h(1) by (auto simp: limit_inv_def) force
  have "in_flight s' (insert h H) k = (if k = ?k then insert h (in_flight s H k) else in_flight s H k)" for k
    using new h(1,3) by (auto simp: in_flight_def)
  moreover have "finite (in_flight s H k)" "h \<notin> in_flight s H k" for k
    using assms(1) new by (auto simp: limit_inv_def in_flight_def)
  ultimately have "concurrency_of s' k = int (card (in_flight s' (insert h H) k))" for k
    using assms(1) h(3) by (auto simp: limit_inv_def concurrency_of_def)
  moreover have "concurrency_of s ?k \<ge> 0" using assms(1) by (simp add: limit_inv_def)
  moreover have "\<forall>g\<in>insert h H. rh_once g < ls_next_once s'"
    using assms(1) h(1,3) by (auto simp: limit_inv_def less_SucI)
  ultimately show ?thesis using assms(1) h(3) new by (auto simp: limit_inv_def)
qed

lemma limit_inv_release:
  assumes "limit_inv s H" "h \<in> H"
  shows "limit_inv (release h s) H"
proof (cases "rh_once h \<in> ls_fired s")
  case True
  with assms show ?thesis by (simp add: release_def)
next
  case False
  let ?s = "release h s"
  have fired: "ls_fired ?s = insert (rh_once h) (ls_fired s)" "ls_next_once ?s = ls_next_once s"
    using False by (simp_all add: release_def Let_def)
  have flight: "in_flight ?s H k = (if k = rh_key h then in_flight s H k - {h} else in_flight s H k)" for k
    using assms fired(1) by (auto simp: in_flight_def limit_inv_def inj_on_def)
  have fin: "finite (in_flight s H k)" for k using assms(1) by (simp add: limit_inv_def in_flight_def)
  have h: "h \<in> in_flight s H (rh_key h)" using assms(2) False by (simp add: in_flight_def)
  then have card: "card (in_flight s H (rh_key h)) > 0"
      "card (in_flight s H (rh_key h) - {h}) = card (in_flight s H (rh_key h)) - 1"
    using fin by (auto simp: card_gt_0_iff)
  have c: "concurrency_of s k = int (card (in_flight s H k))" for k using assms(1) by (simp add: limit_inv_def)
  have "concurrency_of s (rh_key h) \<ge> 1" using c [of "rh_key h"] card(1) by simp
  then have "concurrency_of ?s k = (if k = rh_key h then concurrency_of s k - 1 else concurrency_of s k)" for k
    using False by (auto simp: release_def Let_def concurrency_of_def)
  then have "concurrency_of ?s k = int (card (in_flight ?s H k))" for k
    using c [of k] c [of "rh_key h"] card flight [of k] by (cases "k = rh_key h") (simp_all add: of_nat_diff Suc_leI)
  moreover have "\<forall>k n. ls_concurrency ?s k = Some n \<longrightarrow> n > 0"
    using assms(1) False by (auto simp: release_def limit_inv_def Let_def split: if_splits)
  ultimately show ?thesis using assms fired by (auto simp: limit_inv_def)
qed

lemma limit_inv_step: "limit_step pol (s, H) (s', H') \<Longrightarrow> limit_inv s H \<Longrightarrow> limit_inv s' H'"
proof (induction "(s, H)" "(s', H')" rule: limit_step.induct)
  case (step_rate now c r)
  then show ?case
    using AllowRate_frame [of now c r "pol c r" s] by (auto simp: limit_inv_def in_flight_def concurrency_of_def)
qed (auto dest: Acquire_None limit_inv_acquire limit_inv_release)

lemma concurrency_bound_step:
  assumes "limit_step pol (s, H) (s', H')" "limit_inv s H" "concurrency_of s k \<le> M" "0 \<le> M"
    and "\<And>c r. limitKey c r = k \<Longrightarrow> lim_MaxConcurrentRequests (pol c r) \<le> M"
  shows "concurrency_of s' k \<le> M"
  using assms(1)
proof (cases rule: limit_step.cases)
  case (step_rate now c r)
  with assms(3) show ?thesis by (simp add: concurrency_of_def AllowRate_frame)
next
  case (step_acquire c r h)
  show ?thesis
    using Acquire_Some [OF step_acquire(2)] assms(3) assms(5) [of c r] by (auto simp: concurrency_of_def)
next
  case (step_refused c r)
  with assms(3) Acquire_None show ?thesis by blast
next
  case (step_release h)
  then show ?thesis using assms(3,4) by (auto simp: release_def concurrency_of_def Let_def)
qed

text \<open>C16. Over every interleaving of rate checks, reservations and releases (repeated releases of one
  handle included) the counter of a key is the number of reservations of that key still in flight,
  it never exceeds the limit of the key, and an entry disappears with its last reservation.\<close>

theorem concurrency_is_in_flight:
  assumes "(limit_step pol)\<^sup>*\<^sup>* (newLimitState, {}) (s, H)" "0 \<le> M"
    and "\<And>c r. limitKey c r = k \<Longrightarrow> lim_MaxConcurrentRequests (pol c r) \<le> M"
  shows "concurrency_of s k = int (card (in_flight s H k)) \<and> int (card (in_flight s H k)) \<le> M \<and>
    (in_flight s H k = {} \<longrightarrow> ls_concurrency s k = None)"
proof -
  have "limit_inv (fst x) (snd x) \<and> concurrency_of (fst x) k \<le> M"
    if "(limit_step pol)\<^sup>*\<^sup>* (newLimitState, {}) x" for x
    using that
  proof (induction rule: rtranclp_induct)
    case base
    then show ?case using assms(2) by (simp add: limit_inv_def newLimitState_def in_flight_def concurrency_of_def)
  next
    case (step y z)
    then show ?case
      using limit_inv_step [where pol = pol and s = "fst y" and H = "snd y" and s' = "fst z" and H' = "snd z"]
        concurrency_bound_step [where pol = pol and s = "fst y" and H = "snd y" and s' = "fst z" and H' = "snd z" and k = k and M = M]
        assms(2,3) by simp
  qed
  from this [OF assms(1)] have inv: "limit_inv s H" "concurrency_of s k \<le> M" by simp_all
  have "ls_concurrency s k = None" if "in_flight s H k = {}"
  proof (rule ccontr)
    assume "ls_concurrency s k \<noteq> None"
    then obtain n where "ls_concurrency s k = Some n" by auto
    moreover from this inv(1) have "n > 0" by (auto simp: limit_inv_def)
    moreover have "concurrency_of s k = 0" using inv(1) that by (simp add: limit_inv_def)
    ultimately show False by (simp add: concurrency_of_def)
  qed
  with inv show ?thesis by (auto simp: limit_inv_def)
qed

section \<open>Rate\<close>

text \<open>A sequence of rate checks and the times and keys of the admitted ones.\<close>

fun admitted :: "(string \<Rightarrow> string \<Rightarrow> LimitPolicy) \<Rightarrow> (gotime \<times> string \<times> string) list \<Rightarrow> limitState \<Rightarrow> (gotime \<times> string) list" where
  "admitted pol [] s = []"
| "admitted pol ((now, c, r) # calls) s =
     (let (ok, s') = AllowRate now c r (pol c r) s in
      (if ok then [(now, limitKey c r)] else []) @ admitted pol calls s')"

text \<open>The window of one key.\<close>

fun window_run :: "int \<Rightarrow> duration \<Rightarrow> rateWindow \<Rightarrow> gotime list \<Rightarrow> gotime list" where
  "window_run n w rw [] = []"
| "window_run n w rw (u # us) =
     (if rw_start rw = 0 \<or> rw_start rw + w \<le> u then u # window_run n w \<lparr>rw_start = u, rw_count = 1\<rparr> us
      else if rw_count rw \<ge> n then window_run n w rw us
      else u # window_run n w (rw\<lparr>rw_count := rw_count rw + 1\<rparr>) us)"

definition times_of :: "string \<Rightarrow> (gotime \<times> string \<times> string) list \<Rightarrow> gotime list" where
  "times_of k calls = map fst (filter (\<lambda>(_, c, r). limitKey c r = k) calls)"

lemma AllowRate_key:
  assumes "0 < n" "0 < w" "lim_RequestsPerWindow p = n" "lim_Window p = w"
  shows "AllowRate now c r p s =
    (let rw = rate_of s (limitKey c r) in
     if rw_start rw = 0 \<or> rw_start rw + w \<le> now
     then (True, s\<lparr>ls_rates := (ls_rates s)(limitKey c r \<mapsto> \<lparr>rw_start = now, rw_count = 1\<rparr>)\<rparr>)
     else if rw_count rw \<ge> n then (False, s)
     else (True, s\<lparr>ls_rates := (ls_rates s)(limitKey c r \<mapsto> rw\<lparr>rw_count := rw_count rw + 1\<rparr>)\<rparr>))"
  using assms by (auto simp: AllowRate_def allowRate_def limit_as_route_policy_def Let_def not_less)

lemma AllowRate_other: "limitKey c r \<noteq> k \<Longrightarrow> rate_of (snd (AllowRate now c r p s)) k = rate_of s k"
  by (auto simp: AllowRate_def allowRate_def rate_of_def Let_def)

lemma admitted_window_run:
  assumes "0 < n" "0 < w" "\<And>c r. limitKey c r = k \<Longrightarrow> lim_RequestsPerWindow (pol c r) = n \<and> lim_Window (pol c r) = w"
  shows "map fst (filter (\<lambda>(_, k'). k' = k) (admitted pol calls s)) = window_run n w (rate_of s k) (times_of k calls)"
proof (induction calls arbitrary: s)
  case (Cons call calls)
  obtain now c r where call: "call = (now, c, r)" by (cases call)
  show ?case
  proof (cases "limitKey c r = k")
    case False
    have "admitted pol (call # calls) s =
        (if fst (AllowRate now c r (pol c r) s) then [(now, limitKey c r)] else []) @
        admitted pol calls (snd (AllowRate now c r (pol c r) s))"
      by (simp add: call split_beta)
    with False Cons AllowRate_other [OF False] show ?thesis by (simp add: call times_of_def)
  next
    case True
    with AllowRate_key [OF assms(1,2), of "pol c r" now c r s] assms(3) [OF True] Cons show ?thesis
      by (simp add: call times_of_def Let_def rate_of_def)
  qed
qed (simp add: times_of_def)

definition hits_in :: "gotime \<Rightarrow> duration \<Rightarrow> gotime list \<Rightarrow> int" where
  "hits_in t w us = int (length (filter (\<lambda>u. t \<le> u \<and> u < t + w) us))"

lemma hits_in_simps [simp]:
  "hits_in t w [] = 0" "hits_in t w (u # us) = (if t \<le> u \<and> u < t + w then 1 else 0) + hits_in t w us"
  by (simp_all add: hits_in_def)

lemma set_window_run: "x \<in> set (window_run n w rw us) \<Longrightarrow> x \<in> set us"
  by (induction us arbitrary: rw) (auto split: if_splits)

lemma window_in_interval:
  "0 < n \<Longrightarrow> 0 < rw_start rw \<Longrightarrow> t \<le> rw_start rw \<Longrightarrow> rw_count rw \<le> n \<Longrightarrow> sorted us \<Longrightarrow> \<forall>u\<in>set us. rw_start rw \<le> u \<Longrightarrow>
     hits_in t w (window_run n w rw us) \<le> n - rw_count rw"
proof (induction us arbitrary: rw)
  case (Cons u us)
  have late: "hits_in t w vs = 0" if "\<forall>v\<in>set vs. t + w \<le> v" for vs
    using that by (auto simp: hits_in_def filter_empty_conv)
  show ?case
  proof (cases "rw_start rw + w \<le> u")
    case True
    then have "\<forall>v\<in>set (window_run n w rw (u # us)). t + w \<le> v"
      using Cons.prems(3,5) by (fastforce dest: set_window_run)
    from late [OF this] Cons.prems(4) show ?thesis by simp
  next
    case False
    with Cons.prems Cons.IH [of rw] Cons.IH [of "rw\<lparr>rw_count := rw_count rw + 1\<rparr>"] show ?thesis by auto
  qed
qed simp

lemma window_before_interval:
  "0 < n \<Longrightarrow> rw_count rw \<le> n \<Longrightarrow> rw_start rw < t \<Longrightarrow> sorted us \<Longrightarrow> \<forall>u\<in>set us. t \<le> u \<and> 0 < u \<Longrightarrow>
     hits_in t w (window_run n w rw us) \<le> (n - rw_count rw) + n"
proof (induction us arbitrary: rw)
  case (Cons u us)
  have "hits_in t w (window_run n w \<lparr>rw_start = u, rw_count = 1\<rparr> us) \<le> n - 1"
    using window_in_interval [of n "\<lparr>rw_start = u, rw_count = 1\<rparr>" t us w] Cons.prems by simp
  with Cons.prems Cons.IH [of rw] Cons.IH [of "rw\<lparr>rw_count := rw_count rw + 1\<rparr>"] show ?case by auto
qed simp

lemma window_any:
  "0 < n \<Longrightarrow> 0 \<le> rw_start rw \<Longrightarrow> 0 \<le> rw_count rw \<Longrightarrow> rw_count rw \<le> n \<Longrightarrow> sorted us \<Longrightarrow> \<forall>u\<in>set us. rw_start rw \<le> u \<and> 0 < u \<Longrightarrow>
     hits_in t w (window_run n w rw us) \<le> 2 * n"
proof (induction us arbitrary: rw)
  case (Cons u us)
  show ?case
  proof (cases "u < t")
    case True
    with Cons.prems Cons.IH [of rw] Cons.IH [of "rw\<lparr>rw_count := rw_count rw + 1\<rparr>"]
      Cons.IH [of "\<lparr>rw_start = u, rw_count = 1\<rparr>"] show ?thesis by auto
  next
    case False
    then have "\<forall>v\<in>set (u # us). t \<le> v \<and> 0 < v" using Cons.prems(5,6) by auto
    then have "hits_in t w (window_run n w rw (u # us)) \<le> (n - rw_count rw) + n" if "rw_start rw < t"
      using window_before_interval [of n rw t "u # us" w] Cons.prems that by blast
    moreover have "hits_in t w (window_run n w rw (u # us)) \<le> n - rw_count rw" if "t \<le> rw_start rw" "0 < rw_start rw"
      using window_in_interval [of n rw t "u # us" w] Cons.prems that by simp
    moreover have "hits_in t w (window_run n w rw (u # us)) \<le> n" if "rw_start rw = 0"
      using window_in_interval [of n "\<lparr>rw_start = u, rw_count = 1\<rparr>" t us w] Cons.prems that False by auto
    ultimately show ?thesis using Cons.prems(1-3) by (cases "rw_start rw < t"; cases "0 < rw_start rw") auto
  qed
qed simp

text \<open>C35. A client is admitted at most twice its limit on a route in any interval as long as the
  window, wherever the interval starts and whatever other clients do, for checks in time order.\<close>

theorem rate_bound:
  assumes "sorted (map fst calls)" "\<forall>(now, c, r)\<in>set calls. 0 < now" "0 < n" "0 < w"
    and "\<And>c r. limitKey c r = k \<Longrightarrow> lim_RequestsPerWindow (pol c r) = n \<and> lim_Window (pol c r) = w"
  shows "int (length (filter (\<lambda>(u, k'). k' = k \<and> t \<le> u \<and> u < t + w) (admitted pol calls newLimitState))) \<le> 2 * n"
proof -
  have "filter (\<lambda>(u, k'). k' = k \<and> t \<le> u \<and> u < t + w) xs =
      filter (\<lambda>x. t \<le> fst x \<and> fst x < t + w) (filter (\<lambda>(_, k'). k' = k) xs)" for xs :: "(gotime \<times> string) list"
    by (induction xs) auto
  moreover have "length (filter (\<lambda>x. t \<le> fst x \<and> fst x < t + w) ys) = length (filter (\<lambda>u. t \<le> u \<and> u < t + w) (map fst ys))"
    for ys :: "(gotime \<times> string) list"
    by (induction ys) auto
  ultimately have "int (length (filter (\<lambda>(u, k'). k' = k \<and> t \<le> u \<and> u < t + w) (admitted pol calls newLimitState))) =
      hits_in t w (window_run n w (rate_of newLimitState k) (times_of k calls))"
    by (simp only: hits_in_def admitted_window_run [OF assms(3-5)])
  moreover have "sorted (times_of k calls)"
    using assms(1) by (simp add: times_of_def sorted_map sorted_wrt_filter)
  ultimately show ?thesis
    using window_any [of n "rate_of newLimitState k" "times_of k calls" t w] assms(2,3)
    by (fastforce simp: rate_of_def newLimitState_def times_of_def)
qed

section \<open>Witnesses\<close>

definition sample_limit :: LimitPolicy where
  "sample_limit = \<lparr>lim_RequestsPerWindow = 1, lim_Window = 5, lim_MaxConcurrentRequests = 1, lim_MaxBodyBytes = 10\<rparr>"

theorem concurrency_is_in_flight_witness:
  "\<exists>s h. AcquireConcurrency ''c'' ''r'' sample_limit newLimitState = (Some h, s) \<and>
     concurrency_of s (limitKey ''c'' ''r'') = 1 \<and> AcquireConcurrency ''c'' ''r'' sample_limit s = (None, s)"
proof -
  let ?k = "limitKey ''c'' ''r''"
  obtain s h where a: "AcquireConcurrency ''c'' ''r'' sample_limit newLimitState = (Some h, s)"
    by (auto simp: AcquireConcurrency_def acquireConcurrency_def limit_as_route_policy_def sample_limit_def
        concurrency_of_def newLimitState_def Let_def)
  then have "limit_step (\<lambda>_ _. sample_limit) (newLimitState, {}) (s, insert h {})" by (rule step_acquire)
  then have "(limit_step (\<lambda>_ _. sample_limit))\<^sup>*\<^sup>* (newLimitState, {}) (s, {h})" by (rule r_into_rtranclp)
  from concurrency_is_in_flight [OF this, of 1 ?k]
  have "concurrency_of s ?k = int (card (in_flight s {h} ?k))" "card (in_flight s {h} ?k) \<le> 1"
    by (auto simp: sample_limit_def)
  moreover have "in_flight s {h} ?k = {h}"
    using Acquire_Some [OF a] by (auto simp: in_flight_def newLimitState_def)
  ultimately have "concurrency_of s ?k = 1" by simp
  moreover from this have "AcquireConcurrency ''c'' ''r'' sample_limit s = (None, s)"
    by (simp add: AcquireConcurrency_def acquireConcurrency_def limit_as_route_policy_def sample_limit_def)
  ultimately show ?thesis using a by blast
qed

theorem rate_bound_witness:
  "int (length (filter (\<lambda>(u, k'). k' = limitKey ''c'' ''r'' \<and> 4 \<le> u \<and> u < 4 + 5)
     (admitted (\<lambda>_ _. sample_limit) [(1, ''c'', ''r''), (4, ''c'', ''r''), (7, ''c'', ''r''), (8, ''c'', ''r'')] newLimitState))) \<le> 2"
  using rate_bound [of "[(1, ''c'', ''r''), (4, ''c'', ''r''), (7, ''c'', ''r''), (8, ''c'', ''r'')]" 1 5
      "limitKey ''c'' ''r''" "\<lambda>_ _. sample_limit" 4]
  by (simp add: sample_limit_def)

end
