(* ===== verification/Strings.thy ===== *)
theory Strings
  imports Utf8
begin

text \<open>
  The functions of Go's \<open>strings\<close> package the adapters use: \<open>TrimSpace\<close> with Unicode white space,
  comparison up to case, and searching.
\<close>

section \<open>White space\<close>

definition is_space :: "rune \<Rightarrow> bool" where
  "is_space r \<longleftrightarrow> in_range 0x09 0x0D r \<or> r = 0x20 \<or> r = 0x85 \<or> r = 0xA0 \<or> r = 0x1680 \<or> in_range 0x2000 0x200A r \<or>
     r = 0x2028 \<or> r = 0x2029 \<or> r = 0x202F \<or> r = 0x205F \<or> r = 0x3000"

function trim_left :: "nat list \<Rightarrow> nat list" where
  "trim_left bs =
     (if bs = [] then []
      else (let rn = decode_rune bs in if is_space (fst rn) then trim_left (drop (snd rn) bs) else bs))"
  by pat_completeness auto
termination
  by (relation "measure length") (simp_all add: decode_rune_width [OF prod.collapse [symmetric]])

declare trim_left.simps [simp del]

text \<open>\<open>utf8.DecodeLastRune\<close>: the last byte when it is ASCII; otherwise the encoding that starts at
  the nearest of the three bytes before it that can start one, if it ends with the text.\<close>

fun last_start :: "nat list \<Rightarrow> nat list \<Rightarrow> nat option" where
  "last_start [] bs = None"
| "last_start (k # ks) bs =
     (if k \<le> length bs \<and> rune_start (bs ! (length bs - k)) then Some k else last_start ks bs)"

definition decode_last_rune :: "nat list \<Rightarrow> rune \<times> nat" where
  "decode_last_rune bs =
     (if last bs < 0x80 then (last bs, 1)
      else case last_start [2, 3, 4] bs of
        None \<Rightarrow> (rune_error, 1)
      | Some k \<Rightarrow>
          (let rn = decode_rune (drop (length bs - k) bs) in if snd rn \<noteq> k then (rune_error, 1) else rn))"

lemma decode_last_rune_width: "0 < snd (decode_last_rune bs)"
  using decode_rune_width [OF prod.collapse [symmetric], of "drop (length bs - _) bs"]
  by (simp add: decode_last_rune_def Let_def split: option.split)

function trim_right :: "nat list \<Rightarrow> nat list" where
  "trim_right bs =
     (if bs = [] then []
      else (let rn = decode_last_rune bs in
        if is_space (fst rn) then trim_right (take (length bs - snd rn) bs) else bs))"
  by pat_completeness auto
termination
  by (relation "measure length") (auto simp: decode_last_rune_width)

declare trim_right.simps [simp del]

definition TrimSpace :: "string \<Rightarrow> string" where
  "TrimSpace s = map of_byte (trim_right (trim_left (map byte s)))"

section \<open>Case\<close>

text \<open>\<open>strings.ToLower\<close> as far as its result is compared with ASCII constants: the ASCII letters, and
  the two other characters whose lower case is ASCII.  Other characters keep a non-ASCII image.\<close>

definition lower_rune :: "rune \<Rightarrow> rune" where
  "lower_rune r = (if in_range 0x41 0x5A r then r + 0x20 else if r = 0x130 then 0x69 else if r = 0x212A then 0x6B else r)"

definition ToLower :: "string \<Rightarrow> string" where
  "ToLower s = string_of_runes (map lower_rune (runes_of_string s))"

text \<open>\<open>strings.EqualFold\<close> against an ASCII constant: as \<open>ToLower\<close>, but simple folding relates the long
  s to s, and does not relate the dotted capital I to i.\<close>

definition fold_rune :: "rune \<Rightarrow> rune" where
  "fold_rune r = (if in_range 0x41 0x5A r then r + 0x20 else if r = 0x17F then 0x73 else if r = 0x212A then 0x6B else r)"

definition EqualFold :: "string \<Rightarrow> string \<Rightarrow> bool" where
  "EqualFold s t \<longleftrightarrow> map fold_rune (runes_of_string s) = map fold_rune (runes_of_string t)"

section \<open>Searching\<close>

definition last_index :: "char \<Rightarrow> string \<Rightarrow> nat option" where
  "last_index c s = (case cut_at c (rev s) of None \<Rightarrow> None | Some (a, b) \<Rightarrow> Some (length b))"

lemma last_index_Some:
  "last_index c s = Some i \<Longrightarrow> i < length s \<and> s ! i = c \<and> c \<notin> set (drop (Suc i) s)"
proof -
  assume "last_index c s = Some i"
  then obtain a b where ab: "cut_at c (rev s) = Some (a, b)" "i = length b"
    by (auto simp: last_index_def split: option.splits)
  then have "rev s = a @ c # b" "c \<notin> set a" using cut_at_Some by auto
  then have "s = rev b @ c # rev a" by (metis append.assoc append_Cons append_Nil rev.simps(2) rev_append rev_rev_ident)
  with ab \<open>c \<notin> set a\<close> show ?thesis by (simp add: nth_append)
qed

lemma last_index_append: "c \<notin> set b \<Longrightarrow> last_index c (a @ c # b) = Some (length a)"
  using cut_at_append [of c "rev b" "rev a"] by (simp add: last_index_def)

lemma last_index_None: "last_index c s = None \<longleftrightarrow> c \<notin> set s"
  by (simp add: last_index_def cut_at_None split: option.split)
    (metis cut_at_None option.distinct(1) set_rev)

section \<open>Trimming ASCII text\<close>

lemma trim_left_id: "bs = [] \<or> \<not> is_space (fst (decode_rune bs)) \<Longrightarrow> trim_left bs = bs"
  by (subst trim_left.simps) auto

lemma trim_left_ascii: "b < 0x80 \<Longrightarrow> trim_left (b # bs) = (if is_space b then trim_left bs else b # bs)"
  by (subst trim_left.simps) (simp add: decode_rune_def)

lemma trim_left_Nil [simp]: "trim_left [] = []"
  by (subst trim_left.simps) simp

lemma trim_right_Nil [simp]: "trim_right [] = []"
  by (subst trim_right.simps) simp

lemma trim_right_ascii: "b < 0x80 \<Longrightarrow> trim_right (bs @ [b]) = (if is_space b then trim_right bs else bs @ [b])"
  by (subst trim_right.simps) (simp add: decode_last_rune_def)

text \<open>A text whose first and last characters are ASCII and not white space is not changed.\<close>

lemma TrimSpace_id:
  assumes "s = [] \<or> (byte (hd s) < 0x80 \<and> \<not> is_space (byte (hd s)) \<and> byte (last s) < 0x80 \<and> \<not> is_space (byte (last s)))"
  shows "TrimSpace s = s"
proof (cases "s = []")
  case True
  then show ?thesis by (simp add: TrimSpace_def)
next
  case False
  then obtain c cs where c: "s = c # cs" by (cases s) auto
  obtain ds d where d: "s = ds @ [d]" using False by (metis append_butlast_last_id)
  have "trim_left (map byte s) = map byte s" using assms c by (simp add: trim_left_ascii)
  moreover have "trim_right (map byte s) = map byte s" using assms d False by (simp add: trim_right_ascii)
  ultimately show ?thesis by (simp add: TrimSpace_def map_idI)
qed

text \<open>Numbers in decimal notation, as \<open>fmt\<close> and \<open>strconv\<close> print them, and that they are read back.\<close>

definition digit_char :: "nat \<Rightarrow> char" where
  "digit_char n = of_byte (0x30 + n)"

fun dec :: "nat \<Rightarrow> string" where
  "dec n = (if n < 10 then [digit_char n] else dec (n div 10) @ [digit_char (n mod 10)])"

declare dec.simps [simp del]

definition nat_of_digits :: "string \<Rightarrow> nat" where
  "nat_of_digits s = foldl (\<lambda>n c. n * 10 + (byte c - 0x30)) 0 s"

lemma byte_digit [simp]: "n < 10 \<Longrightarrow> byte (digit_char n) = 0x30 + n"
  by (simp add: digit_char_def byte_def of_byte_def)

lemma digits_append: "foldl (\<lambda>n c. n * 10 + (byte c - 0x30)) 0 (xs @ [c]) = nat_of_digits xs * 10 + (byte c - 0x30)"
  by (simp add: nat_of_digits_def)

lemma nat_of_dec [simp]: "nat_of_digits (dec n) = n"
proof (induction n rule: dec.induct)
  case (1 n)
  show ?case
  proof (cases "n < 10")
    case True
    then show ?thesis by (subst dec.simps) (simp add: nat_of_digits_def)
  next
    case False
    with 1 have "nat_of_digits (dec (n div 10) @ [digit_char (n mod 10)]) = n"
      by (simp add: nat_of_digits_def digits_append [unfolded nat_of_digits_def])
    with False show ?thesis by (subst dec.simps) simp
  qed
qed

lemma dec_digits: "c \<in> set (dec n) \<Longrightarrow> 0x30 \<le> byte c \<and> byte c \<le> 0x39"
proof (induction n rule: dec.induct)
  case (1 n)
  have "byte (digit_char k) \<le> 0x39 \<and> 0x30 \<le> byte (digit_char k)" if "k < 10" for k using that by simp
  with 1 show ?case by (subst (asm) (2) dec.simps) (auto split: if_splits)
qed

end
