(* ===== verification/ClientAuth.thy ===== *)
theory ClientAuth
  imports RouteLimits Strings
begin

text \<open>
  \<open>client_auth.go\<close> and the key extraction of \<open>http_helpers.go\<close>: the registry of client keys, and
  what an \<open>Authorization\<close> header authenticates.
\<close>

section \<open>Model\<close>

definition GenerateClientKey where "GenerateClientKey = GenerateKey"
definition HashClientKey where "HashClientKey = HashKey"
definition VerifyClientKey where "VerifyClientKey = VerifyKey"

type_synonym clientRegistry = "string \<rightharpoonup> Client"

definition zero_Client :: Client where
  "zero_Client = \<lparr>cl_ID = [], cl_Name = [], cl_Status = [], cl_KeyPrefix = [], cl_KeyHash = []\<rparr>"

definition newClientRegistry :: "Client list \<Rightarrow> clientRegistry" where
  "newClientRegistry clients =
     fold (\<lambda>c m. if cl_KeyPrefix c = [] then m else m(cl_KeyPrefix c \<mapsto> c)) clients Map.empty"

definition authenticate :: "platform \<Rightarrow> clientRegistry \<Rightarrow> string \<Rightarrow> Client \<times> string" where
  "authenticate P r key =
     (if key = [] then (zero_Client, ''missing_client_key'')
      else case last_index CHR ''.'' key of
        None \<Rightarrow> (zero_Client, ''invalid_client_key'')
      | Some separator \<Rightarrow>
          (case r (take separator key) of
             None \<Rightarrow> (zero_Client, ''invalid_client_key'')
           | Some client \<Rightarrow>
               if \<not> VerifyClientKey P key (cl_KeyHash client) then (zero_Client, ''invalid_client_key'')
               else if cl_Status client = StatusEnabled then (client, [])
               else if cl_Status client = StatusDisabled then (zero_Client, ''disabled_client_key'')
               else if cl_Status client = StatusRevoked then (zero_Client, ''revoked_client_key'')
               else (zero_Client, ''disabled_client_key'')))"

definition AuthenticateClient :: "platform \<Rightarrow> clientRegistry \<Rightarrow> string \<Rightarrow> ClientIdentity \<times> RejectReason" where
  "AuthenticateClient P r key =
     (let (client, reason) = authenticate P r key in
      if reason \<noteq> [] then (\<lparr>ci_ID = []\<rparr>, reason) else (\<lparr>ci_ID = cl_ID client\<rparr>, []))"

definition clientKeyFromAuthorization :: "string \<Rightarrow> string" where
  "clientKeyFromAuthorization v =
     (let v = TrimSpace v in
      if v = [] then []
      else case cut_at CHR '' '' v of
        None \<Rightarrow> v
      | Some (scheme, token) \<Rightarrow> if \<not> EqualFold scheme ''Bearer'' then v else TrimSpace token)"

definition authStatus :: "string \<Rightarrow> int" where
  "authStatus reason =
     (if reason = ''missing_client_key'' \<or> reason = ''invalid_client_key'' then 401
      else if reason = ''disabled_client_key'' \<or> reason = ''revoked_client_key'' then 403
      else 401)"

section \<open>Lemmas\<close>

lemma registry_fold:
  "fold (\<lambda>c m. if cl_KeyPrefix c = [] then m else m(cl_KeyPrefix c \<mapsto> c)) clients m0 p = Some c \<Longrightarrow>
     m0 p = Some c \<or> (c \<in> set clients \<and> cl_KeyPrefix c = p \<and> p \<noteq> [])"
proof (induction clients arbitrary: m0)
  case (Cons d clients)
  from Cons.prems have "(if cl_KeyPrefix d = [] then m0 else m0(cl_KeyPrefix d \<mapsto> d)) p = Some c \<or>
      (c \<in> set clients \<and> cl_KeyPrefix c = p \<and> p \<noteq> [])"
    by (intro Cons.IH) simp
  then show ?case by (auto split: if_splits)
qed simp

lemma registry_lookup: "newClientRegistry clients p = Some c \<Longrightarrow> c \<in> set clients \<and> cl_KeyPrefix c = p \<and> p \<noteq> []"
  unfolding newClientRegistry_def by (drule registry_fold) simp

lemma registry_keep:
  "\<forall>d\<in>set clients. cl_KeyPrefix d \<noteq> p \<Longrightarrow>
     fold (\<lambda>c m. if cl_KeyPrefix c = [] then m else m(cl_KeyPrefix c \<mapsto> c)) clients m0 p = m0 p"
  by (induction clients arbitrary: m0) auto

lemma registry_member:
  assumes "c \<in> set clients" "distinct (map cl_KeyPrefix clients)" "cl_KeyPrefix c \<noteq> []"
  shows "newClientRegistry clients (cl_KeyPrefix c) = Some c"
proof -
  obtain xs ys where s: "clients = xs @ c # ys" using split_list [OF assms(1)] by blast
  have "distinct (map cl_KeyPrefix (xs @ c # ys))" using assms(2) unfolding s .
  then have "\<forall>d\<in>set ys. cl_KeyPrefix d \<noteq> cl_KeyPrefix c" by (simp add: image_iff) metis
  with s assms(3) show ?thesis by (simp add: newClientRegistry_def registry_keep)
qed

lemma authenticate_ok:
  "authenticate P r key = (c, []) \<longleftrightarrow>
     key \<noteq> [] \<and> (\<exists>i. last_index CHR ''.'' key = Some i \<and> r (take i key) = Some c) \<and>
     VerifyKey P key (cl_KeyHash c) \<and> cl_Status c = StatusEnabled"
proof (cases "last_index CHR ''.'' key")
  case None
  then show ?thesis by (simp add: authenticate_def)
next
  case (Some i)
  show ?thesis
  proof (cases "r (take i key)")
    case None
    with Some show ?thesis by (simp add: authenticate_def)
  next
    case (Some d)
    with \<open>last_index CHR ''.'' key = Some i\<close> show ?thesis by (simp add: authenticate_def VerifyClientKey_def) auto
  qed
qed

definition credential_of :: "platform \<Rightarrow> Client list \<Rightarrow> string \<Rightarrow> string \<Rightarrow> bool" where
  "credential_of P clients key cid \<longleftrightarrow>
     (\<exists>c\<in>set clients. cl_ID c = cid \<and> cl_Status c = StatusEnabled \<and> VerifyKey P key (cl_KeyHash c) \<and>
        (\<exists>secret. key = cl_KeyPrefix c @ ''.'' @ secret))"

lemma AuthenticateClient_sound:
  assumes "AuthenticateClient P (newClientRegistry clients) key = (ci, [])"
  shows "credential_of P clients key (ci_ID ci)"
proof -
  obtain c where c: "authenticate P (newClientRegistry clients) key = (c, [])" "ci_ID ci = cl_ID c"
    using assms by (auto simp: AuthenticateClient_def split: prod.splits if_splits)
  then obtain i where i: "last_index CHR ''.'' key = Some i" "newClientRegistry clients (take i key) = Some c"
      "VerifyKey P key (cl_KeyHash c)" "cl_Status c = StatusEnabled"
    by (auto simp: authenticate_ok)
  have "key = take i key @ key ! i # drop (Suc i) key" using last_index_Some [OF i(1)] id_take_nth_drop [of i key] by simp
  with last_index_Some [OF i(1)] registry_lookup [OF i(2)] have
    "c \<in> set clients" "key = cl_KeyPrefix c @ ''.'' @ drop (Suc i) key" by auto
  with i(3,4) c(2) show ?thesis by (auto simp: credential_of_def)
qed

text \<open>A freshly generated key authenticates the client that stores its material, whatever
  characters the client identifier has, and with the client's status otherwise; with the key itself
  wrapped as a bearer token the same holds of the header.\<close>

theorem generated_key_authenticates:
  assumes "sha256_ok P" "GenerateKey P r1 r2 cid = Inr (key, mat)"
    and "c \<in> set clients" "distinct (map cl_KeyPrefix clients)"
    and "cl_KeyPrefix c = km_Prefix mat" "cl_KeyHash c = km_Hash mat"
  shows "authenticate P (newClientRegistry clients) key =
      (if cl_Status c = StatusEnabled then (c, [])
       else if cl_Status c = StatusRevoked then (zero_Client, ''revoked_client_key'')
       else (zero_Client, ''disabled_client_key'')) \<and>
    clientKeyFromAuthorization (''Bearer '' @ key) = key"
proof -
  obtain pb sb where k: "km_Prefix mat = ''kgc_'' @ cid @ ''_'' @ b64_encode pb" "key = km_Prefix mat @ ''.'' @ b64_encode sb"
    "km_Hash mat = HashKey P key" "r2 keySecretSize = Some sb"
    using GenerateKey_Inr [OF assms(2)] by metis
  have "CHR ''.'' \<notin> set (b64_encode sb)" by (rule b64_alphabet_no_dot [OF b64_encode_alphabet])
  then have "last_index CHR ''.'' key = Some (length (km_Prefix mat))" by (simp add: k(2) last_index_append)
  moreover have "newClientRegistry clients (km_Prefix mat) = Some c"
    using registry_member [OF assms(3,4)] assms(5) k(1) by simp
  moreover have "VerifyKey P key (km_Hash mat)" using assms(1) by (simp add: k(3) VerifyKey_HashKey)
  moreover have "StatusDisabled \<noteq> StatusEnabled" "StatusRevoked \<noteq> StatusEnabled" "StatusRevoked \<noteq> StatusDisabled"
    by (simp_all add: kg_consts)
  ultimately have 1: "authenticate P (newClientRegistry clients) key =
      (if cl_Status c = StatusEnabled then (c, [])
       else if cl_Status c = StatusRevoked then (zero_Client, ''revoked_client_key'')
       else (zero_Client, ''disabled_client_key''))"
    by (simp add: authenticate_def VerifyClientKey_def assms(6) k(2))
  have last: "key \<noteq> [] \<and> byte (last key) < 0x80 \<and> \<not> is_space (byte (last key))" and hd: "byte (hd key) < 0x80 \<and> \<not> is_space (byte (hd key))"
  proof -
    show "byte (hd key) < 0x80 \<and> \<not> is_space (byte (hd key))"
      by (simp add: k(1,2) byte_def is_space_def in_range_def)
    show "key \<noteq> [] \<and> byte (last key) < 0x80 \<and> \<not> is_space (byte (last key))"
    proof (cases "b64_encode sb = []")
      case True
      then show ?thesis by (simp add: k(2) byte_def is_space_def in_range_def)
    next
      case False
      then have "b64_alphabet [last (b64_encode sb)]"
        using b64_encode_alphabet [of sb] by (auto simp: b64_alphabet_def list_all_iff)
      with False show ?thesis by (auto simp: k(2) b64_alphabet_def is_space_def in_range_def)
    qed
  qed
  have "TrimSpace (''Bearer '' @ key) = ''Bearer '' @ key"
    by (rule TrimSpace_id) (use last in \<open>simp add: byte_def is_space_def in_range_def\<close>)
  moreover have "cut_at CHR '' '' (''Bearer '' @ key) = Some (''Bearer'', key)" by simp
  moreover have "TrimSpace key = key" by (rule TrimSpace_id) (use last hd in simp)
  ultimately have "clientKeyFromAuthorization (''Bearer '' @ key) = key"
    by (simp add: clientKeyFromAuthorization_def EqualFold_def)
  with 1 show ?thesis by blast
qed

definition sample_rand :: "nat \<Rightarrow> string option" where
  "sample_rand n = Some (replicate n CHR ''x'')"

theorem generated_key_authenticates_witness:
  "\<exists>key mat. GenerateKey sample_platform sample_rand sample_rand ''acme.eu'' = Inr (key, mat) \<and>
     authenticate sample_platform (newClientRegistry [\<lparr>cl_ID = ''acme.eu'', cl_Name = ''Acme'', cl_Status = StatusEnabled,
       cl_KeyPrefix = km_Prefix mat, cl_KeyHash = km_Hash mat\<rparr>]) key =
     (\<lparr>cl_ID = ''acme.eu'', cl_Name = ''Acme'', cl_Status = StatusEnabled,
       cl_KeyPrefix = km_Prefix mat, cl_KeyHash = km_Hash mat\<rparr>, [])"
proof -
  obtain key mat where g: "GenerateKey sample_platform sample_rand sample_rand ''acme.eu'' = Inr (key, mat)"
    by (simp add: GenerateKey_def randomBytes_def sample_rand_def Let_def)
  with generated_key_authenticates [OF sample_sha256_ok g, of "\<lparr>cl_ID = ''acme.eu'', cl_Name = ''Acme'',
      cl_Status = StatusEnabled, cl_KeyPrefix = km_Prefix mat, cl_KeyHash = km_Hash mat\<rparr>"] show ?thesis by fastforce
qed

end
