(* ===== verification/Admission.thy ===== *)
theory Admission
  imports ClientAuth RouteLimits_Claims
begin

text \<open>
  \<open>AdmissionUseCase\<close> of \<open>usecases.go\<close>: authentication, limits, audit health, rate and concurrency
  for a protected route.  Its four dependencies are interfaces, and so locales here; they are
  interpreted on the client registry, the limit resolver and the limiter state the server passes.
  The state of the limiters is threaded explicitly; \<open>None\<close> is a nil interface.
\<close>

section \<open>Model\<close>

record AdmissionInput =
  adi_ClientKey :: string
  adi_RouteKey :: string
  adi_DefaultMaxBodyBytes :: int
  adi_Now :: gotime

record 'r AdmissionResult =
  adr_Allowed :: bool
  adr_Reason :: RejectReason
  adr_ClientID :: string
  adr_MaxBodyBytes :: int
  adr_Release :: "'r option"

record ('s, 'r) AdmissionUseCase =
  ad_Authenticator :: "(string \<Rightarrow> ClientIdentity \<times> RejectReason) option"
  ad_Limits :: "(string \<Rightarrow> string \<Rightarrow> LimitPolicy option) option"
  ad_RateLimiter :: "(gotime \<Rightarrow> string \<Rightarrow> string \<Rightarrow> LimitPolicy \<Rightarrow> 's \<Rightarrow> bool \<times> 's) option"
  ad_ConcurrencyLimiter :: "(string \<Rightarrow> string \<Rightarrow> LimitPolicy \<Rightarrow> 's \<Rightarrow> 'r option option \<times> 's) option"
  ad_Audit :: "bool option"

definition reject_admission :: "RejectReason \<Rightarrow> string \<Rightarrow> 'r AdmissionResult" where
  "reject_admission reason clientID =
     \<lparr>adr_Allowed = False, adr_Reason = reason, adr_ClientID = clientID, adr_MaxBodyBytes = 0, adr_Release = None\<rparr>"

text \<open>The release of a result: \<open>None\<close> is the no-op.  A reservation that succeeds may still return a
  nil function, which is replaced by the no-op.\<close>

definition AdmitProtectedRoute ::
  "('s, 'r) AdmissionUseCase \<Rightarrow> AdmissionInput \<Rightarrow> 's \<Rightarrow> 'r AdmissionResult \<times> 's" where
  "AdmitProtectedRoute u i s =
     (case ad_Authenticator u of
        None \<Rightarrow> (reject_admission RejectInvalidClientKey [], s)
      | Some auth \<Rightarrow>
     (let (client, reason) = auth (adi_ClientKey i) in
      if reason \<noteq> [] then (reject_admission reason [], s)
      else case ad_Limits u of
        None \<Rightarrow> (reject_admission RejectMissingLimitPolicy (ci_ID client), s)
      | Some limits \<Rightarrow>
     (case limits (ci_ID client) (adi_RouteKey i) of
        None \<Rightarrow> (reject_admission RejectMissingLimitPolicy (ci_ID client), s)
      | Some effective \<Rightarrow>
      if ad_Audit u \<noteq> None \<and> \<not> the (ad_Audit u) then (reject_admission RejectAuditSinkUnhealthy (ci_ID client), s)
      else
     (case ad_RateLimiter u of
        None \<Rightarrow> (reject_admission RejectRateLimitExceeded (ci_ID client), s)
      | Some allow \<Rightarrow>
     (let (ok, s1) = allow (adi_Now i) (ci_ID client) (adi_RouteKey i) effective s in
      if \<not> ok then (reject_admission RejectRateLimitExceeded (ci_ID client), s1)
      else
     (case ad_ConcurrencyLimiter u of
        None \<Rightarrow> (reject_admission RejectConcurrencyLimitExceeded (ci_ID client), s1)
      | Some acquire \<Rightarrow>
     (case acquire (ci_ID client) (adi_RouteKey i) effective s1 of
        (None, s2) \<Rightarrow> (reject_admission RejectConcurrencyLimitExceeded (ci_ID client), s2)
      | (Some rel, s2) \<Rightarrow>
          (let maxBodyBytes = (if lim_MaxBodyBytes effective \<le> 0 then adi_DefaultMaxBodyBytes i
                               else lim_MaxBodyBytes effective)
           in (\<lparr>adr_Allowed = True, adr_Reason = [], adr_ClientID = ci_ID client,
                adr_MaxBodyBytes = maxBodyBytes, adr_Release = rel\<rparr>, s2)))))))))"

section \<open>The interfaces\<close>

text \<open>An authenticator vouches that an accepted key is a credential of the identity it returns.\<close>

locale authenticator =
  fixes authenticate_client :: "string \<Rightarrow> ClientIdentity \<times> RejectReason"
    and credential :: "string \<Rightarrow> string \<Rightarrow> bool"
  assumes accepted: "authenticate_client key = (ci, []) \<Longrightarrow> credential key (ci_ID ci)"

text \<open>A limit resolver only returns limits that let some request through.\<close>

locale limit_resolver =
  fixes effective_limit :: "string \<Rightarrow> string \<Rightarrow> LimitPolicy option"
    and limited :: "string \<Rightarrow> bool"
  assumes positive: "effective_limit c r = Some p \<Longrightarrow>
      lim_RequestsPerWindow p > 0 \<and> lim_Window p > 0 \<and> lim_MaxConcurrentRequests p > 0 \<and> lim_MaxBodyBytes p > 0"
    and needs_limit: "effective_limit c r = Some p \<Longrightarrow> limited r"

text \<open>A limiter accounts for reservations: a successful one adds one and its release takes it away
  again, while checks and refusals change nothing.\<close>

locale limiter =
  fixes allow :: "gotime \<Rightarrow> string \<Rightarrow> string \<Rightarrow> LimitPolicy \<Rightarrow> 's \<Rightarrow> bool \<times> 's"
    and acquire :: "string \<Rightarrow> string \<Rightarrow> LimitPolicy \<Rightarrow> 's \<Rightarrow> 'r option option \<times> 's"
    and give_back :: "'r \<Rightarrow> 's \<Rightarrow> 's"
    and reserved :: "'s \<Rightarrow> string \<Rightarrow> string \<Rightarrow> int"
    and valid :: "'s \<Rightarrow> bool"
  assumes allow_valid: "valid s \<Longrightarrow> valid (snd (allow now c r p s))"
    and allow_frame: "reserved (snd (allow now c r p s)) c' r' = reserved s c' r'"
    and acquire_refused: "acquire c r p s = (None, s') \<Longrightarrow> s' = s"
    and acquire_ok: "valid s \<Longrightarrow> acquire c r p s = (Some rel, s') \<Longrightarrow>
      valid s' \<and> reserved s' c r = reserved s c r + 1 \<and> reserved s c r < lim_MaxConcurrentRequests p \<and>
      (\<exists>h. rel = Some h \<and> valid (give_back h s') \<and> (\<forall>c' r'. reserved (give_back h s') c' r' = reserved s c' r'))"

locale admission = authenticator authenticate_client credential + limit_resolver effective_limit limited +
    limiter allow acquire give_back reserved valid
  for authenticate_client credential effective_limit limited allow acquire
    and give_back :: "'r \<Rightarrow> 's \<Rightarrow> 's" and reserved valid
begin

abbreviation use_case :: "bool option \<Rightarrow> ('s, 'r) AdmissionUseCase" where
  "use_case audit \<equiv> \<lparr>ad_Authenticator = Some authenticate_client, ad_Limits = Some effective_limit,
     ad_RateLimiter = Some allow, ad_ConcurrencyLimiter = Some acquire, ad_Audit = audit\<rparr>"

lemma admitted_fair:
  assumes "AdmitProtectedRoute (use_case audit) i s = (res, s')" "valid s" "adr_Allowed res"
  shows "credential (adi_ClientKey i) (adr_ClientID res)" "limited (adi_RouteKey i)" "audit \<noteq> Some False"
    "adr_MaxBodyBytes res > 0" "valid s'"
    "reserved s' (adr_ClientID res) (adi_RouteKey i) = reserved s (adr_ClientID res) (adi_RouteKey i) + 1"
    "\<exists>h. adr_Release res = Some h \<and> valid (give_back h s') \<and> (\<forall>c r. reserved (give_back h s') c r = reserved s c r)"
proof -
  obtain ci p s1 rel where a: "authenticate_client (adi_ClientKey i) = (ci, [])"
      "effective_limit (ci_ID ci) (adi_RouteKey i) = Some p" "audit \<noteq> Some False"
      "allow (adi_Now i) (ci_ID ci) (adi_RouteKey i) p s = (True, s1)"
      "acquire (ci_ID ci) (adi_RouteKey i) p s1 = (Some rel, s')"
      "res = \<lparr>adr_Allowed = True, adr_Reason = [], adr_ClientID = ci_ID ci,
        adr_MaxBodyBytes = lim_MaxBodyBytes p, adr_Release = rel\<rparr>"
    using assms(1,3) positive
    by (auto simp: AdmitProtectedRoute_def reject_admission_def Let_def not_le
        split: prod.splits if_splits option.splits) fastforce+
  have v1: "valid s1" "\<And>c r. reserved s1 c r = reserved s c r"
    using allow_valid [OF assms(2)] allow_frame a(4) by (metis snd_conv)+
  show "credential (adi_ClientKey i) (adr_ClientID res)" using accepted [OF a(1)] a(6) by simp
  show "limited (adi_RouteKey i)" by (rule needs_limit [OF a(2)])
  show "audit \<noteq> Some False" by (rule a(3))
  show "adr_MaxBodyBytes res > 0" using positive [OF a(2)] a(6) by simp
  show "valid s'" "reserved s' (adr_ClientID res) (adi_RouteKey i) = reserved s (adr_ClientID res) (adi_RouteKey i) + 1"
      "\<exists>h. adr_Release res = Some h \<and> valid (give_back h s') \<and> (\<forall>c r. reserved (give_back h s') c r = reserved s c r)"
    using acquire_ok [OF v1(1) a(5)] a(6) v1(2) by auto
qed

lemma rejected_keeps:
  assumes "AdmitProtectedRoute (use_case audit) i s = (res, s')" "\<not> adr_Allowed res"
  shows "adr_Release res = None" "reserved s' c r = reserved s c r" "adr_Reason res \<noteq> []" "valid s \<Longrightarrow> valid s'"
proof -
  obtain ci reason where auth: "authenticate_client (adi_ClientKey i) = (ci, reason)" by fastforce
  have "adr_Release res = None \<and> adr_Reason res \<noteq> [] \<and> (s' = s \<or> (\<exists>now c r p. s' = snd (allow now c r p s)))"
  proof -
    consider "reason \<noteq> []" | "reason = []" "effective_limit (ci_ID ci) (adi_RouteKey i) = None"
      | p where "reason = []" "effective_limit (ci_ID ci) (adi_RouteKey i) = Some p" "audit = Some False"
      | (go) p where "reason = []" "effective_limit (ci_ID ci) (adi_RouteKey i) = Some p" "audit \<noteq> Some False"
      by blast
    then show ?thesis
  proof cases
    case (go p)
    note p = this
    obtain ok s1 where al: "allow (adi_Now i) (ci_ID ci) (adi_RouteKey i) p s = (ok, s1)" by fastforce
    then have s1: "s1 = snd (allow (adi_Now i) (ci_ID ci) (adi_RouteKey i) p s)" by simp
    obtain rel s2 where ac: "acquire (ci_ID ci) (adi_RouteKey i) p s1 = (rel, s2)" by fastforce
    have au: "audit = None \<or> audit = Some True" using p(3) by (cases audit) auto
    from au have eq: "AdmitProtectedRoute (use_case audit) i s =
        (if \<not> ok then (reject_admission RejectRateLimitExceeded (ci_ID ci), s1)
         else case rel of
           None \<Rightarrow> (reject_admission RejectConcurrencyLimitExceeded (ci_ID ci), s2)
         | Some h \<Rightarrow> (\<lparr>adr_Allowed = True, adr_Reason = [], adr_ClientID = ci_ID ci,
             adr_MaxBodyBytes = (if lim_MaxBodyBytes p \<le> 0 then adi_DefaultMaxBodyBytes i else lim_MaxBodyBytes p),
             adr_Release = h\<rparr>, s2))"
      by (elim disjE; cases rel) (simp_all add: AdmitProtectedRoute_def auth p al ac Let_def)
    show ?thesis
    proof (cases "ok \<and> rel \<noteq> None")
      case True
      with eq assms show ?thesis by auto
    next
      case False
      then consider "\<not> ok" | "ok" "rel = None" by blast
      then show ?thesis
      proof cases
        case 1
        with eq assms(1) s1 show ?thesis by (auto simp: reject_admission_def RejectRateLimitExceeded_def)
      next
        case 2
        then have "s2 = s1" using acquire_refused ac by blast
        with 2 eq assms(1) s1 show ?thesis by (auto simp: reject_admission_def RejectConcurrencyLimitExceeded_def)
      qed
    qed
  qed (use assms auth in \<open>auto simp: AdmitProtectedRoute_def reject_admission_def kg_consts\<close>)
  qed
  then show "adr_Release res = None" "reserved s' c r = reserved s c r" "adr_Reason res \<noteq> []" "valid s \<Longrightarrow> valid s'"
    using allow_frame allow_valid by auto
qed

end

section \<open>The server's admission\<close>

text \<open>The reservation of the limiter as the interface has it.\<close>

definition acquire_reservation ::
  "string \<Rightarrow> string \<Rightarrow> LimitPolicy \<Rightarrow> limitState \<Rightarrow> release_handle option option \<times> limitState" where
  "acquire_reservation c r p s =
     (let (h, s') = AcquireConcurrency c r p s in (case h of None \<Rightarrow> None | Some h \<Rightarrow> Some (Some h), s'))"

definition limiter_valid :: "limitState \<Rightarrow> bool" where
  "limiter_valid s \<longleftrightarrow> (\<forall>k n. ls_concurrency s k = Some n \<longrightarrow> n > 0) \<and> (\<forall>i\<in>ls_fired s. i < ls_next_once s)"

definition reserved_for :: "limitState \<Rightarrow> string \<Rightarrow> string \<Rightarrow> int" where
  "reserved_for s c r = concurrency_of s (limitKey c r)"

interpretation server_limiter: limiter AllowRate acquire_reservation release reserved_for limiter_valid
proof
  show "limiter_valid (snd (AllowRate now c r p s))" if "limiter_valid s" for now c r p s
    using that by (simp add: limiter_valid_def AllowRate_frame)
  show "reserved_for (snd (AllowRate now c r p s)) c' r' = reserved_for s c' r'" for now c r p s c' r'
    by (simp add: reserved_for_def concurrency_of_def AllowRate_frame)
  show "s' = s" if "acquire_reservation c r p s = (None, s')" for c r p s s'
    using that by (auto simp: acquire_reservation_def dest: Acquire_None split: prod.splits option.splits)
  show "limiter_valid s' \<and> reserved_for s' c r = reserved_for s c r + 1 \<and> reserved_for s c r < lim_MaxConcurrentRequests p \<and>
      (\<exists>h. rel = Some h \<and> limiter_valid (release h s') \<and> (\<forall>c' r'. reserved_for (release h s') c' r' = reserved_for s c' r'))"
    if "limiter_valid s" "acquire_reservation c r p s = (Some rel, s')" for c r p s rel s'
  proof -
    note pre = that
    obtain h where h: "AcquireConcurrency c r p s = (Some h, s')" "rel = Some h"
      using pre(2) by (auto simp: acquire_reservation_def split: prod.splits option.splits)
    note a = Acquire_Some [OF h(1)]
    have nonneg: "0 \<le> concurrency_of s k" for k
      using that(1) by (force simp: limiter_valid_def concurrency_of_def split: option.split)
    have "rh_once h \<notin> ls_fired s'" using a(1,3) that(1) by (auto simp: limiter_valid_def)
    then have "concurrency_of (release h s') k = concurrency_of s k" for k
      using a(1,3) nonneg [of "limitKey c r"] by (auto simp: release_def concurrency_of_def Let_def)
    moreover have v: "limiter_valid s'"
      using that(1) a(3) nonneg [of "limitKey c r"] by (auto simp: limiter_valid_def less_SucI)
    moreover have "limiter_valid (release h s')"
      using that(1) a(1,3) nonneg [of "limitKey c r"] by (auto simp: limiter_valid_def release_def less_SucI concurrency_of_def Let_def split: option.splits)
    ultimately show ?thesis using a h(2) by (auto simp: reserved_for_def concurrency_of_def)
  qed
qed

interpretation server_resolver: limit_resolver "EffectiveLimitPolicy (newLimitResolver routes ps os)"
    "\<lambda>r. \<exists>q\<in>set ps. validRouteLimitPolicy q \<and> lp_RouteKey q = r" for routes ps os
  by unfold_locales (auto simp: EffectiveLimitPolicy_def dest: effectivePolicy_sound split: option.splits)

interpretation server_auth: authenticator "AuthenticateClient P (newClientRegistry clients)"
    "credential_of P clients" for P clients
  by unfold_locales (rule AuthenticateClient_sound)

interpretation server_admission: admission "AuthenticateClient P (newClientRegistry clients)" "credential_of P clients"
    "EffectiveLimitPolicy (newLimitResolver routes ps os)" "\<lambda>r. \<exists>q\<in>set ps. validRouteLimitPolicy q \<and> lp_RouteKey q = r"
    AllowRate acquire_reservation release reserved_for limiter_valid for P clients routes ps os
  by unfold_locales

text \<open>The use case the server builds (request\_admission.go).\<close>

definition server_use_case ::
  "platform \<Rightarrow> Client list \<Rightarrow> Route list \<Rightarrow> RouteLimitPolicy list \<Rightarrow> RouteLimitOverride list \<Rightarrow> bool option \<Rightarrow>
     (limitState, release_handle) AdmissionUseCase" where
  "server_use_case P clients routes ps os audit =
     \<lparr>ad_Authenticator = Some (AuthenticateClient P (newClientRegistry clients)),
      ad_Limits = Some (EffectiveLimitPolicy (newLimitResolver routes ps os)),
      ad_RateLimiter = Some AllowRate, ad_ConcurrencyLimiter = Some acquire_reservation, ad_Audit = audit\<rparr>"


text \<open>A rejected request holds no reservation: whatever the reason, every counter is what it was.\<close>

theorem rejected_reserves_nothing:
  assumes "AdmitProtectedRoute (server_use_case P clients routes ps os audit) i s = (res, s')" "\<not> adr_Allowed res"
  shows "adr_Release res = None \<and> adr_Reason res \<noteq> [] \<and> (\<forall>c r. reserved_for s' c r = reserved_for s c r)"
  using server_admission.rejected_keeps [OF assms(1) [unfolded server_use_case_def] assms(2)] by blast

section \<open>Witnesses\<close>

definition sample_client :: Client where
  "sample_client = \<lparr>cl_ID = ''c'', cl_Name = ''C'', cl_Status = StatusEnabled, cl_KeyPrefix = ''p'',
     cl_KeyHash = HashKey sample_platform ''p.s''\<rparr>"

definition sample_route_limit :: RouteLimitPolicy where
  "sample_route_limit = \<lparr>lp_RouteKey = ''r'', lp_RequestsPerWindow = 1, lp_Window = 5, lp_MaxConcurrentRequests = 1,
     lp_MaxBodyBytes = 10, lp_Enabled = True\<rparr>"

definition sample_admission :: "string \<Rightarrow> AdmissionInput" where
  "sample_admission key = \<lparr>adi_ClientKey = key, adi_RouteKey = ''r'', adi_DefaultMaxBodyBytes = 1, adi_Now = 1\<rparr>"

abbreviation sample_use_case :: "(limitState, release_handle) AdmissionUseCase" where
  "sample_use_case \<equiv> server_use_case sample_platform [sample_client] [] [sample_route_limit] [] None"

lemma sample_authenticates:
  "AuthenticateClient sample_platform (newClientRegistry [sample_client]) ''p.s'' = (\<lparr>ci_ID = ''c''\<rparr>, [])"
proof -
  have "authenticate sample_platform (newClientRegistry [sample_client]) ''p.s'' = (sample_client, [])"
    by (simp add: authenticate_ok last_index_def newClientRegistry_def sample_client_def VerifyKey_HashKey)
  then show ?thesis by (simp add: AuthenticateClient_def sample_client_def)
qed

lemma sample_effective:
  "EffectiveLimitPolicy (newLimitResolver [] [sample_route_limit] []) ''c'' ''r'' =
     Some \<lparr>lim_RequestsPerWindow = 1, lim_Window = 5, lim_MaxConcurrentRequests = 1, lim_MaxBodyBytes = 10\<rparr>"
  by (simp add: EffectiveLimitPolicy_def effectivePolicy_def newLimitResolver_def add_policy_def
      validRouteLimitPolicy_def sample_route_limit_def)

lemma sample_admitted:
  "\<exists>s'. AdmitProtectedRoute sample_use_case (sample_admission ''p.s'') newLimitState =
     (\<lparr>adr_Allowed = True, adr_Reason = [], adr_ClientID = ''c'', adr_MaxBodyBytes = 10,
       adr_Release = Some \<lparr>rh_once = 0, rh_key = limitKey ''c'' ''r''\<rparr>\<rparr>, s')"
  by (simp add: AdmitProtectedRoute_def server_use_case_def sample_admission_def sample_authenticates sample_effective
      AllowRate_def allowRate_def acquire_reservation_def AcquireConcurrency_def acquireConcurrency_def
      limit_as_route_policy_def newLimitState_def rate_of_def concurrency_of_def Let_def)


theorem rejected_reserves_nothing_witness:
  "\<exists>res s'. AdmitProtectedRoute sample_use_case (sample_admission []) newLimitState = (res, s') \<and>
     adr_Reason res = ''missing_client_key'' \<and> reserved_for s' ''c'' ''r'' = 0"
proof -
  have a: "AdmitProtectedRoute sample_use_case (sample_admission []) newLimitState =
      (reject_admission ''missing_client_key'' [], newLimitState)"
    by (simp add: AdmitProtectedRoute_def server_use_case_def sample_admission_def AuthenticateClient_def authenticate_def)
  from rejected_reserves_nothing [OF this] a show ?thesis
    by (simp add: reject_admission_def reserved_for_def concurrency_of_def newLimitState_def)
qed

end
