(* ===== verification/Evaluation.thy ===== *)
theory Evaluation
  imports Policy_Claims Lifecycle
begin

text \<open>
  The policy evaluation of the gateway (\<open>usecases.go\<close> and \<open>traffic\_evaluation.go\<close> of
  \<open>gateway/application\<close>): a verdict provider's result becomes a model signal, and the signal and
  the text are evaluated by the policy snapshot.

  The snapshot is an interface, \<open>None\<close> when nil.  The interface is the locale \<open>policy_snapshot\<close>,
  interpreted on \<open>Evaluate\<close> of compiled snapshots.  Durations that the code measures around its own
  computations are arguments.  The goroutine of the shadow mode is a task in the result.
\<close>

section \<open>Signals and decisions (usecases.go)\<close>

type_synonym policy_iface = "(EvaluationRequest \<Rightarrow> Decision) option"

definition PolicyAction :: "RoutingAction \<Rightarrow> Action" where
  "PolicyAction a =
     (if a = RoutingActionAllow then ActionAllow
      else if a = RoutingActionBlock then ActionBlock
      else if a = RoutingActionRedact then ActionRedact
      else if a = RoutingActionShadowLog then ActionShadowLog
      else [])"

definition KnownPolicyAction :: "Action \<Rightarrow> bool" where
  "KnownPolicyAction a = (a = ActionAllow \<or> a = ActionBlock \<or> a = ActionRedact \<or> a = ActionShadowLog)"

definition ModelSignalFromVerdict ::
  "(verdict_error \<Rightarrow> string) \<Rightarrow> VerdictResult \<Rightarrow> verdict_error option \<Rightarrow> RoutingAction \<Rightarrow> ModelSignal" where
  "ModelSignalFromVerdict error_text result err fallback =
     (let signal = \<lparr>ms_SuggestedAction = PolicyAction (res_SuggestedAction result), ms_RiskLevel = res_RiskLevel result,
            ms_Categories = res_Categories result, ms_Confidence = res_Confidence result,
            ms_FallbackAction = PolicyAction fallback, ms_FallbackUsed = res_FallbackUsed result,
            ms_Error = res_Error result\<rparr>
      in case err of
        None \<Rightarrow> signal
      | Some e \<Rightarrow>
          (let signal = signal\<lparr>ms_FallbackUsed := True, ms_Error := error_text e\<rparr> in
           if ms_FallbackAction signal = [] then signal\<lparr>ms_FallbackAction := ActionBlock\<rparr> else signal))"

definition DecisionFromModelSignal :: "ModelSignal \<Rightarrow> Decision" where
  "DecisionFromModelSignal signal =
     (let action = (if ms_FallbackUsed signal then ms_FallbackAction signal else ms_SuggestedAction signal);
          action = (if \<not> KnownPolicyAction action then ActionAllow else action)
      in zero_Decision\<lparr>dec_Action := action, dec_DefaultAction := ActionAllow, dec_ModelSignal := signal,
           dec_ModelSignalApplied := (action \<noteq> ActionAllow)\<rparr>)"

definition PolicyEvaluator_Evaluate :: "policy_iface \<Rightarrow> PolicyEvaluationInput \<Rightarrow> Decision" where
  "PolicyEvaluator_Evaluate snapshot i =
     (let signal = pei_ModelSignal i;
          signal = (if ms_FallbackAction signal = [] then signal\<lparr>ms_FallbackAction := pei_FallbackAction i\<rparr> else signal)
      in case snapshot of
        None \<Rightarrow> DecisionFromModelSignal signal
      | Some evaluate \<Rightarrow> evaluate \<lparr>req_RouteKey = pei_RouteKey i, req_Provider = pei_ProviderKey i,
          req_Model = pei_Model i, req_Direction = pei_Direction i, req_Text = pei_Text i, req_ModelSignal = signal\<rparr>)"

section \<open>Traffic evaluation (traffic\_evaluation.go)\<close>

record TrafficEvaluationInput =
  tei_RequestID :: string
  tei_CorrelationID :: string
  tei_RouteKey :: string
  tei_ProviderKey :: string
  tei_Model :: string
  tei_Direction :: Direction
  tei_Text :: string
  tei_Execution :: ExecutionMode
  tei_FallbackAction :: RoutingAction
  tei_VerdictProvider :: "verdict_provider option"

record TrafficEvaluationResult =
  ter_Direction :: Direction
  ter_Text :: string
  ter_Verdict :: VerdictResult
  ter_Decision :: Decision
  ter_DetectorLatency :: duration
  ter_VerdictLatency :: duration

record TrafficEvaluationUseCase =
  teu_Snapshot :: policy_iface
  teu_VerdictTimeout :: duration
  teu_ShadowObserver :: bool

definition verdictRequest :: "TrafficEvaluationInput \<Rightarrow> VerdictRequest" where
  "verdictRequest i = \<lparr>vr_RequestID = tei_RequestID i, vr_CorrelationID = tei_CorrelationID i,
     vr_RouteKey = tei_RouteKey i, vr_ProviderKey = tei_ProviderKey i, vr_Model = tei_Model i,
     vr_Direction = tei_Direction i, vr_Text = tei_Text i, vr_Metadata = Map.empty\<rparr>"

definition evaluatePolicyTimed ::
  "TrafficEvaluationUseCase \<Rightarrow> duration \<Rightarrow> TrafficEvaluationInput \<Rightarrow> ModelSignal \<Rightarrow> Decision \<times> duration" where
  "evaluatePolicyTimed u took i signal =
     (PolicyEvaluator_Evaluate (teu_Snapshot u)
        \<lparr>pei_RouteKey = tei_RouteKey i, pei_ProviderKey = tei_ProviderKey i, pei_Model = tei_Model i,
         pei_Direction = tei_Direction i, pei_Text = tei_Text i, pei_ModelSignal = signal,
         pei_FallbackAction = PolicyAction (tei_FallbackAction i)\<rparr>,
      positive_latency took)"

definition evaluateVerdict ::
  "TrafficEvaluationUseCase \<Rightarrow> vctx \<Rightarrow> gotime \<Rightarrow> verdict_provider \<Rightarrow> TrafficEvaluationInput \<Rightarrow> verdict_outcome" where
  "evaluateVerdict u ctx start provider i =
     provider (if teu_VerdictTimeout u > 0 then WithTimeout ctx start (teu_VerdictTimeout u) else ctx) start (verdictRequest i)"

text \<open>The bounded call waits for the provider or for the context; when both are ready, \<open>select\<close> takes
  either, which the argument \<open>prefer_result\<close> decides.\<close>

definition bounded_call :: "bool \<Rightarrow> vctx \<Rightarrow> gotime \<Rightarrow> verdict_provider \<Rightarrow> VerdictRequest \<Rightarrow> verdict_outcome" where
  "bounded_call prefer_result ctx start provider request =
     (let (finish, outcome) = provider ctx start request in
      case ctx_done ctx of
        None \<Rightarrow> (finish, outcome)
      | Some (t, e) \<Rightarrow>
          if max start t < finish \<or> (max start t = finish \<and> \<not> prefer_result)
          then (max start t, Inl (CtxError e)) else (finish, outcome))"

definition evaluateVerdictBounded ::
  "bool \<Rightarrow> TrafficEvaluationUseCase \<Rightarrow> vctx \<Rightarrow> gotime \<Rightarrow> verdict_provider \<Rightarrow> TrafficEvaluationInput \<Rightarrow> verdict_outcome" where
  "evaluateVerdictBounded prefer_result u ctx start provider i =
     bounded_call prefer_result
       (if teu_VerdictTimeout u > 0 then WithTimeout ctx start (teu_VerdictTimeout u) else ctx) start provider (verdictRequest i)"

definition outcome_parts :: "verdict_error + VerdictResult \<Rightarrow> VerdictResult \<times> verdict_error option" where
  "outcome_parts x = (case x of Inl e \<Rightarrow> (zero_VerdictResult, Some e) | Inr r \<Rightarrow> (r, None))"

text \<open>The body of the shadow goroutine, run at some later time under a context that is never done.\<close>

definition shadow_task ::
  "(verdict_error \<Rightarrow> string) \<Rightarrow> bool \<Rightarrow> TrafficEvaluationUseCase \<Rightarrow> gotime \<Rightarrow> duration \<Rightarrow> verdict_provider \<Rightarrow>
     TrafficEvaluationInput \<Rightarrow> TrafficEvaluationResult" where
  "shadow_task error_text prefer_result u start took provider i =
     (let (finish, outcome) = evaluateVerdictBounded prefer_result u background start provider i;
          (verdictResult, err) = outcome_parts outcome;
          modelSignal = ModelSignalFromVerdict error_text verdictResult err (tei_FallbackAction i);
          (decision, detectorLatency) = evaluatePolicyTimed u took i modelSignal
      in \<lparr>ter_Direction = tei_Direction i, ter_Text = tei_Text i, ter_Verdict = verdictResult, ter_Decision = decision,
          ter_DetectorLatency = detectorLatency, ter_VerdictLatency = positive_latency (finish + took - start)\<rparr>)"

definition startAsyncShadow ::
  "TrafficEvaluationUseCase \<Rightarrow> TrafficEvaluationInput \<Rightarrow> verdict_provider option" where
  "startAsyncShadow u i =
     (if tei_VerdictProvider i = None \<or> \<not> teu_ShadowObserver u then None else tei_VerdictProvider i)"

text \<open>The result, and the provider of a shadow task that was started.\<close>

definition TrafficEvaluation_Evaluate ::
  "(verdict_error \<Rightarrow> string) \<Rightarrow> TrafficEvaluationUseCase \<Rightarrow> vctx \<Rightarrow> gotime \<Rightarrow> duration \<Rightarrow> TrafficEvaluationInput \<Rightarrow>
     TrafficEvaluationResult \<times> verdict_provider option" where
  "TrafficEvaluation_Evaluate error_text u ctx start took i =
     (let result = \<lparr>ter_Direction = tei_Direction i, ter_Text = tei_Text i, ter_Verdict = zero_VerdictResult,
            ter_Decision = zero_Decision, ter_DetectorLatency = 0, ter_VerdictLatency = 0\<rparr>
      in if tei_Execution i = ExecutionAsyncShadow
         then
           (let shadow = startAsyncShadow u i; (decision, lat) = evaluatePolicyTimed u took i zero_ModelSignal in
            (result\<lparr>ter_Decision := decision, ter_DetectorLatency := lat\<rparr>, shadow))
         else
           (let (result, modelSignal) =
                  (case tei_VerdictProvider i of
                     None \<Rightarrow> (result, zero_ModelSignal)
                   | Some provider \<Rightarrow>
                       (let (finish, outcome) = evaluateVerdict u ctx start provider i;
                            (verdictResult, err) = outcome_parts outcome
                        in (result\<lparr>ter_VerdictLatency := positive_latency (finish - start), ter_Verdict := verdictResult\<rparr>,
                            ModelSignalFromVerdict error_text verdictResult err (tei_FallbackAction i))));
                (decision, lat) = evaluatePolicyTimed u took i modelSignal
            in (result\<lparr>ter_Decision := decision, ter_DetectorLatency := lat\<rparr>, None)))"

definition EvaluatePolicyOnly ::
  "TrafficEvaluationUseCase \<Rightarrow> duration \<Rightarrow> TrafficEvaluationInput \<Rightarrow> TrafficEvaluationResult" where
  "EvaluatePolicyOnly u took i =
     (let (decision, detectorLatency) = evaluatePolicyTimed u took i zero_ModelSignal in
      \<lparr>ter_Direction = tei_Direction i, ter_Text = tei_Text i, ter_Verdict = zero_VerdictResult,
       ter_Decision = decision, ter_DetectorLatency = detectorLatency, ter_VerdictLatency = 0\<rparr>)"

text \<open>The snapshot the server passes (evaluation.go): a pointer stored in the interface, which is
  therefore never nil, even when the pointer is.\<close>

definition server_snapshot :: "platform \<Rightarrow> Snapshot option \<Rightarrow> policy_iface" where
  "server_snapshot P s = Some (Evaluate P s)"

section \<open>The interface of a snapshot\<close>

locale policy_snapshot =
  fixes evaluate :: "EvaluationRequest \<Rightarrow> Decision"
  assumes signal_enforced: "actionPriority (model_action (req_ModelSignal req)) \<le> actionPriority (dec_Action (evaluate req))"
    and signal_kept: "dec_ModelSignal (evaluate req) = req_ModelSignal req"
begin

lemma evaluator_signal:
  assumes "ms_FallbackAction (pei_ModelSignal i) \<noteq> []"
  shows "actionPriority (model_action (pei_ModelSignal i)) \<le> actionPriority (dec_Action (PolicyEvaluator_Evaluate (Some evaluate) i))"
    and "dec_ModelSignal (PolicyEvaluator_Evaluate (Some evaluate) i) = pei_ModelSignal i"
  using assms signal_enforced [of "\<lparr>req_RouteKey = pei_RouteKey i, req_Provider = pei_ProviderKey i, req_Model = pei_Model i,
      req_Direction = pei_Direction i, req_Text = pei_Text i, req_ModelSignal = pei_ModelSignal i\<rparr>"]
  by (simp_all add: PolicyEvaluator_Evaluate_def signal_kept)

text \<open>A failing verdict provider counts as its fallback, and as a block when the route has no known one.\<close>

lemma verdict_failure:
  assumes "tei_Execution i \<noteq> ExecutionAsyncShadow" "tei_VerdictProvider i = Some provider"
    and "teu_Snapshot u = Some evaluate" "snd (evaluateVerdict u ctx start provider i) = Inl e"
  shows "actionPriority (if PolicyAction (tei_FallbackAction i) = [] then ActionBlock else PolicyAction (tei_FallbackAction i)) \<le>
      actionPriority (dec_Action (ter_Decision (fst (TrafficEvaluation_Evaluate etext u ctx start took i))))"
    and "ms_Error (dec_ModelSignal (ter_Decision (fst (TrafficEvaluation_Evaluate etext u ctx start took i)))) = etext e"
proof -
  obtain finish where v: "evaluateVerdict u ctx start provider i = (finish, Inl e)" using assms(4) by (metis prod.collapse)
  let ?sig = "ModelSignalFromVerdict etext zero_VerdictResult (Some e) (tei_FallbackAction i)"
  let ?pei = "\<lparr>pei_RouteKey = tei_RouteKey i, pei_ProviderKey = tei_ProviderKey i, pei_Model = tei_Model i,
         pei_Direction = tei_Direction i, pei_Text = tei_Text i, pei_ModelSignal = ?sig,
         pei_FallbackAction = PolicyAction (tei_FallbackAction i)\<rparr>"
  have sig: "ms_FallbackUsed ?sig" "ms_Error ?sig = etext e" "ms_FallbackAction ?sig \<noteq> []"
      "ms_FallbackAction ?sig = (if PolicyAction (tei_FallbackAction i) = [] then ActionBlock else PolicyAction (tei_FallbackAction i))"
    by (simp_all add: ModelSignalFromVerdict_def Let_def)
  have "ter_Decision (fst (TrafficEvaluation_Evaluate etext u ctx start took i)) = PolicyEvaluator_Evaluate (Some evaluate) ?pei"
    using assms(1-3) v by (simp add: TrafficEvaluation_Evaluate_def evaluatePolicyTimed_def outcome_parts_def Let_def)
  with evaluator_signal [of ?pei] sig
  show "actionPriority (if PolicyAction (tei_FallbackAction i) = [] then ActionBlock else PolicyAction (tei_FallbackAction i)) \<le>
      actionPriority (dec_Action (ter_Decision (fst (TrafficEvaluation_Evaluate etext u ctx start took i))))"
    "ms_Error (dec_ModelSignal (ter_Decision (fst (TrafficEvaluation_Evaluate etext u ctx start took i)))) = etext e"
    by (simp_all add: model_action_def)
qed

end

interpretation compiled_snapshot: policy_snapshot "Evaluate P (Some s)" for P s
  by unfold_locales (rule Evaluate_model_signal)+

section \<open>Properties\<close>

lemma PolicyAction_block: "PolicyAction RoutingActionBlock = ActionBlock"
  by (simp add: PolicyAction_def kg_consts)

text \<open>C20. Verdict failures fail closed: on an inline route whose snapshot is loaded, when the verdict
  provider errs (its own failure or the deadline) the decision is at least as strong as the route's
  fallback action, it is a block when the fallback is block or not a known action, and it records the
  error.\<close>

theorem verdict_failure_fails_closed:
  assumes "tei_Execution i \<noteq> ExecutionAsyncShadow" "tei_VerdictProvider i = Some provider"
    and "teu_Snapshot u = server_snapshot P (Some s)" "snd (evaluateVerdict u ctx start provider i) = Inl e"
  shows "let d = ter_Decision (fst (TrafficEvaluation_Evaluate etext u ctx start took i)) in
    actionPriority (PolicyAction (tei_FallbackAction i)) \<le> actionPriority (dec_Action d) \<and>
    (PolicyAction (tei_FallbackAction i) \<in> {ActionBlock, []} \<longrightarrow> dec_Action d = ActionBlock) \<and>
    ms_Error (dec_ModelSignal d) = etext e"
proof -
  let ?d = "ter_Decision (fst (TrafficEvaluation_Evaluate etext u ctx start took i))"
  note f = compiled_snapshot.verdict_failure [OF assms(1,2) assms(3) [unfolded server_snapshot_def] assms(4), of etext took]
  have "actionPriority (dec_Action ?d) = 3" if "3 \<le> actionPriority (dec_Action ?d)"
    using that actionPriority_bounds [of "dec_Action ?d"] by linarith
  with f show ?thesis by (auto simp: Let_def actionPriority_block split: if_splits)
qed

definition sample_provider :: "verdict_error + VerdictResult \<Rightarrow> verdict_provider" where
  "sample_provider outcome ctx start req = (start + 7, outcome)"

definition sample_traffic :: "RoutingAction \<Rightarrow> verdict_error + VerdictResult \<Rightarrow> TrafficEvaluationInput" where
  "sample_traffic fallback outcome = \<lparr>tei_RequestID = ''1'', tei_CorrelationID = ''1'', tei_RouteKey = ''chat'',
     tei_ProviderKey = ''p'', tei_Model = ''m'', tei_Direction = DirectionInput, tei_Text = ''hello'',
     tei_Execution = ExecutionInline, tei_FallbackAction = fallback, tei_VerdictProvider = Some (sample_provider outcome)\<rparr>"

theorem verdict_failure_fails_closed_witness:
  "dec_Action (ter_Decision (fst (TrafficEvaluation_Evaluate (\<lambda>_. ''boom'')
      \<lparr>teu_Snapshot = server_snapshot sample_platform (Some sample_snapshot), teu_VerdictTimeout = 5, teu_ShadowObserver = True\<rparr>
      background 1 1 (sample_traffic RoutingActionBlock (Inl EndpointRequired))))) = ActionBlock"
  using verdict_failure_fails_closed [of "sample_traffic RoutingActionBlock (Inl EndpointRequired)"
      "sample_provider (Inl EndpointRequired)"
      "\<lparr>teu_Snapshot = server_snapshot sample_platform (Some sample_snapshot), teu_VerdictTimeout = 5, teu_ShadowObserver = True\<rparr>"
      sample_platform sample_snapshot background 1 EndpointRequired "\<lambda>_. ''boom''" 1]
  by (simp add: sample_traffic_def evaluateVerdict_def sample_provider_def PolicyAction_block Let_def)

text \<open>The shadow mode enforces nothing of the verdict: its decision is the one of the policy
  alone, whatever the provider answers, and a shadow task runs exactly when there is a provider and an
  observer.\<close>

theorem shadow_does_not_enforce:
  assumes "tei_Execution i = ExecutionAsyncShadow"
  shows "fst (TrafficEvaluation_Evaluate etext u ctx start took i) = EvaluatePolicyOnly u took i \<and>
    (snd (TrafficEvaluation_Evaluate etext u ctx start took i) \<noteq> None \<longleftrightarrow>
      tei_VerdictProvider i \<noteq> None \<and> teu_ShadowObserver u)"
  using assms
  by (simp add: TrafficEvaluation_Evaluate_def EvaluatePolicyOnly_def startAsyncShadow_def evaluatePolicyTimed_def)

theorem shadow_does_not_enforce_witness:
  "fst (TrafficEvaluation_Evaluate (\<lambda>_. []) \<lparr>teu_Snapshot = server_snapshot sample_platform (Some sample_snapshot),
      teu_VerdictTimeout = 5, teu_ShadowObserver = True\<rparr> background 1 1
      ((sample_traffic RoutingActionBlock (Inl EndpointRequired))\<lparr>tei_Execution := ExecutionAsyncShadow\<rparr>)) =
   EvaluatePolicyOnly \<lparr>teu_Snapshot = server_snapshot sample_platform (Some sample_snapshot),
      teu_VerdictTimeout = 5, teu_ShadowObserver = True\<rparr> 1
      ((sample_traffic RoutingActionBlock (Inl EndpointRequired))\<lparr>tei_Execution := ExecutionAsyncShadow\<rparr>)"
  using shadow_does_not_enforce
    [of "(sample_traffic RoutingActionBlock (Inl EndpointRequired))\<lparr>tei_Execution := ExecutionAsyncShadow\<rparr>"]
  by simp

text \<open>A server without a loaded snapshot ignores its verdict provider: the nil pointer makes a
  non-nil interface, so the branch that turns the signal into a decision is not taken, and a text the
  provider says to block is allowed; with a nil interface it would be blocked.\<close>

theorem nil_snapshot_ignores_verdict:
  "dec_Action (ter_Decision (fst (TrafficEvaluation_Evaluate etext
      \<lparr>teu_Snapshot = server_snapshot P None, teu_VerdictTimeout = 5, teu_ShadowObserver = True\<rparr> background start took
      (sample_traffic RoutingActionBlock (Inr (zero_VerdictResult\<lparr>res_SuggestedAction := VerdictActionBlock\<rparr>)))))) = ActionAllow \<and>
   dec_Action (ter_Decision (fst (TrafficEvaluation_Evaluate etext
      \<lparr>teu_Snapshot = None, teu_VerdictTimeout = 5, teu_ShadowObserver = True\<rparr> background start took
      (sample_traffic RoutingActionBlock (Inr (zero_VerdictResult\<lparr>res_SuggestedAction := VerdictActionBlock\<rparr>)))))) = ActionBlock"
  by (simp add: TrafficEvaluation_Evaluate_def evaluatePolicyTimed_def outcome_parts_def sample_traffic_def evaluateVerdict_def
      sample_provider_def PolicyEvaluator_Evaluate_def server_snapshot_def Evaluate_def ModelSignalFromVerdict_def
      DecisionFromModelSignal_def PolicyAction_def KnownPolicyAction_def Let_def zero_VerdictResult_def)
    (simp add: kg_consts)

end
