(* ===== verification/Planners.thy ===== *)
theory Planners
  imports Lifecycle
begin

text \<open>
  The planners of \<open>internal/contexts/gateway/application\<close>: \<open>exchange_preparation.go\<close>,
  \<open>input_request.go\<close>, \<open>output_response.go\<close> and \<open>upstream_exchange.go\<close>.  Each turns the facts an
  adapter has observed into the next action through the decisions of theory \<open>Lifecycle\<close>.
\<close>

section \<open>Exchange preparation (exchange\_preparation.go)\<close>

type_synonym ExchangePreparationAction = string

definition ExchangePreparationActionBlock :: ExchangePreparationAction where
  [kg_consts]: "ExchangePreparationActionBlock = ''block''"
definition ExchangePreparationActionContinue :: ExchangePreparationAction where
  [kg_consts]: "ExchangePreparationActionContinue = ''continue''"

record ExchangePreparationPlan =
  epp_Action :: ExchangePreparationAction
  epp_Reason :: RejectReason
  epp_RequestedModel :: string
  epp_MappedModel :: string
  epp_UpstreamModel :: string

definition blockExchangePreparation :: "RejectReason \<Rightarrow> ExchangePreparationPlan" where
  "blockExchangePreparation reason = \<lparr>epp_Action = ExchangePreparationActionBlock, epp_Reason = reason,
     epp_RequestedModel = [], epp_MappedModel = [], epp_UpstreamModel = []\<rparr>"

definition continueExchangePreparation :: ExchangePreparationPlan where
  "continueExchangePreparation = \<lparr>epp_Action = ExchangePreparationActionContinue, epp_Reason = [],
     epp_RequestedModel = [], epp_MappedModel = [], epp_UpstreamModel = []\<rparr>"

definition PlanRouteAvailability :: "bool \<Rightarrow> ExchangePreparationPlan" where
  "PlanRouteAvailability found =
     (let decision = RouteAvailable found in
      if \<not> ld_Allowed decision then blockExchangePreparation (ld_Reason decision) else continueExchangePreparation)"

definition PlanInfrastructure :: "ExchangeInfrastructureInput \<Rightarrow> ExchangePreparationPlan" where
  "PlanInfrastructure i =
     (let decision = ClassifyExchangeInfrastructure i in
      if \<not> ld_Allowed decision then blockExchangePreparation (ld_Reason decision) else continueExchangePreparation)"

definition PlanDecodedRequest :: "DecodedRequestInput \<Rightarrow> ExchangePreparationPlan" where
  "PlanDecodedRequest i =
     (let models = ClassifyDecodedRequest i;
          plan = \<lparr>epp_Action = ExchangePreparationActionContinue, epp_Reason = [],
            epp_RequestedModel = mmr_RequestedModel models, epp_MappedModel = mmr_MappedModel models,
            epp_UpstreamModel = mmr_UpstreamModel models\<rparr>
      in if \<not> ld_Allowed models
         then plan\<lparr>epp_Action := ExchangePreparationActionBlock, epp_Reason := ld_Reason models\<rparr>
         else plan)"

section \<open>Input requests (input\_request.go)\<close>

type_synonym InputRequestAction = string

definition InputRequestActionBlock :: InputRequestAction where [kg_consts]: "InputRequestActionBlock = ''block''"
definition InputRequestActionRedact :: InputRequestAction where [kg_consts]: "InputRequestActionRedact = ''redact''"
definition InputRequestActionSend :: InputRequestAction where [kg_consts]: "InputRequestActionSend = ''send''"

record InputRequestPlan =
  irp_Action :: InputRequestAction
  irp_Reason :: RejectReason
  irp_TerminationReason :: string

record InputRedactionInput =
  iri_Decision :: Decision
  iri_Text :: string
  iri_Redactions :: int
  iri_Failed :: bool

definition blockInputRequest :: "RejectReason \<Rightarrow> string \<Rightarrow> InputRequestPlan" where
  "blockInputRequest reason termination =
     \<lparr>irp_Action = InputRequestActionBlock, irp_Reason = reason, irp_TerminationReason = termination\<rparr>"

definition InputRequest_PlanPolicy :: "Decision \<Rightarrow> InputRequestPlan" where
  "InputRequest_PlanPolicy decision =
     (let lifecycle = ClassifyInputRequest
            \<lparr>ili_PolicyEvaluated = True, ili_Decision = decision, ili_RedactionAttempted = False,
             ili_RedactionText = [], ili_RedactionCount = 0, ili_RedactionFailed = False, ili_RedactionFailureTag = []\<rparr>
      in if \<not> ld_Allowed lifecycle then blockInputRequest (ld_Reason lifecycle) []
         else if ilr_RedactionNeeded lifecycle
         then \<lparr>irp_Action = InputRequestActionRedact, irp_Reason = [], irp_TerminationReason = []\<rparr>
         else \<lparr>irp_Action = InputRequestActionSend, irp_Reason = [], irp_TerminationReason = []\<rparr>)"

definition InputRequest_PlanRedaction :: "InputRedactionInput \<Rightarrow> InputRequestPlan" where
  "InputRequest_PlanRedaction i =
     (let lifecycle = ClassifyInputRequest
            \<lparr>ili_PolicyEvaluated = True, ili_Decision = iri_Decision i, ili_RedactionAttempted = True,
             ili_RedactionText = iri_Text i, ili_RedactionCount = iri_Redactions i,
             ili_RedactionFailed = iri_Failed i, ili_RedactionFailureTag = []\<rparr>
      in if \<not> ld_Allowed lifecycle then blockInputRequest (ld_Reason lifecycle) ''redaction_failed''
         else \<lparr>irp_Action = InputRequestActionSend, irp_Reason = [], irp_TerminationReason = []\<rparr>)"

section \<open>Non-streaming output (output\_response.go)\<close>

type_synonym OutputResponseAction = string

definition OutputResponseActionBlock :: OutputResponseAction where [kg_consts]: "OutputResponseActionBlock = ''block''"
definition OutputResponseActionExtractText :: OutputResponseAction where
  [kg_consts]: "OutputResponseActionExtractText = ''extract_text''"
definition OutputResponseActionEvaluatePolicy :: OutputResponseAction where
  [kg_consts]: "OutputResponseActionEvaluatePolicy = ''evaluate_policy''"
definition OutputResponseActionRedact :: OutputResponseAction where [kg_consts]: "OutputResponseActionRedact = ''redact''"
definition OutputResponseActionSend :: OutputResponseAction where [kg_consts]: "OutputResponseActionSend = ''send''"

record OutputResponsePlan =
  orp_Action :: OutputResponseAction
  orp_Reason :: RejectReason
  orp_EmitPolicyDecision :: bool
  orp_TerminationReason :: string

record OutputBodyReadInput =
  obr_StatusCode :: int
  obr_ReadFailed :: bool
  obr_TooLarge :: bool

record OutputExtractionInput =
  oex_StatusCode :: int
  oex_DecodeFailed :: bool

record OutputPolicyInput =
  opo_StatusCode :: int
  opo_Decision :: Decision

record OutputRedactionInput =
  ord_StatusCode :: int
  ord_Decision :: Decision
  ord_Text :: string
  ord_Redactions :: int
  ord_Failed :: bool

definition blockOutputResponse :: "RejectReason \<Rightarrow> bool \<Rightarrow> string \<Rightarrow> OutputResponsePlan" where
  "blockOutputResponse reason emitPolicyDecision termination =
     \<lparr>orp_Action = OutputResponseActionBlock, orp_Reason = reason, orp_EmitPolicyDecision = emitPolicyDecision,
      orp_TerminationReason = termination\<rparr>"

definition output_plan :: "OutputResponseAction \<Rightarrow> bool \<Rightarrow> OutputResponsePlan" where
  "output_plan action emit = \<lparr>orp_Action = action, orp_Reason = [], orp_EmitPolicyDecision = emit, orp_TerminationReason = []\<rparr>"

text \<open>The lifecycle input with Go's zero values where the planner sets nothing.\<close>

definition zero_output_lifecycle :: OutputResponseLifecycleInput where
  "zero_output_lifecycle = \<lparr>uri_StatusCode = 0, uri_ReadFailed = False, uri_TooLarge = False, uri_DecodeFailed = False,
     oli_PolicyEvaluated = False, oli_Decision = zero_Decision, oli_RedactionAttempted = False, oli_RedactionText = [],
     oli_RedactionCount = 0, oli_RedactionFailed = False, oli_RedactionFailureTag = []\<rparr>"

definition PlanBodyRead :: "OutputBodyReadInput \<Rightarrow> OutputResponsePlan" where
  "PlanBodyRead i =
     (let lifecycle = ClassifyOutputResponse (zero_output_lifecycle\<lparr>uri_StatusCode := obr_StatusCode i,
            uri_ReadFailed := obr_ReadFailed i, uri_TooLarge := obr_TooLarge i\<rparr>)
      in if \<not> ld_Allowed lifecycle then blockOutputResponse (ld_Reason lifecycle) False (ld_Reason lifecycle)
         else output_plan OutputResponseActionExtractText False)"

definition PlanExtraction :: "OutputExtractionInput \<Rightarrow> OutputResponsePlan" where
  "PlanExtraction i =
     (let lifecycle = ClassifyOutputResponse (zero_output_lifecycle\<lparr>uri_StatusCode := oex_StatusCode i,
            uri_DecodeFailed := oex_DecodeFailed i\<rparr>)
      in if \<not> ld_Allowed lifecycle then blockOutputResponse (ld_Reason lifecycle) False (ld_Reason lifecycle)
         else output_plan OutputResponseActionEvaluatePolicy False)"

definition OutputResponse_PlanPolicy :: "OutputPolicyInput \<Rightarrow> OutputResponsePlan" where
  "OutputResponse_PlanPolicy i =
     (let lifecycle = ClassifyOutputResponse (zero_output_lifecycle\<lparr>uri_StatusCode := opo_StatusCode i,
            oli_PolicyEvaluated := True, oli_Decision := opo_Decision i\<rparr>)
      in if \<not> ld_Allowed lifecycle then blockOutputResponse (ld_Reason lifecycle) True []
         else if olr_RedactionNeeded lifecycle then output_plan OutputResponseActionRedact True
         else output_plan OutputResponseActionSend True)"

definition OutputResponse_PlanRedaction :: "OutputRedactionInput \<Rightarrow> OutputResponsePlan" where
  "OutputResponse_PlanRedaction i =
     (let lifecycle = ClassifyOutputResponse (zero_output_lifecycle\<lparr>uri_StatusCode := ord_StatusCode i,
            oli_PolicyEvaluated := True, oli_Decision := ord_Decision i, oli_RedactionAttempted := True,
            oli_RedactionText := ord_Text i, oli_RedactionCount := ord_Redactions i, oli_RedactionFailed := ord_Failed i\<rparr>)
      in if \<not> ld_Allowed lifecycle then blockOutputResponse (ld_Reason lifecycle) True ''redaction_failed''
         else output_plan OutputResponseActionSend True)"

section \<open>Upstream exchange (upstream\_exchange.go)\<close>

type_synonym UpstreamExchangeAction = string

definition UpstreamExchangeActionBlock :: UpstreamExchangeAction where
  [kg_consts]: "UpstreamExchangeActionBlock = ''block''"
definition UpstreamExchangeActionHandleStream :: UpstreamExchangeAction where
  [kg_consts]: "UpstreamExchangeActionHandleStream = ''handle_stream''"
definition UpstreamExchangeActionHandleResponse :: UpstreamExchangeAction where
  [kg_consts]: "UpstreamExchangeActionHandleResponse = ''handle_response''"

record UpstreamExchangePlan =
  uep_Action :: UpstreamExchangeAction
  uep_Reason :: RejectReason

definition blockUpstreamExchange :: "RejectReason \<Rightarrow> UpstreamExchangePlan" where
  "blockUpstreamExchange reason = \<lparr>uep_Action = UpstreamExchangeActionBlock, uep_Reason = reason\<rparr>"

definition PlanForward :: "bool \<Rightarrow> UpstreamExchangePlan" where
  "PlanForward forwardFailed =
     (let upstream = ClassifyUpstreamExchange
            \<lparr>uei_ForwardFailed = forwardFailed, uei_StatusCode = 0, uei_Stream = False\<rparr>
      in if \<not> ld_Allowed upstream then blockUpstreamExchange (ld_Reason upstream)
         else \<lparr>uep_Action = UpstreamExchangeActionHandleResponse, uep_Reason = []\<rparr>)"

definition PlanResponse :: "int \<Rightarrow> bool \<Rightarrow> UpstreamExchangePlan" where
  "PlanResponse statusCode stream =
     (let upstream = ClassifyUpstreamExchange
            \<lparr>uei_ForwardFailed = False, uei_StatusCode = statusCode, uei_Stream = stream\<rparr>
      in if \<not> ld_Allowed upstream then blockUpstreamExchange (ld_Reason upstream)
         else if uer_Stream upstream then \<lparr>uep_Action = UpstreamExchangeActionHandleStream, uep_Reason = []\<rparr>
         else \<lparr>uep_Action = UpstreamExchangeActionHandleResponse, uep_Reason = []\<rparr>)"

section \<open>What the planners decide\<close>

named_theorems plan_defs "definitions of the planners and of the decisions they use"

lemmas [plan_defs] =
  allowed_def rejected_def ClassifyEnforcement_def ClassifyRedaction_def ClassifyPolicyEnforcement_def
  ClassifyInputPolicyEnforcement_def ClassifyOutputPolicyEnforcement_def ClassifyInputRequest_def
  ClassifyUpstreamResponse_def ClassifyOutputResponse_def ClassifyUpstreamExchange_def redactionReason_def
  EnforcementResult.defs PolicyEnforcementResult.defs OutputResponseLifecycleResult.defs LifecycleDecision.defs
  blockInputRequest_def blockOutputResponse_def output_plan_def zero_output_lifecycle_def
  InputRequest_PlanPolicy_def InputRequest_PlanRedaction_def OutputResponse_PlanPolicy_def
  OutputResponse_PlanRedaction_def PlanBodyRead_def PlanExtraction_def PlanForward_def PlanResponse_def
  blockUpstreamExchange_def Let_def

lemma plan_action_distinct [simp]:
  "InputRequestActionBlock \<noteq> InputRequestActionRedact" "InputRequestActionBlock \<noteq> InputRequestActionSend"
  "InputRequestActionRedact \<noteq> InputRequestActionSend" "InputRequestActionRedact \<noteq> InputRequestActionBlock"
  "InputRequestActionSend \<noteq> InputRequestActionBlock" "InputRequestActionSend \<noteq> InputRequestActionRedact"
  "OutputResponseActionBlock \<noteq> OutputResponseActionRedact" "OutputResponseActionBlock \<noteq> OutputResponseActionSend"
  "OutputResponseActionRedact \<noteq> OutputResponseActionSend" "OutputResponseActionRedact \<noteq> OutputResponseActionBlock"
  "OutputResponseActionSend \<noteq> OutputResponseActionBlock" "OutputResponseActionSend \<noteq> OutputResponseActionRedact"
  "OutputResponseActionEvaluatePolicy \<noteq> OutputResponseActionBlock" "OutputResponseActionExtractText \<noteq> OutputResponseActionBlock"
  "OutputResponseActionBlock \<noteq> OutputResponseActionEvaluatePolicy" "OutputResponseActionBlock \<noteq> OutputResponseActionExtractText"
  "UpstreamExchangeActionBlock \<noteq> UpstreamExchangeActionHandleStream"
  "UpstreamExchangeActionBlock \<noteq> UpstreamExchangeActionHandleResponse"
  "UpstreamExchangeActionHandleStream \<noteq> UpstreamExchangeActionBlock"
  "UpstreamExchangeActionHandleStream \<noteq> UpstreamExchangeActionHandleResponse"
  "UpstreamExchangeActionHandleResponse \<noteq> UpstreamExchangeActionBlock"
  "UpstreamExchangeActionHandleResponse \<noteq> UpstreamExchangeActionHandleStream"
  "ExchangePreparationActionBlock \<noteq> ExchangePreparationActionContinue"
  "ExchangePreparationActionContinue \<noteq> ExchangePreparationActionBlock"
  by (simp_all add: kg_consts)

lemma input_policy_plan:
  "irp_Action (InputRequest_PlanPolicy d) =
     (if dec_Action d = ActionBlock then InputRequestActionBlock
      else if dec_Action d = ActionRedact then InputRequestActionRedact else InputRequestActionSend)"
  by (simp add: plan_defs)

lemma input_redaction_plan:
  "irp_Action (InputRequest_PlanRedaction i) =
     (if dec_Action (iri_Decision i) = ActionBlock \<or> (dec_Action (iri_Decision i) = ActionRedact \<and>
           (iri_Failed i \<or> (iri_Redactions i = 0 \<and> iri_Text i \<noteq> [])))
      then InputRequestActionBlock else InputRequestActionSend)"
  by (simp add: plan_defs)

lemma output_policy_plan:
  "orp_Action (OutputResponse_PlanPolicy i) =
     (if opo_StatusCode i \<ge> 400 \<or> dec_Action (opo_Decision i) = ActionBlock then OutputResponseActionBlock
      else if dec_Action (opo_Decision i) = ActionRedact then OutputResponseActionRedact else OutputResponseActionSend)"
  by (simp add: plan_defs)

lemma output_redaction_plan:
  "orp_Action (OutputResponse_PlanRedaction i) =
     (if ord_StatusCode i \<ge> 400 \<or> dec_Action (ord_Decision i) = ActionBlock \<or> (dec_Action (ord_Decision i) = ActionRedact \<and>
           (ord_Failed i \<or> (ord_Redactions i = 0 \<and> ord_Text i \<noteq> [])))
      then OutputResponseActionBlock else OutputResponseActionSend)"
  by (simp add: plan_defs)

end
