(* ===== verification/StreamBuffer.thy ===== *)
theory StreamBuffer
  imports Planners
begin

text \<open>
  \<open>stream_buffer.go\<close> and \<open>streaming_output.go\<close> of \<open>internal/contexts/gateway/application\<close>: the
  state a streamed answer is checked with (a window of the last runes and a collector with a byte
  budget) and the planner of the streaming lifecycle.  A nil pointer is \<open>None\<close>.
\<close>

section \<open>State\<close>

record StreamWindow =
  sw_limit :: int
  sw_text :: "rune list"

record StreamTextCollector =
  stc_limit :: int
  stc_buf :: string

record StreamBuffer =
  sb_window :: StreamWindow
  sb_collector :: StreamTextCollector

record StreamDeltaObservation =
  sdo_WindowText :: string
  sdo_CollectionAccepted :: bool

definition NewStreamWindow :: "int \<Rightarrow> StreamWindow" where
  "NewStreamWindow limit = \<lparr>sw_limit = limit, sw_text = []\<rparr>"

definition NewStreamTextCollector :: "int \<Rightarrow> StreamTextCollector" where
  "NewStreamTextCollector limit = \<lparr>stc_limit = limit, stc_buf = []\<rparr>"

definition NewStreamBuffer :: "int \<Rightarrow> int \<Rightarrow> StreamBuffer" where
  "NewStreamBuffer windowLimit collectionLimit =
     \<lparr>sb_window = \<lparr>sw_limit = windowLimit, sw_text = []\<rparr>,
      sb_collector = \<lparr>stc_limit = collectionLimit, stc_buf = []\<rparr>\<rparr>"

definition StreamWindow_Append :: "StreamWindow option \<Rightarrow> string \<Rightarrow> StreamWindow option" where
  "StreamWindow_Append w text =
     (case w of
        None \<Rightarrow> None
      | Some w \<Rightarrow>
          if sw_limit w \<le> 0 then Some (w\<lparr>sw_text := []\<rparr>)
          else
            (let runes = sw_text w @ runes_of_string text in
             if int (length runes) > sw_limit w
             then Some (w\<lparr>sw_text := drop (nat (int (length runes) - sw_limit w)) runes\<rparr>)
             else Some (w\<lparr>sw_text := runes\<rparr>)))"

definition StreamWindow_Text :: "StreamWindow option \<Rightarrow> string" where
  "StreamWindow_Text w = (case w of None \<Rightarrow> [] | Some w \<Rightarrow> string_of_runes (sw_text w))"

definition StreamWindow_Match :: "(Input \<Rightarrow> Finding list) \<Rightarrow> StreamWindow option \<Rightarrow> Direction \<Rightarrow> Finding list" where
  "StreamWindow_Match detector_Match w direction =
     detector_Match \<lparr>in_Direction = direction, in_Text = StreamWindow_Text w\<rparr>"

definition StreamTextCollector_Append ::
  "StreamTextCollector option \<Rightarrow> string \<Rightarrow> bool \<times> StreamTextCollector option" where
  "StreamTextCollector_Append c text =
     (case c of
        None \<Rightarrow> (False, None)
      | Some c \<Rightarrow>
          if stc_limit c \<le> 0 then (False, Some c)
          else if int (length (stc_buf c)) + int (length text) > stc_limit c then (False, Some c)
          else (True, Some (c\<lparr>stc_buf := stc_buf c @ text\<rparr>)))"

definition StreamTextCollector_Text :: "StreamTextCollector option \<Rightarrow> string" where
  "StreamTextCollector_Text c = (case c of None \<Rightarrow> [] | Some c \<Rightarrow> stc_buf c)"

definition ObserveDelta :: "StreamBuffer option \<Rightarrow> string \<Rightarrow> StreamDeltaObservation \<times> StreamBuffer option" where
  "ObserveDelta b text =
     (case b of
        None \<Rightarrow> (\<lparr>sdo_WindowText = [], sdo_CollectionAccepted = False\<rparr>, None)
      | Some b \<Rightarrow>
          (let w = StreamWindow_Append (Some (sb_window b)) text;
               (accepted, c) = StreamTextCollector_Append (Some (sb_collector b)) text
           in (\<lparr>sdo_WindowText = StreamWindow_Text w, sdo_CollectionAccepted = accepted\<rparr>,
               Some \<lparr>sb_window = the w, sb_collector = the c\<rparr>)))"

definition CollectedText :: "StreamBuffer option \<Rightarrow> string" where
  "CollectedText b = (case b of None \<Rightarrow> [] | Some b \<Rightarrow> StreamTextCollector_Text (Some (sb_collector b)))"

definition CollectedBytes :: "StreamBuffer option \<Rightarrow> string" where
  "CollectedBytes b = (case b of None \<Rightarrow> [] | Some b \<Rightarrow> stc_buf (sb_collector b))"

section \<open>Planner (streaming\_output.go)\<close>

type_synonym StreamingOutputAction = string

definition StreamingOutputActionContinue :: StreamingOutputAction where
  [kg_consts]: "StreamingOutputActionContinue = ''continue''"
definition StreamingOutputActionEvaluatePolicy :: StreamingOutputAction where
  [kg_consts]: "StreamingOutputActionEvaluatePolicy = ''evaluate_policy''"
definition StreamingOutputActionWritePending :: StreamingOutputAction where
  [kg_consts]: "StreamingOutputActionWritePending = ''write_pending''"
definition StreamingOutputActionTerminate :: StreamingOutputAction where
  [kg_consts]: "StreamingOutputActionTerminate = ''terminate''"
definition StreamingOutputActionComplete :: StreamingOutputAction where
  [kg_consts]: "StreamingOutputActionComplete = ''complete''"
definition StreamingOutputActionEmit :: StreamingOutputAction where
  [kg_consts]: "StreamingOutputActionEmit = ''emit''"

lemma streaming_action_distinct [simp]:
  "StreamingOutputActionTerminate \<noteq> StreamingOutputActionContinue"
  "StreamingOutputActionContinue \<noteq> StreamingOutputActionTerminate"
  "StreamingOutputActionEvaluatePolicy \<noteq> StreamingOutputActionContinue"
  "StreamingOutputActionContinue \<noteq> StreamingOutputActionEvaluatePolicy"
  "StreamingOutputActionEvaluatePolicy \<noteq> StreamingOutputActionEmit"
  "StreamingOutputActionEmit \<noteq> StreamingOutputActionEvaluatePolicy"
  "StreamingOutputActionComplete \<noteq> StreamingOutputActionWritePending"
  "StreamingOutputActionWritePending \<noteq> StreamingOutputActionComplete"
  "StreamingOutputActionContinue \<noteq> StreamingOutputActionWritePending"
  "StreamingOutputActionWritePending \<noteq> StreamingOutputActionContinue"
  "StreamingOutputActionComplete \<noteq> StreamingOutputActionContinue"
  "StreamingOutputActionContinue \<noteq> StreamingOutputActionComplete"
  by (simp_all add: kg_consts)

record StreamingOutputPlan =
  sop_Action :: StreamingOutputAction
  sop_PolicyText :: string
  sop_CollectionAccepted :: bool
  sop_ForceBlockedOutput :: bool
  sop_TerminationReason :: string

record StreamingPolicyPlanInput =
  spp_Decision :: Decision
  spp_CollectionAccepted :: bool

record StreamingFramePlanInput =
  sfp_HasPending :: bool
  sfp_Done :: bool

record StreamingFinalPlanInput =
  sfn_PolicyAllowed :: bool
  sfn_CollectedText :: string

definition stream_plan :: "StreamingOutputAction \<Rightarrow> StreamingOutputPlan" where
  "stream_plan action = \<lparr>sop_Action = action, sop_PolicyText = [], sop_CollectionAccepted = False,
     sop_ForceBlockedOutput = False, sop_TerminationReason = []\<rparr>"

definition PlanDelta :: "StreamBuffer option \<Rightarrow> string \<Rightarrow> StreamingOutputPlan \<times> StreamBuffer option" where
  "PlanDelta buffer text =
     (if text = [] then (stream_plan StreamingOutputActionContinue, buffer)
      else
        (let (observation, buffer') = ObserveDelta buffer text in
         ((stream_plan StreamingOutputActionEvaluatePolicy)\<lparr>sop_PolicyText := sdo_WindowText observation,
            sop_CollectionAccepted := sdo_CollectionAccepted observation\<rparr>, buffer')))"

definition StreamingOutput_PlanPolicy :: "StreamingPolicyPlanInput \<Rightarrow> StreamingOutputPlan" where
  "StreamingOutput_PlanPolicy i =
     (let streaming = ClassifyStreamingDelta
            \<lparr>sdi_DeltaObserved = True, sdi_PolicyDecision = spp_Decision i, sdi_CollectionAccepted = spp_CollectionAccepted i\<rparr>
      in if sld_Terminated streaming
         then (stream_plan StreamingOutputActionTerminate)\<lparr>sop_ForceBlockedOutput := \<not> spp_CollectionAccepted i,
                 sop_TerminationReason := sld_TerminationReason streaming\<rparr>
         else stream_plan StreamingOutputActionContinue)"

definition PlanFrame :: "StreamingFramePlanInput \<Rightarrow> StreamingOutputPlan" where
  "PlanFrame i =
     (if sfp_Done i then stream_plan StreamingOutputActionComplete
      else if sfp_HasPending i then stream_plan StreamingOutputActionWritePending
      else stream_plan StreamingOutputActionContinue)"

definition PlanFinal :: "StreamingFinalPlanInput \<Rightarrow> StreamingOutputPlan" where
  "PlanFinal i =
     (if sfn_PolicyAllowed i \<and> sfn_CollectedText i \<noteq> []
      then (stream_plan StreamingOutputActionEvaluatePolicy)\<lparr>sop_PolicyText := sfn_CollectedText i\<rparr>
      else stream_plan StreamingOutputActionEmit)"

section \<open>The buffer over a whole stream\<close>

definition observe_all :: "string list \<Rightarrow> StreamBuffer option \<Rightarrow> StreamBuffer option" where
  "observe_all deltas b = fold (\<lambda>d b. snd (ObserveDelta b d)) deltas b"

definition last_runes :: "int \<Rightarrow> rune list \<Rightarrow> rune list" where
  "last_runes n rs = drop (length rs - nat n) rs"

text \<open>The deltas the collector takes: each one that still fits in the budget.\<close>

fun collected :: "int \<Rightarrow> string list \<Rightarrow> string \<Rightarrow> string" where
  "collected limit [] acc = acc"
| "collected limit (d # ds) acc =
     collected limit ds (if limit > 0 \<and> int (length acc) + int (length d) \<le> limit then acc @ d else acc)"

lemma last_runes_append: "last_runes n (last_runes n xs @ ys) = last_runes n (xs @ ys)"
  by (cases "nat n \<le> length xs") (simp_all add: last_runes_def add.commute)

lemma ObserveDelta_window:
  "sw_limit (sb_window b) > 0 \<Longrightarrow> sw_text (sb_window b) = last_runes (sw_limit (sb_window b)) xs \<Longrightarrow>
     \<exists>b'. snd (ObserveDelta (Some b) d) = Some b' \<and> sw_limit (sb_window b') = sw_limit (sb_window b) \<and>
       sw_text (sb_window b') = last_runes (sw_limit (sb_window b)) (xs @ runes_of_string d)"
proof -
  assume l: "sw_limit (sb_window b) > 0" and t: "sw_text (sb_window b) = last_runes (sw_limit (sb_window b)) xs"
  let ?n = "sw_limit (sb_window b)" and ?r = "sw_text (sb_window b) @ runes_of_string d"
  have "last_runes ?n ?r = last_runes ?n (xs @ runes_of_string d)" by (simp only: t last_runes_append)
  moreover have "nat (int (length ?r) - ?n) = length ?r - nat ?n" using l by simp
  moreover have "int (length ?r) \<le> ?n \<Longrightarrow> last_runes ?n ?r = ?r" using l by (simp add: last_runes_def nat_le_iff)
  ultimately show ?thesis
    using l by (auto simp: ObserveDelta_def StreamWindow_Append_def Let_def last_runes_def split: prod.split)
qed

lemma ObserveDelta_collector:
  "snd (ObserveDelta (Some b) d) = Some b' \<Longrightarrow>
     stc_limit (sb_collector b') = stc_limit (sb_collector b) \<and>
     stc_buf (sb_collector b') = collected (stc_limit (sb_collector b)) [d] (stc_buf (sb_collector b))"
  by (auto simp: ObserveDelta_def StreamTextCollector_Append_def Let_def split: if_splits prod.splits)

lemma collected_length: "int (length acc) \<le> max 0 limit \<Longrightarrow> int (length (collected limit ds acc)) \<le> max 0 limit"
  by (induction ds arbitrary: acc) auto

text \<open>Over any sequence of deltas the detection window holds exactly the last \<open>n\<close> runes of the
  stream, and the collector the concatenation of the deltas that fitted, never more bytes than its
  budget.\<close>

theorem stream_buffer_contents:
  assumes "windowLimit > 0"
  shows "StreamWindow_Text (map_option sb_window (observe_all deltas (Some (NewStreamBuffer windowLimit collectionLimit)))) =
      string_of_runes (last_runes windowLimit (concat (map runes_of_string deltas))) \<and>
    CollectedText (observe_all deltas (Some (NewStreamBuffer windowLimit collectionLimit))) = collected collectionLimit deltas [] \<and>
    int (length (collected collectionLimit deltas [])) \<le> max 0 collectionLimit"
proof -
  have "\<exists>b'. observe_all deltas (Some b) = Some b' \<and>
      sw_text (sb_window b') = last_runes windowLimit (xs @ concat (map runes_of_string deltas)) \<and>
      stc_buf (sb_collector b') = collected (stc_limit (sb_collector b)) deltas (stc_buf (sb_collector b))"
    if "sw_limit (sb_window b) = windowLimit" "sw_text (sb_window b) = last_runes windowLimit xs" for b xs
    using that
  proof (induction deltas arbitrary: b xs)
    case Nil
    then show ?case by (simp add: observe_all_def)
  next
    case (Cons d deltas)
    obtain b1 where b1: "snd (ObserveDelta (Some b) d) = Some b1" "sw_limit (sb_window b1) = windowLimit"
        "sw_text (sb_window b1) = last_runes windowLimit (xs @ runes_of_string d)"
      using ObserveDelta_window [of b xs d] Cons.prems assms by auto
    from Cons.IH [OF b1(2,3)] ObserveDelta_collector [OF b1(1)] b1(1) show ?case
      by (simp add: observe_all_def)
  qed
  from this [of "NewStreamBuffer windowLimit collectionLimit" "[]"] show ?thesis
    using collected_length [of "[]" collectionLimit deltas]
    by (auto simp: NewStreamBuffer_def last_runes_def StreamWindow_Text_def CollectedText_def StreamTextCollector_Text_def)
qed

theorem stream_buffer_contents_witness:
  "StreamWindow_Text (map_option sb_window (observe_all [''abc'', ''de''] (Some (NewStreamBuffer 4 4)))) = ''bcde'' \<and>
   CollectedText (observe_all [''abc'', ''de''] (Some (NewStreamBuffer 4 4))) = ''abc''"
  using stream_buffer_contents [of 4 "[''abc'', ''de'']" 4]
  by (simp add: last_runes_def runes_of_string_ascii byte_def string_of_runes_def encode_rune_def valid_rune_def
      encode_scalar_def in_range_def of_byte_def char_of_def bit_0)

end
