(* ===== verification/OpenAIText.thy ===== *)
theory OpenAIText
  imports StreamBuffer Redaction_Claims Strings "HOL-Library.AList"
begin

text \<open>
  \<open>openai\_text.go\<close>, \<open>openai\_chat.go\<close>, \<open>openai\_responses.go\<close>, \<open>openai\_protocol.go\<close> and
  \<open>openai\_redaction.go\<close>: the text of a decoded request or answer, as segments with their place in
  the normalised text, and the redaction of the segments in the decoded body.

  A decoded value (\<open>any\<close>) is a \<open>json\<close>; a \<open>map[string]any\<close> is an association list read with
  \<open>map_of\<close>.  The setter of a segment is a closure over the innermost array or map; it is the path
  from the body to the place it writes.  \<open>encoding/json\<close> is a parameter.
\<close>

section \<open>Values and paths\<close>

datatype json =
    JNull
  | JBool bool
  | JNum string
  | JStr string
  | JArr "json list"
  | JObj "(string \<times> json) list"

datatype step = Field string | Index nat

type_synonym path = "step list"

definition field :: "string \<Rightarrow> json \<Rightarrow> json option" where
  "field k v = (case v of JObj kvs \<Rightarrow> map_of kvs k | _ \<Rightarrow> None)"

fun set_at :: "path \<Rightarrow> json \<Rightarrow> json \<Rightarrow> json" where
  "set_at [] new v = new"
| "set_at (Field k # p) new (JObj kvs) =
     JObj (AList.update k (set_at p new (case map_of kvs k of None \<Rightarrow> JNull | Some v \<Rightarrow> v)) kvs)"
| "set_at (Index i # p) new (JArr vs) = (if i < length vs then JArr (vs[i := set_at p new (vs ! i)]) else JArr vs)"
| "set_at _ new v = v"

definition stringValue :: "json option \<Rightarrow> string" where
  "stringValue v = (case v of Some (JStr s) \<Rightarrow> s | _ \<Rightarrow> [])"

lemma map_of_size: "map_of kvs k = Some v \<Longrightarrow> size v < size (JObj kvs)"
  by (induction kvs) (auto split: if_splits)

section \<open>Segments (openai\_text.go)\<close>

record textSegment =
  seg_start :: int
  seg_end :: int
  seg_text :: string
  seg_path :: path

record textAccumulator =
  acc_parts :: "string list"
  acc_segments :: "textSegment list"
  acc_length :: int

definition zero_acc :: textAccumulator where
  "zero_acc = \<lparr>acc_parts = [], acc_segments = [], acc_length = 0\<rparr>"

definition acc_add :: "textAccumulator \<Rightarrow> string \<Rightarrow> path \<Rightarrow> textAccumulator" where
  "acc_add a text apply_path =
     (if text = [] then a
      else
        (let start = (if acc_parts a \<noteq> [] then acc_length a + 1 else acc_length a);
             stop = start + int (length text)
         in \<lparr>acc_parts = acc_parts a @ [text],
             acc_segments = acc_segments a @ [\<lparr>seg_start = start, seg_end = stop, seg_text = text, seg_path = apply_path\<rparr>],
             acc_length = stop\<rparr>))"

definition acc_text :: "textAccumulator \<Rightarrow> string" where
  "acc_text a = join_with [char_of (10 :: nat)] (acc_parts a)"

text \<open>The fields that are read when there is no \<open>text\<close>, in order, each followed into its value.\<close>

function (sequential) appendTextSegments :: "textAccumulator \<Rightarrow> json \<Rightarrow> path \<Rightarrow> textAccumulator"
  and append_items :: "textAccumulator \<Rightarrow> json list \<Rightarrow> nat \<Rightarrow> path \<Rightarrow> textAccumulator"
  and append_fields :: "textAccumulator \<Rightarrow> string list \<Rightarrow> (string \<times> json) list \<Rightarrow> path \<Rightarrow> textAccumulator" where
  "appendTextSegments acc (JStr s) p = acc_add acc s p"
| "appendTextSegments acc (JArr vs) p = append_items acc vs 0 p"
| "appendTextSegments acc (JObj kvs) p =
     (if map_of kvs ''text'' \<noteq> None then append_fields acc [''text''] kvs p
      else append_fields acc [''content'', ''output'', ''item'', ''response'', ''refusal''] kvs p)"
| "appendTextSegments acc v p = acc"
| "append_items acc [] i p = acc"
| "append_items acc (v # vs) i p = append_items (appendTextSegments acc v (p @ [Index i])) vs (Suc i) p"
| "append_fields acc [] kvs p = acc"
| "append_fields acc (k # ks) kvs p =
     append_fields (case map_of kvs k of None \<Rightarrow> acc | Some v \<Rightarrow> appendTextSegments acc v (p @ [Field k])) ks kvs p"
  by pat_completeness auto
termination
  by (relation "measures [\<lambda>x. case x of Inl (_, v, _) \<Rightarrow> size v | Inr (Inl (_, vs, _, _)) \<Rightarrow> size_list size vs
        | Inr (Inr (_, _, kvs, _)) \<Rightarrow> size (JObj kvs),
      \<lambda>x. case x of Inl _ \<Rightarrow> 10 | Inr (Inl (_, vs, _, _)) \<Rightarrow> length vs | Inr (Inr (_, ks, _, _)) \<Rightarrow> length ks]")
    (auto dest: map_of_size)

definition append_opt :: "textAccumulator \<Rightarrow> json option \<Rightarrow> path \<Rightarrow> textAccumulator" where
  "append_opt acc v p = (case v of None \<Rightarrow> acc | Some v \<Rightarrow> appendTextSegments acc v p)"

text \<open>\<open>appendText\<close> collects the same kind of text from the parts of a stream, without places.\<close>

function (sequential) appendText :: "string list \<Rightarrow> json \<Rightarrow> string list"
  and appendText_items :: "string list \<Rightarrow> json list \<Rightarrow> string list"
  and appendText_fields :: "string list \<Rightarrow> string list \<Rightarrow> (string \<times> json) list \<Rightarrow> string list" where
  "appendText parts (JStr s) = (if s \<noteq> [] then parts @ [s] else parts)"
| "appendText parts (JArr vs) = appendText_items parts vs"
| "appendText parts (JObj kvs) =
     (if stringValue (map_of kvs ''text'') \<noteq> [] then parts @ [stringValue (map_of kvs ''text'')]
      else
        (let parts = appendText_fields parts [''content'', ''output'', ''item'', ''response''] kvs in
         if stringValue (map_of kvs ''refusal'') \<noteq> [] then parts @ [stringValue (map_of kvs ''refusal'')] else parts))"
| "appendText parts v = parts"
| "appendText_items parts [] = parts"
| "appendText_items parts (v # vs) = appendText_items (appendText parts v) vs"
| "appendText_fields parts [] kvs = parts"
| "appendText_fields parts (k # ks) kvs =
     appendText_fields (case map_of kvs k of None \<Rightarrow> parts | Some v \<Rightarrow> appendText parts v) ks kvs"
  by pat_completeness auto
termination
  by (relation "measures [\<lambda>x. case x of Inl (_, v) \<Rightarrow> size v | Inr (Inl (_, vs)) \<Rightarrow> size_list size vs
        | Inr (Inr (_, _, kvs)) \<Rightarrow> size (JObj kvs),
      \<lambda>x. case x of Inl _ \<Rightarrow> 10 | Inr (Inl (_, vs)) \<Rightarrow> length vs | Inr (Inr (_, ks, _)) \<Rightarrow> length ks]")
    (auto dest: map_of_size)

definition appendText_opt :: "string list \<Rightarrow> json option \<Rightarrow> string list" where
  "appendText_opt parts v = (case v of None \<Rightarrow> parts | Some v \<Rightarrow> appendText parts v)"

section \<open>Chat completions (openai\_chat.go)\<close>

definition array_of :: "json option \<Rightarrow> json list option" where
  "array_of v = (case v of Some (JArr vs) \<Rightarrow> Some vs | _ \<Rightarrow> None)"

definition object_of :: "json option \<Rightarrow> (string \<times> json) list option" where
  "object_of v = (case v of Some (JObj kvs) \<Rightarrow> Some kvs | _ \<Rightarrow> None)"

fun chat_messages :: "textAccumulator \<Rightarrow> json list \<Rightarrow> nat \<Rightarrow> textAccumulator" where
  "chat_messages acc [] i = acc"
| "chat_messages acc (m # ms) i =
     chat_messages
       (case object_of (Some m) of
          None \<Rightarrow> acc
        | Some messageMap \<Rightarrow> append_opt acc (map_of messageMap ''content'') [Field ''messages'', Index i, Field ''content''])
       ms (Suc i)"

definition extractChatInputSegments :: "json \<Rightarrow> string \<times> textSegment list" where
  "extractChatInputSegments decoded =
     (case array_of (field ''messages'' decoded) of
        None \<Rightarrow> ([], [])
      | Some messages \<Rightarrow> (let acc = chat_messages zero_acc messages 0 in (acc_text acc, acc_segments acc)))"

fun chat_choices :: "textAccumulator \<Rightarrow> json list \<Rightarrow> nat \<Rightarrow> textAccumulator" where
  "chat_choices acc [] i = acc"
| "chat_choices acc (c # cs) i =
     chat_choices
       (case object_of (Some c) of
          None \<Rightarrow> acc
        | Some choiceMap \<Rightarrow>
            (case object_of (map_of choiceMap ''message'') of
               None \<Rightarrow> acc
             | Some messageMap \<Rightarrow>
                 append_opt acc (map_of messageMap ''content'')
                   [Field ''choices'', Index i, Field ''message'', Field ''content'']))
       cs (Suc i)"

definition extractChatOutputSegments :: "json \<Rightarrow> string \<times> textSegment list" where
  "extractChatOutputSegments decoded =
     (case array_of (field ''choices'' decoded) of
        None \<Rightarrow> ([], [])
      | Some choices \<Rightarrow> (let acc = chat_choices zero_acc choices 0 in (acc_text acc, acc_segments acc)))"

fun chat_deltas :: "string list \<Rightarrow> json list \<Rightarrow> string list" where
  "chat_deltas parts [] = parts"
| "chat_deltas parts (c # cs) =
     chat_deltas
       (case object_of (Some c) of
          None \<Rightarrow> parts
        | Some choiceMap \<Rightarrow>
            (case object_of (map_of choiceMap ''delta'') of
               None \<Rightarrow> parts
             | Some deltaMap \<Rightarrow> appendText_opt parts (map_of deltaMap ''content'')))
       cs"

definition extractChatStreamDelta :: "json \<Rightarrow> string" where
  "extractChatStreamDelta decoded =
     (case array_of (field ''choices'' decoded) of
        None \<Rightarrow> []
      | Some choices \<Rightarrow> concat (chat_deltas [] choices))"

section \<open>Responses (openai\_responses.go)\<close>

definition appendJoinedText :: "string list \<Rightarrow> json option \<Rightarrow> string list" where
  "appendJoinedText parts v =
     (let text = join_with [char_of (10 :: nat)] (appendText_opt [] v) in
      if text = [] then parts else parts @ [text])"

definition extractResponsesStreamDelta :: "json \<Rightarrow> string" where
  "extractResponsesStreamDelta decoded =
     (let parts = appendText_opt [] (field ''delta'' decoded);
          parts = appendText_opt parts (field ''text'' decoded);
          parts = appendJoinedText parts (field ''item'' decoded);
          parts = appendJoinedText parts (field ''response'' decoded)
      in concat parts)"

definition extractResponsesInputSegments :: "json \<Rightarrow> string \<times> textSegment list" where
  "extractResponsesInputSegments decoded =
     (let acc = append_opt zero_acc (field ''input'' decoded) [Field ''input''] in (acc_text acc, acc_segments acc))"

definition extractResponsesInput :: "json \<Rightarrow> string" where
  "extractResponsesInput decoded = fst (extractResponsesInputSegments decoded)"

fun response_contents :: "textAccumulator \<Rightarrow> json list \<Rightarrow> nat \<Rightarrow> nat \<Rightarrow> textAccumulator" where
  "response_contents acc [] i j = acc"
| "response_contents acc (c # cs) i j =
     response_contents
       (case object_of (Some c) of
          None \<Rightarrow> acc
        | Some contentMap \<Rightarrow>
            appendTextSegments acc (JObj contentMap) [Field ''output'', Index i, Field ''content'', Index j])
       cs i (Suc j)"

fun response_outputs :: "textAccumulator \<Rightarrow> json list \<Rightarrow> nat \<Rightarrow> textAccumulator" where
  "response_outputs acc [] i = acc"
| "response_outputs acc (item # items) i =
     response_outputs
       (case object_of (Some item) of
          None \<Rightarrow> acc
        | Some itemMap \<Rightarrow>
            (case array_of (map_of itemMap ''content'') of
               None \<Rightarrow> acc
             | Some content \<Rightarrow> response_contents acc content i 0))
       items (Suc i)"

definition extractResponsesOutputSegments :: "json \<Rightarrow> string \<times> textSegment list" where
  "extractResponsesOutputSegments decoded =
     (let acc = append_opt zero_acc (field ''output_text'' decoded) [Field ''output_text''] in
      case array_of (field ''output'' decoded) of
        None \<Rightarrow> (acc_text acc, acc_segments acc)
      | Some output \<Rightarrow> (let acc = response_outputs acc output 0 in (acc_text acc, acc_segments acc)))"

definition extractResponsesOutput :: "json \<Rightarrow> string" where
  "extractResponsesOutput decoded = fst (extractResponsesOutputSegments decoded)"

section \<open>Protocol (openai\_protocol.go)\<close>

definition chatCompletionsPath :: string where [kg_consts]: "chatCompletionsPath = ''/v1/chat/completions''"
definition responsesPath :: string where [kg_consts]: "responsesPath = ''/v1/responses''"

lemma api_paths_distinct [simp]: "responsesPath \<noteq> chatCompletionsPath" "chatCompletionsPath \<noteq> responsesPath"
  by (simp_all add: kg_consts)

text \<open>\<open>json.Unmarshal\<close> into a \<open>map[string]any\<close>: an error, the nil map (for \<open>null\<close>), or a map.\<close>

record json_codec =
  json_unmarshal_map :: "string \<Rightarrow> (string \<times> json) list option option"
  json_marshal :: "json \<Rightarrow> string option"

type_synonym decoded_map = "(string \<times> json) list option"

definition map_value :: "decoded_map \<Rightarrow> json" where
  "map_value d = (case d of None \<Rightarrow> JNull | Some kvs \<Rightarrow> JObj kvs)"

datatype protocol_error =
    ParseFailed
  | UnsupportedPath string
  | EncodeJsonFailed
  | InvalidStreamData
  | RedactFailed redact_error
  | PanicNilMap

record openAIRequest =
  oreq_body :: decoded_map
  oreq_model :: string
  oreq_text :: string
  oreq_segments :: "textSegment list"

record openAIResponse =
  oresp_body :: decoded_map
  oresp_text :: string
  oresp_segments :: "textSegment list"

definition parseOpenAIRequest :: "json_codec \<Rightarrow> string \<Rightarrow> string \<Rightarrow> protocol_error + openAIRequest" where
  "parseOpenAIRequest J api_path body =
     (case json_unmarshal_map J body of
        None \<Rightarrow> Inl ParseFailed
      | Some decoded \<Rightarrow>
          (let req = \<lparr>oreq_body = decoded, oreq_model = stringValue (field ''model'' (map_value decoded)),
                 oreq_text = [], oreq_segments = []\<rparr>
           in if api_path = chatCompletionsPath
              then (let (text, segments) = extractChatInputSegments (map_value decoded)
                    in Inr (req\<lparr>oreq_text := text, oreq_segments := segments\<rparr>))
              else if api_path = responsesPath
              then (let (text, segments) = extractResponsesInputSegments (map_value decoded)
                    in Inr (req\<lparr>oreq_text := text, oreq_segments := segments\<rparr>))
              else Inl (UnsupportedPath api_path)))"

text \<open>Assigning into a nil map panics.\<close>

definition encodeOpenAIRequest :: "json_codec \<Rightarrow> openAIRequest \<Rightarrow> string \<Rightarrow> protocol_error + string" where
  "encodeOpenAIRequest J req upstreamModel =
     (case oreq_body req of
        None \<Rightarrow> Inl PanicNilMap
      | Some kvs \<Rightarrow>
          (case json_marshal J (JObj (AList.update ''model'' (JStr upstreamModel) kvs)) of
             None \<Rightarrow> Inl EncodeJsonFailed
           | Some encoded \<Rightarrow> Inr encoded))"

definition parseOpenAIResponse :: "json_codec \<Rightarrow> string \<Rightarrow> string \<Rightarrow> protocol_error + openAIResponse" where
  "parseOpenAIResponse J api_path body =
     (case json_unmarshal_map J body of
        None \<Rightarrow> Inl ParseFailed
      | Some decoded \<Rightarrow>
          (if api_path = chatCompletionsPath
           then (let (text, segments) = extractChatOutputSegments (map_value decoded)
                 in Inr \<lparr>oresp_body = decoded, oresp_text = text, oresp_segments = segments\<rparr>)
           else if api_path = responsesPath
           then (let (text, segments) = extractResponsesOutputSegments (map_value decoded)
                 in Inr \<lparr>oresp_body = decoded, oresp_text = text, oresp_segments = segments\<rparr>)
           else Inl (UnsupportedPath api_path)))"

definition extractOpenAIOutput :: "json_codec \<Rightarrow> string \<Rightarrow> string \<Rightarrow> protocol_error + string" where
  "extractOpenAIOutput J api_path body =
     (case parseOpenAIResponse J api_path body of Inl e \<Rightarrow> Inl e | Inr response \<Rightarrow> Inr (oresp_text response))"

definition parseOpenAIStreamDelta :: "json_codec \<Rightarrow> string \<Rightarrow> string \<Rightarrow> string \<Rightarrow> protocol_error + string" where
  "parseOpenAIStreamDelta J api_path event payload =
     (if TrimSpace payload = [] \<or> TrimSpace payload = ''[DONE]'' then Inr []
      else if api_path = responsesPath \<and> has_prefix ''response.output_text.'' event then Inr payload
      else case json_unmarshal_map J payload of
        None \<Rightarrow> Inl InvalidStreamData
      | Some decoded \<Rightarrow>
          (if api_path = chatCompletionsPath then Inr (extractChatStreamDelta (map_value decoded))
           else if api_path = responsesPath then Inr (extractResponsesStreamDelta (map_value decoded))
           else Inr []))"

definition extractOpenAIStreamDelta :: "json_codec \<Rightarrow> string \<Rightarrow> string \<Rightarrow> string" where
  "extractOpenAIStreamDelta J api_path payload =
     (case parseOpenAIStreamDelta J api_path [] payload of Inl _ \<Rightarrow> [] | Inr delta \<Rightarrow> delta)"

section \<open>Redaction of segments (openai\_redaction.go)\<close>

definition appendAbsoluteTextSpan :: "TextSpan list \<Rightarrow> textSegment \<Rightarrow> int \<Rightarrow> int \<Rightarrow> TextSpan list" where
  "appendAbsoluteTextSpan spans segment absoluteStart absoluteEnd =
     (let start = max absoluteStart (seg_start segment); stop = min absoluteEnd (seg_end segment) in
      if start \<ge> stop then spans
      else spans @ [\<lparr>ts_Start = start - seg_start segment, ts_End = stop - seg_start segment\<rparr>])"

definition redactionSpansForSegment :: "textSegment \<Rightarrow> Finding list \<Rightarrow> MatchedSpan list \<Rightarrow> TextSpan list" where
  "redactionSpansForSegment segment findings matchedSpans =
     fold (\<lambda>s spans. appendAbsoluteTextSpan spans segment (span_Start s) (span_End s)) matchedSpans
       (fold (\<lambda>f spans. appendAbsoluteTextSpan spans segment (fnd_Start f) (fnd_End f)) findings [])"

text \<open>The body as the setters leave it, and the number of redactions or the error.\<close>

fun redact_segments :: "textSegment list \<Rightarrow> Finding list \<Rightarrow> MatchedSpan list \<Rightarrow> int \<Rightarrow> json \<Rightarrow> (redact_error + int) \<times> json" where
  "redact_segments [] findings matchedSpans redactions body = (Inr redactions, body)"
| "redact_segments (segment # segments) findings matchedSpans redactions body =
     (let spans = redactionSpansForSegment segment findings matchedSpans in
      if spans = [] then redact_segments segments findings matchedSpans redactions body
      else case RedactText (seg_text segment) spans of
        Inl e \<Rightarrow> (Inl e, body)
      | Inr (redacted, cnt) \<Rightarrow>
          if cnt = 0 then redact_segments segments findings matchedSpans redactions body
          else redact_segments segments findings matchedSpans (redactions + cnt)
                 (set_at (seg_path segment) (JStr redacted) body))"

definition redactTextSegments :: "textSegment list \<Rightarrow> Finding list \<Rightarrow> MatchedSpan list \<Rightarrow> json \<Rightarrow> (redact_error + int) \<times> json" where
  "redactTextSegments segments findings matchedSpans body = redact_segments segments findings matchedSpans 0 body"

definition value_map :: "json \<Rightarrow> decoded_map" where
  "value_map v = (case v of JObj kvs \<Rightarrow> Some kvs | _ \<Rightarrow> None)"

definition redactOpenAIRequest ::
  "openAIRequest \<Rightarrow> Finding list \<Rightarrow> MatchedSpan list \<Rightarrow> (redact_error + int) \<times> openAIRequest" where
  "redactOpenAIRequest req findings matchedSpans =
     (let (result, body) = redactTextSegments (oreq_segments req) findings matchedSpans (map_value (oreq_body req)) in
      (result, req\<lparr>oreq_body := value_map body\<rparr>))"

definition redactOpenAIResponse ::
  "json_codec \<Rightarrow> string \<Rightarrow> string \<Rightarrow> Finding list \<Rightarrow> MatchedSpan list \<Rightarrow> protocol_error + (string \<times> int)" where
  "redactOpenAIResponse J api_path body findings matchedSpans =
     (case parseOpenAIResponse J api_path body of
        Inl e \<Rightarrow> Inl e
      | Inr response \<Rightarrow>
          (let (result, redacted) =
             redactTextSegments (oresp_segments response) findings matchedSpans (map_value (oresp_body response)) in
           case result of
             Inl e \<Rightarrow> Inl (RedactFailed e)
           | Inr cnt \<Rightarrow>
               if cnt = 0 then Inr (body, 0)
               else case json_marshal J redacted of
                 None \<Rightarrow> Inl EncodeJsonFailed
               | Some encoded \<Rightarrow> Inr (encoded, cnt)))"

end
