(* ===== verification/OpenAIText_Props.thy ===== *)
theory OpenAIText_Props
  imports OpenAIText
begin

text \<open>
  Where the text of a body comes from: every segment names a string in the body by its path and its
  place in the normalised text, different segments are different strings, and redacting the segments
  writes to exactly those strings.
\<close>

section \<open>Reading and writing at a path\<close>

fun get_at :: "path \<Rightarrow> json \<Rightarrow> json option" where
  "get_at [] v = Some v"
| "get_at (Field k # p) (JObj kvs) = (case map_of kvs k of None \<Rightarrow> None | Some v \<Rightarrow> get_at p v)"
| "get_at (Index i # p) (JArr vs) = (if i < length vs then get_at p (vs ! i) else None)"
| "get_at _ v = None"

lemma map_of_update: "map_of (AList.update k v kvs) k' = (if k' = k then Some v else map_of kvs k')"
  by (simp add: update_conv')

lemma get_at_append: "get_at (p @ q) v = (case get_at p v of None \<Rightarrow> None | Some w \<Rightarrow> get_at q w)"
  by (induction p v rule: get_at.induct) (auto split: option.split)

lemma get_set_same: "get_at p v \<noteq> None \<Longrightarrow> get_at p (set_at p new v) = Some new"
  by (induction p v rule: get_at.induct) (auto simp: map_of_update split: option.splits if_splits)

lemma parallel_Cons: "parallel (x # xs) (y # ys) \<longleftrightarrow> x \<noteq> y \<or> parallel xs ys"
  by (auto simp: parallel_def)

lemma get_set_other: "parallel p q \<Longrightarrow> get_at p v \<noteq> None \<Longrightarrow> get_at q (set_at p new v) = get_at q v"
proof (induction p v arbitrary: q rule: get_at.induct)
  case (2 k p kvs)
  then obtain w where w: "map_of kvs k = Some w" by (auto split: option.splits)
  obtain x q' where q: "q = x # q'" using "2.prems"(1) by (cases q) (auto simp: parallel_def)
  show ?case
  proof (cases "x = Field k")
    case True
    with 2 q w have "get_at q' (set_at p new w) = get_at q' w" by (simp add: parallel_Cons)
    with True q w show ?thesis by (simp add: map_of_update)
  next
    case False
    with q w show ?thesis by (cases x) (auto simp: map_of_update)
  qed
next
  case (3 i p vs)
  then have i: "i < length vs" by (auto split: if_splits)
  obtain x q' where q: "q = x # q'" using "3.prems"(1) by (cases q) (auto simp: parallel_def)
  show ?case
  proof (cases "x = Index i")
    case True
    with 3 q i have "get_at q' (set_at p new (vs ! i)) = get_at q' (vs ! i)" by (simp add: parallel_Cons)
    with True q i show ?thesis by simp
  next
    case False
    with q i show ?thesis by (cases x) auto
  qed
qed (auto simp: parallel_def)

section \<open>The accumulator\<close>

definition acc_ok :: "textAccumulator \<Rightarrow> bool" where
  "acc_ok a \<longleftrightarrow> acc_length a = int (length (acc_text a)) \<and> acc_parts a = map seg_text (acc_segments a) \<and>
     (\<forall>s\<in>set (acc_segments a). seg_text s \<noteq> [] \<and> 0 \<le> seg_start s \<and> seg_end s = seg_start s + int (length (seg_text s)) \<and>
        seg_end s \<le> acc_length a \<and> substr (acc_text a) (nat (seg_start s)) (nat (seg_end s)) = seg_text s) \<and>
     sorted_wrt (\<lambda>s t. seg_end s < seg_start t) (acc_segments a)"

lemma join_with_snoc: "xs \<noteq> [] \<Longrightarrow> join_with sep (xs @ [x]) = join_with sep xs @ sep @ x"
  by (cases xs) (simp_all add: join_with_def)

lemma join_with_single [simp]: "join_with sep [x] = x" "join_with sep [] = []"
  by (simp_all add: join_with_def)

lemma acc_ok_zero [simp]: "acc_ok zero_acc"
  by (simp add: acc_ok_def zero_acc_def acc_text_def)

lemma substr_prefix: "j \<le> length xs \<Longrightarrow> substr (xs @ ys) i j = substr xs i j"
  by (cases "i \<le> j") (simp_all add: substr_def)

lemma acc_text_add:
  assumes "s \<noteq> []"
  shows "acc_text (acc_add a s p) = (if acc_parts a = [] then s else acc_text a @ char_of (10 :: nat) # s)"
  using assms by (simp add: acc_text_def acc_add_def Let_def join_with_snoc)

lemma acc_ok_add:
  assumes "acc_ok a"
  shows "acc_ok (acc_add a s p)"
proof (cases "s = []")
  case True
  with assms show ?thesis by (simp add: acc_add_def)
next
  case False
  let ?a = "acc_add a s p"
  let ?start = "if acc_parts a \<noteq> [] then acc_length a + 1 else acc_length a"
  let ?new = "\<lparr>seg_start = ?start, seg_end = ?start + int (length s), seg_text = s, seg_path = p\<rparr>"
  have len: "acc_length a = int (length (acc_text a))" using assms by (simp add: acc_ok_def)
  have empty: "acc_parts a = [] \<Longrightarrow> acc_text a = []" by (simp add: acc_text_def)
  have fields: "acc_parts ?a = acc_parts a @ [s]" "acc_segments ?a = acc_segments a @ [?new]"
      "acc_length ?a = ?start + int (length s)"
    using False by (simp_all add: acc_add_def Let_def)
  have tx: "acc_text ?a = (if acc_parts a = [] then s else acc_text a @ char_of (10 :: nat) # s)"
    by (rule acc_text_add [OF False])
  have "acc_length ?a = int (length (acc_text ?a))" using len empty by (simp add: fields tx)
  moreover have "substr (acc_text ?a) (nat ?start) (nat (?start + int (length s))) = s"
    using len empty by (auto simp: tx substr_def nat_add_distrib)
  moreover have "substr (acc_text ?a) (nat (seg_start t)) (nat (seg_end t)) = seg_text t" if "t \<in> set (acc_segments a)" for t
  proof -
    have "acc_parts a \<noteq> []" using assms that by (auto simp: acc_ok_def)
    moreover have "nat (seg_end t) \<le> length (acc_text a)" using assms that len by (auto simp: acc_ok_def)
    ultimately show ?thesis using assms that by (auto simp: acc_ok_def tx substr_prefix)
  qed
  moreover have "seg_end t < ?start" if "t \<in> set (acc_segments a)" for t
    using assms that by (fastforce simp: acc_ok_def)
  ultimately show ?thesis
    using assms False len by (fastforce simp: acc_ok_def fields sorted_wrt_append)
qed

text \<open>What an extraction step adds to the accumulator: segments for strings of \<open>doc\<close> whose paths lie
  in the region \<open>R\<close>, pairwise in different places.\<close>

definition extends :: "json \<Rightarrow> (path \<Rightarrow> bool) \<Rightarrow> textAccumulator \<Rightarrow> textAccumulator \<Rightarrow> bool" where
  "extends doc R a a' \<longleftrightarrow> (acc_ok a \<longrightarrow> acc_ok a') \<and>
     (\<exists>news. acc_segments a' = acc_segments a @ news \<and>
        (\<forall>s\<in>set news. R (seg_path s) \<and> get_at (seg_path s) doc = Some (JStr (seg_text s))) \<and>
        sorted_wrt (\<lambda>s t. parallel (seg_path s) (seg_path t)) news)"

lemma extends_refl [simp]: "extends doc R a a"
  by (simp add: extends_def)

lemma extends_weaken: "extends doc R a b \<Longrightarrow> (\<And>p. R p \<Longrightarrow> S p) \<Longrightarrow> extends doc S a b"
  unfolding extends_def by metis

lemma extends_trans:
  assumes "extends doc R a b" "extends doc S b c" "\<And>p q. R p \<Longrightarrow> S q \<Longrightarrow> parallel p q"
  shows "extends doc (\<lambda>p. R p \<or> S p) a c"
proof -
  obtain m where m: "acc_segments b = acc_segments a @ m"
      "\<forall>s\<in>set m. R (seg_path s) \<and> get_at (seg_path s) doc = Some (JStr (seg_text s))"
      "sorted_wrt (\<lambda>s t. parallel (seg_path s) (seg_path t)) m"
    using assms(1) by (auto simp: extends_def)
  obtain n where n: "acc_segments c = acc_segments b @ n"
      "\<forall>s\<in>set n. S (seg_path s) \<and> get_at (seg_path s) doc = Some (JStr (seg_text s))"
      "sorted_wrt (\<lambda>s t. parallel (seg_path s) (seg_path t)) n"
    using assms(2) by (auto simp: extends_def)
  have "acc_segments c = acc_segments a @ (m @ n)" using m(1) n(1) by simp
  moreover have "sorted_wrt (\<lambda>s t. parallel (seg_path s) (seg_path t)) (m @ n)"
    using m(2,3) n(2,3) assms(3) by (simp add: sorted_wrt_append)
  moreover have "\<forall>s\<in>set (m @ n). (R (seg_path s) \<or> S (seg_path s)) \<and> get_at (seg_path s) doc = Some (JStr (seg_text s))"
    using m(2) n(2) by auto
  ultimately show ?thesis using assms(1,2) unfolding extends_def by blast
qed

lemma extends_add: "get_at p doc = Some (JStr s) \<Longrightarrow> extends doc (prefix p) a (acc_add a s p)"
  using acc_ok_add [of a s p] by (auto simp: extends_def acc_add_def Let_def)

lemma parallel_diverge: "prefix (p @ [x]) q \<Longrightarrow> prefix (p @ [y]) r \<Longrightarrow> x \<noteq> y \<Longrightarrow> parallel q r"
proof -
  assume a: "prefix (p @ [x]) q" "prefix (p @ [y]) r" "x \<noteq> y"
  then obtain u v where "q = p @ x # u" "r = p @ y # v" by (auto simp: prefix_def)
  with a(3) show ?thesis by (simp add: parallel_def)
qed

section \<open>Extraction\<close>

text \<open>The region of the strings below the elements from the \<open>i\<close>-th on, and below given fields.\<close>

definition below_items :: "path \<Rightarrow> nat \<Rightarrow> path \<Rightarrow> bool" where
  "below_items p i q \<longleftrightarrow> (\<exists>j\<ge>i. prefix (p @ [Index j]) q)"

definition below_fields :: "path \<Rightarrow> string set \<Rightarrow> path \<Rightarrow> bool" where
  "below_fields p K q \<longleftrightarrow> (\<exists>k\<in>K. prefix (p @ [Field k]) q)"

lemma below_prefix: "below_items p i q \<Longrightarrow> prefix p q" "below_fields p K q \<Longrightarrow> prefix p q"
  by (auto simp: below_items_def below_fields_def prefix_def)

lemma extends_items_step:
  assumes "extends doc (prefix (p @ [Index i])) a b" "extends doc (below_items p (Suc i)) b c"
  shows "extends doc (below_items p i) a c"
proof (rule extends_weaken [OF extends_trans [OF assms]])
  show "parallel q r" if "prefix (p @ [Index i]) q" "below_items p (Suc i) r" for q r
    using that by (auto simp: below_items_def intro: parallel_diverge)
  show "below_items p i q" if "prefix (p @ [Index i]) q \<or> below_items p (Suc i) q" for q
    using that unfolding below_items_def by (metis Suc_leD le_refl)
qed

lemma extends_fields_step:
  assumes "extends doc (prefix (p @ [Field k])) a b" "extends doc (below_fields p K) b c" "k \<notin> K"
  shows "extends doc (below_fields p (insert k K)) a c"
proof (rule extends_weaken [OF extends_trans [OF assms(1,2)]])
  show "parallel q r" if "prefix (p @ [Field k]) q" "below_fields p K r" for q r
    using that assms(3) by (auto simp: below_fields_def intro: parallel_diverge)
  show "below_fields p (insert k K) q" if "prefix (p @ [Field k]) q \<or> below_fields p K q" for q
    using that by (auto simp: below_fields_def)
qed

lemma append_extends:
  "get_at p doc = Some v \<Longrightarrow> extends doc (prefix p) acc (appendTextSegments acc v p)"
  "get_at p doc = Some (JArr ws) \<Longrightarrow> i \<le> length ws \<Longrightarrow> drop i ws = vs \<Longrightarrow>
     extends doc (below_items p i) acc (append_items acc vs i p)"
  "get_at p doc = Some (JObj kvs) \<Longrightarrow> distinct ks \<Longrightarrow>
     extends doc (below_fields p (set ks)) acc (append_fields acc ks kvs p)"
proof (induction acc v p and acc vs i p and acc ks kvs p arbitrary: and ws and
    rule: appendTextSegments_append_items_append_fields.induct)
  case (1 acc s p)
  then show ?case by (simp add: extends_add)
next
  case (2 acc vs p)
  then have "extends doc (below_items p 0) acc (append_items acc vs 0 p)" by simp
  then show ?case by (simp add: extends_weaken below_prefix)
next
  case (3 acc kvs p)
  show ?case
  proof (cases "map_of kvs ''text'' \<noteq> None")
    case True
    with 3 have "extends doc (below_fields p (set [''text''])) acc (append_fields acc [''text''] kvs p)" by simp
    with True show ?thesis by (simp add: extends_weaken below_prefix)
  next
    case False
    with 3 have "extends doc (below_fields p (set [''content'', ''output'', ''item'', ''response'', ''refusal''])) acc
        (append_fields acc [''content'', ''output'', ''item'', ''response'', ''refusal''] kvs p)" by simp
    with False show ?thesis by (simp add: extends_weaken below_prefix)
  qed
next
  case (6 acc v vs i p)
  then have i: "i < length ws" "ws ! i = v" "drop (Suc i) ws = vs"
    by (metis drop_all linorder_not_le list.distinct(1), metis drop_all hd_drop_conv_nth linorder_not_le list.distinct(1) list.sel(1),
        metis drop_Suc drop_tl list.sel(3))
  then have "get_at (p @ [Index i]) doc = Some v" using "6.prems"(1) by (simp add: get_at_append)
  from extends_items_step [OF "6.IH"(1) [OF this] "6.IH"(2) [OF "6.prems"(1)]] i show ?case by simp
next
  case (8 acc k ks kvs p)
  have "extends doc (prefix (p @ [Field k])) acc
      (case map_of kvs k of None \<Rightarrow> acc | Some v \<Rightarrow> appendTextSegments acc v (p @ [Field k]))"
    using "8.IH"(1) "8.prems"(1) by (auto simp: get_at_append split: option.split)
  from extends_fields_step [OF this "8.IH"(2)] "8.prems" show ?case by simp
qed simp_all

lemma append_opt_extends:
  "(\<And>v. w = Some v \<Longrightarrow> get_at p doc = Some v) \<Longrightarrow> extends doc (prefix p) acc (append_opt acc w p)"
  by (auto simp: append_opt_def split: option.split intro: append_extends(1))

lemma nth_of_drop: "drop i ws = v # vs \<Longrightarrow> i < length ws \<and> ws ! i = v \<and> drop (Suc i) ws = vs"
  by (metis drop_all drop_Suc drop_tl hd_drop_conv_nth linorder_not_le list.distinct(1) list.sel(1,3))

lemma get_at_item:
  "get_at p doc = Some (JArr ws) \<Longrightarrow> drop i ws = v # vs \<Longrightarrow> get_at (p @ [Index i]) doc = Some v"
  using nth_of_drop [of i ws v vs] by (simp add: get_at_append)

lemma get_at_field: "get_at p doc = Some (JObj kvs) \<Longrightarrow> map_of kvs k = Some v \<Longrightarrow> get_at (p @ [Field k]) doc = Some v"
  by (simp add: get_at_append)

lemma object_of_Some: "object_of v = Some kvs \<longleftrightarrow> v = Some (JObj kvs)"
  by (auto simp: object_of_def split: option.splits json.splits)

lemma array_of_Some: "array_of v = Some vs \<longleftrightarrow> v = Some (JArr vs)"
  by (auto simp: array_of_def split: option.splits json.splits)

lemma extends_deeper: "extends doc (prefix (p @ q)) a b \<Longrightarrow> extends doc (prefix p) a b"
  by (erule extends_weaken) (auto simp: prefix_def)

lemma chat_messages_extends:
  "get_at [Field ''messages''] doc = Some (JArr ws) \<Longrightarrow> drop i ws = ms \<Longrightarrow>
     extends doc (below_items [Field ''messages''] i) acc (chat_messages acc ms i)"
proof (induction acc ms i rule: chat_messages.induct)
  case (2 acc m ms i)
  have m: "get_at [Field ''messages'', Index i] doc = Some m" using get_at_item [OF "2.prems"] by simp
  have "extends doc (prefix ([Field ''messages'', Index i] @ [Field ''content''])) acc
      (append_opt acc (map_of kvs ''content'') [Field ''messages'', Index i, Field ''content''])" if "m = JObj kvs" for kvs
    using append_opt_extends [of "map_of kvs ''content''" "[Field ''messages'', Index i, Field ''content'']" doc acc]
      get_at_field [of "[Field ''messages'', Index i]"] m that by simp
  then have "extends doc (prefix ([Field ''messages''] @ [Index i])) acc
      (case object_of (Some m) of None \<Rightarrow> acc
       | Some kvs \<Rightarrow> append_opt acc (map_of kvs ''content'') [Field ''messages'', Index i, Field ''content''])"
    by (auto simp: object_of_Some split: option.split intro: extends_deeper)
  from extends_items_step [OF this "2.IH"] "2.prems" nth_of_drop [OF "2.prems"(2)] show ?case by simp
qed simp

lemma chat_choices_extends:
  "get_at [Field ''choices''] doc = Some (JArr ws) \<Longrightarrow> drop i ws = cs \<Longrightarrow>
     extends doc (below_items [Field ''choices''] i) acc (chat_choices acc cs i)"
proof (induction acc cs i rule: chat_choices.induct)
  case (2 acc c cs i)
  let ?p = "[Field ''choices'', Index i]"
  have c: "get_at ?p doc = Some c" using get_at_item [OF "2.prems"] by simp
  have "extends doc (prefix ?p) acc
      (append_opt acc (map_of msg ''content'') [Field ''choices'', Index i, Field ''message'', Field ''content''])"
    if "c = JObj kvs" "map_of kvs ''message'' = Some (JObj msg)" for kvs msg
  proof -
    have "get_at (?p @ [Field ''message'']) doc = Some (JObj msg)"
      using get_at_field [of ?p doc kvs "''message''" "JObj msg"] c that by simp
    from get_at_field [OF this] append_opt_extends [of "map_of msg ''content''" "?p @ [Field ''message'', Field ''content'']" doc acc]
      extends_deeper [of doc ?p "[Field ''message'', Field ''content'']"]
    show ?thesis by simp
  qed
  then have "extends doc (prefix ([Field ''choices''] @ [Index i])) acc
      (case object_of (Some c) of None \<Rightarrow> acc
       | Some choiceMap \<Rightarrow> (case object_of (map_of choiceMap ''message'') of None \<Rightarrow> acc
         | Some messageMap \<Rightarrow> append_opt acc (map_of messageMap ''content'')
             [Field ''choices'', Index i, Field ''message'', Field ''content'']))"
    by (auto simp: object_of_Some split: option.split)
  from extends_items_step [OF this "2.IH"] "2.prems" nth_of_drop [OF "2.prems"(2)] show ?case by simp
qed simp

lemma response_contents_extends:
  "get_at [Field ''output'', Index i, Field ''content''] doc = Some (JArr ws) \<Longrightarrow> drop j ws = cs \<Longrightarrow>
     extends doc (below_items [Field ''output'', Index i, Field ''content''] j) acc (response_contents acc cs i j)"
proof (induction acc cs i j rule: response_contents.induct)
  case (2 acc c cs i j)
  let ?p = "[Field ''output'', Index i, Field ''content'']"
  have c: "get_at (?p @ [Index j]) doc = Some c" by (rule get_at_item [OF "2.prems"])
  have "extends doc (prefix (?p @ [Index j])) acc
      (case object_of (Some c) of None \<Rightarrow> acc
       | Some kvs \<Rightarrow> appendTextSegments acc (JObj kvs) [Field ''output'', Index i, Field ''content'', Index j])"
    using append_extends(1) [OF c, of acc] by (auto simp: object_of_Some split: option.split)
  from extends_items_step [OF this "2.IH"] "2.prems" nth_of_drop [OF "2.prems"(2)] show ?case by simp
qed simp

lemma response_outputs_extends:
  "get_at [Field ''output''] doc = Some (JArr ws) \<Longrightarrow> drop i ws = items \<Longrightarrow>
     extends doc (below_items [Field ''output''] i) acc (response_outputs acc items i)"
proof (induction acc items i rule: response_outputs.induct)
  case (2 acc item items i)
  have item: "get_at ([Field ''output''] @ [Index i]) doc = Some item" by (rule get_at_item [OF "2.prems"])
  have "extends doc (prefix [Field ''output'', Index i]) acc (response_contents acc content i 0)"
    if "item = JObj kvs" "map_of kvs ''content'' = Some (JArr content)" for kvs content
  proof -
    have "get_at ([Field ''output'', Index i] @ [Field ''content'']) doc = Some (JArr content)"
      using get_at_field [of "[Field ''output'', Index i]" doc kvs "''content''" "JArr content"] item that by simp
    then show ?thesis
      using response_contents_extends [of i doc content 0 content acc]
        extends_weaken [of doc "below_items [Field ''output'', Index i, Field ''content''] 0" acc _
          "prefix [Field ''output'', Index i, Field ''content'']"]
        extends_deeper [of doc "[Field ''output'', Index i]" "[Field ''content'']"] below_prefix(1)
      by simp
  qed
  then have "extends doc (prefix ([Field ''output''] @ [Index i])) acc
      (case object_of (Some item) of None \<Rightarrow> acc
       | Some itemMap \<Rightarrow> (case array_of (map_of itemMap ''content'') of None \<Rightarrow> acc
         | Some content \<Rightarrow> response_contents acc content i 0))"
    by (auto simp: object_of_Some array_of_Some split: option.split)
  from extends_items_step [OF this "2.IH"] "2.prems" nth_of_drop [OF "2.prems"(2)] show ?case by simp
qed simp

text \<open>The result of an extraction: the text and its segments, as the properties use them.\<close>

definition segments_ok :: "json \<Rightarrow> string \<Rightarrow> textSegment list \<Rightarrow> bool" where
  "segments_ok doc text segs \<longleftrightarrow>
     text = join_with [char_of (10 :: nat)] (map seg_text segs) \<and>
     list_all (\<lambda>s. seg_text s \<noteq> [] \<and> 0 \<le> seg_start s \<and> seg_end s = seg_start s + int (length (seg_text s)) \<and>
        seg_end s \<le> int (length text) \<and> substr text (nat (seg_start s)) (nat (seg_end s)) = seg_text s \<and>
        get_at (seg_path s) doc = Some (JStr (seg_text s))) segs \<and>
     sorted_wrt (\<lambda>s t. seg_end s < seg_start t \<and> parallel (seg_path s) (seg_path t)) segs"

lemma sorted_wrt_conj: "sorted_wrt P xs \<Longrightarrow> sorted_wrt Q xs \<Longrightarrow> sorted_wrt (\<lambda>x y. P x y \<and> Q x y) xs"
  by (induction xs) auto

lemma extends_segments_ok:
  assumes "extends doc R zero_acc a"
  shows "segments_ok doc (acc_text a) (acc_segments a)"
proof -
  from assms have "acc_ok a" "\<forall>s\<in>set (acc_segments a). get_at (seg_path s) doc = Some (JStr (seg_text s))"
      "sorted_wrt (\<lambda>s t. parallel (seg_path s) (seg_path t)) (acc_segments a)"
    by (auto simp: extends_def) (simp_all add: zero_acc_def)
  then show ?thesis
    by (auto simp: segments_ok_def acc_ok_def list_all_iff acc_text_def intro: sorted_wrt_conj)
qed

end
