(* ===== verification/OpenAIText_Claims.thy ===== *)
theory OpenAIText_Claims
  imports OpenAIText_Props
begin

text \<open>
  The properties of text extraction and redaction: segments are exactly placed, and redacting them
  masks in the body every byte of the text a finding or a verdict span covers.
\<close>

section \<open>Extraction\<close>

lemma get_at_field_single: "field k doc = Some v \<Longrightarrow> get_at [Field k] doc = Some v"
  by (auto simp: field_def split: json.splits)

lemma append_opt_field_extends: "extends doc (prefix [Field k]) acc (append_opt acc (field k doc) [Field k])"
  by (rule append_opt_extends) (rule get_at_field_single)

lemma segments_ok_Nil [simp]: "segments_ok doc [] []"
  by (simp add: segments_ok_def)

lemma chat_input_ok: "extractChatInputSegments doc = (text, segs) \<Longrightarrow> segments_ok doc text segs"
  using extends_segments_ok [OF chat_messages_extends [OF get_at_field_single, of doc _ 0]]
  by (auto simp: extractChatInputSegments_def array_of_Some Let_def split: option.splits)

lemma chat_output_ok: "extractChatOutputSegments doc = (text, segs) \<Longrightarrow> segments_ok doc text segs"
  using extends_segments_ok [OF chat_choices_extends [OF get_at_field_single, of doc _ 0]]
  by (auto simp: extractChatOutputSegments_def array_of_Some Let_def split: option.splits)

lemma responses_input_ok: "extractResponsesInputSegments doc = (text, segs) \<Longrightarrow> segments_ok doc text segs"
  using extends_segments_ok [OF append_opt_field_extends [of doc "''input''" zero_acc]]
  by (auto simp: extractResponsesInputSegments_def Let_def)

lemma responses_output_ok:
  assumes "extractResponsesOutputSegments doc = (text, segs)"
  shows "segments_ok doc text segs"
proof -
  let ?a = "append_opt zero_acc (field ''output_text'' doc) [Field ''output_text'']"
  note a = append_opt_field_extends [of doc "''output_text''" zero_acc]
  have "segments_ok doc (acc_text (response_outputs ?a items 0)) (acc_segments (response_outputs ?a items 0))"
    if "field ''output'' doc = Some (JArr items)" for items
  proof -
    have "extends doc (below_items [Field ''output''] 0) ?a (response_outputs ?a items 0)"
      by (rule response_outputs_extends [OF get_at_field_single [OF that]]) simp
    then have "extends doc (\<lambda>p. prefix [Field ''output_text''] p \<or> below_items [Field ''output''] 0 p) zero_acc
        (response_outputs ?a items 0)"
      by (rule extends_trans [OF a]) (auto simp: below_items_def prefix_def parallel_def)
    then show ?thesis by (rule extends_segments_ok)
  qed
  then show ?thesis
    using assms extends_segments_ok [OF a]
    by (auto simp: extractResponsesOutputSegments_def array_of_Some Let_def split: option.splits)
qed

lemma request_segments: "parseOpenAIRequest J api body = Inr req \<Longrightarrow>
    segments_ok (map_value (oreq_body req)) (oreq_text req) (oreq_segments req)"
  by (auto simp: parseOpenAIRequest_def Let_def chat_input_ok responses_input_ok split: option.splits if_splits prod.splits)

lemma response_segments: "parseOpenAIResponse J api body = Inr resp \<Longrightarrow>
    segments_ok (map_value (oresp_body resp)) (oresp_text resp) (oresp_segments resp)"
  by (auto simp: parseOpenAIResponse_def Let_def chat_output_ok responses_output_ok split: option.splits if_splits prod.splits)

section \<open>Redaction\<close>

text \<open>A position of the normalised text lies in a finding or in a span of the verdict.\<close>

definition flagged :: "Finding list \<Rightarrow> MatchedSpan list \<Rightarrow> int \<Rightarrow> bool" where
  "flagged findings spans x \<longleftrightarrow> (\<exists>f\<in>set findings. fnd_Start f \<le> x \<and> x < fnd_End f) \<or>
     (\<exists>s\<in>set spans. span_Start s \<le> x \<and> x < span_End s)"

definition masked :: "Finding list \<Rightarrow> MatchedSpan list \<Rightarrow> textSegment \<Rightarrow> string" where
  "masked findings spans seg = mask (\<lambda>i. flagged findings spans (seg_start seg + int i)) False 0 (seg_text seg)"

definition masked_runs :: "Finding list \<Rightarrow> MatchedSpan list \<Rightarrow> textSegment \<Rightarrow> nat" where
  "masked_runs findings spans seg = runs (\<lambda>i. flagged findings spans (seg_start seg + int i)) False 0 (seg_text seg)"

lemma absolute_span_covered:
  assumes "seg_end seg = seg_start seg + int (length (seg_text seg))" "i < length (seg_text seg)"
  shows "covered (set (appendAbsoluteTextSpan spans seg a b)) i \<longleftrightarrow>
    covered (set spans) i \<or> (a \<le> seg_start seg + int i \<and> seg_start seg + int i < b)"
  using assms by (auto simp: appendAbsoluteTextSpan_def Let_def)

lemma absolute_span_in:
  assumes "seg_end seg = seg_start seg + int (length (seg_text seg))" "\<forall>s\<in>set spans. span_in (seg_text seg) s"
  shows "\<forall>s\<in>set (appendAbsoluteTextSpan spans seg a b). span_in (seg_text seg) s"
  using assms by (auto simp: appendAbsoluteTextSpan_def span_in_def Let_def)

lemma fold_absolute:
  assumes "seg_end seg = seg_start seg + int (length (seg_text seg))" "\<forall>s\<in>set spans. span_in (seg_text seg) s"
  shows "(\<forall>s\<in>set (fold (\<lambda>x spans. appendAbsoluteTextSpan spans seg (f x) (g x)) xs spans). span_in (seg_text seg) s) \<and>
    (\<forall>i<length (seg_text seg). covered (set (fold (\<lambda>x spans. appendAbsoluteTextSpan spans seg (f x) (g x)) xs spans)) i \<longleftrightarrow>
       covered (set spans) i \<or> (\<exists>x\<in>set xs. f x \<le> seg_start seg + int i \<and> seg_start seg + int i < g x))"
  using assms(2)
proof (induction xs arbitrary: spans)
  case (Cons x xs)
  from Cons.IH [OF absolute_span_in [OF assms(1) Cons.prems, of "f x" "g x"]] show ?case
    by (simp add: absolute_span_covered [OF assms(1)])
qed simp

lemma redactionSpans:
  assumes "seg_end seg = seg_start seg + int (length (seg_text seg))"
  shows "\<forall>s\<in>set (redactionSpansForSegment seg fs ms). span_in (seg_text seg) s"
    "\<forall>i<length (seg_text seg). covered (set (redactionSpansForSegment seg fs ms)) i \<longleftrightarrow> flagged fs ms (seg_start seg + int i)"
proof -
  let ?xs = "fold (\<lambda>f spans. appendAbsoluteTextSpan spans seg (fnd_Start f) (fnd_End f)) fs []"
  have 1: "(\<forall>s\<in>set ?xs. span_in (seg_text seg) s) \<and> (\<forall>i<length (seg_text seg). covered (set ?xs) i \<longleftrightarrow>
      (\<exists>x\<in>set fs. fnd_Start x \<le> seg_start seg + int i \<and> seg_start seg + int i < fnd_End x))"
    using fold_absolute [OF assms, of "[]" fnd_Start fnd_End fs] by simp
  with fold_absolute [OF assms, of ?xs span_Start span_End ms] show
    "\<forall>s\<in>set (redactionSpansForSegment seg fs ms). span_in (seg_text seg) s"
    "\<forall>i<length (seg_text seg). covered (set (redactionSpansForSegment seg fs ms)) i \<longleftrightarrow> flagged fs ms (seg_start seg + int i)"
    by (simp_all add: redactionSpansForSegment_def flagged_def)
qed

lemma mask_cov_cong:
  "\<forall>k<length cs. cov (i + k) = cov' (i + k) \<Longrightarrow> mask cov r i cs = mask cov' r i cs \<and> runs cov r i cs = runs cov' r i cs"
proof (induction cs arbitrary: r i)
  case (Cons c cs)
  have "cov i = cov' i" "\<forall>k<length cs. cov (Suc i + k) = cov' (Suc i + k)" using Cons.prems by (force, fastforce)
  with Cons.IH [of "Suc i"] show ?case by simp
qed simp

lemma runs_zero_mask: "runs cov False i cs = 0 \<Longrightarrow> mask cov False i cs = cs"
  by (induction cs arbitrary: i) (auto split: if_splits)

lemma redact_segment:
  assumes "seg_end seg = seg_start seg + int (length (seg_text seg))"
    and "RedactText (seg_text seg) (redactionSpansForSegment seg fs ms) = Inr (out, n)"
  shows "out = masked fs ms seg" "n = int (masked_runs fs ms seg)"
proof -
  let ?sp = "redactionSpansForSegment seg fs ms"
  have "{s \<in> set ?sp. span_in (seg_text seg) s} = set ?sp" using redactionSpans(1) [OF assms(1)] by blast
  with assms(2) have "out = mask (covered (set ?sp)) False 0 (seg_text seg)" "n = int (runs (covered (set ?sp)) False 0 (seg_text seg))"
    by (auto simp: redact_equals_mask_base redact_ref_def split: if_splits)
  with mask_cov_cong [of "seg_text seg" "covered (set ?sp)" 0 "\<lambda>i. flagged fs ms (seg_start seg + int i)" False]
    redactionSpans(2) [OF assms(1), of fs ms]
  show "out = masked fs ms seg" "n = int (masked_runs fs ms seg)" by (simp_all add: masked_def masked_runs_def)
qed

lemma redact_nothing:
  assumes "seg_end seg = seg_start seg + int (length (seg_text seg))" "redactionSpansForSegment seg fs ms = []"
  shows "masked fs ms seg = seg_text seg" "masked_runs fs ms seg = 0"
  using redact_segment [OF assms(1), of fs ms "seg_text seg" 0] assms(2) by (simp_all add: RedactText_def)

definition segments_in :: "json \<Rightarrow> textSegment list \<Rightarrow> bool" where
  "segments_in doc segs \<longleftrightarrow>
     list_all (\<lambda>s. seg_end s = seg_start s + int (length (seg_text s)) \<and> get_at (seg_path s) doc = Some (JStr (seg_text s))) segs \<and>
     sorted_wrt (\<lambda>s t. parallel (seg_path s) (seg_path t)) segs"

lemma segments_in_set:
  assumes "segments_in doc (s # segs)"
  shows "segments_in (set_at (seg_path s) new doc) segs"
proof -
  have "get_at (seg_path t) (set_at (seg_path s) new doc) = get_at (seg_path t) doc" if "t \<in> set segs" for t
    using assms that get_set_other [of "seg_path s" "seg_path t" doc new] by (auto simp: segments_in_def)
  with assms show ?thesis by (auto simp: segments_in_def list_all_iff)
qed

lemma redact_segments_ok:
  assumes "segments_in doc segs" "redact_segments segs fs ms n0 doc = (Inr n, doc')"
  shows "(\<forall>s\<in>set segs. get_at (seg_path s) doc' = Some (JStr (masked fs ms s))) \<and>
    n = n0 + (\<Sum>s\<leftarrow>segs. int (masked_runs fs ms s)) \<and>
    (\<forall>q. (\<forall>s\<in>set segs. parallel (seg_path s) q) \<longrightarrow> get_at q doc' = get_at q doc)"
  using assms
proof (induction segs arbitrary: doc n0)
  case (Cons s segs)
  let ?sp = "redactionSpansForSegment s fs ms"
  have s: "seg_end s = seg_start s + int (length (seg_text s))" "get_at (seg_path s) doc = Some (JStr (seg_text s))"
      "segments_in doc segs" "\<forall>t\<in>set segs. parallel (seg_path t) (seg_path s)"
    using Cons.prems(1) by (auto simp: segments_in_def parallel_commute)
  have keep: ?case if "redact_segments segs fs ms n0 doc = (Inr n, doc')" "masked fs ms s = seg_text s" "masked_runs fs ms s = 0"
    using Cons.IH [OF s(3) that(1)] s(2,4) that(2,3) by auto
  show ?case
  proof (cases "?sp = []")
    case True
    with Cons.prems(2) redact_nothing [OF s(1) True] keep show ?thesis by simp
  next
    case False
    then obtain out k where r: "RedactText (seg_text s) ?sp = Inr (out, k)"
      using Cons.prems(2) by (auto simp: Let_def split: sum.splits)
    note m = redact_segment [OF s(1) r]
    show ?thesis
    proof (cases "k = 0")
      case True
      then have "masked_runs fs ms s = 0" using m(2) by simp
      with Cons.prems(2) False r True keep runs_zero_mask show ?thesis
        by (simp add: masked_runs_def masked_def)
    next
      case False
      let ?doc = "set_at (seg_path s) (JStr out) doc"
      have "redact_segments segs fs ms (n0 + k) ?doc = (Inr n, doc')" using Cons.prems(2) \<open>?sp \<noteq> []\<close> r False by (simp add: Let_def)
      note IH = Cons.IH [OF segments_in_set [OF Cons.prems(1)] this]
      have "get_at (seg_path s) doc' = Some (JStr (masked fs ms s))"
        using IH s(2,4) get_set_same [of "seg_path s" doc "JStr out"] m(1) by auto
      moreover have "get_at q doc' = get_at q doc" if "\<forall>t\<in>set (s # segs). parallel (seg_path t) q" for q
        using IH that get_set_other [of "seg_path s" q doc "JStr out"] s(2) by auto
      ultimately show ?thesis using IH m(2) by auto
    qed
  qed
qed simp

lemma segments_ok_in: "segments_ok doc text segs \<Longrightarrow> segments_in doc segs"
  unfolding segments_ok_def segments_in_def list_all_iff by (auto elim: sorted_wrt_mono_rel [rotated])

text \<open>The paths of a request's segments start at the field its protocol reads.\<close>

lemma extends_paths: "extends doc R zero_acc a \<Longrightarrow> s \<in> set (acc_segments a) \<Longrightarrow> R (seg_path s)"
  by (auto simp: extends_def zero_acc_def)

lemma chat_input_paths: "extractChatInputSegments doc = (text, segs) \<Longrightarrow> s \<in> set segs \<Longrightarrow> prefix [Field ''messages''] (seg_path s)"
  by (auto simp: extractChatInputSegments_def array_of_Some Let_def split: option.splits
      dest!: extends_paths [OF chat_messages_extends [OF get_at_field_single], of _ _ 0, simplified] intro: below_prefix(1))

lemma responses_input_paths: "extractResponsesInputSegments doc = (text, segs) \<Longrightarrow> s \<in> set segs \<Longrightarrow> prefix [Field ''input''] (seg_path s)"
  using extends_paths [OF append_opt_field_extends [of doc "''input''" zero_acc]]
  by (auto simp: extractResponsesInputSegments_def Let_def)

lemma request_paths:
  assumes "parseOpenAIRequest J api body = Inr req" "s \<in> set (oreq_segments req)"
  shows "parallel [Field ''model''] (seg_path s)"
proof -
  have "prefix [Field ''messages''] (seg_path s) \<or> prefix [Field ''input''] (seg_path s)"
    using assms by (auto simp: parseOpenAIRequest_def Let_def split: option.splits if_splits prod.splits
        dest: chat_input_paths responses_input_paths)
  then show ?thesis by (auto simp: parallel_def prefix_def)
qed

lemma get_set_field: "parallel [Field k] q \<Longrightarrow> get_at q (JObj (AList.update k v kvs)) = get_at q (JObj kvs)"
  by (cases "(q, JObj kvs)" rule: get_at.cases) (auto simp: map_of_update parallel_Cons parallel_def)

text \<open>An object stays an object, since no segment is the whole body.\<close>

lemma set_at_object: "p \<noteq> [] \<Longrightarrow> map_value (value_map v) = v \<Longrightarrow> map_value (value_map (set_at p new v)) = set_at p new v"
  by (cases "(p, new, v)" rule: set_at.cases) (simp_all add: map_value_def value_map_def)

lemma map_value_object [simp]: "map_value (value_map (map_value d)) = map_value d"
  by (simp add: map_value_def value_map_def split: option.split)

lemma get_at_root: "get_at p (map_value d) = Some (JStr s) \<Longrightarrow> p \<noteq> []"
  by (auto simp: map_value_def split: option.splits)

lemma redact_object:
  "map_value (value_map doc) = doc \<Longrightarrow> \<forall>s\<in>set segs. seg_path s \<noteq> [] \<Longrightarrow> redact_segments segs fs ms n doc = (r, doc') \<Longrightarrow>
     map_value (value_map doc') = doc'"
proof (induction segs arbitrary: n doc)
  case (Cons s segs)
  from Cons.prems(3) consider
      "redact_segments segs fs ms n doc = (r, doc')"
    | "doc' = doc"
    | m new where "redact_segments segs fs ms m (set_at (seg_path s) new doc) = (r, doc')"
    by (auto simp: Let_def split: if_splits sum.splits prod.splits)
  then show ?case
    using Cons.prems(1,2) by cases (auto dest: Cons.IH set_at_object [of "seg_path s" doc])
qed simp

text \<open>The body after the segments of a parsed document are redacted: outside the segments and the
  exempt paths every place reads as before.\<close>

definition redacted_as :: "path list \<Rightarrow> Finding list \<Rightarrow> MatchedSpan list \<Rightarrow> textSegment list \<Rightarrow> json \<Rightarrow> json \<Rightarrow> bool" where
  "redacted_as exempt fs ms segs doc doc' \<longleftrightarrow>
     list_all (\<lambda>s. get_at (seg_path s) doc' = Some (JStr (masked fs ms s))) segs \<and>
     (\<forall>q. list_all (\<lambda>p. parallel p q) (exempt @ map seg_path segs) \<longrightarrow> get_at q doc' = get_at q doc)"

lemma redact_body:
  assumes "segments_ok (map_value d) text segs" "redactTextSegments segs fs ms (map_value d) = (Inr n, doc')"
  shows "redacted_as [] fs ms segs (map_value d) doc'" "n = (\<Sum>s\<leftarrow>segs. int (masked_runs fs ms s))"
    "map_value (value_map doc') = doc'"
proof -
  note ok = redact_segments_ok [OF segments_ok_in [OF assms(1)] assms(2) [unfolded redactTextSegments_def]]
  from ok show "redacted_as [] fs ms segs (map_value d) doc'" by (simp add: redacted_as_def list_all_iff)
  from ok show "n = (\<Sum>s\<leftarrow>segs. int (masked_runs fs ms s))" by simp
  have "\<forall>s\<in>set segs. seg_path s \<noteq> []"
    using assms(1) by (auto simp: segments_ok_def list_all_iff dest: get_at_root)
  with assms(2) show "map_value (value_map doc') = doc'"
    by (auto simp: redactTextSegments_def intro: redact_object [OF map_value_object])
qed

section \<open>The properties\<close>

text \<open>C33. The normalised text of a parsed body is the newline-separated concatenation of its
  segments, and every segment is non-empty, occupies exactly its range of that text, names a string of
  the decoded body by its path, ends before the next one starts and shares no place with it: a range of
  the text that a detector or a verdict reports belongs to known strings of the body.\<close>

theorem segments_are_placed:
  "(parseOpenAIRequest J api body = Inr req \<longrightarrow>
      segments_ok (map_value (oreq_body req)) (oreq_text req) (oreq_segments req)) \<and>
   (parseOpenAIResponse J api body = Inr resp \<longrightarrow>
      segments_ok (map_value (oresp_body resp)) (oresp_text resp) (oresp_segments resp))"
  by (simp add: request_segments response_segments)

text \<open>C18. Redaction reaches the upstream: when the segments of a request are redacted and the request
  is encoded, the body that is sent has the upstream model, every string a segment names is that string
  with each maximal run of flagged bytes replaced by one token, and nothing else differs from the
  client's body.\<close>

theorem redacted_request_sent:
  assumes "parseOpenAIRequest J api body = Inr req" "redactOpenAIRequest req fs ms = (Inr n, req')"
    "encodeOpenAIRequest J req' upstream = Inr sent"
  shows "n = (\<Sum>s\<leftarrow>oreq_segments req. int (masked_runs fs ms s)) \<and>
    (\<exists>doc. json_marshal J doc = Some sent \<and> get_at [Field ''model''] doc = Some (JStr upstream) \<and>
       redacted_as [[Field ''model'']] fs ms (oreq_segments req) (map_value (oreq_body req)) doc)"
proof -
  obtain doc where r: "redactTextSegments (oreq_segments req) fs ms (map_value (oreq_body req)) = (Inr n, doc)"
      "req' = req\<lparr>oreq_body := value_map doc\<rparr>"
    using assms(2) by (auto simp: redactOpenAIRequest_def Let_def split: prod.splits)
  note body = redact_body [OF request_segments [OF assms(1)] r(1)]
  obtain kvs where kvs: "value_map doc = Some kvs" "json_marshal J (JObj (AList.update ''model'' (JStr upstream) kvs)) = Some sent"
    using assms(3) r(2) by (auto simp: encodeOpenAIRequest_def split: option.splits)
  let ?sent = "JObj (AList.update ''model'' (JStr upstream) kvs)"
  have doc: "doc = JObj kvs" using body(3) kvs(1) by (simp add: map_value_def)
  have other: "get_at q ?sent = get_at q doc" if "parallel [Field ''model''] q" for q
    using get_set_field [OF that, of "JStr upstream" kvs] doc by simp
  have "redacted_as [[Field ''model'']] fs ms (oreq_segments req) (map_value (oreq_body req)) ?sent"
    using body(1) other request_paths [OF assms(1)] by (auto simp: redacted_as_def list_all_iff)
  moreover have "get_at [Field ''model''] ?sent = Some (JStr upstream)" by (simp add: map_of_update)
  ultimately show ?thesis using kvs(2) body(2) by blast
qed

text \<open>C27. Redaction reaches the client: the redacted answer is the upstream's answer unchanged when
  no flagged byte lies in it, and otherwise the encoding of a body in which every string a segment
  names is masked and nothing else differs.\<close>

theorem redacted_response_sent:
  assumes "redactOpenAIResponse J api body fs ms = Inr (sent, n)"
  shows "\<exists>resp. parseOpenAIResponse J api body = Inr resp \<and>
    n = (\<Sum>s\<leftarrow>oresp_segments resp. int (masked_runs fs ms s)) \<and>
    (if n = 0 then sent = body
     else \<exists>doc. json_marshal J doc = Some sent \<and>
       redacted_as [] fs ms (oresp_segments resp) (map_value (oresp_body resp)) doc)"
proof -
  obtain resp where resp: "parseOpenAIResponse J api body = Inr resp"
    using assms by (auto simp: redactOpenAIResponse_def split: sum.splits)
  obtain r doc where r: "redactTextSegments (oresp_segments resp) fs ms (map_value (oresp_body resp)) = (r, doc)" by fastforce
  obtain k where k: "r = Inr k" using assms resp r by (auto simp: redactOpenAIResponse_def split: sum.splits)
  note body = redact_body [OF response_segments [OF resp] r [unfolded k]]
  show ?thesis
    using assms resp r k body(1,2) by (auto simp: redactOpenAIResponse_def split: if_splits option.splits)
qed

text \<open>A request body \<open>null\<close> panics: it decodes to the nil map without an error, the request is
  accepted with an empty text, and the encoder's assignment of the upstream model into the nil map
  panics.\<close>

theorem null_body_panics:
  assumes "json_unmarshal_map J ''null'' = Some None"
  shows "\<exists>req. parseOpenAIRequest J chatCompletionsPath ''null'' = Inr req \<and> oreq_text req = [] \<and>
    encodeOpenAIRequest J req upstream = Inl PanicNilMap"
  using assms
  by (simp add: parseOpenAIRequest_def extractChatInputSegments_def map_value_def field_def array_of_def encodeOpenAIRequest_def)

section \<open>Witnesses\<close>

definition sample_codec :: json_codec where
  "sample_codec = \<lparr>
     json_unmarshal_map = (\<lambda>s. if s = ''null'' then Some None
       else if s = ''request'' then Some (Some [(''messages'', JArr [JObj [(''content'', JStr ''my key'')]])])
       else if s = ''response'' then Some (Some [(''choices'', JArr [JObj [(''message'', JObj [(''content'', JStr ''my key'')])]])])
       else None),
     json_marshal = (\<lambda>v. if v = JObj [(''messages'', JArr [JObj [(''content'', JStr ''my [REDACTED]'')]]), (''model'', JStr ''m'')] then Some ''sent''
       else if v = JObj [(''choices'', JArr [JObj [(''message'', JObj [(''content'', JStr ''my [REDACTED]'')])]])] then Some ''answer''
       else None)\<rparr>"

definition sample_match :: MatchedSpan where
  "sample_match = \<lparr>span_Start = 3, span_End = 6, span_Category = ''secret'', span_TextHash = []\<rparr>"

lemmas sample_codec_eval = sample_codec_def sample_match_def parseOpenAIRequest_def parseOpenAIResponse_def redactOpenAIRequest_def
  redactOpenAIResponse_def redactTextSegments_def encodeOpenAIRequest_def extractChatInputSegments_def extractChatOutputSegments_def
  map_value_def value_map_def field_def array_of_def object_of_def zero_acc_def acc_add_def acc_text_def append_opt_def stringValue_def
  redactionSpansForSegment_def appendAbsoluteTextSpan_def RedactText_def redact_sorted_def substr_def
  validStringBoundary_def rune_start_def cont_def in_range_def byte_def RedactionToken_def

definition sample_openai_request :: openAIRequest where
  "sample_openai_request = \<lparr>oreq_body = Some [(''messages'', JArr [JObj [(''content'', JStr ''my key'')]])], oreq_model = [],
     oreq_text = ''my key'', oreq_segments = [\<lparr>seg_start = 0, seg_end = 6, seg_text = ''my key'',
       seg_path = [Field ''messages'', Index 0, Field ''content'']\<rparr>]\<rparr>"

lemma sample_request_parsed: "parseOpenAIRequest sample_codec chatCompletionsPath ''request'' = Inr sample_openai_request"
  by (simp add: sample_codec_eval sample_openai_request_def)


lemma sample_response_redacted: "redactOpenAIResponse sample_codec chatCompletionsPath ''response'' [] [sample_match] = Inr (''answer'', 1)"
  by (simp add: sample_codec_eval)

theorem segments_are_placed_witness:
  "segments_ok (map_value (oreq_body sample_openai_request)) ''my key'' (oreq_segments sample_openai_request)"
  using segments_are_placed [of sample_codec chatCompletionsPath "''request''" sample_openai_request] sample_request_parsed
  by (simp add: sample_openai_request_def)

theorem redacted_request_sent_witness:
  "\<exists>req n req'. redactOpenAIRequest sample_openai_request [] [sample_match] = (Inr n, req') \<and>
     encodeOpenAIRequest sample_codec req' ''m'' = Inr ''sent'' \<and>
     n = (\<Sum>s\<leftarrow>oreq_segments sample_openai_request. int (masked_runs [] [sample_match] s))"
proof -
  obtain n req' where r: "redactOpenAIRequest sample_openai_request [] [sample_match] = (Inr n, req')"
      "encodeOpenAIRequest sample_codec req' ''m'' = Inr ''sent''"
    by (simp add: sample_codec_eval sample_openai_request_def)
  from redacted_request_sent [OF sample_request_parsed r] r show ?thesis by blast
qed

theorem redacted_response_sent_witness:
  "\<exists>doc. json_marshal sample_codec doc = Some ''answer'' \<and>
     get_at [Field ''choices'', Index 0, Field ''message'', Field ''content''] doc = Some (JStr ''my [REDACTED]'')"
proof -
  have "\<exists>doc. json_marshal sample_codec doc = Some ''answer''"
    using redacted_response_sent [OF sample_response_redacted] by auto
  then show ?thesis by (auto simp: sample_codec_def split: if_splits)
qed

theorem null_body_panics_witness:
  "\<exists>req. parseOpenAIRequest sample_codec chatCompletionsPath ''null'' = Inr req \<and>
     encodeOpenAIRequest sample_codec req ''m'' = Inl PanicNilMap"
  using null_body_panics [of sample_codec "''m''"] by (auto simp: sample_codec_def)

end
