(* ===== verification/Http.thy ===== *)
theory Http
  imports ClientAuth OpenAIText
begin

text \<open>
  HTTP values and the helpers of \<open>http\_helpers.go\<close>, \<open>errors.go\<close> and \<open>upstream\_forward.go\<close>.

  A header is an association list from canonical keys to values: a Go map, in the order a \<open>range\<close>
  over it happens to visit.  A body is a reader: its bytes, and the error it ends with (\<open>EOF\<close> when it
  ends well).  \<open>net/url\<close> is a parameter: a parser into scheme, host and path and the printing of the
  result.
\<close>

section \<open>Headers (net/http)\<close>

type_synonym header = "(string \<times> string list) list"

definition token_char :: "char \<Rightarrow> bool" where
  "token_char c \<longleftrightarrow> in_range 0x30 0x39 (byte c) \<or> in_range 0x41 0x5A (byte c) \<or> in_range 0x61 0x7A (byte c) \<or>
     byte c \<in> set [0x21, 0x23, 0x24, 0x25, 0x26, 0x27, 0x2A, 0x2B, 0x2D, 0x2E, 0x5E, 0x5F, 0x60, 0x7C, 0x7E]"

definition upper_char :: "char \<Rightarrow> char" where
  "upper_char c = (if in_range 0x61 0x7A (byte c) then of_byte (byte c - 0x20) else c)"

definition lower_char :: "char \<Rightarrow> char" where
  "lower_char c = (if in_range 0x41 0x5A (byte c) then of_byte (byte c + 0x20) else c)"

fun canonical_chars :: "bool \<Rightarrow> string \<Rightarrow> string" where
  "canonical_chars upper [] = []"
| "canonical_chars upper (c # cs) =
     (if upper then upper_char c else lower_char c) # canonical_chars (c = CHR ''-'') cs"

definition CanonicalHeaderKey :: "string \<Rightarrow> string" where
  "CanonicalHeaderKey s = (if list_all token_char s then canonical_chars True s else s)"

definition header_values :: "header \<Rightarrow> string \<Rightarrow> string list" where
  "header_values h key = (case map_of h (CanonicalHeaderKey key) of None \<Rightarrow> [] | Some vs \<Rightarrow> vs)"

definition header_get :: "header \<Rightarrow> string \<Rightarrow> string" where
  "header_get h key = (case header_values h key of [] \<Rightarrow> [] | v # vs \<Rightarrow> v)"

definition header_set :: "string \<Rightarrow> string \<Rightarrow> header \<Rightarrow> header" where
  "header_set key v h = AList.update (CanonicalHeaderKey key) [v] h"

definition header_add :: "string \<Rightarrow> string \<Rightarrow> header \<Rightarrow> header" where
  "header_add key v h = AList.update (CanonicalHeaderKey key) (header_values h key @ [v]) h"

section \<open>Bodies\<close>

datatype read_error = EOF | ReadDeadlineExceeded | ReadFailed

record reader =
  rd_bytes :: string
  rd_end :: read_error

text \<open>The body, whether it is longer than the limit, or the read error.  The reader stops after one
  byte more than the limit.\<close>

definition readLimited :: "reader \<Rightarrow> int \<Rightarrow> read_error + (string \<times> bool)" where
  "readLimited r max_bytes =
     (if int (length (rd_bytes r)) \<ge> max_bytes + 1
      then (let body = take (nat (max_bytes + 1)) (rd_bytes r) in
            if int (length body) > max_bytes then Inr ([], True) else Inr (body, False))
      else if rd_end r \<noteq> EOF then Inl (rd_end r)
      else Inr (rd_bytes r, False))"

lemma readLimited_ok:
  "readLimited r m = Inr (body, False) \<Longrightarrow> body = rd_bytes r \<and> int (length body) \<le> m \<and> rd_end r = EOF"
  by (auto simp: readLimited_def Let_def split: if_splits)

lemma readLimited_large: "readLimited r m = Inr (body, True) \<longleftrightarrow> body = [] \<and> m < int (length (rd_bytes r))"
  by (auto simp: readLimited_def Let_def)

section \<open>Messages\<close>

record http_request =
  hr_Method :: string
  hr_Path :: string
  hr_Header :: header
  hr_Body :: reader

record http_response =
  rs_StatusCode :: int
  rs_Header :: header
  rs_Body :: reader

record upstream_request =
  uq_Method :: string
  uq_URL :: string
  uq_Header :: header
  uq_Body :: string

section \<open>Helpers (http\_helpers.go)\<close>

definition endpointKind :: "string \<Rightarrow> string" where
  "endpointKind p =
     (if p = chatCompletionsPath then ''chat_completions'' else if p = responsesPath then ''responses'' else ''unknown'')"

record url =
  url_Scheme :: string
  url_Host :: string
  url_Path :: string

record url_codec =
  url_parse :: "string \<Rightarrow> url option"
  url_join :: "string \<Rightarrow> url \<Rightarrow> string"

text \<open>\<open>url_join base u\<close> prints the parsed \<open>base\<close> with the path of \<open>u\<close> and without a query.\<close>

definition trim_right_char :: "char \<Rightarrow> string \<Rightarrow> string" where
  "trim_right_char c s = rev (dropWhile (\<lambda>x. x = c) (rev s))"

definition joinURL :: "url_codec \<Rightarrow> string \<Rightarrow> string \<Rightarrow> string option" where
  "joinURL U base p =
     (case url_parse U base of
        None \<Rightarrow> None
      | Some parsed \<Rightarrow>
          if url_Scheme parsed = [] \<or> url_Host parsed = [] then None
          else Some (url_join U base (parsed\<lparr>url_Path := trim_right_char CHR ''/'' (url_Path parsed) @ p\<rparr>)))"

definition hopByHopHeader :: "string \<Rightarrow> bool" where
  "hopByHopHeader key \<longleftrightarrow>
     ToLower key \<in> set [''connection'', ''keep-alive'', ''proxy-authenticate'', ''proxy-authorization'',
       ''proxy-connection'', ''te'', ''trailer'', ''transfer-encoding'', ''upgrade'']"

definition header_add_all :: "string \<Rightarrow> string list \<Rightarrow> header \<Rightarrow> header" where
  "header_add_all key vs h = fold (header_add key) vs h"

definition copyResponseHeaders :: "header \<Rightarrow> header \<Rightarrow> header" where
  "copyResponseHeaders dst src =
     fold (\<lambda>(key, vs) h. if EqualFold key ''Content-Length'' \<or> hopByHopHeader key then h else header_add_all key vs h)
       src dst"

definition isEventStream :: "string \<Rightarrow> bool" where
  "isEventStream contentType = has_prefix ''text/event-stream'' (ToLower contentType)"

fun firstNonEmpty :: "string list \<Rightarrow> string" where
  "firstNonEmpty [] = []"
| "firstNonEmpty (v # vs) = (if v \<noteq> [] then v else firstNonEmpty vs)"

definition requestIDFromHeader :: "string \<Rightarrow> header \<Rightarrow> string" where
  "requestIDFromHeader random h =
     firstNonEmpty (map (header_get h) [''X-Request-ID'', ''OpenAI-Request-ID''] @ [random])"

section \<open>Forwarding (upstream\_forward.go)\<close>

record Provider =
  pr_Key :: string
  pr_BaseURL :: string
  pr_APIKey :: string
  pr_Headers :: "(string \<times> string) list"
  pr_Timeout :: duration

definition dropped_header :: "string \<Rightarrow> bool" where
  "dropped_header key \<longleftrightarrow> EqualFold key ''Content-Length'' \<or> EqualFold key ''Authorization'' \<or>
     EqualFold key ''Content-Type'' \<or> hopByHopHeader key"

definition forward_header :: "Provider \<Rightarrow> header \<Rightarrow> header" where
  "forward_header p original =
     (let h = header_set ''Content-Type'' ''application/json'' [];
          h = (if pr_APIKey p \<noteq> [] then header_set ''Authorization'' (''Bearer '' @ pr_APIKey p) h else h);
          h = fold (\<lambda>(key, vs) h. if dropped_header key then h else header_add_all key vs h) original h
      in fold (\<lambda>(key, v) h. header_set key v h) (pr_Headers p) h)"

text \<open>The request that is sent; \<open>None\<close> when the URL cannot be built.  \<open>http.NewRequest\<close> itself rejects
  a method or URL the parameter \<open>request_ok\<close> rejects.\<close>

definition forward_request ::
  "url_codec \<Rightarrow> (string \<Rightarrow> string \<Rightarrow> bool) \<Rightarrow> Provider \<Rightarrow> http_request \<Rightarrow> string \<Rightarrow> upstream_request option" where
  "forward_request U request_ok p original body =
     (case joinURL U (pr_BaseURL p) (hr_Path original) of
        None \<Rightarrow> None
      | Some upstreamURL \<Rightarrow>
          if \<not> request_ok (hr_Method original) upstreamURL then None
          else Some \<lparr>uq_Method = hr_Method original, uq_URL = upstreamURL,
                 uq_Header = forward_header p (hr_Header original), uq_Body = body\<rparr>)"

end
