(* ===== verification/Http_Claims.thy ===== *)
theory Http_Claims
  imports Http
begin

text \<open>What the gateway sends upstream in the header of a request.\<close>

section \<open>Canonical keys\<close>

lemma token_ascii: "token_char c \<Longrightarrow> byte c < 0x80"
  by (auto simp: token_char_def in_range_def)

lemma fold_upper_lower:
  "fold_rune (byte (upper_char c)) = fold_rune (byte c)" "fold_rune (byte (lower_char c)) = fold_rune (byte c)"
  by (auto simp: upper_char_def lower_char_def fold_rune_def in_range_def byte_of_byte)

lemma canonical_chars_fold:
  "map (fold_rune \<circ> byte) (canonical_chars up s) = map (fold_rune \<circ> byte) s"
  by (induction up s rule: canonical_chars.induct) (auto simp: fold_upper_lower)

lemma canonical_chars_ascii:
  "list_all (\<lambda>c. byte c < 0x80) s \<Longrightarrow> list_all (\<lambda>c. byte c < 0x80) (canonical_chars up s)"
  by (induction up s rule: canonical_chars.induct) (auto simp: upper_char_def lower_char_def in_range_def byte_of_byte)

lemma EqualFold_canonical: "EqualFold (CanonicalHeaderKey k) t = EqualFold k t"
proof (cases "list_all token_char k")
  case True
  then have a: "list_all (\<lambda>c. byte c < 0x80) k" by (auto simp: list_all_iff token_ascii)
  with canonical_chars_fold [of True k] have "map fold_rune (map byte (canonical_chars True k)) = map fold_rune (map byte k)"
    by simp
  with True a show ?thesis
    by (simp add: EqualFold_def CanonicalHeaderKey_def runes_of_string_ascii canonical_chars_ascii)
next
  case False
  then show ?thesis by (simp add: CanonicalHeaderKey_def)
qed

lemma EqualFold_refl [simp]: "EqualFold s s"
  by (simp add: EqualFold_def)

section \<open>Header operations\<close>

lemma map_of_update': "map_of (AList.update k v kvs) k' = (if k' = k then Some v else map_of kvs k')"
  by (simp add: update_conv')

lemma values_set:
  "header_values (header_set k v h) key = (if CanonicalHeaderKey k = CanonicalHeaderKey key then [v] else header_values h key)"
  by (simp add: header_values_def header_set_def map_of_update')

lemma values_add:
  "header_values (header_add k v h) key =
     header_values h key @ (if CanonicalHeaderKey k = CanonicalHeaderKey key then [v] else [])"
  by (simp add: header_values_def header_add_def map_of_update')

lemma values_add_all:
  "header_values (header_add_all k vs h) key =
     header_values h key @ (if CanonicalHeaderKey k = CanonicalHeaderKey key then vs else [])"
  unfolding header_add_all_def by (induction vs arbitrary: h) (auto simp: values_add)

lemma values_copy:
  "header_values (fold (\<lambda>(k, vs) h. if skip k then h else header_add_all k vs h) src h) key =
     header_values h key @ concat (map snd (filter (\<lambda>(k, vs). CanonicalHeaderKey k = CanonicalHeaderKey key \<and> \<not> skip k) src))"
  by (induction src arbitrary: h) (auto simp: values_add_all split: if_splits)

lemma values_override:
  "header_values (fold (\<lambda>(k, v) h. header_set k v h) ps h) key =
     (case map_of (rev (map (\<lambda>(k, v). (CanonicalHeaderKey k, v)) ps)) (CanonicalHeaderKey key) of
        Some v \<Rightarrow> [v] | None \<Rightarrow> header_values h key)"
  by (induction ps arbitrary: h) (auto simp: values_set map_add_def split: option.splits)

text \<open>The value a provider's own configuration gives a header.\<close>

definition provider_header :: "Provider \<Rightarrow> string \<Rightarrow> string option" where
  "provider_header p key = map_of (rev (map (\<lambda>(k, v). (CanonicalHeaderKey k, v)) (pr_Headers p))) (CanonicalHeaderKey key)"

text \<open>The values of the client's header that are passed on.\<close>

definition passed_values :: "header \<Rightarrow> string \<Rightarrow> string list" where
  "passed_values h key =
     concat (map snd (filter (\<lambda>(k, vs). CanonicalHeaderKey k = CanonicalHeaderKey key \<and> \<not> dropped_header k) h))"

lemma values_passed:
  "header_values (fold (\<lambda>(k, vs) h. if dropped_header k then h else header_add_all k vs h) src h) key =
     header_values h key @ passed_values src key"
  unfolding passed_values_def by (rule values_copy)

lemma dropped_values:
  assumes "\<forall>k. CanonicalHeaderKey k = CanonicalHeaderKey key \<longrightarrow> dropped_header k"
  shows "passed_values h key = []"
  using assms by (induction h) (auto simp: passed_values_def)

lemma canonical_own [simp]: "CanonicalHeaderKey ''Authorization'' = ''Authorization''" "CanonicalHeaderKey ''Content-Type'' = ''Content-Type''"
  by (simp_all add: CanonicalHeaderKey_def token_char_def in_range_def byte_def upper_char_def lower_char_def of_byte_def)

lemma not_passed: "passed_values h ''Authorization'' = []" "passed_values h ''Content-Type'' = []"
  "passed_values h ''Content-Length'' = []"
  by (rule dropped_values; metis dropped_header_def EqualFold_canonical EqualFold_refl)+

text \<open>The header of the upstream request, key by key: a provider's own header wins; otherwise the
  authorization is the provider's API key or nothing, the content type is JSON, and every other key has
  exactly the client's values that are passed on. The client's credential for the gateway, its content
  length and its content type are never passed on.\<close>

theorem upstream_header:
  "header_values (forward_header p client) key =
     (case provider_header p key of
        Some v \<Rightarrow> [v]
      | None \<Rightarrow>
          if CanonicalHeaderKey key = ''Authorization'' then (if pr_APIKey p \<noteq> [] then [''Bearer '' @ pr_APIKey p] else [])
          else if CanonicalHeaderKey key = ''Content-Type'' then [''application/json'']
          else passed_values client key)
   \<and> passed_values client ''Authorization'' = [] \<and> passed_values client ''Content-Type'' = []
   \<and> passed_values client ''Content-Length'' = []"
proof -
  have none: "passed_values client key = []" if "CanonicalHeaderKey key \<in> {''Authorization'', ''Content-Type''}"
    using not_passed [of client] that by (auto simp: passed_values_def)
  have empty: "header_values [] key = []" by (simp add: header_values_def)
  let ?own = "(if CanonicalHeaderKey key = ''Authorization'' then (if pr_APIKey p \<noteq> [] then [''Bearer '' @ pr_APIKey p] else [])
          else if CanonicalHeaderKey key = ''Content-Type'' then [''application/json''] else [])"
  have "header_values (forward_header p client) key =
      (case provider_header p key of Some v \<Rightarrow> [v] | None \<Rightarrow> ?own @ passed_values client key)"
    by (simp add: forward_header_def values_override values_passed values_set provider_header_def empty Let_def split: option.split)
  then show ?thesis
    using none by (auto simp: not_passed split: option.split)
qed

end
