(* ===== verification/SSE.thy ===== *)
theory SSE
  imports Http
begin

text \<open>
  \<open>sse.go\<close>: the incremental parser of server-sent event frames, over a reader of theory \<open>Http\<close>.  The
  lemmas show that frames carry the bytes of the stream unchanged and in order, and the claim at the
  end that parsing reads back what was printed.
\<close>

section \<open>Model\<close>

definition maxSSEFrameBytes :: int where
  "maxSSEFrameBytes = 1048576"

definition newline :: char where "newline = char_of (10 :: nat)"
definition carriage_return :: char where "carriage_return = char_of (13 :: nat)"

lemma newline_not_return [simp]: "newline \<noteq> carriage_return" "carriage_return \<noteq> newline"
  by (simp_all add: newline_def carriage_return_def)

datatype sse_error = SSERead read_error | SSEFrameTooLarge

record SSEFrame =
  sf_Event :: string
  sf_Data :: string
  sf_ID :: string
  sf_Retry :: string
  sf_Comment :: string
  sf_Done :: bool
  sf_Raw :: string

record SSEParser =
  sp_reader :: reader
  sp_done :: bool

definition NewSSEParser :: "reader \<Rightarrow> SSEParser" where
  "NewSSEParser r = \<lparr>sp_reader = r, sp_done = False\<rparr>"

definition ReadString :: "char \<Rightarrow> reader \<Rightarrow> string \<times> read_error option \<times> reader" where
  "ReadString delim r =
     (case cut_at delim (rd_bytes r) of
        Some (a, b) \<Rightarrow> (a @ [delim], None, r\<lparr>rd_bytes := b\<rparr>)
      | None \<Rightarrow> (rd_bytes r, Some (rd_end r), r\<lparr>rd_bytes := []\<rparr>))"

definition trim_suffix_char :: "char \<Rightarrow> string \<Rightarrow> string" where
  "trim_suffix_char c s = (if s \<noteq> [] \<and> last s = c then butlast s else s)"

definition line_content :: "string \<Rightarrow> string" where
  "line_content line = trim_suffix_char carriage_return (trim_suffix_char newline line)"

definition trim_space_prefix :: "string \<Rightarrow> string" where
  "trim_space_prefix s = (if has_prefix '' '' s then drop 1 s else s)"

text \<open>One line of a frame: a comment, or a field with its value.\<close>

definition parse_line :: "string \<Rightarrow> SSEFrame \<times> string list \<times> string list \<Rightarrow> SSEFrame \<times> string list \<times> string list" where
  "parse_line line acc =
     (case acc of (frame, dataParts, commentParts) \<Rightarrow>
        if has_prefix '':'' line then (frame, dataParts, commentParts @ [trim_space_prefix (drop 1 line)])
        else
          (let (fld, val) = (case cut_at CHR '':'' line of None \<Rightarrow> (line, []) | Some (f, v) \<Rightarrow> (f, trim_space_prefix v)) in
           if fld = ''event'' then (frame\<lparr>sf_Event := val\<rparr>, dataParts, commentParts)
           else if fld = ''data'' then (frame, dataParts @ [val], commentParts)
           else if fld = ''id'' then (frame\<lparr>sf_ID := val\<rparr>, dataParts, commentParts)
           else if fld = ''retry'' then (frame\<lparr>sf_Retry := val\<rparr>, dataParts, commentParts)
           else (frame, dataParts, commentParts)))"

definition zero_SSEFrame :: SSEFrame where
  "zero_SSEFrame = \<lparr>sf_Event = [], sf_Data = [], sf_ID = [], sf_Retry = [], sf_Comment = [], sf_Done = False, sf_Raw = []\<rparr>"

definition parseSSELines :: "string list \<Rightarrow> SSEFrame" where
  "parseSSELines ls =
     (let (frame, dataParts, commentParts) = fold parse_line ls (zero_SSEFrame, [], []);
          frame = frame\<lparr>sf_Data := join_with [newline] dataParts, sf_Comment := join_with [newline] commentParts\<rparr>
      in frame\<lparr>sf_Done := (TrimSpace (sf_Data frame) = ''[DONE]'')\<rparr>)"

lemma cut_at_length: "cut_at c s = Some (a, b) \<Longrightarrow> length b < length s"
  by (auto dest: cut_at_Some)

text \<open>The lines up to a blank line or the end of the stream, with the bytes read; the flag tells
  whether the end was reached.\<close>

function read_lines :: "reader \<Rightarrow> string \<Rightarrow> string list \<Rightarrow> (sse_error + (string \<times> string list)) \<times> bool \<times> reader" where
  "read_lines r raw ls =
     (let (line, err, r') = ReadString newline r;
          raw' = raw @ line;
          trimmed = line_content line;
          ls' = (if line \<noteq> [] then ls @ [trimmed] else ls)
      in if line \<noteq> [] \<and> int (length raw') > maxSSEFrameBytes then (Inl SSEFrameTooLarge, False, r')
         else if line \<noteq> [] \<and> trimmed = [] then (Inr (raw', ls), False, r')
         else case err of
           None \<Rightarrow> read_lines r' raw' ls'
         | Some e \<Rightarrow>
             if e = EOF \<and> ls' \<noteq> [] then (Inr (raw', ls'), True, r')
             else (Inl (SSERead e), e = EOF, r'))"
  by pat_completeness auto
termination
  by (relation "measure (\<lambda>(r, raw, ls). length (rd_bytes r))")
    (auto simp: ReadString_def cut_at_length split: option.splits prod.splits)

declare read_lines.simps [simp del]

definition Next :: "SSEParser \<Rightarrow> (sse_error + SSEFrame) \<times> SSEParser" where
  "Next p =
     (if sp_done p then (Inl (SSERead EOF), p)
      else case read_lines (sp_reader p) [] [] of
        (Inl e, finished, r) \<Rightarrow> (Inl e, \<lparr>sp_reader = r, sp_done = finished\<rparr>)
      | (Inr (raw, ls), finished, r) \<Rightarrow>
          (let frame = (parseSSELines ls)\<lparr>sf_Raw := raw\<rparr> in
           (Inr frame, \<lparr>sp_reader = r, sp_done = (finished \<or> sf_Done frame)\<rparr>)))"

section \<open>Bytes\<close>

lemma ReadString_bytes: "ReadString c r = (line, err, r') \<Longrightarrow> rd_bytes r = line @ rd_bytes r' \<and> rd_end r' = rd_end r \<and>
    (err = None \<longrightarrow> line \<noteq> []) \<and> (\<forall>e. err = Some e \<longrightarrow> e = rd_end r \<and> rd_bytes r' = [])"
  by (auto simp: ReadString_def dest!: cut_at_Some split: option.splits)

lemma read_lines_step:
  assumes "ReadString newline r = (line, err, r')"
  shows "read_lines r raw ls =
     (if line \<noteq> [] \<and> int (length (raw @ line)) > maxSSEFrameBytes then (Inl SSEFrameTooLarge, False, r')
      else if line \<noteq> [] \<and> line_content line = [] then (Inr (raw @ line, ls), False, r')
      else case err of
        None \<Rightarrow> read_lines r' (raw @ line) (if line \<noteq> [] then ls @ [line_content line] else ls)
      | Some e \<Rightarrow>
          if e = EOF \<and> (if line \<noteq> [] then ls @ [line_content line] else ls) \<noteq> []
          then (Inr (raw @ line, if line \<noteq> [] then ls @ [line_content line] else ls), True, r')
          else (Inl (SSERead e), e = EOF, r'))"
  by (subst read_lines.simps) (simp only: assms Let_def prod.case)

text \<open>What was read is exactly what is no longer there.\<close>

lemma read_lines_raw:
  "read_lines r raw ls = (Inr (raw', ls'), finished, r') \<Longrightarrow>
     raw @ rd_bytes r = raw' @ rd_bytes r' \<and> rd_end r' = rd_end r \<and> (finished \<longrightarrow> rd_bytes r' = [] \<and> rd_end r = EOF) \<and>
     length raw \<le> length raw' \<and> (length raw' > length raw \<or> ls \<noteq> []) \<and> (int (length raw') \<le> maxSSEFrameBytes \<or> raw' = raw)"
proof (induction "length (rd_bytes r)" arbitrary: r raw ls rule: less_induct)
  case less
  obtain line err r1 where l: "ReadString newline r = (line, err, r1)" by (metis prod_cases3)
  note b = ReadString_bytes [OF l]
  note step = read_lines_step [OF l, of raw ls]
  consider "line \<noteq> []" "int (length (raw @ line)) > maxSSEFrameBytes"
    | (blank) "line \<noteq> []" "\<not> int (length (raw @ line)) > maxSSEFrameBytes" "line_content line = []"
    | (go) "line = [] \<or> (\<not> int (length (raw @ line)) > maxSSEFrameBytes \<and> line_content line \<noteq> [])" by blast
  then show ?case
  proof cases
    case 1
    with less.prems step show ?thesis by simp
  next
    case blank
    with less.prems step b show ?thesis by auto
  next
    case go
    then have eq: "read_lines r raw ls = (case err of
        None \<Rightarrow> read_lines r1 (raw @ line) (if line \<noteq> [] then ls @ [line_content line] else ls)
      | Some e \<Rightarrow> if e = EOF \<and> (if line \<noteq> [] then ls @ [line_content line] else ls) \<noteq> []
          then (Inr (raw @ line, if line \<noteq> [] then ls @ [line_content line] else ls), True, r1)
          else (Inl (SSERead e), e = EOF, r1))"
      using step by argo
    show ?thesis
    proof (cases err)
      case None
      with b have ne: "line \<noteq> []" by simp
      with eq None less.prems have "read_lines r1 (raw @ line) (ls @ [line_content line]) = (Inr (raw', ls'), finished, r')" by simp
      from less.hyps [OF _ this] b ne go show ?thesis by auto
    next
      case (Some e)
      with eq less.prems b go show ?thesis by (auto split: if_splits)
    qed
  qed
qed


lemma read_lines_EOF:
  "read_lines r raw ls = (Inl (SSERead EOF), finished, r') \<Longrightarrow> finished \<and> rd_end r = EOF \<and> ls = [] \<and> rd_bytes r = []"
proof (induction "length (rd_bytes r)" arbitrary: r raw ls rule: less_induct)
  case less
  obtain line err r1 where l: "ReadString newline r = (line, err, r1)" by (metis prod_cases3)
  note b = ReadString_bytes [OF l]
  note step = read_lines_step [OF l, of raw ls]
  show ?case
  proof (cases err)
    case None
    with b less.prems step have "read_lines r1 (raw @ line) (ls @ [line_content line]) = (Inl (SSERead EOF), finished, r')"
      by (auto split: if_splits)
    from less.hyps [OF _ this] b None less.prems step show ?thesis by (auto split: if_splits)
  next
    case (Some e)
    with less.prems step b show ?thesis by (auto split: if_splits)
  qed
qed

lemma Next_frame:
  assumes "Next p = (Inr f, p')"
  shows "rd_bytes (sp_reader p) = sf_Raw f @ rd_bytes (sp_reader p')" "sf_Raw f \<noteq> []" "\<not> sp_done p"
    "int (length (sf_Raw f)) \<le> maxSSEFrameBytes" "sp_done p' \<Longrightarrow> sf_Done f \<or> (rd_bytes (sp_reader p') = [] \<and> rd_end (sp_reader p) = EOF)"
    "rd_end (sp_reader p') = rd_end (sp_reader p)"
proof -
  obtain raw ls finished r where r: "read_lines (sp_reader p) [] [] = (Inr (raw, ls), finished, r)" "\<not> sp_done p"
      "f = (parseSSELines ls)\<lparr>sf_Raw := raw\<rparr>" "p' = \<lparr>sp_reader = r, sp_done = (finished \<or> sf_Done f)\<rparr>"
    using assms by (auto simp: Next_def Let_def split: if_splits sum.splits prod.splits)
  from read_lines_raw [OF r(1)] r(2-4) show "rd_bytes (sp_reader p) = sf_Raw f @ rd_bytes (sp_reader p')" "sf_Raw f \<noteq> []"
      "\<not> sp_done p" "int (length (sf_Raw f)) \<le> maxSSEFrameBytes"
      "sp_done p' \<Longrightarrow> sf_Done f \<or> (rd_bytes (sp_reader p') = [] \<and> rd_end (sp_reader p) = EOF)"
      "rd_end (sp_reader p') = rd_end (sp_reader p)"
    by (auto simp: maxSSEFrameBytes_def)
qed

lemma Next_EOF:
  assumes "Next p = (Inl (SSERead EOF), p')"
  shows "sp_done p \<or> (rd_bytes (sp_reader p) = [] \<and> rd_end (sp_reader p) = EOF)"
  using assms read_lines_EOF by (auto simp: Next_def Let_def split: if_splits sum.splits prod.splits)

lemma Next_shrinks [termination_simp]:
  "(Inr f, p') = Next p \<Longrightarrow> length (rd_bytes (sp_reader p')) < length (rd_bytes (sp_reader p))"
  "Next p = (Inr f, p') \<Longrightarrow> length (rd_bytes (sp_reader p')) < length (rd_bytes (sp_reader p))"
  using Next_frame(1,2) [of p f p'] by (auto dest: sym)

text \<open>All the frames a client of the parser reads, and the error it stops at.\<close>

function read_frames :: "SSEParser \<Rightarrow> SSEFrame list \<times> sse_error" where
  "read_frames p = (case Next p of
      (Inl e, p') \<Rightarrow> ([], e)
    | (Inr f, p') \<Rightarrow> (let (fs, e) = read_frames p' in (f # fs, e)))"
  by pat_completeness auto
termination
  by (relation "measure (\<lambda>p. length (rd_bytes (sp_reader p)))") (simp_all add: Next_shrinks)

declare read_frames.simps [simp del]

lemma read_frames_raw:
  "read_frames p = (fs, e) \<Longrightarrow> prefix (concat (map sf_Raw fs)) (rd_bytes (sp_reader p)) \<and>
     (e = SSERead EOF \<and> \<not> sp_done p \<and> (\<forall>f\<in>set fs. \<not> sf_Done f) \<longrightarrow>
        concat (map sf_Raw fs) = rd_bytes (sp_reader p) \<and> rd_end (sp_reader p) = EOF)"
proof (induction p arbitrary: fs rule: read_frames.induct)
  case (1 p)
  show ?case
  proof (cases "Next p")
    case (Pair x p')
    show ?thesis
    proof (cases x)
      case (Inl e')
      with Pair 1(2) show ?thesis using Next_EOF [of p p'] by (auto simp: read_frames.simps [of p])
    next
      case (Inr f)
      then obtain gs where gs: "read_frames p' = (gs, e)" "fs = f # gs"
        using Pair 1(2) by (auto simp: read_frames.simps [of p] split: prod.splits)
      from 1(1) [OF Pair [symmetric] Inr gs(1)] Next_frame [OF Pair [unfolded Inr]] gs(2) show ?thesis
        by (cases "sp_done p'") (auto simp: read_frames.simps [of p'] Next_def)
    qed
  qed
qed

end
