(* ===== verification/SSE_Claims.thy ===== *)
theory SSE_Claims
  imports SSE
begin

text \<open>The properties of the frame parser: it is transparent, and it reads back printed events.\<close>

section \<open>Printed events\<close>

definition sse_field :: "string \<Rightarrow> string \<Rightarrow> string" where
  "sse_field name v = name @ '': '' @ v"

definition event_lines :: "string \<times> string list \<Rightarrow> string list" where
  "event_lines e = (if fst e \<noteq> [] then [sse_field ''event'' (fst e)] else []) @ map (sse_field ''data'') (snd e)"

definition print_lines :: "string list \<Rightarrow> string" where
  "print_lines ls = concat (map (\<lambda>l. l @ [newline]) ls) @ [newline]"

definition print_event :: "string \<times> string list \<Rightarrow> string" where
  "print_event e = print_lines (event_lines e)"

definition one_line :: "string \<Rightarrow> bool" where
  "one_line s \<longleftrightarrow> newline \<notin> set s \<and> (s = [] \<or> last s \<noteq> carriage_return)"

definition printable :: "string \<times> string list \<Rightarrow> bool" where
  "printable e \<longleftrightarrow> (fst e \<noteq> [] \<or> snd e \<noteq> []) \<and> one_line (fst e) \<and> list_all one_line (snd e) \<and>
     int (length (print_event e)) \<le> maxSSEFrameBytes"

definition event_frame :: "string \<times> string list \<Rightarrow> SSEFrame" where
  "event_frame e = \<lparr>sf_Event = fst e, sf_Data = join_with [newline] (snd e), sf_ID = [], sf_Retry = [], sf_Comment = [],
     sf_Done = (TrimSpace (join_with [newline] (snd e)) = ''[DONE]''), sf_Raw = print_event e\<rparr>"

section \<open>Reading lines back\<close>

lemma line_content_newline: "one_line l \<Longrightarrow> line_content (l @ [newline]) = l"
  by (auto simp: line_content_def trim_suffix_char_def one_line_def)

lemma ReadString_line:
  "newline \<notin> set l \<Longrightarrow> rd_bytes r = l @ newline # rest \<Longrightarrow> ReadString newline r = (l @ [newline], None, r\<lparr>rd_bytes := rest\<rparr>)"
  by (simp add: ReadString_def cut_at_append)

lemma read_printed_lines:
  assumes "\<forall>l\<in>set L. l \<noteq> [] \<and> one_line l" "rd_bytes r = print_lines L @ rest"
    "int (length (raw @ print_lines L)) \<le> maxSSEFrameBytes"
  shows "read_lines r raw ls = (Inr (raw @ print_lines L, ls @ L), False, r\<lparr>rd_bytes := rest\<rparr>)"
  using assms
proof (induction L arbitrary: r raw ls)
  case Nil
  then have "ReadString newline r = ([newline], None, r\<lparr>rd_bytes := rest\<rparr>)"
    by (simp add: ReadString_def print_lines_def)
  from read_lines_step [OF this, of raw ls] Nil show ?case
    by (simp add: print_lines_def line_content_def trim_suffix_char_def)
next
  case (Cons l L)
  then have l: "newline \<notin> set l" "one_line l" "l \<noteq> []" by (auto simp: one_line_def)
  have "rd_bytes r = l @ newline # (print_lines L @ rest)" using Cons.prems(2) by (simp add: print_lines_def)
  note step = read_lines_step [OF ReadString_line [OF l(1) this], of raw ls]
  have "int (length ((raw @ l @ [newline]) @ print_lines L)) \<le> maxSSEFrameBytes"
    using Cons.prems(3) by (simp add: print_lines_def)
  with Cons.IH [of "r\<lparr>rd_bytes := print_lines L @ rest\<rparr>" "raw @ l @ [newline]" "ls @ [l]"] Cons.prems(1)
  have "read_lines (r\<lparr>rd_bytes := print_lines L @ rest\<rparr>) (raw @ l @ [newline]) (ls @ [l]) =
      (Inr (raw @ l @ newline # print_lines L, ls @ l # L), False, r\<lparr>rd_bytes := rest\<rparr>)" by simp
  with step l Cons.prems(3) show ?case by (simp add: line_content_newline print_lines_def)
qed

lemma one_line_field: "one_line v \<Longrightarrow> name \<in> {''event'', ''data''} \<Longrightarrow> one_line (sse_field name v)"
  by (auto simp: one_line_def sse_field_def newline_def carriage_return_def char_of_def)

lemma event_lines_ok: "printable e \<Longrightarrow> l \<in> set (event_lines e) \<Longrightarrow> l \<noteq> [] \<and> one_line l"
  by (auto simp: printable_def event_lines_def list_all_iff one_line_field)
    (auto simp: sse_field_def)

lemma parse_event: "parse_line (sse_field ''event'' v) (f, ds, cs) = (f\<lparr>sf_Event := v\<rparr>, ds, cs)"
  by (simp add: parse_line_def sse_field_def trim_space_prefix_def Let_def)

lemma parse_data: "parse_line (sse_field ''data'' v) (f, ds, cs) = (f, ds @ [v], cs)"
  by (simp add: parse_line_def sse_field_def trim_space_prefix_def Let_def)

lemma fold_data: "fold parse_line (map (sse_field ''data'') vs) (f, ds, cs) = (f, ds @ vs, cs)"
  by (induction vs arbitrary: ds) (simp_all add: parse_data)

lemma parse_event_lines: "(parseSSELines (event_lines e))\<lparr>sf_Raw := print_event e\<rparr> = event_frame e"
  by (simp add: parseSSELines_def event_lines_def fold_data parse_event event_frame_def zero_SSEFrame_def join_with_def Let_def)

lemma parse_event_done: "sf_Done (parseSSELines (event_lines e)) = sf_Done (event_frame e)"
  using arg_cong [OF parse_event_lines, of sf_Done e] by simp

lemma Next_printed:
  assumes "printable e" "\<not> sf_Done (event_frame e)" "rd_bytes r = print_event e @ rest"
  shows "Next \<lparr>sp_reader = r, sp_done = False\<rparr> = (Inr (event_frame e), \<lparr>sp_reader = r\<lparr>rd_bytes := rest\<rparr>, sp_done = False\<rparr>)"
proof -
  have "read_lines r [] [] = (Inr (print_event e, event_lines e), False, r\<lparr>rd_bytes := rest\<rparr>)"
    using read_printed_lines [of "event_lines e" r rest "[]" "[]"] event_lines_ok [OF assms(1)] assms(1,3)
    by (simp add: print_event_def printable_def)
  with assms(2) show ?thesis by (simp add: Next_def parse_event_lines parse_event_done Let_def)
qed

lemma Next_empty: "rd_bytes r = [] \<Longrightarrow> rd_end r = EOF \<Longrightarrow>
    \<exists>p'. Next \<lparr>sp_reader = r, sp_done = False\<rparr> = (Inl (SSERead EOF), p')"
  using read_lines_step [of r "[]" "Some EOF" "r\<lparr>rd_bytes := []\<rparr>" "[]" "[]"]
  by (simp add: Next_def ReadString_def)

lemma read_printed_events:
  assumes "list_all (\<lambda>e. printable e \<and> \<not> sf_Done (event_frame e)) es"
  shows "read_frames (NewSSEParser \<lparr>rd_bytes = concat (map print_event es), rd_end = EOF\<rparr>) = (map event_frame es, SSERead EOF)"
  unfolding NewSSEParser_def
  using assms
proof (induction es)
  case Nil
  obtain p' where "Next \<lparr>sp_reader = \<lparr>rd_bytes = [], rd_end = EOF\<rparr>, sp_done = False\<rparr> = (Inl (SSERead EOF), p')"
    using Next_empty [of "\<lparr>rd_bytes = [], rd_end = EOF\<rparr>"] by auto
  then show ?case by (simp add: read_frames.simps)
next
  case (Cons e es)
  let ?r = "\<lparr>rd_bytes = concat (map print_event (e # es)), rd_end = EOF\<rparr>"
  have "Next \<lparr>sp_reader = ?r, sp_done = False\<rparr> =
      (Inr (event_frame e), \<lparr>sp_reader = ?r\<lparr>rd_bytes := concat (map print_event es)\<rparr>, sp_done = False\<rparr>)"
    using Cons.prems by (intro Next_printed) auto
  with Cons show ?case by (subst read_frames.simps) simp
qed

section \<open>The properties\<close>

text \<open>C34. Printed events are read back: a stream of printable events (an event name and data lines
  without line breaks, at most a megabyte each, none the end marker) parses into exactly those events,
  each with the bytes it was printed as, and then ends.\<close>

theorem sse_roundtrip:
  assumes "list_all (\<lambda>e. printable e \<and> \<not> sf_Done (event_frame e)) es"
  shows "read_frames (NewSSEParser \<lparr>rd_bytes = concat (map print_event es), rd_end = EOF\<rparr>) = (map event_frame es, SSERead EOF)"
  using assms by (rule read_printed_events)

text \<open>The parser is transparent: the raw bytes of the frames it returns, put together, are a
  prefix of the stream, whatever the stream holds; they are the whole stream when it ends well and no
  frame is the end marker.\<close>

theorem sse_transparent:
  assumes "read_frames (NewSSEParser r) = (fs, e)"
  shows "prefix (concat (map sf_Raw fs)) (rd_bytes r) \<and>
    (e = SSERead EOF \<and> list_all (\<lambda>f. \<not> sf_Done f) fs \<longrightarrow> concat (map sf_Raw fs) = rd_bytes r)"
  using read_frames_raw [OF assms] by (auto simp: NewSSEParser_def list_all_iff)

section \<open>Witnesses\<close>

definition sample_events :: "(string \<times> string list) list" where
  "sample_events = [(''delta'', [''hello'']), ([], [''a'', ''b''])]"

lemma sample_events_ok: "list_all (\<lambda>e. printable e \<and> \<not> sf_Done (event_frame e)) sample_events"
  by (simp add: sample_events_def printable_def one_line_def print_event_def print_lines_def event_lines_def sse_field_def
      newline_def carriage_return_def char_of_def maxSSEFrameBytes_def event_frame_def join_with_def)
    (auto simp: TrimSpace_id byte_def is_space_def in_range_def)

theorem sse_roundtrip_witness:
  "map sf_Data (fst (read_frames (NewSSEParser \<lparr>rd_bytes = concat (map print_event sample_events), rd_end = EOF\<rparr>))) =
     [''hello'', [CHR ''a'', newline, CHR ''b'']]"
  using sse_roundtrip [OF sample_events_ok] by (simp add: sample_events_def event_frame_def join_with_def)

theorem sse_transparent_witness:
  "concat (map sf_Raw (map event_frame sample_events)) = concat (map print_event sample_events)"
proof -
  obtain fs e where f: "read_frames (NewSSEParser \<lparr>rd_bytes = concat (map print_event sample_events), rd_end = EOF\<rparr>) = (fs, e)"
    by fastforce
  from sse_transparent [OF f] show ?thesis by (simp add: event_frame_def comp_def)
qed

end
