(* ===== verification/Server.thy ===== *)
theory Server
  imports Http Admission Evaluation Planners
begin

text \<open>
  The state of the OpenAI-compatible server and what its handlers share: \<open>server.go\<close>,
  \<open>request\_meta.go\<close>, \<open>event\_emission.go\<close>, \<open>lifecycle\_errors.go\<close>, \<open>errors.go\<close> and the evaluation
  calls of \<open>evaluation.go\<close>.

  A handler returns the list of its observable effects in order: what it writes to the client, the
  events it emits, the shadow evaluations it starts and the request it sends upstream.  What the
  handler observes of the outside (clocks, random identifiers, the audit gate, the client's
  connection, the upstream service) is the record \<open>env\<close>.
\<close>

section \<open>State (server.go, transport\_types.go)\<close>

definition defaultMaxBodyBytes :: int where "defaultMaxBodyBytes = 1048576"
definition defaultUpstreamTimeout :: duration where "defaultUpstreamTimeout = 30000000000"
definition defaultVerdictTimeout :: duration where "defaultVerdictTimeout = 5000000000"

record RawCapturePolicy =
  rcp_ID :: string
  rcp_RouteKey :: string
  rcp_Direction :: string
  rcp_Enabled :: bool
  rcp_SampleRate :: rat
  rcp_RedactionMode :: string

record routeKey =
  rk_method :: string
  rk_path :: string

record server =
  sv_configRevisionNumber :: int
  sv_maxBodyBytes :: int
  sv_upstreamTimeout :: duration
  sv_verdictTimeout :: duration
  sv_routes :: "routeKey \<rightharpoonup> Route"
  sv_providers :: "string \<rightharpoonup> Provider"
  sv_snapshot :: "Snapshot option"
  sv_verdict :: "verdict_provider option"
  sv_verdictProviders :: "string \<rightharpoonup> verdict_provider"
  sv_events :: bool
  sv_auditGate :: bool
  sv_rawCapturePolicies :: "RawCapturePolicy list"
  sv_clients :: clientRegistry
  sv_limitResolver :: limitResolver

record requestMeta =
  meta_requestID :: string
  meta_correlationID :: string
  meta_method :: string
  meta_path :: string
  meta_endpointKind :: string
  meta_route :: Route
  meta_requested :: string
  meta_mapped :: string
  meta_upstream :: string
  meta_requestBody :: string
  meta_responseBody :: string
  meta_requestBytes :: int
  meta_responseBytes :: int
  meta_gatewayStatus :: uint16
  meta_upstreamTime :: duration
  meta_upstreamStatus :: uint16
  meta_streamChunks :: int
  meta_redactions :: int
  meta_termination :: string
  meta_partialOutput :: bool
  meta_configRevisionNumber :: int
  meta_clientID :: string

record decisionResult =
  dr_direction :: Direction
  dr_text :: string
  dr_verdict :: VerdictResult
  dr_decision :: Decision
  dr_detectorLatency :: duration
  dr_verdictLatency :: duration

definition zero_decisionResult :: decisionResult where
  "zero_decisionResult = \<lparr>dr_direction = [], dr_text = [], dr_verdict = zero_VerdictResult, dr_decision = zero_Decision,
     dr_detectorLatency = 0, dr_verdictLatency = 0\<rparr>"

datatype effect =
    RespondHeader int header
  | RespondBytes string
  | RespondPartial string
  | RespondError int string string
  | RespondTermination string
  | Emitted requestMeta decisionResult string
  | StartShadow requestMeta verdict_provider TrafficEvaluationInput
  | SentUpstream upstream_request
  | RespondHealth
  | Panicked

record env =
  en_platform :: platform
  en_codec :: json_codec
  en_urls :: url_codec
  en_request_ok :: "string \<Rightarrow> string \<Rightarrow> bool"
  en_error_text :: "verdict_error \<Rightarrow> string"
  en_random_id :: string
  en_now :: gotime
  en_healthy_admission :: bool
  en_healthy :: bool
  en_ctx :: vctx
  en_input_start :: gotime
  en_input_took :: duration
  en_output_start :: gotime
  en_output_took :: duration
  en_chunk_took :: "int \<Rightarrow> duration"
  en_upstream :: "upstream_request \<Rightarrow> http_response option"
  en_upstream_time :: duration
  en_upstream_expired :: bool
  en_write_ok :: "int \<Rightarrow> bool"

section \<open>Request metadata (request\_meta.go)\<close>

definition zero_Route :: Route where
  "zero_Route = \<lparr>rt_Key = [], rt_Method = [], rt_Path = [], rt_ProviderKey = [], rt_VerdictProviderKey = [],
     rt_ModelMapping = \<lparr>mm_Requested = [], mm_Mapped = [], mm_Upstream = []\<rparr>, rt_Execution = [], rt_Fallback = [],
     rt_RequireClientAuth = False\<rparr>"

definition newRequestMeta :: "server \<Rightarrow> env \<Rightarrow> http_request \<Rightarrow> Route \<Rightarrow> requestMeta" where
  "newRequestMeta S E r route =
     (let requestID = requestIDFromHeader (en_random_id E) (hr_Header r);
          correlationID = header_get (hr_Header r) ''X-Correlation-ID'';
          correlationID = (if correlationID = [] then requestID else correlationID)
      in \<lparr>meta_requestID = requestID, meta_correlationID = correlationID, meta_method = hr_Method r,
          meta_path = hr_Path r, meta_endpointKind = endpointKind (hr_Path r), meta_route = route,
          meta_requested = [], meta_mapped = [], meta_upstream = [], meta_requestBody = [], meta_responseBody = [],
          meta_requestBytes = 0, meta_responseBytes = 0, meta_gatewayStatus = 0, meta_upstreamTime = 0,
          meta_upstreamStatus = 0, meta_streamChunks = 0, meta_redactions = 0, meta_termination = [],
          meta_partialOutput = False, meta_configRevisionNumber = sv_configRevisionNumber S, meta_clientID = []\<rparr>)"

section \<open>Errors (errors.go, lifecycle\_errors.go, request\_admission.go)\<close>

definition writeOpenAIError :: "int \<Rightarrow> string \<Rightarrow> string \<Rightarrow> effect list" where
  "writeOpenAIError status code message = [RespondError status code message]"

definition lifecycle_error :: "RejectReason \<Rightarrow> int \<times> string \<times> string" where
  "lifecycle_error reason =
     (if reason = RejectUnsupportedPath then (404, reason, ''unsupported path'')
      else if reason = RejectMissingProvider then (502, ''missing_route'', ''missing route'')
      else if reason = RejectAuditSinkUnhealthy then (503, reason, ''audit sink is unhealthy'')
      else if reason = RejectMissingModelMapping then (404, reason, ''missing model mapping'')
      else if reason = RejectInvalidJSON then (400, reason, ''invalid json'')
      else if reason = RejectInvalidRequest then (400, reason, ''invalid request'')
      else if reason = RejectRequestTooLarge then (413, reason, ''request body is too large'')
      else if reason = RejectBlockedInput then (403, reason, ''request blocked by policy'')
      else if reason = RejectBlockedOutput then (403, reason, ''response blocked by policy'')
      else if reason = RejectRedactionFailed then (502, reason, ''redaction failed'')
      else if reason = RejectUpstreamError then (502, reason, ''upstream request failed'')
      else if reason = RejectUpstreamResponseTooLarge then (502, reason, ''upstream response is too large'')
      else (400, reason, ''request rejected''))"

definition writeLifecycleError :: "RejectReason \<Rightarrow> effect list" where
  "writeLifecycleError reason = (case lifecycle_error reason of (status, code, message) \<Rightarrow> writeOpenAIError status code message)"

definition protected_route_error :: "RejectReason \<Rightarrow> int \<times> string \<times> string" where
  "protected_route_error reason =
     (if reason \<in> set [RejectMissingClientKey, RejectInvalidClientKey, RejectDisabledClientKey, RejectRevokedClientKey]
      then (authStatus reason, reason, ''gateway client authentication failed'')
      else if reason = RejectMissingLimitPolicy then (403, reason, ''gateway limit policy is required'')
      else if reason = RejectAuditSinkUnhealthy then (503, reason, ''audit sink is unhealthy'')
      else if reason = RejectRateLimitExceeded then (429, reason, ''rate limit exceeded'')
      else if reason = RejectConcurrencyLimitExceeded then (429, reason, ''concurrency limit exceeded'')
      else (403, reason, ''gateway request rejected''))"

definition writeProtectedRouteError :: "RejectReason \<Rightarrow> effect list" where
  "writeProtectedRouteError reason =
     (case protected_route_error reason of (status, code, message) \<Rightarrow> writeOpenAIError status code message)"

section \<open>Events (event\_emission.go)\<close>

definition emit :: "server \<Rightarrow> requestMeta \<Rightarrow> decisionResult \<Rightarrow> string \<Rightarrow> effect list" where
  "emit S meta result termination = (if \<not> sv_events S then [] else [Emitted meta result termination])"

definition trafficEventGatewayStatus :: "uint16 \<Rightarrow> string \<Rightarrow> Decision \<Rightarrow> uint16" where
  "trafficEventGatewayStatus observed termination decision =
     (if observed \<noteq> 0 then observed
      else if termination \<in> set [''missing_client_key'', ''invalid_client_key''] then 401
      else if termination \<in> set [''disabled_client_key'', ''revoked_client_key'', ''missing_limit_policy'', ''unsupported_redaction'']
      then 403
      else if termination \<in> set [''rate_limit_exceeded'', ''concurrency_limit_exceeded''] then 429
      else if termination \<in> set [''invalid_json'', ''invalid_request'', ''read_request_error''] then 400
      else if termination = ''request_too_large'' then 413
      else if termination \<in> set [''unsupported_path'', ''missing_model_mapping''] then 404
      else if termination = ''audit_sink_unhealthy'' then 503
      else if termination \<in> set [''missing_provider'', ''upstream_error'', ''upstream_response_too_large''] then 502
      else if dec_Action decision = ActionBlock then 403
      else 200)"

text \<open>FNV-1a on 64 bits, and the conversion of an unsigned 64-bit integer to a float64: to the nearest
  53-bit number, ties to even.  \<open>float64(math.MaxUint64)\<close> is \<open>2 ^ 64\<close>, and dividing by it is exact.\<close>

definition fnv64a :: "string \<Rightarrow> uint64" where
  "fnv64a s = fold (\<lambda>c h. xor h (word_of_nat (byte c)) * 1099511628211) s 14695981039346656037"

fun float64_unit :: "nat \<Rightarrow> nat" where
  "float64_unit n = (if n < 2 ^ 53 then 1 else 2 * float64_unit (n div 2))"

declare float64_unit.simps [simp del]

definition round_float64 :: "nat \<Rightarrow> nat" where
  "round_float64 n =
     (let unit = float64_unit n; q = n div unit; r = n mod unit in
      if 2 * r > unit \<or> (2 * r = unit \<and> odd q) then (q + 1) * unit else q * unit)"

definition sampleRawCapture :: "string \<Rightarrow> rat \<Rightarrow> bool" where
  "sampleRawCapture requestID rate =
     (if rate \<le> 0 then False
      else if rate \<ge> 1 then True
      else of_nat (round_float64 (unat (fnv64a requestID))) / 2 ^ 64 < rate)"

definition captureDirectionMatches :: "string \<Rightarrow> Direction \<Rightarrow> bool" where
  "captureDirectionMatches configured direction =
     (let c = ToLower configured in
      if c \<in> set [[], ''both''] then True
      else if c \<in> set [''request'', ''input''] then direction = DirectionInput
      else if c \<in> set [''response'', ''output''] then direction = DirectionOutput
      else False)"

definition capture_applies :: "requestMeta \<Rightarrow> Direction \<Rightarrow> RawCapturePolicy \<Rightarrow> bool" where
  "capture_applies meta direction c \<longleftrightarrow>
     rcp_Enabled c \<and> sampleRawCapture (meta_requestID meta) (rcp_SampleRate c) \<and>
     (rcp_RouteKey c = [] \<or> rcp_RouteKey c = rt_Key (meta_route meta)) \<and>
     captureDirectionMatches (rcp_Direction c) direction"

definition rawCapturePolicy :: "server \<Rightarrow> requestMeta \<Rightarrow> Direction \<Rightarrow> RawCapturePolicy option" where
  "rawCapturePolicy S meta direction = find (capture_applies meta direction) (sv_rawCapturePolicies S)"

definition redactedPayload :: "string \<Rightarrow> string" where
  "redactedPayload body = (if body = [] then [] else ''[redacted]'')"

definition rawCapturePayloads :: "RawCapturePolicy \<Rightarrow> requestMeta \<Rightarrow> string \<times> string" where
  "rawCapturePayloads c meta =
     (let mode = ToLower (rcp_RedactionMode c) in
      if mode \<in> set [[], ''redacted''] then (redactedPayload (meta_requestBody meta), redactedPayload (meta_responseBody meta))
      else if mode = ''metadata_only'' then ([], [])
      else if mode = ''none'' then (meta_requestBody meta, meta_responseBody meta)
      else ([], []))"

record emit_env =
  ee_id :: string
  ee_now :: gotime
  ee_latency :: duration
  ee_total :: duration

text \<open>The event an emission enqueues.\<close>

definition traffic_event :: "platform \<Rightarrow> server \<Rightarrow> emit_env \<Rightarrow> requestMeta \<Rightarrow> decisionResult \<Rightarrow> string \<Rightarrow> Event" where
  "traffic_event P S e meta result termination =
     (let classification = ClassifyTrafficEvent \<lparr>tci_Direction = dr_direction result, tci_Decision = dr_decision result,
            tci_Verdict = dr_verdict result, tci_TerminationReason = termination\<rparr>;
          event = \<lparr>ev_EventID = ee_id e, ev_SchemaVersion = ''1'', ev_EventTime = ee_now e,
            ev_RequestID = meta_requestID meta, ev_CorrelationID = meta_correlationID meta,
            ev_ConfigRevisionNumber = meta_configRevisionNumber meta, ev_SnapshotHash = dec_SnapshotHash (dr_decision result),
            ev_ClientID = meta_clientID meta, ev_RouteID = rt_Key (meta_route meta),
            ev_ProviderID = rt_ProviderKey (meta_route meta), ev_VerdictProviderID = res_ProviderName (dr_verdict result),
            ev_PolicyBundleIDs = dec_BundleKeys (dr_decision result), ev_HTTPMethod = meta_method meta,
            ev_APIPath = meta_path meta, ev_EndpointKind = meta_endpointKind meta, ev_RequestedModel = meta_requested meta,
            ev_MappedModel = meta_mapped meta, ev_UpstreamModel = meta_upstream meta,
            ev_GatewayStatus = trafficEventGatewayStatus (meta_gatewayStatus meta) termination (dr_decision result),
            ev_UpstreamStatus = meta_upstreamStatus meta, ev_ErrorType = tec_ErrorType classification,
            ev_BlockReason = tec_BlockReason classification, ev_FallbackTriggered = tec_FallbackTriggered classification,
            ev_Direction = dr_direction result, ev_Verdict = res_SuggestedAction (dr_verdict result),
            ev_Action = tec_Action classification, ev_RiskLevel = res_RiskLevel (dr_verdict result),
            ev_Categories = res_Categories (dr_verdict result), ev_Confidence = res_Confidence (dr_verdict result),
            ev_DetectorCategories = tec_DetectorCategories classification,
            ev_MatchedSpanCount = tec_MatchedSpanCount classification, ev_PolicyRuleIDs = tec_PolicyRuleIDs classification,
            ev_RequestHash = HashBody P (meta_requestBody meta), ev_ResponseHash = HashBody P (meta_responseBody meta),
            ev_RequestPayload = [], ev_ResponsePayload = [],
            ev_RequestBytes = meta_requestBytes meta, ev_ResponseBytes = meta_responseBytes meta,
            ev_GatewayLatency = ee_latency e, ev_DetectorLatency = dr_detectorLatency result,
            ev_VerdictLatency = dr_verdictLatency result, ev_UpstreamLatency = meta_upstreamTime meta, ev_QueueDelay = 0,
            ev_TotalLatency = ee_total e, ev_StreamingChunkCount = meta_streamChunks meta,
            ev_RedactionCount = meta_redactions meta, ev_TerminationReason = firstNonEmpty [termination, meta_termination meta],
            ev_PartialOutput = meta_partialOutput meta, ev_RawCapturePolicyID = [], ev_RetentionPolicyID = [],
            ev_CaptureReference = [], ev_SinkStatus = [], ev_RetryCount = 0, ev_SpoolStatus = [], ev_Dropped = False,
            ev_DropReason = []\<rparr>
      in case rawCapturePolicy S meta (dr_direction result) of
           None \<Rightarrow> event
         | Some capture \<Rightarrow>
             event\<lparr>ev_RawCapturePolicyID := rcp_ID capture,
                   ev_RequestPayload := fst (rawCapturePayloads capture meta),
                   ev_ResponsePayload := snd (rawCapturePayloads capture meta)\<rparr>)"

section \<open>Evaluation (evaluation.go)\<close>

definition verdictProvider :: "server \<Rightarrow> Route \<Rightarrow> verdict_provider option" where
  "verdictProvider S route =
     (if rt_VerdictProviderKey route \<noteq> [] then sv_verdictProviders S (rt_VerdictProviderKey route) else sv_verdict S)"

definition decisionResultFromTrafficEvaluation :: "TrafficEvaluationResult \<Rightarrow> decisionResult" where
  "decisionResultFromTrafficEvaluation r =
     \<lparr>dr_direction = ter_Direction r, dr_text = ter_Text r, dr_verdict = ter_Verdict r, dr_decision = ter_Decision r,
      dr_detectorLatency = ter_DetectorLatency r, dr_verdictLatency = ter_VerdictLatency r\<rparr>"

definition blockedDecisionResult :: "Direction \<Rightarrow> decisionResult" where
  "blockedDecisionResult direction =
     zero_decisionResult\<lparr>dr_direction := direction, dr_decision := zero_Decision\<lparr>dec_Action := ActionBlock\<rparr>\<rparr>"

definition inputBlockedDecisionResult :: decisionResult where
  "inputBlockedDecisionResult = blockedDecisionResult DirectionInput"

definition outputBlockedDecisionResult :: decisionResult where
  "outputBlockedDecisionResult = blockedDecisionResult DirectionOutput"

definition allowedOutputDecisionResult :: decisionResult where
  "allowedOutputDecisionResult =
     zero_decisionResult\<lparr>dr_direction := DirectionOutput, dr_decision := zero_Decision\<lparr>dec_Action := ActionAllow\<rparr>\<rparr>"

definition decision_allowed :: "decisionResult \<Rightarrow> bool" where
  "decision_allowed r \<longleftrightarrow> dec_Action (dr_decision r) = ActionAllow"

definition evaluation_input :: "server \<Rightarrow> requestMeta \<Rightarrow> Direction \<Rightarrow> string \<Rightarrow> TrafficEvaluationInput" where
  "evaluation_input S meta direction text =
     \<lparr>tei_RequestID = meta_requestID meta, tei_CorrelationID = meta_correlationID meta,
      tei_RouteKey = rt_Key (meta_route meta), tei_ProviderKey = rt_ProviderKey (meta_route meta),
      tei_Model = meta_mapped meta, tei_Direction = direction, tei_Text = text,
      tei_Execution = rt_Execution (meta_route meta), tei_FallbackAction = rt_Fallback (meta_route meta),
      tei_VerdictProvider = verdictProvider S (meta_route meta)\<rparr>"

definition evaluate ::
  "server \<Rightarrow> env \<Rightarrow> gotime \<Rightarrow> duration \<Rightarrow> requestMeta \<Rightarrow> Direction \<Rightarrow> string \<Rightarrow> decisionResult \<times> effect list" where
  "evaluate S E start took meta direction text =
     (let i = evaluation_input S meta direction text;
          (result, shadow) = TrafficEvaluation_Evaluate (en_error_text E)
            \<lparr>teu_Snapshot = server_snapshot (en_platform E) (sv_snapshot S), teu_VerdictTimeout = sv_verdictTimeout S,
             teu_ShadowObserver = True\<rparr> (en_ctx E) start took i
      in (decisionResultFromTrafficEvaluation result,
          case shadow of None \<Rightarrow> [] | Some provider \<Rightarrow> [StartShadow meta provider i]))"

definition evaluateInput :: "server \<Rightarrow> env \<Rightarrow> requestMeta \<Rightarrow> string \<Rightarrow> decisionResult \<times> effect list" where
  "evaluateInput S E meta text = evaluate S E (en_input_start E) (en_input_took E) meta DirectionInput text"

definition evaluateOutput :: "server \<Rightarrow> env \<Rightarrow> requestMeta \<Rightarrow> string \<Rightarrow> decisionResult \<times> effect list" where
  "evaluateOutput S E meta text = evaluate S E (en_output_start E) (en_output_took E) meta DirectionOutput text"

text \<open>The emission of a finished shadow task.\<close>

definition ObserveShadowEvaluation :: "server \<Rightarrow> requestMeta \<Rightarrow> TrafficEvaluationResult \<Rightarrow> effect list" where
  "ObserveShadowEvaluation S meta result = emit S meta (decisionResultFromTrafficEvaluation result) ''async_shadow_verdict''"

definition evaluateStreamingOutput :: "server \<Rightarrow> env \<Rightarrow> requestMeta \<Rightarrow> string \<Rightarrow> decisionResult" where
  "evaluateStreamingOutput S E meta text =
     decisionResultFromTrafficEvaluation
       (EvaluatePolicyOnly
          \<lparr>teu_Snapshot = server_snapshot (en_platform E) (sv_snapshot S), teu_VerdictTimeout = 0, teu_ShadowObserver = False\<rparr>
          (en_chunk_took E (meta_streamChunks meta))
          \<lparr>tei_RequestID = [], tei_CorrelationID = [], tei_RouteKey = rt_Key (meta_route meta),
           tei_ProviderKey = rt_ProviderKey (meta_route meta), tei_Model = meta_mapped meta,
           tei_Direction = DirectionOutput, tei_Text = text, tei_Execution = [],
           tei_FallbackAction = rt_Fallback (meta_route meta), tei_VerdictProvider = None\<rparr>)"

end
