(* ===== verification/Streaming.thy ===== *)
theory Streaming
  imports Server SSE
begin

text \<open>
  \<open>streaming\_handler.go\<close>: the relay of an event stream under the streaming output policy.  One
  iteration of the loop is \<open>inspect_frame\<close> (parse the delta, plan, evaluate the window, possibly
  terminate) and \<open>relay_frame\<close> (write the frame held back, hold this one).  Flushing is left out.
\<close>

record stream_state =
  ss_buffer :: "StreamBuffer option"
  ss_decision :: decisionResult
  ss_pending :: "SSEFrame option"
  ss_meta :: requestMeta
  ss_writes :: int
  ss_out :: "effect list"

definition streamingReadTermination :: "env \<Rightarrow> sse_error \<Rightarrow> string" where
  "streamingReadTermination E e =
     (if en_upstream_expired E \<or> e = SSERead ReadDeadlineExceeded then ''upstream_timeout'' else ''sse_parse_error'')"

text \<open>The \<open>n\<close>-th write succeeds or fails; a failed write may have sent a part of the frame.\<close>

definition writeSSEFrame :: "env \<Rightarrow> SSEFrame \<Rightarrow> stream_state \<Rightarrow> bool \<times> stream_state" where
  "writeSSEFrame E frame st =
     (let ok = en_write_ok E (ss_writes st);
          st = st\<lparr>ss_writes := ss_writes st + 1\<rparr>
      in if \<not> ok
         then (False, st\<lparr>ss_meta := (ss_meta st)\<lparr>meta_termination := ''client_write_error'', meta_partialOutput := True\<rparr>,
                         ss_out := ss_out st @ [RespondPartial (sf_Raw frame)]\<rparr>)
         else (True, st\<lparr>ss_meta := (ss_meta st)\<lparr>meta_responseBytes := meta_responseBytes (ss_meta st) + int (length (sf_Raw frame))\<rparr>,
                        ss_out := ss_out st @ [RespondBytes (sf_Raw frame)]\<rparr>))"

text \<open>The termination message, with the loss of partial output recorded.\<close>

definition terminate_stream :: "string \<Rightarrow> bool \<Rightarrow> stream_state \<Rightarrow> stream_state" where
  "terminate_stream reason forceBlocked st =
     st\<lparr>ss_meta := (ss_meta st)\<lparr>meta_termination := reason, meta_partialOutput := True\<rparr>,
        ss_decision := (if forceBlocked then outputBlockedDecisionResult else ss_decision st),
        ss_out := ss_out st @ [RespondTermination reason]\<rparr>"

text \<open>The first half of an iteration; \<open>False\<close> leaves the loop.\<close>

definition inspect_frame :: "server \<Rightarrow> env \<Rightarrow> string \<Rightarrow> SSEFrame \<Rightarrow> stream_state \<Rightarrow> bool \<times> stream_state" where
  "inspect_frame S E api_path frame st0 =
     (let st = st0\<lparr>ss_meta := (ss_meta st0)\<lparr>meta_streamChunks := meta_streamChunks (ss_meta st0) + 1\<rparr>\<rparr> in
      case parseOpenAIStreamDelta (en_codec E) api_path (sf_Event frame) (sf_Data frame) of
        Inl e \<Rightarrow> (False, terminate_stream ''sse_parse_error'' True st)
      | Inr delta \<Rightarrow>
          if delta = [] then (True, st)
          else
            (let (plan, buffer) = PlanDelta (ss_buffer st) delta;
                 st = st\<lparr>ss_buffer := buffer\<rparr>;
                 (plan, st) =
                   (if sop_Action plan = StreamingOutputActionEvaluatePolicy
                    then (let d = evaluateStreamingOutput S E (ss_meta st) (sop_PolicyText plan) in
                          (StreamingOutput_PlanPolicy \<lparr>spp_Decision = dr_decision d,
                             spp_CollectionAccepted = sop_CollectionAccepted plan\<rparr>,
                           st\<lparr>ss_decision := d\<rparr>))
                    else (plan, st))
             in if sop_Action plan = StreamingOutputActionTerminate
                then (False, terminate_stream (sop_TerminationReason plan) (sop_ForceBlockedOutput plan) st)
                else (True, st)))"

text \<open>The second half.\<close>

definition relay_frame :: "env \<Rightarrow> SSEFrame \<Rightarrow> stream_state \<Rightarrow> bool \<times> stream_state" where
  "relay_frame E frame st =
     (let plan = PlanFrame \<lparr>sfp_HasPending = (ss_pending st \<noteq> None), sfp_Done = sf_Done frame\<rparr>;
          (ok, st) =
            (if (sop_Action plan = StreamingOutputActionWritePending \<or> sop_Action plan = StreamingOutputActionComplete) \<and>
                ss_pending st \<noteq> None
             then writeSSEFrame E (the (ss_pending st)) st else (True, st))
      in if \<not> ok then (False, st)
         else
           (let st = st\<lparr>ss_pending := Some frame\<rparr> in
            if sop_Action plan = StreamingOutputActionComplete
            then (let (ok, st) = writeSSEFrame E frame st in
                  (False, if ok then st\<lparr>ss_pending := None\<rparr> else st))
            else (True, st)))"

function stream_loop :: "server \<Rightarrow> env \<Rightarrow> string \<Rightarrow> SSEParser \<Rightarrow> stream_state \<Rightarrow> stream_state" where
  "stream_loop S E api_path parser st =
     (case Next parser of
        (Inl e, parser') \<Rightarrow>
          if e = SSERead EOF then st else terminate_stream (streamingReadTermination E e) True st
      | (Inr frame, parser') \<Rightarrow>
          (case inspect_frame S E api_path frame st of
             (False, st') \<Rightarrow> st'
           | (True, st') \<Rightarrow>
               (case relay_frame E frame st' of
                  (False, st'') \<Rightarrow> st''
                | (True, st'') \<Rightarrow> stream_loop S E api_path parser' st'')))"
  by pat_completeness auto
termination
  by (relation "measure (\<lambda>(S, E, api_path, parser, st). length (rd_bytes (sp_reader parser)))") (simp_all add: Next_shrinks)

declare stream_loop.simps [simp del]

definition stream_start :: "server \<Rightarrow> http_response \<Rightarrow> requestMeta \<Rightarrow> stream_state" where
  "stream_start S resp meta =
     \<lparr>ss_buffer = Some (NewStreamBuffer 4096 (sv_maxBodyBytes S)), ss_decision = allowedOutputDecisionResult,
      ss_pending = None, ss_meta = meta\<lparr>meta_gatewayStatus := word_of_int (rs_StatusCode resp)\<rparr>, ss_writes = 0,
      ss_out = [RespondHeader (rs_StatusCode resp)
        (header_set ''Content-Type'' ''text/event-stream'' (copyResponseHeaders [] (rs_Header resp)))]\<rparr>"

definition stream_flush :: "env \<Rightarrow> stream_state \<Rightarrow> stream_state" where
  "stream_flush E st =
     (if ss_pending st \<noteq> None \<and> meta_termination (ss_meta st) = [] then snd (writeSSEFrame E (the (ss_pending st)) st)
      else st)"

definition stream_finish :: "server \<Rightarrow> env \<Rightarrow> stream_state \<Rightarrow> effect list" where
  "stream_finish S E st =
     (let meta = (ss_meta st)\<lparr>meta_responseBody := CollectedBytes (ss_buffer st)\<rparr>;
          plan = PlanFinal \<lparr>sfn_PolicyAllowed = decision_allowed (ss_decision st), sfn_CollectedText = CollectedText (ss_buffer st)\<rparr>;
          (decision, shadow) =
            (if sop_Action plan = StreamingOutputActionEvaluatePolicy then evaluateOutput S E meta (sop_PolicyText plan)
             else (ss_decision st, []))
      in ss_out st @ shadow @ emit S meta decision (meta_termination meta))"

definition handleStreaming :: "server \<Rightarrow> env \<Rightarrow> http_request \<Rightarrow> http_response \<Rightarrow> requestMeta \<Rightarrow> effect list" where
  "handleStreaming S E r resp meta =
     stream_finish S E (stream_flush E
       (stream_loop S E (hr_Path r) (NewSSEParser (rs_Body resp)) (stream_start S resp meta)))"

end
