(* ===== verification/Streaming_Props.thy ===== *)
theory Streaming_Props
  imports Streaming SSE_Claims
begin

text \<open>
  The streaming relay against the frames of the stream: what is sent is a prefix of the frames, and a
  frame is sent only when it and its successor were inspected and permitted.
\<close>

section \<open>What was sent\<close>

fun frame_bytes :: "effect \<Rightarrow> string list" where
  "frame_bytes (RespondBytes s) = [s]"
| "frame_bytes (RespondPartial s) = [s]"
| "frame_bytes _ = []"

definition sent_frames :: "effect list \<Rightarrow> string list" where
  "sent_frames effs = concat (map frame_bytes effs)"

lemma sent_append [simp]: "sent_frames (xs @ ys) = sent_frames xs @ sent_frames ys"
  by (simp add: sent_frames_def)

lemma sent_Nil [simp]: "sent_frames [] = []"
  by (simp add: sent_frames_def)

lemma sent_Cons [simp]: "sent_frames (x # xs) = frame_bytes x @ sent_frames xs"
  by (simp add: sent_frames_def)

section \<open>What is permitted\<close>

definition frame_delta :: "env \<Rightarrow> string \<Rightarrow> SSEFrame \<Rightarrow> string" where
  "frame_delta E api_path f =
     (case parseOpenAIStreamDelta (en_codec E) api_path (sf_Event f) (sf_Data f) of Inl _ \<Rightarrow> [] | Inr d \<Rightarrow> d)"

definition stream_runes :: "env \<Rightarrow> string \<Rightarrow> SSEFrame list \<Rightarrow> rune list" where
  "stream_runes E api_path fs = concat (map (\<lambda>f. runes_of_string (frame_delta E api_path f)) fs)"

text \<open>The text the policy sees after some frames: the last 4096 runes of their deltas.\<close>

definition window_after :: "env \<Rightarrow> string \<Rightarrow> SSEFrame list \<Rightarrow> string" where
  "window_after E api_path fs = string_of_runes (last_runes 4096 (stream_runes E api_path fs))"

definition permitted :: "server \<Rightarrow> env \<Rightarrow> string \<Rightarrow> requestMeta \<Rightarrow> SSEFrame list \<Rightarrow> nat \<Rightarrow> bool" where
  "permitted S E api_path meta fs j \<longleftrightarrow>
     (case parseOpenAIStreamDelta (en_codec E) api_path (sf_Event (fs ! j)) (sf_Data (fs ! j)) of
        Inl _ \<Rightarrow> False
      | Inr d \<Rightarrow> d = [] \<or>
          dec_Action (dr_decision (evaluateStreamingOutput S E meta (window_after E api_path (take (Suc j) fs))))
            \<notin> {ActionBlock, ActionRedact})"

lemma permitted_append: "j < length fs \<Longrightarrow> permitted S E api_path meta (fs @ gs) j = permitted S E api_path meta fs j"
  by (simp add: permitted_def nth_append split: sum.split)

lemma stream_decision_meta:
  "meta_route m = meta_route m' \<Longrightarrow> meta_mapped m = meta_mapped m' \<Longrightarrow>
     dr_decision (evaluateStreamingOutput S E m w) = dr_decision (evaluateStreamingOutput S E m' w)"
  by (simp add: evaluateStreamingOutput_def EvaluatePolicyOnly_def evaluatePolicyTimed_def decisionResultFromTrafficEvaluation_def)

section \<open>One iteration\<close>

text \<open>The state after some frames, all inspected and the last held back.\<close>

definition relaying :: "server \<Rightarrow> env \<Rightarrow> string \<Rightarrow> requestMeta \<Rightarrow> SSEFrame list \<Rightarrow> stream_state \<Rightarrow> bool" where
  "relaying S E api_path meta fs st \<longleftrightarrow>
     (\<exists>b. ss_buffer st = Some b \<and> sw_limit (sb_window b) = 4096 \<and>
        sw_text (sb_window b) = last_runes 4096 (stream_runes E api_path fs)) \<and>
     ss_pending st = (if fs = [] then None else Some (last fs)) \<and>
     sent_frames (ss_out st) = map sf_Raw (butlast fs) \<and>
     (\<forall>j<length fs. permitted S E api_path meta fs j) \<and>
     meta_route (ss_meta st) = meta_route meta \<and> meta_mapped (ss_meta st) = meta_mapped meta"

text \<open>A plan for a delta is a termination exactly when the policy or the collector says so.\<close>

lemma stream_policy_plan:
  "sop_Action (StreamingOutput_PlanPolicy i) = StreamingOutputActionTerminate \<longleftrightarrow>
     dec_Action (spp_Decision i) \<in> {ActionBlock, ActionRedact} \<or> \<not> spp_CollectionAccepted i"
  "sop_Action (StreamingOutput_PlanPolicy i) = StreamingOutputActionTerminate \<Longrightarrow>
     sop_TerminationReason (StreamingOutput_PlanPolicy i) \<noteq> []"
  unfolding StreamingOutput_PlanPolicy_def ClassifyStreamingDelta_def ClassifyStreamingPolicy_def
    ClassifyStreamingCollection_def stream_plan_def Let_def
  by (cases "dec_Action (spp_Decision i) = ActionBlock"; cases "dec_Action (spp_Decision i) = ActionRedact";
      cases "spp_CollectionAccepted i"; simp)+

lemma ObserveDelta_text:
  "ObserveDelta (Some b) d = (ob, Some b') \<Longrightarrow> sdo_WindowText ob = string_of_runes (sw_text (sb_window b'))"
  by (auto simp: ObserveDelta_def StreamWindow_Append_def StreamWindow_Text_def Let_def split: if_splits prod.splits)

text \<open>An iteration whose frame has text: the window is evaluated and the plan follows.\<close>

lemma inspect_frame_delta:
  assumes "parseOpenAIStreamDelta (en_codec E) api_path (sf_Event f) (sf_Data f) = Inr d" "d \<noteq> []"
    "ss_buffer st = Some b" "ObserveDelta (Some b) d = (ob, Some b')"
  obtains dr where "dr_decision dr = dr_decision (evaluateStreamingOutput S E (ss_meta st) (sdo_WindowText ob))"
    "inspect_frame S E api_path f st =
       (let plan = StreamingOutput_PlanPolicy \<lparr>spp_Decision = dr_decision dr, spp_CollectionAccepted = sdo_CollectionAccepted ob\<rparr>;
            st = st\<lparr>ss_meta := (ss_meta st)\<lparr>meta_streamChunks := meta_streamChunks (ss_meta st) + 1\<rparr>, ss_buffer := Some b', ss_decision := dr\<rparr>
        in if sop_Action plan = StreamingOutputActionTerminate
           then (False, terminate_stream (sop_TerminationReason plan) (sop_ForceBlockedOutput plan) st) else (True, st))"
proof
  let ?m = "(ss_meta st)\<lparr>meta_streamChunks := meta_streamChunks (ss_meta st) + 1\<rparr>"
  show "dr_decision (evaluateStreamingOutput S E ?m (sdo_WindowText ob)) =
      dr_decision (evaluateStreamingOutput S E (ss_meta st) (sdo_WindowText ob))"
    by (rule stream_decision_meta) simp_all
  show "inspect_frame S E api_path f st =
       (let plan = StreamingOutput_PlanPolicy \<lparr>spp_Decision = dr_decision (evaluateStreamingOutput S E ?m (sdo_WindowText ob)),
              spp_CollectionAccepted = sdo_CollectionAccepted ob\<rparr>;
            st = st\<lparr>ss_meta := ?m, ss_buffer := Some b', ss_decision := evaluateStreamingOutput S E ?m (sdo_WindowText ob)\<rparr>
        in if sop_Action plan = StreamingOutputActionTerminate
           then (False, terminate_stream (sop_TerminationReason plan) (sop_ForceBlockedOutput plan) st) else (True, st))"
    using assms(2) by (simp add: inspect_frame_def assms(1,3,4) PlanDelta_def stream_plan_def Let_def)
qed

lemma inspect_frame_cases:
  assumes "inspect_frame S E api_path f st = (go, st')" "ss_buffer st = Some b" "sw_limit (sb_window b) = 4096"
    "sw_text (sb_window b) = last_runes 4096 (stream_runes E api_path fs)"
  shows "ss_pending st' = ss_pending st \<and> sent_frames (ss_out st') = sent_frames (ss_out st) \<and>
    meta_route (ss_meta st') = meta_route (ss_meta st) \<and> meta_mapped (ss_meta st') = meta_mapped (ss_meta st) \<and>
    (if go then
       permitted S E api_path (ss_meta st) (fs @ [f]) (length fs) \<and>
       (\<exists>b'. ss_buffer st' = Some b' \<and> sw_limit (sb_window b') = 4096 \<and>
          sw_text (sb_window b') = last_runes 4096 (stream_runes E api_path (fs @ [f]))) \<and>
       meta_termination (ss_meta st') = meta_termination (ss_meta st)
     else meta_termination (ss_meta st') \<noteq> [])"
proof (cases "parseOpenAIStreamDelta (en_codec E) api_path (sf_Event f) (sf_Data f)")
  case (Inl e)
  with assms(1) show ?thesis by (auto simp: inspect_frame_def terminate_stream_def Let_def)
next
  case (Inr d)
  show ?thesis
  proof (cases "d = []")
    case True
    with assms Inr show ?thesis
      by (auto simp: inspect_frame_def permitted_def stream_runes_def frame_delta_def runes_of_string_def Let_def nth_append)
  next
    case False
    obtain ob b' where ob: "ObserveDelta (Some b) d = (ob, Some b')" "sw_limit (sb_window b') = 4096"
        "sw_text (sb_window b') = last_runes 4096 (stream_runes E api_path fs @ runes_of_string d)"
      using ObserveDelta_window [of b _ d] assms(3,4) by (metis prod.collapse rel_simps(51) zero_less_numeral)
    then have w: "sdo_WindowText ob = window_after E api_path (fs @ [f])"
      using Inr by (simp add: ObserveDelta_text window_after_def stream_runes_def frame_delta_def)
    obtain dr where dr: "dr_decision dr = dr_decision (evaluateStreamingOutput S E (ss_meta st) (window_after E api_path (fs @ [f])))"
      and eq: "inspect_frame S E api_path f st =
       (let plan = StreamingOutput_PlanPolicy \<lparr>spp_Decision = dr_decision dr, spp_CollectionAccepted = sdo_CollectionAccepted ob\<rparr>;
            st = st\<lparr>ss_meta := (ss_meta st)\<lparr>meta_streamChunks := meta_streamChunks (ss_meta st) + 1\<rparr>, ss_buffer := Some b', ss_decision := dr\<rparr>
        in if sop_Action plan = StreamingOutputActionTerminate
           then (False, terminate_stream (sop_TerminationReason plan) (sop_ForceBlockedOutput plan) st) else (True, st))"
      using inspect_frame_delta [OF Inr False assms(2) ob(1)] w by metis
    let ?plan = "StreamingOutput_PlanPolicy \<lparr>spp_Decision = dr_decision dr, spp_CollectionAccepted = sdo_CollectionAccepted ob\<rparr>"
    have runes: "stream_runes E api_path fs @ runes_of_string d = stream_runes E api_path (fs @ [f])"
      by (simp add: stream_runes_def frame_delta_def Inr)
    show ?thesis
    proof (cases "sop_Action ?plan = StreamingOutputActionTerminate")
      case True
      with eq assms(1) stream_policy_plan(2) [OF True] show ?thesis by (auto simp: terminate_stream_def Let_def)
    next
      case False
      then have "permitted S E api_path (ss_meta st) (fs @ [f]) (length fs)"
        using dr by (simp add: permitted_def Inr stream_policy_plan(1))
      with eq False assms(1) ob(2,3) runes show ?thesis by (auto simp: Let_def)
    qed
  qed
qed


lemma permitted_meta:
  assumes "meta_route m = meta_route m'" "meta_mapped m = meta_mapped m'"
  shows "permitted S E api_path m fs j = permitted S E api_path m' fs j"
  unfolding permitted_def stream_decision_meta [OF assms] ..

lemma relay_frame_cases:
  assumes "relay_frame E f st = (go, st')" "ss_pending st = (if fs = [] then None else Some (last fs))"
    "sent_frames (ss_out st) = map sf_Raw (butlast fs)"
  shows "if go then sent_frames (ss_out st') = map sf_Raw fs \<and> ss_pending st' = Some f \<and> ss_buffer st' = ss_buffer st \<and>
      meta_route (ss_meta st') = meta_route (ss_meta st) \<and> meta_mapped (ss_meta st') = meta_mapped (ss_meta st) \<and>
      meta_termination (ss_meta st') = meta_termination (ss_meta st) \<and> \<not> sf_Done f
    else (sf_Done f \<and> sent_frames (ss_out st') = map sf_Raw (fs @ [f]) \<and> (ss_pending st' = None \<or> meta_termination (ss_meta st') \<noteq> []))
      \<or> (fs \<noteq> [] \<and> sent_frames (ss_out st') = map sf_Raw fs \<and> meta_termination (ss_meta st') \<noteq> [])"
proof (cases fs rule: rev_cases)
  case Nil
  with assms show ?thesis
    by (cases "sf_Done f"; cases "en_write_ok E (ss_writes st)")
      (auto simp: relay_frame_def writeSSEFrame_def PlanFrame_def stream_plan_def Let_def)
next
  case (snoc gs g)
  with assms show ?thesis
    by (cases "sf_Done f"; cases "en_write_ok E (ss_writes st)"; cases "en_write_ok E (ss_writes st + 1)")
      (auto simp: relay_frame_def writeSSEFrame_def PlanFrame_def stream_plan_def Let_def)
qed

text \<open>What has been sent, of all the frames of the stream: the first \<open>k\<close>, each permitted, and so is
  the next frame, if there is one.\<close>

definition relayed :: "server \<Rightarrow> env \<Rightarrow> string \<Rightarrow> requestMeta \<Rightarrow> SSEFrame list \<Rightarrow> effect list \<Rightarrow> bool" where
  "relayed S E api_path meta fs effs \<longleftrightarrow>
     (\<exists>k\<le>length fs. sent_frames effs = map sf_Raw (take k fs) \<and>
        (0 < k \<longrightarrow> (\<forall>j\<le>k. j < length fs \<longrightarrow> permitted S E api_path meta fs j)))"

lemma relayed_prefix:
  assumes "sent_frames effs = map sf_Raw ys" "fs = ys @ zs" "\<forall>j<length xs. permitted S E api_path meta xs j"
    "fs = xs @ ws" "ys \<noteq> [] \<Longrightarrow> length ys < length xs \<or> ws = []"
  shows "relayed S E api_path meta fs effs"
proof -
  have "permitted S E api_path meta fs j" if "j < length xs" for j
    using that assms(3,4) by (simp add: permitted_append)
  with assms show ?thesis
    unfolding relayed_def by (intro exI [of _ "length ys"]) auto
qed

lemma sent_flush:
  "sent_frames (ss_out (stream_flush E st)) =
     sent_frames (ss_out st) @
     (case ss_pending st of None \<Rightarrow> [] | Some f \<Rightarrow> if meta_termination (ss_meta st) = [] then [sf_Raw f] else [])"
  by (auto simp: stream_flush_def writeSSEFrame_def Let_def split: option.split)

lemma stream_loop_step:
  "Next parser = (Inr f, parser') \<Longrightarrow> inspect_frame S E api_path f st = (go, st1) \<Longrightarrow> relay_frame E f st1 = (on, st2) \<Longrightarrow>
     stream_loop S E api_path parser st = (if \<not> go then st1 else if \<not> on then st2 else stream_loop S E api_path parser' st2)"
  by (subst stream_loop.simps) (auto split: bool.split)

lemma stream_loop_relays:
  assumes "relaying S E api_path meta fs st" "read_frames parser = (rest, e)" "ss_pending st = None \<Longrightarrow> fs = []"
  shows "relayed S E api_path meta (fs @ rest) (ss_out (stream_flush E (stream_loop S E api_path parser st)))"
  using assms
proof (induction parser arbitrary: fs st rest rule: read_frames.induct)
  case (1 parser)
  let ?loop = "stream_loop S E api_path parser st"
  have inv: "ss_pending st = (if fs = [] then None else Some (last fs))" "sent_frames (ss_out st) = map sf_Raw (butlast fs)"
      "\<forall>j<length fs. permitted S E api_path meta fs j"
    using "1.prems"(1) by (auto simp: relaying_def)
  have held: "relayed S E api_path meta (fs @ rest) effs" if "sent_frames effs = map sf_Raw (butlast fs)" for effs
    by (rule relayed_prefix [where xs = fs and ws = rest and ys = "butlast fs" and zs = "(if fs = [] then [] else [last fs]) @ rest"])
      (use that inv(3) in \<open>cases fs rule: rev_cases; auto\<close>)+
  obtain x parser' where next_frame: "Next parser = (x, parser')" by fastforce
  show ?case
  proof (cases x)
    case (Inl err)
    then have rest: "rest = []" using "1.prems"(2) next_frame by (simp add: read_frames.simps [of parser])
    show ?thesis
    proof (cases "err = SSERead EOF \<and> meta_termination (ss_meta st) = []")
      case True
      then have "?loop = st" by (subst stream_loop.simps) (simp add: next_frame Inl)
      then have "sent_frames (ss_out (stream_flush E ?loop)) = map sf_Raw fs"
        using inv True by (cases fs rule: rev_cases) (auto simp: sent_flush)
      then show ?thesis
        by (rule relayed_prefix [where xs = fs and ws = rest and zs = rest]) (use inv rest in auto)
    next
      case False
      then have "sent_frames (ss_out (stream_flush E ?loop)) = map sf_Raw (butlast fs)"
        using inv by (subst stream_loop.simps)
          (auto simp: next_frame Inl sent_flush terminate_stream_def streamingReadTermination_def split: option.split)
      then show ?thesis by (rule held)
    qed
  next
    case (Inr f)
    then obtain gs where gs: "read_frames parser' = (gs, e)" "rest = f # gs"
      using "1.prems"(2) next_frame by (auto simp: read_frames.simps [of parser] split: prod.splits)
    obtain go st1 where i: "inspect_frame S E api_path f st = (go, st1)" by fastforce
    obtain on st2 where r: "relay_frame E f st1 = (on, st2)" by fastforce
    note step = stream_loop_step [OF next_frame [unfolded Inr] i r]
    obtain b where b: "ss_buffer st = Some b" "sw_limit (sb_window b) = 4096"
        "sw_text (sb_window b) = last_runes 4096 (stream_runes E api_path fs)"
      using "1.prems"(1) by (auto simp: relaying_def)
    note ic = inspect_frame_cases [OF i b]
    note rc = relay_frame_cases [OF r, of fs]
    show ?thesis
    proof (cases go)
      case False
      with step ic inv have "sent_frames (ss_out (stream_flush E ?loop)) = map sf_Raw (butlast fs)"
        by (auto simp: sent_flush split: option.split)
      then show ?thesis by (rule held)
    next
      case True
      have meta: "meta_route (ss_meta st) = meta_route meta" "meta_mapped (ss_meta st) = meta_mapped meta"
        using "1.prems"(1) by (auto simp: relaying_def)
      have perm: "\<forall>j<length (fs @ [f]). permitted S E api_path meta (fs @ [f]) j"
        using ic True inv(3) permitted_meta [OF meta] by (auto simp: less_Suc_eq permitted_append)
      have rc': "ss_pending st1 = (if fs = [] then None else Some (last fs))" "sent_frames (ss_out st1) = map sf_Raw (butlast fs)"
        using ic inv by auto
      show ?thesis
      proof (cases on)
        case on: True
        with rc [OF rc'] ic True meta perm have "relaying S E api_path meta (fs @ [f]) st2" by (auto simp: relaying_def)
        with "1.IH" [OF next_frame [symmetric] Inr this gs(1)] rc [OF rc'] on True step gs(2) show ?thesis by simp
      next
        case False
        have loop: "?loop = st2" using step True False by simp
        from rc [OF rc'] False consider "sf_Done f" "sent_frames (ss_out (stream_flush E st2)) = map sf_Raw (fs @ [f])"
          | "fs \<noteq> []" "sent_frames (ss_out (stream_flush E st2)) = map sf_Raw fs"
          by (auto simp: sent_flush split: option.splits)
        then show ?thesis
        proof cases
          case 1
          have "sp_done parser'" using next_frame Inr 1(1) by (auto simp: Next_def Let_def split: if_splits sum.splits prod.splits)
          then have "gs = []" using gs(1) by (simp add: read_frames.simps [of parser'] Next_def)
          with 1 perm gs(2) loop show ?thesis
            by (intro relayed_prefix [where xs = "fs @ [f]" and ws = "[]" and ys = "fs @ [f]" and zs = "[]"]) auto
        next
          case 2
          with perm gs(2) loop show ?thesis
            by (intro relayed_prefix [where xs = "fs @ [f]" and ws = gs and ys = fs and zs = rest]) auto
        qed
      qed
    qed
  qed
qed

end
