(* ===== verification/Server_Samples.thy ===== *)
theory Server_Samples
  imports Server OpenAIText_Claims Admission
begin

text \<open>A concrete server and environment, at which the hypotheses of the properties are checked.\<close>

definition sample_chat_route :: Route where
  "sample_chat_route = \<lparr>rt_Key = ''chat'', rt_Method = ''POST'', rt_Path = chatCompletionsPath, rt_ProviderKey = ''p'',
     rt_VerdictProviderKey = [], rt_ModelMapping = \<lparr>mm_Requested = [], mm_Mapped = [], mm_Upstream = ''m''\<rparr>,
     rt_Execution = ExecutionInline, rt_Fallback = RoutingActionBlock, rt_RequireClientAuth = False\<rparr>"

definition sample_upstream_provider :: Provider where
  "sample_upstream_provider = \<lparr>pr_Key = ''p'', pr_BaseURL = ''base'', pr_APIKey = ''k'', pr_Headers = [], pr_Timeout = 0\<rparr>"

definition sample_server :: "Snapshot option \<Rightarrow> verdict_provider option \<Rightarrow> server" where
  "sample_server s v = \<lparr>sv_configRevisionNumber = 1, sv_maxBodyBytes = 1000, sv_upstreamTimeout = 0, sv_verdictTimeout = 0,
     sv_routes = [\<lparr>rk_method = ''POST'', rk_path = chatCompletionsPath\<rparr> \<mapsto> sample_chat_route],
     sv_providers = [''p'' \<mapsto> sample_upstream_provider], sv_snapshot = s, sv_verdict = v, sv_verdictProviders = Map.empty,
     sv_events = True, sv_auditGate = False, sv_rawCapturePolicies = [], sv_clients = newClientRegistry [],
     sv_limitResolver = newLimitResolver [sample_chat_route] [] []\<rparr>"

definition sample_env :: "http_response option \<Rightarrow> env" where
  "sample_env answer = \<lparr>en_platform = sample_platform, en_codec = sample_codec,
     en_urls = \<lparr>url_parse = (\<lambda>s. Some \<lparr>url_Scheme = ''https'', url_Host = s, url_Path = ''/''\<rparr>),
       url_join = (\<lambda>base u. url_Scheme u @ ''://'' @ url_Host u @ url_Path u)\<rparr>,
     en_request_ok = (\<lambda>m u. True), en_error_text = (\<lambda>e. ''failed''), en_random_id = ''id'', en_now = 1,
     en_healthy_admission = True, en_healthy = True, en_ctx = background, en_input_start = 1, en_input_took = 1,
     en_output_start = 2, en_output_took = 1, en_chunk_took = (\<lambda>n. 1), en_upstream = (\<lambda>q. answer), en_upstream_time = 1,
     en_upstream_expired = False, en_write_ok = (\<lambda>n. True)\<rparr>"

definition sample_http_request :: "string \<Rightarrow> string \<Rightarrow> http_request" where
  "sample_http_request api_path body = \<lparr>hr_Method = ''POST'', hr_Path = api_path, hr_Header = [],
     hr_Body = \<lparr>rd_bytes = body, rd_end = EOF\<rparr>\<rparr>"

definition sample_http_response :: "int \<Rightarrow> string \<Rightarrow> http_response" where
  "sample_http_response status body = \<lparr>rs_StatusCode = status, rs_Header = [], rs_Body = \<lparr>rd_bytes = body, rd_end = EOF\<rparr>\<rparr>"

definition sample_meta :: requestMeta where
  "sample_meta = newRequestMeta (sample_server None None) (sample_env None) (sample_http_request responsesPath []) sample_chat_route"

end
