(* ===== verification/Streaming_Claims.thy ===== *)
theory Streaming_Claims
  imports Streaming_Props Server_Samples
begin

text \<open>The properties of the streaming relay.\<close>

section \<open>A permitted stream\<close>

text \<open>The collector of the state has taken \<open>n\<close> bytes of its limit.\<close>

definition collected_bytes :: "int \<Rightarrow> int \<Rightarrow> stream_state \<Rightarrow> bool" where
  "collected_bytes L n st \<longleftrightarrow>
     (\<exists>b. ss_buffer st = Some b \<and> stc_limit (sb_collector b) = L \<and> int (length (stc_buf (sb_collector b))) = n)"

definition delta_bytes :: "env \<Rightarrow> string \<Rightarrow> SSEFrame list \<Rightarrow> int" where
  "delta_bytes E api_path fs = (\<Sum>f\<leftarrow>fs. int (length (frame_delta E api_path f)))"

lemma collector_accepts:
  assumes "ObserveDelta (Some b) d = (ob, Some b')" "stc_limit (sb_collector b) > 0"
    "int (length (stc_buf (sb_collector b))) + int (length d) \<le> stc_limit (sb_collector b)"
  shows "sdo_CollectionAccepted ob" "stc_limit (sb_collector b') = stc_limit (sb_collector b)"
    "stc_buf (sb_collector b') = stc_buf (sb_collector b) @ d"
  using assms by (auto simp: ObserveDelta_def StreamTextCollector_Append_def Let_def)

lemma inspect_permitted:
  assumes "relaying S E api_path meta fs st" "inspect_frame S E api_path f st = (go, st')"
    "permitted S E api_path meta (fs @ [f]) (length fs)" "collected_bytes L n st" "L > 0"
    "n + int (length (frame_delta E api_path f)) \<le> L"
  shows "go" "collected_bytes L (n + int (length (frame_delta E api_path f))) st'"
proof -
  obtain b where b: "ss_buffer st = Some b" "sw_limit (sb_window b) = 4096"
      "sw_text (sb_window b) = last_runes 4096 (stream_runes E api_path fs)"
      and meta: "meta_route (ss_meta st) = meta_route meta" "meta_mapped (ss_meta st) = meta_mapped meta"
    using assms(1) by (auto simp: relaying_def)
  obtain d where d: "parseOpenAIStreamDelta (en_codec E) api_path (sf_Event f) (sf_Data f) = Inr d"
    using assms(3) by (auto simp: permitted_def split: sum.splits)
  have fd: "frame_delta E api_path f = d" by (simp add: frame_delta_def d)
  have "go \<and> collected_bytes L (n + int (length d)) st'"
  proof (cases "d = []")
    case True
    with assms(2,4) d show ?thesis by (auto simp: inspect_frame_def collected_bytes_def)
  next
    case False
    obtain ob b' where ob: "ObserveDelta (Some b) d = (ob, Some b')"
        "sw_text (sb_window b') = last_runes 4096 (stream_runes E api_path fs @ runes_of_string d)"
      using ObserveDelta_window [of b _ d] b(2,3) by (metis prod.collapse rel_simps(51) zero_less_numeral)
    have w: "sdo_WindowText ob = window_after E api_path (fs @ [f])"
      using ob by (simp add: ObserveDelta_text window_after_def stream_runes_def fd)
    note acc = collector_accepts [OF ob(1)]
    have lim: "stc_limit (sb_collector b) = L" "int (length (stc_buf (sb_collector b))) = n"
      using assms(4) b(1) by (auto simp: collected_bytes_def)
    obtain dr where dr: "dr_decision dr = dr_decision (evaluateStreamingOutput S E (ss_meta st) (sdo_WindowText ob))"
        and eq: "inspect_frame S E api_path f st =
       (let plan = StreamingOutput_PlanPolicy \<lparr>spp_Decision = dr_decision dr, spp_CollectionAccepted = sdo_CollectionAccepted ob\<rparr>;
            st = st\<lparr>ss_meta := (ss_meta st)\<lparr>meta_streamChunks := meta_streamChunks (ss_meta st) + 1\<rparr>, ss_buffer := Some b', ss_decision := dr\<rparr>
        in if sop_Action plan = StreamingOutputActionTerminate
           then (False, terminate_stream (sop_TerminationReason plan) (sop_ForceBlockedOutput plan) st) else (True, st))"
      using inspect_frame_delta [OF d False b(1) ob(1)] by metis
    have "dec_Action (dr_decision dr) \<notin> {ActionBlock, ActionRedact}"
      using assms(3) False w dr d stream_decision_meta [OF meta] by (simp add: permitted_def)
    moreover have "sdo_CollectionAccepted ob" using acc assms(5,6) lim fd by simp
    ultimately have "inspect_frame S E api_path f st = (True, st\<lparr>ss_meta := (ss_meta st)\<lparr>meta_streamChunks := meta_streamChunks (ss_meta st) + 1\<rparr>,
        ss_buffer := Some b', ss_decision := dr\<rparr>)"
      unfolding eq Let_def by (simp add: stream_policy_plan(1))
    then show ?thesis using assms(2,5,6) acc lim fd by (auto simp: collected_bytes_def)
  qed
  then show "go" "collected_bytes L (n + int (length (frame_delta E api_path f))) st'" by (simp_all add: fd)
qed

lemma relay_ok:
  assumes "relay_frame E f st = (on, st')" "ss_pending st = (if fs = [] then None else Some (last fs))"
    "sent_frames (ss_out st) = map sf_Raw (butlast fs)" "\<forall>n. en_write_ok E n"
  shows "on \<longleftrightarrow> \<not> sf_Done f" "meta_termination (ss_meta st') = meta_termination (ss_meta st)" "ss_buffer st' = ss_buffer st"
    "sf_Done f \<Longrightarrow> sent_frames (ss_out st') = map sf_Raw (fs @ [f]) \<and> ss_pending st' = None"
proof -
  have "(on \<longleftrightarrow> \<not> sf_Done f) \<and> meta_termination (ss_meta st') = meta_termination (ss_meta st) \<and> ss_buffer st' = ss_buffer st \<and>
      (sf_Done f \<longrightarrow> sent_frames (ss_out st') = map sf_Raw (fs @ [f]) \<and> ss_pending st' = None)"
    using assms by (cases fs rule: rev_cases; cases "sf_Done f")
      (auto simp: relay_frame_def writeSSEFrame_def PlanFrame_def stream_plan_def Let_def)
  then show "on \<longleftrightarrow> \<not> sf_Done f" "meta_termination (ss_meta st') = meta_termination (ss_meta st)" "ss_buffer st' = ss_buffer st"
    "sf_Done f \<Longrightarrow> sent_frames (ss_out st') = map sf_Raw (fs @ [f]) \<and> ss_pending st' = None" by auto
qed

lemma Next_Done: "Next p = (Inr f, p') \<Longrightarrow> sf_Done f \<Longrightarrow> read_frames p' = ([], SSERead EOF)"
  by (auto simp: Next_def Let_def read_frames.simps [of p'] split: if_splits sum.splits prod.splits)

lemma stream_loop_complete:
  assumes "relaying S E api_path meta fs st" "read_frames parser = (rest, SSERead EOF)" "meta_termination (ss_meta st) = []"
    "\<forall>j<length (fs @ rest). permitted S E api_path meta (fs @ rest) j" "\<forall>n. en_write_ok E n"
    "collected_bytes L n st" "L > 0" "n + delta_bytes E api_path rest \<le> L"
  shows "sent_frames (ss_out (stream_flush E (stream_loop S E api_path parser st))) = map sf_Raw (fs @ rest) \<and>
    meta_termination (ss_meta (stream_loop S E api_path parser st)) = []"
  using assms
proof (induction parser arbitrary: fs st rest n rule: read_frames.induct)
  case (1 parser)
  have inv: "ss_pending st = (if fs = [] then None else Some (last fs))" "sent_frames (ss_out st) = map sf_Raw (butlast fs)"
    using "1.prems"(1) by (auto simp: relaying_def)
  obtain x parser' where next_frame: "Next parser = (x, parser')" by fastforce
  show ?case
  proof (cases x)
    case (Inl err)
    then have rest: "rest = []" "err = SSERead EOF" using "1.prems"(2) next_frame by (simp_all add: read_frames.simps [of parser])
    then have "stream_loop S E api_path parser st = st" by (subst stream_loop.simps) (simp add: next_frame Inl)
    with inv "1.prems"(3) rest show ?thesis by (cases fs rule: rev_cases) (auto simp: sent_flush)
  next
    case (Inr f)
    then obtain gs where gs: "read_frames parser' = (gs, SSERead EOF)" "rest = f # gs"
      using "1.prems"(2) next_frame by (auto simp: read_frames.simps [of parser] split: prod.splits)
    obtain go st1 where i: "inspect_frame S E api_path f st = (go, st1)" by fastforce
    obtain on st2 where r: "relay_frame E f st1 = (on, st2)" by fastforce
    have p: "permitted S E api_path meta (fs @ [f]) j" if "j < Suc (length fs)" for j
      using "1.prems"(4) gs(2) that permitted_append [of j "fs @ [f]" S E api_path meta gs] by auto
    have nonneg: "0 \<le> delta_bytes E api_path gs" unfolding delta_bytes_def by (rule sum_list_nonneg) auto
    note ip = inspect_permitted [OF "1.prems"(1) i p "1.prems"(6,7)]
    have fit: "n + int (length (frame_delta E api_path f)) \<le> L"
      using "1.prems"(8) gs(2) nonneg by (simp add: delta_bytes_def)
    have go: go and coll: "collected_bytes L (n + int (length (frame_delta E api_path f))) st1"
      using ip fit by auto
    obtain b where b: "ss_buffer st = Some b" "sw_limit (sb_window b) = 4096"
        "sw_text (sb_window b) = last_runes 4096 (stream_runes E api_path fs)"
      using "1.prems"(1) by (auto simp: relaying_def)
    note ic = inspect_frame_cases [OF i b]
    have st1: "ss_pending st1 = (if fs = [] then None else Some (last fs))" "sent_frames (ss_out st1) = map sf_Raw (butlast fs)"
        "meta_termination (ss_meta st1) = []"
      using ic inv go "1.prems"(3) by auto
    note ro = relay_ok [OF r st1(1,2) "1.prems"(5)]
    note step = stream_loop_step [OF next_frame [unfolded Inr] i r]
    show ?thesis
    proof (cases "sf_Done f")
      case True
      with Next_Done [OF next_frame [unfolded Inr]] gs step go ro st1(3) show ?thesis by (auto simp: sent_flush)
    next
      case False
      then have "relaying S E api_path meta (fs @ [f]) st2"
        using relay_frame_cases [OF r st1(1,2)] ro(1) ic go p "1.prems"(1) by (auto simp: relaying_def)
      from "1.IH" [OF next_frame [symmetric] Inr this gs(1), of "n + int (length (frame_delta E api_path f))"]
      show ?thesis
        using "1.prems" gs(2) step go ro False st1(3) coll by (auto simp: collected_bytes_def delta_bytes_def)
    qed
  qed
qed

section \<open>The whole handler\<close>

lemma relaying_start: "relaying S E api_path meta [] (stream_start S resp meta)"
  by (simp add: relaying_def stream_start_def NewStreamBuffer_def stream_runes_def last_runes_def)

lemma sent_finish [simp]: "sent_frames (stream_finish S E st) = sent_frames (ss_out st)"
  by (simp add: stream_finish_def emit_def evaluateOutput_def evaluate_def Let_def split: prod.split option.split)


lemma handle_relays:
  assumes "read_frames (NewSSEParser (rs_Body resp)) = (fs, e)"
  shows "relayed S E (hr_Path r) meta fs (handleStreaming S E r resp meta)"
  using stream_loop_relays [OF relaying_start [of S E "hr_Path r" meta resp] assms]
  by (simp add: handleStreaming_def relayed_def)

lemma handle_complete:
  assumes "read_frames (NewSSEParser (rs_Body resp)) = (fs, SSERead EOF)" "meta_termination meta = []"
    "\<forall>j<length fs. permitted S E (hr_Path r) meta fs j" "\<forall>n. en_write_ok E n"
    "sv_maxBodyBytes S > 0" "delta_bytes E (hr_Path r) fs \<le> sv_maxBodyBytes S"
  shows "sent_frames (handleStreaming S E r resp meta) = map sf_Raw fs"
proof -
  have start: "meta_termination (ss_meta (stream_start S resp meta)) = []"
      "collected_bytes (sv_maxBodyBytes S) 0 (stream_start S resp meta)"
    using assms(2) by (simp_all add: stream_start_def collected_bytes_def NewStreamBuffer_def)
  from stream_loop_complete [OF relaying_start assms(1) start(1) _ assms(4) start(2) assms(5)] assms(3,6)
  show ?thesis by (simp add: handleStreaming_def)
qed

section \<open>The properties\<close>

text \<open>C4. No text reaches the client of a stream before the policy has permitted it: what is sent is a
  prefix of the upstream's frames, byte for byte, and when anything is sent, every sent frame and the
  frame after the last one (which is why one frame is held back) had its text extracted and the last
  4096 characters up to it evaluated to neither a block nor a redaction.\<close>

theorem stream_relays_permitted_prefix:
  assumes "read_frames (NewSSEParser (rs_Body resp)) = (fs, e)"
  shows "\<exists>k\<le>length fs. sent_frames (handleStreaming S E r resp meta) = map sf_Raw (take k fs) \<and>
    (0 < k \<longrightarrow> (\<forall>j\<le>k. j < length fs \<longrightarrow> permitted S E (hr_Path r) meta fs j))"
  using handle_relays [OF assms] by (simp add: relayed_def)

text \<open>C36. A permitted stream arrives complete: when the upstream's stream ends well, every frame is
  permitted, the text fits the collector and the client's connection takes every write, all frames are
  sent in order, and the bytes sent are the upstream's bytes when no frame is the end marker.\<close>

theorem permitted_stream_is_complete:
  assumes "read_frames (NewSSEParser (rs_Body resp)) = (fs, SSERead EOF)" "meta_termination meta = []"
    "\<forall>j<length fs. permitted S E (hr_Path r) meta fs j" "\<forall>n. en_write_ok E n"
    "sv_maxBodyBytes S > 0" "delta_bytes E (hr_Path r) fs \<le> sv_maxBodyBytes S"
  shows "sent_frames (handleStreaming S E r resp meta) = map sf_Raw fs \<and>
    (list_all (\<lambda>f. \<not> sf_Done f) fs \<longrightarrow> concat (sent_frames (handleStreaming S E r resp meta)) = rd_bytes (rs_Body resp))"
  using handle_complete [OF assms] read_frames_raw [OF assms(1)] by (auto simp: NewSSEParser_def list_all_iff)


definition delta_payload :: "string \<Rightarrow> string" where
  "delta_payload part = ''{'' @ [CHR 0x22] @ ''delta'' @ [CHR 0x22] @ '':'' @ [CHR 0x22] @ part @ [CHR 0x22] @ ''}''"

text \<open>Two events of text.\<close>

definition sample_deltas :: "(string \<times> string list) list" where
  "sample_deltas = [(''response.output_text.delta'', [''hello'']), (''response.output_text.delta'', [''world''])]"

text \<open>A word split over two deltas of the Responses API escapes the streaming policy: with the
  event names the API sends, the text inspected is the JSON of each delta, so the window never holds
  the word, although the deltas decode to it; without an event name the same two payloads are decoded
  and the word is seen.\<close>

theorem split_word_escapes:
  assumes "json_unmarshal_map J (delta_payload ''sec'') = Some (Some [(''delta'', JStr ''sec'')])"
    "json_unmarshal_map J (delta_payload ''ret'') = Some (Some [(''delta'', JStr ''ret'')])"
  shows "\<exists>named unnamed.
    map (parseOpenAIStreamDelta J responsesPath ''response.output_text.delta'') [delta_payload ''sec'', delta_payload ''ret''] = map Inr named \<and>
    \<not> sublist ''secret'' (concat named) \<and>
    map (parseOpenAIStreamDelta J responsesPath []) [delta_payload ''sec'', delta_payload ''ret''] = map Inr unnamed \<and>
    concat unnamed = ''secret''"
proof -
  have "TrimSpace (delta_payload w) = delta_payload w" for w
    by (rule TrimSpace_id) (simp add: delta_payload_def byte_def is_space_def in_range_def)
  moreover have "delta_payload w \<noteq> []" "delta_payload w \<noteq> ''[DONE]''" for w by (simp_all add: delta_payload_def)
  ultimately have "map (parseOpenAIStreamDelta J responsesPath ''response.output_text.delta'') [delta_payload ''sec'', delta_payload ''ret'']
        = map Inr [delta_payload ''sec'', delta_payload ''ret'']"
      "map (parseOpenAIStreamDelta J responsesPath []) [delta_payload ''sec'', delta_payload ''ret''] = map Inr [''sec'', ''ret'']"
    using assms
    by (simp_all add: parseOpenAIStreamDelta_def extractResponsesStreamDelta_def map_value_def field_def
        appendText_opt_def appendJoinedText_def Let_def)
  moreover have "\<not> sublist ''secret'' (concat [delta_payload ''sec'', delta_payload ''ret''])"
    by (simp add: delta_payload_def sublist_Cons_right)
  ultimately show ?thesis
    by (intro exI [of _ "[delta_payload ''sec'', delta_payload ''ret'']"] exI [of _ "[''sec'', ''ret'']"]) simp
qed

section \<open>Witnesses\<close>

lemma sample_stream_frames:
  "read_frames (NewSSEParser (rs_Body (sample_http_response 200 (concat (map print_event sample_deltas))))) =
     (map event_frame sample_deltas, SSERead EOF)"
proof -
  have "read_frames (NewSSEParser \<lparr>rd_bytes = concat (map print_event sample_deltas), rd_end = EOF\<rparr>) =
      (map event_frame sample_deltas, SSERead EOF)"
    by (rule read_printed_events) (simp add: sample_deltas_def printable_def one_line_def print_event_def print_lines_def event_lines_def
        sse_field_def newline_def carriage_return_def char_of_def maxSSEFrameBytes_def event_frame_def join_with_def
        TrimSpace_id byte_def is_space_def in_range_def)
  then show ?thesis by (simp add: sample_http_response_def)
qed

lemma sample_raws: "map sf_Raw (take k (map event_frame es)) = map print_event (take k es)"
  by (simp add: take_map event_frame_def comp_def)

lemma no_snapshot_allows:
  "dec_Action (dr_decision (evaluateStreamingOutput (sample_server None v) E meta w)) = ActionAllow"
  by (simp add: evaluateStreamingOutput_def EvaluatePolicyOnly_def evaluatePolicyTimed_def decisionResultFromTrafficEvaluation_def
      PolicyEvaluator_Evaluate_def server_snapshot_def Evaluate_def sample_server_def Let_def)

theorem stream_relays_permitted_prefix_witness:
  "\<exists>k\<le>2. sent_frames (handleStreaming (sample_server None None) (sample_env None) (sample_http_request responsesPath [])
      (sample_http_response 200 (concat (map print_event sample_deltas))) sample_meta) = map print_event (take k sample_deltas)"
proof -
  obtain k where "k \<le> length (map event_frame sample_deltas)"
      "sent_frames (handleStreaming (sample_server None None) (sample_env None) (sample_http_request responsesPath [])
        (sample_http_response 200 (concat (map print_event sample_deltas))) sample_meta) = map sf_Raw (take k (map event_frame sample_deltas))"
    using stream_relays_permitted_prefix [OF sample_stream_frames] by meson
  then have "k \<le> 2" "sent_frames (handleStreaming (sample_server None None) (sample_env None) (sample_http_request responsesPath [])
        (sample_http_response 200 (concat (map print_event sample_deltas))) sample_meta) = map print_event (take k sample_deltas)"
    by (simp_all only: sample_raws) (simp add: sample_deltas_def)
  then show ?thesis by blast
qed

theorem permitted_stream_is_complete_witness:
  "concat (sent_frames (handleStreaming (sample_server None None) (sample_env None) (sample_http_request responsesPath [])
      (sample_http_response 200 (concat (map print_event sample_deltas))) sample_meta)) = concat (map print_event sample_deltas)"
proof -
  have trim: "TrimSpace ''hello'' = ''hello''" "TrimSpace ''world'' = ''world''"
    by (simp_all add: TrimSpace_id byte_def is_space_def in_range_def)
  have delta: "parseOpenAIStreamDelta J responsesPath ''response.output_text.delta'' w = Inr w" if "w \<in> {''hello'', ''world''}" for J w
    using that trim by (auto simp: parseOpenAIStreamDelta_def)
  let ?fs = "map event_frame sample_deltas"
  have frames: "?fs ! j = event_frame (''response.output_text.delta'', [w])" if "j < length ?fs" "w = [''hello'', ''world''] ! j" for j w
    using that by (auto simp: sample_deltas_def less_Suc_eq)
  have "permitted (sample_server None None) (sample_env None) responsesPath sample_meta ?fs j" if "j < length ?fs" for j
    using frames [OF that refl] delta that
    by (auto simp: permitted_def event_frame_def no_snapshot_allows sample_deltas_def less_Suc_eq)
  moreover have "delta_bytes (sample_env None) responsesPath ?fs = 10"
    by (simp add: delta_bytes_def sample_deltas_def event_frame_def frame_delta_def delta)
  moreover have "\<not> sf_Done f" if "f \<in> set ?fs" for f
    using that trim by (auto simp: sample_deltas_def event_frame_def)
  ultimately show ?thesis
    using permitted_stream_is_complete [OF sample_stream_frames, of sample_meta "sample_server None None"
        "sample_env None" "sample_http_request responsesPath []"]
    by (auto simp: sample_http_request_def sample_meta_def newRequestMeta_def sample_server_def sample_env_def list_all_iff
        sample_http_response_def Let_def)
qed

definition sample_delta_codec :: json_codec where
  "sample_delta_codec = \<lparr>json_unmarshal_map = (\<lambda>s. if s = delta_payload ''sec'' then Some (Some [(''delta'', JStr ''sec'')])
     else if s = delta_payload ''ret'' then Some (Some [(''delta'', JStr ''ret'')]) else None), json_marshal = (\<lambda>v. None)\<rparr>"

theorem split_word_escapes_witness:
  "\<exists>unnamed. map (parseOpenAIStreamDelta sample_delta_codec responsesPath []) [delta_payload ''sec'', delta_payload ''ret''] = map Inr unnamed \<and>
     concat unnamed = ''secret''"
  using split_word_escapes [of sample_delta_codec] by (auto simp: sample_delta_codec_def delta_payload_def)

end
