(* ===== verification/RuntimeTypes.thy ===== *)
theory RuntimeTypes
  imports Policy
begin

text \<open>
  \<open>internal/contexts/runtime/application/types.go\<close>: the storage-neutral runtime configuration that the
  loader hands to the compiler.  A field that only names a record for messages is kept.  The file also
  holds the fold with errors in which the loops of the compilers are written.
\<close>

section \<open>Loops that may fail\<close>

fun fold_err :: "('a \<Rightarrow> 'b \<Rightarrow> 'e + 'b) \<Rightarrow> 'a list \<Rightarrow> 'b \<Rightarrow> 'e + 'b" where
  "fold_err f [] s = Inr s"
| "fold_err f (x # xs) s = (case f x s of Inl e \<Rightarrow> Inl e | Inr s' \<Rightarrow> fold_err f xs s')"

lemma fold_err_append:
  "fold_err f (xs @ ys) s = (case fold_err f xs s of Inl e \<Rightarrow> Inl e | Inr s' \<Rightarrow> fold_err f ys s')"
  by (induction xs arbitrary: s) (auto split: sum.split)

lemma fold_err_invariant:
  assumes "fold_err f xs s = Inr s'" "I s" "\<And>x t t'. x \<in> set xs \<Longrightarrow> I t \<Longrightarrow> f x t = Inr t' \<Longrightarrow> I t'"
  shows "I s'"
  using assms
proof (induction xs arbitrary: s)
  case (Cons x xs)
  then obtain t where t: "f x s = Inr t" "fold_err f xs t = Inr s'" by (auto split: sum.splits)
  show ?case
  proof (rule Cons.IH [OF t(2)])
    show "I t" using Cons.prems(2,3) t(1) by (meson list.set_intros(1))
  qed (use Cons.prems(3) in \<open>meson list.set_intros(2)\<close>)
qed simp

text \<open>A loop that skips some elements, rejects others and appends an image of the rest.\<close>

lemma fold_err_collect:
  assumes "\<And>x acc. x \<in> set xs \<Longrightarrow> f x acc = (if skip x then Inr acc else case bad x of Some e \<Rightarrow> Inl e | None \<Rightarrow> Inr (acc @ [g x]))"
  shows "fold_err f xs acc = Inr out \<longleftrightarrow>
    (\<forall>x\<in>set xs. \<not> skip x \<longrightarrow> bad x = None) \<and> out = acc @ map g (filter (\<lambda>x. \<not> skip x) xs)"
  using assms by (induction xs arbitrary: acc) (auto split: option.splits)

section \<open>Records\<close>

record RouteConfig =
  rtc_Key :: string
  rtc_Method :: string
  rtc_Path :: string
  rtc_ProviderKey :: string
  rtc_RequestedModel :: string
  rtc_MappedModel :: string
  rtc_UpstreamModel :: string
  rtc_ExecutionMode :: string
  rtc_FallbackAction :: string
  rtc_Disabled :: bool

record ProviderConfig =
  pvc_Key :: string
  pvc_BaseURL :: string
  pvc_APIKey :: string
  pvc_CredentialRef :: string
  pvc_Headers :: "(string \<times> string) list"
  pvc_Timeout :: duration
  pvc_Disabled :: bool

record ModelMappingConfig =
  mmc_Key :: string
  mmc_RouteKey :: string
  mmc_ProviderKey :: string
  mmc_RequestedModel :: string
  mmc_MappedModel :: string
  mmc_UpstreamModel :: string
  mmc_Disabled :: bool

record VerdictProviderConfig =
  vpc_Key :: string
  vpc_Name :: string
  vpc_Endpoint :: string
  vpc_CredentialRef :: string
  vpc_Enabled :: bool
  vpc_Timeout :: duration

record RouteVerdictProviderBindingConfig =
  rvb_RouteKey :: string
  rvb_VerdictProviderKey :: string
  rvb_ExecutionMode :: string
  rvb_Disabled :: bool
  rvb_Priority :: int

record SinkConfig =
  skc_ID :: string
  skc_Key :: string
  skc_Kind :: string
  skc_Disabled :: bool
  skc_Config :: string

record RetentionPolicyConfig =
  rpc_ID :: string
  rpc_Key :: string
  rpc_SinkKey :: string
  rpc_EventType :: string
  rpc_RetentionDays :: int

record RawCaptureConfig =
  rcc_ID :: string
  rcc_RouteKey :: string
  rcc_Direction :: string
  rcc_Enabled :: bool
  rcc_SampleRate :: rat
  rcc_RedactionMode :: string

record GatewayClientConfig =
  gcc_ID :: string
  gcc_Name :: string
  gcc_Status :: string
  gcc_KeyPrefix :: string
  gcc_KeyHash :: string

record RouteLimitConfig =
  rlc_RouteKey :: string
  rlc_RequestsPerWindow :: int
  rlc_Window :: duration
  rlc_MaxConcurrentRequests :: int
  rlc_MaxBodyBytes :: int
  rlc_Disabled :: bool

record ClientRouteLimitOverrideConfig =
  crl_ClientID :: string
  crl_RouteKey :: string
  crl_RequestsPerWindow :: int
  crl_Window :: duration
  crl_MaxConcurrentRequests :: int
  crl_MaxBodyBytes :: int
  crl_Disabled :: bool

record RuntimeConfig =
  rc_Revision :: int
  rc_Routes :: "RouteConfig list"
  rc_Providers :: "ProviderConfig list"
  rc_ModelMappings :: "ModelMappingConfig list"
  rc_VerdictProviders :: "VerdictProviderConfig list"
  rc_RouteVerdictProviderBindings :: "RouteVerdictProviderBindingConfig list"
  rc_Sinks :: "SinkConfig list"
  rc_Retention :: "RetentionPolicyConfig list"
  rc_PolicyBundles :: "Bundle list"
  rc_RawCapture :: "RawCaptureConfig list"
  rc_GatewayClients :: "GatewayClientConfig list"
  rc_RouteLimits :: "RouteLimitConfig list"
  rc_ClientRouteLimitOverrides :: "ClientRouteLimitOverrideConfig list"

end
