(* ===== verification/Credentials.thy ===== *)
theory Credentials
  imports Strings
begin

text \<open>
  \<open>credentials.go\<close>: credential references and the resolvers that turn them into secrets.  The
  process environment and the file system are parameters, as are the letters and the upper case of
  the Unicode tables; \<open>unicode.IsDigit\<close> is computed.
\<close>

section \<open>Model\<close>

datatype credential_error =
    ErrCredentialNotFound
  | ErrCredentialUnsupportedRef
  | OtherCredentialError string

type_synonym credential_resolver = "string \<Rightarrow> credential_error + string"

record letters =
  let_IsLetter :: "rune \<Rightarrow> bool"
  let_ToUpper :: "rune \<Rightarrow> rune"

fun credential_suffix :: "letters \<Rightarrow> rune list \<Rightarrow> bool \<Rightarrow> rune list \<Rightarrow> rune list" where
  "credential_suffix L [] previousUnderscore builder = builder"
| "credential_suffix L (r # rs) previousUnderscore builder =
     (if let_IsLetter L r \<or> is_digit r then credential_suffix L rs False (builder @ [let_ToUpper L r])
      else if \<not> previousUnderscore then credential_suffix L rs True (builder @ [0x5F])
      else credential_suffix L rs previousUnderscore builder)"

definition trim_underscores :: "string \<Rightarrow> string" where
  "trim_underscores s = rev (dropWhile (\<lambda>c. c = CHR ''_'') (rev s))"

definition credentialEnvKey :: "letters \<Rightarrow> string \<Rightarrow> string" where
  "credentialEnvKey L ref =
     (let suffix = trim_underscores (string_of_runes (credential_suffix L (runes_of_string ref) True [])) in
      if suffix = [] then [] else ''KIWIGUARD_CREDENTIAL_'' @ suffix)"

definition EnvironmentCredentialResolver :: "letters \<Rightarrow> (string \<rightharpoonup> string) \<Rightarrow> credential_resolver" where
  "EnvironmentCredentialResolver L lookup ref =
     (let ref = TrimSpace ref in
      if ref = [] then Inl ErrCredentialNotFound
      else case (case cut_prefix ''env:'' ref of
                   Some rest \<Rightarrow> Inr (TrimSpace rest)
                 | None \<Rightarrow> if CHR '':'' \<in> set ref then Inl ErrCredentialUnsupportedRef else Inr (credentialEnvKey L ref)) of
        Inl e \<Rightarrow> Inl e
      | Inr key \<Rightarrow>
          if key = [] then Inl ErrCredentialNotFound
          else case lookup key of
            None \<Rightarrow> Inl ErrCredentialNotFound
          | Some v \<Rightarrow> if v = [] then Inl ErrCredentialNotFound else Inr v)"

definition FileCredentialResolver :: "(string \<rightharpoonup> string) \<Rightarrow> credential_resolver" where
  "FileCredentialResolver read_file ref =
     (let ref = TrimSpace ref in
      case cut_prefix ''file:'' ref of
        None \<Rightarrow> Inl ErrCredentialUnsupportedRef
      | Some rest \<Rightarrow>
          (let file = TrimSpace rest in
           if file = [] then Inl ErrCredentialNotFound
           else case read_file file of
             None \<Rightarrow> Inl ErrCredentialNotFound
           | Some contents \<Rightarrow>
               (let v = TrimSpace contents in if v = [] then Inl ErrCredentialNotFound else Inr v)))"

text \<open>A nil resolver of the chain is \<open>None\<close>.\<close>

fun chain_from :: "credential_resolver option list \<Rightarrow> string \<Rightarrow> credential_error option \<Rightarrow> credential_error + string" where
  "chain_from [] ref lastErr = Inl (case lastErr of Some e \<Rightarrow> e | None \<Rightarrow> ErrCredentialNotFound)"
| "chain_from (None # rs) ref lastErr = chain_from rs ref lastErr"
| "chain_from (Some resolver # rs) ref lastErr =
     (case resolver ref of
        Inr v \<Rightarrow> Inr v
      | Inl e \<Rightarrow>
          if e \<noteq> ErrCredentialUnsupportedRef \<and> e \<noteq> ErrCredentialNotFound then Inl e
          else chain_from rs ref (Some e))"

definition ChainCredentialResolver :: "credential_resolver option list \<Rightarrow> credential_resolver" where
  "ChainCredentialResolver rs ref = chain_from rs ref None"

definition DefaultCredentialResolver :: "letters \<Rightarrow> (string \<rightharpoonup> string) \<Rightarrow> (string \<rightharpoonup> string) \<Rightarrow> credential_resolver" where
  "DefaultCredentialResolver L lookup read_file =
     ChainCredentialResolver [Some (EnvironmentCredentialResolver L lookup), Some (FileCredentialResolver read_file)]"

section \<open>Lemmas\<close>

text \<open>A resolver never returns an empty secret.\<close>

definition resolves_nonempty :: "credential_resolver \<Rightarrow> bool" where
  "resolves_nonempty resolver \<longleftrightarrow> (\<forall>ref v. resolver ref = Inr v \<longrightarrow> v \<noteq> [])"

lemma environment_nonempty: "resolves_nonempty (EnvironmentCredentialResolver L lookup)"
  by (auto simp: resolves_nonempty_def EnvironmentCredentialResolver_def Let_def split: sum.splits option.splits if_splits)

lemma file_nonempty: "resolves_nonempty (FileCredentialResolver read_file)"
  by (auto simp: resolves_nonempty_def FileCredentialResolver_def Let_def split: option.splits if_splits)

lemma chain_nonempty:
  assumes "\<And>r. Some r \<in> set rs \<Longrightarrow> resolves_nonempty r"
  shows "resolves_nonempty (ChainCredentialResolver rs)"
proof -
  have "v \<noteq> []" if "chain_from rs ref e = Inr v" for ref e v
    using that assms by (induction rs ref e rule: chain_from.induct) (auto simp: resolves_nonempty_def split: sum.splits if_splits)
  then show ?thesis by (auto simp: resolves_nonempty_def ChainCredentialResolver_def)
qed

lemma default_nonempty: "resolves_nonempty (DefaultCredentialResolver L lookup read_file)"
  unfolding DefaultCredentialResolver_def by (rule chain_nonempty) (auto simp: environment_nonempty file_nonempty)

end
