(* ===== verification/GatewayConfig.thy ===== *)
theory GatewayConfig
  imports RuntimeTypes Credentials Server
begin

text \<open>
  \<open>gateway\_config.go\<close>: the conversion of the active runtime configuration into the transport
  configuration of the server, with the types of \<open>types.go\<close> and \<open>transport\_types.go\<close>.  A set of
  keys is a set, the map of verdict providers an association list with distinct keys, and each error
  message a constructor.  \<open>httpprovider\<close> is built over the environment \<open>H\<close>.
\<close>

section \<open>Types\<close>

record CompileOptions =
  co_MaxBodyBytes :: int
  co_UpstreamTimeout :: duration
  co_VerdictTimeout :: duration
  co_EventWriter :: bool
  co_AuditGate :: bool
  co_CredentialResolver :: "credential_resolver option"

record Config =
  cfg_ConfigRevisionNumber :: int
  cfg_MaxBodyBytes :: int
  cfg_UpstreamTimeout :: duration
  cfg_VerdictTimeout :: duration
  cfg_Routes :: "Route list"
  cfg_Providers :: "Provider list"
  cfg_Snapshot :: "Snapshot option"
  cfg_VerdictProvider :: "verdict_provider option"
  cfg_VerdictProviders :: "(string \<times> verdict_provider) list"
  cfg_EventWriter :: bool
  cfg_AuditGate :: bool
  cfg_RawCapturePolicies :: "RawCapturePolicy list"
  cfg_Clients :: "Client list"
  cfg_RouteLimits :: "RouteLimitPolicy list"
  cfg_ClientRouteLimitOverrides :: "RouteLimitOverride list"

datatype config_error =
    LimitUnknownRoute string
  | LimitNotPositive string
  | OverrideUnknownRoute string
  | OverrideUnknownClient string
  | OverrideWithoutLimit string
  | OverrideNotPositive string string
  | DuplicateModelMappings string string string
  | ProviderCredential string credential_error
  | VerdictProviderWithoutKey string
  | DuplicateVerdictProvider string
  | VerdictProviderCredential string credential_error
  | MultipleVerdictProviders
  | BindingWithoutProvider string
  | BindingUnknownProvider string string

section \<open>Key sets\<close>

definition routeLimitRouteKeys :: "RouteLimitPolicy list \<Rightarrow> string set" where
  "routeLimitRouteKeys limits = set (map lp_RouteKey limits)"

definition enabledRouteKeys :: "RouteConfig list \<Rightarrow> string set" where
  "enabledRouteKeys routes = set (map rtc_Key (filter (\<lambda>r. \<not> (rtc_Disabled r \<or> rtc_Key r = [])) routes))"

definition knownClientIDs :: "GatewayClientConfig list \<Rightarrow> string set" where
  "knownClientIDs clients = set (map gcc_ID (filter (\<lambda>c. gcc_ID c \<noteq> []) clients))"

definition protectedRouteKeys ::
  "RouteConfig list \<Rightarrow> GatewayClientConfig list \<Rightarrow> RouteLimitPolicy list \<Rightarrow> string set" where
  "protectedRouteKeys routes clients limits =
     (let keys = set (map lp_RouteKey limits) in
      if length clients > 0 then keys \<union> set (map rtc_Key (filter (\<lambda>r. \<not> (rtc_Disabled r \<or> rtc_Key r = [])) routes)) else keys)"

definition validLimitValues :: "int \<Rightarrow> duration \<Rightarrow> int \<Rightarrow> int \<Rightarrow> bool" where
  "validLimitValues requests window concurrent bytes \<longleftrightarrow> requests > 0 \<and> window > 0 \<and> concurrent > 0 \<and> bytes > 0"

section \<open>Clients and limits\<close>

definition gatewayRawCapturePolicies :: "RuntimeConfig \<Rightarrow> RawCapturePolicy list" where
  "gatewayRawCapturePolicies input =
     map (\<lambda>c. \<lparr>rcp_ID = rcc_ID c, rcp_RouteKey = rcc_RouteKey c, rcp_Direction = rcc_Direction c, rcp_Enabled = rcc_Enabled c,
       rcp_SampleRate = rcc_SampleRate c, rcp_RedactionMode = rcc_RedactionMode c\<rparr>) (rc_RawCapture input)"

definition gatewayClients :: "RuntimeConfig \<Rightarrow> Client list" where
  "gatewayClients input =
     map (\<lambda>c. \<lparr>cl_ID = gcc_ID c, cl_Name = gcc_Name c, cl_Status = gcc_Status c, cl_KeyPrefix = gcc_KeyPrefix c,
       cl_KeyHash = gcc_KeyHash c\<rparr>) (rc_GatewayClients input)"

definition route_limit_step ::
  "string set \<Rightarrow> RouteLimitConfig \<Rightarrow> RouteLimitPolicy list \<Rightarrow> config_error + RouteLimitPolicy list" where
  "route_limit_step routeKeys r policies =
     (if rlc_Disabled r then Inr policies
      else if rlc_RouteKey r \<notin> routeKeys then Inl (LimitUnknownRoute (rlc_RouteKey r))
      else if \<not> validLimitValues (rlc_RequestsPerWindow r) (rlc_Window r) (rlc_MaxConcurrentRequests r) (rlc_MaxBodyBytes r)
      then Inl (LimitNotPositive (rlc_RouteKey r))
      else Inr (policies @ [\<lparr>lp_RouteKey = rlc_RouteKey r, lp_RequestsPerWindow = rlc_RequestsPerWindow r, lp_Window = rlc_Window r,
             lp_MaxConcurrentRequests = rlc_MaxConcurrentRequests r, lp_MaxBodyBytes = rlc_MaxBodyBytes r, lp_Enabled = True\<rparr>]))"

definition gatewayRouteLimitPolicies :: "RuntimeConfig \<Rightarrow> config_error + RouteLimitPolicy list" where
  "gatewayRouteLimitPolicies input = fold_err (route_limit_step (enabledRouteKeys (rc_Routes input))) (rc_RouteLimits input) []"

definition override_step ::
  "string set \<Rightarrow> string set \<Rightarrow> string set \<Rightarrow> ClientRouteLimitOverrideConfig \<Rightarrow> RouteLimitOverride list \<Rightarrow>
     config_error + RouteLimitOverride list" where
  "override_step routeKeys clientIDs limited r overrides =
     (if crl_Disabled r then Inr overrides
      else if crl_RouteKey r \<notin> routeKeys then Inl (OverrideUnknownRoute (crl_RouteKey r))
      else if crl_ClientID r \<notin> clientIDs then Inl (OverrideUnknownClient (crl_ClientID r))
      else if crl_RouteKey r \<notin> limited then Inl (OverrideWithoutLimit (crl_RouteKey r))
      else if \<not> validLimitValues (crl_RequestsPerWindow r) (crl_Window r) (crl_MaxConcurrentRequests r) (crl_MaxBodyBytes r)
      then Inl (OverrideNotPositive (crl_ClientID r) (crl_RouteKey r))
      else Inr (overrides @ [\<lparr>lo_ClientID = crl_ClientID r, lo_RouteKey = crl_RouteKey r,
             lo_RequestsPerWindow = crl_RequestsPerWindow r, lo_Window = crl_Window r,
             lo_MaxConcurrentRequests = crl_MaxConcurrentRequests r, lo_MaxBodyBytes = crl_MaxBodyBytes r, lo_Enabled = True\<rparr>]))"

definition gatewayClientRouteLimitOverrides ::
  "RuntimeConfig \<Rightarrow> string set \<Rightarrow> config_error + RouteLimitOverride list" where
  "gatewayClientRouteLimitOverrides input limited =
     fold_err (override_step (enabledRouteKeys (rc_Routes input)) (knownClientIDs (rc_GatewayClients input)) limited)
       (rc_ClientRouteLimitOverrides input) []"

section \<open>Providers\<close>

definition credential_of_ref ::
  "(credential_error \<Rightarrow> config_error) \<Rightarrow> credential_resolver option \<Rightarrow> string \<Rightarrow> config_error + string" where
  "credential_of_ref failed resolver ref =
     (case resolver of
        None \<Rightarrow> Inl (failed ErrCredentialNotFound)
      | Some resolve \<Rightarrow>
          (case resolve ref of
             Inl e \<Rightarrow> Inl (failed e)
           | Inr v \<Rightarrow> if v = [] then Inl (failed ErrCredentialNotFound) else Inr v))"

definition providerAPIKey :: "ProviderConfig \<Rightarrow> credential_resolver option \<Rightarrow> config_error + string" where
  "providerAPIKey p resolver =
     (if pvc_CredentialRef p = [] then Inr (pvc_APIKey p)
      else credential_of_ref (ProviderCredential (pvc_Key p)) resolver (pvc_CredentialRef p))"

definition provider_step ::
  "credential_resolver option \<Rightarrow> ProviderConfig \<Rightarrow> Provider list \<Rightarrow> config_error + Provider list" where
  "provider_step resolver p providers =
     (if pvc_Disabled p then Inr providers
      else case providerAPIKey p resolver of
        Inl e \<Rightarrow> Inl e
      | Inr apiKey \<Rightarrow>
          Inr (providers @ [\<lparr>pr_Key = pvc_Key p, pr_BaseURL = pvc_BaseURL p, pr_APIKey = apiKey, pr_Headers = pvc_Headers p,
            pr_Timeout = pvc_Timeout p\<rparr>]))"

definition gatewayProviders :: "RuntimeConfig \<Rightarrow> credential_resolver option \<Rightarrow> config_error + Provider list" where
  "gatewayProviders input resolver = fold_err (provider_step resolver) (rc_Providers input) []"

definition verdictProviderKey :: "VerdictProviderConfig \<Rightarrow> string" where
  "verdictProviderKey p = (if vpc_Key p \<noteq> [] then vpc_Key p else vpc_Name p)"

definition verdictProviderAPIKey :: "VerdictProviderConfig \<Rightarrow> credential_resolver option \<Rightarrow> config_error + string" where
  "verdictProviderAPIKey p resolver =
     (if vpc_CredentialRef p = [] then Inr []
      else credential_of_ref (VerdictProviderCredential (verdictProviderKey p)) resolver (vpc_CredentialRef p))"

text \<open>The verdict providers by key, in the order of the configuration.\<close>

definition verdict_provider_step ::
  "http_env \<Rightarrow> credential_resolver option \<Rightarrow> VerdictProviderConfig \<Rightarrow> (string \<times> verdict_provider) list \<Rightarrow>
     config_error + (string \<times> verdict_provider) list" where
  "verdict_provider_step H resolver p byKey =
     (if \<not> vpc_Enabled p \<or> vpc_Endpoint p = [] then Inr byKey
      else
        (let key = verdictProviderKey p in
         if key = [] then Inl (VerdictProviderWithoutKey (vpc_Name p))
         else if map_of byKey key \<noteq> None then Inl (DuplicateVerdictProvider key)
         else case verdictProviderAPIKey p resolver of
           Inl e \<Rightarrow> Inl e
         | Inr apiKey \<Rightarrow>
             Inr (byKey @ [(key, httpProvider_Evaluate H \<lparr>hp_Name = vpc_Name p, hp_Endpoint = vpc_Endpoint p,
               hp_APIKey = apiKey, hp_Timeout = vpc_Timeout p\<rparr>)])))"

definition gatewayVerdictProviders ::
  "http_env \<Rightarrow> RuntimeConfig \<Rightarrow> credential_resolver option \<Rightarrow> config_error + (string \<times> verdict_provider) list" where
  "gatewayVerdictProviders H input resolver = fold_err (verdict_provider_step H resolver) (rc_VerdictProviders input) []"

text \<open>The bindings by route, an association list with distinct keys; a nil map is the empty one.  \<open>sort.SliceStable\<close> by priority is \<open>sort\_key\<close>.\<close>

definition binding_step ::
  "(string \<times> verdict_provider) list \<Rightarrow> RouteVerdictProviderBindingConfig \<Rightarrow> (string \<times> RouteVerdictProviderBindingConfig) list \<Rightarrow>
     config_error + (string \<times> RouteVerdictProviderBindingConfig) list" where
  "binding_step providers r bindings =
     (if rvb_Disabled r \<or> rvb_RouteKey r = [] then Inr bindings
      else if map_of bindings (rvb_RouteKey r) \<noteq> None then Inr bindings
      else if rvb_VerdictProviderKey r = [] then Inl (BindingWithoutProvider (rvb_RouteKey r))
      else if map_of providers (rvb_VerdictProviderKey r) = None
      then Inl (BindingUnknownProvider (rvb_RouteKey r) (rvb_VerdictProviderKey r))
      else Inr (bindings @ [(rvb_RouteKey r, r)]))"

definition routeVerdictBindingsByRoute ::
  "RouteVerdictProviderBindingConfig list \<Rightarrow> (string \<times> verdict_provider) list \<Rightarrow>
     config_error + (string \<times> RouteVerdictProviderBindingConfig) list" where
  "routeVerdictBindingsByRoute records providers =
     fold_err (binding_step providers) (sort_key rvb_Priority records) []"

definition applyGlobalVerdictProviderFallback ::
  "(string \<times> verdict_provider) list \<Rightarrow> (string \<times> RouteVerdictProviderBindingConfig) list \<Rightarrow>
     config_error + verdict_provider option" where
  "applyGlobalVerdictProviderFallback byKey bindings =
     (if length bindings > 0 then Inr None
      else if length byKey > 1 then Inl MultipleVerdictProviders
      else Inr (case byKey of [] \<Rightarrow> None | (key, provider) # _ \<Rightarrow> Some provider))"

section \<open>Routes\<close>

record routeModelMapping =
  rmap_key :: string
  rmap_providerKey :: string
  rmap_mapping :: ModelMapping

definition model_mapping_step ::
  "ModelMappingConfig \<Rightarrow> (string \<rightharpoonup> routeModelMapping) \<Rightarrow> config_error + (string \<rightharpoonup> routeModelMapping)" where
  "model_mapping_step r mappings =
     (if mmc_Disabled r \<or> mmc_RouteKey r = [] then Inr mappings
      else case mappings (mmc_RouteKey r) of
        Some existing \<Rightarrow> Inl (DuplicateModelMappings (mmc_RouteKey r) (rmap_key existing) (mmc_Key r))
      | None \<Rightarrow>
          Inr (mappings(mmc_RouteKey r \<mapsto> \<lparr>rmap_key = mmc_Key r, rmap_providerKey = mmc_ProviderKey r,
            rmap_mapping = \<lparr>mm_Requested = mmc_RequestedModel r, mm_Mapped = mmc_MappedModel r, mm_Upstream = mmc_UpstreamModel r\<rparr>\<rparr>)))"

definition modelMappingsByRoute :: "ModelMappingConfig list \<Rightarrow> config_error + (string \<rightharpoonup> routeModelMapping)" where
  "modelMappingsByRoute records = fold_err model_mapping_step records Map.empty"

definition gateway_route ::
  "(string \<rightharpoonup> routeModelMapping) \<Rightarrow> (string \<times> RouteVerdictProviderBindingConfig) list \<Rightarrow> string set \<Rightarrow> RouteConfig \<Rightarrow> Route" where
  "gateway_route mappings bindings protected route =
     (let providerKey = rtc_ProviderKey route;
          mapping = \<lparr>mm_Requested = rtc_RequestedModel route, mm_Mapped = rtc_MappedModel route, mm_Upstream = rtc_UpstreamModel route\<rparr>;
          (mapping, providerKey) =
            (case mappings (rtc_Key route) of
               None \<Rightarrow> (mapping, providerKey)
             | Some m \<Rightarrow> (rmap_mapping m, if rmap_providerKey m \<noteq> [] then rmap_providerKey m else providerKey));
          (verdictProviderKey, executionMode) =
            (case map_of bindings (rtc_Key route) of
               None \<Rightarrow> ([], rtc_ExecutionMode route)
             | Some b \<Rightarrow> (rvb_VerdictProviderKey b, if rvb_ExecutionMode b \<noteq> [] then rvb_ExecutionMode b else rtc_ExecutionMode route))
      in \<lparr>rt_Key = rtc_Key route, rt_Method = rtc_Method route, rt_Path = rtc_Path route, rt_ProviderKey = providerKey,
          rt_VerdictProviderKey = verdictProviderKey, rt_ModelMapping = mapping, rt_Execution = executionMode,
          rt_Fallback = rtc_FallbackAction route, rt_RequireClientAuth = (rtc_Key route \<in> protected)\<rparr>)"

definition gatewayRoutes ::
  "RuntimeConfig \<Rightarrow> (string \<times> RouteVerdictProviderBindingConfig) list \<Rightarrow> string set \<Rightarrow> config_error + Route list" where
  "gatewayRoutes input bindings protected =
     (case modelMappingsByRoute (rc_ModelMappings input) of
        Inl e \<Rightarrow> Inl e
      | Inr mappings \<Rightarrow> Inr (map (gateway_route mappings bindings protected) (filter (\<lambda>r. \<not> rtc_Disabled r) (rc_Routes input))))"

section \<open>BuildConfig\<close>

definition BuildConfig :: "http_env \<Rightarrow> RuntimeConfig \<Rightarrow> CompileOptions \<Rightarrow> Snapshot option \<Rightarrow> config_error + Config" where
  "BuildConfig H input opts snapshot =
     (case gatewayVerdictProviders H input (co_CredentialResolver opts) of
        Inl e \<Rightarrow> Inl e
      | Inr byKey \<Rightarrow>
     (case routeVerdictBindingsByRoute (rc_RouteVerdictProviderBindings input) byKey of
        Inl e \<Rightarrow> Inl e
      | Inr bindings \<Rightarrow>
     (case applyGlobalVerdictProviderFallback byKey bindings of
        Inl e \<Rightarrow> Inl e
      | Inr global \<Rightarrow>
     (case gatewayRouteLimitPolicies input of
        Inl e \<Rightarrow> Inl e
      | Inr routeLimits \<Rightarrow>
     (case gatewayClientRouteLimitOverrides input (routeLimitRouteKeys routeLimits) of
        Inl e \<Rightarrow> Inl e
      | Inr overrides \<Rightarrow>
     (case gatewayProviders input (co_CredentialResolver opts) of
        Inl e \<Rightarrow> Inl e
      | Inr providers \<Rightarrow>
     (case gatewayRoutes input bindings (protectedRouteKeys (rc_Routes input) (rc_GatewayClients input) routeLimits) of
        Inl e \<Rightarrow> Inl e
      | Inr routes \<Rightarrow>
          Inr \<lparr>cfg_ConfigRevisionNumber = rc_Revision input, cfg_MaxBodyBytes = co_MaxBodyBytes opts,
            cfg_UpstreamTimeout = co_UpstreamTimeout opts, cfg_VerdictTimeout = co_VerdictTimeout opts, cfg_Routes = routes,
            cfg_Providers = providers, cfg_Snapshot = snapshot, cfg_VerdictProvider = global, cfg_VerdictProviders = byKey,
            cfg_EventWriter = co_EventWriter opts, cfg_AuditGate = co_AuditGate opts,
            cfg_RawCapturePolicies = gatewayRawCapturePolicies input, cfg_Clients = gatewayClients input,
            cfg_RouteLimits = routeLimits, cfg_ClientRouteLimitOverrides = overrides\<rparr>)))))))"

end
