(* ===== verification/Exchange.thy ===== *)
theory Exchange
  imports Streaming
begin

text \<open>
  One exchange of the gateway from the request to its response: \<open>exchange\_workflow.go\<close> of the
  application, and of the HTTP adapter \<open>openai\_handler.go\<close>, \<open>openai\_workflow.go\<close>,
  \<open>openai\_exchange.go\<close>, \<open>request\_admission.go\<close>, \<open>openai\_policy.go\<close>,
  \<open>openai\_upstream\_request.go\<close> and the dispatch of \<open>server.go\<close>.

  The workflow is generic in its driver; the driver of the HTTP adapter threads the limiter state and
  the effects.  Each operation of the adapter returns its effects.
\<close>

section \<open>The workflow (exchange\_workflow.go)\<close>

text \<open>A driver's operations on a state \<open>'s\<close>.  \<open>PrepareExchange\<close> returns the release function when it
  succeeds, where \<open>None\<close> is a nil function.\<close>

record 's ExchangeWorkflowDriver =
  wd_PrepareExchange :: "'s \<Rightarrow> ('s \<Rightarrow> 's) option option \<times> 's"
  wd_ApplyInputPolicy :: "'s \<Rightarrow> bool \<times> 's"
  wd_ProjectUpstreamRequest :: "'s \<Rightarrow> bool \<times> 's"
  wd_ForwardExchange :: "'s \<Rightarrow> 's"

definition Run_guarded :: "'s ExchangeWorkflowDriver \<Rightarrow> 's \<Rightarrow> bool \<times> 's" where
  "Run_guarded d s =
     (case wd_ApplyInputPolicy d s of
        (False, s) \<Rightarrow> (False, s)
      | (True, s) \<Rightarrow>
          (case wd_ProjectUpstreamRequest d s of
             (False, s) \<Rightarrow> (False, s)
           | (True, s) \<Rightarrow> (True, wd_ForwardExchange d s)))"

text \<open>The release runs when the workflow returns, on every path after the preparation.\<close>

definition Run :: "'s ExchangeWorkflowDriver option \<Rightarrow> 's \<Rightarrow> bool \<times> 's" where
  "Run driver s =
     (case driver of
        None \<Rightarrow> (False, s)
      | Some d \<Rightarrow>
          (case wd_PrepareExchange d s of
             (None, s) \<Rightarrow> (False, s)
           | (Some release_fun, s) \<Rightarrow>
               (let (done, s) = Run_guarded d s in
                (done, case release_fun of None \<Rightarrow> s | Some f \<Rightarrow> f s))))"

section \<open>Admission and request body (request\_admission.go)\<close>

text \<open>The audit gate as the admission use case sees it.\<close>

definition audit_iface :: "server \<Rightarrow> bool \<Rightarrow> bool option" where
  "audit_iface S healthy = (if sv_auditGate S then Some healthy else None)"

definition auditHealthy :: "server \<Rightarrow> bool \<Rightarrow> bool" where
  "auditHealthy S healthy = (\<not> sv_auditGate S \<or> healthy)"

definition route_admission ::
  "server \<Rightarrow> env \<Rightarrow> http_request \<Rightarrow> Route \<Rightarrow> limitState \<Rightarrow> release_handle AdmissionResult \<times> limitState" where
  "route_admission S E r route ls =
     AdmitProtectedRoute
       \<lparr>ad_Authenticator = Some (AuthenticateClient (en_platform E) (sv_clients S)),
        ad_Limits = Some (EffectiveLimitPolicy (sv_limitResolver S)), ad_RateLimiter = Some AllowRate,
        ad_ConcurrencyLimiter = Some acquire_reservation, ad_Audit = audit_iface S (en_healthy_admission E)\<rparr>
       \<lparr>adi_ClientKey = clientKeyFromAuthorization (header_get (hr_Header r) ''Authorization''),
        adi_RouteKey = rt_Key route, adi_DefaultMaxBodyBytes = sv_maxBodyBytes S, adi_Now = en_now E\<rparr> ls"

definition enforceProtectedRoute ::
  "server \<Rightarrow> env \<Rightarrow> http_request \<Rightarrow> requestMeta \<Rightarrow> Route \<Rightarrow> limitState \<Rightarrow>
     (int \<times> release_handle option) option \<times> requestMeta \<times> effect list \<times> limitState" where
  "enforceProtectedRoute S E r meta route ls =
     (let (admission, ls) = route_admission S E r route ls;
          meta = meta\<lparr>meta_clientID := adr_ClientID admission\<rparr>
      in if \<not> adr_Allowed admission
         then (None, meta,
               emit S meta inputBlockedDecisionResult (adr_Reason admission) @ writeProtectedRouteError (adr_Reason admission), ls)
         else (Some (adr_MaxBodyBytes admission, adr_Release admission), meta, [], ls))"

definition readOpenAIRequestBody ::
  "server \<Rightarrow> http_request \<Rightarrow> requestMeta \<Rightarrow> int \<Rightarrow> string option \<times> requestMeta \<times> effect list" where
  "readOpenAIRequestBody S r meta limit =
     (let result = readLimited (hr_Body r) limit;
          (body, tooLarge, err) = (case result of Inl e \<Rightarrow> ([], False, True) | Inr (b, large) \<Rightarrow> (b, large, False));
          decision = ClassifyRequestBody \<lparr>rbi_ReadFailed = err, rbi_TooLarge = tooLarge\<rparr>
      in if \<not> ld_Allowed decision
         then
           (let reason = (if err then ''read_request_error'' else ld_Reason decision) in
            (None, meta, emit S meta inputBlockedDecisionResult reason @
               (if err then writeOpenAIError 400 ''invalid_request'' ''invalid request body''
                else writeLifecycleError (ld_Reason decision))))
         else (Some body, meta\<lparr>meta_requestBody := body, meta_requestBytes := int (length body)\<rparr>, []))"

section \<open>Preparation (openai\_exchange.go)\<close>

record openAIExchange =
  ox_provider :: Provider
  ox_meta :: requestMeta
  ox_request :: openAIRequest

type_synonym preparation = "(openAIExchange \<times> release_handle option) option \<times> effect list \<times> limitState"

text \<open>The deferred clean-up of a failed preparation.\<close>

definition give_up :: "release_handle option \<Rightarrow> effect list \<Rightarrow> limitState \<Rightarrow> preparation" where
  "give_up h effs ls = (None, effs, case h of None \<Rightarrow> ls | Some h \<Rightarrow> release h ls)"

definition blocked_preparation :: "server \<Rightarrow> requestMeta \<Rightarrow> RejectReason \<Rightarrow> effect list" where
  "blocked_preparation S meta reason = emit S meta inputBlockedDecisionResult reason @ writeLifecycleError reason"

text \<open>Decoding, the model mapping and the finished exchange.\<close>

definition prepare_request ::
  "server \<Rightarrow> env \<Rightarrow> http_request \<Rightarrow> Route \<Rightarrow> Provider \<Rightarrow> requestMeta \<Rightarrow> string \<Rightarrow> release_handle option \<Rightarrow> limitState \<Rightarrow>
     preparation" where
  "prepare_request S E r route provider meta body h ls =
     (let parsed = parseOpenAIRequest (en_codec E) (hr_Path r) body;
          mappingInput = (case parsed of
              Inl e \<Rightarrow> \<lparr>mmi_RequestedModel = [], mmi_MappedModel = [], mmi_UpstreamModel = [], mmi_Found = False\<rparr>
            | Inr req \<Rightarrow>
                (let resolved = Resolve (rt_ModelMapping route) (oreq_model req) in
                 \<lparr>mmi_RequestedModel = oreq_model req, mmi_MappedModel = rmm_Mapped resolved,
                  mmi_UpstreamModel = rmm_Upstream resolved, mmi_Found = rmm_Found resolved\<rparr>));
          plan = PlanDecodedRequest \<lparr>dri_DecodeFailed = (case parsed of Inl e \<Rightarrow> True | Inr req \<Rightarrow> False), dri_ModelMapping = mappingInput\<rparr>;
          meta = meta\<lparr>meta_requested := epp_RequestedModel plan, meta_mapped := epp_MappedModel plan,
            meta_upstream := epp_UpstreamModel plan\<rparr>
      in if epp_Action plan = ExchangePreparationActionBlock then give_up h (blocked_preparation S meta (epp_Reason plan)) ls
         else case parsed of
           Inl e \<Rightarrow> give_up h [] ls
         | Inr req \<Rightarrow> (Some (\<lparr>ox_provider = provider, ox_meta = meta, ox_request = req\<rparr>, h), [], ls))"

text \<open>The provider, audit health and, on an unprotected route, the body.\<close>

definition prepare_infrastructure ::
  "server \<Rightarrow> env \<Rightarrow> http_request \<Rightarrow> Route \<Rightarrow> requestMeta \<Rightarrow> string option \<Rightarrow> int \<Rightarrow> release_handle option \<Rightarrow> limitState \<Rightarrow>
     preparation" where
  "prepare_infrastructure S E r route meta body maxBodyBytes h ls =
     (let provider = sv_providers S (rt_ProviderKey route);
          plan = PlanInfrastructure \<lparr>eii_ProviderFound = (provider \<noteq> None), eii_AuditHealthy = auditHealthy S (en_healthy E)\<rparr>
      in if epp_Action plan = ExchangePreparationActionBlock then give_up h (blocked_preparation S meta (epp_Reason plan)) ls
         else case body of
           Some body \<Rightarrow> prepare_request S E r route (the provider) meta body h ls
         | None \<Rightarrow>
             (case readOpenAIRequestBody S r meta maxBodyBytes of
                (None, meta, effs) \<Rightarrow> give_up h effs ls
              | (Some body, meta, effs) \<Rightarrow> prepare_request S E r route (the provider) meta body h ls))"

definition prepareOpenAIExchange :: "server \<Rightarrow> env \<Rightarrow> http_request \<Rightarrow> limitState \<Rightarrow> preparation" where
  "prepareOpenAIExchange S E r ls =
     (let found = sv_routes S \<lparr>rk_method = hr_Method r, rk_path = hr_Path r\<rparr>;
          plan = PlanRouteAvailability (found \<noteq> None)
      in if epp_Action plan = ExchangePreparationActionBlock
         then give_up None (blocked_preparation S (newRequestMeta S E r zero_Route) (epp_Reason plan)) ls
         else
           (let route = the found; meta = newRequestMeta S E r route in
            if routeProtected (sv_limitResolver S) (rt_Key route)
            then
              (case enforceProtectedRoute S E r meta route ls of
                 (None, meta, effs, ls) \<Rightarrow> give_up None effs ls
               | (Some (maxBodyBytes, h), meta, effs, ls) \<Rightarrow>
                   (case readOpenAIRequestBody S r meta maxBodyBytes of
                      (None, meta, effs) \<Rightarrow> give_up h effs ls
                    | (Some body, meta, effs) \<Rightarrow> prepare_infrastructure S E r route meta (Some body) maxBodyBytes h ls))
            else prepare_infrastructure S E r route meta None (sv_maxBodyBytes S) None ls))"

section \<open>Input policy (openai\_policy.go)\<close>

definition rejectInputRequestPlan :: "server \<Rightarrow> requestMeta \<Rightarrow> decisionResult \<Rightarrow> InputRequestPlan \<Rightarrow> effect list option" where
  "rejectInputRequestPlan S meta observed plan =
     (if irp_Action plan \<noteq> InputRequestActionBlock then None
      else Some (emit S meta observed (irp_TerminationReason plan) @ writeLifecycleError (irp_Reason plan)))"

definition redact_exchange ::
  "server \<Rightarrow> env \<Rightarrow> openAIExchange \<Rightarrow> decisionResult \<Rightarrow> bool \<times> openAIExchange \<times> effect list" where
  "redact_exchange S E x d =
     (let (result, req) = redactOpenAIRequest (ox_request x) (dec_Findings (dr_decision d)) (res_MatchedSpans (dr_verdict d));
          redactions = (case result of Inl e \<Rightarrow> 0 | Inr n \<Rightarrow> n);
          x' = x\<lparr>ox_request := req\<rparr>;
          input = (\<lambda>failed. \<lparr>iri_Decision = dr_decision d, iri_Text = oreq_text req, iri_Redactions = redactions, iri_Failed = failed\<rparr>)
      in case rejectInputRequestPlan S (ox_meta x) d (InputRequest_PlanRedaction (input (case result of Inl e \<Rightarrow> True | Inr n \<Rightarrow> False))) of
           Some effs \<Rightarrow> (False, x', effs)
         | None \<Rightarrow>
             (let x' = x'\<lparr>ox_meta := (ox_meta x)\<lparr>meta_redactions := meta_redactions (ox_meta x) + redactions\<rparr>\<rparr> in
              case json_marshal (en_codec E) (map_value (oreq_body req)) of
                None \<Rightarrow> (False, x', case rejectInputRequestPlan S (ox_meta x') d (InputRequest_PlanRedaction (input True)) of
                    None \<Rightarrow> [] | Some effs \<Rightarrow> effs)
              | Some redactedBody \<Rightarrow>
                  (let x' = x'\<lparr>ox_meta := (ox_meta x')\<lparr>meta_requestBody := redactedBody\<rparr>\<rparr> in
                   (True, x', emit S (ox_meta x') d []))))"

definition applyOpenAIInputPolicy :: "server \<Rightarrow> env \<Rightarrow> openAIExchange \<Rightarrow> bool \<times> openAIExchange \<times> effect list" where
  "applyOpenAIInputPolicy S E x =
     (let (d, shadow) = evaluateInput S E (ox_meta x) (oreq_text (ox_request x));
          plan = InputRequest_PlanPolicy (dr_decision d)
      in case rejectInputRequestPlan S (ox_meta x) d plan of
           Some effs \<Rightarrow> (False, x, shadow @ effs)
         | None \<Rightarrow>
             if irp_Action plan = InputRequestActionSend then (True, x, shadow @ emit S (ox_meta x) d [])
             else (let (go, x', effs) = redact_exchange S E x d in (go, x', shadow @ effs)))"

section \<open>Projection (openai\_upstream\_request.go)\<close>

text \<open>\<open>Panicked\<close> marks a panic, which leaves the handler after the deferred release.\<close>

definition projectOpenAIUpstreamRequest :: "server \<Rightarrow> env \<Rightarrow> openAIExchange \<Rightarrow> string option \<times> effect list" where
  "projectOpenAIUpstreamRequest S E x =
     (case encodeOpenAIRequest (en_codec E) (ox_request x) (meta_upstream (ox_meta x)) of
        Inl PanicNilMap \<Rightarrow> (None, [Panicked])
      | encoded \<Rightarrow>
          (let decision = ClassifyUpstreamRequest \<lparr>uqi_ProjectionFailed = (case encoded of Inl e \<Rightarrow> True | Inr b \<Rightarrow> False)\<rparr> in
           if \<not> ld_Allowed decision
           then (None, emit S (ox_meta x) inputBlockedDecisionResult (ld_Reason decision) @ writeLifecycleError (ld_Reason decision))
           else (case encoded of Inl e \<Rightarrow> None | Inr b \<Rightarrow> Some b, [])))"

section \<open>Buffered responses (openai\_policy.go)\<close>

definition rejectOutputResponsePlan :: "server \<Rightarrow> requestMeta \<Rightarrow> decisionResult \<Rightarrow> OutputResponsePlan \<Rightarrow> effect list option" where
  "rejectOutputResponsePlan S meta observed plan =
     (if orp_Action plan \<noteq> OutputResponseActionBlock then None
      else Some (emit S meta (if orp_EmitPolicyDecision plan then observed else outputBlockedDecisionResult)
                   (orp_TerminationReason plan) @ writeLifecycleError (orp_Reason plan)))"

definition response_header :: "http_response \<Rightarrow> header" where
  "response_header resp =
     (let h = copyResponseHeaders [] (rs_Header resp) in
      if header_get h ''Content-Type'' = [] then header_set ''Content-Type'' ''application/json'' h else h)"

definition send_response ::
  "server \<Rightarrow> http_response \<Rightarrow> requestMeta \<Rightarrow> decisionResult \<Rightarrow> OutputResponsePlan \<Rightarrow> string \<Rightarrow> effect list" where
  "send_response S resp meta d plan body =
     emit S meta d (orp_TerminationReason plan) @ [RespondHeader (rs_StatusCode resp) (response_header resp), RespondBytes body]"

definition redact_response ::
  "server \<Rightarrow> env \<Rightarrow> http_request \<Rightarrow> http_response \<Rightarrow> requestMeta \<Rightarrow> decisionResult \<Rightarrow> string \<Rightarrow> string \<Rightarrow> effect list" where
  "redact_response S E r resp meta d responseBody outputText =
     (let result = redactOpenAIResponse (en_codec E) (hr_Path r) responseBody (dec_Findings (dr_decision d)) (res_MatchedSpans (dr_verdict d));
          (redactedBody, redactions, failed) = (case result of Inl e \<Rightarrow> ([], 0, True) | Inr (b, n) \<Rightarrow> (b, n, False));
          plan = OutputResponse_PlanRedaction \<lparr>ord_StatusCode = rs_StatusCode resp, ord_Decision = dr_decision d,
            ord_Text = outputText, ord_Redactions = redactions, ord_Failed = failed\<rparr>
      in case rejectOutputResponsePlan S meta d plan of
           Some effs \<Rightarrow> effs
         | None \<Rightarrow>
             send_response S resp
               (meta\<lparr>meta_responseBody := redactedBody, meta_responseBytes := int (length redactedBody),
                     meta_redactions := meta_redactions meta + redactions\<rparr>) d plan redactedBody)"

definition handle_output ::
  "server \<Rightarrow> env \<Rightarrow> http_request \<Rightarrow> http_response \<Rightarrow> requestMeta \<Rightarrow> string \<Rightarrow> string \<Rightarrow> effect list" where
  "handle_output S E r resp meta responseBody outputText =
     (let (d, shadow) = evaluateOutput S E meta outputText;
          plan = OutputResponse_PlanPolicy \<lparr>opo_StatusCode = rs_StatusCode resp, opo_Decision = dr_decision d\<rparr>
      in shadow @
         (case rejectOutputResponsePlan S meta d plan of
            Some effs \<Rightarrow> effs
          | None \<Rightarrow>
              if orp_Action plan = OutputResponseActionRedact then redact_response S E r resp meta d responseBody outputText
              else send_response S resp meta d plan responseBody))"

definition handleOpenAIResponse :: "server \<Rightarrow> env \<Rightarrow> http_request \<Rightarrow> http_response \<Rightarrow> requestMeta \<Rightarrow> effect list" where
  "handleOpenAIResponse S E r resp meta =
     (let result = readLimited (rs_Body resp) (sv_maxBodyBytes S);
          (responseBody, tooLarge, failed) = (case result of Inl e \<Rightarrow> ([], False, True) | Inr (b, large) \<Rightarrow> (b, large, False))
      in case rejectOutputResponsePlan S meta zero_decisionResult
             (PlanBodyRead \<lparr>obr_StatusCode = rs_StatusCode resp, obr_ReadFailed = failed, obr_TooLarge = tooLarge\<rparr>) of
           Some effs \<Rightarrow> effs
         | None \<Rightarrow>
             (let meta = meta\<lparr>meta_responseBody := responseBody, meta_responseBytes := int (length responseBody)\<rparr>;
                  output = extractOpenAIOutput (en_codec E) (hr_Path r) responseBody
              in case rejectOutputResponsePlan S meta zero_decisionResult
                     (PlanExtraction \<lparr>oex_StatusCode = rs_StatusCode resp,
                        oex_DecodeFailed = (case output of Inl e \<Rightarrow> True | Inr t \<Rightarrow> False)\<rparr>) of
                   Some effs \<Rightarrow> effs
                 | None \<Rightarrow> handle_output S E r resp meta responseBody (case output of Inl e \<Rightarrow> [] | Inr t \<Rightarrow> t)))"

section \<open>Forwarding (openai\_exchange.go)\<close>

text \<open>The answer of \<open>forward\<close>, and the request it sent.\<close>

definition forward :: "env \<Rightarrow> Provider \<Rightarrow> http_request \<Rightarrow> string \<Rightarrow> http_response option \<times> effect list" where
  "forward E provider r body =
     (case forward_request (en_urls E) (en_request_ok E) provider r body of
        None \<Rightarrow> (None, [])
      | Some q \<Rightarrow> (en_upstream E q, [SentUpstream q]))"

definition forwardOpenAIExchange :: "server \<Rightarrow> env \<Rightarrow> http_request \<Rightarrow> openAIExchange \<Rightarrow> string \<Rightarrow> effect list" where
  "forwardOpenAIExchange S E r x upstreamBody =
     (let (answer, sent) = forward E (ox_provider x) r upstreamBody;
          meta = (ox_meta x)\<lparr>meta_upstreamTime := en_upstream_time E\<rparr>;
          plan = PlanForward (answer = None)
      in sent @
         (if uep_Action plan = UpstreamExchangeActionBlock
          then emit S meta outputBlockedDecisionResult (uep_Reason plan) @ writeLifecycleError (uep_Reason plan)
          else
            (let resp = the answer;
                 meta = meta\<lparr>meta_upstreamStatus := word_of_int (rs_StatusCode resp)\<rparr>;
                 plan = PlanResponse (rs_StatusCode resp) (isEventStream (header_get (rs_Header resp) ''Content-Type''))
             in if uep_Action plan = UpstreamExchangeActionBlock
                then emit S meta outputBlockedDecisionResult (uep_Reason plan) @ writeLifecycleError (uep_Reason plan)
                else if uep_Action plan = UpstreamExchangeActionHandleStream then handleStreaming S E r resp meta
                else handleOpenAIResponse S E r resp meta)))"

section \<open>The driver (openai\_workflow.go, openai\_handler.go)\<close>

record exchange_state =
  xs_exchange :: "openAIExchange option"
  xs_upstreamBody :: "string option"
  xs_effects :: "effect list"
  xs_limits :: limitState

definition release_state :: "release_handle option \<Rightarrow> exchange_state \<Rightarrow> exchange_state" where
  "release_state h st = (case h of None \<Rightarrow> st | Some h \<Rightarrow> st\<lparr>xs_limits := release h (xs_limits st)\<rparr>)"

definition openAIWorkflowDriver :: "server \<Rightarrow> env \<Rightarrow> http_request \<Rightarrow> exchange_state ExchangeWorkflowDriver" where
  "openAIWorkflowDriver S E r =
     \<lparr>wd_PrepareExchange = (\<lambda>st.
        (case prepareOpenAIExchange S E r (xs_limits st) of
           (None, effs, ls) \<Rightarrow> (None, st\<lparr>xs_effects := xs_effects st @ effs, xs_limits := ls\<rparr>)
         | (Some (x, h), effs, ls) \<Rightarrow>
             (Some (Some (release_state h)),
              st\<lparr>xs_exchange := Some x, xs_effects := xs_effects st @ effs, xs_limits := ls\<rparr>))),
      wd_ApplyInputPolicy = (\<lambda>st.
        (let (go, x, effs) = applyOpenAIInputPolicy S E (the (xs_exchange st)) in
         (go, st\<lparr>xs_exchange := Some x, xs_effects := xs_effects st @ effs\<rparr>))),
      wd_ProjectUpstreamRequest = (\<lambda>st.
        (let (body, effs) = projectOpenAIUpstreamRequest S E (the (xs_exchange st)) in
         (body \<noteq> None, st\<lparr>xs_upstreamBody := body, xs_effects := xs_effects st @ effs\<rparr>))),
      wd_ForwardExchange = (\<lambda>st.
        st\<lparr>xs_effects := xs_effects st @ forwardOpenAIExchange S E r (the (xs_exchange st)) (the (xs_upstreamBody st))\<rparr>)\<rparr>"

definition handleOpenAI :: "server \<Rightarrow> env \<Rightarrow> http_request \<Rightarrow> limitState \<Rightarrow> effect list \<times> limitState" where
  "handleOpenAI S E r ls =
     (let (done, st) = Run (Some (openAIWorkflowDriver S E r))
            \<lparr>xs_exchange = None, xs_upstreamBody = None, xs_effects = [], xs_limits = ls\<rparr>
      in (xs_effects st, xs_limits st))"

section \<open>Dispatch (server.go)\<close>

definition handleHealth :: "effect list" where
  "handleHealth = [RespondHeader 200 [(''Content-Type'', [''application/json''])], RespondHealth]"

definition handleUnsupported :: "server \<Rightarrow> env \<Rightarrow> http_request \<Rightarrow> effect list" where
  "handleUnsupported S E r =
     emit S (newRequestMeta S E r zero_Route) (blockedDecisionResult DirectionInput) ''unsupported_path'' @
     writeOpenAIError 404 ''unsupported_path'' ''unsupported path''"

definition ServeHTTP :: "server \<Rightarrow> env \<Rightarrow> http_request \<Rightarrow> limitState \<Rightarrow> effect list \<times> limitState" where
  "ServeHTTP S E r ls =
     (if hr_Path r = ''/healthz'' then (handleHealth, ls)
      else if hr_Path r = chatCompletionsPath \<or> hr_Path r = responsesPath then handleOpenAI S E r ls
      else (handleUnsupported S E r, ls))"

end
