(* ===== verification/ServerBuilder.thy ===== *)
theory ServerBuilder
  imports GatewayConfig Exchange
begin

text \<open>
  \<open>server\_builder.go\<close>, \<open>gateway\_runtime.go\<close> and \<open>runtimecompiler/compiler.go\<close>: how a transport
  configuration becomes a server, how the server of the active revision is kept, and how a runtime
  configuration is compiled.

  The limiter state of a server is kept beside it.  Requests are served one after another here; what
  concurrent requests do to the limiter state is the subject of \<open>RouteLimits\_Claims\<close>.
\<close>

section \<open>The server of a configuration\<close>

definition server_route :: "Route \<Rightarrow> Route" where
  "server_route route = (if rt_Execution route = [] then route\<lparr>rt_Execution := ExecutionInline\<rparr> else route)"

definition server_route_key :: "Route \<Rightarrow> routeKey" where
  "server_route_key route = \<lparr>rk_method = (if rt_Method route = [] then ''POST'' else rt_Method route), rk_path = rt_Path route\<rparr>"

definition newServer :: "Config \<Rightarrow> server" where
  "newServer cfg =
     \<lparr>sv_configRevisionNumber = cfg_ConfigRevisionNumber cfg,
      sv_maxBodyBytes = (if cfg_MaxBodyBytes cfg \<le> 0 then defaultMaxBodyBytes else cfg_MaxBodyBytes cfg),
      sv_upstreamTimeout = (if cfg_UpstreamTimeout cfg \<le> 0 then defaultUpstreamTimeout else cfg_UpstreamTimeout cfg),
      sv_verdictTimeout = (if cfg_VerdictTimeout cfg \<le> 0 then defaultVerdictTimeout else cfg_VerdictTimeout cfg),
      sv_routes = fold (\<lambda>route m. m(server_route_key route \<mapsto> server_route route)) (cfg_Routes cfg) Map.empty,
      sv_providers = fold (\<lambda>p m. m(pr_Key p \<mapsto> p)) (cfg_Providers cfg) Map.empty,
      sv_snapshot = cfg_Snapshot cfg, sv_verdict = cfg_VerdictProvider cfg,
      sv_verdictProviders = map_of (cfg_VerdictProviders cfg), sv_events = cfg_EventWriter cfg,
      sv_auditGate = cfg_AuditGate cfg, sv_rawCapturePolicies = cfg_RawCapturePolicies cfg,
      sv_clients = newClientRegistry (cfg_Clients cfg),
      sv_limitResolver = newLimitResolver (cfg_Routes cfg) (cfg_RouteLimits cfg) (cfg_ClientRouteLimitOverrides cfg)\<rparr>"

section \<open>The server of the active revision\<close>

text \<open>A server with its limiter state, and the handler that keeps the server of one revision.\<close>

type_synonym running_server = "server \<times> limitState"

record providerServer =
  ps_revision :: int
  ps_server :: "running_server option"

definition start_server :: "Config \<Rightarrow> running_server" where
  "start_server cfg = (newServer cfg, newLimitState)"

definition currentServer :: "Config \<Rightarrow> providerServer \<Rightarrow> running_server \<times> providerServer" where
  "currentServer cfg st =
     (if cfg_ConfigRevisionNumber cfg = 0 then (start_server cfg, st)
      else case ps_server st of
        Some current \<Rightarrow>
          if ps_revision st = cfg_ConfigRevisionNumber cfg then (current, st)
          else (start_server cfg, st\<lparr>ps_revision := cfg_ConfigRevisionNumber cfg, ps_server := Some (start_server cfg)\<rparr>)
      | None \<Rightarrow> (start_server cfg, st\<lparr>ps_revision := cfg_ConfigRevisionNumber cfg, ps_server := Some (start_server cfg)\<rparr>))"

definition zero_Config :: Config where
  "zero_Config = \<lparr>cfg_ConfigRevisionNumber = 0, cfg_MaxBodyBytes = 0, cfg_UpstreamTimeout = 0, cfg_VerdictTimeout = 0,
     cfg_Routes = [], cfg_Providers = [], cfg_Snapshot = None, cfg_VerdictProvider = None, cfg_VerdictProviders = [],
     cfg_EventWriter = False, cfg_AuditGate = False, cfg_RawCapturePolicies = [], cfg_Clients = [], cfg_RouteLimits = [],
     cfg_ClientRouteLimitOverrides = []\<rparr>"

text \<open>One request.  The limiter state the request leaves is the cached server's, unless the request ran
  on a server of its own.\<close>

definition providerServer_ServeHTTP ::
  "Config option \<Rightarrow> env \<Rightarrow> http_request \<Rightarrow> providerServer \<Rightarrow> effect list \<times> providerServer" where
  "providerServer_ServeHTTP provided E r st =
     (let cfg = (case provided of None \<Rightarrow> zero_Config | Some cfg \<Rightarrow> cfg);
          ((S, ls), st) = currentServer cfg st;
          (effs, ls) = ServeHTTP S E r ls
      in (effs, if cfg_ConfigRevisionNumber cfg = 0 then st else st\<lparr>ps_server := Some (S, ls)\<rparr>))"

text \<open>The handler built from a configuration provider: a static configuration gives a server, any other
  provider a \<open>providerServer\<close> that asks it at every request.\<close>

datatype handler =
    StaticHandler running_server
  | ProviderHandler providerServer

definition NewServer :: "Config \<Rightarrow> handler" where
  "NewServer cfg = StaticHandler (start_server cfg)"

definition NewServerWithProvider :: "Config option \<Rightarrow> handler" where
  "NewServerWithProvider static =
     (case static of
        Some cfg \<Rightarrow> StaticHandler (start_server cfg)
      | None \<Rightarrow> ProviderHandler \<lparr>ps_revision = 0, ps_server = None\<rparr>)"

text \<open>\<open>provided\<close> is what the provider answers at this request.\<close>

definition serve :: "Config option \<Rightarrow> env \<times> http_request \<Rightarrow> handler \<Rightarrow> effect list \<times> handler" where
  "serve provided x h =
     (case h of
        StaticHandler (S, ls) \<Rightarrow> (let (effs, ls) = ServeHTTP S (fst x) (snd x) ls in (effs, StaticHandler (S, ls)))
      | ProviderHandler st \<Rightarrow>
          (let (effs, st) = providerServer_ServeHTTP provided (fst x) (snd x) st in (effs, ProviderHandler st)))"

fun serve_all :: "(Config option \<times> env \<times> http_request) list \<Rightarrow> handler \<Rightarrow> effect list list \<times> handler" where
  "serve_all [] h = ([], h)"
| "serve_all ((provided, x) # xs) h =
     (let (effs, h) = serve provided x h; (rest, h) = serve_all xs h in (effs # rest, h))"

section \<open>Compiled runtimes\<close>

text \<open>The gateway of a compiled runtime that is not the adapter's own type is \<open>None\<close>.\<close>

record CompiledRuntime =
  cr_RevisionNumber :: int
  cr_SnapshotHash :: string
  cr_Gateway :: "Config option"
  cr_LoadedAt :: gotime

definition RouteCount :: "Config \<Rightarrow> int" where
  "RouteCount config = int (length (cfg_Routes config))"

definition GatewayConfigFromRuntime :: "CompiledRuntime \<Rightarrow> Config option" where
  "GatewayConfigFromRuntime compiled = cr_Gateway compiled"

definition NewCompiledServer :: "CompiledRuntime \<Rightarrow> handler option" where
  "NewCompiledServer compiled = (case GatewayConfigFromRuntime compiled of None \<Rightarrow> None | Some config \<Rightarrow> Some (NewServer config))"

definition CurrentConfig :: "CompiledRuntime option \<Rightarrow> Config" where
  "CurrentConfig state =
     (case state of
        None \<Rightarrow> zero_Config
      | Some snapshot \<Rightarrow> (case GatewayConfigFromRuntime snapshot of None \<Rightarrow> zero_Config | Some config \<Rightarrow> config))"

datatype runtime_compile_error =
    RevisionRequired
  | PolicySnapshotError compile_error
  | GatewayConfigError config_error

definition CompileGatewayRuntime ::
  "platform \<Rightarrow> (Bundle list \<Rightarrow> string option) \<Rightarrow> http_env \<Rightarrow> gotime \<Rightarrow> RuntimeConfig \<Rightarrow> CompileOptions \<Rightarrow>
     runtime_compile_error + CompiledRuntime" where
  "CompileGatewayRuntime P marshal H now input opts =
     (if rc_Revision input \<le> 0 then Inl RevisionRequired
      else case CompileSnapshot P marshal (rc_PolicyBundles input) of
        Inl e \<Rightarrow> Inl (PolicySnapshotError e)
      | Inr snapshot \<Rightarrow>
          (case BuildConfig H input opts (Some snapshot) of
             Inl e \<Rightarrow> Inl (GatewayConfigError e)
           | Inr cfg \<Rightarrow>
               Inr \<lparr>cr_RevisionNumber = rc_Revision input, cr_SnapshotHash = snap_hash snapshot, cr_Gateway = Some cfg,
                 cr_LoadedAt = now\<rparr>))"

end
