(* ===== verification/Exchange_Props.thy ===== *)
theory Exchange_Props
  imports Exchange Streaming_Props
begin

text \<open>
  The exchange as a whole: reservations are given back, every exchange answers once, and what is sent
  upstream was permitted.
\<close>

section \<open>The interface of a driver\<close>

text \<open>A driver keeps the limiter state in its own state: a refused preparation leaves the reservations
  as they were, a successful one returns a function that gives back what it took, and the other
  operations do not touch them.\<close>

locale exchange_driver =
  fixes d :: "'s ExchangeWorkflowDriver"
    and limits :: "'s \<Rightarrow> 'l"
    and reserved :: "'l \<Rightarrow> string \<Rightarrow> string \<Rightarrow> int"
    and valid :: "'l \<Rightarrow> bool"
  assumes refused: "valid (limits s) \<Longrightarrow> wd_PrepareExchange d s = (None, s') \<Longrightarrow>
      valid (limits s') \<and> reserved (limits s') = reserved (limits s)"
    and prepared: "valid (limits s) \<Longrightarrow> wd_PrepareExchange d s = (Some f, s') \<Longrightarrow>
      \<exists>g. f = Some g \<and> (\<forall>t. limits t = limits s' \<longrightarrow> valid (limits (g t)) \<and> reserved (limits (g t)) = reserved (limits s))"
    and input_frame: "limits (snd (wd_ApplyInputPolicy d s)) = limits s"
    and project_frame: "limits (snd (wd_ProjectUpstreamRequest d s)) = limits s"
    and forward_frame: "limits (wd_ForwardExchange d s) = limits s"
begin

lemma guarded_frame: "limits (snd (Run_guarded d s)) = limits s"
  using input_frame [of s] project_frame [of "snd (wd_ApplyInputPolicy d s)"]
  by (auto simp: Run_guarded_def forward_frame split: prod.splits bool.splits)

lemma run_balanced:
  assumes "valid (limits s)"
  shows "valid (limits (snd (Run (Some d) s)))" "reserved (limits (snd (Run (Some d) s))) = reserved (limits s)"
proof -
  obtain f s1 where p: "wd_PrepareExchange d s = (f, s1)" by fastforce
  have "valid (limits (snd (Run (Some d) s))) \<and> reserved (limits (snd (Run (Some d) s))) = reserved (limits s)"
  proof (cases f)
    case None
    with p refused [OF assms] show ?thesis by (simp add: Run_def)
  next
    case (Some f')
    obtain g where g: "f' = Some g" "\<forall>t. limits t = limits s1 \<longrightarrow> valid (limits (g t)) \<and> reserved (limits (g t)) = reserved (limits s)"
      using prepared [OF assms p [unfolded Some]] by blast
    obtain fin s2 where r: "Run_guarded d s1 = (fin, s2)" by fastforce
    have "limits s2 = limits s1" using guarded_frame [of s1] r by simp
    with p Some g r show ?thesis by (simp add: Run_def)
  qed
  then show "valid (limits (snd (Run (Some d) s)))" "reserved (limits (snd (Run (Some d) s))) = reserved (limits s)" by auto
qed

end

section \<open>Preparation\<close>

text \<open>What \<open>newServer\<close> builds its registry and resolver from.\<close>

definition server_ok :: "server \<Rightarrow> bool" where
  "server_ok S \<longleftrightarrow> (\<exists>clients routes ps os. sv_clients S = newClientRegistry clients \<and> sv_limitResolver S = newLimitResolver routes ps os)"

text \<open>Giving back \<open>h\<close> in \<open>ls'\<close> restores the reservations of \<open>ls\<close>.\<close>

definition balanced :: "limitState \<Rightarrow> release_handle option \<Rightarrow> limitState \<Rightarrow> bool" where
  "balanced ls h ls' \<longleftrightarrow>
     (let l = (case h of None \<Rightarrow> ls' | Some h \<Rightarrow> release h ls') in limiter_valid l \<and> reserved_for l = reserved_for ls)"

definition balanced_preparation :: "limitState \<Rightarrow> preparation \<Rightarrow> bool" where
  "balanced_preparation ls p \<longleftrightarrow> (case p of (res, effs, ls') \<Rightarrow>
     (case res of None \<Rightarrow> balanced ls None ls' | Some (x, h) \<Rightarrow> balanced ls h ls'))"

lemma balanced_give_up: "balanced ls h ls' \<Longrightarrow> balanced_preparation ls (give_up h effs ls')"
  by (auto simp: balanced_def balanced_preparation_def give_up_def Let_def split: option.splits)

lemma balanced_success: "balanced ls h ls' \<Longrightarrow> balanced_preparation ls (Some (x, h), effs, ls')"
  by (simp add: balanced_preparation_def)

lemma balanced_prepare_request:
  "balanced ls h ls' \<Longrightarrow> balanced_preparation ls (prepare_request S E r route provider meta body h ls')"
  by (auto simp: prepare_request_def Let_def balanced_give_up balanced_success split: sum.split)

lemma balanced_prepare_infrastructure:
  "balanced ls h ls' \<Longrightarrow> balanced_preparation ls (prepare_infrastructure S E r route meta body m h ls')"
  by (auto simp: prepare_infrastructure_def Let_def balanced_give_up balanced_prepare_request split: option.split prod.split)

lemma balanced_admission:
  assumes "server_ok S" "limiter_valid ls" "enforceProtectedRoute S E r meta route ls = (res, meta', effs, ls')"
  shows "balanced ls (case res of None \<Rightarrow> None | Some (m, h) \<Rightarrow> h) ls'"
proof -
  obtain clients routes ps os where S: "sv_clients S = newClientRegistry clients" "sv_limitResolver S = newLimitResolver routes ps os"
    using assms(1) by (auto simp: server_ok_def)
  obtain adm where a: "route_admission S E r route ls = (adm, ls')"
      "res = (if adr_Allowed adm then Some (adr_MaxBodyBytes adm, adr_Release adm) else None)"
    using assms(3) by (auto simp: enforceProtectedRoute_def Let_def split: prod.splits if_splits)
  note adm = a(1) [unfolded route_admission_def S]
  show ?thesis
  proof (cases "adr_Allowed adm")
    case True
    with server_admission.admitted_fair(7) [OF adm assms(2)] a(2) show ?thesis by (auto simp: balanced_def fun_eq_iff)
  next
    case False
    with server_admission.rejected_keeps(2,4) [OF adm] assms(2) a(2) show ?thesis by (auto simp: balanced_def fun_eq_iff)
  qed
qed

lemma balanced_prepare:
  assumes "server_ok S" "limiter_valid ls"
  shows "balanced_preparation ls (prepareOpenAIExchange S E r ls)"
proof -
  have here: "balanced ls None ls" using assms(2) by (simp add: balanced_def)
  have refused: "balanced ls None ls'" if "enforceProtectedRoute S E r meta route ls = (None, meta', effs, ls')" for meta route meta' effs ls'
    using balanced_admission [OF assms that] by simp
  have admitted: "balanced ls h ls'" if "enforceProtectedRoute S E r meta route ls = (Some (m, h), meta', effs, ls')" for meta route m h meta' effs ls'
    using balanced_admission [OF assms that] by simp
  show ?thesis
    by (auto simp: prepareOpenAIExchange_def Let_def here split: option.split prod.split
        intro!: balanced_give_up balanced_prepare_infrastructure dest!: refused admitted)
qed

interpretation openai_driver: exchange_driver "openAIWorkflowDriver S E r" xs_limits reserved_for
    "\<lambda>ls. limiter_valid ls \<and> server_ok S" for S E r
proof
  let ?d = "openAIWorkflowDriver S E r"
  have prep: "balanced_preparation (xs_limits s) (prepareOpenAIExchange S E r (xs_limits s))"
    if "limiter_valid (xs_limits s) \<and> server_ok S" for s
    using that balanced_prepare by blast
  show "(limiter_valid (xs_limits s') \<and> server_ok S) \<and> reserved_for (xs_limits s') = reserved_for (xs_limits s)"
    if "limiter_valid (xs_limits s) \<and> server_ok S" "wd_PrepareExchange ?d s = (None, s')" for s s'
    using prep [OF that(1)] that by (auto simp: openAIWorkflowDriver_def balanced_preparation_def balanced_def split: prod.splits option.splits)
  show "\<exists>g. f = Some g \<and> (\<forall>t. xs_limits t = xs_limits s' \<longrightarrow>
      (limiter_valid (xs_limits (g t)) \<and> server_ok S) \<and> reserved_for (xs_limits (g t)) = reserved_for (xs_limits s))"
    if "limiter_valid (xs_limits s) \<and> server_ok S" "wd_PrepareExchange ?d s = (Some f, s')" for s f s'
    using prep [OF that(1)] that
    by (auto simp: openAIWorkflowDriver_def balanced_preparation_def balanced_def release_state_def Let_def split: prod.splits option.splits)
qed (auto simp: openAIWorkflowDriver_def split: prod.split)


section \<open>What the handlers may do\<close>

text \<open>The heads of responses in a trace, a panic ending the connection instead, and the requests sent.\<close>

fun effect_heads :: "effect \<Rightarrow> nat" where
  "effect_heads (RespondHeader status h) = 1"
| "effect_heads (RespondError status code message) = 1"
| "effect_heads Panicked = 1"
| "effect_heads _ = 0"

fun effect_requests :: "effect \<Rightarrow> upstream_request list" where
  "effect_requests (SentUpstream q) = [q]"
| "effect_requests _ = []"

definition answers :: "effect list \<Rightarrow> nat" where
  "answers effs = sum_list (map effect_heads effs)"

definition requests_sent :: "effect list \<Rightarrow> upstream_request list" where
  "requests_sent effs = concat (map effect_requests effs)"

lemma answers_simps [simp]:
  "answers [] = 0" "answers (e # es) = effect_heads e + answers es" "answers (xs @ ys) = answers xs + answers ys"
  by (simp_all add: answers_def)

lemma requests_simps [simp]:
  "requests_sent [] = []" "requests_sent (e # es) = effect_requests e @ requests_sent es"
  "requests_sent (xs @ ys) = requests_sent xs @ requests_sent ys"
  by (simp_all add: requests_sent_def)

text \<open>A trace that answers \<open>n\<close> times and sends nothing upstream.\<close>

definition replies :: "nat \<Rightarrow> effect list \<Rightarrow> bool" where
  "replies n effs \<longleftrightarrow> answers effs = n \<and> requests_sent effs = []"

lemma replies_Nil [simp]: "replies n [] \<longleftrightarrow> n = 0"
  by (auto simp: replies_def)

lemma replies_append: "replies m xs \<Longrightarrow> replies n ys \<Longrightarrow> replies (m + n) (xs @ ys)"
  by (simp add: replies_def)

lemma replies_after [simp]: "replies 0 xs \<Longrightarrow> replies n (xs @ ys) \<longleftrightarrow> replies n ys"
  by (auto simp: replies_def)

lemma replies_emit [simp]: "replies 0 (emit S meta result termination)"
  by (simp add: emit_def replies_def)

lemma replies_errors [simp]: "replies (Suc 0) (writeOpenAIError st c m)" "replies (Suc 0) (writeLifecycleError reason)"
  "replies (Suc 0) (writeProtectedRouteError reason)" "replies (Suc 0) (blocked_preparation S meta reason)"
  by (simp_all add: replies_def writeOpenAIError_def writeLifecycleError_def writeProtectedRouteError_def blocked_preparation_def
      emit_def split: prod.split)

lemma replies_evaluate: "evaluate S E start took meta dir t = (d, effs) \<Longrightarrow> replies 0 effs"
  by (auto simp: evaluate_def replies_def Let_def split: prod.splits option.splits)

lemma replies_evaluations:
  "evaluateInput S E meta t = (d, effs) \<Longrightarrow> replies 0 effs" "evaluateOutput S E meta t = (d, effs) \<Longrightarrow> replies 0 effs"
  by (auto simp: evaluateInput_def evaluateOutput_def dest: replies_evaluate)

subsection \<open>Streams\<close>

text \<open>The loop only adds effects that are no answers and no requests.\<close>

definition grows :: "stream_state \<Rightarrow> stream_state \<Rightarrow> bool" where
  "grows st st' \<longleftrightarrow> (\<exists>news. ss_out st' = ss_out st @ news \<and> replies 0 news)"

lemma grows_refl [simp]: "grows st st"
  by (auto simp: grows_def intro: exI [of _ "[]"])

lemma grows_trans: "grows a b \<Longrightarrow> grows b c \<Longrightarrow> grows a c"
  unfolding grows_def using replies_append [of 0 _ 0] by fastforce

lemma grows_write: "writeSSEFrame E f st = (ok, st') \<Longrightarrow> grows st st'"
  by (auto simp: writeSSEFrame_def grows_def replies_def Let_def split: if_splits)

lemma grows_inspect: "inspect_frame S E api_path f st = (go, st') \<Longrightarrow> grows st st'"
  by (auto simp: inspect_frame_def terminate_stream_def grows_def replies_def Let_def split: sum.splits prod.splits if_splits)

lemma grows_relay: "relay_frame E f st = (go, st') \<Longrightarrow> grows st st'"
  by (auto simp: relay_frame_def writeSSEFrame_def grows_def replies_def Let_def split: prod.splits if_splits)

lemma grows_loop: "grows st (stream_loop S E api_path p st)"
proof (induction S E api_path p st rule: stream_loop.induct)
  case (1 S E api_path p st)
  obtain x p' where n: "Next p = (x, p')" by fastforce
  show ?case
  proof (cases x)
    case (Inl e)
    with n show ?thesis by (auto simp: stream_loop.simps [of S E api_path p] terminate_stream_def grows_def replies_def)
  next
    case (Inr f)
    obtain go st1 where i: "inspect_frame S E api_path f st = (go, st1)" by fastforce
    obtain on st2 where r: "relay_frame E f st1 = (on, st2)" by fastforce
    note g = grows_inspect [OF i] grows_trans [OF grows_inspect [OF i] grows_relay [OF r]]
    from 1 [OF n [symmetric] Inr] i r g stream_loop_step [OF n [unfolded Inr] i r] show ?thesis
      by (auto split: bool.splits intro: grows_trans)
  qed
qed

lemma grows_flush: "grows st (stream_flush E st)"
  using grows_write [where E = E and st = st] by (auto simp: stream_flush_def intro: prod.collapse [symmetric])

lemma replies_stream [simp]: "replies (Suc 0) (handleStreaming S E r resp meta)"
proof -
  let ?st = "stream_flush E (stream_loop S E (hr_Path r) (NewSSEParser (rs_Body resp)) (stream_start S resp meta))"
  have "grows (stream_start S resp meta) ?st" by (rule grows_trans [OF grows_loop grows_flush])
  then have st: "replies (Suc 0) (ss_out ?st)" by (auto simp: grows_def stream_start_def replies_def)
  have "replies 0 (snd (if c then evaluateOutput S E m t else (d, [])))" for c m t d
    using replies_evaluations(2) [OF prod.collapse [symmetric]] by simp
  from replies_append [OF st this] show ?thesis
    by (simp add: handleStreaming_def stream_finish_def Let_def split_beta replies_def emit_def)
qed

subsection \<open>The other handlers\<close>

lemma replies_reject_input: "rejectInputRequestPlan S meta d plan = Some effs \<Longrightarrow> replies (Suc 0) effs"
  by (auto simp: rejectInputRequestPlan_def split: if_splits)

lemma replies_reject_output: "rejectOutputResponsePlan S meta d plan = Some effs \<Longrightarrow> replies (Suc 0) effs"
  by (auto simp: rejectOutputResponsePlan_def split: if_splits)

lemma replies_send [simp]: "replies (Suc 0) (send_response S resp meta d plan body)"
  by (simp add: send_response_def) (simp add: replies_def)

lemma replies_redact_response [simp]: "replies (Suc 0) (redact_response S E r resp meta d b t)"
  by (auto simp: redact_response_def Let_def split: prod.split option.split dest: replies_reject_output)

lemma replies_handle_output [simp]: "replies (Suc 0) (handle_output S E r resp meta b t)"
proof -
  obtain d shadow where d: "evaluateOutput S E meta t = (d, shadow)" by fastforce
  from replies_evaluations(2) [OF d] show ?thesis
    by (auto simp: handle_output_def d Let_def split: option.split dest: replies_reject_output)
qed

lemma replies_response [simp]: "replies (Suc 0) (handleOpenAIResponse S E r resp meta)"
  by (auto simp: handleOpenAIResponse_def Let_def split: prod.split option.split dest: replies_reject_output)

lemma forward_sends:
  "answers (forwardOpenAIExchange S E r x b) = 1 \<and>
   requests_sent (forwardOpenAIExchange S E r x b) =
     (case forward_request (en_urls E) (en_request_ok E) (ox_provider x) r b of None \<Rightarrow> [] | Some q \<Rightarrow> [q])"
proof -
  have "replies (Suc 0) (emit S meta d t @ writeLifecycleError reason)" for meta d t reason by simp
  note this [unfolded replies_def] replies_stream [unfolded replies_def] replies_response [unfolded replies_def]
  then show ?thesis
    by (auto simp: forwardOpenAIExchange_def forward_def Let_def split: prod.split option.splits)
qed

end
