(* ===== verification/Exchange_Claims.thy ===== *)
theory Exchange_Claims
  imports Exchange_Props Server_Samples
begin

text \<open>The properties of an exchange.\<close>

section \<open>Preparation\<close>

text \<open>A preparation that fails has answered; one that succeeds has done nothing visible, and its
  exchange comes from the request's body.\<close>

definition prepared_from :: "server \<Rightarrow> env \<Rightarrow> http_request \<Rightarrow> Route \<Rightarrow> openAIExchange \<Rightarrow> bool" where
  "prepared_from S E r route x \<longleftrightarrow>
     parseOpenAIRequest (en_codec E) (hr_Path r) (rd_bytes (hr_Body r)) = Inr (ox_request x) \<and>
     sv_providers S (rt_ProviderKey route) = Some (ox_provider x) \<and> meta_route (ox_meta x) = route \<and>
     auditHealthy S (en_healthy E)"

lemma decode_failed_blocks: "epp_Action (PlanDecodedRequest \<lparr>dri_DecodeFailed = True, dri_ModelMapping = m\<rparr>) = ExchangePreparationActionBlock"
  by (simp add: PlanDecodedRequest_def ClassifyDecodedRequest_def)

lemma infrastructure_ok:
  "epp_Action (PlanInfrastructure \<lparr>eii_ProviderFound = found, eii_AuditHealthy = healthy\<rparr>) \<noteq> ExchangePreparationActionBlock \<Longrightarrow>
     found \<and> healthy"
  by (auto simp: PlanInfrastructure_def ClassifyExchangeInfrastructure_def ProviderAvailable_def AuditHealthy_def allowed_def rejected_def
      blockExchangePreparation_def Let_def split: if_splits)

lemma read_body_cases:
  "readOpenAIRequestBody S r meta m = (res, meta', effs) \<Longrightarrow>
     (case res of None \<Rightarrow> replies (Suc 0) effs
      | Some body \<Rightarrow> effs = [] \<and> body = rd_bytes (hr_Body r) \<and> meta_route meta' = meta_route meta)"
  using readLimited_ok [of "hr_Body r" m]
  by (cases "readLimited (hr_Body r) m")
    (auto simp: readOpenAIRequestBody_def ClassifyRequestBody_def allowed_def rejected_def Let_def split: if_splits prod.splits)

lemma prepare_request_cases:
  assumes "prepare_request S E r route provider meta body h ls = (res, effs, ls')" "body = rd_bytes (hr_Body r)"
    "sv_providers S (rt_ProviderKey route) = Some provider" "meta_route meta = route" "auditHealthy S (en_healthy E)"
  shows "case res of None \<Rightarrow> replies (Suc 0) effs | Some (x, h') \<Rightarrow> effs = [] \<and> prepared_from S E r route x"
  using assms decode_failed_blocks
  by (auto simp: prepare_request_def give_up_def prepared_from_def Let_def split: sum.splits if_splits)

lemma prepare_infrastructure_cases:
  assumes "prepare_infrastructure S E r route meta body m h ls = (res, effs, ls')" "meta_route meta = route"
    "\<forall>b. body = Some b \<longrightarrow> b = rd_bytes (hr_Body r)"
  shows "case res of None \<Rightarrow> replies (Suc 0) effs | Some (x, h') \<Rightarrow> effs = [] \<and> prepared_from S E r route x"
proof -
  let ?plan = "PlanInfrastructure \<lparr>eii_ProviderFound = (sv_providers S (rt_ProviderKey route) \<noteq> None), eii_AuditHealthy = auditHealthy S (en_healthy E)\<rparr>"
  show ?thesis
  proof (cases "epp_Action ?plan = ExchangePreparationActionBlock")
    case True
    with assms(1) show ?thesis by (auto simp: prepare_infrastructure_def give_up_def Let_def)
  next
    case False
    note ok = infrastructure_ok [OF False]
    then obtain provider where p: "sv_providers S (rt_ProviderKey route) = Some provider" by auto
    note step = prepare_request_cases [OF _ _ p]
    show ?thesis
    proof (cases body)
      case (Some b)
      with assms False p ok step show ?thesis by (auto simp: prepare_infrastructure_def Let_def)
    next
      case None
      obtain res' meta' effs' where rb: "readOpenAIRequestBody S r meta m = (res', meta', effs')" by (metis prod_cases3)
      note c = read_body_cases [OF rb]
      show ?thesis
      proof (cases res')
        case None
        with assms(1) \<open>body = None\<close> False p rb c show ?thesis by (auto simp: prepare_infrastructure_def give_up_def Let_def)
      next
        case (Some b)
        with assms(1) \<open>body = None\<close> False p rb
        have "prepare_request S E r route provider meta' b h ls = (res, effs, ls')" by (simp add: prepare_infrastructure_def Let_def)
        from step [OF this] c Some assms(2) ok show ?thesis by auto
      qed
    qed
  qed
qed

lemma enforce_cases:
  "enforceProtectedRoute S E r meta route ls = (res, meta', effs, ls') \<Longrightarrow>
     (case res of None \<Rightarrow> replies (Suc 0) effs
      | Some (m, h) \<Rightarrow> effs = [] \<and> meta_route meta' = meta_route meta \<and> adr_Allowed (fst (route_admission S E r route ls)))"
  by (auto simp: enforceProtectedRoute_def Let_def split: prod.splits if_splits)

lemma prepare_cases:
  assumes "prepareOpenAIExchange S E r ls = (res, effs, ls')"
  shows "case res of None \<Rightarrow> replies (Suc 0) effs
    | Some (x, h) \<Rightarrow> effs = [] \<and> (\<exists>route. sv_routes S \<lparr>rk_method = hr_Method r, rk_path = hr_Path r\<rparr> = Some route \<and>
        prepared_from S E r route x \<and>
        (routeProtected (sv_limitResolver S) (rt_Key route) \<longrightarrow> adr_Allowed (fst (route_admission S E r route ls))))"
proof (cases "sv_routes S \<lparr>rk_method = hr_Method r, rk_path = hr_Path r\<rparr>")
  case None
  with assms show ?thesis
    by (auto simp: prepareOpenAIExchange_def PlanRouteAvailability_def RouteAvailable_def rejected_def blockExchangePreparation_def
        give_up_def Let_def)
next
  case (Some route)
  have plan: "epp_Action (PlanRouteAvailability True) \<noteq> ExchangePreparationActionBlock"
    by (simp add: PlanRouteAvailability_def RouteAvailable_def allowed_def continueExchangePreparation_def)
  let ?meta = "newRequestMeta S E r route"
  have route: "meta_route ?meta = route" by (simp add: newRequestMeta_def Let_def)
  show ?thesis
  proof (cases "routeProtected (sv_limitResolver S) (rt_Key route)")
    case False
    with assms Some plan
    have "prepare_infrastructure S E r route ?meta None (sv_maxBodyBytes S) None ls = (res, effs, ls')"
      by (simp add: prepareOpenAIExchange_def Let_def)
    from prepare_infrastructure_cases [OF this route] Some False show ?thesis by (auto split: option.splits)
  next
    case True
    obtain adm meta1 effs1 ls1 where e: "enforceProtectedRoute S E r ?meta route ls = (adm, meta1, effs1, ls1)" by (metis prod_cases4)
    note ec = enforce_cases [OF e]
    show ?thesis
    proof (cases adm)
      case None
      with assms Some plan True e ec show ?thesis by (auto simp: prepareOpenAIExchange_def give_up_def Let_def)
    next
      case adm: (Some mh)
      obtain m h where mh: "mh = (m, h)" by fastforce
      obtain res2 meta2 effs2 where rb: "readOpenAIRequestBody S r meta1 m = (res2, meta2, effs2)" by (metis prod_cases3)
      note rc = read_body_cases [OF rb]
      show ?thesis
      proof (cases res2)
        case None
        with assms Some plan True e adm mh rb rc show ?thesis by (auto simp: prepareOpenAIExchange_def give_up_def Let_def)
      next
        case (Some b)
        with assms \<open>sv_routes S _ = Some route\<close> plan True e adm mh rb
        have "prepare_infrastructure S E r route meta2 (Some b) m h ls1 = (res, effs, ls')"
          by (simp add: prepareOpenAIExchange_def Let_def)
        from prepare_infrastructure_cases [OF this] rc ec Some adm mh route \<open>sv_routes S _ = Some route\<close> True show ?thesis
          by (auto split: option.splits)
      qed
    qed
  qed
qed


section \<open>Input policy and projection\<close>

text \<open>The exchange after the input policy let it pass.\<close>

definition cleared :: "server \<Rightarrow> env \<Rightarrow> openAIExchange \<Rightarrow> openAIExchange \<Rightarrow> bool" where
  "cleared S E x x' \<longleftrightarrow>
     (let d = fst (evaluateInput S E (ox_meta x) (oreq_text (ox_request x))) in
      dec_Action (dr_decision d) \<noteq> ActionBlock \<and> ox_provider x' = ox_provider x \<and>
      meta_upstream (ox_meta x') = meta_upstream (ox_meta x) \<and>
      (if dec_Action (dr_decision d) = ActionRedact
       then \<exists>n. redactOpenAIRequest (ox_request x) (dec_Findings (dr_decision d)) (res_MatchedSpans (dr_verdict d)) = (Inr n, ox_request x') \<and>
         (n \<noteq> 0 \<or> oreq_text (ox_request x) = [])
       else ox_request x' = ox_request x))"

lemma redact_keeps_text: "redactOpenAIRequest req fs ms = (result, req') \<Longrightarrow> oreq_text req' = oreq_text req"
  by (auto simp: redactOpenAIRequest_def Let_def split: prod.splits)

lemma reject_input_iff:
  "rejectInputRequestPlan S meta d plan = None \<longleftrightarrow> irp_Action plan \<noteq> InputRequestActionBlock"
  by (simp add: rejectInputRequestPlan_def)

lemma redact_exchange_cases:
  assumes "redact_exchange S E x d = (go, x', effs)" "dec_Action (dr_decision d) = ActionRedact"
  shows "if go then replies 0 effs \<and> ox_provider x' = ox_provider x \<and> meta_upstream (ox_meta x') = meta_upstream (ox_meta x) \<and>
      (\<exists>n. redactOpenAIRequest (ox_request x) (dec_Findings (dr_decision d)) (res_MatchedSpans (dr_verdict d)) = (Inr n, ox_request x') \<and>
         (n \<noteq> 0 \<or> oreq_text (ox_request x) = []))
    else replies (Suc 0) effs"
proof -
  obtain result req where r: "redactOpenAIRequest (ox_request x) (dec_Findings (dr_decision d)) (res_MatchedSpans (dr_verdict d)) = (result, req)"
    by fastforce
  let ?failed = "case result of Inl e \<Rightarrow> True | Inr n \<Rightarrow> False" and ?n = "case result of Inl e \<Rightarrow> 0 | Inr n \<Rightarrow> n"
  let ?i = "\<lambda>failed. \<lparr>iri_Decision = dr_decision d, iri_Text = oreq_text req, iri_Redactions = ?n, iri_Failed = failed\<rparr>"
  have block: "irp_Action (InputRequest_PlanRedaction (?i f)) = InputRequestActionBlock \<longleftrightarrow> f \<or> (?n = 0 \<and> oreq_text req \<noteq> [])" for f
    using assms(2) by (auto simp: input_redaction_plan)
  show ?thesis
  proof (cases "irp_Action (InputRequest_PlanRedaction (?i ?failed)) = InputRequestActionBlock")
    case True
    then obtain effs' where "rejectInputRequestPlan S (ox_meta x) d (InputRequest_PlanRedaction (?i ?failed)) = Some effs'"
      by (simp add: rejectInputRequestPlan_def)
    with assms(1) replies_reject_input [OF this] show ?thesis by (auto simp: redact_exchange_def r Let_def)
  next
    case False
    then have no: "rejectInputRequestPlan S (ox_meta x) d (InputRequest_PlanRedaction (?i ?failed)) = None"
      by (simp add: reject_input_iff)
    obtain n where n: "result = Inr n" "n \<noteq> 0 \<or> oreq_text req = []" using False block by (cases result) auto
    show ?thesis
    proof (cases "json_marshal (en_codec E) (map_value (oreq_body req))")
      case None
      let ?meta = "(ox_meta x)\<lparr>meta_redactions := meta_redactions (ox_meta x) + n\<rparr>"
      obtain effs' where t: "rejectInputRequestPlan S ?meta d (InputRequest_PlanRedaction (?i True)) = Some effs'"
        using block [of True] by (simp add: rejectInputRequestPlan_def)
      with None no n(1) have "\<exists>y. redact_exchange S E x d = (False, y, effs')" by (simp add: redact_exchange_def r Let_def)
      with assms(1) replies_reject_input [OF t] show ?thesis by auto
    next
      case (Some b)
      with assms(1) no n redact_keeps_text [OF r] r show ?thesis
        by (auto simp: redact_exchange_def Let_def)
    qed
  qed
qed

lemma apply_cases:
  assumes "applyOpenAIInputPolicy S E x = (go, x', effs)"
  shows "if go then replies 0 effs \<and> cleared S E x x' else replies (Suc 0) effs"
proof -
  obtain d shadow where d: "evaluateInput S E (ox_meta x) (oreq_text (ox_request x)) = (d, shadow)" by fastforce
  note shadow = replies_evaluations(1) [OF d]
  let ?plan = "InputRequest_PlanPolicy (dr_decision d)"
  show ?thesis
  proof (cases "irp_Action ?plan = InputRequestActionBlock")
    case True
    then obtain effs' where "rejectInputRequestPlan S (ox_meta x) d ?plan = Some effs'" by (simp add: rejectInputRequestPlan_def)
    with assms replies_reject_input [OF this] shadow show ?thesis by (auto simp: applyOpenAIInputPolicy_def d Let_def)
  next
    case False
    then have no: "rejectInputRequestPlan S (ox_meta x) d ?plan = None" and nb: "dec_Action (dr_decision d) \<noteq> ActionBlock"
      by (auto simp: reject_input_iff input_policy_plan)
    show ?thesis
    proof (cases "dec_Action (dr_decision d) = ActionRedact")
      case True
      then have plan: "irp_Action ?plan \<noteq> InputRequestActionSend" using nb by (simp add: input_policy_plan)
      obtain go' y effs' where y: "redact_exchange S E x d = (go', y, effs')" by (metis prod_cases3)
      with assms no plan have "go = go'" "x' = y" "effs = shadow @ effs'" by (simp_all add: applyOpenAIInputPolicy_def d Let_def)
      with redact_exchange_cases [OF y True] shadow nb True show ?thesis by (cases go') (auto simp: cleared_def d Let_def)
    next
      case False
      then have "irp_Action ?plan = InputRequestActionSend" using nb by (simp add: input_policy_plan)
      with no have "applyOpenAIInputPolicy S E x = (True, x, shadow @ emit S (ox_meta x) d [])"
        by (simp add: applyOpenAIInputPolicy_def d Let_def)
      from trans [OF assms [symmetric] this] have "go" "x' = x" "effs = shadow @ emit S (ox_meta x) d []" by simp_all
      with shadow nb False show ?thesis by (simp add: cleared_def d)
    qed
  qed
qed

lemma project_cases:
  "projectOpenAIUpstreamRequest S E x = (res, effs) \<Longrightarrow>
     (case res of None \<Rightarrow> replies (Suc 0) effs
      | Some b \<Rightarrow> effs = [] \<and> encodeOpenAIRequest (en_codec E) (ox_request x) (meta_upstream (ox_meta x)) = Inr b)"
  by (auto simp: projectOpenAIUpstreamRequest_def ClassifyUpstreamRequest_def allowed_def rejected_def Let_def
      split: sum.splits protocol_error.splits) (auto simp: replies_def)

section \<open>The whole exchange\<close>

text \<open>Everything that has happened before a request was sent upstream.\<close>

definition sent_after :: "server \<Rightarrow> env \<Rightarrow> http_request \<Rightarrow> limitState \<Rightarrow> upstream_request \<Rightarrow> bool" where
  "sent_after S E r ls q \<longleftrightarrow>
     (\<exists>route x x'. sv_routes S \<lparr>rk_method = hr_Method r, rk_path = hr_Path r\<rparr> = Some route \<and>
        (routeProtected (sv_limitResolver S) (rt_Key route) \<longrightarrow> adr_Allowed (fst (route_admission S E r route ls))) \<and>
        prepared_from S E r route x \<and> cleared S E x x' \<and>
        encodeOpenAIRequest (en_codec E) (ox_request x') (meta_upstream (ox_meta x')) = Inr (uq_Body q))"

lemma handle_cases:
  assumes "handleOpenAI S E r ls = (effs, ls')"
  shows "answers effs = 1 \<and> (\<forall>q\<in>set (requests_sent effs). sent_after S E r ls q)"
proof -
  obtain p effs1 ls1 where p: "prepareOpenAIExchange S E r ls = (p, effs1, ls1)" by (metis prod_cases3)
  note pc = prepare_cases [OF p]
  note unfold = handleOpenAI_def Run_def Run_guarded_def openAIWorkflowDriver_def release_state_def p Let_def
  show ?thesis
  proof (cases p)
    case None
    with assms pc show ?thesis by (auto simp: unfold replies_def)
  next
    case (Some xh)
    obtain x h where xh: "xh = (x, h)" by fastforce
    obtain go x' effs2 where a: "applyOpenAIInputPolicy S E x = (go, x', effs2)" by (metis prod_cases3)
    note ac = apply_cases [OF a]
    show ?thesis
    proof (cases go)
      case False
      with assms pc ac Some xh a show ?thesis by (auto simp: unfold replies_def split: option.splits)
    next
      case True
      obtain b effs3 where b: "projectOpenAIUpstreamRequest S E x' = (b, effs3)" by fastforce
      note bc = project_cases [OF b]
      show ?thesis
      proof (cases b)
        case None
        with assms pc ac bc Some xh a True b show ?thesis by (auto simp: unfold replies_def split: option.splits)
      next
        case body: (Some body)
        have effs: "effs = effs1 @ effs2 @ effs3 @ forwardOpenAIExchange S E r x' body"
          using assms Some xh a True b body by (auto simp: unfold split: option.splits)
        have "uq_Body q = body" if "q \<in> set (requests_sent (forwardOpenAIExchange S E r x' body))" for q
          using that forward_sends [of S E r x' body] by (auto simp: forward_request_def split: option.splits if_splits)
        with effs pc ac bc Some xh True body forward_sends [of S E r x' body] show ?thesis
          by (auto simp: replies_def sent_after_def)
      qed
    qed
  qed
qed


text \<open>What a buffered answer writes.\<close>

fun effect_bytes :: "effect \<Rightarrow> string list" where
  "effect_bytes (RespondBytes b) = [b]"
| "effect_bytes _ = []"

definition bytes_written :: "effect list \<Rightarrow> string list" where
  "bytes_written effs = concat (map effect_bytes effs)"

lemma bytes_simps [simp]:
  "bytes_written [] = []" "bytes_written (e # es) = effect_bytes e @ bytes_written es"
  "bytes_written (xs @ ys) = bytes_written xs @ bytes_written ys"
  by (simp_all add: bytes_written_def)

lemma bytes_quiet [simp]: "bytes_written (emit S meta d t) = []" "bytes_written (writeLifecycleError reason) = []"
  by (simp_all add: emit_def writeLifecycleError_def writeOpenAIError_def split: prod.split)

lemma bytes_evaluate: "evaluateOutput S E meta t = (d, effs) \<Longrightarrow> bytes_written effs = []"
  by (auto simp: evaluateOutput_def evaluate_def Let_def split: prod.splits option.splits)

lemma bytes_reject: "rejectOutputResponsePlan S meta d plan = Some effs \<Longrightarrow> bytes_written effs = []"
  by (auto simp: rejectOutputResponsePlan_def split: if_splits)

lemma reject_output_iff: "rejectOutputResponsePlan S meta d plan = None \<longleftrightarrow> orp_Action plan \<noteq> OutputResponseActionBlock"
  by (simp add: rejectOutputResponsePlan_def)

text \<open>When the bytes \<open>b\<close> may be written for the answer \<open>resp\<close>: its body was read whole, its text
  extracted and inspected, and \<open>b\<close> is the body, or its redaction if the decision asks for one.\<close>

definition response_permitted :: "server \<Rightarrow> env \<Rightarrow> http_request \<Rightarrow> http_response \<Rightarrow> requestMeta \<Rightarrow> string \<Rightarrow> bool" where
  "response_permitted S E r resp meta b \<longleftrightarrow>
     (\<exists>body t d. readLimited (rs_Body resp) (sv_maxBodyBytes S) = Inr (body, False) \<and> rs_StatusCode resp < 400 \<and>
        extractOpenAIOutput (en_codec E) (hr_Path r) body = Inr t \<and>
        d = fst (evaluateOutput S E (meta\<lparr>meta_responseBody := body, meta_responseBytes := int (length body)\<rparr>) t) \<and>
        dec_Action (dr_decision d) \<noteq> ActionBlock \<and>
        (if dec_Action (dr_decision d) = ActionRedact
         then \<exists>n. redactOpenAIResponse (en_codec E) (hr_Path r) body (dec_Findings (dr_decision d))
               (res_MatchedSpans (dr_verdict d)) = Inr (b, n) \<and> (n \<noteq> 0 \<or> t = [])
         else b = body))"

lemma bytes_send [simp]: "bytes_written (send_response S resp meta d plan b) = [b]"
  by (simp add: send_response_def)

lemma body_read_plan: "orp_Action (PlanBodyRead i) = (if obr_StatusCode i \<ge> 400 \<or> obr_ReadFailed i \<or> obr_TooLarge i
   then OutputResponseActionBlock else OutputResponseActionExtractText)"
  by (simp add: plan_defs)

lemma extraction_plan: "orp_Action (PlanExtraction i) = (if oex_StatusCode i \<ge> 400 \<or> oex_DecodeFailed i
   then OutputResponseActionBlock else OutputResponseActionEvaluatePolicy)"
  by (simp add: plan_defs)

lemma redact_response_bytes:
  assumes "b \<in> set (bytes_written (redact_response S E r resp meta d body t))" "dec_Action (dr_decision d) = ActionRedact"
  shows "\<exists>n. redactOpenAIResponse (en_codec E) (hr_Path r) body (dec_Findings (dr_decision d)) (res_MatchedSpans (dr_verdict d)) =
    Inr (b, n) \<and> (n \<noteq> 0 \<or> t = [])"
proof (cases "redactOpenAIResponse (en_codec E) (hr_Path r) body (dec_Findings (dr_decision d)) (res_MatchedSpans (dr_verdict d))")
  case (Inl e)
  with assms show ?thesis
    by (auto simp: redact_response_def output_redaction_plan rejectOutputResponsePlan_def Let_def split: if_splits)
next
  case (Inr a)
  with assms show ?thesis
    by (cases a) (auto simp: redact_response_def output_redaction_plan rejectOutputResponsePlan_def Let_def split: if_splits)
qed

lemma handle_output_bytes:
  assumes "b \<in> set (bytes_written (handle_output S E r resp meta body t))" "d = fst (evaluateOutput S E meta t)"
  shows "dec_Action (dr_decision d) \<noteq> ActionBlock \<and>
    (if dec_Action (dr_decision d) = ActionRedact
     then \<exists>n. redactOpenAIResponse (en_codec E) (hr_Path r) body (dec_Findings (dr_decision d))
           (res_MatchedSpans (dr_verdict d)) = Inr (b, n) \<and> (n \<noteq> 0 \<or> t = [])
     else b = body)"
proof -
  obtain shadow where d: "evaluateOutput S E meta t = (d, shadow)" using assms(2) by (cases "evaluateOutput S E meta t") simp
  note quiet = bytes_evaluate [OF d]
  let ?plan = "OutputResponse_PlanPolicy \<lparr>opo_StatusCode = rs_StatusCode resp, opo_Decision = dr_decision d\<rparr>"
  show ?thesis
  proof (cases "rejectOutputResponsePlan S meta d ?plan")
    case (Some effs)
    with assms(1) quiet bytes_reject [OF Some] show ?thesis by (simp add: handle_output_def d Let_def)
  next
    case None
    then have nb: "dec_Action (dr_decision d) \<noteq> ActionBlock" by (auto simp: reject_output_iff output_policy_plan)
    show ?thesis
    proof (cases "dec_Action (dr_decision d) = ActionRedact")
      case True
      then have "orp_Action ?plan = OutputResponseActionRedact" using None by (auto simp: reject_output_iff output_policy_plan)
      with assms(1) None quiet have "b \<in> set (bytes_written (redact_response S E r resp meta d body t))"
        by (simp add: handle_output_def d Let_def)
      from redact_response_bytes [OF this True] nb True show ?thesis by simp
    next
      case False
      then have "orp_Action ?plan \<noteq> OutputResponseActionRedact" by (simp add: output_policy_plan)
      with assms(1) None quiet nb False show ?thesis by (simp add: handle_output_def d Let_def)
    qed
  qed
qed

section \<open>Properties\<close>



text \<open>C15. Serving a request leaves every reservation as it was, on all paths including the rejected,
  the failed and the panicking ones, and keeps the limiter's invariant.\<close>

theorem reservations_balanced:
  assumes "server_ok S" "limiter_valid ls"
  shows "limiter_valid (snd (ServeHTTP S E r ls)) \<and> reserved_for (snd (ServeHTTP S E r ls)) = reserved_for ls"
proof -
  let ?st = "\<lparr>xs_exchange = None, xs_upstreamBody = None, xs_effects = [], xs_limits = ls\<rparr>"
  show ?thesis
    using openai_driver.run_balanced [of ?st S E r] assms by (simp add: ServeHTTP_def handleOpenAI_def split_beta)
qed

text \<open>C2. Every byte of a buffered answer that reaches the client was inspected: the body was read within
  the limit, its text extracted and not blocked, and what is written is that body, or the redaction of
  it when the decision asks for one.\<close>

theorem response_bytes_permitted:
  "list_all (response_permitted S E r resp meta) (bytes_written (handleOpenAIResponse S E r resp meta))"
proof (cases "readLimited (rs_Body resp) (sv_maxBodyBytes S)")
  case (Inl e)
  then show ?thesis by (auto simp: handleOpenAIResponse_def rejectOutputResponsePlan_def body_read_plan Let_def)
next
  case (Inr a)
  obtain body large where a: "a = (body, large)" by fastforce
  show ?thesis
  proof (cases "large \<or> rs_StatusCode resp \<ge> 400")
    case True
    with Inr a show ?thesis by (auto simp: handleOpenAIResponse_def rejectOutputResponsePlan_def body_read_plan Let_def)
  next
    case ok: False
    show ?thesis
    proof (cases "extractOpenAIOutput (en_codec E) (hr_Path r) body")
      case (Inl e)
      with Inr a ok show ?thesis
        by (auto simp: handleOpenAIResponse_def rejectOutputResponsePlan_def body_read_plan extraction_plan Let_def)
    next
      case t: (Inr t)
      let ?meta = "meta\<lparr>meta_responseBody := body, meta_responseBytes := int (length body)\<rparr>"
      have "handleOpenAIResponse S E r resp meta = handle_output S E r resp ?meta body t"
        using Inr a ok t by (simp add: handleOpenAIResponse_def rejectOutputResponsePlan_def body_read_plan extraction_plan Let_def)
      moreover have "response_permitted S E r resp meta b" if b: "b \<in> set (bytes_written (handle_output S E r resp ?meta body t))" for b
        unfolding response_permitted_def
      proof (rule exI [of _ body], rule exI [of _ t], rule exI [of _ "fst (evaluateOutput S E ?meta t)"], intro conjI)
        note h = handle_output_bytes [OF b refl]
        show "dec_Action (dr_decision (fst (evaluateOutput S E ?meta t))) \<noteq> ActionBlock" by (rule conjunct1 [OF h])
        show "if dec_Action (dr_decision (fst (evaluateOutput S E ?meta t))) = ActionRedact
            then \<exists>n. redactOpenAIResponse (en_codec E) (hr_Path r) body (dec_Findings (dr_decision (fst (evaluateOutput S E ?meta t))))
                (res_MatchedSpans (dr_verdict (fst (evaluateOutput S E ?meta t)))) = Inr (b, n) \<and> (n \<noteq> 0 \<or> t = [])
            else b = body" by (rule conjunct2 [OF h])
      qed (use Inr a ok t in simp_all)
      ultimately show ?thesis by (simp add: list_all_iff)
    qed
  qed
qed

text \<open>The gateway status an event records is the status the client was answered with, for every
  reason of rejection but one: a failed redaction is answered with 502, and when the decision was to
  redact the event records 200.\<close>

theorem event_status_matches_answer:
  "list_all (\<lambda>reason. trafficEventGatewayStatus 0 reason (dr_decision inputBlockedDecisionResult) = word_of_int (fst (lifecycle_error reason)))
     [RejectUnsupportedPath, RejectMissingProvider, RejectAuditSinkUnhealthy, RejectMissingModelMapping, RejectInvalidJSON,
      RejectInvalidRequest, RejectRequestTooLarge, RejectUpstreamError, RejectUpstreamResponseTooLarge, RejectBlockedInput,
      RejectBlockedOutput] \<and>
   list_all (\<lambda>reason. trafficEventGatewayStatus 0 reason (dr_decision inputBlockedDecisionResult) = word_of_int (fst (protected_route_error reason)))
     [RejectMissingClientKey, RejectInvalidClientKey, RejectDisabledClientKey, RejectRevokedClientKey, RejectMissingLimitPolicy,
      RejectAuditSinkUnhealthy, RejectRateLimitExceeded, RejectConcurrencyLimitExceeded] \<and>
   fst (lifecycle_error RejectRedactionFailed) = 502 \<and>
   trafficEventGatewayStatus 0 RejectRedactionFailed (zero_Decision\<lparr>dec_Action := ActionRedact\<rparr>) = 200"
  by (simp add: trafficEventGatewayStatus_def lifecycle_error_def protected_route_error_def authStatus_def
      inputBlockedDecisionResult_def blockedDecisionResult_def kg_consts)

section \<open>Witnesses\<close>

theorem reservations_balanced_witness:
  "reserved_for (snd (ServeHTTP (sample_server None None) (sample_env None) (sample_http_request chatCompletionsPath ''request'')
     newLimitState)) ''c'' ''r'' = 0"
proof -
  have "server_ok (sample_server None None)" by (auto simp: server_ok_def sample_server_def)
  moreover have "limiter_valid newLimitState" by (simp add: limiter_valid_def newLimitState_def)
  ultimately show ?thesis
    using reservations_balanced [of "sample_server None None" newLimitState]
    by (simp add: reserved_for_def concurrency_of_def newLimitState_def)
qed

end
