(* ===== verification/ServerBuilder_Claims.thy ===== *)
theory ServerBuilder_Claims
  imports ServerBuilder Exchange_Claims
begin

text \<open>The properties of the configuration compiler and of the server it builds, composed with those of an
  exchange.\<close>

section \<open>The built server\<close>

lemma newServer_ok: "server_ok (newServer cfg)"
  by (auto simp: server_ok_def newServer_def)

lemma fold_map_update:
  "fold (\<lambda>x m. m(k x \<mapsto> v x)) xs m key = Some y \<Longrightarrow> m key = Some y \<or> (\<exists>x\<in>set xs. k x = key \<and> v x = y)"
proof (induction xs arbitrary: m)
  case (Cons x xs)
  from Cons.IH [of "m(k x \<mapsto> v x)"] Cons.prems show ?case by (auto split: if_splits)
qed simp

lemma newServer_route:
  "sv_routes (newServer cfg) key = Some route \<Longrightarrow> \<exists>r\<in>set (cfg_Routes cfg). route = server_route r"
  by (auto simp: newServer_def dest!: fold_map_update)

lemma server_route_Key [simp]: "rt_Key (server_route r) = rt_Key r"
  by (simp add: server_route_def)

section \<open>The built configuration\<close>

text \<open>What a successful compilation consists of.\<close>

lemma BuildConfig_Inr:
  assumes "BuildConfig H input opts snapshot = Inr cfg"
  obtains byKey bindings where
    "gatewayVerdictProviders H input (co_CredentialResolver opts) = Inr byKey"
    "routeVerdictBindingsByRoute (rc_RouteVerdictProviderBindings input) byKey = Inr bindings"
    "gatewayRouteLimitPolicies input = Inr (cfg_RouteLimits cfg)"
    "gatewayClientRouteLimitOverrides input (routeLimitRouteKeys (cfg_RouteLimits cfg)) = Inr (cfg_ClientRouteLimitOverrides cfg)"
    "gatewayProviders input (co_CredentialResolver opts) = Inr (cfg_Providers cfg)"
    "gatewayRoutes input bindings (protectedRouteKeys (rc_Routes input) (rc_GatewayClients input) (cfg_RouteLimits cfg)) =
       Inr (cfg_Routes cfg)"
    "cfg_Clients cfg = gatewayClients input" "cfg_ConfigRevisionNumber cfg = rc_Revision input" "cfg_VerdictProviders cfg = byKey"
  using assms unfolding BuildConfig_def by (auto split: sum.splits)

lemma gatewayRoutes_Inr:
  "gatewayRoutes input bindings protected = Inr routes \<Longrightarrow> route \<in> set routes \<Longrightarrow>
     \<exists>r\<in>set (rc_Routes input). \<not> rtc_Disabled r \<and> rt_Key route = rtc_Key r \<and> rt_RequireClientAuth route = (rtc_Key r \<in> protected)"
  by (force simp: gatewayRoutes_def gateway_route_def Let_def split: sum.splits prod.splits)

definition limit_record :: "RouteLimitConfig \<Rightarrow> RouteLimitPolicy" where
  "limit_record r = \<lparr>lp_RouteKey = rlc_RouteKey r, lp_RequestsPerWindow = rlc_RequestsPerWindow r, lp_Window = rlc_Window r,
     lp_MaxConcurrentRequests = rlc_MaxConcurrentRequests r, lp_MaxBodyBytes = rlc_MaxBodyBytes r, lp_Enabled = True\<rparr>"

lemma gatewayRouteLimitPolicies_Inr:
  assumes "gatewayRouteLimitPolicies input = Inr limits"
  shows "limits = map limit_record (filter (\<lambda>r. \<not> rlc_Disabled r) (rc_RouteLimits input))"
    "p \<in> set limits \<Longrightarrow> validRouteLimitPolicy p \<and> lp_RouteKey p \<in> enabledRouteKeys (rc_Routes input)"
proof -
  let ?keys = "enabledRouteKeys (rc_Routes input)"
  let ?bad = "\<lambda>r. if rlc_RouteKey r \<notin> ?keys then Some (LimitUnknownRoute (rlc_RouteKey r))
    else if \<not> validLimitValues (rlc_RequestsPerWindow r) (rlc_Window r) (rlc_MaxConcurrentRequests r) (rlc_MaxBodyBytes r)
    then Some (LimitNotPositive (rlc_RouteKey r)) else None"
  have "route_limit_step ?keys r acc = (if rlc_Disabled r then Inr acc else case ?bad r of Some e \<Rightarrow> Inl e
      | None \<Rightarrow> Inr (acc @ [limit_record r]))" for r acc
    by (simp add: route_limit_step_def limit_record_def)
  then have "(\<forall>r\<in>set (rc_RouteLimits input). \<not> rlc_Disabled r \<longrightarrow> ?bad r = None) \<and>
      limits = [] @ map limit_record (filter (\<lambda>r. \<not> rlc_Disabled r) (rc_RouteLimits input))"
    using assms unfolding gatewayRouteLimitPolicies_def by (subst fold_err_collect [symmetric]) auto
  then show l: "limits = map limit_record (filter (\<lambda>r. \<not> rlc_Disabled r) (rc_RouteLimits input))"
    and "p \<in> set limits \<Longrightarrow> validRouteLimitPolicy p \<and> lp_RouteKey p \<in> ?keys"
    by (auto simp: limit_record_def validRouteLimitPolicy_def validLimitValues_def enabledRouteKeys_def split: if_splits)
qed

text \<open>With a client configured, a route of the server that has a key is protected.\<close>

lemma built_route_protected:
  assumes "BuildConfig H input opts snapshot = Inr cfg" "rc_GatewayClients input \<noteq> []"
    and "sv_routes (newServer cfg) key = Some route" "rt_Key route \<noteq> []"
  shows "routeProtected (sv_limitResolver (newServer cfg)) (rt_Key route)"
proof -
  obtain r where r: "r \<in> set (cfg_Routes cfg)" "route = server_route r" using newServer_route [OF assms(3)] by blast
  obtain bindings where "gatewayRoutes input bindings (protectedRouteKeys (rc_Routes input) (rc_GatewayClients input) (cfg_RouteLimits cfg)) =
      Inr (cfg_Routes cfg)" using BuildConfig_Inr [OF assms(1)] by blast
  then have "rt_RequireClientAuth r" using gatewayRoutes_Inr [OF _ r(1)] assms(2,4) r(2) by (fastforce simp: protectedRouteKeys_def Let_def)
  with r assms(4) show ?thesis by (auto simp: newServer_def routeProtected_iff)
qed

text \<open>What an admission to a protected route of the server shows.\<close>

lemma built_admission:
  assumes "limiter_valid ls" "adr_Allowed (fst (route_admission (newServer cfg) E r route ls))"
  shows "\<exists>cid. credential_of (en_platform E) (cfg_Clients cfg) (clientKeyFromAuthorization (header_get (hr_Header r) ''Authorization'')) cid"
    "\<exists>p\<in>set (cfg_RouteLimits cfg). validRouteLimitPolicy p \<and> lp_RouteKey p = rt_Key route"
proof -
  obtain adm ls' where a: "route_admission (newServer cfg) E r route ls = (adm, ls')" by fastforce
  have S: "sv_clients (newServer cfg) = newClientRegistry (cfg_Clients cfg)"
    "sv_limitResolver (newServer cfg) = newLimitResolver (cfg_Routes cfg) (cfg_RouteLimits cfg) (cfg_ClientRouteLimitOverrides cfg)"
    by (simp_all add: newServer_def)
  have "adr_Allowed adm" using assms(2) a by simp
  note fair = server_admission.admitted_fair [OF a [unfolded route_admission_def S] assms(1) this]
  from fair(1) show "\<exists>cid. credential_of (en_platform E) (cfg_Clients cfg) (clientKeyFromAuthorization (header_get (hr_Header r) ''Authorization'')) cid"
    by auto
  from fair(2) show "\<exists>p\<in>set (cfg_RouteLimits cfg). validRouteLimitPolicy p \<and> lp_RouteKey p = rt_Key route" by simp
qed

text \<open>C3. When the active configuration has a gateway client and its enabled routes have keys, nothing is
  sent upstream for a caller who does not present the credential of an enabled client of that
  configuration, nor on a route without an enabled limit of positive values.\<close>

theorem configured_clients_are_required:
  assumes "BuildConfig H input opts snapshot = Inr cfg" "rc_GatewayClients input \<noteq> []"
    and "\<forall>r\<in>set (rc_Routes input). rtc_Disabled r \<or> rtc_Key r \<noteq> []"
    and "limiter_valid ls" "q \<in> set (requests_sent (fst (handleOpenAI (newServer cfg) E r ls)))"
  shows "(\<exists>cid. credential_of (en_platform E) (gatewayClients input)
        (clientKeyFromAuthorization (header_get (hr_Header r) ''Authorization'')) cid) \<and>
    (\<exists>route. sv_routes (newServer cfg) \<lparr>rk_method = hr_Method r, rk_path = hr_Path r\<rparr> = Some route \<and>
      (\<exists>l\<in>set (rc_RouteLimits input). \<not> rlc_Disabled l \<and> rlc_RouteKey l = rt_Key route \<and>
        validLimitValues (rlc_RequestsPerWindow l) (rlc_Window l) (rlc_MaxConcurrentRequests l) (rlc_MaxBodyBytes l)))"
proof -
  obtain route where r: "sv_routes (newServer cfg) \<lparr>rk_method = hr_Method r, rk_path = hr_Path r\<rparr> = Some route"
      "routeProtected (sv_limitResolver (newServer cfg)) (rt_Key route) \<longrightarrow> adr_Allowed (fst (route_admission (newServer cfg) E r route ls))"
    using handle_cases [OF prod.collapse [symmetric]] assms(5) unfolding sent_after_def by blast
  obtain bindings where b: "cfg_Clients cfg = gatewayClients input" "gatewayRouteLimitPolicies input = Inr (cfg_RouteLimits cfg)"
      "gatewayRoutes input bindings (protectedRouteKeys (rc_Routes input) (rc_GatewayClients input) (cfg_RouteLimits cfg)) = Inr (cfg_Routes cfg)"
    using BuildConfig_Inr [OF assms(1)] by blast
  have "rt_Key route \<noteq> []" using newServer_route [OF r(1)] gatewayRoutes_Inr [OF b(3)] assms(3) by fastforce
  with r(2) built_route_protected [OF assms(1,2) r(1)] have "adr_Allowed (fst (route_admission (newServer cfg) E r route ls))" by blast
  note adm = built_admission [OF assms(4) this]
  obtain p where p: "p \<in> set (cfg_RouteLimits cfg)" "validRouteLimitPolicy p" "lp_RouteKey p = rt_Key route" using adm(2) by blast
  then obtain l where l: "l \<in> set (rc_RouteLimits input)" "\<not> rlc_Disabled l" "p = limit_record l"
    using gatewayRouteLimitPolicies_Inr(1) [OF b(2)] by auto
  with p have "rlc_RouteKey l = rt_Key route \<and>
      validLimitValues (rlc_RequestsPerWindow l) (rlc_Window l) (rlc_MaxConcurrentRequests l) (rlc_MaxBodyBytes l)"
    by (auto simp: limit_record_def validRouteLimitPolicy_def validLimitValues_def)
  with l adm(1) b(1) r(1) show ?thesis by auto
qed

section \<open>The server of the active revision\<close>

text \<open>The handler that asks for the configuration at every request is in step with a running server.\<close>

definition in_step :: "Config \<Rightarrow> providerServer \<Rightarrow> running_server \<Rightarrow> bool" where
  "in_step cfg st s \<longleftrightarrow>
     (if ps_revision st = cfg_ConfigRevisionNumber cfg \<and> ps_server st \<noteq> None then ps_server st = Some s else s = start_server cfg)"

lemma serve_in_step:
  assumes "in_step cfg st s" "cfg_ConfigRevisionNumber cfg \<noteq> 0"
  shows "\<exists>effs st' s'. serve (Some cfg) x (ProviderHandler st) = (effs, ProviderHandler st') \<and>
    serve None x (StaticHandler s) = (effs, StaticHandler s') \<and> in_step cfg st' s'"
proof -
  have "\<exists>st1. currentServer cfg st = (s, st1) \<and> ps_revision st1 = cfg_ConfigRevisionNumber cfg"
    using assms by (cases "ps_server st") (auto simp: in_step_def currentServer_def split: if_splits)
  then obtain st1 where c: "currentServer cfg st = (s, st1)" "ps_revision st1 = cfg_ConfigRevisionNumber cfg" by blast
  obtain S ls where s: "s = (S, ls)" by fastforce
  obtain effs ls' where r: "ServeHTTP S (fst x) (snd x) ls = (effs, ls')" by fastforce
  show ?thesis
    using c s r assms(2) by (simp add: serve_def providerServer_ServeHTTP_def in_step_def)
qed

lemma serve_all_in_step:
  "in_step cfg st s \<Longrightarrow> cfg_ConfigRevisionNumber cfg \<noteq> 0 \<Longrightarrow>
     fst (serve_all (map (Pair (Some cfg)) xs) (ProviderHandler st)) = fst (serve_all (map (Pair None) xs) (StaticHandler s))"
proof (induction xs arbitrary: st s)
  case (Cons x xs)
  obtain effs st' s' where n: "serve (Some cfg) x (ProviderHandler st) = (effs, ProviderHandler st')"
      "serve None x (StaticHandler s) = (effs, StaticHandler s')" "in_step cfg st' s'"
    using serve_in_step [OF Cons.prems, of x] by blast
  with Cons.IH [OF n(3) Cons.prems(2)] show ?case by (simp add: split_beta)
qed simp

text \<open>C26. While the provider keeps answering one configuration with a revision number, the handler that
  asks it at every request refines the static server of that configuration: it gives the same answers
  and effects, its limits included.  When the revision is not the one it holds, it starts that server
  anew, with no reservation and full rate windows.\<close>

theorem provider_refines_static_server:
  assumes "cfg_ConfigRevisionNumber cfg \<noteq> 0" "ps_server st = None \<or> ps_revision st \<noteq> cfg_ConfigRevisionNumber cfg"
  shows "fst (serve_all (map (Pair (Some cfg)) xs) (ProviderHandler st)) = fst (serve_all (map (Pair None) xs) (NewServer cfg))"
  unfolding NewServer_def by (rule serve_all_in_step [OF _ assms(1)]) (use assms(2) in \<open>auto simp: in_step_def\<close>)

section \<open>Witnesses\<close>

text \<open>A configuration with one client and one route, and a request of that client that is sent upstream.\<close>

definition sample_runtime_config :: RuntimeConfig where
  "sample_runtime_config = \<lparr>rc_Revision = 1,
     rc_Routes = [\<lparr>rtc_Key = ''r'', rtc_Method = [], rtc_Path = chatCompletionsPath, rtc_ProviderKey = ''p'', rtc_RequestedModel = [],
       rtc_MappedModel = [], rtc_UpstreamModel = ''m'', rtc_ExecutionMode = [], rtc_FallbackAction = [], rtc_Disabled = False\<rparr>],
     rc_Providers = [\<lparr>pvc_Key = ''p'', pvc_BaseURL = ''base'', pvc_APIKey = ''k'', pvc_CredentialRef = [], pvc_Headers = [],
       pvc_Timeout = 0, pvc_Disabled = False\<rparr>],
     rc_ModelMappings = [], rc_VerdictProviders = [], rc_RouteVerdictProviderBindings = [], rc_Sinks = [], rc_Retention = [],
     rc_PolicyBundles = [], rc_RawCapture = [],
     rc_GatewayClients = [\<lparr>gcc_ID = ''c'', gcc_Name = ''C'', gcc_Status = StatusEnabled, gcc_KeyPrefix = ''p'',
       gcc_KeyHash = HashKey sample_platform ''p.s''\<rparr>],
     rc_RouteLimits = [\<lparr>rlc_RouteKey = ''r'', rlc_RequestsPerWindow = 1, rlc_Window = 5, rlc_MaxConcurrentRequests = 1,
       rlc_MaxBodyBytes = 10, rlc_Disabled = False\<rparr>],
     rc_ClientRouteLimitOverrides = []\<rparr>"

definition sample_options :: CompileOptions where
  "sample_options = \<lparr>co_MaxBodyBytes = 0, co_UpstreamTimeout = 0, co_VerdictTimeout = 0, co_EventWriter = True,
     co_AuditGate = False, co_CredentialResolver = None\<rparr>"

definition sample_route :: Route where
  "sample_route = \<lparr>rt_Key = ''r'', rt_Method = [], rt_Path = chatCompletionsPath, rt_ProviderKey = ''p'', rt_VerdictProviderKey = [],
     rt_ModelMapping = \<lparr>mm_Requested = [], mm_Mapped = [], mm_Upstream = ''m''\<rparr>, rt_Execution = [], rt_Fallback = [],
     rt_RequireClientAuth = True\<rparr>"

definition sample_config :: Config where
  "sample_config = \<lparr>cfg_ConfigRevisionNumber = 1, cfg_MaxBodyBytes = 0, cfg_UpstreamTimeout = 0, cfg_VerdictTimeout = 0,
     cfg_Routes = [sample_route], cfg_Providers = [sample_upstream_provider], cfg_Snapshot = None, cfg_VerdictProvider = None,
     cfg_VerdictProviders = [], cfg_EventWriter = True, cfg_AuditGate = False, cfg_RawCapturePolicies = [],
     cfg_Clients = [sample_client], cfg_RouteLimits = [sample_route_limit], cfg_ClientRouteLimitOverrides = []\<rparr>"

lemma sample_builds: "BuildConfig H sample_runtime_config sample_options None = Inr sample_config"
proof -
  have limits: "gatewayRouteLimitPolicies sample_runtime_config = Inr [sample_route_limit]"
    by (simp add: gatewayRouteLimitPolicies_def route_limit_step_def sample_runtime_config_def enabledRouteKeys_def validLimitValues_def
        sample_route_limit_def)
  moreover have "gatewayVerdictProviders H sample_runtime_config None = Inr []"
    by (simp add: gatewayVerdictProviders_def sample_runtime_config_def)
  moreover have "routeVerdictBindingsByRoute (rc_RouteVerdictProviderBindings sample_runtime_config) [] = Inr []"
    by (simp add: routeVerdictBindingsByRoute_def sample_runtime_config_def)
  moreover have "gatewayClientRouteLimitOverrides sample_runtime_config keys = Inr []" for keys
    by (simp add: gatewayClientRouteLimitOverrides_def sample_runtime_config_def)
  moreover have "gatewayProviders sample_runtime_config None = Inr [sample_upstream_provider]"
    by (simp add: gatewayProviders_def provider_step_def providerAPIKey_def sample_runtime_config_def sample_upstream_provider_def)
  moreover have "gatewayRoutes sample_runtime_config [] (protectedRouteKeys (rc_Routes sample_runtime_config)
      (rc_GatewayClients sample_runtime_config) [sample_route_limit]) = Inr [sample_route]"
    by (simp add: gatewayRoutes_def modelMappingsByRoute_def gateway_route_def protectedRouteKeys_def sample_runtime_config_def
        sample_route_limit_def sample_route_def Let_def)
  moreover have "gatewayRawCapturePolicies sample_runtime_config = []" "gatewayClients sample_runtime_config = [sample_client]"
    by (simp_all add: gatewayRawCapturePolicies_def gatewayClients_def sample_runtime_config_def sample_client_def)
  ultimately show ?thesis
    by (simp add: BuildConfig_def applyGlobalVerdictProviderFallback_def sample_options_def)
      (simp add: sample_runtime_config_def sample_config_def)
qed

definition sample_sender :: json_codec where
  "sample_sender = \<lparr>json_unmarshal_map = json_unmarshal_map sample_codec, json_marshal = (\<lambda>v. Some ''sent'')\<rparr>"

definition sample_call :: http_request where
  "sample_call = (sample_http_request chatCompletionsPath ''request'')\<lparr>hr_Header := [(''Authorization'', [''p.s''])]\<rparr>"

definition sample_world :: env where
  "sample_world = (sample_env None)\<lparr>en_codec := sample_sender\<rparr>"

abbreviation sample_running :: server where
  "sample_running \<equiv> newServer sample_config"

lemma sample_header: "clientKeyFromAuthorization (header_get (hr_Header sample_call) ''Authorization'') = ''p.s''"
proof -
  have "TrimSpace ''p.s'' = ''p.s''" by (simp add: TrimSpace_id byte_def is_space_def in_range_def)
  moreover have "header_get (hr_Header sample_call) ''Authorization'' = ''p.s''"
    by (simp add: sample_call_def sample_http_request_def header_get_def header_values_def CanonicalHeaderKey_def token_char_def
       upper_char_def lower_char_def byte_def of_byte_def in_range_def)
  ultimately show ?thesis by (simp add: clientKeyFromAuthorization_def)
qed

lemma sample_route_found:
  "sv_routes sample_running \<lparr>rk_method = hr_Method sample_call, rk_path = hr_Path sample_call\<rparr> = Some (server_route sample_route)"
  by (simp add: newServer_def sample_config_def server_route_key_def sample_route_def sample_call_def sample_http_request_def)

lemma sample_protected: "routeProtected (sv_limitResolver sample_running) ''r''"
  by (simp add: newServer_def sample_config_def routeProtected_iff sample_route_def)

lemma sample_admission_ok:
  "\<exists>ls'. route_admission sample_running sample_world sample_call (server_route sample_route) newLimitState =
     (\<lparr>adr_Allowed = True, adr_Reason = [], adr_ClientID = ''c'', adr_MaxBodyBytes = 10,
       adr_Release = Some \<lparr>rh_once = 0, rh_key = limitKey ''c'' ''r''\<rparr>\<rparr>, ls')"
proof -
  have "EffectiveLimitPolicy (sv_limitResolver sample_running) ''c'' ''r'' =
      Some \<lparr>lim_RequestsPerWindow = 1, lim_Window = 5, lim_MaxConcurrentRequests = 1, lim_MaxBodyBytes = 10\<rparr>"
    by (simp add: newServer_def sample_config_def EffectiveLimitPolicy_def effectivePolicy_def newLimitResolver_def add_policy_def
        add_route_def sample_route_def validRouteLimitPolicy_def sample_route_limit_def)
  moreover have "sv_clients sample_running = newClientRegistry [sample_client]" "sv_auditGate sample_running = False"
    by (simp_all add: newServer_def sample_config_def)
  moreover have "en_platform sample_world = sample_platform" "en_now sample_world = 1"
    by (simp_all add: sample_world_def sample_env_def)
  ultimately show ?thesis
    by (simp add: route_admission_def sample_header AdmitProtectedRoute_def sample_authenticates audit_iface_def
      sample_route_def AllowRate_def allowRate_def acquire_reservation_def AcquireConcurrency_def acquireConcurrency_def
      limit_as_route_policy_def newLimitState_def rate_of_def concurrency_of_def Let_def)
qed

lemma sample_read: "readOpenAIRequestBody S sample_call meta 10 =
    (Some ''request'', meta\<lparr>meta_requestBody := ''request'', meta_requestBytes := 7\<rparr>, [])"
  by (simp add: readOpenAIRequestBody_def sample_call_def sample_http_request_def readLimited_def ClassifyRequestBody_def allowed_def Let_def)

lemma sample_infrastructure:
  "\<exists>x. prepare_infrastructure sample_running sample_world sample_call (server_route sample_route) meta (Some ''request'') 10 h ls =
     (Some (x, h), [], ls) \<and> ox_request x = sample_openai_request \<and> ox_provider x = sample_upstream_provider \<and> meta_upstream (ox_meta x) = ''m''"
proof -
  have parsed: "parseOpenAIRequest sample_sender chatCompletionsPath ''request'' = Inr sample_openai_request"
    using sample_request_parsed by (simp add: parseOpenAIRequest_def sample_sender_def)
  have "sv_providers sample_running ''p'' = Some sample_upstream_provider" "sv_auditGate sample_running = False"
    by (simp_all add: newServer_def sample_config_def sample_upstream_provider_def)
  moreover have "hr_Path sample_call = chatCompletionsPath" "en_codec sample_world = sample_sender"
    by (simp_all add: sample_call_def sample_http_request_def sample_world_def)
  moreover have "oreq_model sample_openai_request = []" by (simp add: sample_openai_request_def)
  ultimately show ?thesis
    by (simp add: prepare_infrastructure_def prepare_request_def parsed sample_route_def server_route_def auditHealthy_def
        PlanInfrastructure_def ClassifyExchangeInfrastructure_def ProviderAvailable_def AuditHealthy_def allowed_def
        continueExchangePreparation_def Resolve_def PlanDecodedRequest_def ClassifyDecodedRequest_def ResolveModelMapping_def Let_def
        EnforcementResult.defs LifecycleDecision.defs ModelMappingResult.defs)
qed

lemma sample_allows:
  "\<exists>d shadow. evaluateInput sample_running sample_world meta text = (d, shadow) \<and> dec_Action (dr_decision d) = ActionAllow"
proof -
  have "sv_snapshot sample_running = None" "sv_verdict sample_running = None" "sv_verdictProviders sample_running = Map.empty"
    by (simp_all add: newServer_def sample_config_def)
  then show ?thesis
    by (simp add: evaluateInput_def evaluate_def verdictProvider_def TrafficEvaluation_Evaluate_def EvaluatePolicyOnly_def
        evaluatePolicyTimed_def decisionResultFromTrafficEvaluation_def PolicyEvaluator_Evaluate_def server_snapshot_def Evaluate_def Let_def
        split: prod.split option.split)
qed

lemma sample_exchange_sends:
  "\<exists>q. requests_sent (fst (handleOpenAI sample_running sample_world sample_call newLimitState)) = [q] \<and> uq_Body q = ''sent''"
proof -
  let ?meta = "newRequestMeta sample_running sample_world sample_call (server_route sample_route)"
  obtain ls' where adm: "route_admission sample_running sample_world sample_call (server_route sample_route) newLimitState =
     (\<lparr>adr_Allowed = True, adr_Reason = [], adr_ClientID = ''c'', adr_MaxBodyBytes = 10,
       adr_Release = Some \<lparr>rh_once = 0, rh_key = limitKey ''c'' ''r''\<rparr>\<rparr>, ls')" using sample_admission_ok by blast
  let ?meta' = "?meta\<lparr>meta_clientID := ''c'', meta_requestBody := ''request'', meta_requestBytes := 7\<rparr>"
  let ?h = "Some \<lparr>rh_once = 0, rh_key = limitKey ''c'' ''r''\<rparr>"
  obtain x where x: "prepare_infrastructure sample_running sample_world sample_call (server_route sample_route) ?meta' (Some ''request'') 10 ?h ls' =
      (Some (x, ?h), [], ls')" "ox_request x = sample_openai_request" "ox_provider x = sample_upstream_provider" "meta_upstream (ox_meta x) = ''m''"
    using sample_infrastructure by blast
  have prep: "prepareOpenAIExchange sample_running sample_world sample_call newLimitState = (Some (x, ?h), [], ls')"
    using x(1) by (simp add: prepareOpenAIExchange_def sample_route_found sample_protected enforceProtectedRoute_def adm sample_read
        PlanRouteAvailability_def RouteAvailable_def allowed_def continueExchangePreparation_def sample_route_def [THEN arg_cong, of rt_Key]
        Let_def)
  obtain d shadow where d: "evaluateInput sample_running sample_world (ox_meta x) (oreq_text (ox_request x)) = (d, shadow)"
      "dec_Action (dr_decision d) = ActionAllow" using sample_allows by blast
  have "irp_Action (InputRequest_PlanPolicy (dr_decision d)) = InputRequestActionSend"
    using d(2) by (simp add: input_policy_plan kg_consts)
  then have policy: "applyOpenAIInputPolicy sample_running sample_world x = (True, x, shadow @ emit sample_running (ox_meta x) d [])"
    by (simp add: applyOpenAIInputPolicy_def d(1) rejectInputRequestPlan_def Let_def)
  have "encodeOpenAIRequest (en_codec sample_world) (ox_request x) (meta_upstream (ox_meta x)) = Inr ''sent''"
    by (simp add: x encodeOpenAIRequest_def sample_openai_request_def sample_world_def sample_sender_def)
  then have project: "projectOpenAIUpstreamRequest sample_running sample_world x = (Some ''sent'', [])"
    by (simp add: projectOpenAIUpstreamRequest_def ClassifyUpstreamRequest_def allowed_def Let_def)
  have "\<exists>q. forward_request (en_urls sample_world) (en_request_ok sample_world) (ox_provider x) sample_call ''sent'' = Some q \<and> uq_Body q = ''sent''"
    by (simp add: x forward_request_def sample_world_def sample_env_def joinURL_def sample_upstream_provider_def Let_def)
  then have sends: "\<exists>q. requests_sent (forwardOpenAIExchange sample_running sample_world sample_call x ''sent'') = [q] \<and> uq_Body q = ''sent''"
    using forward_sends by (metis option.simps(5))
  have "requests_sent shadow = []" using replies_evaluations(1) [OF d(1)] by (simp add: replies_def)
  with sends show ?thesis
    by (simp add: handleOpenAI_def Run_def Run_guarded_def openAIWorkflowDriver_def prep policy project release_state_def emit_def)
qed

lemma sample_is_ready: "limiter_valid newLimitState" "rc_GatewayClients sample_runtime_config \<noteq> []"
    "\<forall>r\<in>set (rc_Routes sample_runtime_config). rtc_Disabled r \<or> rtc_Key r \<noteq> []"
  by (simp_all add: limiter_valid_def newLimitState_def sample_runtime_config_def)

theorem configured_clients_are_required_witness:
  "\<exists>q. requests_sent (fst (handleOpenAI sample_running sample_world sample_call newLimitState)) = [q] \<and>
     credential_of sample_platform (gatewayClients sample_runtime_config) ''p.s'' ''c''"
proof -
  obtain q where q: "requests_sent (fst (handleOpenAI sample_running sample_world sample_call newLimitState)) = [q]"
    using sample_exchange_sends by blast
  then have "\<exists>cid. credential_of (en_platform sample_world) (gatewayClients sample_runtime_config)
      (clientKeyFromAuthorization (header_get (hr_Header sample_call) ''Authorization'')) cid"
    using configured_clients_are_required [OF sample_builds sample_is_ready(2,3,1), of q sample_world sample_call] by auto
  then obtain cid where "credential_of sample_platform (gatewayClients sample_runtime_config) ''p.s'' cid"
    by (auto simp: sample_header sample_world_def sample_env_def)
  moreover from this have "cid = ''c''" by (auto simp: credential_of_def gatewayClients_def sample_runtime_config_def)
  ultimately show ?thesis using q by blast
qed

theorem provider_refines_static_server_witness:
  "fst (serve_all [(Some sample_config, sample_world, sample_call), (Some sample_config, sample_world, sample_call)] (NewServerWithProvider None)) =
   fst (serve_all [(None, sample_world, sample_call), (None, sample_world, sample_call)] (NewServer sample_config))"
  using provider_refines_static_server [of sample_config "\<lparr>ps_revision = 0, ps_server = None\<rparr>"
      "[(sample_world, sample_call), (sample_world, sample_call)]"]
  by (simp add: NewServerWithProvider_def sample_config_def)

end
