(* ===== verification/Spool.thy ===== *)
theory Spool
  imports Traffic Strings "HOL-Library.AList" Prelude
begin

text \<open>
  The file spool of \<open>internal/contexts/traffic/adapters/events\<close>: \<open>spool.go\<close>, \<open>spool\_records.go\<close>,
  \<open>spool\_claims.go\<close>, \<open>spool\_overflow.go\<close> and \<open>spool\_stats.go\<close>.

  The state is the \<open>FileSpool\<close> together with its directory: an association list from the names of
  record files, relative to the directory, to their content and modification time.  The file of the
  overflow count is a field of its own, and temporary files are left out: no listing shows their names.
  An operation is a function of this state with a result or an error.  System calls and tests of the
  context may fail at any point: each one takes the next entry of \<open>sp_faults\<close>, and succeeds when the list
  is empty.  The operations hold the spool's mutex and the lock of the directory, so an execution is a
  sequence of operations; the clock stands still within one.  JSON is the parameter \<open>J\<close>.
\<close>

section \<open>State\<close>

record spoolRecord =
  sr_ID :: string
  sr_CreatedAt :: gotime
  sr_RetryCount :: uint16
  sr_LastError :: string
  sr_Event :: Event

record SpooledEvent =
  se_ID :: string
  se_Path :: string
  se_Event :: Event
  se_CreatedAt :: gotime
  se_RetryCount :: uint16
  se_LastError :: string
  se_SizeBytes :: int

record SpoolStats =
  st_Depth :: int
  st_Bytes :: int
  st_MaxBytes :: int
  st_OldestAge :: duration
  st_OverflowCount :: uint64

record spool_file =
  f_data :: string
  f_mtime :: gotime

record spool =
  sp_maxBytes :: int
  sp_maxAge :: duration
  sp_claimTimeout :: duration
  sp_now :: gotime
  sp_pid :: nat
  sp_sequence :: nat
  sp_overflowCount :: uint64
  sp_overflowFile :: "string option"
  sp_dir :: "(string \<times> spool_file) list"
  sp_faults :: "bool list"

record spool_codec =
  sc_marshal :: "spoolRecord \<Rightarrow> string option"
  sc_unmarshal :: "string \<Rightarrow> spoolRecord option"
  sc_clean :: "Event \<Rightarrow> Event"

datatype spool_error =
    SpoolDirRequired
  | MaxBytesNotPositive
  | ContextDone
  | SystemCallFailed
  | MarshalFailed
  | RecordNotDecoded
  | OverflowNotDecoded
  | ErrSpoolFull int int

section \<open>Operations with errors\<close>

type_synonym 'a spool_op = "(spool, spool_error, 'a) effect"

definition fallible :: "spool_error \<Rightarrow> unit spool_op" where
  "fallible e = (\<lambda>s. case sp_faults s of
       [] \<Rightarrow> (Inr (), s)
     | b # bs \<Rightarrow> (if b then Inr () else Inl e, s\<lparr>sp_faults := bs\<rparr>))"

definition sys :: "unit spool_op" where
  "sys = fallible SystemCallFailed"

definition sys_calls :: "nat \<Rightarrow> unit spool_op" where
  "sys_calls n = for_each (\<lambda>_. sys) [0..<n]"

text \<open>\<open>ctx.Err()\<close>; the background context is never done.\<close>

definition check_ctx :: "bool \<Rightarrow> unit spool_op" where
  "check_ctx cancellable = (if cancellable then fallible ContextDone else ret ())"

section \<open>Names\<close>

fun cut_str :: "string \<Rightarrow> string \<Rightarrow> (string \<times> string) option" where
  "cut_str sep [] = (if sep = [] then Some ([], []) else None)"
| "cut_str sep (c # cs) =
     (if has_prefix sep (c # cs) then Some ([], drop (length sep) (c # cs))
      else map_option (\<lambda>(a, b). (c # a, b)) (cut_str sep cs))"

abbreviation has_suffix :: "string \<Rightarrow> string \<Rightarrow> bool" where
  "has_suffix sfx s \<equiv> drop (length s - length sfx) s = sfx \<and> length sfx \<le> length s"

definition pad :: "nat \<Rightarrow> string \<Rightarrow> string" where
  "pad w s = replicate (w - length s) CHR ''0'' @ s"

text \<open>The formats \<open>%020d\<close> and \<open>%016d\<close>.\<close>

definition pad_int :: "nat \<Rightarrow> int \<Rightarrow> string" where
  "pad_int w i = (if i < 0 then ''-'' @ pad (w - 1) (dec (nat (- i))) else pad w (dec (nat i)))"

definition unix_epoch :: gotime where
  "unix_epoch = 62135596800000000000"

definition safe_name :: "string \<Rightarrow> string" where
  "safe_name s = map (\<lambda>c. if c = CHR ''/'' \<or> c = CHR 0x5C \<or> c = CHR '':'' then CHR ''_'' else c) s"

definition format_id :: "gotime \<Rightarrow> nat \<Rightarrow> string \<Rightarrow> string" where
  "format_id createdAt seq eventID =
     pad_int 20 (createdAt - unix_epoch) @ ''-'' @ pad 16 (dec seq) @ ''-'' @
     safe_name (if eventID = [] then ''event'' else eventID)"

definition recordID :: "gotime \<Rightarrow> string \<Rightarrow> string spool_op" where
  "recordID createdAt eventID =
     and_then (modify (\<lambda>s. s\<lparr>sp_sequence := sp_sequence s + 1\<rparr>)) (\<lambda>_.
     get (\<lambda>s. format_id createdAt (sp_sequence s) eventID))"

definition record_name :: "string \<Rightarrow> string" where
  "record_name i = i @ ''.json''"

definition trim_json :: "string \<Rightarrow> string" where
  "trim_json n = (if has_suffix ''.json'' n then take (length n - 5) n else n)"

definition claimPath :: "string \<Rightarrow> string spool_op" where
  "claimPath n =
     and_then (modify (\<lambda>s. s\<lparr>sp_sequence := sp_sequence s + 1\<rparr>)) (\<lambda>_.
     get (\<lambda>s. trim_json n @ ''.inflight.'' @ dec (sp_pid s) @ ''.'' @ dec (sp_sequence s)))"

definition originalRecordPath :: "string \<Rightarrow> string" where
  "originalRecordPath n = (case cut_str ''.inflight.'' n of Some (base, rest) \<Rightarrow> base @ ''.json'' | None \<Rightarrow> n)"

definition is_claim :: "string \<Rightarrow> bool" where
  "is_claim n \<longleftrightarrow> cut_str ''.inflight.'' n \<noteq> None"

section \<open>Files\<close>

definition lookup_file :: "spool \<Rightarrow> string \<Rightarrow> spool_file option" where
  "lookup_file s n = map_of (sp_dir s) n"

definition put_file :: "string \<Rightarrow> spool_file \<Rightarrow> unit spool_op" where
  "put_file n f = modify (\<lambda>s. s\<lparr>sp_dir := AList.update n f (sp_dir s)\<rparr>)"

definition delete_file :: "string \<Rightarrow> unit spool_op" where
  "delete_file n = modify (\<lambda>s. s\<lparr>sp_dir := AList.delete n (sp_dir s)\<rparr>)"

definition syncDir :: "unit spool_op" where
  "syncDir = sys_calls 2"

text \<open>\<open>os.Remove\<close>, where a missing file is no error.\<close>

definition remove_file :: "string \<Rightarrow> unit spool_op" where
  "remove_file n = and_then sys (\<lambda>_. delete_file n)"

text \<open>\<open>os.Rename\<close>: whether the file was there.  The modification time stays.\<close>

definition rename_file :: "string \<Rightarrow> string \<Rightarrow> bool spool_op" where
  "rename_file old new =
     and_then sys (\<lambda>_. and_then (get (\<lambda>s. lookup_file s old)) (\<lambda>f.
       case f of
         None \<Rightarrow> ret False
       | Some f \<Rightarrow> and_then (delete_file old) (\<lambda>_. and_then (put_file new f) (\<lambda>_. ret True))))"

text \<open>Create, write, sync and close a temporary file, rename it, and sync the directory.\<close>

definition writeRecord :: "string \<Rightarrow> string \<Rightarrow> unit spool_op" where
  "writeRecord i payload =
     and_then (sys_calls 5) (\<lambda>_. and_then (get sp_now) (\<lambda>now.
     and_then (put_file (record_name i) \<lparr>f_data = payload, f_mtime = now\<rparr>) (\<lambda>_. syncDir)))"

definition readRecord :: "spool_codec \<Rightarrow> string \<Rightarrow> (spoolRecord \<times> int) spool_op" where
  "readRecord J n =
     and_then sys (\<lambda>_. and_then (get (\<lambda>s. lookup_file s n)) (\<lambda>f.
       case f of
         None \<Rightarrow> fail SystemCallFailed
       | Some f \<Rightarrow>
           (case sc_unmarshal J (f_data f) of
              None \<Rightarrow> fail RecordNotDecoded
            | Some r \<Rightarrow> ret (r, int (length (f_data f))))))"

definition recordFiles :: "string list spool_op" where
  "recordFiles =
     and_then sys (\<lambda>_. get (\<lambda>s. sort (filter (\<lambda>n. has_suffix ''.json'' n \<and> \<not> is_claim n) (map fst (sp_dir s)))))"

definition purge_record :: "spool_codec \<Rightarrow> bool \<Rightarrow> gotime \<Rightarrow> string \<Rightarrow> unit spool_op" where
  "purge_record J ctx cutoff n =
     and_then (check_ctx ctx) (\<lambda>_. and_then (readRecord J n) (\<lambda>(r, bytesRead).
       if sr_CreatedAt r > cutoff then ret () else remove_file n))"

definition purgeExpiredLocked :: "spool_codec \<Rightarrow> bool \<Rightarrow> unit spool_op" where
  "purgeExpiredLocked J ctx =
     and_then (get sp_maxAge) (\<lambda>maxAge.
       if maxAge \<le> 0 then ret ()
       else and_then recordFiles (\<lambda>entries. and_then (get sp_now) (\<lambda>now. for_each (purge_record J ctx (now - maxAge)) entries)))"

section \<open>Claims\<close>

definition lockDirectory :: "bool \<Rightarrow> unit spool_op" where
  "lockDirectory ctx = and_then (check_ctx ctx) (\<lambda>_. sys_calls 2)"

definition restoreClaimedRecord :: "string \<Rightarrow> unit spool_op" where
  "restoreClaimedRecord n =
     and_then (rename_file n (originalRecordPath n)) (\<lambda>there. if there then syncDir else ret ())"

definition claimRecord :: "string \<Rightarrow> string option spool_op" where
  "claimRecord n =
     and_then (claimPath n) (\<lambda>claimed. and_then (rename_file n claimed) (\<lambda>there.
       if \<not> there then ret None
       else and_then (try_op syncDir) (\<lambda>synced.
         case synced of
           Inl e \<Rightarrow> and_then (try_op (restoreClaimedRecord claimed)) (\<lambda>_. fail e)
         | Inr _ \<Rightarrow> ret (Some claimed))))"

definition restoreStaleClaim :: "string \<Rightarrow> unit spool_op" where
  "restoreStaleClaim n =
     and_then sys (\<lambda>_. and_then (get (\<lambda>s. lookup_file s (originalRecordPath n))) (\<lambda>f.
       case f of
         Some _ \<Rightarrow> remove_file n
       | None \<Rightarrow> and_then (rename_file n (originalRecordPath n)) (\<lambda>_. ret ())))"

text \<open>One entry of the listing; whether it was recovered.\<close>

definition recover_entry :: "bool \<Rightarrow> gotime \<Rightarrow> string \<Rightarrow> bool spool_op" where
  "recover_entry ctx cutoff n =
     and_then (check_ctx ctx) (\<lambda>_.
       if \<not> is_claim n then ret False
       else and_then sys (\<lambda>_. and_then (get (\<lambda>s. lookup_file s n)) (\<lambda>f.
         case f of
           None \<Rightarrow> ret False
         | Some f \<Rightarrow>
             if f_mtime f > cutoff then ret False
             else and_then (restoreStaleClaim n) (\<lambda>_. ret True))))"

fun recover_entries :: "bool \<Rightarrow> gotime \<Rightarrow> string list \<Rightarrow> bool \<Rightarrow> bool spool_op" where
  "recover_entries ctx cutoff [] recovered = ret recovered"
| "recover_entries ctx cutoff (n # ns) recovered =
     and_then (recover_entry ctx cutoff n) (\<lambda>r. recover_entries ctx cutoff ns (recovered \<or> r))"

definition recoverStaleClaimsLocked :: "bool \<Rightarrow> unit spool_op" where
  "recoverStaleClaimsLocked ctx =
     and_then (get sp_claimTimeout) (\<lambda>claimTimeout.
       if claimTimeout \<le> 0 then ret ()
       else and_then sys (\<lambda>_. and_then (get (\<lambda>s. sort (map fst (sp_dir s)))) (\<lambda>entries.
         and_then (get sp_now) (\<lambda>now. and_then (recover_entries ctx (now - claimTimeout) entries False) (\<lambda>recovered.
           if recovered then syncDir else ret ())))))"

section \<open>The overflow count\<close>

definition parse_uint64 :: "string \<Rightarrow> uint64 option" where
  "parse_uint64 s =
     (let v = foldl (\<lambda>n c. n * 10 + (byte c - 0x30)) 0 s in
      if s = [] \<or> \<not> list_all (\<lambda>c. in_range 0x30 0x39 (byte c)) s \<or> v \<ge> 2 ^ 64 then None else Some (word_of_nat v))"

definition readOverflowCount :: "uint64 spool_op" where
  "readOverflowCount =
     and_then sys (\<lambda>_. and_then (get sp_overflowFile) (\<lambda>stored.
       case stored of
         None \<Rightarrow> ret 0
       | Some data \<Rightarrow>
           (let number = TrimSpace data in
            if number = [] then ret 0
            else case parse_uint64 number of None \<Rightarrow> fail OverflowNotDecoded | Some cnt \<Rightarrow> ret cnt)))"

definition writeOverflowCount :: "uint64 \<Rightarrow> unit spool_op" where
  "writeOverflowCount cnt =
     and_then (sys_calls 5) (\<lambda>_.
     and_then (modify (\<lambda>s. s\<lparr>sp_overflowFile := Some (dec (unat cnt) @ [CHR 0x0A])\<rparr>)) (\<lambda>_. syncDir))"

definition incrementOverflowCountLocked :: "unit spool_op" where
  "incrementOverflowCountLocked =
     and_then (modify (\<lambda>s. s\<lparr>sp_overflowCount := sp_overflowCount s + 1\<rparr>)) (\<lambda>_.
     and_then (get sp_overflowCount) writeOverflowCount)"

definition currentOverflowCountLocked :: "uint64 spool_op" where
  "currentOverflowCountLocked =
     and_then (try_op readOverflowCount) (\<lambda>stored. and_then (get sp_overflowCount) (\<lambda>current.
       case stored of
         Inl e \<Rightarrow> ret current
       | Inr stored \<Rightarrow>
           if stored > current
           then and_then (modify (\<lambda>s. s\<lparr>sp_overflowCount := stored\<rparr>)) (\<lambda>_. ret stored)
           else ret current))"

section \<open>Statistics\<close>

text \<open>The zero time is 0.\<close>

fun stats_entries :: "spool_codec \<Rightarrow> string list \<Rightarrow> int \<Rightarrow> gotime \<Rightarrow> (int \<times> gotime) spool_op" where
  "stats_entries J [] bytes oldest = ret (bytes, oldest)"
| "stats_entries J (n # ns) bytes oldest =
     and_then (try_op sys) (\<lambda>stat. and_then (get (\<lambda>s. lookup_file s n)) (\<lambda>f.
       case (stat, f) of
         (Inr _, Some f) \<Rightarrow>
           and_then (try_op (readRecord J n)) (\<lambda>r.
             case r of
               Inl e \<Rightarrow> stats_entries J ns (bytes + int (length (f_data f))) oldest
             | Inr (r, bytesRead) \<Rightarrow>
                 stats_entries J ns (bytes + int (length (f_data f)))
                   (if oldest = 0 \<or> sr_CreatedAt r < oldest then sr_CreatedAt r else oldest))
       | _ \<Rightarrow> stats_entries J ns bytes oldest))"

definition statsLocked :: "spool_codec \<Rightarrow> SpoolStats spool_op" where
  "statsLocked J =
     and_then (try_op recordFiles) (\<lambda>entries. and_then currentOverflowCountLocked (\<lambda>cnt.
     and_then (get sp_maxBytes) (\<lambda>maxBytes.
       case entries of
         Inl e \<Rightarrow> ret \<lparr>st_Depth = 0, st_Bytes = 0, st_MaxBytes = maxBytes, st_OldestAge = 0, st_OverflowCount = cnt\<rparr>
       | Inr entries \<Rightarrow>
           and_then (stats_entries J entries 0 0) (\<lambda>(bytes, oldest). and_then (get sp_now) (\<lambda>now.
             ret \<lparr>st_Depth = int (length entries), st_Bytes = bytes, st_MaxBytes = maxBytes,
               st_OldestAge = (if oldest = 0 then 0 else now - oldest), st_OverflowCount = cnt\<rparr>)))))"

definition Stats :: "spool_codec \<Rightarrow> SpoolStats spool_op" where
  "Stats J =
     and_then (try_op (lockDirectory False)) (\<lambda>lock.
       case lock of
         Inl e \<Rightarrow>
           get (\<lambda>s. \<lparr>st_Depth = 0, st_Bytes = 0, st_MaxBytes = sp_maxBytes s, st_OldestAge = 0, st_OverflowCount = sp_overflowCount s\<rparr>)
       | Inr _ \<Rightarrow>
           and_then (try_op (recoverStaleClaimsLocked False)) (\<lambda>_.
           and_then (try_op (purgeExpiredLocked J False)) (\<lambda>_. statsLocked J)))"

section \<open>Append\<close>

text \<open>The identifiers and payloads of the new records.\<close>

fun new_records :: "spool_codec \<Rightarrow> gotime \<Rightarrow> Event list \<Rightarrow> (string \<times> string) list \<Rightarrow> (string \<times> string) list spool_op" where
  "new_records J now [] acc = ret acc"
| "new_records J now (event # events) acc =
     and_then (recordID now (ev_EventID event)) (\<lambda>i.
       case sc_marshal J \<lparr>sr_ID = i, sr_CreatedAt = now, sr_RetryCount = 0, sr_LastError = [], sr_Event = event\<rparr> of
         None \<Rightarrow> fail MarshalFailed
       | Some payload \<Rightarrow> new_records J now events (acc @ [(i, payload @ [CHR 0x0A])]))"

definition write_new :: "bool \<Rightarrow> string \<times> string \<Rightarrow> unit spool_op" where
  "write_new ctx r = and_then (check_ctx ctx) (\<lambda>_. writeRecord (fst r) (snd r))"

definition Append :: "spool_codec \<Rightarrow> Event list \<Rightarrow> unit spool_op" where
  "Append J events =
     (if events = [] then ret ()
      else
        and_then (check_ctx True) (\<lambda>_. and_then (lockDirectory True) (\<lambda>_.
        and_then (recoverStaleClaimsLocked True) (\<lambda>_. and_then (purgeExpiredLocked J True) (\<lambda>_.
        and_then (get sp_now) (\<lambda>now. and_then (new_records J now events []) (\<lambda>records.
        and_then (statsLocked J) (\<lambda>stats. and_then (get sp_maxBytes) (\<lambda>maxBytes.
          let addBytes = int (sum_list (map (\<lambda>r. length (snd r)) records)) in
          if st_Bytes stats + addBytes > maxBytes
          then and_then incrementOverflowCountLocked (\<lambda>_. fail (ErrSpoolFull addBytes (maxBytes - st_Bytes stats)))
          else for_each (write_new True) records)))))))))"

section \<open>Replay\<close>

fun claim_entries :: "spool_codec \<Rightarrow> string list \<Rightarrow> SpooledEvent list \<Rightarrow> SpooledEvent list spool_op" where
  "claim_entries J [] batch = ret batch"
| "claim_entries J (n # ns) batch =
     and_then (check_ctx True) (\<lambda>_. and_then (claimRecord n) (\<lambda>claimed.
       case claimed of
         None \<Rightarrow> claim_entries J ns batch
       | Some p \<Rightarrow>
           and_then (try_op (readRecord J p)) (\<lambda>read.
             case read of
               Inl e \<Rightarrow> and_then (try_op (restoreClaimedRecord p)) (\<lambda>_. fail e)
             | Inr (r, bytesRead) \<Rightarrow>
                 claim_entries J ns (batch @ [\<lparr>se_ID = sr_ID r, se_Path = p, se_Event = sr_Event r, se_CreatedAt = sr_CreatedAt r,
                   se_RetryCount = sr_RetryCount r, se_LastError = sr_LastError r, se_SizeBytes = bytesRead\<rparr>]))))"

definition NextBatch :: "spool_codec \<Rightarrow> int \<Rightarrow> SpooledEvent list spool_op" where
  "NextBatch J limit =
     and_then (lockDirectory True) (\<lambda>_. and_then (recoverStaleClaimsLocked True) (\<lambda>_.
     and_then (purgeExpiredLocked J True) (\<lambda>_. and_then recordFiles (\<lambda>entries.
       claim_entries J (take (nat (if limit \<le> 0 then 1 else limit)) entries) []))))"

fun ack_entries :: "SpooledEvent list \<Rightarrow> bool \<Rightarrow> bool spool_op" where
  "ack_entries [] removed = ret removed"
| "ack_entries (e # es) removed =
     and_then (check_ctx True) (\<lambda>_.
       if se_Path e = [] then ack_entries es removed
       else and_then (remove_file (se_Path e)) (\<lambda>_. ack_entries es True))"

definition Ack :: "SpooledEvent list \<Rightarrow> unit spool_op" where
  "Ack events =
     and_then (lockDirectory True) (\<lambda>_. and_then (ack_entries events False) (\<lambda>removed. if removed then syncDir else ret ()))"

definition record_failure :: "spool_codec \<Rightarrow> string \<Rightarrow> SpooledEvent \<Rightarrow> unit spool_op" where
  "record_failure J lastError e =
     and_then (check_ctx True) (\<lambda>_.
       if se_Path e = [] then ret ()
       else and_then (readRecord J (se_Path e)) (\<lambda>(r, bytesRead).
         case sc_marshal J (r\<lparr>sr_RetryCount := sr_RetryCount r + 1, sr_LastError := lastError\<rparr>) of
           None \<Rightarrow> fail MarshalFailed
         | Some payload \<Rightarrow>
             and_then (writeRecord (sr_ID r) (payload @ [CHR 0x0A])) (\<lambda>_. remove_file (se_Path e))))"

definition RecordFailure :: "spool_codec \<Rightarrow> SpooledEvent list \<Rightarrow> string option \<Rightarrow> unit spool_op" where
  "RecordFailure J events cause =
     and_then (lockDirectory True) (\<lambda>_.
       for_each (record_failure J (case cause of None \<Rightarrow> [] | Some e \<Rightarrow> e)) events)"

section \<open>Opening\<close>

text \<open>The directory as it is found, and the process that opens it.\<close>

record FileSpoolOptions =
  fso_Dir :: string
  fso_MaxBytes :: int
  fso_MaxAge :: duration
  fso_ClaimTimeout :: duration

definition defaultSpoolClaimTimeout :: duration where
  "defaultSpoolClaimTimeout = 300000000000"

definition NewFileSpool ::
  "FileSpoolOptions \<Rightarrow> gotime \<Rightarrow> nat \<Rightarrow> (string \<times> spool_file) list \<Rightarrow> string option \<Rightarrow> bool list \<Rightarrow> spool_error + spool" where
  "NewFileSpool opts now pid dir overflowFile faults =
     (if fso_Dir opts = [] then Inl SpoolDirRequired
      else if fso_MaxBytes opts \<le> 0 then Inl MaxBytesNotPositive
      else
        (let s = \<lparr>sp_maxBytes = fso_MaxBytes opts, sp_maxAge = fso_MaxAge opts,
               sp_claimTimeout = (if fso_ClaimTimeout opts \<le> 0 then defaultSpoolClaimTimeout else fso_ClaimTimeout opts),
               sp_now = now, sp_pid = pid, sp_sequence = 0, sp_overflowCount = 0, sp_overflowFile = overflowFile,
               sp_dir = dir, sp_faults = faults\<rparr>
         in case and_then sys (\<lambda>_. readOverflowCount) s of
              (Inl e, s) \<Rightarrow> Inl e
            | (Inr cnt, s) \<Rightarrow> Inr (s\<lparr>sp_overflowCount := cnt\<rparr>)))"

end
