(* ===== verification/Spool_Props.thy ===== *)
theory Spool_Props
  imports Spool
begin

text \<open>
  What the operations of the spool do to the records in its directory.  A relation between the states
  before and after an operation that is reflexive and transitive is carried through every operation by
  one rule per combinator; the rules are proved once for any such relation, and used for the frame of
  the operations that leave the directory alone and for the records the others keep.
\<close>

section \<open>Numbers\<close>

lemma nat_of_pad [simp]: "nat_of_digits (pad w s) = nat_of_digits s"
proof -
  have "foldl (\<lambda>n c. n * 10 + (byte c - 0x30)) 0 (replicate k CHR ''0'') = 0" for k
    by (induction k) (simp_all add: byte_def)
  then show ?thesis by (simp add: pad_def nat_of_digits_def)
qed

lemma pad_digits: "c \<in> set (pad w (dec n)) \<Longrightarrow> 0x30 \<le> byte c \<and> byte c \<le> 0x39"
  by (auto simp: pad_def dest: dec_digits) (simp_all add: byte_def)

text \<open>The overflow count is read back as it was written.\<close>

lemma parse_dec: "parse_uint64 (dec (unat c)) = Some c"
proof -
  have "dec n \<noteq> []" for n by (subst dec.simps) simp
  moreover have "list_all (\<lambda>c. in_range 0x30 0x39 (byte c)) (dec n)" for n
    using dec_digits by (auto simp: list_all_iff in_range_def)
  moreover have "unat c < 2 ^ 64" using unsigned_less [of c] by simp
  ultimately show ?thesis using nat_of_dec [of "unat c"] by (simp add: parse_uint64_def nat_of_digits_def Let_def not_le)
qed

section \<open>Names\<close>

text \<open>Identifiers made at or after the epoch, with a sequence number of at most \<open>q\<close>.\<close>

definition plain :: "string \<Rightarrow> bool" where
  "plain e \<longleftrightarrow> (\<forall>c\<in>set e. byte c \<noteq> 0x2E \<and> byte c < 0x80)"

lemma plain_dot: "plain e \<Longrightarrow> CHR ''.'' \<notin> set e"
  by (force simp: plain_def byte_def)

lemma plain_append [simp]: "plain (a @ b) \<longleftrightarrow> plain a \<and> plain b" "plain (c # e) \<longleftrightarrow> byte c \<noteq> 0x2E \<and> byte c < 0x80 \<and> plain e"
  by (auto simp: plain_def)

lemma plain_pad: "plain (pad w (dec n))"
  using pad_digits by (fastforce simp: plain_def)

definition id_ok :: "string \<Rightarrow> nat \<Rightarrow> bool" where
  "id_ok i q \<longleftrightarrow> (\<exists>t k e. i = format_id t k e \<and> unix_epoch \<le> t \<and> k \<le> q \<and> plain e)"

lemma format_id_plain: "unix_epoch \<le> t \<Longrightarrow> plain e \<Longrightarrow> plain (format_id t k e)"
proof -
  assume t: "unix_epoch \<le> t" and e: "plain e"
  have "plain (safe_name e)" using e by (auto simp: plain_def safe_name_def byte_def [of "CHR ''_''"])
  moreover have "plain (safe_name ''event'')" "byte CHR ''-'' = 45" by (simp_all add: plain_def safe_name_def byte_def)
  ultimately show ?thesis using t by (simp add: format_id_def pad_int_def plain_pad)
qed

lemma id_ok_dot: "id_ok i q \<Longrightarrow> CHR ''.'' \<notin> set i"
  unfolding id_ok_def using format_id_plain plain_dot by blast

lemma id_ok_mono: "id_ok i q \<Longrightarrow> q \<le> q' \<Longrightarrow> id_ok i q'"
  unfolding id_ok_def using le_trans by blast

lemma format_id_inj: "format_id t k e = format_id t' k' e' \<Longrightarrow> unix_epoch \<le> t \<Longrightarrow> unix_epoch \<le> t' \<Longrightarrow> k = k'"
proof -
  assume eq: "format_id t k e = format_id t' k' e'" and t: "unix_epoch \<le> t" "unix_epoch \<le> t'"
  have "byte CHR ''-'' = 45" by (simp add: byte_def)
  then have dash: "CHR ''-'' \<notin> set (pad w (dec n))" for w n using pad_digits [of "CHR ''-''" w n] by auto
  define rest where "rest = (\<lambda>e. safe_name (if e = [] then ''event'' else e))"
  have "format_id t k e = pad 20 (dec (nat (t - unix_epoch))) @ CHR ''-'' # pad 16 (dec k) @ CHR ''-'' # rest e"
      "format_id t' k' e' = pad 20 (dec (nat (t' - unix_epoch))) @ CHR ''-'' # pad 16 (dec k') @ CHR ''-'' # rest e'"
    using t by (simp_all add: format_id_def pad_int_def rest_def)
  with eq have "cut_at CHR ''-'' (pad 20 (dec (nat (t - unix_epoch))) @ CHR ''-'' # pad 16 (dec k) @ CHR ''-'' # rest e) =
      cut_at CHR ''-'' (pad 20 (dec (nat (t' - unix_epoch))) @ CHR ''-'' # pad 16 (dec k') @ CHR ''-'' # rest e')" by simp
  then have "pad 16 (dec k) @ CHR ''-'' # rest e = pad 16 (dec k') @ CHR ''-'' # rest e'" by (simp add: cut_at_append [OF dash])
  then have "cut_at CHR ''-'' (pad 16 (dec k) @ CHR ''-'' # rest e) = cut_at CHR ''-'' (pad 16 (dec k') @ CHR ''-'' # rest e')" by simp
  then have "pad 16 (dec k) = pad 16 (dec k')" by (simp add: cut_at_append [OF dash])
  then show ?thesis by (metis nat_of_dec nat_of_pad)
qed

lemma has_prefix_dot: "CHR ''.'' \<notin> set base \<Longrightarrow> base \<noteq> [] \<Longrightarrow> \<not> has_prefix ''.inflight.'' (base @ rest)"
  by (cases base) auto

lemma cut_inflight:
  "CHR ''.'' \<notin> set base \<Longrightarrow> cut_str ''.inflight.'' (base @ ''.inflight.'' @ rest) = Some (base, rest)"
proof (induction base)
  case (Cons c base)
  then show ?case using has_prefix_dot [of "c # base" "''.inflight.'' @ rest"] by simp
qed simp

lemma cut_json: "CHR ''.'' \<notin> set base \<Longrightarrow> cut_str ''.inflight.'' (base @ ''.json'') = None"
proof (induction base)
  case (Cons c base)
  then show ?case using has_prefix_dot [of "c # base" "''.json''"] by simp
qed simp

text \<open>The names a record may have.\<close>

definition well_named :: "string \<Rightarrow> string \<Rightarrow> bool" where
  "well_named n i \<longleftrightarrow> n = record_name i \<or> (\<exists>rest. n = i @ ''.inflight.'' @ rest)"

lemma original_name: "well_named n i \<Longrightarrow> CHR ''.'' \<notin> set i \<Longrightarrow> originalRecordPath n = record_name i"
  using cut_inflight [of i] cut_json [of i] by (auto simp: well_named_def originalRecordPath_def record_name_def)

lemma claim_named: "CHR ''.'' \<notin> set i \<Longrightarrow> is_claim n \<Longrightarrow> well_named n i \<Longrightarrow> n \<noteq> record_name i"
  by (auto simp: is_claim_def record_name_def cut_json)

lemma well_named_inj: "well_named n i \<Longrightarrow> well_named n j \<Longrightarrow> CHR ''.'' \<notin> set i \<Longrightarrow> CHR ''.'' \<notin> set j \<Longrightarrow> i = j"
  using original_name [of n i] original_name [of n j] by (simp add: record_name_def)

lemma trim_record_name [simp]: "trim_json (record_name i) = i"
  by (simp add: trim_json_def record_name_def)


section \<open>A calculus of relations\<close>

text \<open>Every run of the operation relates its states, and every result satisfies \<open>Q\<close>.\<close>

definition relates :: "(spool \<Rightarrow> spool \<Rightarrow> bool) \<Rightarrow> 'a spool_op \<Rightarrow> bool" where
  "relates R m \<longleftrightarrow> (\<forall>s. R s (snd (m s)))"

definition yields :: "('a \<Rightarrow> bool) \<Rightarrow> 'a spool_op \<Rightarrow> bool" where
  "yields Q m \<longleftrightarrow> (\<forall>s x s'. m s = (Inr x, s') \<longrightarrow> Q x)"

lemma relatesD: "relates R m \<Longrightarrow> m s = (res, s') \<Longrightarrow> R s s'"
  unfolding relates_def by (metis snd_conv)

lemma yields_true: "yields (\<lambda>_. True) m"
  by (simp add: yields_def)

text \<open>The states differ at most in the faults: such steps are related by every relation used here.\<close>

definition same_but_faults :: "spool \<Rightarrow> spool \<Rightarrow> bool" where
  "same_but_faults s s' \<longleftrightarrow> (\<exists>bs. s' = s\<lparr>sp_faults := bs\<rparr>)"

locale op_relation =
  fixes R :: "spool \<Rightarrow> spool \<Rightarrow> bool"
  assumes faults: "same_but_faults s s' \<Longrightarrow> R s s'"
    and trans: "R s s' \<Longrightarrow> R s' s'' \<Longrightarrow> R s s''"
begin

lemma refl: "R s s"
proof (rule faults)
  show "same_but_faults s s" unfolding same_but_faults_def by (rule exI [of _ "sp_faults s"]) simp
qed

lemma ret [simp, intro]: "relates R (ret x)"
  by (simp add: relates_def ret_def refl)

lemma fail [simp, intro]: "relates R (fail e)"
  by (simp add: relates_def fail_def refl)

lemma get [simp, intro]: "relates R (get f)"
  by (simp add: relates_def get_def refl)

lemma fallible [simp, intro]: "relates R (fallible e)"
proof -
  have "same_but_faults s (snd (fallible e s))" for s
    unfolding same_but_faults_def
    by (cases "sp_faults s") (auto simp: fallible_def intro: exI [of _ "sp_faults s"])
  then show ?thesis by (simp add: relates_def faults)
qed

lemma bind_yields:
  assumes "relates R m" "yields Q m" "\<And>x. Q x \<Longrightarrow> relates R (f x)"
  shows "relates R (and_then m f)"
  unfolding relates_def
proof
  fix s
  obtain r s1 where m: "m s = (r, s1)" by fastforce
  note one = relatesD [OF assms(1) m]
  show "R s (snd (and_then m f s))"
  proof (cases r)
    case (Inl e)
    with m one show ?thesis by (simp add: and_then_def)
  next
    case (Inr x)
    with m assms(2) have "Q x" unfolding yields_def by blast
    with assms(3) have "R s1 (snd (f x s1))" unfolding relates_def by blast
    with m one Inr trans show ?thesis by (auto simp: and_then_def)
  qed
qed

lemma bind: "relates R m \<Longrightarrow> (\<And>x. relates R (f x)) \<Longrightarrow> relates R (and_then m f)"
  by (rule bind_yields [OF _ yields_true])

lemma try_op [intro]: "relates R m \<Longrightarrow> relates R (try_op m)"
  by (simp add: relates_def try_op_def)

lemma for_each: "(\<And>x. x \<in> set xs \<Longrightarrow> relates R (f x)) \<Longrightarrow> relates R (for_each f xs)"
  by (induction xs) (auto intro: bind)

lemma sys [simp, intro]: "relates R sys"
  by (simp add: sys_def)

lemma sys_calls [simp, intro]: "relates R (sys_calls n)"
  unfolding sys_calls_def by (rule for_each) simp

lemma check_ctx [simp, intro]: "relates R (check_ctx c)"
  by (simp add: check_ctx_def)

lemma sync [simp, intro]: "relates R syncDir"
  by (simp add: syncDir_def)

lemma lock [simp, intro]: "relates R (lockDirectory c)"
  unfolding lockDirectory_def by (rule bind) auto

lemma read [simp, intro]: "relates R (readRecord J n)"
  unfolding readRecord_def by (intro bind) (auto split: option.split)

lemma listing [simp, intro]: "relates R recordFiles"
  unfolding recordFiles_def by (rule bind) auto

lemma read_overflow [simp, intro]: "relates R readOverflowCount"
  unfolding readOverflowCount_def by (intro bind) (auto split: option.split simp: Let_def)

lemma stats_loop: "relates R (stats_entries J ns b oldest)"
proof (induction ns arbitrary: b oldest)
  case (Cons n ns)
  show ?case unfolding stats_entries.simps
    by (intro bind) (auto intro!: bind Cons split: option.split sum.split prod.split)
qed simp

end

end
