(* ===== verification/Spool_Invariant.thy ===== *)
theory Spool_Invariant
  imports Spool_Props
begin

text \<open>
  The invariant of the spool's directory, and what each operation keeps: every record held in the
  directory stays held, under whatever faults, unless it has expired or its claim was acknowledged.
\<close>

section \<open>The invariant\<close>

text \<open>What a record stands for: its event, as JSON carries it, and its creation time.\<close>

definition core :: "spoolRecord \<Rightarrow> Event \<times> gotime" where
  "core r = (sr_Event r, sr_CreatedAt r)"

definition record_at :: "spool_codec \<Rightarrow> spool \<Rightarrow> string \<Rightarrow> spoolRecord \<Rightarrow> bool" where
  "record_at J s n r \<longleftrightarrow> (\<exists>f. lookup_file s n = Some f \<and> sc_unmarshal J (f_data f) = Some r)"

definition record_ok :: "spool_codec \<Rightarrow> nat \<Rightarrow> string \<Rightarrow> spoolRecord \<Rightarrow> bool" where
  "record_ok J q n r \<longleftrightarrow> well_named n (sr_ID r) \<and> id_ok (sr_ID r) q \<and> sc_clean J (sr_Event r) = sr_Event r"

text \<open>Every file holds a record that belongs under its name, and records that share an identifier are
  copies of one another.\<close>

definition spool_ok :: "spool_codec \<Rightarrow> spool \<Rightarrow> bool" where
  "spool_ok J s \<longleftrightarrow> unix_epoch \<le> sp_now s \<and>
     (\<forall>n f. lookup_file s n = Some f \<longrightarrow> (\<exists>r. sc_unmarshal J (f_data f) = Some r \<and> record_ok J (sp_sequence s) n r)) \<and>
     (\<forall>n r n' r'. record_at J s n r \<longrightarrow> record_at J s n' r' \<longrightarrow> sr_ID r = sr_ID r' \<longrightarrow> core r = core r')"

definition held :: "spool_codec \<Rightarrow> spool \<Rightarrow> string \<Rightarrow> Event \<times> gotime \<Rightarrow> bool" where
  "held J s i c \<longleftrightarrow> (\<exists>n r. record_at J s n r \<and> sr_ID r = i \<and> core r = c)"

lemma spool_okI:
  assumes "unix_epoch \<le> sp_now s"
    and "\<And>n f. lookup_file s n = Some f \<Longrightarrow> \<exists>r. sc_unmarshal J (f_data f) = Some r \<and> record_ok J (sp_sequence s) n r"
    and "\<And>n r n' r'. record_at J s n r \<Longrightarrow> record_at J s n' r' \<Longrightarrow> sr_ID r = sr_ID r' \<Longrightarrow> core r = core r'"
  shows "spool_ok J s"
  using assms unfolding spool_ok_def by blast

lemma spool_ok_file:
  "spool_ok J s \<Longrightarrow> lookup_file s n = Some f \<Longrightarrow> \<exists>r. sc_unmarshal J (f_data f) = Some r \<and> record_ok J (sp_sequence s) n r"
  unfolding spool_ok_def by blast

lemma spool_ok_now: "spool_ok J s \<Longrightarrow> unix_epoch \<le> sp_now s"
  unfolding spool_ok_def by blast

lemma record_okD: "spool_ok J s \<Longrightarrow> record_at J s n r \<Longrightarrow> record_ok J (sp_sequence s) n r"
  unfolding spool_ok_def record_at_def by fastforce

lemma copies: "spool_ok J s \<Longrightarrow> record_at J s n r \<Longrightarrow> record_at J s n' r' \<Longrightarrow> sr_ID r = sr_ID r' \<Longrightarrow> core r = core r'"
  unfolding spool_ok_def by blast

lemma record_ok_dot: "record_ok J q n r \<Longrightarrow> CHR ''.'' \<notin> set (sr_ID r)"
  unfolding record_ok_def using id_ok_dot by blast

lemma same_name_copies:
  assumes "spool_ok J s" "record_at J s n r" "well_named n i" "CHR ''.'' \<notin> set i"
  shows "sr_ID r = i"
proof -
  note ok = record_okD [OF assms(1,2)]
  then show ?thesis using well_named_inj [OF _ assms(3) record_ok_dot [OF ok] assms(4)] by (simp add: record_ok_def)
qed

text \<open>The directory as a map.\<close>

lemma lookup_put [simp]: "lookup_file (s\<lparr>sp_dir := AList.update n f d\<rparr>) m = (if m = n then Some f else map_of d m)"
  by (simp add: lookup_file_def update_conv')

lemma lookup_delete [simp]: "lookup_file (s\<lparr>sp_dir := AList.delete n d\<rparr>) m = (if m = n then None else map_of d m)"
  by (simp add: lookup_file_def delete_conv')

lemma delete_ok:
  assumes "spool_ok J s" "s' = s\<lparr>sp_dir := AList.delete n (sp_dir s)\<rparr>"
  shows "spool_ok J s'" "held J s i c \<Longrightarrow> held J s' i c \<or> (\<exists>r. record_at J s n r \<and> sr_ID r = i \<and> core r = c)"
proof -
  have at: "record_at J s' m r \<longleftrightarrow> m \<noteq> n \<and> record_at J s m r" for m r
    by (simp add: record_at_def assms(2)) (simp add: lookup_file_def)
  show "spool_ok J s'"
  proof (rule spool_okI)
    show "unix_epoch \<le> sp_now s'" using spool_ok_now [OF assms(1)] assms(2) by simp
    show "\<exists>r. sc_unmarshal J (f_data f) = Some r \<and> record_ok J (sp_sequence s') m r" if "lookup_file s' m = Some f" for m f
    proof -
      have "lookup_file s m = Some f" using that assms(2) by (simp add: lookup_file_def delete_conv' split: if_splits)
      from spool_ok_file [OF assms(1) this] show ?thesis by (simp add: assms(2))
    qed
    show "core r = core r'" if "record_at J s' m r" "record_at J s' m' r'" "sr_ID r = sr_ID r'" for m r m' r'
      using copies [OF assms(1)] that unfolding at by blast
  qed
  show "held J s' i c \<or> (\<exists>r. record_at J s n r \<and> sr_ID r = i \<and> core r = c)" if h: "held J s i c"
  proof -
    obtain m r where r: "record_at J s m r" "sr_ID r = i" "core r = c" using h unfolding held_def by blast
    show ?thesis
    proof (cases "m = n")
      case True
      with r show ?thesis by blast
    next
      case False
      with r(1) have "record_at J s' m r" by (simp add: at)
      with r(2,3) have "held J s' i c" unfolding held_def by blast
      then show ?thesis ..
    qed
  qed
qed

lemma put_ok:
  assumes "spool_ok J s" "sc_unmarshal J (f_data f) = Some r" "record_ok J (sp_sequence s) n r"
    and "\<And>m r'. record_at J s m r' \<Longrightarrow> sr_ID r' = sr_ID r \<Longrightarrow> core r' = core r"
    and "s' = s\<lparr>sp_dir := AList.update n f (sp_dir s)\<rparr>"
  shows "spool_ok J s'" "held J s i c \<Longrightarrow> held J s' i c" "held J s' (sr_ID r) (core r)"
    "record_at J s' m r' \<Longrightarrow> r' = r \<or> record_at J s m r'"
proof -
  have at: "record_at J s' m r' \<longleftrightarrow> (if m = n then r' = r else record_at J s m r')" for m r'
  proof (cases "m = n")
    case True
    with assms(2) show ?thesis by (auto simp: record_at_def assms(5))
  next
    case False
    then show ?thesis by (simp add: record_at_def assms(5)) (simp add: lookup_file_def)
  qed
  show "record_at J s' m r' \<Longrightarrow> r' = r \<or> record_at J s m r'" unfolding at by (auto split: if_splits)
  show new: "held J s' (sr_ID r) (core r)" unfolding held_def at by (intro exI [of _ n] exI [of _ r]) simp
  show "spool_ok J s'"
  proof (rule spool_okI)
    show "unix_epoch \<le> sp_now s'" using spool_ok_now [OF assms(1)] assms(5) by simp
    show "\<exists>x. sc_unmarshal J (f_data g) = Some x \<and> record_ok J (sp_sequence s') m x" if "lookup_file s' m = Some g" for m g
    proof (cases "m = n")
      case True
      with that assms(2,3,5) show ?thesis by simp
    next
      case False
      with that have "lookup_file s m = Some g" by (simp add: assms(5) lookup_file_def update_conv')
      from spool_ok_file [OF assms(1) this] show ?thesis by (simp add: assms(5))
    qed
    show "core x = core y" if xy: "record_at J s' m x" "record_at J s' m' y" "sr_ID x = sr_ID y" for m m' x y
    proof -
      consider "x = r" "y = r" | "x = r" "record_at J s m' y" | "record_at J s m x" "y = r" | "record_at J s m x" "record_at J s m' y"
        using xy(1,2) unfolding at by metis
      then show ?thesis
      proof cases
        case 2
        then show ?thesis using assms(4) [OF 2(2)] xy(3) by simp
      next
        case 3
        then show ?thesis using assms(4) [OF 3(1)] xy(3) by simp
      next
        case 4
        then show ?thesis using copies [OF assms(1)] xy(3) by blast
      qed simp
    qed
  qed
  show "held J s' i c" if h: "held J s i c"
  proof -
    obtain m x where x: "record_at J s m x" "sr_ID x = i" "core x = c" using h unfolding held_def by blast
    show ?thesis
    proof (cases "m = n")
      case True
      note ok = record_ok_dot [OF assms(3)]
      have "sr_ID x = sr_ID r" using same_name_copies [OF assms(1) x(1)] True assms(3) ok by (auto simp: record_ok_def)
      with assms(4) [OF x(1)] x new show ?thesis by simp
    next
      case False
      with x show ?thesis unfolding held_def at by (intro exI [of _ m] exI [of _ x]) simp
    qed
  qed
qed

lemma move_ok:
  assumes "spool_ok J s" "lookup_file s n = Some f" "\<And>r. record_at J s n r \<Longrightarrow> well_named m (sr_ID r)"
    and "s' = s\<lparr>sp_dir := AList.update m f (AList.delete n (sp_dir s))\<rparr>"
  shows "spool_ok J s'" "held J s i c \<Longrightarrow> held J s' i c"
proof -
  obtain r where r: "sc_unmarshal J (f_data f) = Some r" "record_ok J (sp_sequence s) n r"
    using assms(1,2) unfolding spool_ok_def by blast
  have at: "record_at J s n r" using assms(2) r(1) unfolding record_at_def by blast
  define s1 where "s1 = s\<lparr>sp_dir := AList.delete n (sp_dir s)\<rparr>"
  note del = delete_ok [OF assms(1) s1_def]
  have s': "s' = s1\<lparr>sp_dir := AList.update m f (sp_dir s1)\<rparr>" by (simp add: assms(4) s1_def)
  have "record_at J s k x" if "record_at J s1 k x" for k x
    using that by (auto simp: record_at_def s1_def lookup_file_def delete_conv' split: if_splits)
  note sub = this
  have "core x = core r" if "record_at J s1 k x" "sr_ID x = sr_ID r" for k x
    using copies [OF assms(1) sub [OF that(1)] at that(2)] .
  moreover have "record_ok J (sp_sequence s1) m r" using r(2) assms(3) [OF at] by (simp add: record_ok_def s1_def)
  ultimately have put: "spool_ok J s'" "\<And>i c. held J s1 i c \<Longrightarrow> held J s' i c" "held J s' (sr_ID r) (core r)"
    using put_ok [OF del(1) r(1) _ _ s'] by blast+
  show "spool_ok J s'" by (rule put(1))
  show "held J s' i c" if "held J s i c"
    using del(2) [OF that]
  proof
    assume "held J s1 i c"
    then show ?thesis by (rule put(2))
  next
    assume "\<exists>x. record_at J s n x \<and> sr_ID x = i \<and> core x = c"
    then have "sr_ID r = i" "core r = c" using at by (auto simp: record_at_def)
    then show ?thesis using put(3) by simp
  qed
qed

section \<open>What is kept\<close>

text \<open>\<open>G\<close> names what may be lost.\<close>

definition kept :: "spool_codec \<Rightarrow> (string \<Rightarrow> Event \<times> gotime \<Rightarrow> bool) \<Rightarrow> spool \<Rightarrow> spool \<Rightarrow> bool" where
  "kept J G s s' \<longleftrightarrow> (spool_ok J s \<longrightarrow>
     spool_ok J s' \<and> sp_now s' = sp_now s \<and> sp_maxAge s' = sp_maxAge s \<and> sp_sequence s \<le> sp_sequence s' \<and>
     (\<forall>i c. held J s i c \<longrightarrow> held J s' i c \<or> G i c))"

text \<open>States with the same files, clock and sequence satisfy the same predicates.\<close>

definition same_files :: "spool \<Rightarrow> spool \<Rightarrow> bool" where
  "same_files s s' \<longleftrightarrow> sp_dir s' = sp_dir s \<and> sp_now s' = sp_now s \<and> sp_maxAge s' = sp_maxAge s \<and> sp_sequence s \<le> sp_sequence s'"

lemma faults_same_files: "same_but_faults s s' \<Longrightarrow> same_files s s'"
  by (auto simp: same_but_faults_def same_files_def)

lemma same_files_at: "same_files s s' \<Longrightarrow> record_at J s' = record_at J s"
  by (simp add: same_files_def record_at_def lookup_file_def fun_eq_iff)

lemma same_files_held: "same_files s s' \<Longrightarrow> held J s' = held J s"
  by (simp add: held_def same_files_at fun_eq_iff)

lemma record_ok_mono: "record_ok J q n r \<Longrightarrow> q \<le> q' \<Longrightarrow> record_ok J q' n r"
  unfolding record_ok_def using id_ok_mono by blast

lemma same_files_ok:
  assumes "same_files s s'" "spool_ok J s"
  shows "spool_ok J s'"
proof (rule spool_okI)
  show "unix_epoch \<le> sp_now s'" using spool_ok_now [OF assms(2)] assms(1) by (simp add: same_files_def)
  show "\<exists>r. sc_unmarshal J (f_data f) = Some r \<and> record_ok J (sp_sequence s') n r" if "lookup_file s' n = Some f" for n f
  proof -
    have "lookup_file s n = Some f" using that assms(1) by (simp add: same_files_def lookup_file_def)
    from spool_ok_file [OF assms(2) this] record_ok_mono assms(1) show ?thesis by (auto simp: same_files_def)
  qed
  show "core r = core r'" if "record_at J s' n r" "record_at J s' n' r'" "sr_ID r = sr_ID r'" for n r n' r'
    using copies [OF assms(2)] that unfolding same_files_at [OF assms(1)] by blast
qed

lemma same_files_kept: "same_files s s' \<Longrightarrow> kept J G s s'"
  unfolding kept_def using same_files_ok same_files_held by (auto simp: same_files_def)

lemma kept_trans: "kept J G s s' \<Longrightarrow> kept J G s' s'' \<Longrightarrow> kept J G s s''"
  unfolding kept_def by (metis le_trans)

interpretation frame: op_relation same_files
proof
  show "same_files s s'" if "same_but_faults s s'" for s s' by (rule faults_same_files [OF that])
qed (simp add: same_files_def)

interpretation keep: op_relation "kept J G" for J G
  by unfold_locales (auto intro: same_files_kept faults_same_files kept_trans)

lemma frame_kept: "relates same_files m \<Longrightarrow> relates (kept J G) m"
  unfolding relates_def using same_files_kept by blast

section \<open>Single steps\<close>

lemma sys_cases: "sys s = (res, s') \<Longrightarrow> same_files s s'"
  by (rule relatesD [OF frame.sys])

lemma remove_kept:
  assumes "\<And>r. spool_ok J s \<Longrightarrow> record_at J s n r \<Longrightarrow>
      G (sr_ID r) (core r) \<or> (\<exists>m r'. m \<noteq> n \<and> record_at J s m r' \<and> sr_ID r' = sr_ID r)"
  shows "kept J G s (snd (remove_file n s))"
proof -
  obtain res s1 where y: "sys s = (res, s1)" by fastforce
  note same = sys_cases [OF y]
  show ?thesis
  proof (cases res)
    case (Inl e)
    with y same_files_kept [OF same] show ?thesis by (simp add: remove_file_def and_then_def)
  next
    case (Inr u)
    define s2 where "s2 = s1\<lparr>sp_dir := AList.delete n (sp_dir s1)\<rparr>"
    have end_state: "snd (remove_file n s) = s2"
      using y Inr by (simp add: remove_file_def and_then_def delete_file_def modify_def s2_def)
    have "kept J G s s2" unfolding kept_def
    proof
      assume ok: "spool_ok J s"
      note ok1 = same_files_ok [OF same ok]
      note del = delete_ok [OF ok1 s2_def]
      have "held J s2 i c \<or> G i c" if h: "held J s i c" for i c
      proof (cases "held J s2 i c")
        case False
        have "held J s1 i c" using h by (simp add: same_files_held [OF same])
        with del(2) False obtain r where r: "record_at J s1 n r" "sr_ID r = i" "core r = c" by blast
        from assms [OF ok, of r] r consider "G i c" | m r' where "m \<noteq> n" "record_at J s1 m r'" "sr_ID r' = i"
          unfolding same_files_at [OF same] by blast
        then show ?thesis
        proof cases
          case 2
          then have "core r' = c" using copies [OF ok1 2(2) r(1)] r by simp
          moreover have "record_at J s2 m r'" using 2(1,2) by (simp add: record_at_def s2_def) (simp add: lookup_file_def)
          ultimately show ?thesis using 2(3) unfolding held_def by blast
        qed simp
      qed simp
      moreover have "sp_now s2 = sp_now s \<and> sp_maxAge s2 = sp_maxAge s \<and> sp_sequence s \<le> sp_sequence s2"
        using same by (simp add: s2_def same_files_def)
      ultimately show "spool_ok J s2 \<and> sp_now s2 = sp_now s \<and> sp_maxAge s2 = sp_maxAge s \<and> sp_sequence s \<le> sp_sequence s2 \<and>
          (\<forall>i c. held J s i c \<longrightarrow> held J s2 i c \<or> G i c)" using del(1) by blast
    qed
    with end_state show ?thesis by simp
  qed
qed

lemma rename_kept:
  assumes "\<And>r. record_at J s n r \<Longrightarrow> spool_ok J s \<Longrightarrow> well_named m (sr_ID r)"
  shows "kept J G s (snd (rename_file n m s))"
proof -
  obtain res s1 where y: "sys s = (res, s1)" by fastforce
  note same = sys_cases [OF y]
  show ?thesis
  proof (cases "res = Inr () \<and> lookup_file s1 n \<noteq> None")
    case False
    then have "snd (rename_file n m s) = s1" using y by (cases res) (auto simp: rename_file_def and_then_def get_def ret_def)
    with same_files_kept [OF same] show ?thesis by simp
  next
    case True
    then obtain f where f: "lookup_file s1 n = Some f" by blast
    define s2 where "s2 = s1\<lparr>sp_dir := AList.update m f (AList.delete n (sp_dir s1))\<rparr>"
    have end_state: "snd (rename_file n m s) = s2"
      using y True f by (simp add: rename_file_def and_then_def get_def ret_def delete_file_def put_file_def modify_def s2_def)
    have "kept J G s s2" unfolding kept_def
    proof
      assume ok: "spool_ok J s"
      have named: "record_at J s1 n r \<Longrightarrow> well_named m (sr_ID r)" for r using assms [OF _ ok] unfolding same_files_at [OF same] .
      note mv = move_ok [OF same_files_ok [OF same ok] f named s2_def]
      show "spool_ok J s2 \<and> sp_now s2 = sp_now s \<and> sp_maxAge s2 = sp_maxAge s \<and> sp_sequence s \<le> sp_sequence s2 \<and>
          (\<forall>i c. held J s i c \<longrightarrow> held J s2 i c \<or> G i c)"
        using mv same by (simp add: same_files_held [OF same, symmetric]) (simp add: s2_def same_files_def)
    qed
    with end_state show ?thesis by simp
  qed
qed

end
