(* ===== verification/Spool_Ops.thy ===== *)
theory Spool_Ops
  imports Spool_Invariant
begin

text \<open>Every operation of the spool keeps what it must.\<close>

section \<open>Steps that look at the state\<close>

lemma relatesI: "(\<And>s. R s (snd (m s))) \<Longrightarrow> relates R m"
  by (simp add: relates_def)

lemma bind_get: "(\<And>s. R s (snd (f (g s) s))) \<Longrightarrow> relates R (and_then (get g) f)"
  by (simp add: relates_def and_then_def get_def)

lemma read_result:
  "readRecord J n s = (Inr (r, b), s') \<Longrightarrow> record_at J s' n r"
  by (auto simp: readRecord_def and_then_def get_def fail_def ret_def record_at_def split: prod.splits sum.splits option.splits)

lemma bind_read:
  assumes "\<And>r b s. record_at J s n r \<Longrightarrow> kept J G s (snd (f (r, b) s))"
  shows "relates (kept J G) (and_then (readRecord J n) f)"
proof (rule relatesI)
  fix s
  obtain res s1 where r: "readRecord J n s = (res, s1)" by fastforce
  note one = relatesD [OF keep.read r]
  show "kept J G s (snd (and_then (readRecord J n) f s))"
  proof (cases res)
    case (Inl e)
    with r one show ?thesis by (simp add: and_then_def)
  next
    case (Inr x)
    obtain rec b where x: "x = (rec, b)" by fastforce
    have "record_at J s1 n rec" using read_result r Inr x by blast
    from kept_trans [OF one assms [OF this]] r Inr x show ?thesis by (simp add: and_then_def)
  qed
qed

section \<open>Claims and expiry\<close>

lemma seq_step_kept: "relates (kept J G) (modify (\<lambda>s. s\<lparr>sp_sequence := sp_sequence s + 1\<rparr>))"
  by (rule frame_kept) (simp add: relates_def modify_def same_files_def)

lemma original_of_record:
  assumes "record_at J s n r" "spool_ok J s"
  shows "originalRecordPath n = record_name (sr_ID r)" "well_named (originalRecordPath n) (sr_ID r)"
proof -
  note ok = record_okD [OF assms(2,1)]
  have "well_named n (sr_ID r)" using ok by (simp add: record_ok_def)
  from original_name [OF this record_ok_dot [OF ok]] show "originalRecordPath n = record_name (sr_ID r)" .
  then show "well_named (originalRecordPath n) (sr_ID r)" by (simp add: well_named_def)
qed

lemma restore_name_kept: "relates (kept J G) (rename_file n (originalRecordPath n))"
  by (rule relatesI, rule rename_kept) (rule original_of_record(2))

lemma restore_claim_kept: "relates (kept J G) (restoreClaimedRecord n)"
  unfolding restoreClaimedRecord_def
  by (rule keep.bind [OF restore_name_kept]) auto

lemma claim_name_kept:
  assumes "\<not> is_claim n"
  shows "relates (kept J G) (rename_file n (trim_json n @ ''.inflight.'' @ rest))"
proof (rule relatesI, rule rename_kept)
  fix s r
  assume "record_at J s n r" "spool_ok J s"
  note ok = record_okD [OF this(2,1)]
  have "n = record_name (sr_ID r)"
    using ok assms cut_inflight [OF record_ok_dot [OF ok]] by (auto simp: record_ok_def well_named_def is_claim_def)
  then show "well_named (trim_json n @ ''.inflight.'' @ rest) (sr_ID r)" by (metis trim_record_name well_named_def)
qed

lemma claimPath_yields: "yields (\<lambda>p. \<exists>rest. p = trim_json n @ ''.inflight.'' @ rest) (claimPath n)"
  by (auto simp: yields_def claimPath_def and_then_def modify_def get_def)

lemma claimPath_kept: "relates (kept J G) (claimPath n)"
  unfolding claimPath_def by (intro keep.bind seq_step_kept) auto

lemma claim_kept: "\<not> is_claim n \<Longrightarrow> relates (kept J G) (claimRecord n)"
  unfolding claimRecord_def
proof (rule keep.bind_yields [OF claimPath_kept claimPath_yields])
  fix p
  assume "\<not> is_claim n" "\<exists>rest. p = trim_json n @ ''.inflight.'' @ rest"
  then have "relates (kept J G) (rename_file n p)" using claim_name_kept by blast
  then show "relates (kept J G) (and_then (rename_file n p) (\<lambda>there. if \<not> there then ret None
      else and_then (try_op syncDir) (\<lambda>synced. case synced of
        Inl e \<Rightarrow> and_then (try_op (restoreClaimedRecord p)) (\<lambda>_. fail e) | Inr _ \<Rightarrow> ret (Some p))))"
    by (rule keep.bind) (auto intro!: keep.bind keep.try_op restore_claim_kept split: sum.split)
qed

lemma restore_stale_kept:
  assumes "is_claim n"
  shows "relates (kept J G) (restoreStaleClaim n)"
  unfolding restoreStaleClaim_def
proof (rule keep.bind [OF keep.sys], rule bind_get)
  fix s
  have named: "record_at J s n r \<Longrightarrow> spool_ok J s \<Longrightarrow> originalRecordPath n = record_name (sr_ID r) \<and> originalRecordPath n \<noteq> n" for r
  proof -
    assume at: "record_at J s n r" and sp: "spool_ok J s"
    note ok = record_okD [OF sp at]
    have "n \<noteq> record_name (sr_ID r)"
      by (rule claim_named [OF record_ok_dot [OF ok] assms]) (use ok in \<open>simp add: record_ok_def\<close>)
    with original_of_record(1) [OF at sp] show ?thesis by simp
  qed
  show "kept J G s (snd ((case lookup_file s (originalRecordPath n) of
      None \<Rightarrow> and_then (rename_file n (originalRecordPath n)) (\<lambda>_. ret ()) | Some _ \<Rightarrow> remove_file n) s))"
  proof (cases "lookup_file s (originalRecordPath n)")
    case None
    have "relates (kept J G) (and_then (rename_file n (originalRecordPath n)) (\<lambda>_. ret ()))"
      by (rule keep.bind [OF restore_name_kept]) simp
    with None show ?thesis by (simp add: relates_def)
  next
    case (Some f)
    have "kept J G s (snd (remove_file n s))"
    proof (rule remove_kept)
      fix r
      assume ok: "spool_ok J s" and at: "record_at J s n r"
      obtain r' where r': "sc_unmarshal J (f_data f) = Some r'" using spool_ok_file [OF ok Some] by blast
      then have at': "record_at J s (originalRecordPath n) r'" using Some by (simp add: record_at_def)
      moreover have "sr_ID r' = sr_ID r"
      proof (rule same_name_copies [OF ok at'])
        show "well_named (originalRecordPath n) (sr_ID r)" using named [OF at ok] by (simp add: well_named_def)
        show "CHR ''.'' \<notin> set (sr_ID r)" by (rule record_ok_dot [OF record_okD [OF ok at]])
      qed
      ultimately show "G (sr_ID r) (core r) \<or> (\<exists>m r'. m \<noteq> n \<and> record_at J s m r' \<and> sr_ID r' = sr_ID r)"
        using named [OF at ok] by blast
    qed
    with Some show ?thesis by simp
  qed
qed

lemma recover_entry_kept: "relates (kept J G) (recover_entry ctx cutoff n)"
  unfolding recover_entry_def
  by (intro keep.bind keep.check_ctx) (auto intro!: keep.bind restore_stale_kept split: option.split)

lemma recover_entries_kept: "relates (kept J G) (recover_entries ctx cutoff ns recovered)"
  by (induction ns arbitrary: recovered) (auto intro!: keep.bind recover_entry_kept)

lemma recover_kept: "relates (kept J G) (recoverStaleClaimsLocked ctx)"
  unfolding recoverStaleClaimsLocked_def by (intro keep.bind keep.get) (auto intro!: keep.bind recover_entries_kept)

lemma purge_record_kept:
  assumes "\<And>i e t. t \<le> cutoff \<Longrightarrow> G i (e, t)"
  shows "relates (kept J G) (purge_record J ctx cutoff n)"
  unfolding purge_record_def
proof (rule keep.bind [OF keep.check_ctx], rule bind_read)
  fix r b s
  assume at: "record_at J s n r"
  show "kept J G s (snd ((case (r, b) of (r, bytesRead) \<Rightarrow> if sr_CreatedAt r > cutoff then ret () else remove_file n) s))"
  proof (cases "sr_CreatedAt r > cutoff")
    case True
    then show ?thesis using keep.refl by (simp add: ret_def)
  next
    case False
    have "kept J G s (snd (remove_file n s))"
    proof (rule remove_kept)
      fix x
      assume "record_at J s n x"
      with at have "x = r" by (auto simp: record_at_def)
      with assms [of "sr_CreatedAt r"] False show "G (sr_ID x) (core x) \<or> (\<exists>m r'. m \<noteq> n \<and> record_at J s m r' \<and> sr_ID r' = sr_ID x)"
        by (simp add: core_def)
    qed
    with False show ?thesis by simp
  qed
qed

text \<open>With the clock at \<open>N\<close> and a maximal age of \<open>A\<close>.\<close>

definition kept_at :: "spool_codec \<Rightarrow> (string \<Rightarrow> Event \<times> gotime \<Rightarrow> bool) \<Rightarrow> gotime \<Rightarrow> duration \<Rightarrow> spool \<Rightarrow> spool \<Rightarrow> bool" where
  "kept_at J G N A s s' \<longleftrightarrow> (sp_now s = N \<and> sp_maxAge s = A \<longrightarrow> kept J G s s')"

lemma kept_at_trans: "kept_at J G N A s s' \<Longrightarrow> kept_at J G N A s' s'' \<Longrightarrow> kept_at J G N A s s''"
  unfolding kept_at_def using kept_trans by (metis kept_def)

interpretation keepat: op_relation "kept_at J G N A" for J G N A
proof
  show "kept_at J G N A s s'" if "same_but_faults s s'" for s s'
    using same_files_kept [OF faults_same_files [OF that]] by (simp add: kept_at_def)
qed (rule kept_at_trans)

lemma kept_keepat: "relates (kept J G) m \<Longrightarrow> relates (kept_at J G N A) m"
  by (simp add: relates_def kept_at_def)

definition expired_by :: "gotime \<Rightarrow> duration \<Rightarrow> string \<Rightarrow> Event \<times> gotime \<Rightarrow> bool" where
  "expired_by N A i c \<longleftrightarrow> A > 0 \<and> snd c \<le> N - A"

lemma purge_kept:
  assumes "\<And>i c. expired_by N A i c \<Longrightarrow> G i c"
  shows "relates (kept_at J G N A) (purgeExpiredLocked J ctx)"
  unfolding purgeExpiredLocked_def
proof (rule bind_get)
  fix s
  let ?loop = "\<lambda>entries. and_then (get sp_now) (\<lambda>now. for_each (purge_record J ctx (now - A)) entries)"
  have loop: "relates (kept_at J G N A) (?loop entries)" if "A > 0" for entries
  proof (rule bind_get)
    fix s
    have "relates (kept J G) (for_each (purge_record J ctx (N - A)) entries)"
      by (rule keep.for_each, rule purge_record_kept) (use assms that in \<open>simp add: expired_by_def\<close>)
    then show "kept_at J G N A s (snd (for_each (purge_record J ctx (sp_now s - A)) entries s))"
      by (simp add: kept_at_def relates_def)
  qed
  have "relates (kept_at J G N A) (if A \<le> 0 then ret () else and_then recordFiles ?loop)"
    using loop by (auto intro: keepat.bind)
  then show "kept_at J G N A s (snd ((if sp_maxAge s \<le> 0 then ret ()
      else and_then recordFiles (\<lambda>entries. and_then (get sp_now) (\<lambda>now. for_each (purge_record J ctx (now - sp_maxAge s)) entries))) s))"
    by (cases "sp_maxAge s = A") (auto simp: relates_def kept_at_def)
qed

section \<open>Statistics and replay\<close>

lemma overflow_frame: "relates same_files currentOverflowCountLocked" "relates same_files incrementOverflowCountLocked"
proof -
  have m: "relates same_files (modify (\<lambda>s. s\<lparr>sp_overflowCount := f s\<rparr>))" "relates same_files (modify (\<lambda>s. s\<lparr>sp_overflowFile := g s\<rparr>))" for f g
    by (simp_all add: relates_def modify_def same_files_def)
  show "relates same_files currentOverflowCountLocked"
    unfolding currentOverflowCountLocked_def by (intro frame.bind) (auto intro!: frame.bind m(1) split: sum.split)
  show "relates same_files incrementOverflowCountLocked"
    unfolding incrementOverflowCountLocked_def writeOverflowCount_def by (intro frame.bind frame.get frame.sync frame.sys_calls m)
qed

lemma stats_frame: "relates same_files (statsLocked J)"
  unfolding statsLocked_def
  by (intro frame.bind frame.try_op frame.listing overflow_frame frame.get) (auto intro!: frame.bind frame.stats_loop split: sum.split)

lemma stats_kept:
  assumes "\<And>i c. expired_by N A i c \<Longrightarrow> G i c"
  shows "relates (kept_at J G N A) (Stats J)"
proof -
  have purge: "relates (kept_at J G N A) (purgeExpiredLocked J False)" by (rule purge_kept) (rule assms)
  have "relates (kept_at J G N A) (and_then (try_op (recoverStaleClaimsLocked False)) (\<lambda>_.
      and_then (try_op (purgeExpiredLocked J False)) (\<lambda>_. statsLocked J)))"
    by (rule keepat.bind [OF keepat.try_op [OF kept_keepat [OF recover_kept]]],
        rule keepat.bind [OF keepat.try_op [OF purge]], rule kept_keepat [OF frame_kept [OF stats_frame]])
  then show ?thesis unfolding Stats_def by (intro keepat.bind keepat.try_op keepat.lock) (auto split: sum.split)
qed

lemma record_files_yields: "yields (\<lambda>ns. \<forall>n\<in>set ns. \<not> is_claim n) recordFiles"
  by (auto simp: yields_def recordFiles_def and_then_def get_def split: prod.splits sum.splits)

lemma claim_entries_kept: "\<forall>n\<in>set ns. \<not> is_claim n \<Longrightarrow> relates (kept J G) (claim_entries J ns batch)"
proof (induction ns arbitrary: batch)
  case (Cons n ns)
  then show ?case
    by (auto intro!: keep.bind claim_kept keep.try_op restore_claim_kept split: option.split sum.split prod.split)
qed simp

lemma next_batch_kept:
  assumes "\<And>i c. expired_by N A i c \<Longrightarrow> G i c"
  shows "relates (kept_at J G N A) (NextBatch J limit)"
proof -
  have purge: "relates (kept_at J G N A) (purgeExpiredLocked J True)" by (rule purge_kept) (rule assms)
  show ?thesis unfolding NextBatch_def
proof (rule keepat.bind [OF keepat.lock], rule keepat.bind [OF kept_keepat [OF recover_kept]],
    rule keepat.bind [OF purge], rule keepat.bind_yields [OF keepat.listing record_files_yields])
  fix entries :: "string list"
  assume "\<forall>n\<in>set entries. \<not> is_claim n"
  then have "\<forall>n\<in>set (take k entries). \<not> is_claim n" for k using in_set_takeD by fast
  then show "relates (kept_at J G N A) (claim_entries J (take (nat (if limit \<le> 0 then 1 else limit)) entries) [])"
    by (rule kept_keepat [OF claim_entries_kept])
qed
qed

text \<open>What an acknowledgement may remove: the records its paths name.\<close>

definition acknowledged :: "SpooledEvent list \<Rightarrow> string \<Rightarrow> Event \<times> gotime \<Rightarrow> bool" where
  "acknowledged es i c \<longleftrightarrow> (\<exists>e\<in>set es. well_named (se_Path e) i)"

lemma ack_entries_kept:
  assumes "\<And>e i c. e \<in> set es \<Longrightarrow> well_named (se_Path e) i \<Longrightarrow> G i c"
  shows "relates (kept J G) (ack_entries es removed)"
  using assms
proof (induction es arbitrary: removed)
  case (Cons e es)
  have "relates (kept J G) (remove_file (se_Path e))"
  proof (rule relatesI, rule remove_kept)
    fix s r
    assume "spool_ok J s" "record_at J s (se_Path e) r"
    from record_okD [OF this] Cons.prems [of e "sr_ID r" "core r"]
    show "G (sr_ID r) (core r) \<or> (\<exists>m r'. m \<noteq> se_Path e \<and> record_at J s m r' \<and> sr_ID r' = sr_ID r)" by (simp add: record_ok_def)
  qed
  moreover have "relates (kept J G) (ack_entries es b)" for b using Cons.IH Cons.prems by (meson list.set_intros(2))
  ultimately show ?case by (auto intro!: keep.bind)
qed simp

lemma ack_kept: "relates (kept J (acknowledged es)) (Ack es)"
  unfolding Ack_def
  by (intro keep.bind keep.lock ack_entries_kept) (auto simp: acknowledged_def)

text \<open>Writing records: what \<open>writeRecord\<close>, \<open>Append\<close> and \<open>RecordFailure\<close> keep, and that a successful \<open>Append\<close> holds its events.\<close>

section \<open>Writing\<close>

text \<open>JSON gives back what it was given, up to the cleaning of strings that are not UTF-8, for a record
  whose identifier is ASCII; cleaning twice is cleaning once.\<close>

definition codec_ok :: "spool_codec \<Rightarrow> bool" where
  "codec_ok J \<longleftrightarrow>
     (\<forall>r p. sc_marshal J r = Some p \<and> (\<forall>c\<in>set (sr_ID r). byte c < 0x80) \<longrightarrow>
        sc_unmarshal J (p @ [CHR 0x0A]) = Some (r\<lparr>sr_Event := sc_clean J (sr_Event r)\<rparr>)) \<and>
     (\<forall>e. sc_clean J (sc_clean J e) = sc_clean J e)"

text \<open>A record that may be written in this state: its identifier is new, or it is a copy.\<close>

definition writable :: "spool_codec \<Rightarrow> spool \<Rightarrow> spoolRecord \<Rightarrow> bool" where
  "writable J s r \<longleftrightarrow> record_ok J (sp_sequence s) (record_name (sr_ID r)) r \<and>
     (\<forall>m r'. record_at J s m r' \<longrightarrow> sr_ID r' = sr_ID r \<longrightarrow> core r' = core r)"

lemma and_then_frame:
  assumes "relates same_files m" "\<And>x s1. same_files s s1 \<Longrightarrow> m s = (Inr x, s1) \<Longrightarrow> P (f x s1)"
    and "\<And>e s1. same_files s s1 \<Longrightarrow> P (Inl e, s1)"
  shows "P (and_then m f s)"
proof -
  obtain res s1 where m: "m s = (res, s1)" by fastforce
  from relatesD [OF assms(1) m] assms(2,3) m show ?thesis by (cases res) (auto simp: and_then_def)
qed

lemma writable_same_files: "same_files s s1 \<Longrightarrow> writable J s r \<Longrightarrow> writable J s1 r"
  unfolding writable_def using same_files_at [of s s1 J] record_ok_mono by (auto simp: same_files_def)

text \<open>A write keeps everything; when it succeeds the record is held; and nothing else appears.\<close>

definition wrote :: "spool_codec \<Rightarrow> spool \<Rightarrow> spoolRecord \<Rightarrow> (spool_error + unit) \<times> spool \<Rightarrow> bool" where
  "wrote J s r out \<longleftrightarrow> kept J (\<lambda>_ _. False) s (snd out) \<and>
     (fst out = Inr () \<longrightarrow> record_at J (snd out) (record_name (sr_ID r)) r) \<and>
     (\<forall>m x. record_at J (snd out) m x \<longrightarrow> x = r \<or> record_at J s m x)"

lemma wrote_error: "same_files s s1 \<Longrightarrow> wrote J s r (Inl e, s1)"
  by (simp add: wrote_def same_files_kept same_files_at)

lemma writeRecord_ok:
  assumes "sc_unmarshal J payload = Some r" "spool_ok J s \<Longrightarrow> writable J s r"
  shows "wrote J s r (writeRecord (sr_ID r) payload s)"
  unfolding writeRecord_def
proof (rule and_then_frame [OF frame.sys_calls])
  fix x s1
  assume same: "same_files s s1"
  define s2 where "s2 = s1\<lparr>sp_dir := AList.update (record_name (sr_ID r)) \<lparr>f_data = payload, f_mtime = sp_now s1\<rparr> (sp_dir s1)\<rparr>"
  obtain res s3 where y: "syncDir s2 = (res, s3)" by fastforce
  note last = relatesD [OF frame.sync y]
  have out: "and_then (get sp_now) (\<lambda>now. and_then (put_file (record_name (sr_ID r)) \<lparr>f_data = payload, f_mtime = now\<rparr>) (\<lambda>_. syncDir)) s1 = (res, s3)"
    using y by (simp add: and_then_def get_def put_file_def modify_def s2_def)
  have at2: "x = r \<or> record_at J s m x" if "record_at J s3 m x" for m x
  proof -
    have "record_at J s2 m x" using that same_files_at [OF last] by simp
    then show ?thesis using assms(1) same
      by (auto simp: same_files_def record_at_def s2_def lookup_file_def update_conv' split: if_splits)
  qed
  have there: "record_at J s3 (record_name (sr_ID r)) r"
    using assms(1) by (simp add: same_files_at [OF last]) (simp add: record_at_def s2_def)
  have ok: "spool_ok J s3 \<and> sp_now s3 = sp_now s \<and> sp_maxAge s3 = sp_maxAge s \<and> sp_sequence s \<le> sp_sequence s3 \<and>
      (\<forall>i c. held J s i c \<longrightarrow> held J s3 i c)" if good: "spool_ok J s"
  proof -
    note w = writable_same_files [OF same assms(2) [OF good]]
    have "sc_unmarshal J (f_data \<lparr>f_data = payload, f_mtime = sp_now s1\<rparr>) = Some r" using assms(1) by simp
    note put = put_ok [OF same_files_ok [OF same good] this _ _ s2_def]
    have "spool_ok J s2" "\<And>i c. held J s1 i c \<Longrightarrow> held J s2 i c"
      using put w unfolding writable_def by blast+
    moreover have "sp_now s3 = sp_now s" "sp_maxAge s3 = sp_maxAge s" "sp_sequence s \<le> sp_sequence s3"
      using same last by (auto simp: same_files_def s2_def)
    ultimately show ?thesis using same_files_ok [OF last] by (simp add: same_files_held [OF last] same_files_held [OF same])
  qed
  show "wrote J s r (and_then (get sp_now) (\<lambda>now. and_then (put_file (record_name (sr_ID r)) \<lparr>f_data = payload, f_mtime = now\<rparr>) (\<lambda>_. syncDir)) s1)"
    unfolding out wrote_def kept_def using ok at2 there by auto
qed (rule wrote_error)

section \<open>Append\<close>

definition new_ok :: "spool_codec \<Rightarrow> gotime \<Rightarrow> nat \<Rightarrow> nat \<Rightarrow> Event \<Rightarrow> string \<times> string \<Rightarrow> bool" where
  "new_ok J now q q' e x \<longleftrightarrow> (\<exists>r k. sc_unmarshal J (snd x) = Some r \<and> sr_ID r = fst x \<and> fst x = format_id now k (ev_EventID e) \<and>
     q < k \<and> k \<le> q' \<and> core r = (sc_clean J e, now) \<and> sc_clean J (sr_Event r) = sr_Event r)"

lemma new_ok_mono: "new_ok J now q1 q' e x \<Longrightarrow> q \<le> q1 \<Longrightarrow> new_ok J now q q' e x"
  unfolding new_ok_def by (meson le_less_trans)

lemma new_records_ok:
  assumes "codec_ok J" "unix_epoch \<le> now" "\<forall>e\<in>set evs. plain (ev_EventID e)"
    and "new_records J now evs acc s = (Inr out, s')"
  shows "\<exists>new. out = acc @ new \<and> list_all2 (new_ok J now (sp_sequence s) (sp_sequence s')) evs new \<and> distinct (map fst new) \<and> same_files s s'"
  using assms(3,4)
proof (induction evs arbitrary: acc s)
  case Nil
  then show ?case using frame.refl by (simp add: ret_def)
next
  case (Cons e evs)
  define s1 where "s1 = s\<lparr>sp_sequence := sp_sequence s + 1\<rparr>"
  let ?i = "format_id now (sp_sequence s + 1) (ev_EventID e)"
  let ?r = "\<lparr>sr_ID = ?i, sr_CreatedAt = now, sr_RetryCount = 0, sr_LastError = [], sr_Event = e\<rparr>"
  obtain payload where p: "sc_marshal J ?r = Some payload" "new_records J now evs (acc @ [(?i, payload @ [CHR 0x0A])]) s1 = (Inr out, s')"
    using Cons.prems(2) by (auto simp: and_then_def recordID_def modify_def get_def fail_def s1_def split: option.splits)
  obtain new where new: "out = (acc @ [(?i, payload @ [CHR 0x0A])]) @ new" "list_all2 (new_ok J now (sp_sequence s1) (sp_sequence s')) evs new"
      "distinct (map fst new)" "same_files s1 s'"
    using Cons.IH [OF _ p(2)] Cons.prems(1) by auto
  have q: "sp_sequence s1 = sp_sequence s + 1" "sp_sequence s1 \<le> sp_sequence s'" using new(4) by (simp_all add: s1_def same_files_def)
  have "plain ?i" by (rule format_id_plain [OF assms(2)]) (use Cons.prems(1) in simp)
  then have "sc_unmarshal J (payload @ [CHR 0x0A]) = Some (?r\<lparr>sr_Event := sc_clean J e\<rparr>)" "sc_clean J (sc_clean J e) = sc_clean J e"
    using assms(1) p(1) unfolding codec_ok_def plain_def by fastforce+
  then have "new_ok J now (sp_sequence s) (sp_sequence s') e (?i, payload @ [CHR 0x0A])"
    unfolding new_ok_def using q by (intro exI [of _ "?r\<lparr>sr_Event := sc_clean J e\<rparr>"] exI [of _ "sp_sequence s + 1"]) (simp add: core_def)
  moreover have "list_all2 (new_ok J now (sp_sequence s) (sp_sequence s')) evs new"
    using new(2) by (rule list_all2_mono) (erule new_ok_mono, simp add: q)
  moreover have "?i \<notin> fst ` set new"
  proof
    assume "?i \<in> fst ` set new"
    then obtain x where x: "x \<in> set new" "fst x = ?i" by auto
    then obtain e' where "new_ok J now (sp_sequence s1) (sp_sequence s') e' x" using new(2) by (metis in_set_conv_nth list_all2_conv_all_nth)
    then obtain k where "format_id now k (ev_EventID e') = ?i" "sp_sequence s + 1 < k" using x(2) q(1) unfolding new_ok_def by auto
    with format_id_inj [OF this(1) assms(2,2)] show False by simp
  qed
  moreover have "same_files s s'" using new(4) by (simp add: same_files_def s1_def)
  ultimately show ?case using new(1,3) by (intro exI [of _ "(?i, payload @ [CHR 0x0A]) # new"]) simp
qed

text \<open>Records to be written: well formed, under fresh identifiers.\<close>

definition ready :: "spool_codec \<Rightarrow> spool \<Rightarrow> string \<times> string \<Rightarrow> bool" where
  "ready J s x \<longleftrightarrow> (\<exists>r. sc_unmarshal J (snd x) = Some r \<and> sr_ID r = fst x \<and> record_ok J (sp_sequence s) (record_name (fst x)) r \<and>
     (\<forall>m r'. record_at J s m r' \<longrightarrow> sr_ID r' \<noteq> fst x))"

lemma ready_same_files: "same_files s s1 \<Longrightarrow> ready J s x \<Longrightarrow> ready J s1 x"
  unfolding ready_def using same_files_at [of s s1 J] record_ok_mono by (fastforce simp: same_files_def)

lemma kept_held: "kept J (\<lambda>_ _. False) s s' \<Longrightarrow> spool_ok J s \<Longrightarrow> held J s i c \<Longrightarrow> held J s' i c"
  unfolding kept_def by blast

lemma write_all:
  assumes "spool_ok J s" "\<forall>x\<in>set xs. ready J s x" "distinct (map fst xs)"
  shows "kept J (\<lambda>_ _. False) s (snd (for_each (write_new c) xs s)) \<and>
    (fst (for_each (write_new c) xs s) = Inr () \<longrightarrow>
      (\<forall>x\<in>set xs. \<forall>r. sc_unmarshal J (snd x) = Some r \<longrightarrow> held J (snd (for_each (write_new c) xs s)) (fst x) (core r)))"
  using assms
proof (induction xs arbitrary: s)
  case Nil
  then show ?case using keep.refl by (simp add: ret_def)
next
  case (Cons x xs)
  obtain r where r: "sc_unmarshal J (snd x) = Some r" "sr_ID r = fst x" "record_ok J (sp_sequence s) (record_name (fst x)) r"
      "\<forall>m r'. record_at J s m r' \<longrightarrow> sr_ID r' \<noteq> fst x" using Cons.prems(2) unfolding ready_def by auto
  then have "writable J s r" unfolding writable_def by simp
  then have "writable J t r" if "same_files s t" for t using writable_same_files [OF that] by blast
  note w = writeRecord_ok [OF r(1) this, unfolded r(2)]
  have one: "wrote J s r (write_new c x s)" unfolding write_new_def
  proof (rule and_then_frame [OF frame.check_ctx])
    show "wrote J s r (writeRecord (fst x) (snd x) s1)" if "same_files s s1" for u s1
    proof -
      have a: "wrote J s1 r (writeRecord (fst x) (snd x) s1)" by (rule w [OF that])
      show ?thesis unfolding wrote_def
      proof (intro conjI allI impI)
        show "kept J (\<lambda>_ _. False) s (snd (writeRecord (fst x) (snd x) s1))"
          using kept_trans [OF same_files_kept [OF that]] a unfolding wrote_def by blast
        show "record_at J (snd (writeRecord (fst x) (snd x) s1)) (record_name (sr_ID r)) r"
          if "fst (writeRecord (fst x) (snd x) s1) = Inr ()"
          using a that unfolding wrote_def by blast
        show "y = r \<or> record_at J s m y" if "record_at J (snd (writeRecord (fst x) (snd x) s1)) m y" for m y
          using a that unfolding wrote_def same_files_at [OF \<open>same_files s s1\<close>] by blast
      qed
    qed
  qed (rule wrote_error)
  obtain res s1 where y: "write_new c x s = (res, s1)" by fastforce
  note one' = one [unfolded y wrote_def, simplified]
  show ?case
  proof (cases res)
    case (Inl e)
    with y one' show ?thesis by (simp add: and_then_def)
  next
    case (Inr u)
    have s1: "spool_ok J s1" "sp_sequence s \<le> sp_sequence s1" using one' Cons.prems(1) by (auto simp: kept_def)
    have "ready J s1 z" if z: "z \<in> set xs" for z
    proof -
      obtain rz where rz: "sc_unmarshal J (snd z) = Some rz" "sr_ID rz = fst z" "record_ok J (sp_sequence s) (record_name (fst z)) rz"
          "\<forall>m r'. record_at J s m r' \<longrightarrow> sr_ID r' \<noteq> fst z"
        using Cons.prems(2) z unfolding ready_def by auto
      have "fst x \<noteq> fst z" using Cons.prems(3) z by force
      have "sr_ID r' \<noteq> fst z" if "record_at J s1 m r'" for m r'
      proof -
        have "r' = r \<or> record_at J s m r'" using one' that by blast
        with rz(4) r(2) \<open>fst x \<noteq> fst z\<close> show ?thesis by auto
      qed
      with rz(1,2) record_ok_mono [OF rz(3) s1(2)] show ?thesis unfolding ready_def by (intro exI [of _ rz]) simp
    qed
    moreover have "distinct (map fst xs)" using Cons.prems(3) by simp
    ultimately have rest: "kept J (\<lambda>_ _. False) s1 (snd (for_each (write_new c) xs s1)) \<and>
        (fst (for_each (write_new c) xs s1) = Inr () \<longrightarrow>
          (\<forall>x\<in>set xs. \<forall>r. sc_unmarshal J (snd x) = Some r \<longrightarrow> held J (snd (for_each (write_new c) xs s1)) (fst x) (core r)))"
      using Cons.IH [OF s1(1)] by blast
    have eq: "for_each (write_new c) (x # xs) s = for_each (write_new c) xs s1" using y Inr by (simp add: and_then_def)
    have now: "held J s1 (fst x) (core r)" using one' Inr r(2) unfolding held_def by auto
    show ?thesis unfolding eq
    proof (intro conjI impI ballI allI)
      show "kept J (\<lambda>_ _. False) s (snd (for_each (write_new c) xs s1))"
        by (rule kept_trans [OF conjunct1 [OF one'] conjunct1 [OF rest]])
      fix z rz
      assume ok: "fst (for_each (write_new c) xs s1) = Inr ()" and z: "z \<in> set (x # xs)" "sc_unmarshal J (snd z) = Some rz"
      show "held J (snd (for_each (write_new c) xs s1)) (fst z) (core rz)"
      proof (cases "z = x")
        case True
        with z r have "core rz = core r" by simp
        with kept_held [OF conjunct1 [OF rest] s1(1) now] True show ?thesis by simp
      next
        case False
        with z rest ok show ?thesis by auto
      qed
    qed
  qed
qed

text \<open>What \<open>Append\<close> does after its checks: the records it made are ready to be written.\<close>

lemma new_records_ready:
  assumes "codec_ok J" "spool_ok J s" "\<forall>e\<in>set evs. plain (ev_EventID e)"
    and "new_records J (sp_now s) evs [] s = (Inr out, s')" "x \<in> set out"
  shows "ready J s' x"
proof -
  have now: "unix_epoch \<le> sp_now s" by (rule spool_ok_now [OF assms(2)])
  obtain new where new: "out = new" "list_all2 (new_ok J (sp_now s) (sp_sequence s) (sp_sequence s')) evs new" "same_files s s'"
    using new_records_ok [OF assms(1) now assms(3,4)] by auto
  obtain e where e: "e \<in> set evs" "new_ok J (sp_now s) (sp_sequence s) (sp_sequence s') e x"
    using new(1,2) assms(5) by (metis in_set_conv_nth list_all2_conv_all_nth)
  then obtain r k where r: "sc_unmarshal J (snd x) = Some r" "sr_ID r = fst x" "fst x = format_id (sp_now s) k (ev_EventID e)"
      "sp_sequence s < k" "k \<le> sp_sequence s'" "sc_clean J (sr_Event r) = sr_Event r"
    unfolding new_ok_def by blast
  have "record_ok J (sp_sequence s') (record_name (fst x)) r"
    unfolding record_ok_def well_named_def id_ok_def using r e(1) assms(3) now by auto
  moreover have "sr_ID r' \<noteq> fst x" if "record_at J s' m r'" for m r'
  proof
    assume eq: "sr_ID r' = fst x"
    have "record_ok J (sp_sequence s) m r'" using that record_okD [OF assms(2)] by (simp add: same_files_at [OF new(3)])
    then obtain t j e' where j: "sr_ID r' = format_id t j e'" "unix_epoch \<le> t" "j \<le> sp_sequence s"
      unfolding record_ok_def id_ok_def by blast
    with format_id_inj [of t j e' "sp_now s" k "ev_EventID e"] eq r(3,4) now show False by simp
  qed
  ultimately show ?thesis using r(1,2) unfolding ready_def by blast
qed

text \<open>Every event of a batch is held.\<close>

definition all_held :: "spool_codec \<Rightarrow> spool \<Rightarrow> gotime \<Rightarrow> Event list \<Rightarrow> bool" where
  "all_held J s t evs \<longleftrightarrow> (\<forall>e\<in>set evs. \<exists>i. held J s i (sc_clean J e, t))"

definition finish_append :: "spool_codec \<Rightarrow> Event list \<Rightarrow> unit spool_op" where
  "finish_append J events =
     and_then (get sp_now) (\<lambda>now. and_then (new_records J now events []) (\<lambda>records.
     and_then (statsLocked J) (\<lambda>stats. and_then (get sp_maxBytes) (\<lambda>maxBytes.
       let addBytes = int (sum_list (map (\<lambda>r. length (snd r)) records)) in
       if st_Bytes stats + addBytes > maxBytes
       then and_then incrementOverflowCountLocked (\<lambda>_. fail (ErrSpoolFull addBytes (maxBytes - st_Bytes stats)))
       else for_each (write_new True) records))))"

lemma new_records_frame: "relates same_files (new_records J now evs acc)"
proof (induction evs arbitrary: acc)
  case (Cons e evs)
  have "relates same_files (modify (\<lambda>s. s\<lparr>sp_sequence := sp_sequence s + 1\<rparr>))" by (simp add: relates_def modify_def same_files_def)
  then have "relates same_files (recordID now i)" for i unfolding recordID_def by (intro frame.bind frame.get)
  with Cons show ?case by (auto intro!: frame.bind split: option.split)
qed simp

lemma finish_append_ok:
  assumes "codec_ok J" "\<forall>e\<in>set evs. plain (ev_EventID e)" "spool_ok J s"
  shows "kept J (\<lambda>_ _. False) s (snd (finish_append J evs s)) \<and>
    (fst (finish_append J evs s) = Inr () \<longrightarrow> all_held J (snd (finish_append J evs s)) (sp_now s) evs)"
proof -
  obtain res s1 where n: "new_records J (sp_now s) evs [] s = (res, s1)" by fastforce
  note same1 = relatesD [OF new_records_frame n]
  show ?thesis
  proof (cases res)
    case (Inl e)
    with n same_files_kept [OF same1] show ?thesis by (simp add: finish_append_def and_then_def get_def)
  next
    case (Inr out)
    obtain res2 s2 where st: "statsLocked J s1 = (res2, s2)" by fastforce
    note same2 = relatesD [OF stats_frame st]
    have same: "same_files s s2" using same1 same2 by (rule frame.trans)
    show ?thesis
    proof (cases res2)
      case (Inl e)
      with n Inr st same_files_kept [OF same] show ?thesis by (simp add: finish_append_def and_then_def get_def)
    next
      case stats: (Inr stats)
      let ?add = "int (sum_list (map (\<lambda>r. length (snd r)) out))"
      let ?fail = "and_then incrementOverflowCountLocked (\<lambda>_. fail (ErrSpoolFull ?add (sp_maxBytes s2 - st_Bytes stats)))"
      have eq: "finish_append J evs s = (if st_Bytes stats + ?add > sp_maxBytes s2 then ?fail s2 else for_each (write_new True) out s2)"
        using n Inr st stats by (simp add: finish_append_def and_then_def get_def Let_def)
      show ?thesis
      proof (cases "st_Bytes stats + ?add > sp_maxBytes s2")
        case True
        have "relates same_files ?fail" by (intro frame.bind overflow_frame frame.fail)
        then have "same_files s (snd (?fail s2))" unfolding relates_def using frame.trans [OF same] by blast
        moreover have "fst (?fail s2) \<noteq> Inr ()" by (auto simp: and_then_def fail_def split: prod.split sum.split)
        ultimately show ?thesis using True same_files_kept by (simp add: eq)
      next
        case False
        have now: "unix_epoch \<le> sp_now s" by (rule spool_ok_now [OF assms(3)])
        obtain new where new: "out = new" "list_all2 (new_ok J (sp_now s) (sp_sequence s) (sp_sequence s1)) evs new" "distinct (map fst new)"
          using new_records_ok [OF assms(1) now assms(2) n [unfolded Inr]] by auto
        have "\<forall>x\<in>set out. ready J s2 x"
          using new_records_ready [OF assms(1,3,2) n [unfolded Inr]] ready_same_files [OF same2] by blast
        note w = write_all [OF same_files_ok [OF same assms(3)] this, of True, unfolded new(1), OF new(3)]
        have "all_held J (snd (for_each (write_new True) out s2)) (sp_now s) evs" if ok: "fst (for_each (write_new True) out s2) = Inr ()"
          unfolding all_held_def
        proof
          fix e
          assume "e \<in> set evs"
          then obtain x where x: "x \<in> set new" "new_ok J (sp_now s) (sp_sequence s) (sp_sequence s1) e x"
            using new(2) by (metis in_set_conv_nth list_all2_conv_all_nth)
          with w ok new(1) show "\<exists>i. held J (snd (for_each (write_new True) out s2)) i (sc_clean J e, sp_now s)"
            unfolding new_ok_def by metis
        qed
        with w new(1) kept_trans [OF same_files_kept [OF same]] False show ?thesis by (simp add: eq)
      qed
    qed
  qed
qed

lemma kept_weaken: "kept J (\<lambda>_ _. False) s s' \<Longrightarrow> kept J G s s'"
  unfolding kept_def by blast

lemma append_ok:
  assumes "codec_ok J" "\<forall>e\<in>set evs. plain (ev_EventID e)" "spool_ok J s"
  shows "kept J (expired_by (sp_now s) (sp_maxAge s)) s (snd (Append J evs s)) \<and>
    (fst (Append J evs s) = Inr () \<longrightarrow> all_held J (snd (Append J evs s)) (sp_now s) evs)"
proof (cases "evs = []")
  case True
  then show ?thesis using keep.refl by (simp add: Append_def ret_def all_held_def)
next
  case False
  let ?G = "expired_by (sp_now s) (sp_maxAge s)" and ?N = "sp_now s" and ?A = "sp_maxAge s"
  define before where "before = and_then (check_ctx True) (\<lambda>_. and_then (lockDirectory True) (\<lambda>_.
      and_then (recoverStaleClaimsLocked True) (\<lambda>_. purgeExpiredLocked J True)))"
  have assoc: "and_then (and_then m f) g = and_then m (\<lambda>x. and_then (f x) g)" for m :: "unit spool_op" and f :: "unit \<Rightarrow> unit spool_op" and g :: "unit \<Rightarrow> unit spool_op"
    by (auto simp: and_then_def fun_eq_iff split: prod.split sum.split)
  have eq: "Append J evs = and_then before (\<lambda>_. finish_append J evs)"
    using False by (simp add: Append_def finish_append_def before_def assoc)
  have purge: "relates (kept_at J ?G ?N ?A) (purgeExpiredLocked J True)" by (rule purge_kept)
  have rel: "relates (kept_at J ?G ?N ?A) before" unfolding before_def
    by (rule keepat.bind [OF keepat.check_ctx], rule keepat.bind [OF keepat.lock],
        rule keepat.bind [OF kept_keepat [OF recover_kept]], rule purge)
  obtain res s1 where b: "before s = (res, s1)" by fastforce
  have k: "kept J ?G s s1" using relatesD [OF rel b] by (simp add: kept_at_def)
  then have s1: "spool_ok J s1" "sp_now s1 = sp_now s" using assms(3) by (auto simp: kept_def)
  show ?thesis
  proof (cases res)
    case (Inl e)
    with b k show ?thesis by (simp add: eq and_then_def)
  next
    case (Inr u)
    note f = finish_append_ok [OF assms(1,2) s1(1)]
    have "snd (Append J evs s) = snd (finish_append J evs s1)" "fst (Append J evs s) = fst (finish_append J evs s1)"
      using b Inr by (simp_all add: eq and_then_def)
    with f s1(2) kept_trans [OF k kept_weaken] show ?thesis by simp
  qed
qed

section \<open>Recording a failure\<close>

lemma bind_pointwise:
  assumes "kept J G s (snd (m s))" "\<And>x s1. m s = (Inr x, s1) \<Longrightarrow> kept J G s1 (snd (f x s1))"
  shows "kept J G s (snd (and_then m f s))"
proof -
  obtain res s1 where m: "m s = (res, s1)" by fastforce
  show ?thesis
  proof (cases res)
    case (Inl e)
    with m assms(1) show ?thesis by (simp add: and_then_def)
  next
    case (Inr x)
    with m assms kept_trans [of J G s s1] show ?thesis by (simp add: and_then_def)
  qed
qed

lemma record_failure_kept:
  assumes "codec_ok J" "is_claim (se_Path e)"
  shows "relates (kept J (\<lambda>_ _. False)) (record_failure J lastError e)"
proof -
  let ?G = "\<lambda>_ _. False"
  have step: "kept J ?G s (snd ((case sc_marshal J (r\<lparr>sr_RetryCount := sr_RetryCount r + 1, sr_LastError := lastError\<rparr>) of
       None \<Rightarrow> fail MarshalFailed
     | Some payload \<Rightarrow> and_then (writeRecord (sr_ID r) (payload @ [CHR 0x0A])) (\<lambda>_. remove_file (se_Path e))) s))"
    if at: "record_at J s (se_Path e) r" for r s
  proof (cases "spool_ok J s")
    case False
    then show ?thesis by (simp add: kept_def)
  next
    case ok: True
    note rok = record_okD [OF ok at]
    let ?r = "r\<lparr>sr_RetryCount := sr_RetryCount r + 1, sr_LastError := lastError\<rparr>"
    show ?thesis
    proof (cases "sc_marshal J ?r")
      case None
      then show ?thesis using keep.refl by (simp add: fail_def)
    next
      case (Some payload)
      obtain t k i where "sr_ID r = format_id t k i" "unix_epoch \<le> t" "plain i" using rok unfolding record_ok_def id_ok_def by blast
      then have "plain (sr_ID r)" using format_id_plain by simp
      then have p: "sc_unmarshal J (payload @ [CHR 0x0A]) = Some ?r"
        using assms(1) Some rok unfolding codec_ok_def plain_def record_ok_def by fastforce
      have "writable J s ?r" unfolding writable_def
      proof (intro conjI allI impI)
        show "record_ok J (sp_sequence s) (record_name (sr_ID ?r)) ?r" using rok by (simp add: record_ok_def well_named_def)
        show "core r' = core ?r" if "record_at J s m r'" "sr_ID r' = sr_ID ?r" for m r'
          using copies [OF ok that(1) at] that(2) by (simp add: core_def)
      qed
      note w = writeRecord_ok [OF p this, simplified]
      have "kept J ?G s (snd (and_then (writeRecord (sr_ID r) (payload @ [CHR 0x0A])) (\<lambda>_. remove_file (se_Path e)) s))"
      proof (rule bind_pointwise)
        show "kept J ?G s (snd (writeRecord (sr_ID r) (payload @ [CHR 0x0A]) s))" using w by (simp add: wrote_def)
        fix x s1
        assume done_write: "writeRecord (sr_ID r) (payload @ [CHR 0x0A]) s = (Inr x, s1)"
        show "kept J ?G s1 (snd (remove_file (se_Path e) s1))"
        proof (rule remove_kept)
          fix y
          assume "spool_ok J s1" "record_at J s1 (se_Path e) y"
          then have yok: "record_ok J (sp_sequence s1) (se_Path e) y" by (rule record_okD)
          have new: "record_at J s1 (record_name (sr_ID r)) ?r" using w done_write by (simp add: wrote_def)
          have "sr_ID y = sr_ID r"
            by (rule well_named_inj [where n = "se_Path e", OF _ _ record_ok_dot [OF yok] record_ok_dot [OF rok]])
              (use yok rok in \<open>simp_all add: record_ok_def\<close>)
          moreover have "se_Path e \<noteq> record_name (sr_ID r)"
            by (rule claim_named [OF record_ok_dot [OF rok] assms(2)]) (use rok in \<open>simp add: record_ok_def\<close>)
          ultimately show "False \<or> (\<exists>m r'. m \<noteq> se_Path e \<and> record_at J s1 m r' \<and> sr_ID r' = sr_ID y)"
            using new by (intro disjI2 exI [of _ "record_name (sr_ID r)"] exI [of _ ?r]) simp
        qed
      qed
      with Some show ?thesis by simp
    qed
  qed
  show ?thesis unfolding record_failure_def
  proof (rule keep.bind [OF keep.check_ctx])
    show "relates (kept J ?G) (if se_Path e = [] then ret () else and_then (readRecord J (se_Path e)) (\<lambda>(r, bytesRead).
         case sc_marshal J (r\<lparr>sr_RetryCount := sr_RetryCount r + 1, sr_LastError := lastError\<rparr>) of
           None \<Rightarrow> fail MarshalFailed
         | Some payload \<Rightarrow> and_then (writeRecord (sr_ID r) (payload @ [CHR 0x0A])) (\<lambda>_. remove_file (se_Path e))))"
    proof (cases "se_Path e = []")
      case False
      have "relates (kept J ?G) (and_then (readRecord J (se_Path e)) (\<lambda>(r, bytesRead).
         case sc_marshal J (r\<lparr>sr_RetryCount := sr_RetryCount r + 1, sr_LastError := lastError\<rparr>) of
           None \<Rightarrow> fail MarshalFailed
         | Some payload \<Rightarrow> and_then (writeRecord (sr_ID r) (payload @ [CHR 0x0A])) (\<lambda>_. remove_file (se_Path e))))"
        by (rule bind_read) (simp add: step)
      with False show ?thesis by simp
    qed simp
  qed
qed

lemma failure_kept:
  assumes "codec_ok J" "\<forall>e\<in>set es. is_claim (se_Path e)"
  shows "relates (kept J (\<lambda>_ _. False)) (RecordFailure J es cause)"
  unfolding RecordFailure_def
  by (rule keep.bind [OF keep.lock], rule keep.for_each, rule record_failure_kept) (use assms in auto)

end
