(* ===== verification/Spool_Claims.thy ===== *)
theory Spool_Claims
  imports Spool_Ops
begin

text \<open>The properties of the spool as a queue that delivers at least once.\<close>

section \<open>The operations as calls\<close>

datatype spool_call =
    CallAppend "Event list"
  | CallNextBatch int
  | CallRecordFailure "SpooledEvent list" "string option"
  | CallAck "SpooledEvent list"
  | CallStats

text \<open>Whether the call returned without an error, and the state it left.\<close>

definition succeeded :: "(spool_error + 'a) \<times> spool \<Rightarrow> bool \<times> spool" where
  "succeeded out = ((case fst out of Inl e \<Rightarrow> False | Inr x \<Rightarrow> True), snd out)"

definition run_call :: "spool_codec \<Rightarrow> spool_call \<Rightarrow> spool \<Rightarrow> bool \<times> spool" where
  "run_call J c s =
     (case c of
        CallAppend evs \<Rightarrow> succeeded (Append J evs s)
      | CallNextBatch limit \<Rightarrow> succeeded (NextBatch J limit s)
      | CallRecordFailure es cause \<Rightarrow> succeeded (RecordFailure J es cause s)
      | CallAck es \<Rightarrow> succeeded (Ack es s)
      | CallStats \<Rightarrow> succeeded (Stats J s))"

text \<open>Event identifiers without dots, and failures reported for claims: what the callers pass.\<close>

definition call_ok :: "spool_call \<Rightarrow> bool" where
  "call_ok c \<longleftrightarrow>
     (case c of
        CallAppend evs \<Rightarrow> list_all (\<lambda>e. plain (ev_EventID e)) evs
      | CallRecordFailure es cause \<Rightarrow> list_all (\<lambda>e. is_claim (se_Path e)) es
      | _ \<Rightarrow> True)"

text \<open>What a call may remove.\<close>

definition removable :: "spool_call \<Rightarrow> spool \<Rightarrow> string \<Rightarrow> Event \<times> gotime \<Rightarrow> bool" where
  "removable c s i x \<longleftrightarrow> expired_by (sp_now s) (sp_maxAge s) i x \<or> (case c of CallAck es \<Rightarrow> acknowledged es i x | _ \<Rightarrow> False)"

lemma kept_subset: "kept J G s s' \<Longrightarrow> (\<And>i c. G i c \<Longrightarrow> H i c) \<Longrightarrow> kept J H s s'"
  unfolding kept_def by blast

lemma run_call_kept:
  assumes "codec_ok J" "spool_ok J s" "call_ok c"
  shows "kept J (removable c s) s (snd (run_call J c s))"
proof (cases c)
  case (CallAppend evs)
  have "kept J (expired_by (sp_now s) (sp_maxAge s)) s (snd (Append J evs s))"
    using append_ok [OF assms(1) _ assms(2)] assms(3) CallAppend by (simp add: call_ok_def list_all_iff)
  then have "kept J (removable c s) s (snd (Append J evs s))" by (rule kept_subset) (simp add: removable_def)
  with CallAppend show ?thesis by (simp add: run_call_def succeeded_def)
next
  case (CallNextBatch limit)
  have "relates (kept_at J (removable c s) (sp_now s) (sp_maxAge s)) (NextBatch J limit)"
    by (rule next_batch_kept) (simp add: removable_def)
  with CallNextBatch show ?thesis by (simp add: run_call_def succeeded_def relates_def kept_at_def)
next
  case (CallRecordFailure es cause)
  have "relates (kept J (\<lambda>_ _. False)) (RecordFailure J es cause)"
    by (rule failure_kept [OF assms(1)]) (use assms(3) CallRecordFailure in \<open>simp add: call_ok_def list_all_iff\<close>)
  with CallRecordFailure show ?thesis by (simp add: run_call_def succeeded_def relates_def kept_weaken)
next
  case (CallAck es)
  have "kept J (acknowledged es) s (snd (Ack es s))" using ack_kept by (simp add: relates_def)
  then have "kept J (removable c s) s (snd (Ack es s))" by (rule kept_subset) (simp add: removable_def CallAck)
  with CallAck show ?thesis by (simp add: run_call_def succeeded_def)
next
  case CallStats
  have "relates (kept_at J (removable c s) (sp_now s) (sp_maxAge s)) (Stats J)"
    by (rule stats_kept) (simp add: removable_def)
  with CallStats show ?thesis by (simp add: run_call_def succeeded_def relates_def kept_at_def)
qed

section \<open>Running without faults\<close>

named_theorems faultless

lemma ops_apply [faultless]:
  "ret x s = (Inr x, s)" "fail e s = (Inl e, s)" "get g s = (Inr (g s), s)" "modify h s = (Inr (), h s)"
  "try_op m s = (Inr (fst (m s)), snd (m s))"
  "and_then m k s = (case m s of (Inl e, s') \<Rightarrow> (Inl e, s') | (Inr x, s') \<Rightarrow> k x s')"
  by (simp_all add: ret_def fail_def get_def modify_def try_op_def and_then_def)

lemma sys_ok [faultless]: "sp_faults s = [] \<Longrightarrow> sys s = (Inr (), s)"
  by (simp add: sys_def fallible_def)

lemma sys_calls_ok [faultless]: "sp_faults s = [] \<Longrightarrow> sys_calls n s = (Inr (), s)"
proof -
  assume s: "sp_faults s = []"
  have "for_each (\<lambda>_. sys) xs s = (Inr (), s)" for xs :: "nat list"
    by (induction xs) (simp_all add: faultless s)
  then show ?thesis by (simp add: sys_calls_def)
qed

lemma check_ctx_ok [faultless]: "sp_faults s = [] \<Longrightarrow> check_ctx c s = (Inr (), s)"
  by (simp add: check_ctx_def fallible_def ret_def)

lemma lock_ok [faultless]: "sp_faults s = [] \<Longrightarrow> lockDirectory c s = (Inr (), s)"
  by (simp add: lockDirectory_def faultless)

lemma sync_ok [faultless]: "sp_faults s = [] \<Longrightarrow> syncDir s = (Inr (), s)"
  by (simp add: syncDir_def faultless)

text \<open>A directory with one record, and one with one claim.\<close>

definition claim_name :: "string \<Rightarrow> spool \<Rightarrow> string" where
  "claim_name i s = i @ ''.inflight.'' @ dec (sp_pid s) @ ''.'' @ dec (sp_sequence s + 1)"

definition claimed :: "string \<Rightarrow> spool \<Rightarrow> spool" where
  "claimed i s = s\<lparr>sp_sequence := sp_sequence s + 1, sp_dir := map (\<lambda>(n, f). (claim_name i s, f)) (sp_dir s)\<rparr>"

lemma claim_name_facts:
  assumes "CHR ''.'' \<notin> set i"
  shows "is_claim (claim_name i s)" "originalRecordPath (claim_name i s) = record_name i" "claim_name i s \<noteq> record_name i"
    "record_name i \<noteq> claim_name i s"
  using cut_inflight [OF assms] cut_json [OF assms]
  by (auto simp: claim_name_def is_claim_def originalRecordPath_def record_name_def)

lemma record_name_facts:
  assumes "CHR ''.'' \<notin> set i"
  shows "\<not> is_claim (record_name i)" "has_suffix ''.json'' (record_name i)"
  using cut_json [OF assms] by (auto simp: is_claim_def record_name_def)

lemma recover_claim:
  assumes "sp_dir s = [(claim_name i t, f)]" "CHR ''.'' \<notin> set i" "sp_faults s = []"
    and "0 < sp_claimTimeout s" "f_mtime f \<le> sp_now s - sp_claimTimeout s"
  shows "recoverStaleClaimsLocked ctx s = (Inr (), s\<lparr>sp_dir := [(record_name i, f)]\<rparr>)"
  using assms claim_name_facts [OF assms(2)]
  by (simp add: recoverStaleClaimsLocked_def recover_entry_def restoreStaleClaim_def rename_file_def delete_file_def put_file_def
      faultless lookup_file_def)

lemma recover_nothing:
  assumes "sp_dir s = [(record_name i, f)]" "CHR ''.'' \<notin> set i" "sp_faults s = []"
  shows "recoverStaleClaimsLocked ctx s = (Inr (), s)"
  using assms record_name_facts [OF assms(2)] by (simp add: recoverStaleClaimsLocked_def recover_entry_def faultless)

lemma next_of_one:
  assumes "sp_dir s1 = [(record_name i, f)]" "CHR ''.'' \<notin> set i" "sc_unmarshal J (f_data f) = Some r"
    and "sp_faults s = []" "sp_faults s1 = []" "sp_maxAge s1 \<le> 0" "recoverStaleClaimsLocked True s = (Inr (), s1)"
  shows "\<exists>e. NextBatch J 1 s = (Inr [e], claimed i s1) \<and> se_Path e = claim_name i s1 \<and> se_Event e = sr_Event r"
proof -
  note facts = claim_name_facts [OF assms(2), of s1] record_name_facts [OF assms(2)]
  have path: "claimPath (record_name i) s1 = (Inr (claim_name i s1), s1\<lparr>sp_sequence := sp_sequence s1 + 1\<rparr>)"
    by (simp add: claimPath_def faultless claim_name_def)
  have claim: "claimRecord (record_name i) s1 = (Inr (Some (claim_name i s1)), claimed i s1)"
    using assms facts by (simp add: claimRecord_def faultless path rename_file_def lookup_file_def delete_file_def put_file_def claimed_def)
  have read: "readRecord J (claim_name i s1) (claimed i s1) = (Inr (r, int (length (f_data f))), claimed i s1)"
    using assms by (simp add: readRecord_def faultless lookup_file_def claimed_def)
  have purge: "purgeExpiredLocked J True s1 = (Inr (), s1)" using assms(6) by (simp add: purgeExpiredLocked_def faultless)
  have list: "recordFiles s1 = (Inr [record_name i], s1)" using assms facts by (simp add: recordFiles_def faultless)
  show ?thesis
    using assms(4,5,7) by (simp add: NextBatch_def faultless purge list claim read)
qed

lemma claim_names_differ: "CHR ''.'' \<notin> set i \<Longrightarrow> sp_sequence t \<noteq> sp_sequence s \<Longrightarrow> sp_pid t = sp_pid s \<Longrightarrow> claim_name i t \<noteq> claim_name i s"
proof -
  have "dec m = dec n \<Longrightarrow> m = n" for m n by (metis nat_of_dec)
  note inj = this
  assume "sp_sequence t \<noteq> sp_sequence s" "sp_pid t = sp_pid s"
  then show "claim_name i t \<noteq> claim_name i s" using inj [of "sp_sequence t + 1" "sp_sequence s + 1"] by (auto simp: claim_name_def)
qed

section \<open>Samples\<close>

definition sample_event :: Event where
  "sample_event = \<lparr>
     ev_EventID = ''e1'', ev_SchemaVersion = [], ev_EventTime = 0, ev_RequestID = [], ev_CorrelationID = [],
     ev_ConfigRevisionNumber = 0, ev_SnapshotHash = [], ev_ClientID = [], ev_RouteID = [], ev_ProviderID = [],
     ev_VerdictProviderID = [], ev_PolicyBundleIDs = [], ev_HTTPMethod = [], ev_APIPath = [], ev_EndpointKind = [],
     ev_RequestedModel = [], ev_MappedModel = [], ev_UpstreamModel = [], ev_GatewayStatus = 0,
     ev_UpstreamStatus = 0, ev_ErrorType = [], ev_BlockReason = [], ev_FallbackTriggered = False, ev_Direction = [],
     ev_Verdict = [], ev_Action = [], ev_RiskLevel = [], ev_Categories = [], ev_Confidence = 0,
     ev_DetectorCategories = [], ev_MatchedSpanCount = 0, ev_PolicyRuleIDs = [], ev_RequestHash = [],
     ev_ResponseHash = [], ev_RequestPayload = [], ev_ResponsePayload = [], ev_RequestBytes = 0,
     ev_ResponseBytes = 0, ev_GatewayLatency = 0, ev_DetectorLatency = 0, ev_VerdictLatency = 0,
     ev_UpstreamLatency = 0, ev_QueueDelay = 0, ev_TotalLatency = 0, ev_StreamingChunkCount = 0,
     ev_RedactionCount = 0, ev_TerminationReason = [], ev_PartialOutput = False, ev_RawCapturePolicyID = [],
     ev_RetentionPolicyID = [], ev_CaptureReference = [], ev_SinkStatus = ''spooled'', ev_RetryCount = 0,
     ev_SpoolStatus = ''spooled'', ev_Dropped = False, ev_DropReason = []\<rparr>"

text \<open>A codec for the first record of the sample event, and a spool with the given directory.\<close>

definition sample_record :: "string \<Rightarrow> spoolRecord" where
  "sample_record i = \<lparr>sr_ID = i, sr_CreatedAt = unix_epoch, sr_RetryCount = 0, sr_LastError = [], sr_Event = sample_event\<rparr>"

definition sample_codec :: spool_codec where
  "sample_codec =
     \<lparr>sc_marshal = (\<lambda>r. if r = sample_record (sr_ID r) then Some (sr_ID r) else None),
      sc_unmarshal = (\<lambda>p. Some (sample_record (butlast p))),
      sc_clean = (\<lambda>e. e)\<rparr>"

definition sample_spool :: "(string \<times> spool_file) list \<Rightarrow> spool" where
  "sample_spool dir =
     \<lparr>sp_maxBytes = 1000, sp_maxAge = 0, sp_claimTimeout = 10, sp_now = unix_epoch, sp_pid = 7, sp_sequence = 0,
      sp_overflowCount = 0, sp_overflowFile = None, sp_dir = dir, sp_faults = []\<rparr>"

lemma sample_codec_ok: "codec_ok sample_codec"
  by (auto simp: codec_ok_def sample_codec_def split: if_splits)

lemma sample_spool_ok: "spool_ok sample_codec (sample_spool [])"
  by (rule spool_okI) (simp_all add: sample_spool_def lookup_file_def record_at_def)

lemma sample_append: "fst (run_call sample_codec (CallAppend [sample_event]) (sample_spool []))"
proof -
  have marshal: "sc_marshal sample_codec \<lparr>sr_ID = i, sr_CreatedAt = unix_epoch, sr_RetryCount = 0, sr_LastError = [], sr_Event = sample_event\<rparr> = Some i" for i
    by (simp add: sample_codec_def sample_record_def)
  have len: "length (format_id unix_epoch (Suc 0) ''e1'') < 100"
    by (simp add: format_id_def pad_int_def pad_def safe_name_def dec.simps)
  have "recoverStaleClaimsLocked True s = (Inr (), s)" if "sp_dir s = []" "sp_faults s = []" for s
    using that by (simp add: recoverStaleClaimsLocked_def faultless)
  then show ?thesis
    using len marshal
    by (simp add: run_call_def succeeded_def Append_def faultless sample_spool_def purgeExpiredLocked_def recordID_def
        statsLocked_def recordFiles_def currentOverflowCountLocked_def readOverflowCount_def write_new_def writeRecord_def put_file_def Let_def
        sample_event_def [THEN arg_cong [where f = ev_EventID]])
qed

section \<open>Properties\<close>

text \<open>C13. The spool loses nothing: whatever system calls fail and wherever the context is cancelled, every
  operation keeps the invariant of the directory and every record held in it, except records that have
  expired and, for an acknowledgement, the records it acknowledges; and when \<open>Append\<close> reports success
  all its events are held.\<close>

theorem spool_loses_nothing:
  assumes "codec_ok J" "spool_ok J s" "call_ok c"
  shows "spool_ok J (snd (run_call J c s)) \<and>
    (\<forall>i x. held J s i x \<longrightarrow> held J (snd (run_call J c s)) i x \<or> removable c s i x) \<and>
    (\<forall>evs. c = CallAppend evs \<longrightarrow> fst (run_call J c s) \<longrightarrow> all_held J (snd (run_call J c s)) (sp_now s) evs)"
proof (intro conjI allI impI)
  note k = run_call_kept [OF assms, unfolded kept_def]
  show "spool_ok J (snd (run_call J c s))" using k assms(2) by blast
  show "held J (snd (run_call J c s)) i x \<or> removable c s i x" if "held J s i x" for i x using k assms(2) that by blast
  show "all_held J (snd (run_call J c s)) (sp_now s) evs" if "c = CallAppend evs" "fst (run_call J c s)" for evs
  proof -
    have "fst (Append J evs s) = Inr ()" using that by (auto simp: run_call_def succeeded_def split: sum.splits)
    with append_ok [OF assms(1) _ assms(2), of evs] assms(3) that(1) show ?thesis
      by (simp add: run_call_def succeeded_def call_ok_def list_all_iff)
  qed
qed

theorem spool_loses_nothing_witness:
  "spool_ok sample_codec (snd (run_call sample_codec (CallAppend [sample_event]) (sample_spool []))) \<and>
   all_held sample_codec (snd (run_call sample_codec (CallAppend [sample_event]) (sample_spool []))) unix_epoch [sample_event]"
proof -
  have "call_ok (CallAppend [sample_event])" by (simp add: call_ok_def sample_event_def plain_def byte_def)
  from spool_loses_nothing [OF sample_codec_ok sample_spool_ok this] sample_append show ?thesis
    by (simp add: sample_spool_def)
qed

text \<open>A claim is dated by the modification time of the record, which renaming does not change: once a
  record was written longer ago than the claim timeout, the next batch of any caller takes the claim back
  and delivers the event again while its first replay is under way, and the acknowledgement of the first
  replay then succeeds without removing it.\<close>

theorem old_record_is_delivered_again:
  assumes "sp_dir s = [(record_name i, f)]" "CHR ''.'' \<notin> set i" "sc_unmarshal J (f_data f) = Some r"
    and "sp_faults s = []" "sp_maxAge s \<le> 0" "0 < sp_claimTimeout s" "f_mtime f \<le> sp_now s - sp_claimTimeout s"
  shows "\<exists>e s1 e' s2. NextBatch J 1 s = (Inr [e], s1) \<and> NextBatch J 1 s1 = (Inr [e'], s2) \<and>
    se_Event e = sr_Event r \<and> se_Event e' = sr_Event r \<and>
    fst (Ack [e] s2) = Inr () \<and> lookup_file (snd (Ack [e] s2)) (se_Path e') = Some f"
proof -
  obtain e where e: "NextBatch J 1 s = (Inr [e], claimed i s)" "se_Path e = claim_name i s" "se_Event e = sr_Event r"
    using next_of_one [OF assms(1-4) assms(4,5) recover_nothing [OF assms(1,2,4)]] by blast
  define s1 where "s1 = (claimed i s)\<lparr>sp_dir := [(record_name i, f)]\<rparr>"
  have "recoverStaleClaimsLocked True (claimed i s) = (Inr (), s1)"
    unfolding s1_def by (rule recover_claim [OF _ assms(2)]) (use assms in \<open>simp_all add: claimed_def\<close>)
  moreover have s1: "sp_dir s1 = [(record_name i, f)]" "sp_faults (claimed i s) = []" "sp_faults s1 = []" "sp_maxAge s1 \<le> 0"
    using assms by (simp_all add: s1_def claimed_def)
  ultimately obtain e' where e': "NextBatch J 1 (claimed i s) = (Inr [e'], claimed i s1)" "se_Path e' = claim_name i s1"
      "se_Event e' = sr_Event r"
    using next_of_one [OF s1(1) assms(2,3) s1(2-4)] by blast
  have names: "claim_name i s1 \<noteq> claim_name i s" "claim_name i s \<noteq> []"
    using claim_names_differ [OF assms(2), of s1 s] by (simp_all add: s1_def claimed_def) (simp add: claim_name_def)
  have dir: "sp_dir (claimed i s1) = [(claim_name i s1, f)]" "sp_faults (claimed i s1) = []"
    using s1 by (simp_all add: claimed_def)
  have "Ack [e] (claimed i s1) = (Inr (), (claimed i s1)\<lparr>sp_dir := [(claim_name i s1, f)]\<rparr>)"
    using e(2) names dir by (simp add: Ack_def faultless remove_file_def delete_file_def)
  with e e' show ?thesis by (intro exI conjI) (assumption | simp add: lookup_file_def)+
qed

theorem old_record_is_delivered_again_witness:
  "\<exists>e s1 e' s2. NextBatch sample_codec 1 (sample_spool [(record_name ''1'', \<lparr>f_data = ''1 '', f_mtime = 0\<rparr>)]) = (Inr [e], s1) \<and>
     NextBatch sample_codec 1 s1 = (Inr [e'], s2) \<and> se_Event e = sample_event \<and> se_Event e' = sample_event \<and> fst (Ack [e] s2) = Inr ()"
proof -
  have "sp_dir (sample_spool d) = d \<and> sp_faults (sample_spool d) = [] \<and> sp_maxAge (sample_spool d) \<le> 0 \<and>
      0 < sp_claimTimeout (sample_spool d) \<and> 0 \<le> sp_now (sample_spool d) - sp_claimTimeout (sample_spool d)" for d
    by (simp add: sample_spool_def unix_epoch_def)
  then show ?thesis
    using old_record_is_delivered_again [of "sample_spool [(record_name ''1'', \<lparr>f_data = ''1 '', f_mtime = 0\<rparr>)]" "''1''"
        "\<lparr>f_data = ''1 '', f_mtime = 0\<rparr>" sample_codec "sample_record ''1''"]
    by (simp add: sample_codec_def sample_record_def) blast
qed

end
