(* ===== verification/Delivery.thy ===== *)
theory Delivery
  imports Spool
begin

text \<open>
  The delivery of traffic events, \<open>internal/contexts/traffic/adapters/events\<close>: the sink interface of
  \<open>types.go\<close>, \<open>health.go\<close>, \<open>memory.go\<close>, \<open>pipeline.go\<close> and \<open>durable\_sink.go\<close>.

  A sink is a function of a batch and of the world it writes to; it gives back an error or none, and the
  batch, whose events it may mark, since Go passes the slice itself.  A channel with a buffer is the list
  of its elements.  When several cases of a \<open>select\<close> are ready Go takes any, so the choice is an argument.
\<close>

type_synonym ('e, 'w) BatchSink = "Event list \<Rightarrow> 'w \<Rightarrow> ('e option \<times> Event list) \<times> 'w"

section \<open>Health\<close>

record HealthGate =
  hg_healthy :: bool
  hg_reason :: string

definition NewHealthGate :: HealthGate where
  "NewHealthGate = \<lparr>hg_healthy = True, hg_reason = []\<rparr>"

definition Healthy :: "HealthGate option \<Rightarrow> bool" where
  "Healthy g = (case g of None \<Rightarrow> True | Some g \<Rightarrow> hg_healthy g)"

definition Reason :: "HealthGate option \<Rightarrow> string" where
  "Reason g = (case g of None \<Rightarrow> [] | Some g \<Rightarrow> hg_reason g)"

definition MarkHealthy :: "HealthGate option \<Rightarrow> HealthGate option" where
  "MarkHealthy g = map_option (\<lambda>_. \<lparr>hg_healthy = True, hg_reason = []\<rparr>) g"

definition MarkUnhealthy :: "string \<Rightarrow> HealthGate option \<Rightarrow> HealthGate option" where
  "MarkUnhealthy reason g = map_option (\<lambda>_. \<lparr>hg_healthy = False, hg_reason = reason\<rparr>) g"

section \<open>Sending to a channel without blocking\<close>

datatype select_case = Sent | CtxDone | DefaultCase

text \<open>The case taken: \<open>prefer\_done\<close> decides when the context is done and there is room.\<close>

definition select_send :: "bool \<Rightarrow> bool \<Rightarrow> nat \<Rightarrow> 'a list \<Rightarrow> select_case" where
  "select_send done prefer_done capacity queue =
     (if length queue < capacity \<and> \<not> (done \<and> prefer_done) then Sent
      else if done then CtxDone
      else DefaultCase)"

section \<open>The memory writer\<close>

record MemoryWriter =
  mw_events :: "Event list"
  mw_capacity :: nat
  mw_closed :: bool
  mw_dropped :: "64 word"

definition defaultMemoryWriterCapacity :: int where
  "defaultMemoryWriterCapacity = 1024"

definition NewMemoryWriter :: "int \<Rightarrow> MemoryWriter" where
  "NewMemoryWriter capacity =
     \<lparr>mw_events = [], mw_capacity = nat (if capacity \<le> 0 then defaultMemoryWriterCapacity else capacity),
      mw_closed = False, mw_dropped = 0\<rparr>"

text \<open>Whether the context's error is returned, and the writer.\<close>

definition MemoryWriter_Enqueue :: "bool \<Rightarrow> bool \<Rightarrow> Event \<Rightarrow> MemoryWriter \<Rightarrow> bool \<times> MemoryWriter" where
  "MemoryWriter_Enqueue done prefer_done event w =
     (if mw_closed w then (False, w\<lparr>mw_dropped := mw_dropped w + 1\<rparr>)
      else case select_send done prefer_done (mw_capacity w) (mw_events w) of
             CtxDone \<Rightarrow> (True, w)
           | Sent \<Rightarrow> (False, w\<lparr>mw_events := mw_events w @ [event]\<rparr>)
           | DefaultCase \<Rightarrow> (False, w\<lparr>mw_dropped := mw_dropped w + 1\<rparr>))"

definition MemoryWriter_Dropped :: "MemoryWriter \<Rightarrow> int" where
  "MemoryWriter_Dropped w = sint (mw_dropped w)"

definition MemoryWriter_Close :: "MemoryWriter \<Rightarrow> MemoryWriter" where
  "MemoryWriter_Close w = w\<lparr>mw_closed := True\<rparr>"

section \<open>The pipeline\<close>

record Pipeline =
  pl_events :: "Event list"
  pl_capacity :: nat
  pl_batchSize :: nat
  pl_strictHealthGate :: "HealthGate option"
  pl_markUnhealthyDrop :: bool
  pl_shutdownTimeout :: duration
  pl_closed :: bool
  pl_dropped :: uint64
  pl_lastError :: "string option"

record PipelineOptions =
  po_Capacity :: int
  po_BatchSize :: int
  po_StrictHealthGate :: "HealthGate option"
  po_MarkUnhealthyDrop :: bool
  po_ShutdownTimeout :: duration

record PipelineStats =
  ps_QueueDepth :: int
  ps_Capacity :: int
  ps_Dropped :: uint64
  ps_LastError :: string

definition defaultPipelineCapacity :: int where
  "defaultPipelineCapacity = 1024"

definition defaultPipelineBatchSize :: int where
  "defaultPipelineBatchSize = 100"

definition unhealthyReasonQueueSaturated :: string where
  "unhealthyReasonQueueSaturated = ''event_queue_saturated''"

definition unhealthyReasonWriteFailed :: string where
  "unhealthyReasonWriteFailed = ''clickhouse_write_failed''"

definition NewPipeline :: "PipelineOptions \<Rightarrow> Pipeline" where
  "NewPipeline opts =
     \<lparr>pl_events = [],
      pl_capacity = nat (if po_Capacity opts \<le> 0 then defaultPipelineCapacity else po_Capacity opts),
      pl_batchSize = nat (if po_BatchSize opts \<le> 0 then defaultPipelineBatchSize else po_BatchSize opts),
      pl_strictHealthGate = po_StrictHealthGate opts,
      pl_markUnhealthyDrop = po_MarkUnhealthyDrop opts,
      pl_shutdownTimeout = po_ShutdownTimeout opts,
      pl_closed = False, pl_dropped = 0, pl_lastError = None\<rparr>"

definition markDropUnhealthy :: "Pipeline \<Rightarrow> Pipeline" where
  "markDropUnhealthy p =
     (if pl_markUnhealthyDrop p
      then p\<lparr>pl_strictHealthGate := MarkUnhealthy unhealthyReasonQueueSaturated (pl_strictHealthGate p)\<rparr>
      else p)"

definition markWriteFailed :: "string option \<Rightarrow> Pipeline \<Rightarrow> Pipeline" where
  "markWriteFailed err p =
     p\<lparr>pl_lastError := (case err of None \<Rightarrow> pl_lastError p | Some e \<Rightarrow> Some e),
       pl_strictHealthGate := MarkUnhealthy unhealthyReasonWriteFailed (pl_strictHealthGate p)\<rparr>"

definition markWriteSucceeded :: "Pipeline \<Rightarrow> Pipeline" where
  "markWriteSucceeded p = p\<lparr>pl_lastError := Some [], pl_strictHealthGate := MarkHealthy (pl_strictHealthGate p)\<rparr>"

definition Enqueue :: "bool \<Rightarrow> bool \<Rightarrow> Event \<Rightarrow> Pipeline \<Rightarrow> bool \<times> Pipeline" where
  "Enqueue done prefer_done event p =
     (if pl_closed p then (False, markDropUnhealthy (p\<lparr>pl_dropped := pl_dropped p + 1\<rparr>))
      else case select_send done prefer_done (pl_capacity p) (pl_events p) of
             CtxDone \<Rightarrow> (True, p)
           | Sent \<Rightarrow> (False, p\<lparr>pl_events := pl_events p @ [event]\<rparr>)
           | DefaultCase \<Rightarrow> (False, markDropUnhealthy (p\<lparr>pl_dropped := pl_dropped p + 1\<rparr>)))"

text \<open>The events taken from the channel, and those left in it.\<close>

fun next_batch :: "nat \<Rightarrow> Event list \<Rightarrow> Event list \<Rightarrow> Event list \<times> Event list" where
  "next_batch (Suc room) (event # queue) batch = next_batch room queue (batch @ [event])"
| "next_batch (Suc room) [] batch = (batch, [])"
| "next_batch 0 queue batch = (batch, queue)"

definition nextBatch :: "Pipeline \<Rightarrow> Event list \<times> Pipeline" where
  "nextBatch p = (let (batch, queue) = next_batch (pl_batchSize p) (pl_events p) [] in (batch, p\<lparr>pl_events := queue\<rparr>))"

definition discardQueued :: "Pipeline \<Rightarrow> Pipeline" where
  "discardQueued p = p\<lparr>pl_events := []\<rparr>"

definition markSinkStatus :: "string \<Rightarrow> Event list \<Rightarrow> Event list" where
  "markSinkStatus status events = map (\<lambda>e. e\<lparr>ev_SinkStatus := status\<rparr>) events"

datatype 'e flush_error = FlushEventBatch 'e | FlushFailedStatus 'e

fun flush_error_text :: "('e \<Rightarrow> string) \<Rightarrow> 'e flush_error \<Rightarrow> string" where
  "flush_error_text text_of (FlushEventBatch e) = ''flush event batch: '' @ text_of e"
| "flush_error_text text_of (FlushFailedStatus e) = ''flush failed event status: '' @ text_of e"

text \<open>One round of \<open>Flush\<close>, for a batch that is not empty: the first error so far, and the world.\<close>

definition flush_batch ::
  "('e \<Rightarrow> string) \<Rightarrow> ('e, 'w) BatchSink \<Rightarrow> Event list \<Rightarrow> 'e flush_error option \<Rightarrow> Pipeline \<Rightarrow> 'w \<Rightarrow>
   'e flush_error option \<times> Pipeline \<times> 'w" where
  "flush_batch text_of sink batch firstErr p w =
     (case sink (markSinkStatus ''delivered'' batch) w of
        ((None, _), w) \<Rightarrow> (firstErr, markWriteSucceeded p, w)
      | ((Some err, batch), w) \<Rightarrow>
          (let firstErr = (case firstErr of None \<Rightarrow> Some (FlushEventBatch err) | Some e \<Rightarrow> Some e);
               ((statusErr, _), w) = sink (markSinkStatus ''failed'' batch) w;
               firstErr = (case (statusErr, firstErr) of (Some e, None) \<Rightarrow> Some (FlushFailedStatus e) | _ \<Rightarrow> firstErr)
           in (firstErr, markWriteFailed (map_option (flush_error_text text_of) firstErr) p, w)))"

lemma next_batch_take: "next_batch n queue batch = (batch @ take n queue, List.drop n queue)"
  by (induction n queue batch rule: next_batch.induct) simp_all

lemma nextBatch_eq: "nextBatch p = (take (pl_batchSize p) (pl_events p), p\<lparr>pl_events := List.drop (pl_batchSize p) (pl_events p)\<rparr>)"
  by (simp add: nextBatch_def next_batch_take)

lemma mark_events [simp]:
  "pl_events (markWriteFailed e p) = pl_events p" "pl_events (markWriteSucceeded p) = pl_events p" "pl_events (markDropUnhealthy p) = pl_events p"
  by (simp_all add: markWriteFailed_def markWriteSucceeded_def markDropUnhealthy_def)

lemma flush_batch_events: "flush_batch t sink batch e p w = (e', p', w') \<Longrightarrow> pl_events p' = pl_events p"
  by (auto simp: flush_batch_def Let_def split: prod.splits option.splits)

function flush_from ::
  "('e \<Rightarrow> string) \<Rightarrow> ('e, 'w) BatchSink \<Rightarrow> 'e flush_error option \<Rightarrow> Pipeline \<Rightarrow> 'w \<Rightarrow> 'e flush_error option \<times> Pipeline \<times> 'w" where
  "flush_from text_of sink firstErr p w =
     (case nextBatch p of (batch, p1) \<Rightarrow>
        if batch = [] then (firstErr, p1, w)
        else case flush_batch text_of sink batch firstErr p1 w of (firstErr, p2, w) \<Rightarrow> flush_from text_of sink firstErr p2 w)"
  by pat_completeness auto
termination
  by (relation "measure (\<lambda>(t, sink, e, p, w). length (pl_events p))")
    (auto simp: nextBatch_eq split: prod.splits dest!: flush_batch_events)

declare flush_from.simps [simp del]

definition Flush :: "('e \<Rightarrow> string) \<Rightarrow> ('e, 'w) BatchSink option \<Rightarrow> Pipeline \<Rightarrow> 'w \<Rightarrow> 'e flush_error option \<times> Pipeline \<times> 'w" where
  "Flush text_of sink p w =
     (case sink of
        None \<Rightarrow> (None, discardQueued p, w)
      | Some sink \<Rightarrow> flush_from text_of sink None p w)"

definition Pipeline_Close :: "Pipeline \<Rightarrow> Pipeline" where
  "Pipeline_Close p = p\<lparr>pl_closed := True\<rparr>"

text \<open>One turn of \<open>Run\<close>: a tick of the timer, or the end of the context, with which \<open>Run\<close> returns.\<close>

definition run_flush :: "('e \<Rightarrow> string) \<Rightarrow> ('e, 'w) BatchSink option \<Rightarrow> Pipeline \<Rightarrow> 'w \<Rightarrow> Pipeline \<times> 'w" where
  "run_flush text_of sink p w =
     (case Flush text_of sink p w of
        (None, p, w) \<Rightarrow> (p, w)
      | (Some e, p, w) \<Rightarrow> (markWriteFailed (Some (flush_error_text text_of e)) p, w))"

definition run_turn :: "('e \<Rightarrow> string) \<Rightarrow> ('e, 'w) BatchSink option \<Rightarrow> bool \<Rightarrow> Pipeline \<Rightarrow> 'w \<Rightarrow> Pipeline \<times> 'w" where
  "run_turn text_of sink done p w = run_flush text_of sink (if done then Pipeline_Close p else p) w"

definition shutdownContext :: "Pipeline \<Rightarrow> duration" where
  "shutdownContext p = (if pl_shutdownTimeout p \<le> 0 then 5000000000 else pl_shutdownTimeout p)"

definition Pipeline_Dropped :: "Pipeline \<Rightarrow> uint64" where
  "Pipeline_Dropped p = pl_dropped p"

definition Pipeline_Stats :: "Pipeline \<Rightarrow> PipelineStats" where
  "Pipeline_Stats p =
     \<lparr>ps_QueueDepth = int (length (pl_events p)), ps_Capacity = int (pl_capacity p), ps_Dropped = pl_dropped p,
      ps_LastError = (case pl_lastError p of None \<Rightarrow> [] | Some e \<Rightarrow> e)\<rparr>"

section \<open>The durable sink\<close>

text \<open>The interface \<open>Spool\<close>, over a state of its own; its errors are of type \<open>'f\<close>.\<close>

record ('f, 's) Spool =
  sp_Append :: "Event list \<Rightarrow> 's \<Rightarrow> ('f + unit) \<times> 's"
  sp_NextBatch :: "int \<Rightarrow> 's \<Rightarrow> ('f + SpooledEvent list) \<times> 's"
  sp_RecordFailure :: "SpooledEvent list \<Rightarrow> string option \<Rightarrow> 's \<Rightarrow> ('f + unit) \<times> 's"
  sp_Ack :: "SpooledEvent list \<Rightarrow> 's \<Rightarrow> ('f + unit) \<times> 's"

datatype 'f durable_error = PrimarySinkRequired | SpoolRequiredAfterFailure | AppendToSpool 'f

definition spoolStatusSpooled :: string where
  "spoolStatusSpooled = ''spooled''"

definition spoolStatusReplayed :: string where
  "spoolStatusReplayed = ''replayed''"

definition mark_spooled :: "Event \<Rightarrow> Event" where
  "mark_spooled e = e\<lparr>ev_SinkStatus := spoolStatusSpooled, ev_SpoolStatus := spoolStatusSpooled\<rparr>"

definition DurableSink_WriteBatch ::
  "('e, 'w) BatchSink option \<Rightarrow> ('f, 's) Spool option \<Rightarrow> ('f durable_error, 'w \<times> 's) BatchSink" where
  "DurableSink_WriteBatch primary spool batch ws =
     (case ws of (w, s) \<Rightarrow>
        if batch = [] then ((None, batch), (w, s))
        else case primary of
               None \<Rightarrow> ((Some PrimarySinkRequired, batch), (w, s))
             | Some primary \<Rightarrow>
                 (case primary batch w of
                    ((None, batch), w) \<Rightarrow> ((None, batch), (w, s))
                  | ((Some _, batch), w) \<Rightarrow>
                      (case spool of
                         None \<Rightarrow> ((Some SpoolRequiredAfterFailure, batch), (w, s))
                       | Some spool \<Rightarrow>
                           (case sp_Append spool (map mark_spooled batch) s of
                              (Inl e, s) \<Rightarrow> ((Some (AppendToSpool e), batch), (w, s))
                            | (Inr _, s) \<Rightarrow> ((None, map mark_spooled batch), (w, s))))))"

section \<open>Replay\<close>

record ReplayWorkerOptions =
  ro_BatchSize :: int
  ro_Interval :: duration

record ReplayWorker =
  rw_batchSize :: int
  rw_interval :: duration

definition NewReplayWorker :: "ReplayWorkerOptions \<Rightarrow> ReplayWorker" where
  "NewReplayWorker opts =
     \<lparr>rw_batchSize = (if ro_BatchSize opts \<le> 0 then defaultPipelineBatchSize else ro_BatchSize opts),
      rw_interval = (if ro_Interval opts \<le> 0 then 5000000000 else ro_Interval opts)\<rparr>"

datatype ('e, 'f) replay_error =
    ReplayPrimaryRequired
  | ReplaySpoolRequired
  | ReadSpoolBatch 'f
  | RecordReplayFailure 'f
  | ReplaySpoolBatch 'e
  | AckSpoolBatch 'f

definition replayed :: "SpooledEvent \<Rightarrow> Event" where
  "replayed r = (se_Event r)\<lparr>ev_SpoolStatus := spoolStatusReplayed, ev_RetryCount := se_RetryCount r + 1\<rparr>"

definition ReplayOnce ::
  "('e \<Rightarrow> string) \<Rightarrow> ('e, 'w) BatchSink option \<Rightarrow> ('f, 's) Spool option \<Rightarrow> int \<Rightarrow> 'w \<times> 's \<Rightarrow>
   ('e, 'f) replay_error option \<times> 'w \<times> 's" where
  "ReplayOnce text_of primary spool batchSize ws =
     (case ws of (w, s) \<Rightarrow>
        (case (primary, spool) of
           (None, _) \<Rightarrow> (Some ReplayPrimaryRequired, w, s)
         | (Some _, None) \<Rightarrow> (Some ReplaySpoolRequired, w, s)
         | (Some primary, Some spool) \<Rightarrow>
             (case sp_NextBatch spool batchSize s of
                (Inl e, s) \<Rightarrow> (Some (ReadSpoolBatch e), w, s)
              | (Inr spooled, s) \<Rightarrow>
                  if spooled = [] then (None, w, s)
                  else case primary (map replayed spooled) w of
                         ((Some err, _), w) \<Rightarrow>
                           (case sp_RecordFailure spool spooled (Some (text_of err)) s of
                              (Inl e, s) \<Rightarrow> (Some (RecordReplayFailure e), w, s)
                            | (Inr _, s) \<Rightarrow> (Some (ReplaySpoolBatch err), w, s))
                       | ((None, _), w) \<Rightarrow>
                           (case sp_Ack spool spooled s of
                              (Inl e, s) \<Rightarrow> (Some (AckSpoolBatch e), w, s)
                            | (Inr _, s) \<Rightarrow> (None, w, s)))))"

text \<open>The file spool as a \<open>Spool\<close>.\<close>

definition file_spool :: "spool_codec \<Rightarrow> (spool_error, spool) Spool" where
  "file_spool J = \<lparr>sp_Append = Append J, sp_NextBatch = NextBatch J, sp_RecordFailure = RecordFailure J, sp_Ack = Ack\<rparr>"

end
