(* ===== verification/Delivery_Claims.thy ===== *)
theory Delivery_Claims
  imports Spool_Claims Delivery Spool_Ops
begin

text \<open>
  What the delivery of events needs of a durable spool, as a contract, and what the durable sink and the
  replay worker then promise; and the file spool, which keeps the contract.
\<close>

section \<open>The contract of a durable spool\<close>

text \<open>\<open>owns s e\<close>: the caller holds the claim of the event \<open>e\<close>.\<close>

locale durable_spool =
  fixes S :: "('f, 's) Spool"
    and ok :: "'s \<Rightarrow> bool"
    and clock :: "'s \<Rightarrow> gotime"
    and has :: "'s \<Rightarrow> string \<Rightarrow> Event \<times> gotime \<Rightarrow> bool"
    and old :: "'s \<Rightarrow> Event \<times> gotime \<Rightarrow> bool"
    and clean :: "Event \<Rightarrow> Event"
    and owns :: "'s \<Rightarrow> SpooledEvent \<Rightarrow> bool"
  assumes append: "ok s \<Longrightarrow> \<forall>e\<in>set evs. plain (ev_EventID e) \<Longrightarrow> sp_Append S evs s = (r, s') \<Longrightarrow>
      ok s' \<and> old s' = old s \<and> (\<forall>i c. has s i c \<longrightarrow> has s' i c \<or> old s c) \<and> (r = Inr () \<longrightarrow> (\<forall>e\<in>set evs. \<exists>i. has s' i (clean e, clock s)))"
    and take_batch: "ok s \<Longrightarrow> sp_NextBatch S n s = (rn, s') \<Longrightarrow>
      ok s' \<and> old s' = old s \<and> (\<forall>i c. has s i c \<longrightarrow> has s' i c \<or> old s c) \<and> (\<forall>es. rn = Inr es \<longrightarrow> (\<forall>e\<in>set es. owns s' e))"
    and failure: "ok s \<Longrightarrow> \<forall>e\<in>set es. owns s e \<Longrightarrow> sp_RecordFailure S es cause s = (r, s') \<Longrightarrow>
      ok s' \<and> old s' = old s \<and> (\<forall>i c. has s i c \<longrightarrow> has s' i c)"
    and ack: "ok s \<Longrightarrow> \<forall>e\<in>set es. owns s e \<Longrightarrow> sp_Ack S es s = (r, s') \<Longrightarrow>
      ok s' \<and> old s' = old s \<and> (\<forall>i c. has s i c \<longrightarrow> has s' i c \<or> (\<exists>e\<in>set es. c = (se_Event e, se_CreatedAt e)))"

text \<open>A primary sink that leaves the batch as it was, and one that keeps a log of the batches it accepts.\<close>

definition leaves_batch :: "('e, 'w) BatchSink \<Rightarrow> bool" where
  "leaves_batch sink \<longleftrightarrow> (\<forall>batch w. snd (fst (sink batch w)) = batch)"

definition recording :: "('e, 'w) BatchSink \<Rightarrow> ('e, 'w \<times> Event list list) BatchSink" where
  "recording sink batch wl =
     (case wl of (w, lg) \<Rightarrow> case sink batch w of (res, w) \<Rightarrow> (res, (w, if fst res = None then lg @ [batch] else lg)))"

definition logged :: "Event \<Rightarrow> Event list list \<Rightarrow> bool" where
  "logged e lg \<longleftrightarrow> (\<exists>b\<in>set lg. e \<in> set b)"

text \<open>The event as a replay sends it, whatever its retry count.\<close>

definition replay_of :: "Event \<Rightarrow> Event list list \<Rightarrow> bool" where
  "replay_of e lg \<longleftrightarrow> (\<exists>n. logged (e\<lparr>ev_SpoolStatus := spoolStatusReplayed, ev_RetryCount := n\<rparr>) lg)"

lemma recording_cases:
  assumes "recording sink batch (w, lg) = ((r, b), wl)" "leaves_batch sink"
  shows "b = batch" "\<exists>w'. wl = (w', if r = None then lg @ [batch] else lg)"
proof -
  obtain r0 b0 w0 where s: "sink batch w = ((r0, b0), w0)" by (metis prod.exhaust)
  with assms(2) have "b0 = batch" unfolding leaves_batch_def by (metis fst_conv snd_conv)
  with assms(1) s show "b = batch" "\<exists>w'. wl = (w', if r = None then lg @ [batch] else lg)" by (auto simp: recording_def)
qed

lemma logged_append: "logged e lg \<Longrightarrow> logged e (lg @ bs)"
  by (auto simp: logged_def)

lemma replay_of_append: "replay_of e lg \<Longrightarrow> replay_of e (lg @ bs)"
  unfolding replay_of_def using logged_append by blast

context durable_spool
begin

lemma write_batch:
  assumes "ok s" "\<forall>e\<in>set batch. plain (ev_EventID e)" "leaves_batch primary"
    and "DurableSink_WriteBatch (Some (recording primary)) (Some S) batch ((w, lg), s) = ((r, b), ((w', lg'), s'))"
  shows "ok s' \<and> old s' = old s \<and> (\<forall>i c. has s i c \<longrightarrow> has s' i c \<or> old s c) \<and> (\<exists>bs. lg' = lg @ bs) \<and>
    (r = None \<longrightarrow> (\<forall>e\<in>set batch. logged e lg' \<or> (\<exists>i. has s' i (clean (mark_spooled e), clock s))))"
proof (cases "batch = []")
  case True
  with assms(1,4) show ?thesis by (simp add: DurableSink_WriteBatch_def)
next
  case False
  obtain r1 b1 wl1 where p: "recording primary batch (w, lg) = ((r1, b1), wl1)" by (metis prod.exhaust)
  note rec = recording_cases [OF p assms(3)]
  then obtain w1 where wl1: "wl1 = (w1, if r1 = None then lg @ [batch] else lg)" by blast
  show ?thesis
  proof (cases r1)
    case None
    with False p wl1 assms(1,4) show ?thesis by (auto simp: DurableSink_WriteBatch_def logged_def)
  next
    case (Some err)
    obtain ra s1 where a: "sp_Append S (map mark_spooled batch) s = (ra, s1)" by fastforce
    have "\<forall>e\<in>set (map mark_spooled batch). plain (ev_EventID e)" using assms(2) by (simp add: mark_spooled_def)
    from append [OF assms(1) this a] have post: "ok s1 \<and> old s1 = old s \<and> (\<forall>i c. has s i c \<longrightarrow> has s1 i c \<or> old s c) \<and>
        (ra = Inr () \<longrightarrow> (\<forall>e\<in>set batch. \<exists>i. has s1 i (clean (mark_spooled e), clock s)))" by simp
    have "s' = s1" "lg' = lg" "r = None \<Longrightarrow> ra = Inr ()"
      using False p rec(1) wl1 Some a assms(4) by (auto simp: DurableSink_WriteBatch_def split: sum.splits)
    with post show ?thesis by blast
  qed
qed

text \<open>A replay loses no record but by age, or because the primary sink accepted its event.\<close>

lemma replay:
  assumes "ok s" "leaves_batch primary" "ReplayOnce t (Some (recording primary)) (Some S) n ((w, lg), s) = (r, (w', lg'), s')"
  shows "ok s' \<and> old s' = old s \<and> (\<exists>bs. lg' = lg @ bs) \<and> (\<forall>i c. has s i c \<longrightarrow> has s' i c \<or> old s c \<or> replay_of (fst c) lg')"
proof -
  obtain rn s1 where nb: "sp_NextBatch S n s = (rn, s1)" by fastforce
  note post = take_batch [OF assms(1) nb]
  show ?thesis
  proof (cases "\<exists>es. rn = Inr es \<and> es \<noteq> []")
    case False
    then have "s' = s1 \<and> lg' = lg" using assms(3) nb by (auto simp: ReplayOnce_def split: sum.splits)
    with post show ?thesis by blast
  next
    case True
    then obtain es where es: "rn = Inr es" "es \<noteq> []" by blast
    then have own: "\<forall>e\<in>set es. owns s1 e" using post by blast
    obtain r1 b1 wl1 where p: "recording primary (map replayed es) (w, lg) = ((r1, b1), wl1)" by (metis prod.exhaust)
    obtain w1 where wl1: "wl1 = (w1, if r1 = None then lg @ [map replayed es] else lg)" using recording_cases [OF p assms(2)] by blast
    show ?thesis
    proof (cases r1)
      case None
      obtain ra s2 where a: "sp_Ack S es s1 = (ra, s2)" by fastforce
      have end_state: "s' = s2" "lg' = lg @ [map replayed es]"
        using assms(3) nb es p wl1 None a by (auto simp: ReplayOnce_def split: sum.splits)
      have sent: "replay_of (se_Event e) lg'" if "e \<in> set es" for e
        using that unfolding replay_of_def logged_def end_state(2)
        by (intro exI [of _ "se_RetryCount e + 1"]) (force simp: replayed_def)
      have ack': "ok s2" "old s2 = old s1" "\<And>i c. has s1 i c \<Longrightarrow> has s2 i c \<or> (\<exists>e\<in>set es. c = (se_Event e, se_CreatedAt e))"
        using ack [OF _ own a] post by blast+
      have "has s' i c \<or> old s c \<or> replay_of (fst c) lg'" if h: "has s i c" for i c
      proof -
        from post h consider "old s c" | "has s1 i c" by blast
        then show ?thesis
        proof cases
          case 2
          from ack'(3) [OF this] sent show ?thesis unfolding end_state(1) by auto
        qed simp
      qed
      with ack'(1,2) post end_state show ?thesis by auto
    next
      case (Some err)
      obtain rf s2 where f: "sp_RecordFailure S es (Some (t err)) s1 = (rf, s2)" by fastforce
      have end_state: "s' = s2" "lg' = lg" using assms(3) nb es p wl1 Some f by (auto simp: ReplayOnce_def split: sum.splits)
      have "ok s2" "old s2 = old s1" "\<And>i c. has s1 i c \<Longrightarrow> has s2 i c" using failure [OF _ own f] post by blast+
      moreover have "old s1 = old s" "\<And>i c. has s i c \<Longrightarrow> has s1 i c \<or> old s c" using post by blast+
      ultimately show ?thesis unfolding end_state by (metis append_Nil2)
    qed
  qed
qed

end

section \<open>What the file spool delivers\<close>

lemma cut_contains: "cut_str sep (a @ sep @ b) \<noteq> None"
proof (induction a)
  case Nil
  show ?case
  proof (cases "sep @ b")
    case (Cons c cs)
    have "has_prefix sep (sep @ b)" by simp
    with Cons show ?thesis by simp
  qed simp
next
  case (Cons c a)
  then obtain x y where "cut_str sep (a @ sep @ b) = Some (x, y)" by fastforce
  then show ?case by simp
qed

text \<open>The event is that of a held record, and the path is a claim of it.\<close>

definition genuine :: "spool_codec \<Rightarrow> spool \<Rightarrow> SpooledEvent \<Rightarrow> bool" where
  "genuine J s e \<longleftrightarrow> is_claim (se_Path e) \<and> well_named (se_Path e) (se_ID e) \<and> CHR ''.'' \<notin> set (se_ID e) \<and>
     held J s (se_ID e) (se_Event e, se_CreatedAt e)"

lemma keptD: "kept J G s s' \<Longrightarrow> spool_ok J s \<Longrightarrow> spool_ok J s'"
  "kept J G s s' \<Longrightarrow> spool_ok J s \<Longrightarrow> held J s i c \<Longrightarrow> held J s' i c \<or> G i c"
  unfolding kept_def by blast+

lemma genuine_kept: "kept J (\<lambda>_ _. False) s s' \<Longrightarrow> spool_ok J s \<Longrightarrow> genuine J s e \<Longrightarrow> genuine J s' e"
  unfolding genuine_def using keptD(2) by blast

lemma and_then_Inr: "and_then m f s = (Inr y, s') \<longleftrightarrow> (\<exists>x s1. m s = (Inr x, s1) \<and> f x s1 = (Inr y, s'))"
  by (auto simp: and_then_def split: prod.splits sum.splits)

lemma claim_result:
  "claimRecord n s = (Inr (Some p), s') \<Longrightarrow> is_claim p"
proof -
  assume "claimRecord n s = (Inr (Some p), s')"
  then obtain p0 s1 where c: "claimPath n s = (Inr p0, s1)" and "p = p0"
    by (auto simp: claimRecord_def and_then_Inr ret_def fail_def split: if_splits sum.splits) (metis sum.exhaust old.unit.exhaust)
  then show "is_claim p" using cut_contains [of "''.inflight.''" "trim_json n"]
    by (auto simp: claimPath_def and_then_Inr get_def modify_def is_claim_def)
qed

lemma claim_entries_genuine:
  assumes "claim_entries J ns batch s = (Inr es, s')" "\<forall>n\<in>set ns. \<not> is_claim n" "spool_ok J s" "\<forall>e\<in>set batch. genuine J s e"
  shows "\<forall>e\<in>set es. genuine J s' e"
  using assms
proof (induction ns arbitrary: batch s)
  case Nil
  then show ?case by (auto simp: ret_def)
next
  case (Cons n ns)
  let ?K = "kept J (\<lambda>_ _. False)"
  obtain x s1 c s2 where c: "check_ctx True s = (Inr x, s1)" "claimRecord n s1 = (Inr c, s2)"
    using Cons.prems(1) by (auto simp: and_then_Inr)
  have k12: "?K s s2"
    using kept_trans [OF relatesD [OF keep.check_ctx c(1)] relatesD [OF claim_kept c(2)]] Cons.prems(2) by simp
  note ok2 = keptD(1) [OF k12 Cons.prems(3)]
  have b2: "\<forall>e\<in>set batch. genuine J s2 e" using genuine_kept [OF k12 Cons.prems(3)] Cons.prems(4) by blast
  have rest: "\<forall>n\<in>set ns. \<not> is_claim n" using Cons.prems(2) by simp
  show ?case
  proof (cases c)
    case None
    with c Cons.prems(1) have "claim_entries J ns batch s2 = (Inr es, s')" by (simp add: and_then_def)
    from Cons.IH [OF this rest ok2 b2] show ?thesis .
  next
    case (Some p)
    obtain res s3 where rd: "readRecord J p s2 = (res, s3)" by fastforce
    show ?thesis
    proof (cases res)
      case (Inl e)
      with c Some rd Cons.prems(1) show ?thesis by (simp add: and_then_def try_op_def fail_def split: prod.splits)
    next
      case (Inr y)
      obtain r b where y: "y = (r, b)" by fastforce
      note k3 = relatesD [OF keep.read rd]
      have at: "record_at J s3 p r" using read_result rd Inr y by blast
      note ok3 = keptD(1) [OF k3 ok2]
      note ro = record_okD [OF ok3 at]
      let ?e = "\<lparr>se_ID = sr_ID r, se_Path = p, se_Event = sr_Event r, se_CreatedAt = sr_CreatedAt r,
                   se_RetryCount = sr_RetryCount r, se_LastError = sr_LastError r, se_SizeBytes = b\<rparr>"
      have "held J s3 (sr_ID r) (sr_Event r, sr_CreatedAt r)" using at unfolding held_def core_def by blast
      then have "genuine J s3 ?e"
        using claim_result [OF c(2) [unfolded Some]] ro record_ok_dot [OF ro] by (simp add: genuine_def record_ok_def)
      moreover have "\<forall>e\<in>set batch. genuine J s3 e" using genuine_kept [OF k3 ok2] b2 by blast
      ultimately have b3: "\<forall>e\<in>set (batch @ [?e]). genuine J s3 e" by simp
      have "claim_entries J ns (batch @ [?e]) s3 = (Inr es, s')"
        using c Some rd Inr y Cons.prems(1) by (simp add: and_then_def try_op_def)
      from Cons.IH [OF this rest ok3 b3] show ?thesis .
    qed
  qed
qed

lemma next_batch_genuine:
  assumes "NextBatch J n s = (Inr es, s')" "spool_ok J s"
  shows "\<forall>e\<in>set es. genuine J s' e"
proof -
  obtain x s1 y s2 z s3 ns s4 where
    l: "lockDirectory True s = (Inr x, s1)" "recoverStaleClaimsLocked True s1 = (Inr y, s2)" "purgeExpiredLocked J True s2 = (Inr z, s3)"
      "recordFiles s3 = (Inr ns, s4)"
    and c: "claim_entries J (take (nat (if n \<le> 0 then 1 else n)) ns) [] s4 = (Inr es, s')"
    using assms(1) unfolding NextBatch_def and_then_Inr by blast
  let ?G = "\<lambda>_ _. True"
  have "kept J ?G s2 s3" using relatesD [OF purge_kept l(3), of "sp_now s2" "sp_maxAge s2" ?G] by (simp add: kept_at_def)
  then have "kept J ?G s s4"
    using kept_trans [OF kept_trans [OF relatesD [OF keep.lock l(1)] relatesD [OF recover_kept l(2)]]]
      relatesD [OF keep.listing l(4)] kept_trans by blast
  then have "spool_ok J s4" using keptD(1) assms(2) by blast
  moreover have "\<forall>n\<in>set ns. \<not> is_claim n" using record_files_yields l(4) unfolding yields_def by blast
  then have "\<forall>m\<in>set (take k ns). \<not> is_claim m" for k using in_set_takeD by fast
  ultimately show ?thesis using claim_entries_genuine [OF c] by simp
qed

lemma acknowledged_genuine:
  assumes "spool_ok J s" "\<forall>e\<in>set es. genuine J s e" "held J s i c" "acknowledged es i c"
  shows "\<exists>e\<in>set es. c = (se_Event e, se_CreatedAt e)"
proof -
  obtain e where e: "e \<in> set es" "well_named (se_Path e) i" using assms(4) unfolding acknowledged_def by blast
  obtain n r where r: "record_at J s n r" "sr_ID r = i" "core r = c" using assms(3) unfolding held_def by blast
  have g: "well_named (se_Path e) (se_ID e)" "CHR ''.'' \<notin> set (se_ID e)" "held J s (se_ID e) (se_Event e, se_CreatedAt e)"
    using assms(2) e(1) unfolding genuine_def by blast+
  have "CHR ''.'' \<notin> set i" using record_ok_dot [OF record_okD [OF assms(1) r(1)]] r(2) by simp
  from well_named_inj [OF e(2) g(1) this g(2)] have "i = se_ID e" .
  with g(3) r copies [OF assms(1)] have "c = (se_Event e, se_CreatedAt e)" unfolding held_def by metis
  with e(1) show ?thesis by blast
qed

definition expired :: "spool \<Rightarrow> Event \<times> gotime \<Rightarrow> bool" where
  "expired s c \<longleftrightarrow> expired_by (sp_now s) (sp_maxAge s) [] c"

lemma expired_any: "expired_by (sp_now s) (sp_maxAge s) i c \<longleftrightarrow> expired s c"
  by (simp add: expired_def expired_by_def)

lemma kept_expired: "kept J G s s' \<Longrightarrow> spool_ok J s \<Longrightarrow> expired s' = expired s"
  by (auto simp: kept_def expired_def fun_eq_iff)

interpretation files: durable_spool "file_spool J" "\<lambda>s. codec_ok J \<and> spool_ok J s" sp_now "held J" expired "sc_clean J" "genuine J" for J
proof
  show "(codec_ok J \<and> spool_ok J s') \<and> expired s' = expired s \<and> (\<forall>i c. held J s i c \<longrightarrow> held J s' i c \<or> expired s c) \<and>
      (r = Inr () \<longrightarrow> (\<forall>e\<in>set evs. \<exists>i. held J s' i (sc_clean J e, sp_now s)))"
    if "codec_ok J \<and> spool_ok J s" "\<forall>e\<in>set evs. plain (ev_EventID e)" "sp_Append (file_spool J) evs s = (r, s')" for s evs r s'
  proof -
    have a: "Append J evs s = (r, s')" using that(3) by (simp add: file_spool_def)
    from append_ok [of J evs s] that(1,2) a
    have k: "kept J (expired_by (sp_now s) (sp_maxAge s)) s s'" and h: "r = Inr () \<longrightarrow> all_held J s' (sp_now s) evs" by auto
    from kept_expired [OF k] keptD [OF k] that(1) h show ?thesis unfolding all_held_def expired_any by blast
  qed
  show "(codec_ok J \<and> spool_ok J s') \<and> expired s' = expired s \<and> (\<forall>i c. held J s i c \<longrightarrow> held J s' i c \<or> expired s c) \<and>
      (\<forall>es. r = Inr es \<longrightarrow> (\<forall>e\<in>set es. genuine J s' e))"
    if "codec_ok J \<and> spool_ok J s" "sp_NextBatch (file_spool J) n s = (r, s')" for s n r s'
  proof -
    have a: "NextBatch J n s = (r, s')" using that(2) by (simp add: file_spool_def)
    have "relates (kept_at J (expired_by (sp_now s) (sp_maxAge s)) (sp_now s) (sp_maxAge s)) (NextBatch J n)" by (rule next_batch_kept)
    from relatesD [OF this a] have k: "kept J (expired_by (sp_now s) (sp_maxAge s)) s s'" by (simp add: kept_at_def)
    from kept_expired [OF k] keptD [OF k] that(1) next_batch_genuine a show ?thesis unfolding expired_any by blast
  qed
  show "(codec_ok J \<and> spool_ok J s') \<and> expired s' = expired s \<and> (\<forall>i c. held J s i c \<longrightarrow> held J s' i c)"
    if "codec_ok J \<and> spool_ok J s" "\<forall>e\<in>set es. genuine J s e" "sp_RecordFailure (file_spool J) es cause s = (r, s')" for s es cause r s'
  proof -
    have a: "RecordFailure J es cause s = (r, s')" using that(3) by (simp add: file_spool_def)
    have "relates (kept J (\<lambda>_ _. False)) (RecordFailure J es cause)"
      by (rule failure_kept) (use that(1,2) in \<open>auto simp: genuine_def\<close>)
    from kept_expired [OF relatesD [OF this a]] keptD [OF relatesD [OF this a]] that(1) show ?thesis by blast
  qed
  show "(codec_ok J \<and> spool_ok J s') \<and> expired s' = expired s \<and> (\<forall>i c. held J s i c \<longrightarrow> held J s' i c \<or> (\<exists>e\<in>set es. c = (se_Event e, se_CreatedAt e)))"
    if "codec_ok J \<and> spool_ok J s" "\<forall>e\<in>set es. genuine J s e" "sp_Ack (file_spool J) es s = (r, s')" for s es r s'
  proof -
    have a: "Ack es s = (r, s')" using that(3) by (simp add: file_spool_def)
    note k = relatesD [OF ack_kept a]
    from kept_expired [OF k] keptD [OF k] that(1) acknowledged_genuine that(2) show ?thesis by blast
  qed
qed

text \<open>The properties of the delivery of events: the pipeline's queue, and delivery at least once through the spool.\<close>

section \<open>Flushing in batches\<close>

fun chunks :: "nat \<Rightarrow> 'a list \<Rightarrow> 'a list list" where
  "chunks n [] = []"
| "chunks n (x # xs) = (x # take (n - 1) xs) # chunks n (List.drop (n - 1) xs)"

declare chunks.simps(2) [simp del]

lemma chunks_step: "xs \<noteq> [] \<Longrightarrow> 0 < n \<Longrightarrow> chunks n xs = take n xs # chunks n (List.drop n xs)"
  by (cases xs; cases n) (simp_all add: chunks.simps(2))

lemma concat_chunks: "concat (chunks n xs) = xs"
  by (induction n xs rule: chunks.induct) (simp_all add: chunks.simps(2))

lemma chunk_size: "0 < n \<Longrightarrow> b \<in> set (chunks n xs) \<Longrightarrow> b \<noteq> [] \<and> length b \<le> n"
  by (induction n xs rule: chunks.induct) (auto simp: chunks.simps(2))

lemma length_chunks: "0 < n \<Longrightarrow> length (chunks n xs) = (length xs + n - 1) div n"
proof (induction n xs rule: chunks.induct)
  case (2 n x xs)
  have head: "(length xs + n) div n = Suc (length xs div n)" using 2 by simp
  have tail: "(length xs - (n - 1) + n - 1) div n = length xs div n"
  proof (cases "length xs < n - 1")
    case True
    then show ?thesis using 2 by simp
  next
    case False
    then have "length xs - (n - 1) + n - 1 = length xs" using 2 by simp
    then show ?thesis by (simp only:)
  qed
  have "length (chunks n (List.drop (n - 1) xs)) = (length (List.drop (n - 1) xs) + n - 1) div n" by (rule "2.IH" [OF "2.prems"])
  then have "length (chunks n (List.drop (n - 1) xs)) = length xs div n" using tail by (simp only: length_drop)
  with head show ?case by (simp add: chunks.simps(2))
qed simp

text \<open>The rounds of a flush, one for each batch.\<close>

fun rounds ::
  "('e \<Rightarrow> string) \<Rightarrow> ('e, 'w) BatchSink \<Rightarrow> Event list list \<Rightarrow> 'e flush_error option \<Rightarrow> Pipeline \<Rightarrow> 'w \<Rightarrow>
   'e flush_error option \<times> Pipeline \<times> 'w" where
  "rounds t sink [] e p w = (e, p, w)"
| "rounds t sink (b # bs) e p w = (case flush_batch t sink b e p w of (e, p, w) \<Rightarrow> rounds t sink bs e p w)"

lemma flush_batch_frame:
  "flush_batch t sink b e (p\<lparr>pl_events := q\<rparr>) w = (case flush_batch t sink b e p w of (e, p, w) \<Rightarrow> (e, p\<lparr>pl_events := q\<rparr>, w))"
  by (auto simp: flush_batch_def Let_def markWriteSucceeded_def markWriteFailed_def split: prod.splits option.splits)

lemma flush_batch_size: "flush_batch t sink b e p w = (e', p', w') \<Longrightarrow> pl_batchSize p' = pl_batchSize p"
  by (auto simp: flush_batch_def Let_def markWriteSucceeded_def markWriteFailed_def split: prod.splits option.splits)

lemma flush_rounds:
  "0 < pl_batchSize p \<Longrightarrow>
   flush_from t sink e p w = rounds t sink (chunks (pl_batchSize p) (pl_events p)) e (p\<lparr>pl_events := []\<rparr>) w"
proof (induction t sink e p w rule: flush_from.induct)
  case (1 t sink e p w)
  let ?n = "pl_batchSize p" and ?q = "pl_events p"
  show ?case
  proof (cases "?q = []")
    case True
    then show ?thesis by (subst flush_from.simps) (simp add: nextBatch_eq)
  next
    case False
    obtain e1 p1 w1 where f: "flush_batch t sink (take ?n ?q) e p w = (e1, p1, w1)" by (metis prod.exhaust)
    then have fb: "flush_batch t sink (take ?n ?q) e (p\<lparr>pl_events := r\<rparr>) w = (e1, p1\<lparr>pl_events := r\<rparr>, w1)" for r
      by (simp add: flush_batch_frame)
    let ?p2 = "p1\<lparr>pl_events := List.drop ?n ?q\<rparr>"
    have size: "pl_batchSize p1 = ?n" by (rule flush_batch_size [OF f])
    have "flush_from t sink e1 ?p2 w1 = rounds t sink (chunks ?n (List.drop ?n ?q)) e1 (p1\<lparr>pl_events := []\<rparr>) w1"
      using "1.IH" [OF nextBatch_eq [symmetric] _ fb [symmetric] refl] False "1.prems" size by (simp add: nextBatch_eq)
    then show ?thesis
      using False "1.prems" fb by (subst flush_from.simps) (simp add: nextBatch_eq chunks_step)
  qed
qed

lemma rounds_events: "rounds t sink bs e p w = (e', p', w') \<Longrightarrow> pl_events p' = pl_events p"
  by (induction bs arbitrary: e p w) (auto split: prod.splits dest: flush_batch_events)

section \<open>Runs of a pipeline\<close>

text \<open>What becomes of an event offered to the pipeline, and the runs: the offers with what became of them,
  the batches taken, and whether the last thing that touched the health was bad.\<close>

definition offer :: "bool \<Rightarrow> bool \<Rightarrow> Pipeline \<Rightarrow> select_case" where
  "offer done prefer_done p = (if pl_closed p then DefaultCase else select_send done prefer_done (pl_capacity p) (pl_events p))"

inductive pipeline_run ::
  "('e \<Rightarrow> string) \<Rightarrow> ('e, 'w) BatchSink \<Rightarrow> Pipeline \<Rightarrow> 'w \<Rightarrow> Pipeline \<Rightarrow> 'w \<Rightarrow> (Event \<times> select_case) list \<Rightarrow> Event list list \<Rightarrow> bool \<Rightarrow> bool"
  for t sink p0 w0 where
  start: "pipeline_run t sink p0 w0 p0 w0 [] [] False"
| enqueue: "pipeline_run t sink p0 w0 p w hist taken bad \<Longrightarrow> snd (Enqueue done prefer_done ev p) = p' \<Longrightarrow>
    pipeline_run t sink p0 w0 p' w (hist @ [(ev, offer done prefer_done p)]) taken
      (bad \<or> offer done prefer_done p = DefaultCase \<and> pl_markUnhealthyDrop p)"
| round: "pipeline_run t sink p0 w0 p w hist taken bad \<Longrightarrow> nextBatch p = (b, p1) \<Longrightarrow> b \<noteq> [] \<Longrightarrow>
    flush_batch t sink b e p1 w = (e', p2, w') \<Longrightarrow>
    pipeline_run t sink p0 w0 p2 w' hist (taken @ [b]) (fst (fst (sink (markSinkStatus ''delivered'' b) w)) \<noteq> None)"
| close: "pipeline_run t sink p0 w0 p w hist taken bad \<Longrightarrow> pipeline_run t sink p0 w0 (Pipeline_Close p) w hist taken bad"

text \<open>The events accepted into the queue, and the number dropped.\<close>

definition outcome :: "select_case \<Rightarrow> (Event \<times> select_case) list \<Rightarrow> Event list" where
  "outcome c hist = map fst (filter (\<lambda>h. snd h = c) hist)"

definition flow_ok :: "Pipeline \<Rightarrow> (Event \<times> select_case) list \<Rightarrow> Event list list \<Rightarrow> bool \<Rightarrow> bool" where
  "flow_ok p hist taken bad \<longleftrightarrow>
     outcome Sent hist = concat taken @ pl_events p \<and>
     length (pl_events p) \<le> pl_capacity p \<and>
     pl_dropped p = word_of_nat (length (outcome DefaultCase hist)) \<and>
     (\<forall>g. pl_strictHealthGate p = Some g \<longrightarrow> hg_healthy g = (\<not> bad))"

lemma outcome_simps [simp]: "outcome c [] = []" "outcome c (hist @ [(ev, c')]) = outcome c hist @ (if c' = c then [ev] else [])"
  by (simp_all add: outcome_def)

lemma flow_enqueue:
  assumes "flow_ok p hist taken bad"
  shows "flow_ok (snd (Enqueue done prefer_done ev p)) (hist @ [(ev, offer done prefer_done p)]) taken
    (bad \<or> offer done prefer_done p = DefaultCase \<and> pl_markUnhealthyDrop p)"
proof (cases "offer done prefer_done p")
  case Sent
  with assms show ?thesis by (auto simp: flow_ok_def Enqueue_def offer_def select_send_def split: if_splits)
next
  case CtxDone
  with assms show ?thesis by (auto simp: flow_ok_def Enqueue_def offer_def split: if_splits)
next
  case DefaultCase
  then have "snd (Enqueue done prefer_done ev p) = markDropUnhealthy (p\<lparr>pl_dropped := pl_dropped p + 1\<rparr>)"
    by (auto simp: Enqueue_def offer_def split: if_splits)
  with assms DefaultCase show ?thesis
    by (auto simp: flow_ok_def markDropUnhealthy_def MarkUnhealthy_def add.commute)
qed

lemma flow_round:
  assumes "flow_ok p hist taken bad" "nextBatch p = (b, p1)" "flush_batch t sink b e p1 w = (e', p2, w')"
  shows "flow_ok p2 hist (taken @ [b]) (fst (fst (sink (markSinkStatus ''delivered'' b) w)) \<noteq> None)"
proof -
  have p1: "p1 = p\<lparr>pl_events := List.drop (pl_batchSize p) (pl_events p)\<rparr>" "b = take (pl_batchSize p) (pl_events p)"
    using assms(2) by (simp_all add: nextBatch_eq)
  have "pl_events p2 = pl_events p1" by (rule flush_batch_events [OF assms(3)])
  moreover have "pl_capacity p2 = pl_capacity p1 \<and> pl_dropped p2 = pl_dropped p1 \<and>
      (\<forall>g. pl_strictHealthGate p2 = Some g \<longrightarrow> hg_healthy g = (fst (fst (sink (markSinkStatus ''delivered'' b) w)) = None))"
    using assms(3) by (auto simp: flush_batch_def Let_def markWriteSucceeded_def markWriteFailed_def MarkHealthy_def MarkUnhealthy_def
        split: prod.splits option.splits)
  ultimately show ?thesis using assms(1) by (auto simp: flow_ok_def p1)
qed

section \<open>Runs of the delivery\<close>

text \<open>A durable sink and a replay worker over the file spool: writes, replays, statistics and the passing
  of time, with any system calls failing.  \<open>owed\<close> holds the events whose write was reported a success,
  with the time of the write.\<close>

inductive delivery_run ::
  "spool_codec \<Rightarrow> ('e, 'w) BatchSink \<Rightarrow> ('e \<Rightarrow> string) \<Rightarrow> 'w \<Rightarrow> spool \<Rightarrow> 'w \<Rightarrow> Event list list \<Rightarrow> spool \<Rightarrow> (Event \<times> gotime) list \<Rightarrow> bool"
  for J primary t w0 s0 where
  start: "delivery_run J primary t w0 s0 w0 [] s0 []"
| wrote: "delivery_run J primary t w0 s0 w lg s owed \<Longrightarrow> \<forall>e\<in>set batch. plain (ev_EventID e) \<Longrightarrow>
    DurableSink_WriteBatch (Some (recording primary)) (Some (file_spool J)) batch ((w, lg), s) = ((None, b), ((w', lg'), s')) \<Longrightarrow>
    delivery_run J primary t w0 s0 w' lg' s' (owed @ map (\<lambda>e. (e, sp_now s)) batch)"
| not_wrote: "delivery_run J primary t w0 s0 w lg s owed \<Longrightarrow> \<forall>e\<in>set batch. plain (ev_EventID e) \<Longrightarrow>
    DurableSink_WriteBatch (Some (recording primary)) (Some (file_spool J)) batch ((w, lg), s) = ((Some err, b), ((w', lg'), s')) \<Longrightarrow>
    delivery_run J primary t w0 s0 w' lg' s' owed"
| replay: "delivery_run J primary t w0 s0 w lg s owed \<Longrightarrow>
    ReplayOnce t (Some (recording primary)) (Some (file_spool J)) n ((w, lg), s) = (r, (w', lg'), s') \<Longrightarrow>
    delivery_run J primary t w0 s0 w' lg' s' owed"
| stats: "delivery_run J primary t w0 s0 w lg s owed \<Longrightarrow> delivery_run J primary t w0 s0 w lg (snd (Stats J s)) owed"
| passes: "delivery_run J primary t w0 s0 w lg s owed \<Longrightarrow> sp_now s \<le> now \<Longrightarrow>
    delivery_run J primary t w0 s0 w lg (s\<lparr>sp_now := now, sp_faults := faults\<rparr>) owed"

text \<open>Where an event is that was written at the time \<open>at\<close>.\<close>

definition accounted :: "spool_codec \<Rightarrow> Event list list \<Rightarrow> spool \<Rightarrow> Event \<times> gotime \<Rightarrow> bool" where
  "accounted J lg s x \<longleftrightarrow>
     (let stored = sc_clean J (mark_spooled (fst x)) in
      logged (fst x) lg \<or> replay_of stored lg \<or> (\<exists>i. held J s i (stored, snd x)) \<or> expired s (stored, snd x))"

lemma accounted_step:
  assumes "accounted J lg s x" "\<exists>bs. lg' = lg @ bs" "expired s' = expired s"
    and "\<And>i c. held J s i c \<Longrightarrow> held J s' i c \<or> expired s c \<or> replay_of (fst c) lg'"
  shows "accounted J lg' s' x"
  using assms(1,2) assms(4) logged_append replay_of_append unfolding accounted_def Let_def assms(3) by fastforce

lemma delivery_ok:
  assumes "delivery_run J primary t w0 s0 w lg s owed" "codec_ok J" "spool_ok J s0" "leaves_batch primary"
  shows "spool_ok J s \<and> (\<forall>x\<in>set owed. accounted J lg s x)"
  using assms(1)
proof (induction rule: delivery_run.induct)
  case start
  with assms(3) show ?case by simp
next
  case (wrote w lg s owed batch b w' lg' s')
  have ok: "codec_ok J \<and> spool_ok J s" using wrote assms(2) by blast
  note post = files.write_batch [OF ok wrote.hyps(2) assms(4) wrote.hyps(3)]
  have "accounted J lg' s' x" if "x \<in> set owed" for x
    by (rule accounted_step [where s = s and lg = lg]) (use wrote.IH that post in blast)+
  moreover have "accounted J lg' s' (e, sp_now s)" if "e \<in> set batch" for e
    using post that by (auto simp: accounted_def Let_def)
  ultimately show ?case using post by auto
next
  case (not_wrote w lg s owed batch err b w' lg' s')
  have ok: "codec_ok J \<and> spool_ok J s" using not_wrote assms(2) by blast
  note post = files.write_batch [OF ok not_wrote.hyps(2) assms(4) not_wrote.hyps(3)]
  have "accounted J lg' s' x" if "x \<in> set owed" for x
    by (rule accounted_step [where s = s and lg = lg]) (use not_wrote.IH that post in blast)+
  with post show ?case by blast
next
  case (replay w lg s owed n r w' lg' s')
  have ok: "codec_ok J \<and> spool_ok J s" using replay assms(2) by blast
  note post = files.replay [OF ok assms(4) replay.hyps(2)]
  have "accounted J lg' s' x" if "x \<in> set owed" for x
    by (rule accounted_step [where s = s and lg = lg]) (use replay.IH that post in blast)+
  with post show ?case by blast
next
  case (stats w lg s owed)
  have "relates (kept_at J (expired_by (sp_now s) (sp_maxAge s)) (sp_now s) (sp_maxAge s)) (Stats J)" by (rule stats_kept)
  then have k: "kept J (expired_by (sp_now s) (sp_maxAge s)) s (snd (Stats J s))" by (simp add: relates_def kept_at_def)
  have ok: "spool_ok J s" using stats by blast
  have "accounted J lg (snd (Stats J s)) x" if "x \<in> set owed" for x
    by (rule accounted_step [where s = s and lg = lg])
      (use stats.IH that keptD(2) [OF k ok] kept_expired [OF k ok] expired_any in blast)+
  with keptD(1) [OF k ok] show ?case by blast
next
  case (passes w lg s owed now faults)
  let ?s = "s\<lparr>sp_now := now, sp_faults := faults\<rparr>"
  have at: "record_at J ?s = record_at J s" by (simp add: record_at_def lookup_file_def fun_eq_iff)
  have look: "lookup_file ?s = lookup_file s" by (simp add: lookup_file_def fun_eq_iff)
  have ok: "spool_ok J s" using passes.IH by blast
  have "spool_ok J ?s"
  proof (rule spool_okI)
    show "unix_epoch \<le> sp_now ?s" using spool_ok_now [OF ok] passes.hyps(2) by simp
    show "\<exists>r. sc_unmarshal J (f_data f) = Some r \<and> record_ok J (sp_sequence ?s) n r" if "lookup_file ?s n = Some f" for n f
      using spool_ok_file [OF ok that [unfolded look]] by simp
    show "core r = core r'" if "record_at J ?s n r" "record_at J ?s n' r'" "sr_ID r = sr_ID r'" for n r n' r'
      by (rule copies [OF ok that [unfolded at]])
  qed
  moreover have "held J ?s = held J s" by (simp add: held_def at fun_eq_iff)
  moreover have "expired s c \<Longrightarrow> expired ?s c" for c using passes.hyps(2) by (auto simp: expired_def expired_by_def)
  ultimately show ?case using passes.IH unfolding accounted_def Let_def by metis
qed

text \<open>The error of writing the failed status is never the one returned: the error of the first write precedes it.\<close>

lemma flush_status_error_unreachable:
  "fst (Flush t sink p w) \<noteq> Some (FlushFailedStatus e)"
proof -
  have "fst (flush_from t k r p w) \<noteq> Some (FlushFailedStatus e)" if "r \<noteq> Some (FlushFailedStatus e)" for k r
    using that
  proof (induction t k r p w rule: flush_from.induct)
    case (1 t k r p w)
    obtain b p1 where n: "nextBatch p = (b, p1)" by fastforce
    obtain r1 p2 w1 where f: "flush_batch t k b r p1 w = (r1, p2, w1)" by (metis prod.exhaust)
    then have "r1 \<noteq> Some (FlushFailedStatus e)" using "1.prems" by (auto simp: flush_batch_def Let_def split: prod.splits option.splits)
    then show ?case using "1.IH" [OF n [symmetric] _ f [symmetric] refl] "1.prems" n f
      by (subst flush_from.simps) (simp split: prod.split)
  qed
  then show ?thesis by (simp add: Flush_def split: option.split)
qed

section \<open>Properties\<close>

text \<open>C12. Delivery at least once: whatever system calls of the spool fail, whichever writes the primary sink
  refuses, and in whatever order writes, replays, statistics and the clock proceed, every event whose
  write the durable sink reported a success has been accepted by the primary sink, at once or in a
  replay, or is held in the spool, or has passed the spool's maximal age.\<close>

theorem delivered_at_least_once:
  assumes "delivery_run J primary t w0 s0 w lg s owed" "codec_ok J" "spool_ok J s0" "leaves_batch primary"
    and "(e, written) \<in> set owed"
  shows "logged e lg \<or> replay_of (sc_clean J (mark_spooled e)) lg \<or>
    (\<exists>i. held J s i (sc_clean J (mark_spooled e), written)) \<or>
    0 < sp_maxAge s \<and> written \<le> sp_now s - sp_maxAge s"
  using delivery_ok [OF assms(1-4)] assms(5) by (fastforce simp: accounted_def Let_def expired_def expired_by_def)

definition sample_down :: "(unit, unit) BatchSink" where
  "sample_down batch w = ((Some (), batch), w)"

theorem delivered_at_least_once_witness:
  "\<exists>s. delivery_run sample_codec sample_down (\<lambda>_. []) () (sample_spool []) () [] s [(sample_event, unix_epoch)] \<and>
     (\<exists>i. held sample_codec s i (sample_event, unix_epoch))"
proof -
  let ?run = "delivery_run sample_codec sample_down (\<lambda>_. []) () (sample_spool [])"
  obtain s where a: "Append sample_codec [sample_event] (sample_spool []) = (Inr (), s)"
    using sample_append by (auto simp: run_call_def succeeded_def split: sum.splits) (metis prod.collapse old.unit.exhaust)
  have mark: "mark_spooled sample_event = sample_event" by (simp add: mark_spooled_def sample_event_def spoolStatusSpooled_def)
  have "DurableSink_WriteBatch (Some (recording sample_down)) (Some (file_spool sample_codec)) [sample_event] (((), []), sample_spool []) =
      ((None, [sample_event]), (((), []), s))"
    by (simp add: DurableSink_WriteBatch_def recording_def sample_down_def file_spool_def a mark)
  from delivery_run.wrote [OF delivery_run.start _ this]
  have run: "?run () [] s [(sample_event, unix_epoch)]" by (simp add: sample_event_def plain_def byte_def sample_spool_def)
  have leaves: "leaves_batch sample_down" by (simp add: leaves_batch_def sample_down_def)
  have "\<not> logged sample_event [] \<and> \<not> replay_of (sc_clean sample_codec (mark_spooled sample_event)) []" by (simp add: logged_def replay_of_def)
  moreover have "sp_maxAge s = 0"
    using append_ok [OF sample_codec_ok _ sample_spool_ok, of "[sample_event]"] sample_spool_ok a
    by (simp add: kept_def) (simp add: sample_event_def plain_def byte_def sample_spool_def)
  ultimately show ?thesis
    using delivered_at_least_once [OF run sample_codec_ok sample_spool_ok leaves, of sample_event unix_epoch] run
    by (auto simp: mark sample_codec_def)
qed



text \<open>C39. A flush ends: it cuts the queue, in order, into batches of the batch size, the last one possibly
  smaller, offers each of them to the sink in one round, and leaves the queue empty.\<close>

theorem flush_empties_the_queue:
  assumes "0 < pl_batchSize p"
  shows "\<exists>bs. concat bs = pl_events p \<and> (\<forall>b\<in>set bs. b \<noteq> [] \<and> length b \<le> pl_batchSize p) \<and>
    length bs = (length (pl_events p) + pl_batchSize p - 1) div pl_batchSize p \<and>
    Flush t (Some sink) p w = rounds t sink bs None (p\<lparr>pl_events := []\<rparr>) w \<and>
    pl_events (fst (snd (Flush t (Some sink) p w))) = []"
proof (intro exI [of _ "chunks (pl_batchSize p) (pl_events p)"] conjI concat_chunks)
  show "\<forall>b\<in>set (chunks (pl_batchSize p) (pl_events p)). b \<noteq> [] \<and> length b \<le> pl_batchSize p"
    using chunk_size [OF assms] by blast
  show "length (chunks (pl_batchSize p) (pl_events p)) = (length (pl_events p) + pl_batchSize p - 1) div pl_batchSize p"
    by (rule length_chunks [OF assms])
  show eq: "Flush t (Some sink) p w = rounds t sink (chunks (pl_batchSize p) (pl_events p)) None (p\<lparr>pl_events := []\<rparr>) w"
    using flush_rounds [OF assms] by (simp add: Flush_def)
  show "pl_events (fst (snd (Flush t (Some sink) p w))) = []"
    unfolding eq using rounds_events by (metis prod.collapse Pipeline.select_convs(1) Pipeline.surjective Pipeline.update_convs(1))
qed

theorem flush_empties_the_queue_witness:
  "pl_events (fst (snd (Flush (\<lambda>_. []) (Some sample_down) (snd (Enqueue False False sample_event (NewPipeline
     \<lparr>po_Capacity = 0, po_BatchSize = 0, po_StrictHealthGate = None, po_MarkUnhealthyDrop = False, po_ShutdownTimeout = 0\<rparr>))) ()))) = []"
  (is "pl_events (fst (snd (Flush _ _ ?p _))) = []")
proof -
  have "0 < pl_batchSize ?p"
    by (simp add: Enqueue_def NewPipeline_def select_send_def defaultPipelineBatchSize_def defaultPipelineCapacity_def)
  from flush_empties_the_queue [OF this, of "\<lambda>_. []" sample_down "()"] show ?thesis by blast
qed

end
