(* ===== verification/Runtime.thy ===== *)
theory Runtime
  imports ServerBuilder
begin

text \<open>
  The runtime context: \<open>internal/contexts/runtime/state.go\<close>, \<open>watcher.go\<close>, \<open>worker.go\<close> and
  \<open>application/usecases.go\<close>.

  The repository, the compiler and the subscriber are interfaces.  The first two are functions of a world
  \<open>'r\<close>, which holds what the storage, the environment and the clock will answer; the subscriber is the
  list of events of the watcher's loop.  A nil pointer is \<open>None\<close>.
\<close>

section \<open>The published runtime and the readiness\<close>

record ActiveRuntimeState =
  rt_value :: "CompiledRuntime option"

record ReadinessState =
  rd_configReady :: bool
  rd_reason :: string

datatype validate_error = RuntimeRevisionRequired | RuntimeRoutesRequired

definition zero_CompiledRuntime :: CompiledRuntime where
  "zero_CompiledRuntime = \<lparr>cr_RevisionNumber = 0, cr_SnapshotHash = [], cr_Gateway = None, cr_LoadedAt = 0\<rparr>"

definition validateCompiledRuntime :: "CompiledRuntime \<Rightarrow> validate_error option" where
  "validateCompiledRuntime runtime =
     (if cr_RevisionNumber runtime \<le> 0 then Some RuntimeRevisionRequired
      else case cr_Gateway runtime of
             None \<Rightarrow> Some RuntimeRoutesRequired
           | Some gateway \<Rightarrow> if RouteCount gateway = 0 then Some RuntimeRoutesRequired else None)"

definition NewActiveRuntimeState :: "CompiledRuntime \<Rightarrow> validate_error + ActiveRuntimeState" where
  "NewActiveRuntimeState initial =
     (case validateCompiledRuntime initial of
        Some e \<Rightarrow> Inl e
      | None \<Rightarrow> Inr \<lparr>rt_value = Some initial\<rparr>)"

text \<open>\<open>Snapshot\<close>, renamed because the policy snapshot has the name.\<close>

definition RuntimeSnapshot :: "ActiveRuntimeState \<Rightarrow> CompiledRuntime" where
  "RuntimeSnapshot s = (case rt_value s of None \<Rightarrow> zero_CompiledRuntime | Some value \<Rightarrow> value)"

definition Swap :: "CompiledRuntime \<Rightarrow> ActiveRuntimeState \<Rightarrow> validate_error option \<times> ActiveRuntimeState" where
  "Swap nxt s =
     (case validateCompiledRuntime nxt of
        Some e \<Rightarrow> (Some e, s)
      | None \<Rightarrow> (None, s\<lparr>rt_value := Some nxt\<rparr>))"

definition NewReadinessState :: ReadinessState where
  "NewReadinessState = \<lparr>rd_configReady = True, rd_reason = []\<rparr>"

definition ConfigReady :: "ReadinessState option \<Rightarrow> bool" where
  "ConfigReady s = (case s of None \<Rightarrow> True | Some s \<Rightarrow> rd_configReady s)"

definition ReadinessReason :: "ReadinessState option \<Rightarrow> string" where
  "ReadinessReason s = (case s of None \<Rightarrow> [] | Some s \<Rightarrow> rd_reason s)"

definition MarkConfigReady :: "ReadinessState option \<Rightarrow> ReadinessState option" where
  "MarkConfigReady s = map_option (\<lambda>_. \<lparr>rd_configReady = True, rd_reason = []\<rparr>) s"

definition MarkConfigDegraded :: "string \<Rightarrow> ReadinessState option \<Rightarrow> ReadinessState option" where
  "MarkConfigDegraded reason s = map_option (\<lambda>_. \<lparr>rd_configReady = False, rd_reason = reason\<rparr>) s"

section \<open>Ports\<close>

record ('e, 'r) ConfigRepository =
  repo_LoadRuntimeConfig :: "'r \<Rightarrow> ('e + RuntimeConfig) \<times> 'r"
  repo_ActiveRevisionNumber :: "'r \<Rightarrow> ('e + int) \<times> 'r"

type_synonym ('c, 'r) Compiler = "RuntimeConfig \<Rightarrow> 'r \<Rightarrow> ('c + CompiledRuntime) \<times> 'r"

section \<open>Use cases\<close>

datatype ('e, 'c) load_error = ErrActiveRuntimeConfigNotFound | RuntimeCompilerRequired | LoadFailed 'e | CompileActiveRuntime 'c

definition LoadCompiledRuntime ::
  "('e, 'r) ConfigRepository option \<Rightarrow> ('c, 'r) Compiler option \<Rightarrow> 'r \<Rightarrow> (('e, 'c) load_error + CompiledRuntime) \<times> 'r" where
  "LoadCompiledRuntime repository compiler w =
     (case repository of
        None \<Rightarrow> (Inl ErrActiveRuntimeConfigNotFound, w)
      | Some repository \<Rightarrow>
          (case compiler of
             None \<Rightarrow> (Inl RuntimeCompilerRequired, w)
           | Some compile \<Rightarrow>
               (case repo_LoadRuntimeConfig repository w of
                  (Inl e, w) \<Rightarrow> (Inl (LoadFailed e), w)
                | (Inr cfg, w) \<Rightarrow>
                    (case compile cfg w of
                       (Inl e, w) \<Rightarrow> (Inl (CompileActiveRuntime e), w)
                     | (Inr compiled, w) \<Rightarrow> (Inr compiled, w)))))"

datatype reload_error = ReloadRepositoryRequired | ReloadCompilerRequired | ReloadStateRequired

record ('e, 'c, 'r) Reloader =
  rl_Repository :: "('e, 'r) ConfigRepository option"
  rl_Compiler :: "('c, 'r) Compiler option"

record 'r runtime_world =
  rw_State :: "ActiveRuntimeState option"
  rw_Readiness :: "ReadinessState option"
  rw_World :: 'r

definition markDegraded :: "string \<Rightarrow> 'r runtime_world \<Rightarrow> 'r runtime_world" where
  "markDegraded reason x = x\<lparr>rw_Readiness := MarkConfigDegraded reason (rw_Readiness x)\<rparr>"

definition ReloadIfChanged :: "('e, 'c, 'r) Reloader \<Rightarrow> 'r runtime_world \<Rightarrow> reload_error option \<times> 'r runtime_world" where
  "ReloadIfChanged r x =
     (case (rl_Repository r, rl_Compiler r, rw_State x) of
        (None, _, _) \<Rightarrow> (Some ReloadRepositoryRequired, x)
      | (Some _, None, _) \<Rightarrow> (Some ReloadCompilerRequired, x)
      | (Some _, Some _, None) \<Rightarrow> (Some ReloadStateRequired, x)
      | (Some repository, Some compile, Some state) \<Rightarrow>
          (case repo_ActiveRevisionNumber repository (rw_World x) of
             (Inl _, w) \<Rightarrow> (None, markDegraded ''active_revision_unavailable'' (x\<lparr>rw_World := w\<rparr>))
           | (Inr revision, w) \<Rightarrow>
               if revision = cr_RevisionNumber (RuntimeSnapshot state) then (None, x\<lparr>rw_World := w\<rparr>)
               else
                 (case repo_LoadRuntimeConfig repository w of
                    (Inl _, w) \<Rightarrow> (None, markDegraded ''runtime_config_load_failed'' (x\<lparr>rw_World := w\<rparr>))
                  | (Inr cfg, w) \<Rightarrow>
                      (case compile cfg w of
                         (Inl _, w) \<Rightarrow> (None, markDegraded ''runtime_config_compile_failed'' (x\<lparr>rw_World := w\<rparr>))
                       | (Inr compiled, w) \<Rightarrow>
                           (case Swap compiled state of
                              (Some _, state) \<Rightarrow>
                                (None, markDegraded ''runtime_config_swap_failed'' (x\<lparr>rw_World := w, rw_State := Some state\<rparr>))
                            | (None, state) \<Rightarrow>
                                (None, x\<lparr>rw_World := w, rw_State := Some state,
                                   rw_Readiness := MarkConfigReady (rw_Readiness x)\<rparr>))))))"

datatype 'e retention_error = RetentionRepositoryRequired | RetentionApplierRequired | RetentionFailed 'e

definition RetentionMaintainer_Apply ::
  "('e, 'r) ConfigRepository option \<Rightarrow> (RuntimeConfig \<Rightarrow> 'r \<Rightarrow> 'e option \<times> 'r) option \<Rightarrow> 'r \<Rightarrow> 'e retention_error option \<times> 'r" where
  "RetentionMaintainer_Apply repository applier w =
     (case repository of
        None \<Rightarrow> (Some RetentionRepositoryRequired, w)
      | Some repository \<Rightarrow>
          (case applier of
             None \<Rightarrow> (Some RetentionApplierRequired, w)
           | Some apply_policies \<Rightarrow>
               (case repo_LoadRuntimeConfig repository w of
                  (Inl e, w) \<Rightarrow> (Some (RetentionFailed e), w)
                | (Inr cfg, w) \<Rightarrow>
                    (case apply_policies cfg w of
                       (Some e, w) \<Rightarrow> (Some (RetentionFailed e), w)
                     | (None, w) \<Rightarrow> (None, w)))))"

section \<open>The watcher\<close>

text \<open>The events of the loop, in the order \<open>select\<close> takes them; a closed channel reports once.\<close>

datatype watch_event = Notified | NotificationsClosed | PollTick

definition defaultWatcherPollInterval :: duration where
  "defaultWatcherPollInterval = 30000000000"

definition pollInterval :: "duration \<Rightarrow> duration" where
  "pollInterval i = (if i \<le> 0 then defaultWatcherPollInterval else i)"

definition watch_turn :: "('e, 'c, 'r) Reloader \<Rightarrow> watch_event \<Rightarrow> 'r runtime_world \<Rightarrow> reload_error option \<times> 'r runtime_world" where
  "watch_turn r ev x =
     (case ev of
        NotificationsClosed \<Rightarrow> (None, markDegraded ''config_subscriber_closed'' x)
      | _ \<Rightarrow> ReloadIfChanged r x)"

fun watch_loop :: "('e, 'c, 'r) Reloader \<Rightarrow> watch_event list \<Rightarrow> 'r runtime_world \<Rightarrow> reload_error option \<times> 'r runtime_world" where
  "watch_loop r [] x = (None, x)"
| "watch_loop r (ev # evs) x = (case watch_turn r ev x of (Some e, x) \<Rightarrow> (Some e, x) | (None, x) \<Rightarrow> watch_loop r evs x)"

text \<open>\<open>Run\<close>, until the context ends after the given events; \<open>subscribed\<close> is whether the subscription succeeded,
  or there is no subscriber.\<close>

definition Watcher_Run :: "('e, 'c, 'r) Reloader \<Rightarrow> bool \<Rightarrow> watch_event list \<Rightarrow> 'r runtime_world \<Rightarrow> reload_error option \<times> 'r runtime_world" where
  "Watcher_Run r subscribed events x =
     (let x = (if subscribed then x else markDegraded ''config_subscribe_failed'' x)
      in case ReloadIfChanged r x of (Some e, x) \<Rightarrow> (Some e, x) | (None, x) \<Rightarrow> watch_loop r events x)"

section \<open>Maintenance\<close>

definition defaultWorkerMaintainInterval :: duration where
  "defaultWorkerMaintainInterval = 60000000000"

definition maintainInterval :: "duration \<Rightarrow> duration" where
  "maintainInterval i = (if i \<le> 0 then defaultWorkerMaintainInterval else i)"

text \<open>\<open>runMaintenanceLoop\<close>, when the context ends after the given number of ticks, or before the start.\<close>

fun maintenance_ticks :: "nat \<Rightarrow> ('r \<Rightarrow> 'e option \<times> 'r) \<Rightarrow> 'r \<Rightarrow> 'e option \<times> 'r" where
  "maintenance_ticks 0 fn w = (None, w)"
| "maintenance_ticks (Suc n) fn w = (case fn w of (Some e, w) \<Rightarrow> (Some e, w) | (None, w) \<Rightarrow> maintenance_ticks n fn w)"

definition runMaintenanceLoop :: "bool \<Rightarrow> nat \<Rightarrow> ('r \<Rightarrow> 'e option \<times> 'r) \<Rightarrow> 'r \<Rightarrow> 'e option \<times> 'r" where
  "runMaintenanceLoop done ticks fn w = (if done then (None, w) else maintenance_ticks (Suc ticks) fn w)"

section \<open>Lemmas\<close>

lemma mark_degraded [simp]:
  "rw_State (markDegraded reason x) = rw_State x" "rw_World (markDegraded reason x) = rw_World x"
  by (simp_all add: markDegraded_def)

text \<open>A runtime that may be served: it was valid when it was published.\<close>

definition servable :: "CompiledRuntime \<Rightarrow> bool" where
  "servable c \<longleftrightarrow> 0 < cr_RevisionNumber c \<and> (\<exists>cfg. cr_Gateway c = Some cfg \<and> cfg_Routes cfg \<noteq> [])"

lemma validate_servable: "validateCompiledRuntime c = None \<longleftrightarrow> servable c"
  by (auto simp: validateCompiledRuntime_def servable_def RouteCount_def split: option.splits)

lemma Swap_cases:
  "Swap c s = (Some e, s') \<Longrightarrow> s' = s \<and> \<not> servable c" "Swap c s = (None, s') \<Longrightarrow> s' = \<lparr>rt_value = Some c\<rparr> \<and> servable c"
  unfolding Swap_def validate_servable [symmetric] by (cases s; auto split: option.splits)+

text \<open>A relation that every reload keeps is kept by every run of the watcher.\<close>

lemma watch_loop_induct:
  assumes "watch_loop r evs x = (e, y)" "I x" "\<And>reason x. I x \<Longrightarrow> I (markDegraded reason x)"
    and "\<And>x e y. I x \<Longrightarrow> ReloadIfChanged r x = (e, y) \<Longrightarrow> I y"
  shows "I y"
  using assms(1,2)
proof (induction evs arbitrary: x)
  case (Cons ev evs)
  obtain e1 x1 where t: "watch_turn r ev x = (e1, x1)" by fastforce
  have "I x1" using t Cons.prems(2) assms(3,4) by (cases ev) (auto simp: watch_turn_def)
  with t Cons show ?case by (cases e1) auto
qed simp

lemma Watcher_Run_induct:
  assumes "Watcher_Run r subscribed evs x = (e, y)" "I x" "\<And>reason x. I x \<Longrightarrow> I (markDegraded reason x)"
    and "\<And>x e y. I x \<Longrightarrow> ReloadIfChanged r x = (e, y) \<Longrightarrow> I y"
  shows "I y"
proof -
  let ?x = "if subscribed then x else markDegraded ''config_subscribe_failed'' x"
  obtain e1 x1 where t: "ReloadIfChanged r ?x = (e1, x1)" by fastforce
  have "I ?x" using assms(2,3) by simp
  then have "I x1" using assms(4) t by blast
  have loop: "I y" if "watch_loop r evs x1 = (e, y)"
    using that \<open>I x1\<close> by (rule watch_loop_induct) (use assms(3,4) in blast)+
  have "(case ReloadIfChanged r ?x of (Some e, x) \<Rightarrow> (Some e, x) | (None, x) \<Rightarrow> watch_loop r evs x) = (e, y)"
    using assms(1) by (simp add: Watcher_Run_def Let_def)
  with t loop \<open>I x1\<close> show ?thesis by (cases e1) simp_all
qed

end
