(* ===== verification/Runtime_Claims.thy ===== *)
theory Runtime_Claims
  imports Runtime ServerBuilder_Claims
begin

text \<open>The properties of reloading: what is served is compiled, and follows the active revision.\<close>

section \<open>Lemmas\<close>

definition ready_to_reload :: "('e, 'c, 'r) Reloader \<Rightarrow> 'r runtime_world \<Rightarrow> bool" where
  "ready_to_reload r x \<longleftrightarrow> rl_Repository r \<noteq> None \<and> rl_Compiler r \<noteq> None \<and> rw_State x \<noteq> None"

text \<open>The runtimes that the reloader may publish: those the compiler makes of a configuration the repository loads.\<close>

definition loadable :: "('e, 'c, 'r) Reloader \<Rightarrow> CompiledRuntime \<Rightarrow> bool" where
  "loadable r c \<longleftrightarrow> (\<exists>repo compile cfg w w'. rl_Repository r = Some repo \<and> rl_Compiler r = Some compile \<and>
     (\<exists>w0. fst (repo_LoadRuntimeConfig repo w0) = Inr cfg) \<and> compile cfg w = (Inr c, w'))"

lemma reload_cases:
  assumes "ReloadIfChanged r x = (e, y)" "rw_State x = Some s"
  shows "rw_State y = Some s \<or> (\<exists>c. rw_State y = Some \<lparr>rt_value = Some c\<rparr> \<and> servable c \<and> loadable r c)"
proof (cases "rw_State y = Some s")
  case False
  obtain repo compile where deps: "rl_Repository r = Some repo" "rl_Compiler r = Some compile"
    using assms False by (cases "rl_Repository r"; cases "rl_Compiler r") (auto simp: ReloadIfChanged_def)
  obtain rev w1 where rev: "repo_ActiveRevisionNumber repo (rw_World x) = (Inr rev, w1)" "rev \<noteq> cr_RevisionNumber (RuntimeSnapshot s)"
    using assms False deps by (auto simp: ReloadIfChanged_def split: prod.splits sum.splits if_splits)
  obtain cfg w2 where cfg: "repo_LoadRuntimeConfig repo w1 = (Inr cfg, w2)"
    using assms False deps rev by (auto simp: ReloadIfChanged_def split: prod.splits sum.splits)
  obtain c w3 where c: "compile cfg w2 = (Inr c, w3)"
    using assms False deps rev cfg by (auto simp: ReloadIfChanged_def split: prod.splits sum.splits)
  obtain e' s' where sw: "Swap c s = (e', s')" by fastforce
  have "e' = None" "rw_State y = Some s'"
    using assms False deps rev cfg c sw Swap_cases(1) [of c s] by (auto simp: ReloadIfChanged_def split: option.splits)
  moreover have "loadable r c" using deps cfg c unfolding loadable_def by (metis fst_conv)
  ultimately show ?thesis using Swap_cases(2) sw by blast
qed simp

lemma reload_no_error: "ready_to_reload r x \<Longrightarrow> ReloadIfChanged r x = (e, y) \<Longrightarrow> e = None \<and> ready_to_reload r y"
  by (auto simp: ready_to_reload_def ReloadIfChanged_def markDegraded_def split: prod.splits sum.splits option.splits if_splits)

definition publishes :: "('e, 'c, 'r) Reloader \<Rightarrow> CompiledRuntime \<Rightarrow> 'r runtime_world \<Rightarrow> bool" where
  "publishes r initial x \<longleftrightarrow>
     (\<exists>s. rw_State x = Some s \<and> servable (RuntimeSnapshot s) \<and> (RuntimeSnapshot s = initial \<or> loadable r (RuntimeSnapshot s)))"

lemma reload_publishes: "publishes r initial x \<Longrightarrow> ReloadIfChanged r x = (e, y) \<Longrightarrow> publishes r initial y"
  using reload_cases unfolding publishes_def by (fastforce simp: RuntimeSnapshot_def)

lemma run_publishes: "Watcher_Run r subscribed evs x = (e, y) \<Longrightarrow> publishes r initial x \<Longrightarrow> publishes r initial y"
  by (rule Watcher_Run_induct [where I = "publishes r initial"])
    (auto simp: publishes_def intro: reload_publishes [unfolded publishes_def])

text \<open>Where the storage keeps answering with the published revision, a degraded readiness stays degraded:
  only a reload that publishes clears it.\<close>

lemma degraded_until_new_revision:
  fixes x :: "'w runtime_world"
  assumes "rl_Repository r = Some repo" "\<forall>w. fst (repo_ActiveRevisionNumber repo w) = Inr n"
    and "rw_State x = Some s" "cr_RevisionNumber (RuntimeSnapshot s) = n" "rw_Readiness x = Some d" "\<not> rd_configReady d"
    and "watch_loop r evs x = (e, y)"
  shows "\<not> ConfigReady (rw_Readiness y)"
proof -
  define I where "I = (\<lambda>x :: 'w runtime_world. rw_State x = Some s \<and> \<not> ConfigReady (rw_Readiness x))"
  have turn: "I z" if "I x" "ReloadIfChanged r x = (e, z)" for x e z
  proof -
    obtain w where "repo_ActiveRevisionNumber repo (rw_World x) = (Inr n, w)" using assms(2) by (metis prod.collapse)
    with that assms(1,4) show ?thesis by (auto simp: I_def ReloadIfChanged_def split: option.splits)
  qed
  have "I y"
  proof (rule watch_loop_induct [OF assms(7)])
    show "I x" using assms(3,5,6) by (simp add: I_def ConfigReady_def)
    show "I (markDegraded reason z)" if "I z" for reason z
      using that by (auto simp: I_def markDegraded_def ConfigReady_def MarkConfigDegraded_def split: option.splits)
  qed (use turn in blast)
  then show ?thesis by (simp add: I_def)
qed

section \<open>Properties\<close>

text \<open>C21. What is published is always served from a compiled configuration: from a valid initial runtime, and
  over every run of the watcher, whatever the storage, the notifications and the compiler answer, the
  run ends without an error and the configuration served is that of the initial runtime or the one
  compiled of a configuration the storage returned, with the policy snapshot of its bundles and
  its revision; and it has a positive revision and a route.  A failing reload changes nothing.\<close>

theorem published_runtime_is_compiled:
  assumes "NewActiveRuntimeState initial = Inr s0" "rw_State x = Some s0" "rl_Repository r = Some repo"
    and "rl_Compiler r = Some (\<lambda>cfg w. (CompileGatewayRuntime P marshal (env w) (clock w) cfg opts, w))"
    and "Watcher_Run r subscribed evs x = (e, y)"
  shows "e = None \<and> (\<exists>s. rw_State y = Some s \<and> 0 < cr_RevisionNumber (RuntimeSnapshot s) \<and>
    cfg_Routes (CurrentConfig (Some (RuntimeSnapshot s))) \<noteq> [] \<and>
    (RuntimeSnapshot s = initial \<or>
     (\<exists>cfg snapshot w w0. fst (repo_LoadRuntimeConfig repo w0) = Inr cfg \<and>
        CompileSnapshot P marshal (rc_PolicyBundles cfg) = Inr snapshot \<and>
        BuildConfig (env w) cfg opts (Some snapshot) = Inr (CurrentConfig (Some (RuntimeSnapshot s))) \<and>
        cr_RevisionNumber (RuntimeSnapshot s) = rc_Revision cfg)))"
proof -
  have init: "servable initial" "RuntimeSnapshot s0 = initial"
    using assms(1) by (auto simp: NewActiveRuntimeState_def validate_servable [symmetric] RuntimeSnapshot_def split: option.splits)
  with assms(2) have "publishes r initial x" by (simp add: publishes_def)
  from run_publishes [OF assms(5) this] obtain s where
    s: "rw_State y = Some s" "servable (RuntimeSnapshot s)" "RuntimeSnapshot s = initial \<or> loadable r (RuntimeSnapshot s)"
    unfolding publishes_def by blast
  obtain g where g: "cr_Gateway (RuntimeSnapshot s) = Some g" "cfg_Routes g \<noteq> []" using s(2) unfolding servable_def by blast
  then have cur: "CurrentConfig (Some (RuntimeSnapshot s)) = g" by (simp add: CurrentConfig_def GatewayConfigFromRuntime_def)
  have from_repo: "\<exists>cfg snapshot w w0. fst (repo_LoadRuntimeConfig repo w0) = Inr cfg \<and>
      CompileSnapshot P marshal (rc_PolicyBundles cfg) = Inr snapshot \<and> BuildConfig (env w) cfg opts (Some snapshot) = Inr g \<and>
      cr_RevisionNumber (RuntimeSnapshot s) = rc_Revision cfg" if l: "loadable r (RuntimeSnapshot s)"
  proof -
    obtain cfg w w0 where c: "fst (repo_LoadRuntimeConfig repo w0) = Inr cfg"
        "CompileGatewayRuntime P marshal (env w) (clock w) cfg opts = Inr (RuntimeSnapshot s)"
      using l assms(3,4) unfolding loadable_def by auto
    then obtain snapshot built where b: "CompileSnapshot P marshal (rc_PolicyBundles cfg) = Inr snapshot"
        "BuildConfig (env w) cfg opts (Some snapshot) = Inr built"
        "RuntimeSnapshot s = \<lparr>cr_RevisionNumber = rc_Revision cfg, cr_SnapshotHash = snap_hash snapshot, cr_Gateway = Some built, cr_LoadedAt = clock w\<rparr>"
      by (auto simp: CompileGatewayRuntime_def split: if_splits sum.splits)
    with g(1) have "built = g" by simp
    with b c(1) show ?thesis by (intro exI [of _ cfg] exI [of _ snapshot] exI [of _ w] exI [of _ w0]) simp
  qed
  have "e = None"
  proof -
    define x1 where "x1 = (if subscribed then x else markDegraded ''config_subscribe_failed'' x)"
    have ready: "ready_to_reload r x1" using assms(2-4) by (simp add: ready_to_reload_def x1_def)
    have loop: "ready_to_reload r z \<Longrightarrow> fst (watch_loop r evs z) = None" for evs z
    proof (induction evs arbitrary: z)
      case (Cons ev evs)
      obtain e1 z1 where t: "watch_turn r ev z = (e1, z1)" by fastforce
      have "e1 = None \<and> ready_to_reload r z1"
        using t Cons.prems reload_no_error [OF Cons.prems] by (cases ev) (auto simp: watch_turn_def ready_to_reload_def)
      with t Cons.IH show ?case by simp
    qed simp
    obtain e1 x2 where t: "ReloadIfChanged r x1 = (e1, x2)" by fastforce
    from reload_no_error [OF ready t] loop [of x2 evs] t assms(5) show ?thesis
      by (simp add: Watcher_Run_def x1_def Let_def)
  qed
  moreover have "0 < cr_RevisionNumber (RuntimeSnapshot s)" using s(2) by (simp add: servable_def)
  moreover note s(1) g(2) s(3) from_repo
  ultimately show ?thesis unfolding cur [symmetric] by metis
qed

definition sample_compiled :: CompiledRuntime where
  "sample_compiled = \<lparr>cr_RevisionNumber = 1, cr_SnapshotHash = [], cr_Gateway = Some sample_config, cr_LoadedAt = 0\<rparr>"

text \<open>A storage that answers with the revision of the world and loads nothing.\<close>

definition sample_repository :: "(unit, int) ConfigRepository" where
  "sample_repository = \<lparr>repo_LoadRuntimeConfig = (\<lambda>w. (Inl (), w)), repo_ActiveRevisionNumber = (\<lambda>w. (Inr w, w))\<rparr>"

definition sample_http :: http_env where
  "sample_http = \<lparr>env_marshal = (\<lambda>_. Inl []), env_new_request = (\<lambda>_. None), env_do = (\<lambda>_ t _. (t, Inl [])), env_decode = (\<lambda>_. Inl [])\<rparr>"

definition sample_reloader :: "(unit, runtime_compile_error, int) Reloader" where
  "sample_reloader = \<lparr>rl_Repository = Some sample_repository,
     rl_Compiler = Some (\<lambda>cfg w. (CompileGatewayRuntime sample_platform (\<lambda>_. None) sample_http 0 cfg sample_options, w))\<rparr>"

lemma sample_servable: "servable sample_compiled" "NewActiveRuntimeState sample_compiled = Inr \<lparr>rt_value = Some sample_compiled\<rparr>"
proof -
  show "servable sample_compiled" by (simp add: servable_def sample_compiled_def sample_config_def)
  then show "NewActiveRuntimeState sample_compiled = Inr \<lparr>rt_value = Some sample_compiled\<rparr>"
    by (simp add: NewActiveRuntimeState_def validate_servable [symmetric])
qed

theorem published_runtime_is_compiled_witness:
  "\<exists>y s. Watcher_Run sample_reloader True [PollTick, NotificationsClosed]
      \<lparr>rw_State = Some \<lparr>rt_value = Some sample_compiled\<rparr>, rw_Readiness = Some NewReadinessState, rw_World = 2\<rparr> = (None, y) \<and>
    rw_State y = Some s \<and> cfg_Routes (CurrentConfig (Some (RuntimeSnapshot s))) \<noteq> []"
proof -
  let ?x = "\<lparr>rw_State = Some \<lparr>rt_value = Some sample_compiled\<rparr>, rw_Readiness = Some NewReadinessState, rw_World = 2 :: int\<rparr>"
  obtain e y where run: "Watcher_Run sample_reloader True [PollTick, NotificationsClosed] ?x = (e, y)" by fastforce
  from published_runtime_is_compiled [OF sample_servable(2) _ _ _ run, of sample_repository sample_platform "\<lambda>_. None" "\<lambda>_. sample_http" "\<lambda>_. 0" sample_options] run
  show ?thesis by (auto simp: sample_reloader_def)
qed

text \<open>C31. A reload follows the storage: when the active revision differs from the published one and its
  configuration loads and compiles into a runtime with routes, one turn publishes that runtime and
  makes the readiness good; and from then on, while the storage answers with its revision, further
  turns change neither.\<close>

theorem reload_follows_the_active_revision:
  fixes x :: "'w runtime_world"
  assumes "rl_Repository r = Some repo" "rl_Compiler r = Some compile" "rw_State x = Some s"
    and "repo_ActiveRevisionNumber repo (rw_World x) = (Inr n, w1)" "n \<noteq> cr_RevisionNumber (RuntimeSnapshot s)"
    and "repo_LoadRuntimeConfig repo w1 = (Inr cfg, w2)" "compile cfg w2 = (Inr c, w3)"
    and "0 < cr_RevisionNumber c" "cr_Gateway c = Some g" "cfg_Routes g \<noteq> []"
    and "\<forall>w. fst (repo_ActiveRevisionNumber repo w) = Inr (cr_RevisionNumber c)" "set evs \<subseteq> {Notified, PollTick}"
  shows "\<exists>y. watch_loop r (PollTick # evs) x = (None, y) \<and>
    RuntimeSnapshot (the (rw_State y)) = c \<and> ConfigReady (rw_Readiness y) \<and> ReadinessReason (rw_Readiness y) = []"
proof -
  let ?y = "x\<lparr>rw_World := w3, rw_State := Some \<lparr>rt_value = Some c\<rparr>, rw_Readiness := MarkConfigReady (rw_Readiness x)\<rparr>"
  have "servable c" using assms(8-10) by (simp add: servable_def)
  then have "Swap c s = (None, \<lparr>rt_value = Some c\<rparr>)" unfolding validate_servable [symmetric] by (cases s) (simp add: Swap_def)
  then have first: "watch_turn r PollTick x = (None, ?y)" using assms(1-7) by (simp add: watch_turn_def ReloadIfChanged_def)
  define I where "I = (\<lambda>z :: 'w runtime_world. rw_State z = Some \<lparr>rt_value = Some c\<rparr> \<and> rw_Readiness z = MarkConfigReady (rw_Readiness x))"
  have turn: "\<exists>z'. watch_turn r ev z = (None, z') \<and> I z'" if "ev \<in> {Notified, PollTick}" "I z" for ev z
  proof -
    obtain w where "repo_ActiveRevisionNumber repo (rw_World z) = (Inr (cr_RevisionNumber c), w)" using assms(11) by (metis prod.collapse)
    with that assms(1,2) show ?thesis by (auto simp: I_def watch_turn_def ReloadIfChanged_def RuntimeSnapshot_def)
  qed
  have "\<exists>y. watch_loop r evs z = (None, y) \<and> I y" if "I z" "set evs \<subseteq> {Notified, PollTick}" for evs z
    using that
  proof (induction evs arbitrary: z)
    case (Cons ev evs)
    obtain z' where "watch_turn r ev z = (None, z')" "I z'" using turn Cons.prems by force
    with Cons show ?case by auto
  qed simp
  moreover have "I ?y" by (simp add: I_def)
  ultimately obtain y where "watch_loop r evs ?y = (None, y)" "I y" using assms(12) by blast
  with first show ?thesis
    by (auto simp: I_def RuntimeSnapshot_def ConfigReady_def ReadinessReason_def MarkConfigReady_def split: option.splits)
qed

text \<open>A storage with one configuration, of revision 1, and a compiler that knows it.\<close>

definition sample_store :: "(unit, unit) ConfigRepository" where
  "sample_store = \<lparr>repo_LoadRuntimeConfig = (\<lambda>w. (Inr sample_runtime_config, w)), repo_ActiveRevisionNumber = (\<lambda>w. (Inr 1, w))\<rparr>"

theorem reload_follows_the_active_revision_witness:
  "\<exists>y. watch_loop (\<lparr>rl_Repository = Some sample_store, rl_Compiler = Some (\<lambda>cfg w. (Inr sample_compiled, w))\<rparr> :: (unit, unit, unit) Reloader)
      [PollTick, Notified, PollTick]
      \<lparr>rw_State = Some \<lparr>rt_value = Some (sample_compiled\<lparr>cr_RevisionNumber := 7\<rparr>)\<rparr>,
       rw_Readiness = Some \<lparr>rd_configReady = False, rd_reason = ''active_revision_unavailable''\<rparr>, rw_World = ()\<rparr> = (None, y) \<and>
    RuntimeSnapshot (the (rw_State y)) = sample_compiled \<and> ConfigReady (rw_Readiness y)"
  using reload_follows_the_active_revision [where r = "\<lparr>rl_Repository = Some sample_store, rl_Compiler = Some (\<lambda>cfg w. (Inr sample_compiled, w))\<rparr> :: (unit, unit, unit) Reloader"
      and x = "\<lparr>rw_State = Some \<lparr>rt_value = Some (sample_compiled\<lparr>cr_RevisionNumber := 7\<rparr>)\<rparr>,
       rw_Readiness = Some \<lparr>rd_configReady = False, rd_reason = ''active_revision_unavailable''\<rparr>, rw_World = ()\<rparr>"
      and evs = "[Notified, PollTick]" and g = sample_config and repo = sample_store and n = 1 and ?w1.0 = "()" and ?w2.0 = "()" and ?w3.0 = "()"]
  by (fastforce simp: sample_store_def sample_compiled_def sample_config_def RuntimeSnapshot_def)

end
