(* ===== verification/ControlTypes.thy ===== *)
theory ControlTypes
  imports Clients Policy Strings
begin

text \<open>
  \<open>internal/contexts/control/application/types.go\<close>: the contracts of the control plane, their validation,
  and their conversion into the policy domain.  The records \<open>Detector\<close>, \<open>Rule\<close> and \<open>Scope\<close> carry a prefix
  here, since the domain has types of these names.
\<close>

section \<open>Contracts\<close>

record ConfigStatus =
  cs_ActivePolicyBundleKeys :: "string list"
  cs_PolicySnapshotHash :: string

record ControlDetector =
  cd_Key :: string
  cd_Kind :: string
  cd_Pattern :: string
  cd_Categories :: "string list"

record ControlScope =
  cs_RouteKey :: string
  cs_Provider :: string
  cs_Model :: string
  cs_Direction :: string

record ControlRule =
  cr_Key :: string
  cr_Enabled :: bool
  cr_Severity :: string
  cr_Action :: string
  cr_DetectorKeys :: "string list"
  cr_Scope :: ControlScope

record PolicyBundle =
  pb_Key :: string
  pb_Version :: string
  pb_Source :: string
  pb_DefaultAction :: string
  pb_Detectors :: "ControlDetector list"
  pb_Rules :: "ControlRule list"

record PolicyActivationRequest =
  ar_Keys :: "string list"
  ar_Reason :: string
  ar_SnapshotHash :: string

record PolicyActivationResponse =
  as_ActiveKeys :: "string list"
  as_Hash :: string
  as_NotificationError :: string
  as_RevisionNumber :: int

record PolicyDryRunRequest =
  dr_RouteKey :: string
  dr_Provider :: string
  dr_Model :: string
  dr_Direction :: string
  dr_Text :: string
  dr_Bundle :: PolicyBundle

record PolicyDryRunResponse =
  dr_Decision :: Decision

record ModelMapping =
  mm_ID :: string
  mm_RouteKey :: string
  mm_Provider :: string
  mm_Model :: string
  mm_Enabled :: bool

record VerdictProvider =
  vp_ID :: string
  vp_Name :: string
  vp_Endpoint :: string
  vp_CredentialRef :: string
  vp_Mode :: string
  vp_Enabled :: bool

record GatewayClient =
  gc_ID :: string
  gc_Name :: string
  gc_Status :: string
  gc_KeyPrefix :: string
  gc_Notes :: string

record CreateGatewayClientRequest =
  cg_ID :: string
  cg_Name :: string
  cg_Status :: string
  cg_Notes :: string

record CreateGatewayClientResponse =
  cg_Client :: GatewayClient
  cg_Key :: string

record RouteLimit =
  rl_RouteKey :: string
  rl_RequestsPerWindow :: int
  rl_WindowSeconds :: int
  rl_MaxConcurrentRequests :: int
  rl_MaxBodyBytes :: int
  rl_Enabled :: bool

record ClientRouteLimit =
  crl_ClientID :: string
  crl_RouteKey :: string
  crl_RequestsPerWindow :: int
  crl_WindowSeconds :: int
  crl_MaxConcurrentRequests :: int
  crl_MaxBodyBytes :: int
  crl_Enabled :: bool

text \<open>The reasons of \<open>ErrInvalidInput\<close>.\<close>

datatype invalid_input =
    SourceIsInvalid string
  | DefaultActionIsInvalid string
  | DetectorKindIsInvalid string string
  | RuleSeverityIsInvalid string string
  | RuleActionIsInvalid string string
  | RuleDirectionIsInvalid string string
  | ClientNameIsRequired
  | ClientStatusIsInvalid
  | ClientIDIsRequired
  | RouteKeyIsRequired
  | LimitValuesAreInvalid
  | DirectionIsInvalid
  | VerdictModeIsInvalid
  | PolicyDoesNotCompile compile_error

section \<open>Validation\<close>

definition validSource :: "string \<Rightarrow> bool" where
  "validSource source = (source \<in> {SourceBuiltIn, SourceUser, SourceImported})"

definition validControlAction :: "string \<Rightarrow> bool" where
  "validControlAction action = (action \<in> {ActionAllow, ActionBlock, ActionRedact, ActionShadowLog})"

definition validSeverity :: "string \<Rightarrow> bool" where
  "validSeverity severity = (severity \<in> {SeverityLow, SeverityMedium, SeverityHigh, SeverityCritical})"

definition validDetectorKind :: "string \<Rightarrow> bool" where
  "validDetectorKind kind = (kind \<in> {KindRegex, KindEmail, KindPhone, KindPaymentCard, KindSecret})"

definition validDirection :: "string \<Rightarrow> bool" where
  "validDirection direction = (direction \<in> {DirectionInput, DirectionOutput})"

definition validGatewayClientStatus :: "string \<Rightarrow> bool" where
  "validGatewayClientStatus status = (status \<in> {StatusEnabled, StatusDisabled, StatusRevoked})"

definition validControlLimits :: "int \<Rightarrow> int \<Rightarrow> int \<Rightarrow> int \<Rightarrow> bool" where
  "validControlLimits requestsPerWindow windowSeconds maxConcurrentRequests maxBodyBytes \<longleftrightarrow>
     requestsPerWindow > 0 \<and> windowSeconds > 0 \<and> maxConcurrentRequests > 0 \<and> maxBodyBytes > 0"

text \<open>The first error of a loop.\<close>

fun first_error :: "('a \<Rightarrow> 'e option) \<Rightarrow> 'a list \<Rightarrow> 'e option" where
  "first_error f [] = None"
| "first_error f (x # xs) = (case f x of Some e \<Rightarrow> Some e | None \<Rightarrow> first_error f xs)"

definition validate_detector :: "ControlDetector \<Rightarrow> invalid_input option" where
  "validate_detector detector =
     (if \<not> validDetectorKind (cd_Kind detector) then Some (DetectorKindIsInvalid (cd_Key detector) (cd_Kind detector)) else None)"

definition validate_rule :: "ControlRule \<Rightarrow> invalid_input option" where
  "validate_rule rule =
     (if \<not> validSeverity (cr_Severity rule) then Some (RuleSeverityIsInvalid (cr_Key rule) (cr_Severity rule))
      else if \<not> validControlAction (cr_Action rule) then Some (RuleActionIsInvalid (cr_Key rule) (cr_Action rule))
      else if cs_Direction (cr_Scope rule) \<noteq> [] \<and> \<not> validDirection (cs_Direction (cr_Scope rule))
        then Some (RuleDirectionIsInvalid (cr_Key rule) (cs_Direction (cr_Scope rule)))
      else None)"

definition PolicyBundle_Validate :: "PolicyBundle \<Rightarrow> invalid_input option" where
  "PolicyBundle_Validate b =
     (if \<not> validSource (pb_Source b) then Some (SourceIsInvalid (pb_Source b))
      else if \<not> validControlAction (pb_DefaultAction b) then Some (DefaultActionIsInvalid (pb_DefaultAction b))
      else case first_error validate_detector (pb_Detectors b) of
             Some e \<Rightarrow> Some e
           | None \<Rightarrow> first_error validate_rule (pb_Rules b))"

definition ToPolicyBundle :: "PolicyBundle \<Rightarrow> Bundle" where
  "ToPolicyBundle b =
     \<lparr>b_Key = pb_Key b, b_Version = pb_Version b, b_Source = pb_Source b, b_DefaultAction = pb_DefaultAction b,
      b_Detectors = map (\<lambda>d. \<lparr>def_Key = cd_Key d, def_Kind = cd_Kind d, def_Pattern = cd_Pattern d,
        def_Categories = cd_Categories d\<rparr>) (pb_Detectors b),
      b_Rules = map (\<lambda>r. \<lparr>rule_Key = cr_Key r, rule_Enabled = cr_Enabled r, rule_Severity = cr_Severity r,
        rule_Action = cr_Action r, rule_DetectorKeys = cr_DetectorKeys r,
        rule_Scope = \<lparr>sc_RouteKey = cs_RouteKey (cr_Scope r), sc_Provider = cs_Provider (cr_Scope r),
          sc_Model = cs_Model (cr_Scope r), sc_Direction = cs_Direction (cr_Scope r)\<rparr>\<rparr>) (pb_Rules b)\<rparr>"

text \<open>The request is normalised in place, also when it is then rejected.\<close>

definition normalize_request :: "CreateGatewayClientRequest \<Rightarrow> CreateGatewayClientRequest" where
  "normalize_request r =
     r\<lparr>cg_ID := TrimSpace (cg_ID r), cg_Name := TrimSpace (cg_Name r),
       cg_Status := TrimSpace (if cg_Status r = [] then StatusEnabled else cg_Status r)\<rparr>"

definition NormalizeAndValidate :: "CreateGatewayClientRequest \<Rightarrow> invalid_input + CreateGatewayClientRequest" where
  "NormalizeAndValidate r =
     (let r = normalize_request r in
      if cg_Name r = [] then Inl ClientNameIsRequired
      else if \<not> validGatewayClientStatus (cg_Status r) then Inl ClientStatusIsInvalid
      else Inr r)"

definition GatewayClient_Validate :: "GatewayClient \<Rightarrow> invalid_input option" where
  "GatewayClient_Validate c =
     (if TrimSpace (gc_Name c) = [] then Some ClientNameIsRequired
      else if \<not> validGatewayClientStatus (gc_Status c) then Some ClientStatusIsInvalid
      else None)"

definition RouteLimit_Validate :: "RouteLimit \<Rightarrow> invalid_input option" where
  "RouteLimit_Validate l =
     (if TrimSpace (rl_RouteKey l) = [] then Some RouteKeyIsRequired
      else if \<not> validControlLimits (rl_RequestsPerWindow l) (rl_WindowSeconds l) (rl_MaxConcurrentRequests l) (rl_MaxBodyBytes l)
        then Some LimitValuesAreInvalid
      else None)"

definition ClientRouteLimit_Validate :: "ClientRouteLimit \<Rightarrow> invalid_input option" where
  "ClientRouteLimit_Validate l =
     (if TrimSpace (crl_ClientID l) = [] then Some ClientIDIsRequired
      else if TrimSpace (crl_RouteKey l) = [] then Some RouteKeyIsRequired
      else if \<not> validControlLimits (crl_RequestsPerWindow l) (crl_WindowSeconds l) (crl_MaxConcurrentRequests l) (crl_MaxBodyBytes l)
        then Some LimitValuesAreInvalid
      else None)"

lemma first_error_None: "first_error f xs = None \<longleftrightarrow> (\<forall>x\<in>set xs. f x = None)"
  by (induction xs) (auto split: option.split)

lemma case_error_None: "(case x of None \<Rightarrow> y | Some e \<Rightarrow> Some e) = None \<longleftrightarrow> x = None \<and> y = None"
  by (cases x) simp_all

text \<open>A valid bundle, spelt out.\<close>

lemma PolicyBundle_Validate_None:
  "PolicyBundle_Validate b = None \<longleftrightarrow>
     validSource (pb_Source b) \<and> validControlAction (pb_DefaultAction b) \<and>
     (\<forall>d\<in>set (pb_Detectors b). validDetectorKind (cd_Kind d)) \<and>
     (\<forall>r\<in>set (pb_Rules b). validSeverity (cr_Severity r) \<and> validControlAction (cr_Action r) \<and>
        (cs_Direction (cr_Scope r) = [] \<or> validDirection (cs_Direction (cr_Scope r))))"
  by (auto simp: PolicyBundle_Validate_def validate_detector_def validate_rule_def first_error_None case_error_None)

text \<open>The control plane accepts the actions the policy domain knows.\<close>

lemma valid_actions_agree: "validControlAction a = validAction a"
  by (simp add: validControlAction_def validAction_def actionPriorities_def)

end
