(* ===== verification/Control.thy ===== *)
theory Control
  imports ControlTypes "HOL-Library.AList" Strings
begin

text \<open>
  The control plane's application layer, \<open>internal/contexts/control/application\<close>: the repository interface
  of \<open>types.go\<close>, the service of \<open>usecases.go\<close> and the repository of \<open>memory.go\<close>.

  The service is a function of any repository, whose operations pass a state \<open>'s\<close> and fail with errors \<open>'e\<close>.
  The maps of the memory repository are association lists; listing a map gives its values in an order
  that the argument \<open>shuffle\<close> chooses, as Go leaves it open.
\<close>

section \<open>The repository interface\<close>

record ('e, 's) ControlRepository =
  cr_ConfigStatus :: "'s \<Rightarrow> ('e + ConfigStatus) \<times> 's"
  cr_ListPolicyBundles :: "'s \<Rightarrow> ('e + PolicyBundle list) \<times> 's"
  cr_CreatePolicyBundle :: "PolicyBundle \<Rightarrow> 's \<Rightarrow> ('e + unit) \<times> 's"
  cr_ActivatePolicyBundles :: "PolicyActivationRequest \<Rightarrow> 's \<Rightarrow> ('e + PolicyActivationResponse) \<times> 's"
  cr_ListModelMappings :: "'s \<Rightarrow> ('e + ModelMapping list) \<times> 's"
  cr_PutModelMapping :: "ModelMapping \<Rightarrow> 's \<Rightarrow> ('e + unit) \<times> 's"
  cr_ListVerdictProviders :: "'s \<Rightarrow> ('e + VerdictProvider list) \<times> 's"
  cr_PutVerdictProvider :: "VerdictProvider \<Rightarrow> 's \<Rightarrow> ('e + unit) \<times> 's"
  cr_ListGatewayClients :: "'s \<Rightarrow> ('e + GatewayClient list) \<times> 's"
  cr_CreateGatewayClient :: "CreateGatewayClientRequest \<Rightarrow> 's \<Rightarrow> ('e + CreateGatewayClientResponse) \<times> 's"
  cr_PatchGatewayClient :: "GatewayClient \<Rightarrow> 's \<Rightarrow> ('e + GatewayClient) \<times> 's"
  cr_RevokeGatewayClient :: "string \<Rightarrow> 's \<Rightarrow> ('e + GatewayClient) \<times> 's"
  cr_ListRouteLimits :: "'s \<Rightarrow> ('e + RouteLimit list) \<times> 's"
  cr_PutRouteLimit :: "RouteLimit \<Rightarrow> 's \<Rightarrow> ('e + RouteLimit) \<times> 's"
  cr_ListClientRouteLimits :: "string \<Rightarrow> 's \<Rightarrow> ('e + ClientRouteLimit list) \<times> 's"
  cr_PutClientRouteLimit :: "ClientRouteLimit \<Rightarrow> 's \<Rightarrow> ('e + ClientRouteLimit) \<times> 's"
  cr_DeleteClientRouteLimit :: "string \<Rightarrow> string \<Rightarrow> 's \<Rightarrow> ('e + unit) \<times> 's"

datatype 'e service_error = InvalidInput invalid_input | PolicyBundleNotFound | RepositoryError 'e

text \<open>The policy compiler of the process: the platform and the encoding of bundles to be hashed.\<close>

record policy_compiler =
  pc_platform :: platform
  pc_marshal :: "Bundle list \<Rightarrow> string option"

definition compile_with :: "policy_compiler \<Rightarrow> Bundle list \<Rightarrow> compile_error + Snapshot" where
  "compile_with C bundles = CompileSnapshot (pc_platform C) (pc_marshal C) bundles"

section \<open>The service\<close>

definition pass :: "('e + 'a) \<times> 's \<Rightarrow> ('e service_error + 'a) \<times> 's" where
  "pass out = (case fst out of Inl e \<Rightarrow> Inl (RepositoryError e) | Inr x \<Rightarrow> Inr x, snd out)"

definition compilePolicyBundle :: "policy_compiler \<Rightarrow> PolicyBundle \<Rightarrow> invalid_input + Snapshot" where
  "compilePolicyBundle C bundle =
     (case PolicyBundle_Validate bundle of
        Some e \<Rightarrow> Inl e
      | None \<Rightarrow>
          (case compile_with C [ToPolicyBundle bundle] of
             Inl e \<Rightarrow> Inl (PolicyDoesNotCompile e)
           | Inr snapshot \<Rightarrow> Inr snapshot))"

definition normalizeVerdictProvider :: "VerdictProvider \<Rightarrow> invalid_input + VerdictProvider" where
  "normalizeVerdictProvider provider =
     (if vp_Mode provider \<noteq> [] \<and> vp_Mode provider \<noteq> ''inline'' then Inl VerdictModeIsInvalid
      else Inr (provider\<lparr>vp_Mode := ''inline''\<rparr>))"

definition Service_ConfigStatus :: "('e, 's) ControlRepository \<Rightarrow> 's \<Rightarrow> ('e service_error + ConfigStatus) \<times> 's" where
  "Service_ConfigStatus R s = pass (cr_ConfigStatus R s)"

definition Service_ListPolicyBundles :: "('e, 's) ControlRepository \<Rightarrow> 's \<Rightarrow> ('e service_error + PolicyBundle list) \<times> 's" where
  "Service_ListPolicyBundles R s = pass (cr_ListPolicyBundles R s)"

definition Service_CreatePolicyBundle ::
  "policy_compiler \<Rightarrow> ('e, 's) ControlRepository \<Rightarrow> PolicyBundle \<Rightarrow> 's \<Rightarrow> ('e service_error + unit) \<times> 's" where
  "Service_CreatePolicyBundle C R bundle s =
     (case compilePolicyBundle C bundle of
        Inl e \<Rightarrow> (Inl (InvalidInput e), s)
      | Inr _ \<Rightarrow> pass (cr_CreatePolicyBundle R bundle s))"

definition ValidatePolicyBundle :: "policy_compiler \<Rightarrow> PolicyBundle \<Rightarrow> invalid_input + string" where
  "ValidatePolicyBundle C bundle =
     (case compilePolicyBundle C bundle of
        Inl e \<Rightarrow> Inl e
      | Inr snapshot \<Rightarrow> Inr (Hash (Some snapshot)))"

text \<open>A request without a model signal, whose zero value the policy domain defines.\<close>

definition dry_run_request :: "PolicyDryRunRequest \<Rightarrow> EvaluationRequest" where
  "dry_run_request r =
     \<lparr>req_RouteKey = dr_RouteKey r, req_Provider = dr_Provider r, req_Model = dr_Model r, req_Direction = dr_Direction r,
      req_Text = dr_Text r, req_ModelSignal = zero_ModelSignal\<rparr>"

definition PolicyDryRun :: "policy_compiler \<Rightarrow> PolicyDryRunRequest \<Rightarrow> invalid_input + PolicyDryRunResponse" where
  "PolicyDryRun C request =
     (if \<not> validDirection (dr_Direction request) then Inl DirectionIsInvalid
      else case compilePolicyBundle C (dr_Bundle request) of
             Inl e \<Rightarrow> Inl e
           | Inr snapshot \<Rightarrow> Inr \<lparr>dr_Decision = Evaluate (pc_platform C) (Some snapshot) (dry_run_request request)\<rparr>)"

text \<open>The last bundle of a key wins, as when the Go map is filled.\<close>

definition bundles_by_key :: "PolicyBundle list \<Rightarrow> (string \<rightharpoonup> PolicyBundle)" where
  "bundles_by_key bundles = foldl (\<lambda>m b. m(pb_Key b \<mapsto> b)) Map.empty bundles"

fun select_bundles :: "(string \<rightharpoonup> PolicyBundle) \<Rightarrow> string list \<Rightarrow> 'e service_error + Bundle list" where
  "select_bundles byKey [] = Inr []"
| "select_bundles byKey (key # keys) =
     (case byKey key of
        None \<Rightarrow> Inl PolicyBundleNotFound
      | Some bundle \<Rightarrow>
          (case PolicyBundle_Validate bundle of
             Some e \<Rightarrow> Inl (InvalidInput e)
           | None \<Rightarrow>
               (case select_bundles byKey keys of
                  Inl e \<Rightarrow> Inl e
                | Inr selected \<Rightarrow> Inr (ToPolicyBundle bundle # selected))))"

definition activationSnapshotHash ::
  "policy_compiler \<Rightarrow> ('e, 's) ControlRepository \<Rightarrow> string list \<Rightarrow> 's \<Rightarrow> ('e service_error + string) \<times> 's" where
  "activationSnapshotHash C R keys s =
     (case cr_ListPolicyBundles R s of
        (Inl e, s) \<Rightarrow> (Inl (RepositoryError e), s)
      | (Inr bundles, s) \<Rightarrow>
          (case select_bundles (bundles_by_key bundles) keys of
             Inl e \<Rightarrow> (Inl e, s)
           | Inr selected \<Rightarrow>
               (case compile_with C selected of
                  Inl e \<Rightarrow> (Inl (InvalidInput (PolicyDoesNotCompile e)), s)
                | Inr snapshot \<Rightarrow> (Inr (Hash (Some snapshot)), s))))"

text \<open>The notifier, if there is one, answers whether the notification failed.\<close>

definition Service_ActivatePolicyBundles ::
  "policy_compiler \<Rightarrow> ('e, 's) ControlRepository \<Rightarrow> (int \<Rightarrow> bool) option \<Rightarrow> PolicyActivationRequest \<Rightarrow> 's \<Rightarrow>
   ('e service_error + PolicyActivationResponse) \<times> 's" where
  "Service_ActivatePolicyBundles C R notifier request s =
     (case activationSnapshotHash C R (ar_Keys request) s of
        (Inl e, s) \<Rightarrow> (Inl e, s)
      | (Inr snapshotHash, s) \<Rightarrow>
          (case cr_ActivatePolicyBundles R (request\<lparr>ar_SnapshotHash := snapshotHash\<rparr>) s of
             (Inl e, s) \<Rightarrow> (Inl (RepositoryError e), s)
           | (Inr response, s) \<Rightarrow>
               (Inr (case notifier of
                       None \<Rightarrow> response
                     | Some failed \<Rightarrow>
                         if failed (as_RevisionNumber response)
                         then response\<lparr>as_NotificationError := ''notify config activation failed''\<rparr>
                         else response), s)))"

definition Service_ListModelMappings :: "('e, 's) ControlRepository \<Rightarrow> 's \<Rightarrow> ('e service_error + ModelMapping list) \<times> 's" where
  "Service_ListModelMappings R s = pass (cr_ListModelMappings R s)"

definition Service_PutModelMapping :: "('e, 's) ControlRepository \<Rightarrow> ModelMapping \<Rightarrow> 's \<Rightarrow> ('e service_error + unit) \<times> 's" where
  "Service_PutModelMapping R mapping s = pass (cr_PutModelMapping R mapping s)"

definition Service_ListVerdictProviders :: "('e, 's) ControlRepository \<Rightarrow> 's \<Rightarrow> ('e service_error + VerdictProvider list) \<times> 's" where
  "Service_ListVerdictProviders R s = pass (cr_ListVerdictProviders R s)"

definition Service_PutVerdictProvider :: "('e, 's) ControlRepository \<Rightarrow> VerdictProvider \<Rightarrow> 's \<Rightarrow> ('e service_error + unit) \<times> 's" where
  "Service_PutVerdictProvider R provider s =
     (case normalizeVerdictProvider provider of
        Inl e \<Rightarrow> (Inl (InvalidInput e), s)
      | Inr provider \<Rightarrow> pass (cr_PutVerdictProvider R provider s))"

definition Service_ListGatewayClients :: "('e, 's) ControlRepository \<Rightarrow> 's \<Rightarrow> ('e service_error + GatewayClient list) \<times> 's" where
  "Service_ListGatewayClients R s = pass (cr_ListGatewayClients R s)"

definition Service_CreateGatewayClient ::
  "('e, 's) ControlRepository \<Rightarrow> CreateGatewayClientRequest \<Rightarrow> 's \<Rightarrow> ('e service_error + CreateGatewayClientResponse) \<times> 's" where
  "Service_CreateGatewayClient R request s =
     (case NormalizeAndValidate request of
        Inl e \<Rightarrow> (Inl (InvalidInput e), s)
      | Inr request \<Rightarrow> pass (cr_CreateGatewayClient R request s))"

definition Service_PatchGatewayClient ::
  "('e, 's) ControlRepository \<Rightarrow> GatewayClient \<Rightarrow> 's \<Rightarrow> ('e service_error + GatewayClient) \<times> 's" where
  "Service_PatchGatewayClient R client s =
     (case GatewayClient_Validate client of
        Some e \<Rightarrow> (Inl (InvalidInput e), s)
      | None \<Rightarrow> pass (cr_PatchGatewayClient R client s))"

definition Service_RevokeGatewayClient :: "('e, 's) ControlRepository \<Rightarrow> string \<Rightarrow> 's \<Rightarrow> ('e service_error + GatewayClient) \<times> 's" where
  "Service_RevokeGatewayClient R clientID s =
     (if clientID = [] then (Inl (InvalidInput ClientIDIsRequired), s) else pass (cr_RevokeGatewayClient R clientID s))"

definition Service_ListRouteLimits :: "('e, 's) ControlRepository \<Rightarrow> 's \<Rightarrow> ('e service_error + RouteLimit list) \<times> 's" where
  "Service_ListRouteLimits R s = pass (cr_ListRouteLimits R s)"

definition Service_PutRouteLimit :: "('e, 's) ControlRepository \<Rightarrow> RouteLimit \<Rightarrow> 's \<Rightarrow> ('e service_error + RouteLimit) \<times> 's" where
  "Service_PutRouteLimit R limit s =
     (case RouteLimit_Validate limit of
        Some e \<Rightarrow> (Inl (InvalidInput e), s)
      | None \<Rightarrow> pass (cr_PutRouteLimit R limit s))"

definition Service_ListClientRouteLimits ::
  "('e, 's) ControlRepository \<Rightarrow> string \<Rightarrow> 's \<Rightarrow> ('e service_error + ClientRouteLimit list) \<times> 's" where
  "Service_ListClientRouteLimits R clientID s =
     (if clientID = [] then (Inl (InvalidInput ClientIDIsRequired), s) else pass (cr_ListClientRouteLimits R clientID s))"

definition Service_PutClientRouteLimit ::
  "('e, 's) ControlRepository \<Rightarrow> ClientRouteLimit \<Rightarrow> 's \<Rightarrow> ('e service_error + ClientRouteLimit) \<times> 's" where
  "Service_PutClientRouteLimit R limit s =
     (case ClientRouteLimit_Validate limit of
        Some e \<Rightarrow> (Inl (InvalidInput e), s)
      | None \<Rightarrow> pass (cr_PutClientRouteLimit R limit s))"

definition Service_DeleteClientRouteLimit ::
  "('e, 's) ControlRepository \<Rightarrow> string \<Rightarrow> string \<Rightarrow> 's \<Rightarrow> ('e service_error + unit) \<times> 's" where
  "Service_DeleteClientRouteLimit R clientID routeKey s =
     (if clientID = [] then (Inl (InvalidInput ClientIDIsRequired), s)
      else if routeKey = [] then (Inl (InvalidInput RouteKeyIsRequired), s)
      else pass (cr_DeleteClientRouteLimit R clientID routeKey s))"

section \<open>The memory repository\<close>

record MemoryRepository =
  mr_bundles :: "(string \<times> PolicyBundle) list"
  mr_activeBundleKeys :: "string list"
  mr_modelMappings :: "(string \<times> ModelMapping) list"
  mr_verdictProviders :: "(string \<times> VerdictProvider) list"
  mr_gatewayClients :: "(string \<times> GatewayClient) list"
  mr_routeLimits :: "(string \<times> RouteLimit) list"
  mr_clientRouteLimits :: "(string \<times> (string \<times> ClientRouteLimit) list) list"
  mr_nextClientNumber :: nat

datatype memory_error = MemoryBundleNotFound | ErrGatewayClientNotFound | ErrGatewayClientAlreadyExists | ClientKeyError key_error

definition NewMemoryRepository :: MemoryRepository where
  "NewMemoryRepository =
     \<lparr>mr_bundles = [], mr_activeBundleKeys = [], mr_modelMappings = [], mr_verdictProviders = [], mr_gatewayClients = [],
      mr_routeLimits = [], mr_clientRouteLimits = [], mr_nextClientNumber = 0\<rparr>"

text \<open>The bundles that are active; a key without a bundle is skipped.\<close>

definition active_bundles :: "MemoryRepository \<Rightarrow> PolicyBundle list" where
  "active_bundles r = List.map_filter (map_of (mr_bundles r)) (mr_activeBundleKeys r)"

definition activeBundlesLocked :: "MemoryRepository \<Rightarrow> Bundle list" where
  "activeBundlesLocked r = map ToPolicyBundle (active_bundles r)"

definition memory_ConfigStatus :: "policy_compiler \<Rightarrow> MemoryRepository \<Rightarrow> (memory_error + ConfigStatus) \<times> MemoryRepository" where
  "memory_ConfigStatus C r =
     (Inr \<lparr>cs_ActivePolicyBundleKeys = mr_activeBundleKeys r,
        cs_PolicySnapshotHash = (case compile_with C (activeBundlesLocked r) of Inl _ \<Rightarrow> [] | Inr snapshot \<Rightarrow> Hash (Some snapshot))\<rparr>, r)"

definition memory_CreatePolicyBundle :: "PolicyBundle \<Rightarrow> MemoryRepository \<Rightarrow> (memory_error + unit) \<times> MemoryRepository" where
  "memory_CreatePolicyBundle bundle r = (Inr (), r\<lparr>mr_bundles := AList.update (pb_Key bundle) bundle (mr_bundles r)\<rparr>)"

definition memory_ActivatePolicyBundles ::
  "PolicyActivationRequest \<Rightarrow> MemoryRepository \<Rightarrow> (memory_error + PolicyActivationResponse) \<times> MemoryRepository" where
  "memory_ActivatePolicyBundles request r =
     (if \<not> list_all (\<lambda>key. map_of (mr_bundles r) key \<noteq> None) (ar_Keys request) then (Inl MemoryBundleNotFound, r)
      else (Inr \<lparr>as_ActiveKeys = ar_Keys request, as_Hash = ar_SnapshotHash request, as_NotificationError = [], as_RevisionNumber = 0\<rparr>,
            r\<lparr>mr_activeBundleKeys := ar_Keys request\<rparr>))"

definition memory_PutModelMapping :: "ModelMapping \<Rightarrow> MemoryRepository \<Rightarrow> (memory_error + unit) \<times> MemoryRepository" where
  "memory_PutModelMapping mapping r = (Inr (), r\<lparr>mr_modelMappings := AList.update (mm_ID mapping) mapping (mr_modelMappings r)\<rparr>)"

definition memory_PutVerdictProvider :: "VerdictProvider \<Rightarrow> MemoryRepository \<Rightarrow> (memory_error + unit) \<times> MemoryRepository" where
  "memory_PutVerdictProvider provider r =
     (Inr (), r\<lparr>mr_verdictProviders := AList.update (vp_ID provider) provider (mr_verdictProviders r)\<rparr>)"

text \<open>\<open>rand n\<close> is the random source at the creation of the \<open>n\<close>-th client.\<close>

definition memory_CreateGatewayClient ::
  "platform \<Rightarrow> (nat \<Rightarrow> (nat \<Rightarrow> string option) \<times> (nat \<Rightarrow> string option)) \<Rightarrow> CreateGatewayClientRequest \<Rightarrow> MemoryRepository \<Rightarrow>
   (memory_error + CreateGatewayClientResponse) \<times> MemoryRepository" where
  "memory_CreateGatewayClient P rand request r =
     (let n = mr_nextClientNumber r + 1;
          r = r\<lparr>mr_nextClientNumber := n\<rparr>;
          clientID = (if cg_ID request = [] then ''client-'' @ dec n else cg_ID request)
      in if map_of (mr_gatewayClients r) clientID \<noteq> None then (Inl ErrGatewayClientAlreadyExists, r)
         else case GenerateKey P (fst (rand n)) (snd (rand n)) clientID of
                Inl e \<Rightarrow> (Inl (ClientKeyError e), r)
              | Inr (key, material) \<Rightarrow>
                  (let client = \<lparr>gc_ID = clientID, gc_Name = cg_Name request, gc_Status = cg_Status request,
                         gc_KeyPrefix = km_Prefix material, gc_Notes = cg_Notes request\<rparr>
                   in (Inr \<lparr>cg_Client = client, cg_Key = key\<rparr>,
                       r\<lparr>mr_gatewayClients := AList.update clientID client (mr_gatewayClients r)\<rparr>)))"

definition patched :: "GatewayClient \<Rightarrow> GatewayClient \<Rightarrow> GatewayClient" where
  "patched existing client =
     (let client = (if gc_KeyPrefix existing \<noteq> [] \<and> gc_KeyPrefix client = [] then client\<lparr>gc_KeyPrefix := gc_KeyPrefix existing\<rparr> else client)
      in if gc_Status existing = StatusRevoked then client\<lparr>gc_Status := gc_Status existing\<rparr> else client)"

definition memory_PatchGatewayClient :: "GatewayClient \<Rightarrow> MemoryRepository \<Rightarrow> (memory_error + GatewayClient) \<times> MemoryRepository" where
  "memory_PatchGatewayClient client r =
     (case map_of (mr_gatewayClients r) (gc_ID client) of
        None \<Rightarrow> (Inl ErrGatewayClientNotFound, r)
      | Some existing \<Rightarrow>
          (Inr (patched existing client),
           r\<lparr>mr_gatewayClients := AList.update (gc_ID client) (patched existing client) (mr_gatewayClients r)\<rparr>))"

definition memory_RevokeGatewayClient :: "string \<Rightarrow> MemoryRepository \<Rightarrow> (memory_error + GatewayClient) \<times> MemoryRepository" where
  "memory_RevokeGatewayClient clientID r =
     (case map_of (mr_gatewayClients r) clientID of
        None \<Rightarrow> (Inl ErrGatewayClientNotFound, r)
      | Some client \<Rightarrow>
          (let client = client\<lparr>gc_ID := clientID, gc_Status := StatusRevoked\<rparr>
           in (Inr client, r\<lparr>mr_gatewayClients := AList.update clientID client (mr_gatewayClients r)\<rparr>)))"

definition memory_PutRouteLimit :: "RouteLimit \<Rightarrow> MemoryRepository \<Rightarrow> (memory_error + RouteLimit) \<times> MemoryRepository" where
  "memory_PutRouteLimit limit r = (Inr limit, r\<lparr>mr_routeLimits := AList.update (rl_RouteKey limit) limit (mr_routeLimits r)\<rparr>)"

definition client_limits :: "MemoryRepository \<Rightarrow> string \<Rightarrow> (string \<times> ClientRouteLimit) list" where
  "client_limits r clientID = (case map_of (mr_clientRouteLimits r) clientID of None \<Rightarrow> [] | Some limits \<Rightarrow> limits)"

definition memory_ListClientRouteLimits ::
  "(ClientRouteLimit list \<Rightarrow> ClientRouteLimit list) \<Rightarrow> string \<Rightarrow> MemoryRepository \<Rightarrow> (memory_error + ClientRouteLimit list) \<times> MemoryRepository" where
  "memory_ListClientRouteLimits shuffle clientID r =
     (if map_of (mr_gatewayClients r) clientID = None then (Inl ErrGatewayClientNotFound, r)
      else (Inr (shuffle (map snd (client_limits r clientID))), r))"

definition memory_PutClientRouteLimit :: "ClientRouteLimit \<Rightarrow> MemoryRepository \<Rightarrow> (memory_error + ClientRouteLimit) \<times> MemoryRepository" where
  "memory_PutClientRouteLimit limit r =
     (if map_of (mr_gatewayClients r) (crl_ClientID limit) = None then (Inl ErrGatewayClientNotFound, r)
      else (Inr limit,
            r\<lparr>mr_clientRouteLimits :=
                AList.update (crl_ClientID limit) (AList.update (crl_RouteKey limit) limit (client_limits r (crl_ClientID limit)))
                  (mr_clientRouteLimits r)\<rparr>))"

definition memory_DeleteClientRouteLimit :: "string \<Rightarrow> string \<Rightarrow> MemoryRepository \<Rightarrow> (memory_error + unit) \<times> MemoryRepository" where
  "memory_DeleteClientRouteLimit clientID routeKey r =
     (if map_of (mr_gatewayClients r) clientID = None then (Inl ErrGatewayClientNotFound, r)
      else (Inr (),
            r\<lparr>mr_clientRouteLimits := AList.map_entry clientID (AList.delete routeKey) (mr_clientRouteLimits r)\<rparr>))"

text \<open>The orders in which the maps are listed.\<close>

record listing_orders =
  lo_bundles :: "PolicyBundle list \<Rightarrow> PolicyBundle list"
  lo_mappings :: "ModelMapping list \<Rightarrow> ModelMapping list"
  lo_providers :: "VerdictProvider list \<Rightarrow> VerdictProvider list"
  lo_clients :: "GatewayClient list \<Rightarrow> GatewayClient list"
  lo_limits :: "RouteLimit list \<Rightarrow> RouteLimit list"
  lo_client_limits :: "ClientRouteLimit list \<Rightarrow> ClientRouteLimit list"

definition memory_repository ::
  "policy_compiler \<Rightarrow> (nat \<Rightarrow> (nat \<Rightarrow> string option) \<times> (nat \<Rightarrow> string option)) \<Rightarrow> listing_orders \<Rightarrow> (memory_error, MemoryRepository) ControlRepository" where
  "memory_repository C rand L =
     \<lparr>cr_ConfigStatus = memory_ConfigStatus C,
      cr_ListPolicyBundles = (\<lambda>r. (Inr (lo_bundles L (map snd (mr_bundles r))), r)),
      cr_CreatePolicyBundle = memory_CreatePolicyBundle,
      cr_ActivatePolicyBundles = memory_ActivatePolicyBundles,
      cr_ListModelMappings = (\<lambda>r. (Inr (lo_mappings L (map snd (mr_modelMappings r))), r)),
      cr_PutModelMapping = memory_PutModelMapping,
      cr_ListVerdictProviders = (\<lambda>r. (Inr (lo_providers L (map snd (mr_verdictProviders r))), r)),
      cr_PutVerdictProvider = memory_PutVerdictProvider,
      cr_ListGatewayClients = (\<lambda>r. (Inr (lo_clients L (map snd (mr_gatewayClients r))), r)),
      cr_CreateGatewayClient = memory_CreateGatewayClient (pc_platform C) rand,
      cr_PatchGatewayClient = memory_PatchGatewayClient,
      cr_RevokeGatewayClient = memory_RevokeGatewayClient,
      cr_ListRouteLimits = (\<lambda>r. (Inr (lo_limits L (map snd (mr_routeLimits r))), r)),
      cr_PutRouteLimit = memory_PutRouteLimit,
      cr_ListClientRouteLimits = memory_ListClientRouteLimits (lo_client_limits L),
      cr_PutClientRouteLimit = memory_PutClientRouteLimit,
      cr_DeleteClientRouteLimit = memory_DeleteClientRouteLimit\<rparr>"

end
