(* ===== verification/Control_Props.thy ===== *)
theory Control_Props
  imports Control
begin

text \<open>
  The contract of a repository of policy bundles and what the service promises on top of it; and the
  memory repository, which keeps the contract and a well-formed store.
\<close>

section \<open>Selecting bundles\<close>

lemma bundles_by_key_foldl:
  "foldl (\<lambda>m b. m(pb_Key b \<mapsto> b)) m bs k =
     (case map_of (rev (map (\<lambda>b. (pb_Key b, b)) bs)) k of None \<Rightarrow> m k | Some b \<Rightarrow> Some b)"
  by (induction bs arbitrary: m) (auto simp: map_add_def split: option.split)

lemma bundles_by_key_Some:
  assumes "distinct (map pb_Key bs)"
  shows "bundles_by_key bs k = Some b \<longleftrightarrow> b \<in> set bs \<and> pb_Key b = k"
proof -
  have "map fst (rev (map (\<lambda>b. (pb_Key b, b)) bs)) = rev (map pb_Key bs)" by (simp add: rev_map comp_def)
  then have d: "distinct (map fst (rev (map (\<lambda>b. (pb_Key b, b)) bs)))" using assms by simp
  have "bundles_by_key bs k = map_of (rev (map (\<lambda>b. (pb_Key b, b)) bs)) k"
    by (simp add: bundles_by_key_def bundles_by_key_foldl split: option.split)
  then show ?thesis by (auto simp: map_of_eq_Some_iff [OF d])
qed

lemma select_bundles_Inr:
  "select_bundles m keys = (Inr selected :: 'e service_error + Bundle list) \<longleftrightarrow>
     (\<forall>k\<in>set keys. \<exists>b. m k = Some b \<and> PolicyBundle_Validate b = None) \<and> selected = map ToPolicyBundle (List.map_filter m keys)"
proof (induction keys arbitrary: selected)
  case (Cons k keys)
  show ?case
  proof (cases "select_bundles m keys :: 'e service_error + Bundle list")
    case (Inl e)
    then have "\<not> (\<forall>k\<in>set keys. \<exists>b. m k = Some b \<and> PolicyBundle_Validate b = None)"
      using Cons.IH [of "map ToPolicyBundle (List.map_filter m keys)"] unfolding Inl by simp
    with Inl show ?thesis by (auto split: option.splits)
  next
    case (Inr rest)
    with Cons.IH [of rest] show ?thesis by (auto simp: List.map_filter_simps split: option.splits)
  qed
qed (auto simp: List.map_filter_simps)

section \<open>The contract\<close>

text \<open>What a repository of bundles promises: listing gives its bundles, each once; creating and activating
  change the bundle and the active keys they name and nothing else; an error changes nothing; and the
  status is that of the active bundles.\<close>

definition status_hash :: "policy_compiler \<Rightarrow> (string \<rightharpoonup> PolicyBundle) \<Rightarrow> string list \<Rightarrow> string" where
  "status_hash C m keys =
     (case compile_with C (map ToPolicyBundle (List.map_filter m keys)) of Inl _ \<Rightarrow> [] | Inr snapshot \<Rightarrow> Hash (Some snapshot))"

locale policy_store =
  fixes C :: policy_compiler
    and R :: "('e, 's) ControlRepository"
    and ok :: "'s \<Rightarrow> bool"
    and bundle_of :: "'s \<Rightarrow> string \<rightharpoonup> PolicyBundle"
    and active :: "'s \<Rightarrow> string list"
  assumes list: "ok s \<Longrightarrow> cr_ListPolicyBundles R s = (rl, s') \<Longrightarrow>
      ok s' \<and> bundle_of s' = bundle_of s \<and> active s' = active s \<and>
      (\<forall>bs. rl = Inr bs \<longrightarrow> distinct (map pb_Key bs) \<and> (\<forall>k b. bundle_of s k = Some b \<longleftrightarrow> b \<in> set bs \<and> pb_Key b = k))"
    and create: "ok s \<Longrightarrow> cr_CreatePolicyBundle R b s = (rc, s') \<Longrightarrow>
      ok s' \<and> active s' = active s \<and>
      bundle_of s' = (case rc of Inl _ \<Rightarrow> bundle_of s | Inr _ \<Rightarrow> (bundle_of s)(pb_Key b \<mapsto> b))"
    and activate: "ok s \<Longrightarrow> cr_ActivatePolicyBundles R q s = (ra, s') \<Longrightarrow>
      ok s' \<and> bundle_of s' = bundle_of s \<and>
      (case ra of Inl _ \<Rightarrow> active s' = active s
       | Inr a \<Rightarrow> active s' = ar_Keys q \<and> as_ActiveKeys a = ar_Keys q \<and> as_Hash a = ar_SnapshotHash q)"
    and status: "ok s \<Longrightarrow> cr_ConfigStatus R s = (rs, s') \<Longrightarrow>
      ok s' \<and> bundle_of s' = bundle_of s \<and> active s' = active s \<and>
      (\<forall>st. rs = Inr st \<longrightarrow> cs_ActivePolicyBundleKeys st = active s \<and> cs_PolicySnapshotHash st = status_hash C (bundle_of s) (active s))"
begin

lemma hash_of_keys:
  assumes "ok s" "activationSnapshotHash C R keys s = (r, s')"
  shows "ok s' \<and> bundle_of s' = bundle_of s \<and> active s' = active s \<and>
    (\<forall>h. r = Inr h \<longrightarrow> (\<forall>k\<in>set keys. \<exists>b. bundle_of s k = Some b \<and> PolicyBundle_Validate b = None) \<and>
       (\<exists>snapshot. compile_with C (map ToPolicyBundle (List.map_filter (bundle_of s) keys)) = Inr snapshot \<and> h = Hash (Some snapshot)))"
proof -
  obtain rl s1 where l: "cr_ListPolicyBundles R s = (rl, s1)" by fastforce
  note post = list [OF assms(1) l]
  have s': "s' = s1" using assms(2) l by (auto simp: activationSnapshotHash_def split: sum.splits)
  have "\<forall>h. r = Inr h \<longrightarrow> (\<forall>k\<in>set keys. \<exists>b. bundle_of s k = Some b \<and> PolicyBundle_Validate b = None) \<and>
       (\<exists>snapshot. compile_with C (map ToPolicyBundle (List.map_filter (bundle_of s) keys)) = Inr snapshot \<and> h = Hash (Some snapshot))"
  proof (intro allI impI)
    fix h
    assume h: "r = Inr h"
    obtain bs where bs: "rl = Inr bs" using assms(2) l h by (auto simp: activationSnapshotHash_def split: sum.splits)
    obtain selected where sel: "select_bundles (bundles_by_key bs) keys = (Inr selected :: 'e service_error + Bundle list)"
      using assms(2) l h bs by (auto simp: activationSnapshotHash_def split: sum.splits)
    obtain snapshot where c: "compile_with C selected = Inr snapshot" "h = Hash (Some snapshot)"
      using assms(2) l h bs sel by (auto simp: activationSnapshotHash_def split: sum.splits)
    have same: "bundles_by_key bs k = Some b \<longleftrightarrow> bundle_of s k = Some b" for k b
      using post bs bundles_by_key_Some [of bs k b] by blast
    have "bundles_by_key bs k = bundle_of s k" for k
      using same by (metis option.exhaust)
    then have "bundles_by_key bs = bundle_of s" by (rule ext)
    with sel c show "(\<forall>k\<in>set keys. \<exists>b. bundle_of s k = Some b \<and> PolicyBundle_Validate b = None) \<and>
       (\<exists>snapshot. compile_with C (map ToPolicyBundle (List.map_filter (bundle_of s) keys)) = Inr snapshot \<and> h = Hash (Some snapshot))"
      unfolding select_bundles_Inr by simp
  qed
  with post s' show ?thesis by blast
qed

text \<open>A successful activation makes exactly the requested keys active, all of them valid bundles whose
  common snapshot has the hash that is answered, which is then also the hash of the status.\<close>

lemma activation:
  assumes "ok s" "Service_ActivatePolicyBundles C R notifier q s = (r, s')"
  shows "ok s' \<and> bundle_of s' = bundle_of s \<and>
    (case r of
       Inl _ \<Rightarrow> active s' = active s
     | Inr a \<Rightarrow> active s' = ar_Keys q \<and> as_ActiveKeys a = ar_Keys q \<and> as_Hash a = status_hash C (bundle_of s') (active s') \<and>
         (\<forall>k\<in>set (ar_Keys q). \<exists>b. bundle_of s' k = Some b \<and> PolicyBundle_Validate b = None) \<and>
         (\<exists>snapshot. compile_with C (map ToPolicyBundle (List.map_filter (bundle_of s') (active s'))) = Inr snapshot))"
proof -
  obtain rh s1 where h: "activationSnapshotHash C R (ar_Keys q) s = (rh, s1)" by fastforce
  note hash = hash_of_keys [OF assms(1) h]
  show ?thesis
  proof (cases rh)
    case (Inl e)
    with assms(2) h hash show ?thesis by (auto simp: Service_ActivatePolicyBundles_def)
  next
    case (Inr k)
    obtain ra s2 where a: "cr_ActivatePolicyBundles R (q\<lparr>ar_SnapshotHash := k\<rparr>) s1 = (ra, s2)" by fastforce
    have "ok s1" using hash by blast
    note act = activate [OF this a]
    show ?thesis
    proof (cases ra)
      case (Inl e)
      with assms(2) h a \<open>rh = Inr k\<close> hash act show ?thesis by (auto simp: Service_ActivatePolicyBundles_def)
    next
      case (Inr resp)
      have out: "s' = s2" "\<exists>a. r = Inr a \<and> as_ActiveKeys a = as_ActiveKeys resp \<and> as_Hash a = as_Hash resp"
        using assms(2) h a Inr \<open>rh = Inr k\<close> by (auto simp: Service_ActivatePolicyBundles_def split: option.splits)
      obtain snapshot where snap: "compile_with C (map ToPolicyBundle (List.map_filter (bundle_of s) (ar_Keys q))) = Inr snapshot"
          "k = Hash (Some snapshot)" using hash \<open>rh = Inr k\<close> by blast
      then have "status_hash C (bundle_of s) (ar_Keys q) = k" by (simp add: status_hash_def)
      then show ?thesis using out snap hash act Inr \<open>rh = Inr k\<close> by auto
    qed
  qed
qed

end

section \<open>The memory repository keeps the contract\<close>

definition keyed :: "('a \<Rightarrow> string) \<Rightarrow> (string \<times> 'a) list \<Rightarrow> bool" where
  "keyed key al \<longleftrightarrow> distinct (map fst al) \<and> (\<forall>(k, x)\<in>set al. key x = k)"

lemma keyed_Nil [simp]: "keyed key []"
  by (simp add: keyed_def)

lemma keyed_update: "keyed key al \<Longrightarrow> key x = k \<Longrightarrow> keyed key (AList.update k x al)"
  unfolding keyed_def
proof (elim conjE, intro conjI)
  assume d: "distinct (map fst al)" and m: "\<forall>(k, x)\<in>set al. key x = k" and k: "key x = k"
  show d': "distinct (map fst (AList.update k x al))" by (rule distinct_update [OF d])
  show "\<forall>(k, x)\<in>set (AList.update k x al). key x = k"
  proof clarify
    fix l y
    assume "(l, y) \<in> set (AList.update k x al)"
    then have "map_of (AList.update k x al) l = Some y" using d' by simp
    then have "l = k \<and> y = x \<or> map_of al l = Some y" by (auto simp: update_conv' split: if_splits)
    with m k show "key y = l" by (auto dest: map_of_SomeD)
  qed
qed

lemma keyed_delete: "keyed key al \<Longrightarrow> keyed key (AList.delete k al)"
  by (auto simp: keyed_def AList.delete_eq distinct_map_filter)

lemma keyed_values: "keyed key al \<Longrightarrow> map_of al k = Some x \<longleftrightarrow> x \<in> set (map snd al) \<and> key x = k"
  by (force simp: keyed_def)

lemma keyed_keys: "keyed key al \<Longrightarrow> map key (map snd al) = map fst al"
  by (auto simp: keyed_def)

definition orders_ok :: "listing_orders \<Rightarrow> bool" where
  "orders_ok L \<longleftrightarrow> (\<forall>xs. mset (lo_bundles L xs) = mset xs)"

interpretation memory: policy_store C "memory_repository C rand L" "\<lambda>r. orders_ok L \<and> keyed pb_Key (mr_bundles r)"
  "\<lambda>r. map_of (mr_bundles r)" mr_activeBundleKeys for C rand L
proof
  fix s s' :: MemoryRepository
  assume ok: "orders_ok L \<and> keyed pb_Key (mr_bundles s)"
  show "(orders_ok L \<and> keyed pb_Key (mr_bundles s')) \<and> map_of (mr_bundles s') = map_of (mr_bundles s) \<and>
      mr_activeBundleKeys s' = mr_activeBundleKeys s \<and>
      (\<forall>bs. rl = Inr bs \<longrightarrow> distinct (map pb_Key bs) \<and> (\<forall>k b. map_of (mr_bundles s) k = Some b \<longleftrightarrow> b \<in> set bs \<and> pb_Key b = k))"
    if "cr_ListPolicyBundles (memory_repository C rand L) s = (rl, s')" for rl
  proof -
    have m: "mset (lo_bundles L (map snd (mr_bundles s))) = mset (map snd (mr_bundles s))" using ok by (simp add: orders_ok_def)
    have "mset (map pb_Key (lo_bundles L (map snd (mr_bundles s)))) = mset (map pb_Key (map snd (mr_bundles s)))"
      using arg_cong [OF m, of "image_mset pb_Key"] by (simp only: mset_map)
    moreover have "distinct (map pb_Key (map snd (mr_bundles s)))" 
      using ok keyed_keys [of pb_Key "mr_bundles s"] unfolding keyed_def by metis
    ultimately have "distinct (map pb_Key (lo_bundles L (map snd (mr_bundles s))))" by (metis mset_eq_imp_distinct_iff)
    moreover have "set (lo_bundles L (map snd (mr_bundles s))) = set (map snd (mr_bundles s))" by (rule mset_eq_setD [OF m])
    ultimately show ?thesis using that ok keyed_values [of pb_Key "mr_bundles s"] by (auto simp: memory_repository_def)
  qed
  show "(orders_ok L \<and> keyed pb_Key (mr_bundles s')) \<and> mr_activeBundleKeys s' = mr_activeBundleKeys s \<and>
      map_of (mr_bundles s') = (case rc of Inl _ \<Rightarrow> map_of (mr_bundles s) | Inr _ \<Rightarrow> (map_of (mr_bundles s))(pb_Key b \<mapsto> b))"
    if "cr_CreatePolicyBundle (memory_repository C rand L) b s = (rc, s')" for b rc
    using that ok by (auto simp: memory_repository_def memory_CreatePolicyBundle_def keyed_update update_conv')
  show "(orders_ok L \<and> keyed pb_Key (mr_bundles s')) \<and> map_of (mr_bundles s') = map_of (mr_bundles s) \<and>
      (case ra of Inl _ \<Rightarrow> mr_activeBundleKeys s' = mr_activeBundleKeys s
       | Inr a \<Rightarrow> mr_activeBundleKeys s' = ar_Keys q \<and> as_ActiveKeys a = ar_Keys q \<and> as_Hash a = ar_SnapshotHash q)"
    if "cr_ActivatePolicyBundles (memory_repository C rand L) q s = (ra, s')" for q ra
    using that ok by (auto simp: memory_repository_def memory_ActivatePolicyBundles_def split: if_splits)
  show "(orders_ok L \<and> keyed pb_Key (mr_bundles s')) \<and> map_of (mr_bundles s') = map_of (mr_bundles s) \<and>
      mr_activeBundleKeys s' = mr_activeBundleKeys s \<and>
      (\<forall>st. rs = Inr st \<longrightarrow> cs_ActivePolicyBundleKeys st = mr_activeBundleKeys s \<and>
         cs_PolicySnapshotHash st = status_hash C (map_of (mr_bundles s)) (mr_activeBundleKeys s))"
    if "cr_ConfigStatus (memory_repository C rand L) s = (rs, s')" for rs
    using that ok by (auto simp: memory_repository_def memory_ConfigStatus_def status_hash_def activeBundlesLocked_def active_bundles_def)
qed

end
