(* ===== verification/Control_Claims.thy ===== *)
theory Control_Claims
  imports Control_Props Policy_Claims
begin

text \<open>The properties of the control plane over its memory repository.\<close>

section \<open>Calls\<close>

text \<open>The calls of the service that may change the store, and the store after a call.\<close>

datatype control_call =
    CreateBundle PolicyBundle
  | ActivateBundles PolicyActivationRequest
  | PutMapping ModelMapping
  | PutProvider VerdictProvider
  | CreateClient CreateGatewayClientRequest
  | PatchClient GatewayClient
  | RevokeClient string
  | PutLimit RouteLimit
  | PutClientLimit ClientRouteLimit
  | DeleteClientLimit string string

definition control_step ::
  "policy_compiler \<Rightarrow> (memory_error, MemoryRepository) ControlRepository \<Rightarrow> control_call \<Rightarrow> MemoryRepository \<Rightarrow> MemoryRepository" where
  "control_step C R c r =
     (case c of
        CreateBundle b \<Rightarrow> snd (Service_CreatePolicyBundle C R b r)
      | ActivateBundles q \<Rightarrow> snd (Service_ActivatePolicyBundles C R None q r)
      | PutMapping m \<Rightarrow> snd (Service_PutModelMapping R m r)
      | PutProvider p \<Rightarrow> snd (Service_PutVerdictProvider R p r)
      | CreateClient q \<Rightarrow> snd (Service_CreateGatewayClient R q r)
      | PatchClient g \<Rightarrow> snd (Service_PatchGatewayClient R g r)
      | RevokeClient i \<Rightarrow> snd (Service_RevokeGatewayClient R i r)
      | PutLimit l \<Rightarrow> snd (Service_PutRouteLimit R l r)
      | PutClientLimit l \<Rightarrow> snd (Service_PutClientRouteLimit R l r)
      | DeleteClientLimit i k \<Rightarrow> snd (Service_DeleteClientRouteLimit R i k r))"

definition run_control ::
  "policy_compiler \<Rightarrow> (memory_error, MemoryRepository) ControlRepository \<Rightarrow> control_call list \<Rightarrow> MemoryRepository \<Rightarrow> MemoryRepository" where
  "run_control C R cs r = foldl (\<lambda>r c. control_step C R c r) r cs"

lemma run_control_invariant:
  assumes "\<And>c r. I r \<Longrightarrow> I (control_step C R c r)" "I r"
  shows "I (run_control C R cs r)"
  using assms(2) unfolding run_control_def by (induction cs arbitrary: r) (auto intro: assms(1))

section \<open>The well-formed store\<close>

definition table :: "('a \<Rightarrow> string) \<Rightarrow> ('a \<Rightarrow> bool) \<Rightarrow> (string \<times> 'a) list \<Rightarrow> bool" where
  "table key Q al \<longleftrightarrow> keyed key al \<and> (\<forall>k x. map_of al k = Some x \<longrightarrow> Q x)"

lemma table_Nil [simp]: "table key Q []"
  by (simp add: table_def)

lemma table_update: "table key Q al \<Longrightarrow> Q x \<Longrightarrow> key x = k \<Longrightarrow> table key Q (AList.update k x al)"
  by (simp add: table_def keyed_update update_conv')

lemma table_delete: "table key Q al \<Longrightarrow> table key Q (AList.delete k al)"
  by (simp add: table_def keyed_delete delete_conv')

lemma table_lookup: "table key Q al \<Longrightarrow> map_of al k = Some x \<Longrightarrow> Q x"
  unfolding table_def by blast

definition bundle_typed :: "policy_compiler \<Rightarrow> PolicyBundle \<Rightarrow> bool" where
  "bundle_typed C b \<longleftrightarrow> PolicyBundle_Validate b = None \<and> (\<exists>snapshot. compile_with C [ToPolicyBundle b] = Inr snapshot)"

definition store_typed :: "policy_compiler \<Rightarrow> MemoryRepository \<Rightarrow> bool" where
  "store_typed C r \<longleftrightarrow>
     table pb_Key (bundle_typed C) (mr_bundles r) \<and>
     (\<forall>k\<in>set (mr_activeBundleKeys r). map_of (mr_bundles r) k \<noteq> None) \<and>
     table mm_ID (\<lambda>_. True) (mr_modelMappings r) \<and>
     table vp_ID (\<lambda>p. vp_Mode p = ''inline'') (mr_verdictProviders r) \<and>
     table gc_ID (\<lambda>g. validGatewayClientStatus (gc_Status g)) (mr_gatewayClients r) \<and>
     table rl_RouteKey (\<lambda>l. RouteLimit_Validate l = None) (mr_routeLimits r) \<and>
     (\<forall>i ls. map_of (mr_clientRouteLimits r) i = Some ls \<longrightarrow> map_of (mr_gatewayClients r) i \<noteq> None \<and>
        table crl_RouteKey (\<lambda>l. crl_ClientID l = i \<and> ClientRouteLimit_Validate l = None) ls)"

named_theorems control_ops

lemmas service_defs [control_ops] =
  Service_CreatePolicyBundle_def Service_PutModelMapping_def Service_PutVerdictProvider_def
  Service_CreateGatewayClient_def Service_PatchGatewayClient_def Service_RevokeGatewayClient_def Service_PutRouteLimit_def
  Service_PutClientRouteLimit_def Service_DeleteClientRouteLimit_def pass_def

lemmas memory_defs [control_ops] =
  memory_CreatePolicyBundle_def memory_PutModelMapping_def memory_PutVerdictProvider_def
  memory_CreateGatewayClient_def memory_PatchGatewayClient_def memory_RevokeGatewayClient_def memory_PutRouteLimit_def
  memory_PutClientRouteLimit_def memory_DeleteClientRouteLimit_def

lemma repository_ops [control_ops]:
  "cr_CreatePolicyBundle (memory_repository C rand L) = memory_CreatePolicyBundle"
  "cr_PutModelMapping (memory_repository C rand L) = memory_PutModelMapping"
  "cr_PutVerdictProvider (memory_repository C rand L) = memory_PutVerdictProvider"
  "cr_CreateGatewayClient (memory_repository C rand L) = memory_CreateGatewayClient (pc_platform C) rand"
  "cr_PatchGatewayClient (memory_repository C rand L) = memory_PatchGatewayClient"
  "cr_RevokeGatewayClient (memory_repository C rand L) = memory_RevokeGatewayClient"
  "cr_PutRouteLimit (memory_repository C rand L) = memory_PutRouteLimit"
  "cr_PutClientRouteLimit (memory_repository C rand L) = memory_PutClientRouteLimit"
  "cr_DeleteClientRouteLimit (memory_repository C rand L) = memory_DeleteClientRouteLimit"
  by (simp_all add: memory_repository_def)

text \<open>An activation changes the active keys at most, and then to keys of bundles.\<close>

lemma activate_store:
  assumes "Service_ActivatePolicyBundles C (memory_repository C rand L) notifier q r = (res, r')"
  shows "r' = r \<or> r' = r\<lparr>mr_activeBundleKeys := ar_Keys q\<rparr> \<and> (\<forall>k\<in>set (ar_Keys q). map_of (mr_bundles r) k \<noteq> None)"
proof -
  let ?R = "memory_repository C rand L"
  obtain rh r1 where h: "activationSnapshotHash C ?R (ar_Keys q) r = (rh, r1)" by fastforce
  then have r1: "r1 = r" by (auto simp: activationSnapshotHash_def memory_repository_def split: sum.splits)
  show ?thesis
  proof (cases rh)
    case (Inl e)
    with assms h r1 show ?thesis by (simp add: Service_ActivatePolicyBundles_def)
  next
    case (Inr k)
    obtain ra r2 where a: "cr_ActivatePolicyBundles ?R (q\<lparr>ar_SnapshotHash := k\<rparr>) r = (ra, r2)" by fastforce
    then have "r' = r2" using assms h r1 Inr by (auto simp: Service_ActivatePolicyBundles_def split: sum.splits)
    with a show ?thesis by (auto simp: memory_repository_def memory_ActivatePolicyBundles_def list_all_iff split: if_splits)
  qed
qed

lemma patched_facts:
  "gc_ID (patched g c) = gc_ID c" "gc_Status g = StatusRevoked \<Longrightarrow> gc_Status (patched g c) = StatusRevoked"
  "validGatewayClientStatus (gc_Status g) \<Longrightarrow> validGatewayClientStatus (gc_Status c) \<Longrightarrow> validGatewayClientStatus (gc_Status (patched g c))"
  by (auto simp: patched_def Let_def)

lemma client_update_typed:
  assumes "store_typed C r" "validGatewayClientStatus (gc_Status g)" "gc_ID g = i"
  shows "store_typed C (r\<lparr>mr_gatewayClients := AList.update i g (mr_gatewayClients r)\<rparr>)"
  using assms by (auto simp: store_typed_def table_update update_conv')

lemma client_number_typed [simp]: "store_typed C (r\<lparr>mr_nextClientNumber := n\<rparr>) = store_typed C r"
  by (simp add: store_typed_def)

lemma step_typed:
  assumes t: "store_typed C r"
  shows "store_typed C (control_step C (memory_repository C rand L) c r)"
proof -
  let ?R = "memory_repository C rand L"
  note T = t [unfolded store_typed_def]
  show ?thesis
  proof (cases c)
    case (CreateBundle b)
    have "store_typed C (r\<lparr>mr_bundles := AList.update (pb_Key b) b (mr_bundles r)\<rparr>)" if "bundle_typed C b"
      using T that by (simp add: store_typed_def table_update update_conv')
    moreover have "bundle_typed C b" if "compilePolicyBundle C b = Inr x" for x
      using that by (auto simp: compilePolicyBundle_def bundle_typed_def split: option.splits sum.splits)
    ultimately show ?thesis using t CreateBundle by (simp add: control_step_def control_ops split: sum.split)
  next
    case (ActivateBundles q)
    obtain res r' where a: "Service_ActivatePolicyBundles C ?R None q r = (res, r')" by fastforce
    from activate_store [OF this] T have "store_typed C r'" by (elim disjE) (simp_all add: store_typed_def)
    with a ActivateBundles show ?thesis by (simp add: control_step_def)
  next
    case (PutMapping m)
    with T show ?thesis by (simp add: control_step_def control_ops store_typed_def table_update)
  next
    case (PutProvider p)
    have "vp_Mode p' = ''inline''" if "normalizeVerdictProvider p = Inr p'" for p'
      using that by (auto simp: normalizeVerdictProvider_def split: if_splits)
    with T PutProvider show ?thesis by (simp add: control_step_def control_ops store_typed_def table_update split: sum.split)
  next
    case (CreateClient q)
    have valid: "validGatewayClientStatus (cg_Status q')" if "NormalizeAndValidate q = Inr q'" for q'
      using that by (auto simp: NormalizeAndValidate_def Let_def split: if_splits)
    have "store_typed C (snd (memory_CreateGatewayClient P rand q' r))" if "validGatewayClientStatus (cg_Status q')" for P q'
      using that t client_update_typed [of C "r\<lparr>mr_nextClientNumber := n\<rparr>" for n]
      by (auto simp: memory_CreateGatewayClient_def Let_def split: sum.split)
    with t valid CreateClient show ?thesis by (auto simp: control_step_def Service_CreateGatewayClient_def pass_def repository_ops split: sum.split)
  next
    case (PatchClient g)
    have "store_typed C (snd (memory_PatchGatewayClient g r))" if "GatewayClient_Validate g = None"
    proof (cases "map_of (mr_gatewayClients r) (gc_ID g)")
      case None
      with t show ?thesis by (simp add: memory_PatchGatewayClient_def)
    next
      case (Some old)
      then have "validGatewayClientStatus (gc_Status old)" using T table_lookup by fastforce
      moreover have "validGatewayClientStatus (gc_Status g)" using that by (simp add: GatewayClient_Validate_def split: if_splits)
      ultimately show ?thesis using client_update_typed [OF t] Some patched_facts by (simp add: memory_PatchGatewayClient_def)
    qed
    with t PatchClient show ?thesis by (simp add: control_step_def Service_PatchGatewayClient_def pass_def repository_ops split: option.split)
  next
    case (RevokeClient i)
    have "store_typed C (snd (memory_RevokeGatewayClient i r))"
      using client_update_typed [OF t, of "g\<lparr>gc_ID := i, gc_Status := StatusRevoked\<rparr>" for g] t
      by (auto simp: memory_RevokeGatewayClient_def Let_def validGatewayClientStatus_def split: option.split)
    with t RevokeClient show ?thesis by (simp add: control_step_def Service_RevokeGatewayClient_def pass_def repository_ops)
  next
    case (PutLimit l)
    with T show ?thesis by (simp add: control_step_def control_ops store_typed_def table_update split: option.split)
  next
    case (PutClientLimit l)
    have lim: "table crl_RouteKey (\<lambda>l. crl_ClientID l = i \<and> ClientRouteLimit_Validate l = None) (client_limits r i)" for i
      using T by (simp add: client_limits_def split: option.split)
    with T PutClientLimit show ?thesis
      by (simp add: control_step_def control_ops store_typed_def table_update update_conv' split: option.split)
  next
    case (DeleteClientLimit i k)
    with T show ?thesis
      by (simp add: control_step_def control_ops store_typed_def table_delete map_of_map_entry split: option.split)
  qed
qed

text \<open>The orders keep the elements and the store is typed: the contract of the repository holds.\<close>

lemma typed_contract: "store_typed C r \<Longrightarrow> orders_ok L \<Longrightarrow> orders_ok L \<and> keyed pb_Key (mr_bundles r)"
  by (simp add: store_typed_def table_def)

section \<open>Revocation\<close>

definition revoked :: "string \<Rightarrow> MemoryRepository \<Rightarrow> bool" where
  "revoked i r \<longleftrightarrow> (\<exists>g. map_of (mr_gatewayClients r) i = Some g \<and> gc_Status g = StatusRevoked)"

lemma revoked_other [simp]:
  "revoked i (r\<lparr>mr_bundles := x1\<rparr>) = revoked i r" "revoked i (r\<lparr>mr_activeBundleKeys := x2\<rparr>) = revoked i r"
  "revoked i (r\<lparr>mr_modelMappings := x3\<rparr>) = revoked i r" "revoked i (r\<lparr>mr_verdictProviders := x4\<rparr>) = revoked i r"
  "revoked i (r\<lparr>mr_routeLimits := x5\<rparr>) = revoked i r" "revoked i (r\<lparr>mr_clientRouteLimits := x6\<rparr>) = revoked i r"
  "revoked i (r\<lparr>mr_nextClientNumber := x7\<rparr>) = revoked i r"
  by (simp_all add: revoked_def)

lemma revoked_update:
  "revoked i r \<Longrightarrow> (j = i \<Longrightarrow> gc_Status g = StatusRevoked) \<Longrightarrow> revoked i (r\<lparr>mr_gatewayClients := AList.update j g (mr_gatewayClients r)\<rparr>)"
  by (auto simp: revoked_def update_conv')

lemma step_revoked:
  assumes "revoked i r"
  shows "revoked i (control_step C (memory_repository C rand L) c r)"
proof (cases c)
  case (ActivateBundles q)
  obtain res r' where a: "Service_ActivatePolicyBundles C (memory_repository C rand L) None q r = (res, r')" by fastforce
  from activate_store [OF this] assms have "revoked i r'" by (elim disjE) simp_all
  with a ActivateBundles show ?thesis by (simp add: control_step_def)
next
  case (CreateClient q)
  have "revoked i (snd (memory_CreateGatewayClient P rand q' r))" for P q'
    using assms by (auto simp: memory_CreateGatewayClient_def Let_def revoked_def update_conv' split: sum.split)
  with assms CreateClient show ?thesis
    by (simp add: control_step_def Service_CreateGatewayClient_def pass_def repository_ops split: sum.split)
next
  case (PatchClient g)
  have "revoked i (snd (memory_PatchGatewayClient g r))"
    using assms by (auto simp: memory_PatchGatewayClient_def revoked_def update_conv' patched_facts split: option.split)
  with assms PatchClient show ?thesis
    by (simp add: control_step_def Service_PatchGatewayClient_def pass_def repository_ops split: option.split)
next
  case (RevokeClient j)
  have "revoked i (snd (memory_RevokeGatewayClient j r))"
    using assms by (auto simp: memory_RevokeGatewayClient_def Let_def revoked_def update_conv' split: option.split)
  with assms RevokeClient show ?thesis by (simp add: control_step_def Service_RevokeGatewayClient_def pass_def repository_ops)
qed (use assms in \<open>simp_all add: control_step_def control_ops split: sum.split option.split\<close>)

section \<open>Activating one bundle\<close>

lemma compilePolicyBundle_Inr:
  "compilePolicyBundle C b = Inr snapshot \<longleftrightarrow> PolicyBundle_Validate b = None \<and> compile_with C [ToPolicyBundle b] = Inr snapshot"
  by (auto simp: compilePolicyBundle_def split: option.splits sum.splits)

lemma activate_one:
  assumes "orders_ok L" "store_typed C r" "map_of (mr_bundles r) (pb_Key b) = Some b" "compilePolicyBundle C b = Inr snapshot"
    and "ar_Keys q = [pb_Key b]"
  shows "\<exists>a. Service_ActivatePolicyBundles C (memory_repository C rand L) notifier q r =
      (Inr a, r\<lparr>mr_activeBundleKeys := [pb_Key b]\<rparr>)"
proof -
  let ?R = "memory_repository C rand L"
  obtain rl r1 where l: "cr_ListPolicyBundles ?R r = (rl, r1)" by fastforce
  obtain bs where bs: "rl = Inr bs" "r1 = r" using l by (auto simp: memory_repository_def)
  note contract = memory.list [OF typed_contract [OF assms(2,1)] l]
  have "bundles_by_key bs (pb_Key b) = Some b" using contract bs assms(3) bundles_by_key_Some [of bs] by blast
  then have "activationSnapshotHash C ?R (ar_Keys q) r = (Inr (Hash (Some snapshot)), r)"
    using l bs assms(4,5) by (simp add: activationSnapshotHash_def compilePolicyBundle_Inr)
  moreover have "cr_ActivatePolicyBundles ?R (q\<lparr>ar_SnapshotHash := h\<rparr>) r =
      (Inr \<lparr>as_ActiveKeys = [pb_Key b], as_Hash = h, as_NotificationError = [], as_RevisionNumber = 0\<rparr>,
       r\<lparr>mr_activeBundleKeys := [pb_Key b]\<rparr>)" for h
    using assms(3,5) by (simp add: memory_repository_def memory_ActivatePolicyBundles_def)
  ultimately show ?thesis by (simp add: Service_ActivatePolicyBundles_def)
qed

section \<open>Samples\<close>

definition control_bundle :: PolicyBundle where
  "control_bundle = \<lparr>pb_Key = ''b'', pb_Version = [], pb_Source = SourceUser, pb_DefaultAction = ActionBlock, pb_Detectors = [], pb_Rules = []\<rparr>"

definition control_compiler :: policy_compiler where
  "control_compiler = \<lparr>pc_platform = sample_platform, pc_marshal = (\<lambda>_. Some [])\<rparr>"

text \<open>Bundles are listed in reverse.\<close>

definition control_orders :: listing_orders where
  "control_orders = \<lparr>lo_bundles = rev, lo_mappings = rev, lo_providers = rev, lo_clients = rev, lo_limits = rev, lo_client_limits = rev\<rparr>"

abbreviation control_memory :: "(memory_error, MemoryRepository) ControlRepository" where
  "control_memory \<equiv> memory_repository control_compiler (\<lambda>_. (\<lambda>_. None, \<lambda>_. None)) control_orders"

definition control_request :: PolicyActivationRequest where
  "control_request = \<lparr>ar_Keys = [''b''], ar_Reason = [], ar_SnapshotHash = []\<rparr>"

definition control_dry_run :: PolicyDryRunRequest where
  "control_dry_run = \<lparr>dr_RouteKey = [], dr_Provider = [], dr_Model = [], dr_Direction = DirectionInput, dr_Text = ''x'', dr_Bundle = control_bundle\<rparr>"

lemma control_orders_ok: "orders_ok control_orders"
  by (simp add: orders_ok_def control_orders_def)

lemma control_empty: "store_typed C NewMemoryRepository"
  by (simp add: store_typed_def NewMemoryRepository_def)

lemma control_compiles: "\<exists>snapshot. compilePolicyBundle control_compiler control_bundle = Inr snapshot"
proof -
  have "PolicyBundle_Validate control_bundle = None"
    by (simp add: PolicyBundle_Validate_None control_bundle_def validSource_def validControlAction_def)
  moreover have "\<exists>snapshot. compile_with control_compiler [ToPolicyBundle control_bundle] = Inr snapshot"
    by (simp add: compile_with_def CompileSnapshot_def control_compiler_def control_bundle_def ToPolicyBundle_def compile_bundle_def
        compileDetectorMap_def activeRules_def init_compile_def hashBundles_def valid_actions_agree [symmetric] validControlAction_def)
  ultimately show ?thesis by (auto simp: compilePolicyBundle_Inr)
qed

lemma control_created: "fst (Service_CreatePolicyBundle control_compiler control_memory control_bundle NewMemoryRepository) = Inr ()"
  using control_compiles by (auto simp: Service_CreatePolicyBundle_def repository_ops memory_CreatePolicyBundle_def pass_def)

definition control_store :: MemoryRepository where
  "control_store = snd (Service_CreatePolicyBundle control_compiler control_memory control_bundle NewMemoryRepository)"

lemma control_store_ok: "store_typed control_compiler control_store" "map_of (mr_bundles control_store) ''b'' = Some control_bundle"
proof -
  show "store_typed control_compiler control_store"
    using step_typed [OF control_empty, of control_compiler "\<lambda>_. (\<lambda>_. None, \<lambda>_. None)" control_orders "CreateBundle control_bundle"]
    by (simp add: control_store_def control_step_def)
  show "map_of (mr_bundles control_store) ''b'' = Some control_bundle"
    using control_compiles
    by (auto simp: control_store_def Service_CreatePolicyBundle_def repository_ops memory_CreatePolicyBundle_def pass_def update_conv')
      (simp add: control_bundle_def)
qed

lemma control_activates:
  "\<exists>a r'. Service_ActivatePolicyBundles control_compiler control_memory None control_request control_store = (Inr a, r')"
proof -
  obtain snapshot where "compilePolicyBundle control_compiler control_bundle = Inr snapshot" using control_compiles by blast
  from activate_one [OF control_orders_ok control_store_ok(1) _ this, of control_request] control_store_ok(2) show ?thesis
    by (simp add: control_bundle_def control_request_def) metis
qed

section \<open>Properties\<close>

text \<open>C22. Whatever calls the service receives, the store of the memory repository stays well typed: every
  entry is filed under its own key; every bundle passes validation and compiles on its own; only keys
  of stored bundles are active; verdict providers run inline; clients have one of the three statuses;
  limits are positive; and client limits belong to known clients.\<close>

theorem control_store_is_typed:
  "store_typed C (run_control C (memory_repository C rand L) calls NewMemoryRepository)"
  by (rule run_control_invariant [where I = "store_typed C", OF step_typed]) (simp_all add: store_typed_def NewMemoryRepository_def)

text \<open>Revocation is permanent: once a client is revoked, no sequence of calls gives it another status.\<close>

theorem revocation_is_permanent:
  assumes "map_of (mr_gatewayClients r) i = Some g" "gc_Status g = StatusRevoked"
  shows "\<exists>g'. map_of (mr_gatewayClients (run_control C (memory_repository C rand L) calls r)) i = Some g' \<and> gc_Status g' = StatusRevoked"
  using run_control_invariant [where I = "revoked i", OF step_revoked] assms by (simp add: revoked_def)

theorem revocation_is_permanent_witness:
  "\<exists>g. map_of (mr_gatewayClients (run_control control_compiler control_memory
        [PatchClient \<lparr>gc_ID = ''c'', gc_Name = ''n'', gc_Status = StatusEnabled, gc_KeyPrefix = [], gc_Notes = []\<rparr>]
        (NewMemoryRepository\<lparr>mr_gatewayClients := [(''c'', \<lparr>gc_ID = ''c'', gc_Name = [], gc_Status = StatusRevoked, gc_KeyPrefix = ''k'', gc_Notes = []\<rparr>)]\<rparr>)))
      ''c'' = Some g \<and> gc_Status g = StatusRevoked"
  by (rule revocation_is_permanent) (simp, simp)

text \<open>An activation that succeeds makes exactly the requested keys active, every one of them the key of
  a stored bundle that passes validation, and answers the hash that the status reports from then on,
  whatever order the store lists its bundles in; one that fails leaves the active keys and the bundles
  as they were.\<close>

theorem activation_is_reported:
  assumes "store_typed C r" "orders_ok L"
    and "Service_ActivatePolicyBundles C (memory_repository C rand L) notifier q r = (res, r')"
  shows "case res of
      Inl _ \<Rightarrow> mr_activeBundleKeys r' = mr_activeBundleKeys r \<and> map_of (mr_bundles r') = map_of (mr_bundles r)
    | Inr a \<Rightarrow> as_ActiveKeys a = ar_Keys q \<and>
        (\<forall>k\<in>set (ar_Keys q). \<exists>b. map_of (mr_bundles r') k = Some b \<and> PolicyBundle_Validate b = None) \<and>
        Service_ConfigStatus (memory_repository C rand L) r' =
          (Inr \<lparr>cs_ActivePolicyBundleKeys = ar_Keys q, cs_PolicySnapshotHash = as_Hash a\<rparr>, r')"
  using memory.activation [OF typed_contract [OF assms(1,2)] assms(3)]
  by (auto simp: Service_ConfigStatus_def pass_def memory_repository_def memory_ConfigStatus_def status_hash_def
      activeBundlesLocked_def active_bundles_def split: sum.split)

theorem activation_is_reported_witness:
  "\<exists>a r'. Service_ActivatePolicyBundles control_compiler control_memory None control_request control_store = (Inr a, r') \<and>
     Service_ConfigStatus control_memory r' = (Inr \<lparr>cs_ActivePolicyBundleKeys = [''b''], cs_PolicySnapshotHash = as_Hash a\<rparr>, r')"
proof -
  obtain a r' where a: "Service_ActivatePolicyBundles control_compiler control_memory None control_request control_store = (Inr a, r')"
    using control_activates by blast
  from activation_is_reported [OF control_store_ok(1) control_orders_ok a] a show ?thesis by (simp add: control_request_def)
qed



end
