(* ===== verification/ClickHouse.thy ===== *)
theory ClickHouse
  imports Delivery_Claims
begin

text \<open>
  The ClickHouse sink, \<open>internal/contexts/traffic/adapters/clickhouse\<close>: the row of an event and the
  writer of \<open>writer.go\<close>, the schema check of \<open>health.go\<close>, and the table that \<open>schema.sql\<close> creates.

  The driver is a parameter: a connection that prepares batches, and a probe that answers queries.  The
  text of a query is its constant below or, for the counting queries, a constructor.
\<close>

section \<open>JSON of a string\<close>

text \<open>How \<open>encoding/json\<close> writes a string: quotes, backslashes, controls and the characters special to HTML
  escaped, a byte that starts no valid encoding as the replacement character.\<close>

definition json_plain :: "rune \<Rightarrow> bool" where
  "json_plain r \<longleftrightarrow> 0x20 \<le> r \<and> r \<notin> {0x22, 0x26, 0x3C, 0x3E, 0x5C, 0x2028, 0x2029}"

definition unicode_escape :: "rune \<Rightarrow> string" where
  "unicode_escape r = [CHR 0x5C, CHR ''u''] @ map hex_digit [r div 4096 mod 16, r div 256 mod 16, r div 16 mod 16, r mod 16]"

definition json_rune :: "rune \<Rightarrow> string" where
  "json_rune r =
     (if r = 0x22 then [CHR 0x5C, CHR 0x22]
      else if r = 0x5C then [CHR 0x5C, CHR 0x5C]
      else if r = 0x08 then [CHR 0x5C, CHR ''b'']
      else if r = 0x0C then [CHR 0x5C, CHR ''f'']
      else if r = 0x0A then [CHR 0x5C, CHR ''n'']
      else if r = 0x0D then [CHR 0x5C, CHR ''r'']
      else if r = 0x09 then [CHR 0x5C, CHR ''t'']
      else if json_plain r then string_of_runes [r]
      else unicode_escape r)"

function json_runes :: "nat list \<Rightarrow> string" where
  "json_runes bs =
     (if bs = [] then []
      else case decode_valid bs of
             None \<Rightarrow> unicode_escape rune_error @ json_runes (tl bs)
           | Some (r, n) \<Rightarrow> json_rune r @ json_runes (List.drop n bs))"
  by pat_completeness auto
termination
  by (relation "measure length") (auto dest: decode_valid_width)

declare json_runes.simps [simp del]

definition json_quote :: "string \<Rightarrow> string" where
  "json_quote s = [CHR 0x22] @ json_runes (map byte s) @ [CHR 0x22]"

section \<open>The row of an event\<close>

record TrafficEventRow =
  row_EventID :: string
  row_EventSchemaVersion :: string
  row_EventTime :: gotime
  row_RequestID :: string
  row_CorrelationID :: string
  row_ConfigRevisionNumber :: int
  row_SnapshotHash :: string
  row_RouteID :: string
  row_ProviderID :: string
  row_VerdictProviderID :: string
  row_PolicyBundleIDs :: "string list"
  row_HTTPMethod :: string
  row_APIPath :: string
  row_EndpointKind :: string
  row_RequestedModel :: string
  row_MappedModel :: string
  row_UpstreamModel :: string
  row_GatewayStatus :: uint16
  row_UpstreamStatus :: uint16
  row_ErrorType :: string
  row_BlockReason :: string
  row_FallbackTriggered :: bool
  row_RiskLevel :: string
  row_VerdictCategories :: "string list"
  row_Confidence :: rat
  row_DetectorCategories :: "string list"
  row_MatchedSpanCount :: uint32
  row_StreamingChunkCount :: uint32
  row_RedactionCount :: uint32
  row_TerminationReason :: string
  row_GatewayLatencyMS :: uint32
  row_DetectorLatencyMS :: uint32
  row_VerdictLatencyMS :: uint32
  row_UpstreamLatencyMS :: uint32
  row_QueueDelayMS :: uint32
  row_TotalLatencyMS :: uint32
  row_SinkStatus :: string
  row_RetryCount :: uint16
  row_SpoolStatus :: string
  row_Dropped :: bool
  row_DropReason :: string
  row_RawCapturePolicyID :: string
  row_RetentionPolicyID :: string
  row_CaptureReference :: string
  row_Route :: string
  row_Provider :: string
  row_Direction :: string
  row_Verdict :: string
  row_Action :: string
  row_DetectorHits :: "string list"
  row_PolicyRuleIDs :: "string list"
  row_LatencyMS :: uint32
  row_StreamingTerminated :: bool
  row_RawCaptureEnabled :: bool
  row_RequestHash :: string
  row_ResponseHash :: string
  row_RequestPayload :: string
  row_ResponsePayload :: string
  row_MetadataJSON :: string

definition marshalEventMetadata :: "Event \<Rightarrow> string" where
  "marshalEventMetadata event =
     (if ev_ClientID event = [] then ''{}''
      else ''{'' @ json_quote ''client_id'' @ '':'' @ json_quote (ev_ClientID event) @ ''}'')"

definition durationMillis :: "duration \<Rightarrow> uint32" where
  "durationMillis duration =
     (if duration \<le> 0 then 0
      else (let millis = duration div 1000000 in if millis > 2 ^ 32 - 1 then word_of_int (2 ^ 32 - 1) else word_of_int millis))"

definition saturatingInt :: "int \<Rightarrow> uint32" where
  "saturatingInt v = (if v \<le> 0 then 0 else if v > 2 ^ 32 - 1 then word_of_int (2 ^ 32 - 1) else word_of_int v)"

definition MapEvent :: "Event \<Rightarrow> TrafficEventRow" where
  "MapEvent event =
     \<lparr>
       row_EventID = ev_EventID event, row_EventSchemaVersion = ev_SchemaVersion event, row_EventTime = ev_EventTime event,
       row_RequestID = ev_RequestID event, row_CorrelationID = ev_CorrelationID event, row_ConfigRevisionNumber = ev_ConfigRevisionNumber event,
       row_SnapshotHash = ev_SnapshotHash event, row_RouteID = ev_RouteID event, row_ProviderID = ev_ProviderID event,
       row_VerdictProviderID = ev_VerdictProviderID event, row_PolicyBundleIDs = ev_PolicyBundleIDs event, row_HTTPMethod = ev_HTTPMethod event,
       row_APIPath = ev_APIPath event, row_EndpointKind = ev_EndpointKind event, row_RequestedModel = ev_RequestedModel event,
       row_MappedModel = ev_MappedModel event, row_UpstreamModel = ev_UpstreamModel event, row_GatewayStatus = ev_GatewayStatus event,
       row_UpstreamStatus = ev_UpstreamStatus event, row_ErrorType = ev_ErrorType event, row_BlockReason = ev_BlockReason event,
       row_FallbackTriggered = ev_FallbackTriggered event, row_RiskLevel = ev_RiskLevel event, row_VerdictCategories = ev_Categories event,
       row_Confidence = ev_Confidence event, row_DetectorCategories = ev_DetectorCategories event, row_MatchedSpanCount = ev_MatchedSpanCount event,
       row_StreamingChunkCount = saturatingInt (ev_StreamingChunkCount event), row_RedactionCount = saturatingInt (ev_RedactionCount event),
       row_TerminationReason = ev_TerminationReason event, row_GatewayLatencyMS = durationMillis (ev_GatewayLatency event),
       row_DetectorLatencyMS = durationMillis (ev_DetectorLatency event), row_VerdictLatencyMS = durationMillis (ev_VerdictLatency event),
       row_UpstreamLatencyMS = durationMillis (ev_UpstreamLatency event), row_QueueDelayMS = durationMillis (ev_QueueDelay event),
       row_TotalLatencyMS = durationMillis (ev_TotalLatency event), row_SinkStatus = ev_SinkStatus event, row_RetryCount = ev_RetryCount event,
       row_SpoolStatus = ev_SpoolStatus event, row_Dropped = ev_Dropped event, row_DropReason = ev_DropReason event,
       row_RawCapturePolicyID = ev_RawCapturePolicyID event, row_RetentionPolicyID = ev_RetentionPolicyID event,
       row_CaptureReference = ev_CaptureReference event, row_Route = ev_RouteID event, row_Provider = ev_ProviderID event,
       row_Direction = ev_Direction event, row_Verdict = ev_Verdict event, row_Action = ev_Action event,
       row_DetectorHits = ev_DetectorCategories event, row_PolicyRuleIDs = ev_PolicyRuleIDs event,
       row_LatencyMS = durationMillis (ev_TotalLatency event),
       row_StreamingTerminated = (ev_TerminationReason event \<noteq> [] \<and> 0 < ev_StreamingChunkCount event),
       row_RawCaptureEnabled = (ev_RawCapturePolicyID event \<noteq> [] \<or> ev_CaptureReference event \<noteq> []),
       row_RequestHash = ev_RequestHash event, row_ResponseHash = ev_ResponseHash event, row_RequestPayload = ev_RequestPayload event,
       row_ResponsePayload = ev_ResponsePayload event, row_MetadataJSON = marshalEventMetadata event
     \<rparr>"

section \<open>The writer\<close>

definition trafficEventsTable :: string where
  "trafficEventsTable = ''kiwiguard_traffic_events''"

definition insertColumns :: "string list" where
  "insertColumns = [
     ''event_id'', ''event_schema_version'', ''event_time'', ''request_id'', ''correlation_id'', ''config_revision_number'', ''snapshot_hash'',
     ''route_id'', ''provider_id'', ''verdict_provider_id'', ''policy_bundle_ids'', ''http_method'', ''api_path'', ''endpoint_kind'',
     ''requested_model'', ''mapped_model'', ''upstream_model'', ''gateway_status'', ''upstream_status'', ''error_type'', ''block_reason'',
     ''fallback_triggered'', ''risk_level'', ''verdict_categories'', ''confidence'', ''detector_categories'', ''matched_span_count'',
     ''streaming_chunk_count'', ''redaction_count'', ''termination_reason'', ''gateway_latency_ms'', ''detector_latency_ms'', ''verdict_latency_ms'',
     ''upstream_latency_ms'', ''queue_delay_ms'', ''total_latency_ms'', ''sink_status'', ''retry_count'', ''spool_status'', ''dropped'',
     ''drop_reason'', ''raw_capture_policy_id'', ''retention_policy_id'', ''capture_reference'', ''route'', ''provider'', ''direction'', ''verdict'',
     ''action'', ''detector_hits'', ''policy_rule_ids'', ''latency_ms'', ''streaming_terminated'', ''raw_capture_enabled'', ''request_hash'',
     ''response_hash'', ''request_payload'', ''response_payload'', ''metadata_json''
     ]"

definition insertTrafficEventsQuery :: string where
  "insertTrafficEventsQuery =
     [CHR 0x0A] @ ''INSERT INTO '' @ trafficEventsTable @ '' ('' @
     join_with '','' (map (\<lambda>c. [CHR 0x0A, CHR 0x09] @ c) insertColumns) @ [CHR 0x0A, CHR '')'']"

text \<open>What the driver is given for a column.\<close>

datatype column_value = VString string | VTime gotime | VInt64 int | VUInt16 uint16 | VUInt32 uint32 | VBool bool
  | VFloat64 rat | VStrings "string list"

definition append_args :: "TrafficEventRow \<Rightarrow> column_value list" where
  "append_args row = [
     VString (row_EventID row), VString (row_EventSchemaVersion row), VTime (row_EventTime row), VString (row_RequestID row),
     VString (row_CorrelationID row), VInt64 (row_ConfigRevisionNumber row), VString (row_SnapshotHash row), VString (row_RouteID row),
     VString (row_ProviderID row), VString (row_VerdictProviderID row), VStrings (row_PolicyBundleIDs row), VString (row_HTTPMethod row),
     VString (row_APIPath row), VString (row_EndpointKind row), VString (row_RequestedModel row), VString (row_MappedModel row),
     VString (row_UpstreamModel row), VUInt16 (row_GatewayStatus row), VUInt16 (row_UpstreamStatus row), VString (row_ErrorType row),
     VString (row_BlockReason row), VBool (row_FallbackTriggered row), VString (row_RiskLevel row), VStrings (row_VerdictCategories row),
     VFloat64 (row_Confidence row), VStrings (row_DetectorCategories row), VUInt32 (row_MatchedSpanCount row), VUInt32 (row_StreamingChunkCount row),
     VUInt32 (row_RedactionCount row), VString (row_TerminationReason row), VUInt32 (row_GatewayLatencyMS row), VUInt32 (row_DetectorLatencyMS row),
     VUInt32 (row_VerdictLatencyMS row), VUInt32 (row_UpstreamLatencyMS row), VUInt32 (row_QueueDelayMS row), VUInt32 (row_TotalLatencyMS row),
     VString (row_SinkStatus row), VUInt16 (row_RetryCount row), VString (row_SpoolStatus row), VBool (row_Dropped row), VString (row_DropReason row),
     VString (row_RawCapturePolicyID row), VString (row_RetentionPolicyID row), VString (row_CaptureReference row), VString (row_Route row),
     VString (row_Provider row), VString (row_Direction row), VString (row_Verdict row), VString (row_Action row), VStrings (row_DetectorHits row),
     VStrings (row_PolicyRuleIDs row), VUInt32 (row_LatencyMS row), VBool (row_StreamingTerminated row), VBool (row_RawCaptureEnabled row),
     VString (row_RequestHash row), VString (row_ResponseHash row), VString (row_RequestPayload row), VString (row_ResponsePayload row),
     VString (row_MetadataJSON row)
     ]"

text \<open>A connection of the driver: its batches are \<open>'b\<close>, its errors \<open>'e\<close>.\<close>

record ('b, 'e, 'w) ch_conn =
  conn_PrepareBatch :: "string \<Rightarrow> 'w \<Rightarrow> ('e + 'b) \<times> 'w"
  batch_Append :: "'b \<Rightarrow> column_value list \<Rightarrow> 'w \<Rightarrow> 'e option \<times> 'w"
  batch_Send :: "'b \<Rightarrow> 'w \<Rightarrow> 'e option \<times> 'w"
  batch_Close :: "'b \<Rightarrow> 'w \<Rightarrow> 'w"

datatype 'e append_error = ConnectionRequired | PrepareFailed 'e | AppendRowFailed 'e | SendFailed 'e

fun append_rows :: "('b, 'e, 'w) ch_conn \<Rightarrow> 'b \<Rightarrow> TrafficEventRow list \<Rightarrow> 'w \<Rightarrow> 'e append_error option \<times> 'w" where
  "append_rows conn batch [] w = (case batch_Send conn batch w of (e, w) \<Rightarrow> (map_option SendFailed e, w))"
| "append_rows conn batch (row # rows) w =
     (case batch_Append conn batch (append_args row) w of
        (Some e, w) \<Rightarrow> (Some (AppendRowFailed e), w)
      | (None, w) \<Rightarrow> append_rows conn batch rows w)"

definition clickhouseAppender_Append ::
  "('b, 'e, 'w) ch_conn option \<Rightarrow> TrafficEventRow list \<Rightarrow> 'w \<Rightarrow> 'e append_error option \<times> 'w" where
  "clickhouseAppender_Append conn rows w =
     (case conn of
        None \<Rightarrow> (Some ConnectionRequired, w)
      | Some conn \<Rightarrow>
          (case conn_PrepareBatch conn insertTrafficEventsQuery w of
             (Inl e, w) \<Rightarrow> (Some (PrepareFailed e), w)
           | (Inr batch, w) \<Rightarrow> (case append_rows conn batch rows w of (e, w) \<Rightarrow> (e, batch_Close conn batch w))))"

type_synonym ('e, 'w) Appender = "TrafficEventRow list \<Rightarrow> 'w \<Rightarrow> 'e option \<times> 'w"

datatype 'e write_error = AppenderRequired | WriteFailed 'e

definition Writer_WriteBatch :: "('e, 'w) Appender option \<Rightarrow> ('e write_error, 'w) BatchSink" where
  "Writer_WriteBatch appender batch w =
     (if batch = [] then ((None, batch), w)
      else case appender of
             None \<Rightarrow> ((Some AppenderRequired, batch), w)
           | Some append_ \<Rightarrow>
               (case append_ (map MapEvent batch) w of
                  (Some e, w) \<Rightarrow> ((Some (WriteFailed e), batch), w)
                | (None, w) \<Rightarrow> ((None, batch), w)))"

definition NewWriter :: "('b, 'e, 'w) ch_conn option \<Rightarrow> ('e append_error write_error, 'w) BatchSink" where
  "NewWriter conn = Writer_WriteBatch (Some (clickhouseAppender_Append conn))"

section \<open>The schema check\<close>

text \<open>The column types by name; the apostrophe is written by its code.\<close>

datatype column_type = TString | TLowCardinality | TDateTime | TInt64 | TStrings | TUInt16 | TUInt32 | TBool | TFloat64

definition type_text :: "column_type \<Rightarrow> string" where
  "type_text t =
     (case t of
        TString \<Rightarrow> ''String''
      | TLowCardinality \<Rightarrow> ''LowCardinality(String)''
      | TDateTime \<Rightarrow> ''DateTime64(3, '' @ [CHR 0x27] @ ''UTC'' @ [CHR 0x27] @ '')''
      | TInt64 \<Rightarrow> ''Int64''
      | TStrings \<Rightarrow> ''Array(String)''
      | TUInt16 \<Rightarrow> ''UInt16''
      | TUInt32 \<Rightarrow> ''UInt32''
      | TBool \<Rightarrow> ''Bool''
      | TFloat64 \<Rightarrow> ''Float64'')"

definition requiredTrafficEventColumns :: "(string \<times> column_type) list" where
  "requiredTrafficEventColumns = [
     (''event_id'', TString), (''event_schema_version'', TLowCardinality), (''event_time'', TDateTime), (''request_id'', TString),
     (''correlation_id'', TString), (''config_revision_number'', TInt64), (''snapshot_hash'', TString), (''route_id'', TString),
     (''provider_id'', TString), (''verdict_provider_id'', TString), (''policy_bundle_ids'', TStrings), (''http_method'', TLowCardinality),
     (''api_path'', TString), (''endpoint_kind'', TLowCardinality), (''requested_model'', TString), (''mapped_model'', TString),
     (''upstream_model'', TString), (''gateway_status'', TUInt16), (''upstream_status'', TUInt16), (''error_type'', TLowCardinality),
     (''block_reason'', TString), (''fallback_triggered'', TBool), (''risk_level'', TLowCardinality), (''verdict_categories'', TStrings),
     (''confidence'', TFloat64), (''detector_categories'', TStrings), (''matched_span_count'', TUInt32), (''streaming_chunk_count'', TUInt32),
     (''redaction_count'', TUInt32), (''termination_reason'', TLowCardinality), (''gateway_latency_ms'', TUInt32), (''detector_latency_ms'', TUInt32),
     (''verdict_latency_ms'', TUInt32), (''upstream_latency_ms'', TUInt32), (''queue_delay_ms'', TUInt32), (''total_latency_ms'', TUInt32),
     (''sink_status'', TLowCardinality), (''retry_count'', TUInt16), (''spool_status'', TLowCardinality), (''dropped'', TBool),
     (''drop_reason'', TLowCardinality), (''raw_capture_policy_id'', TString), (''retention_policy_id'', TString), (''capture_reference'', TString),
     (''route'', TString), (''provider'', TString), (''direction'', TLowCardinality), (''verdict'', TLowCardinality), (''action'', TLowCardinality),
     (''detector_hits'', TStrings), (''policy_rule_ids'', TStrings), (''latency_ms'', TUInt32), (''streaming_terminated'', TBool),
     (''raw_capture_enabled'', TBool), (''request_hash'', TString), (''response_hash'', TString), (''request_payload'', TString),
     (''response_payload'', TString), (''metadata_json'', TString)
     ]"

text \<open>The table as \<open>schema.sql\<close> creates it.\<close>

definition schema_sql :: "(string \<times> column_type) list" where
  "schema_sql = [
     (''event_time'', TDateTime), (''event_id'', TString), (''event_schema_version'', TLowCardinality), (''config_revision_number'', TInt64),
     (''snapshot_hash'', TString), (''request_id'', TString), (''correlation_id'', TString), (''route_id'', TString), (''provider_id'', TString),
     (''verdict_provider_id'', TString), (''policy_bundle_ids'', TStrings), (''http_method'', TLowCardinality), (''api_path'', TString),
     (''endpoint_kind'', TLowCardinality), (''requested_model'', TString), (''upstream_status'', TUInt16), (''gateway_status'', TUInt16),
     (''error_type'', TLowCardinality), (''block_reason'', TString), (''fallback_triggered'', TBool), (''risk_level'', TLowCardinality),
     (''verdict_categories'', TStrings), (''confidence'', TFloat64), (''detector_categories'', TStrings), (''matched_span_count'', TUInt32),
     (''streaming_chunk_count'', TUInt32), (''redaction_count'', TUInt32), (''termination_reason'', TLowCardinality),
     (''gateway_latency_ms'', TUInt32), (''detector_latency_ms'', TUInt32), (''verdict_latency_ms'', TUInt32), (''upstream_latency_ms'', TUInt32),
     (''queue_delay_ms'', TUInt32), (''total_latency_ms'', TUInt32), (''sink_status'', TLowCardinality), (''retry_count'', TUInt16),
     (''spool_status'', TLowCardinality), (''dropped'', TBool), (''drop_reason'', TLowCardinality), (''raw_capture_policy_id'', TString),
     (''retention_policy_id'', TString), (''capture_reference'', TString), (''route'', TString), (''provider'', TString),
     (''upstream_model'', TString), (''mapped_model'', TString), (''direction'', TLowCardinality), (''verdict'', TLowCardinality),
     (''action'', TLowCardinality), (''detector_hits'', TStrings), (''policy_rule_ids'', TStrings), (''latency_ms'', TUInt32),
     (''streaming_terminated'', TBool), (''raw_capture_enabled'', TBool), (''request_hash'', TString), (''response_hash'', TString),
     (''request_payload'', TString), (''response_payload'', TString), (''metadata_json'', TString)
     ]"

definition column_key :: "string \<times> string \<Rightarrow> string" where
  "column_key c = fst c @ '':'' @ snd c"

text \<open>The keys, in the order in which Go walks its map: \<open>shuffle\<close> chooses it.\<close>

definition requiredColumnKeys :: "(string list \<Rightarrow> string list) \<Rightarrow> string list" where
  "requiredColumnKeys shuffle = shuffle (map (\<lambda>(name, t). column_key (name, type_text t)) requiredTrafficEventColumns)"

text \<open>The two counting queries, with their arguments.\<close>

datatype schema_query = CountTables string | CountColumns string "string list"

record ('e, 'w) Probe =
  probe_Ping :: "'w \<Rightarrow> 'e option \<times> 'w"
  probe_QueryRow :: "schema_query \<Rightarrow> 'w \<Rightarrow> ('e + uint64) \<times> 'w"

datatype 'e schema_error = ProbeRequired | QueryTableFailed 'e | TableRequired | QueryColumnsFailed 'e
  | ColumnsInvalid uint64 nat

definition CheckSchema :: "(string list \<Rightarrow> string list) \<Rightarrow> ('e, 'w) Probe option \<Rightarrow> 'w \<Rightarrow> 'e schema_error option \<times> 'w" where
  "CheckSchema shuffle conn w =
     (case conn of
        None \<Rightarrow> (Some ProbeRequired, w)
      | Some conn \<Rightarrow>
          (case probe_QueryRow conn (CountTables trafficEventsTable) w of
             (Inl e, w) \<Rightarrow> (Some (QueryTableFailed e), w)
           | (Inr tableCount, w) \<Rightarrow>
               if tableCount = 0 then (Some TableRequired, w)
               else
                 (case probe_QueryRow conn (CountColumns trafficEventsTable (requiredColumnKeys shuffle)) w of
                    (Inl e, w) \<Rightarrow> (Some (QueryColumnsFailed e), w)
                  | (Inr columnCount, w) \<Rightarrow>
                      if columnCount \<noteq> word_of_nat (length requiredTrafficEventColumns)
                      then (Some (ColumnsInvalid columnCount (length requiredTrafficEventColumns)), w)
                      else (None, w))))"

datatype 'e health_error = HealthProbeRequired | PingFailed 'e | SchemaFailed "'e schema_error"

definition ProbeHealth :: "(string list \<Rightarrow> string list) \<Rightarrow> ('e, 'w) Probe option \<Rightarrow> 'w \<Rightarrow> 'e health_error option \<times> 'w" where
  "ProbeHealth shuffle conn w =
     (case conn of
        None \<Rightarrow> (Some HealthProbeRequired, w)
      | Some probe \<Rightarrow>
          (case probe_Ping probe w of
             (Some e, w) \<Rightarrow> (Some (PingFailed e), w)
           | (None, w) \<Rightarrow> (case CheckSchema shuffle conn w of (e, w) \<Rightarrow> (map_option SchemaFailed e, w))))"

section \<open>Opening\<close>

record ch_options =
  co_Addr :: string
  co_Database :: string
  co_Username :: string
  co_Password :: string

definition open_defaults :: "ch_options \<Rightarrow> ch_options" where
  "open_defaults opts =
     opts\<lparr>co_Database := (if co_Database opts = [] then ''kiwiguard'' else co_Database opts),
       co_Username := (if co_Username opts = [] then ''default'' else co_Username opts)\<rparr>"

datatype 'e open_error = AddrRequired | OpenFailed 'e

text \<open>\<open>dial\<close> is the driver's \<open>Open\<close>, given the address, the credentials and the timeout.\<close>

definition ClickHouse_Open :: "(ch_options \<Rightarrow> duration \<Rightarrow> 'e + 'c) \<Rightarrow> ch_options \<Rightarrow> 'e open_error + 'c" where
  "ClickHouse_Open dial options =
     (if co_Addr options = [] then Inl AddrRequired
      else case dial (open_defaults options) 5000000000 of
             Inl e \<Rightarrow> Inl (OpenFailed e)
           | Inr conn \<Rightarrow> Inr conn)"

end
