(* ===== verification/ClickHouse_Claims.thy ===== *)
theory ClickHouse_Claims
  imports ClickHouse Delivery_Claims
begin

text \<open>
  The properties of the ClickHouse sink: latencies and counts saturate, a batch is acknowledged whole or
  not at all, what the delivery owes ends up acknowledged, spooled or expired, and a table that passes the
  schema check takes every row.
\<close>

section \<open>Saturation\<close>

lemma unat_saturate: "0 \<le> i \<Longrightarrow> i < 2 ^ 32 \<Longrightarrow> unat (word_of_int i :: uint32) = nat i"
  unfolding unat_eq_nat_uint uint_word_of_int by simp

lemma saturatingInt_clamps: "unat (saturatingInt v) = nat (min v (2 ^ 32 - 1))"
  by (simp add: saturatingInt_def unat_saturate min_def)

lemma durationMillis_clamps: "unat (durationMillis d) = nat (min (d div 1000000) (2 ^ 32 - 1))"
proof (cases "d \<le> 0")
  case True
  then have "d div 1000000 \<le> 0" by linarith
  with True show ?thesis by (simp add: durationMillis_def)
next
  case False
  then have "0 \<le> d div 1000000" by simp
  with False show ?thesis by (simp add: durationMillis_def Let_def unat_saturate min_def)
qed

section \<open>A connection that keeps the log of its calls\<close>

datatype ch_call = Prepared string | Appended "column_value list" | Acknowledged | Closed

definition logged_conn :: "('b, 'e, 'w) ch_conn \<Rightarrow> ('b, 'e, 'w \<times> ch_call list) ch_conn" where
  "logged_conn conn =
     \<lparr>conn_PrepareBatch = (\<lambda>q (w, l). case conn_PrepareBatch conn q w of
         (Inl e, w) \<Rightarrow> (Inl e, w, l) | (Inr b, w) \<Rightarrow> (Inr b, w, l @ [Prepared q])),
      batch_Append = (\<lambda>b args (w, l). case batch_Append conn b args w of
         (Some e, w) \<Rightarrow> (Some e, w, l) | (None, w) \<Rightarrow> (None, w, l @ [Appended args])),
      batch_Send = (\<lambda>b (w, l). case batch_Send conn b w of
         (Some e, w) \<Rightarrow> (Some e, w, l) | (None, w) \<Rightarrow> (None, w, l @ [Acknowledged])),
      batch_Close = (\<lambda>b (w, l). (batch_Close conn b w, l @ [Closed]))\<rparr>"

lemma append_rows_log:
  assumes "append_rows (logged_conn conn) b rows (w, l) = (r, w', l')"
  shows "(r = None \<longrightarrow> l' = l @ map (Appended \<circ> append_args) rows @ [Acknowledged]) \<and>
    (r \<noteq> None \<longrightarrow> (\<exists>n\<le>length rows. l' = l @ map (Appended \<circ> append_args) (take n rows)))"
  using assms
proof (induction rows arbitrary: w l)
  case Nil
  then show ?case by (auto simp: logged_conn_def split: prod.splits option.splits)
next
  case (Cons row rows)
  obtain e w1 where a: "batch_Append conn b (append_args row) w = (e, w1)" by fastforce
  show ?case
  proof (cases e)
    case None
    with a Cons.prems have rest: "append_rows (logged_conn conn) b rows (w1, l @ [Appended (append_args row)]) = (r, w', l')"
      by (simp add: logged_conn_def)
    have step: "l @ [Appended (append_args row)] @ map (Appended \<circ> append_args) (take n rows) =
        l @ map (Appended \<circ> append_args) (take (Suc n) (row # rows))" for n by simp
    show ?thesis
    proof (intro conjI impI)
      show "l' = l @ map (Appended \<circ> append_args) (row # rows) @ [Acknowledged]" if "r = None"
        using Cons.IH [OF rest] that by simp
      assume "r \<noteq> None"
      then obtain n where "n \<le> length rows" "l' = l @ map (Appended \<circ> append_args) (take (Suc n) (row # rows))"
        using Cons.IH [OF rest] unfolding step [symmetric] by (auto simp del: map_map comp_apply list.map)
      then show "\<exists>n\<le>length (row # rows). l' = l @ map (Appended \<circ> append_args) (take n (row # rows))"
        by (intro exI [of _ "Suc n"]) simp
    qed
  next
    case (Some x)
    with a Cons.prems have "r = Some (AppendRowFailed x) \<and> l' = l" by (auto simp: logged_conn_def)
    then show ?thesis by (auto intro!: exI [of _ 0])
  qed
qed

text \<open>The calls of one batch: all its rows and the acknowledgement, or some of its rows and none.\<close>

definition whole_batch :: "TrafficEventRow list \<Rightarrow> ch_call list" where
  "whole_batch rows = Prepared insertTrafficEventsQuery # map (Appended \<circ> append_args) rows @ [Acknowledged, Closed]"

definition broken_batch :: "TrafficEventRow list \<Rightarrow> ch_call list" where
  "broken_batch rows = Prepared insertTrafficEventsQuery # map (Appended \<circ> append_args) rows @ [Closed]"

lemma appender_log:
  assumes "clickhouseAppender_Append (Some (logged_conn conn)) rows (w, l) = (r, w', l')"
  shows "(r = None \<longrightarrow> l' = l @ whole_batch rows) \<and>
    (r \<noteq> None \<longrightarrow> l' = l \<or> (\<exists>n\<le>length rows. l' = l @ broken_batch (take n rows)))"
proof -
  obtain p w1 where p: "conn_PrepareBatch conn insertTrafficEventsQuery w = (p, w1)" by fastforce
  show ?thesis
  proof (cases p)
    case (Inl e)
    with p assms show ?thesis by (auto simp: clickhouseAppender_Append_def logged_conn_def)
  next
    case (Inr b)
    obtain r1 w2 l2 where a: "append_rows (logged_conn conn) b rows (w1, l @ [Prepared insertTrafficEventsQuery]) = (r1, w2, l2)"
      by (metis prod.exhaust)
    have prep: "conn_PrepareBatch (logged_conn conn) insertTrafficEventsQuery (w, l) = (Inr b, w1, l @ [Prepared insertTrafficEventsQuery])"
      by (simp add: logged_conn_def p Inr)
    have fin: "r1 = r" "l' = l2 @ [Closed]"
      using assms by (simp_all add: clickhouseAppender_Append_def prep a) (simp add: logged_conn_def)
    show ?thesis using append_rows_log [OF a] unfolding fin whole_batch_def broken_batch_def by auto
  qed
qed

lemma writer_leaves_batch: "leaves_batch (Writer_WriteBatch appender)"
  by (auto simp: leaves_batch_def Writer_WriteBatch_def split: option.split prod.split)

lemma writer_log:
  assumes "NewWriter (Some (logged_conn conn)) batch (w, l) = ((r, b), w', l')"
  shows "(r = None \<longrightarrow> l' = l @ (if batch = [] then [] else whole_batch (map MapEvent batch))) \<and>
    (r \<noteq> None \<longrightarrow> l' = l \<or> (\<exists>n\<le>length batch. l' = l @ broken_batch (map MapEvent (take n batch))))"
proof (cases "batch = []")
  case True
  with assms show ?thesis by (simp add: NewWriter_def Writer_WriteBatch_def)
next
  case False
  obtain r1 w1 l1 where a: "clickhouseAppender_Append (Some (logged_conn conn)) (map MapEvent batch) (w, l) = (r1, w1, l1)"
    by (metis prod.exhaust)
  with assms False have "l' = l1" "(r = None) = (r1 = None)"
    by (auto simp: NewWriter_def Writer_WriteBatch_def split: option.splits)
  with appender_log [OF a] False show ?thesis by (auto simp: take_map)
qed

section \<open>What a run of the delivery acknowledges\<close>

lemma durable_world:
  assumes "I ws" "\<And>b ws. I ws \<Longrightarrow> I (snd (sink b ws))"
  shows "I (fst (snd (DurableSink_WriteBatch (Some sink) spool batch (ws, s))))"
  using assms(2) [OF assms(1), of batch] assms(1)
  by (auto simp: DurableSink_WriteBatch_def split: prod.splits option.splits sum.splits)

lemma replay_world:
  assumes "I ws" "\<And>b ws. I ws \<Longrightarrow> I (snd (sink b ws))"
  shows "I (fst (snd (ReplayOnce t (Some sink) (Some spool) n (ws, s))))"
proof -
  have "I (snd (sink b ws))" for b using assms by blast
  then have "sink b ws = (r, ws') \<Longrightarrow> I ws'" for b r ws' by (metis snd_conv)
  with assms(1) show ?thesis
    by (auto simp: ReplayOnce_def split: prod.splits option.splits sum.splits)
qed

lemma run_world:
  assumes "delivery_run J primary t w0 s0 w lg s owed" "I (w0, [])" "\<And>b ws. I ws \<Longrightarrow> I (snd (recording primary b ws))"
  shows "I (w, lg)"
  using assms(1)
proof (induction rule: delivery_run.induct)
  case (wrote w lg s owed batch b w' lg' s')
  with durable_world [of I "(w, lg)" "recording primary" "Some (file_spool J)" batch s, OF _ assms(3)] show ?case by simp
next
  case (not_wrote w lg s owed batch err b w' lg' s')
  with durable_world [of I "(w, lg)" "recording primary" "Some (file_spool J)" batch s, OF _ assms(3)] show ?case by simp
next
  case (replay w lg s owed n r w' lg' s')
  with replay_world [of I "(w, lg)" "recording primary" t "file_spool J" n s, OF _ assms(3)] show ?case by simp
qed (use assms(2) in auto)

definition acknowledged :: "Event \<Rightarrow> ch_call list \<Rightarrow> bool" where
  "acknowledged e calls \<longleftrightarrow> (\<exists>before rows after. calls = before @ whole_batch rows @ after \<and> MapEvent e \<in> set rows)"

lemma acknowledged_append: "acknowledged e calls \<Longrightarrow> acknowledged e (calls @ rest)"
  unfolding acknowledged_def by (metis append.assoc)

lemma acknowledged_whole: "e \<in> set batch \<Longrightarrow> acknowledged e (calls @ whole_batch (map MapEvent batch))"
  unfolding acknowledged_def by (intro exI [of _ calls] exI [of _ "map MapEvent batch"] exI [of _ "[]"]) simp

lemma logged_acknowledged:
  assumes "delivery_run J (NewWriter (Some (logged_conn conn))) t (w0, []) s0 (w, calls) lg s owed" "logged e lg"
  shows "acknowledged e calls"
proof -
  let ?I = "\<lambda>x :: ('w \<times> ch_call list) \<times> Event list list. \<forall>e. logged e (snd x) \<longrightarrow> acknowledged e (snd (fst x))"
  have step: "?I (snd (recording (NewWriter (Some (logged_conn conn))) b ws))" if I: "?I ws" for b ws
  proof -
    obtain w l lg where ws: "ws = ((w, l), lg)" by (metis prod.exhaust)
    obtain r b' w' l' where n: "NewWriter (Some (logged_conn conn)) b (w, l) = ((r, b'), w', l')" by (metis prod.exhaust)
    have more: "\<exists>m. l' = l @ m" and none: "b \<noteq> [] \<longrightarrow> r = None \<longrightarrow> l' = l @ whole_batch (map MapEvent b)"
      using writer_log [OF n] by (cases r; auto)+
    show ?thesis
    proof (intro allI impI)
      fix e
      assume "logged e (snd (snd (recording (NewWriter (Some (logged_conn conn))) b ws)))"
      then have "logged e lg \<or> r = None \<and> e \<in> set b" by (auto simp: ws recording_def n logged_def split: if_splits)
      then have "acknowledged e l'"
      proof
        assume "logged e lg"
        with I more show ?thesis by (auto simp: ws intro: acknowledged_append)
      next
        assume "r = None \<and> e \<in> set b"
        moreover from this have "b \<noteq> []" by auto
        ultimately show ?thesis using none acknowledged_whole by simp
      qed
      then show "acknowledged e (snd (fst (snd (recording (NewWriter (Some (logged_conn conn))) b ws))))"
        by (simp add: ws recording_def n)
    qed
  qed
  have "?I ((w, calls), lg)" by (rule run_world [OF assms(1)]) (simp add: logged_def, rule step)
  with assms(2) show ?thesis by simp
qed

text \<open>C14. ClickHouse receives every event at least once: whatever the driver and the spool's system calls
  answer, every event whose write the durable sink reported a success has its row in a batch that was
  prepared, filled and sent and that ClickHouse acknowledged, at once or in a replay, or is held in the
  spool, or has passed the spool's maximal age.\<close>

theorem clickhouse_delivers_at_least_once:
  assumes "delivery_run J (NewWriter (Some (logged_conn conn))) t (w0, []) s0 (w, calls) lg s owed" "codec_ok J" "spool_ok J s0"
    and "(e, written) \<in> set owed"
  shows "acknowledged e calls \<or>
    (\<exists>n. acknowledged ((sc_clean J (mark_spooled e))\<lparr>ev_SpoolStatus := spoolStatusReplayed, ev_RetryCount := n\<rparr>) calls) \<or>
    (\<exists>i. held J s i (sc_clean J (mark_spooled e), written)) \<or>
    0 < sp_maxAge s \<and> written \<le> sp_now s - sp_maxAge s"
proof -
  have leaves: "leaves_batch (NewWriter (Some (logged_conn conn)))" unfolding NewWriter_def by (rule writer_leaves_batch)
  have "accounted J lg s (e, written)" using delivery_ok [OF assms(1-3) leaves] assms(4) by blast
  then show ?thesis using logged_acknowledged [OF assms(1)]
    by (fastforce simp: accounted_def Let_def expired_def expired_by_def replay_of_def)
qed

text \<open>A batch is acknowledged whole or not at all: a write of events reports success exactly if every
  row of the batch, in order, was appended to one batch of the insert query, and that batch was
  acknowledged and closed; after an error nothing of it was acknowledged, and what was prepared is closed.\<close>

theorem clickhouse_write_is_whole:
  assumes "NewWriter (Some (logged_conn conn)) batch (w, l) = ((r, b), w', l')" "batch \<noteq> []"
  shows "b = batch \<and>
    (r = None \<longrightarrow> l' = l @ Prepared insertTrafficEventsQuery # map (Appended \<circ> append_args \<circ> MapEvent) batch @ [Acknowledged, Closed]) \<and>
    (r \<noteq> None \<longrightarrow> l' = l \<or>
      (\<exists>n\<le>length batch. l' = l @ Prepared insertTrafficEventsQuery # map (Appended \<circ> append_args \<circ> MapEvent) (take n batch) @ [Closed]))"
proof -
  have "b = batch" using assms(1) writer_leaves_batch [of "Some (clickhouseAppender_Append (Some (logged_conn conn)))"]
    unfolding leaves_batch_def NewWriter_def by (metis fst_conv snd_conv)
  with writer_log [OF assms(1)] assms(2) show ?thesis by (simp add: whole_batch_def broken_batch_def comp_assoc)
qed

text \<open>A connection that accepts everything, and one that refuses to prepare a batch.\<close>

definition sample_conn :: "(unit, unit, unit) ch_conn" where
  "sample_conn = \<lparr>conn_PrepareBatch = (\<lambda>_ w. (Inr (), w)), batch_Append = (\<lambda>_ _ w. (None, w)), batch_Send = (\<lambda>_ w. (None, w)), batch_Close = (\<lambda>_ w. w)\<rparr>"

definition sample_calls :: "ch_call list" where
  "sample_calls = Prepared insertTrafficEventsQuery # Appended (append_args (MapEvent sample_event)) # [Acknowledged, Closed]"

lemma sample_write: "NewWriter (Some (logged_conn sample_conn)) [sample_event] ((), []) = ((None, [sample_event]), (), sample_calls)"
  by (simp add: NewWriter_def Writer_WriteBatch_def clickhouseAppender_Append_def logged_conn_def sample_conn_def sample_calls_def)

theorem clickhouse_write_is_whole_witness:
  "\<exists>r b w l. NewWriter (Some (logged_conn sample_conn)) [sample_event] ((), []) = ((r, b), w, l) \<and> r = None \<and> b = [sample_event] \<and> l = sample_calls"
  using clickhouse_write_is_whole [OF sample_write] sample_write by (simp add: sample_calls_def)

lemma sample_run:
  "delivery_run sample_codec (NewWriter (Some (logged_conn sample_conn))) t ((), []) (sample_spool []) ((), sample_calls) [[sample_event]] (sample_spool [])
     [(sample_event, sp_now (sample_spool []))]"
proof -
  have "DurableSink_WriteBatch (Some (recording (NewWriter (Some (logged_conn sample_conn))))) (Some (file_spool sample_codec)) [sample_event]
      ((((), []), []), sample_spool []) = ((None, [sample_event]), ((((), sample_calls), [[sample_event]]), sample_spool []))"
    by (simp add: DurableSink_WriteBatch_def recording_def sample_write)
  from delivery_run.wrote [OF delivery_run.start _ this] show ?thesis
    by (simp add: sample_event_def plain_def byte_def)
qed

theorem clickhouse_delivers_at_least_once_witness:
  "acknowledged sample_event sample_calls \<or>
    (\<exists>n. acknowledged ((sc_clean sample_codec (mark_spooled sample_event))\<lparr>ev_SpoolStatus := spoolStatusReplayed, ev_RetryCount := n\<rparr>) sample_calls) \<or>
    (\<exists>i. held sample_codec (sample_spool []) i (sc_clean sample_codec (mark_spooled sample_event), sp_now (sample_spool []))) \<or>
    0 < sp_maxAge (sample_spool []) \<and> sp_now (sample_spool []) \<le> sp_now (sample_spool []) - sp_maxAge (sample_spool [])"
  by (rule clickhouse_delivers_at_least_once [OF sample_run [of "\<lambda>_. []"] sample_codec_ok sample_spool_ok]) simp

text \<open>
  What the schema check of \<open>health.go\<close> promises the writer of \<open>writer.go\<close>: a table that passes has, for
  every column of the insert query, a type that takes the value the appender gives in that place.
\<close>

section \<open>What a column takes\<close>

text \<open>The kind of a value the appender gives, and the column types whose columns take it in the driver.\<close>

datatype value_kind = KString | KTime | KInt64 | KUInt16 | KUInt32 | KBool | KFloat64 | KStrings

definition kind_of :: "column_value \<Rightarrow> value_kind" where
  "kind_of v =
     (case v of VString _ \<Rightarrow> KString | VTime _ \<Rightarrow> KTime | VInt64 _ \<Rightarrow> KInt64 | VUInt16 _ \<Rightarrow> KUInt16 | VUInt32 _ \<Rightarrow> KUInt32
        | VBool _ \<Rightarrow> KBool | VFloat64 _ \<Rightarrow> KFloat64 | VStrings _ \<Rightarrow> KStrings)"

definition kind_types :: "value_kind \<Rightarrow> column_type list" where
  "kind_types k =
     (case k of KString \<Rightarrow> [TString, TLowCardinality] | KTime \<Rightarrow> [TDateTime] | KInt64 \<Rightarrow> [TInt64] | KUInt16 \<Rightarrow> [TUInt16]
        | KUInt32 \<Rightarrow> [TUInt32] | KBool \<Rightarrow> [TBool] | KFloat64 \<Rightarrow> [TFloat64] | KStrings \<Rightarrow> [TStrings])"

definition column_takes :: "string \<Rightarrow> column_value \<Rightarrow> bool" where
  "column_takes t v \<longleftrightarrow> t \<in> set (map type_text (kind_types (kind_of v)))"

text \<open>The kinds of the appended values are the same for every row, and those of the required columns.\<close>

definition column_fits :: "string \<Rightarrow> value_kind \<Rightarrow> bool" where
  "column_fits c k = (case map_of requiredTrafficEventColumns c of None \<Rightarrow> False | Some t \<Rightarrow> t \<in> set (kind_types k))"

definition row_kinds :: "value_kind list" where
  "row_kinds = [KString, KString, KTime, KString, KString, KInt64, KString, KString, KString, KString, KStrings, KString,
     KString, KString, KString, KString, KString, KUInt16, KUInt16, KString, KString, KBool, KString, KStrings,
     KFloat64, KStrings, KUInt32, KUInt32, KUInt32, KString, KUInt32, KUInt32, KUInt32, KUInt32, KUInt32, KUInt32,
     KString, KUInt16, KString, KBool, KString, KString, KString, KString, KString, KString, KString, KString,
     KString, KStrings, KStrings, KUInt32, KBool, KBool, KString, KString, KString, KString, KString]"

lemma kinds_of_row: "map kind_of (append_args row) = row_kinds"
  by (simp add: append_args_def row_kinds_def kind_of_def)

lemma columns_fit: "list_all2 column_fits insertColumns row_kinds"
  by code_simp

lemma required_fits_row: "list_all2 (\<lambda>c v. \<exists>t. (c, t) \<in> set requiredTrafficEventColumns \<and> column_takes (type_text t) v) insertColumns (append_args row)"
proof -
  have "list_all2 (\<lambda>c v. column_fits c (kind_of v)) insertColumns (append_args row)"
    using columns_fit unfolding kinds_of_row [symmetric, of row] by (simp add: list_all2_map2 comp_def)
  then show ?thesis
    by (rule list_all2_mono) (auto simp: column_fits_def column_takes_def dest: map_of_SomeD split: option.splits)
qed

section \<open>Counting the columns\<close>

definition required_texts :: "(string \<times> string) list" where
  "required_texts = map (\<lambda>(name, t). (name, type_text t)) requiredTrafficEventColumns"

lemma required_keys_distinct: "distinct required_texts"
  unfolding required_texts_def by code_simp

lemma required_without_colon: "list_all (\<lambda>(n, t). CHR '':'' \<notin> set n \<and> CHR '':'' \<notin> set t) required_texts"
  unfolding required_texts_def by code_simp

lemma length_required: "length requiredTrafficEventColumns = 59"
  by (simp add: requiredTrafficEventColumns_def)

lemma keys_of_texts: "requiredColumnKeys shuffle = shuffle (map column_key required_texts)"
  by (simp add: requiredColumnKeys_def required_texts_def comp_def case_prod_unfold)

text \<open>A key determines its column when neither part of the required one has a colon.\<close>

lemma one_colon:
  assumes "n @ x # t = n' @ x # t'" "x \<notin> set n'" "x \<notin> set t'"
  shows "n = n' \<and> t = t'"
  using assms
proof (induction n arbitrary: n')
  case Nil
  then show ?case by (cases n') auto
next
  case (Cons a n)
  then show ?case
  proof (cases n')
    case Nil
    with Cons.prems show ?thesis by (metis Cons_eq_append_conv append_Cons append_Nil in_set_conv_decomp list.inject)
  next
    case (Cons b m)
    with Cons.prems Cons.IH [of m] show ?thesis by simp
  qed
qed

lemma matched_columns:
  "set (filter (\<lambda>c. column_key c \<in> set (map column_key required_texts)) cols) = set cols \<inter> set required_texts"
proof -
  have "c \<in> set required_texts" if "column_key c = column_key d" "d \<in> set required_texts" for c d
  proof -
    have "CHR '':'' \<notin> set (fst d) \<and> CHR '':'' \<notin> set (snd d)"
      using required_without_colon that(2) by (auto simp: list_all_iff case_prod_beta)
    with that(1) have "fst c = fst d \<and> snd c = snd d"
      using one_colon [of "fst c" "CHR '':''" "snd c" "fst d" "snd d"] by (simp add: column_key_def)
    with that(2) show ?thesis by (metis prod_eqI)
  qed
  then show ?thesis by auto
qed

lemma all_matched:
  assumes "distinct (map fst cols)"
    and "(word_of_nat (length (filter (\<lambda>c. column_key c \<in> set (map column_key required_texts)) cols)) :: uint64) = word_of_nat 59"
  shows "set required_texts \<subseteq> set cols"
proof -
  let ?F = "filter (\<lambda>c. column_key c \<in> set (map column_key required_texts)) cols"
  have d: "distinct ?F" using assms(1) by (simp add: distinct_map)
  have len: "length required_texts = 59" by (simp add: required_texts_def length_required)
  have sub: "set ?F \<subseteq> set required_texts" unfolding matched_columns by simp
  have le: "length ?F \<le> 59"
    using card_mono [OF finite_set sub] distinct_card [OF d] card_length [of required_texts] len by simp
  have "unat (word_of_nat (length ?F) :: uint64) = unat (word_of_nat 59 :: uint64)" using assms(2) by simp
  with le have "length ?F = 59" by (simp add: unat_of_nat)
  then have "card (set ?F) = card (set required_texts)" using distinct_card [OF d] distinct_card [OF required_keys_distinct] len by simp
  with sub have "set ?F = set required_texts" by (intro card_subset_eq) simp_all
  then show ?thesis unfolding matched_columns by blast
qed

section \<open>The check and the writer\<close>

text \<open>A probe of a database: when it answers a counting query, it answers with the count.\<close>

type_synonym database = "string \<rightharpoonup> (string \<times> string) list"

definition columns_of :: "database \<Rightarrow> string \<Rightarrow> (string \<times> string) list" where
  "columns_of db t = (case db t of None \<Rightarrow> [] | Some cols \<Rightarrow> cols)"

definition answers :: "('e, 'w) Probe \<Rightarrow> database \<Rightarrow> bool" where
  "answers probe db \<longleftrightarrow>
     (\<forall>t w n. fst (probe_QueryRow probe (CountTables t) w) = Inr n \<longrightarrow> n = (if db t = None then 0 else 1)) \<and>
     (\<forall>t ks w n. fst (probe_QueryRow probe (CountColumns t ks) w) = Inr n \<longrightarrow>
        n = word_of_nat (length (filter (\<lambda>c. column_key c \<in> set ks) (columns_of db t))))"

lemma CheckSchema_passes:
  assumes "CheckSchema shuffle (Some probe) w = (None, w')"
  shows "\<exists>n w1. n \<noteq> 0 \<and> probe_QueryRow probe (CountTables trafficEventsTable) w = (Inr n, w1) \<and>
    probe_QueryRow probe (CountColumns trafficEventsTable (requiredColumnKeys shuffle)) w1 = (Inr (word_of_nat 59), w')"
  using assms by (auto simp: CheckSchema_def length_required split: prod.splits sum.splits if_splits)

text \<open>C29. A database that passes the schema check takes every row: when the counting queries answer with the
  counts and column names are distinct in the table, then after a check without an error the table
  exists and has every column of the insert query, each with a type that takes the value the appender
  gives in that place, for every event.  The table of \<open>schema.sql\<close> passes.\<close>

theorem schema_check_admits_every_row:
  assumes "answers probe db" "distinct (map fst (columns_of db trafficEventsTable))" "\<forall>ks. set (shuffle ks) = set ks"
    and "CheckSchema shuffle (Some probe) w = (None, w')"
  shows "db trafficEventsTable \<noteq> None \<and>
    list_all2 (\<lambda>c v. \<exists>t. map_of (columns_of db trafficEventsTable) c = Some t \<and> column_takes t v) insertColumns (append_args (MapEvent event))"
proof -
  let ?cols = "columns_of db trafficEventsTable"
  obtain n w1 where n: "n \<noteq> 0" "probe_QueryRow probe (CountTables trafficEventsTable) w = (Inr n, w1)"
    and cs: "probe_QueryRow probe (CountColumns trafficEventsTable (requiredColumnKeys shuffle)) w1 = (Inr (word_of_nat 59), w')"
    using CheckSchema_passes [OF assms(4)] by blast
  have "db trafficEventsTable \<noteq> None" using assms(1) n unfolding answers_def by (metis fst_conv)
  moreover have "(word_of_nat 59 :: uint64) = word_of_nat (length (filter (\<lambda>c. column_key c \<in> set (requiredColumnKeys shuffle)) ?cols))"
    using assms(1) cs unfolding answers_def by (metis fst_conv)
  then have "set required_texts \<subseteq> set ?cols"
    using all_matched [OF assms(2)] assms(3) by (simp add: keys_of_texts)
  then have "map_of ?cols c = Some (type_text t)" if "(c, t) \<in> set requiredTrafficEventColumns" for c t
    using that assms(2) by (intro map_of_is_SomeI) (force simp: required_texts_def)+
  then have "list_all2 (\<lambda>c v. \<exists>t. map_of ?cols c = Some t \<and> column_takes t v) insertColumns (append_args (MapEvent event))"
    using required_fits_row [of "MapEvent event"] by (auto elim!: list_all2_mono)
  ultimately show ?thesis by blast
qed

text \<open>A probe that answers from a database, and the database that \<open>schema.sql\<close> creates.\<close>

definition database_probe :: "database \<Rightarrow> (unit, unit) Probe" where
  "database_probe db =
     \<lparr>probe_Ping = (\<lambda>w. (None, w)),
      probe_QueryRow = (\<lambda>q w. (Inr (case q of
          CountTables t \<Rightarrow> (if db t = None then 0 else 1)
        | CountColumns t ks \<Rightarrow> word_of_nat (length (filter (\<lambda>c. column_key c \<in> set ks) (columns_of db t)))), w))\<rparr>"

definition shipped :: database where
  "shipped = [trafficEventsTable \<mapsto> map (\<lambda>(n, t). (n, type_text t)) schema_sql]"

lemma database_probe_answers: "answers (database_probe db) db"
  by (auto simp: answers_def database_probe_def)

lemma shipped_columns: "columns_of shipped trafficEventsTable = map (\<lambda>(n, t). (n, type_text t)) schema_sql"
  by (simp add: columns_of_def shipped_def)

lemma shipped_distinct: "distinct (map fst (columns_of shipped trafficEventsTable))"
  unfolding shipped_columns by code_simp

lemma shipped_count: "length (filter (\<lambda>c. column_key c \<in> set (map column_key required_texts)) (map (\<lambda>(n, t). (n, type_text t)) schema_sql)) = 59"
  unfolding required_texts_def by code_simp

lemma shipped_passes: "CheckSchema (\<lambda>ks. ks) (Some (database_probe shipped)) () = (None, ())"
proof -
  have "probe_QueryRow (database_probe shipped) (CountTables trafficEventsTable) () = (Inr 1, ())"
    by (simp add: database_probe_def shipped_def)
  moreover have "probe_QueryRow (database_probe shipped) (CountColumns trafficEventsTable (requiredColumnKeys (\<lambda>ks. ks))) () = (Inr (word_of_nat 59), ())"
    unfolding keys_of_texts using shipped_count by (simp add: database_probe_def shipped_columns)
  ultimately show ?thesis by (simp add: CheckSchema_def length_required)
qed

theorem schema_check_admits_every_row_witness:
  "shipped trafficEventsTable \<noteq> None \<and>
    (\<forall>event. list_all2 (\<lambda>c v. \<exists>t. map_of (columns_of shipped trafficEventsTable) c = Some t \<and> column_takes t v) insertColumns (append_args (MapEvent event)))"
  using schema_check_admits_every_row [OF database_probe_answers shipped_distinct _ shipped_passes] by simp

end
