(* ===== verification/Strconv.thy ===== *)
theory Strconv
  imports Strings Platform
begin

text \<open>
  The parsers of Go's \<open>strconv\<close> and \<open>time\<close> that the configuration and the control plane use: decimal
  integers of a bit size, booleans and durations.  \<open>ParseDuration\<close> multiplies fractions in floating
  point; that product is an argument.
\<close>

section \<open>Integers\<close>

definition decimal :: "string \<Rightarrow> bool" where
  "decimal s \<longleftrightarrow> s \<noteq> [] \<and> list_all (\<lambda>c. in_range 0x30 0x39 (byte c)) s"

definition ParseUint :: "nat \<Rightarrow> string \<Rightarrow> nat option" where
  "ParseUint bits s = (if decimal s \<and> nat_of_digits s < 2 ^ bits then Some (nat_of_digits s) else None)"

definition ParseInt :: "nat \<Rightarrow> string \<Rightarrow> int option" where
  "ParseInt bits s =
     (let negative = (s \<noteq> [] \<and> hd s = CHR ''-'');
          digits = (if s \<noteq> [] \<and> hd s \<in> {CHR ''-'', CHR ''+''} then tl s else s)
      in if \<not> decimal digits then None
         else let n = int (nat_of_digits digits)
              in if negative then (if n \<le> 2 ^ (bits - 1) then Some (- n) else None)
                 else (if n < 2 ^ (bits - 1) then Some n else None))"

definition Atoi :: "string \<Rightarrow> int option" where
  "Atoi s = ParseInt 64 s"

lemma ParseUint_bound: "ParseUint bits s = Some n \<Longrightarrow> n < 2 ^ bits"
  by (simp add: ParseUint_def split: if_splits)

lemma ParseInt_bound: "ParseInt bits s = Some n \<Longrightarrow> - (2 ^ (bits - 1)) \<le> n \<and> n < 2 ^ (bits - 1)"
proof -
  have "- m \<le> int k \<and> - int k < m" if "0 < m" for m :: int and k using that by linarith
  from this [of "2 ^ (bits - 1)"] have "- (2 ^ (bits - 1)) \<le> int k \<and> - int k < 2 ^ (bits - 1)" for k by simp
  moreover assume "ParseInt bits s = Some n"
  ultimately show ?thesis by (auto simp: ParseInt_def Let_def split: if_splits)
qed

lemma decimal_dec: "decimal (dec n)"
proof -
  have "dec n \<noteq> []" by (subst dec.simps) simp
  with dec_digits show ?thesis by (auto simp: decimal_def list_all_iff in_range_def)
qed

lemma ParseUint_dec: "n < 2 ^ bits \<Longrightarrow> ParseUint bits (dec n) = Some n"
  by (simp add: ParseUint_def decimal_dec)

section \<open>Booleans\<close>

definition ParseBool :: "string \<Rightarrow> bool option" where
  "ParseBool s =
     (if s \<in> {''1'', ''t'', ''T'', ''TRUE'', ''true'', ''True''} then Some True
      else if s \<in> {''0'', ''f'', ''F'', ''FALSE'', ''false'', ''False''} then Some False
      else None)"

section \<open>Durations\<close>

definition digit :: "char \<Rightarrow> bool" where
  "digit c \<longleftrightarrow> in_range 0x30 0x39 (byte c)"

text \<open>The units in nanoseconds; the micro sign and the Greek mu are written by their bytes.\<close>

definition duration_unit :: "string \<Rightarrow> nat option" where
  "duration_unit u =
     (if u = ''ns'' then Some 1
      else if u \<in> {''us'', [CHR 0xC2, CHR 0xB5, CHR ''s''], [CHR 0xCE, CHR 0xBC, CHR ''s'']} then Some 1000
      else if u = ''ms'' then Some 1000000
      else if u = ''s'' then Some 1000000000
      else if u = ''m'' then Some 60000000000
      else if u = ''h'' then Some 3600000000000
      else None)"

text \<open>The digits at the front; \<open>leadingInt\<close> fails above \<open>2 ^ 63\<close>, \<open>leadingFraction\<close> stops taking digits
  in once the next would overflow.  The fraction is given with the number of digits taken in.\<close>

definition leadingInt :: "string \<Rightarrow> (nat \<times> string) option" where
  "leadingInt s =
     (let digits = takeWhile digit s
      in if nat_of_digits digits > 2 ^ 63 then None else Some (nat_of_digits digits, dropWhile digit s))"

fun fraction_digits :: "nat \<Rightarrow> nat \<Rightarrow> string \<Rightarrow> nat \<times> nat" where
  "fraction_digits f k [] = (f, k)"
| "fraction_digits f k (c # cs) =
     (if f > (2 ^ 63 - 1) div 10 \<or> f * 10 + (byte c - 0x30) > 2 ^ 63 then (f, k)
      else fraction_digits (f * 10 + (byte c - 0x30)) (k + 1) cs)"

definition leadingFraction :: "string \<Rightarrow> (nat \<times> nat) \<times> string" where
  "leadingFraction s = (fraction_digits 0 0 (takeWhile digit s), dropWhile digit s)"

text \<open>One element of a duration: its value and the rest.  \<open>product f unit k\<close> is the floating-point
  \<open>f * (unit / 10 ^ k)\<close>, truncated.\<close>

definition duration_element :: "(nat \<Rightarrow> nat \<Rightarrow> nat \<Rightarrow> nat) \<Rightarrow> string \<Rightarrow> (nat \<times> string) option" where
  "duration_element product s =
     (if s = [] \<or> \<not> (hd s = CHR ''.'' \<or> digit (hd s)) then None
      else case leadingInt s of
             None \<Rightarrow> None
           | Some (v, s1) \<Rightarrow>
               (let pre = (length s1 \<noteq> length s);
                    dot = (s1 \<noteq> [] \<and> hd s1 = CHR ''.'');
                    fr = (if dot then leadingFraction (tl s1) else ((0, 0), s1));
                    post = (dot \<and> length (snd fr) \<noteq> length (tl s1));
                    unit_text = takeWhile (\<lambda>c. \<not> (c = CHR ''.'' \<or> digit c)) (snd fr);
                    rest = dropWhile (\<lambda>c. \<not> (c = CHR ''.'' \<or> digit c)) (snd fr)
                in if \<not> pre \<and> \<not> post \<or> unit_text = [] then None
                   else case duration_unit unit_text of
                          None \<Rightarrow> None
                        | Some unit \<Rightarrow>
                            if v > 2 ^ 63 div unit then None
                            else (let w = v * unit + (if 0 < fst (fst fr) then product (fst (fst fr)) unit (snd (fst fr)) else 0)
                                  in if w > 2 ^ 63 then None else Some (w, rest))))"

lemma length_dropWhile_less: "takeWhile P s \<noteq> [] \<Longrightarrow> length (dropWhile P s) < length s"
  by (cases s) (auto simp: less_Suc_eq_le length_dropWhile_le split: if_splits)

lemma duration_element_shorter: "duration_element product s = Some (v, rest) \<Longrightarrow> length rest < length s"
proof -
  assume a: "duration_element product s = Some (v, rest)"
  then obtain v' s1 where li: "leadingInt s = Some (v', s1)" by (auto simp: duration_element_def split: if_splits option.splits)
  then have "length s1 \<le> length s" by (auto simp: leadingInt_def Let_def length_dropWhile_le split: if_splits)
  moreover have "length (snd (leadingFraction (tl s1))) \<le> length s1"
    using length_dropWhile_le [of digit "tl s1"] by (simp add: leadingFraction_def)
  ultimately show ?thesis
    using a li length_dropWhile_less
    by (fastforce simp: duration_element_def Let_def split: if_splits option.splits)
qed

function duration_elements :: "(nat \<Rightarrow> nat \<Rightarrow> nat \<Rightarrow> nat) \<Rightarrow> nat \<Rightarrow> string \<Rightarrow> nat option" where
  "duration_elements product d s =
     (if s = [] then Some d
      else case duration_element product s of
             None \<Rightarrow> None
           | Some (v, rest) \<Rightarrow> if d + v > 2 ^ 63 then None else duration_elements product (d + v) rest)"
  by pat_completeness auto
termination
  by (relation "measure (\<lambda>(_, _, s). length s)") (auto dest: duration_element_shorter)

declare duration_elements.simps [simp del]

definition ParseDuration :: "(nat \<Rightarrow> nat \<Rightarrow> nat \<Rightarrow> nat) \<Rightarrow> string \<Rightarrow> int option" where
  "ParseDuration product s =
     (let negative = (s \<noteq> [] \<and> hd s = CHR ''-'');
          body = (if s \<noteq> [] \<and> hd s \<in> {CHR ''-'', CHR ''+''} then tl s else s)
      in if body = ''0'' then Some 0
         else if body = [] then None
         else case duration_elements product 0 body of
                None \<Rightarrow> None
              | Some d \<Rightarrow>
                  if negative then Some (- int d)
                  else if d > 2 ^ 63 - 1 then None
                  else Some (int d))"

lemma duration_elements_bound: "duration_elements product d s = Some n \<Longrightarrow> d \<le> 2 ^ 63 \<Longrightarrow> n \<le> 2 ^ 63"
proof (induction product d s rule: duration_elements.induct)
  case (1 product d s)
  from "1.prems"(1) show ?case
    by (subst (asm) duration_elements.simps) (use "1.IH" "1.prems"(2) in \<open>auto split: if_splits option.splits prod.splits\<close>)
qed

lemma ParseDuration_bound: "ParseDuration product s = Some n \<Longrightarrow> - (2 ^ 63) \<le> n \<and> n < 2 ^ 63"
proof -
  assume a: "ParseDuration product s = Some n"
  have "int d \<le> 2 ^ 63" if "duration_elements product 0 b = Some d" for b d
    using duration_elements_bound [OF that] by simp
  with a show ?thesis
    by (auto simp: ParseDuration_def Let_def split: if_splits option.splits)
qed

text \<open>
  The functions of Go's \<open>net\<close> package that decide whether an address is public: \<open>SplitHostPort\<close>,
  \<open>ParseIP\<close> (the parsers of \<open>net/netip\<close>) and \<open>IsLoopback\<close>, and \<open>Trim\<close> of \<open>strings\<close>.  An IP is its 16 bytes.
\<close>

section \<open>Splitting host and port\<close>

fun index_of :: "char \<Rightarrow> string \<Rightarrow> nat option" where
  "index_of c [] = None"
| "index_of c (x # xs) = (if x = c then Some 0 else map_option Suc (index_of c xs))"

definition SplitHostPort :: "string \<Rightarrow> (string \<times> string) option" where
  "SplitHostPort hostport =
     (case last_index (CHR '':'') hostport of
        None \<Rightarrow> None
      | Some i \<Rightarrow>
          if hd hostport = CHR ''['' then
            (case index_of (CHR '']'') hostport of
               None \<Rightarrow> None
             | Some e \<Rightarrow>
                 if e + 1 \<noteq> i then None
                 else if CHR ''['' \<in> set (tl hostport) \<or> CHR '']'' \<in> set (List.drop (e + 1) hostport) then None
                 else Some (substr hostport 1 e, List.drop (i + 1) hostport))
          else if CHR '':'' \<in> set (take i hostport) \<or> CHR ''['' \<in> set hostport \<or> CHR '']'' \<in> set hostport then None
          else Some (take i hostport, List.drop (i + 1) hostport))"

definition trim_set :: "char set \<Rightarrow> string \<Rightarrow> string" where
  "trim_set cs s = rev (dropWhile (\<lambda>c. c \<in> cs) (rev (dropWhile (\<lambda>c. c \<in> cs) s)))"

section \<open>IPv4\<close>

text \<open>A field has one to three digits, no leading zero, and is at most 255.\<close>

definition ipv4_field :: "string \<Rightarrow> nat option" where
  "ipv4_field s =
     (if \<not> decimal s \<or> 1 < length s \<and> hd s = CHR ''0'' \<or> nat_of_digits s > 255 then None else Some (nat_of_digits s))"

fun split_on :: "char \<Rightarrow> string \<Rightarrow> string list" where
  "split_on c [] = [[]]"
| "split_on c (x # xs) = (if x = c then [] # split_on c xs else case split_on c xs of [] \<Rightarrow> [[x]] | y # ys \<Rightarrow> (x # y) # ys)"

definition all_some :: "'a option list \<Rightarrow> 'a list option" where
  "all_some xs = (if list_all (\<lambda>x. x \<noteq> None) xs then Some (map the xs) else None)"

definition parseIPv4 :: "string \<Rightarrow> nat list option" where
  "parseIPv4 s =
     (if length (split_on (CHR ''.'') s) = 4 then all_some (map ipv4_field (split_on (CHR ''.'') s)) else None)"

section \<open>IPv6\<close>

text \<open>The bytes read so far, and where the ellipsis stands among them.\<close>

definition hex_group :: "string \<Rightarrow> nat" where
  "hex_group s = foldl (\<lambda>n c. n * 16 + the (hex_value c)) 0 s"

function ipv6_groups :: "nat list \<Rightarrow> nat option \<Rightarrow> string \<Rightarrow> (nat list \<times> nat option) option" where
  "ipv6_groups ip ellipsis s =
     (if 16 \<le> length ip then (if s = [] then Some (ip, ellipsis) else None)
      else
        (let group = takeWhile (\<lambda>c. hex_value c \<noteq> None) s;
             rest = dropWhile (\<lambda>c. hex_value c \<noteq> None) s
         in if group = [] \<or> 4 < length group then None
            else if rest \<noteq> [] \<and> hd rest = CHR ''.'' then
              (if ellipsis = None \<and> length ip \<noteq> 12 \<or> length ip + 4 > 16 then None
               else map_option (\<lambda>bs. (ip @ bs, ellipsis)) (parseIPv4 s))
            else
              (let ip = ip @ [hex_group group div 256, hex_group group mod 256]
               in if rest = [] then Some (ip, ellipsis)
                  else if hd rest \<noteq> CHR '':'' \<or> length rest = 1 then None
                  else if hd (tl rest) = CHR '':'' then
                    (if ellipsis \<noteq> None then None
                     else if length rest = 2 then Some (ip, Some (length ip))
                     else ipv6_groups ip (Some (length ip)) (tl (tl rest)))
                  else ipv6_groups ip ellipsis (tl rest))))"
  by pat_completeness auto
termination
  by (relation "measure (\<lambda>(_, _, s). length s)") (auto simp: Let_def dest: length_dropWhile_less intro: less_imp_diff_less)

declare ipv6_groups.simps [simp del]

definition expand_ellipsis :: "nat list \<times> nat option \<Rightarrow> nat list option" where
  "expand_ellipsis parsed =
     (case parsed of (ip, ellipsis) \<Rightarrow>
        if length ip < 16
        then map_option (\<lambda>e. take e ip @ replicate (16 - length ip) 0 @ List.drop e ip) ellipsis
        else if ellipsis \<noteq> None then None
        else Some ip)"

definition parseIPv6 :: "string \<Rightarrow> nat list option" where
  "parseIPv6 s =
     (if has_prefix ''::'' s
      then (if length s = 2 then Some (replicate 16 0)
            else Option.bind (ipv6_groups [] (Some 0) (List.drop 2 s)) expand_ellipsis)
      else Option.bind (ipv6_groups [] None s) expand_ellipsis)"

section \<open>Addresses\<close>

text \<open>The first separator decides the family; an address with a zone is rejected by \<open>ParseIP\<close>.\<close>

definition ParseIP :: "string \<Rightarrow> nat list option" where
  "ParseIP s =
     (case filter (\<lambda>c. c \<in> {CHR ''.'', CHR '':'', CHR ''%''}) s of
        [] \<Rightarrow> None
      | c # _ \<Rightarrow>
          if c = CHR ''.'' then map_option (\<lambda>bs. replicate 10 0 @ [0xFF, 0xFF] @ bs) (parseIPv4 s)
          else if c = CHR '':'' then (if CHR ''%'' \<in> set s then None else parseIPv6 s)
          else None)"

definition To4 :: "nat list \<Rightarrow> nat list option" where
  "To4 ip = (if length ip = 16 \<and> take 12 ip = replicate 10 0 @ [0xFF, 0xFF] then Some (List.drop 12 ip) else None)"

definition IsLoopback :: "nat list \<Rightarrow> bool" where
  "IsLoopback ip =
     (case To4 ip of
        Some ip4 \<Rightarrow> hd ip4 = 127
      | None \<Rightarrow> ip = replicate 15 0 @ [1])"

end
