(* ===== verification/TrafficReader.thy ===== *)
theory TrafficReader
  imports ClickHouse Strconv ClickHouse_Claims
begin

text \<open>
  Reading traffic events, \<open>traffic.go\<close> and \<open>clickhouse\_traffic\_reader.go\<close> of the control plane's HTTP
  adapter: the filter of a request and the queries it becomes.  The connection is a parameter.
\<close>

section \<open>The filter of a request\<close>

definition defaultTrafficEventLimit :: int where
  "defaultTrafficEventLimit = 50"

definition maxTrafficEventLimit :: int where
  "maxTrafficEventLimit = 200"

record trafficEventFilter =
  tf_RouteID :: string
  tf_ProviderID :: string
  tf_Direction :: string
  tf_Status :: uint16
  tf_RiskLevel :: string
  tf_Limit :: int

definition zero_filter :: trafficEventFilter where
  "zero_filter = \<lparr>tf_RouteID = [], tf_ProviderID = [], tf_Direction = [], tf_Status = 0, tf_RiskLevel = [], tf_Limit = 0\<rparr>"

record trafficEventsSummaryDTO =
  ts_Total :: uint64
  ts_Blocked :: uint64
  ts_UpstreamErrors :: uint64
  ts_Fallbacks :: uint64

record trafficEventDTO =
  te_EventTime :: gotime
  te_RequestID :: string
  te_CorrelationID :: string
  te_RouteID :: string
  te_ProviderID :: string
  te_Direction :: string
  te_Action :: string
  te_GatewayStatus :: uint16
  te_UpstreamStatus :: uint16
  te_ErrorType :: string
  te_BlockReason :: string
  te_RiskLevel :: string
  te_RequestedModel :: string
  te_MappedModel :: string
  te_LatencyMS :: uint32
  te_VerdictLatencyMS :: uint32
  te_DetectorLatencyMS :: uint32
  te_MatchedSpanCount :: uint32
  te_FallbackTriggered :: bool
  te_RequestHash :: string
  te_ResponseHash :: string
  te_RequestPayload :: string
  te_ResponsePayload :: string
  te_SpoolStatus :: string

record trafficEventsResponse =
  tr_Items :: "trafficEventDTO list"
  tr_Summary :: trafficEventsSummaryDTO

datatype filter_error = InvalidDirection | InvalidStatus | InvalidLimit

text \<open>\<open>query\<close> is \<open>url.Values.Get\<close> of the request.\<close>

definition parseTrafficEventFilter :: "(string \<Rightarrow> string) \<Rightarrow> filter_error + trafficEventFilter" where
  "parseTrafficEventFilter query =
     (let f = \<lparr>tf_RouteID = query ''route_id'', tf_ProviderID = query ''provider_id'', tf_Direction = query ''direction'',
            tf_Status = 0, tf_RiskLevel = query ''risk_level'', tf_Limit = defaultTrafficEventLimit\<rparr>
      in if tf_Direction f \<noteq> [] \<and> tf_Direction f \<noteq> ''input'' \<and> tf_Direction f \<noteq> ''output'' then Inl InvalidDirection
         else case (if query ''status'' = [] then Some 0 else ParseUint 16 (query ''status'')) of
                None \<Rightarrow> Inl InvalidStatus
              | Some status \<Rightarrow>
                  (let f = f\<lparr>tf_Status := word_of_nat status\<rparr>
                   in case (if query ''limit'' = [] then Some defaultTrafficEventLimit else Atoi (query ''limit'')) of
                        None \<Rightarrow> Inl InvalidLimit
                      | Some limit \<Rightarrow>
                          if limit \<le> 0 then Inl InvalidLimit
                          else Inr (f\<lparr>tf_Limit := (if limit > maxTrafficEventLimit then maxTrafficEventLimit else limit)\<rparr>)))"

section \<open>Queries\<close>

text \<open>An argument of a query is a string or a status.\<close>

datatype query_arg = ArgString string | ArgUInt16 uint16

definition where_conditions :: "trafficEventFilter \<Rightarrow> (string \<times> query_arg) list" where
  "where_conditions f =
     (if tf_RouteID f \<noteq> [] then [(''route_id = ?'', ArgString (tf_RouteID f))] else []) @
     (if tf_ProviderID f \<noteq> [] then [(''provider_id = ?'', ArgString (tf_ProviderID f))] else []) @
     (if tf_Direction f \<noteq> [] then [(''direction = ?'', ArgString (tf_Direction f))] else []) @
     (if tf_Status f \<noteq> 0 then [(''gateway_status = ?'', ArgUInt16 (tf_Status f))] else []) @
     (if tf_RiskLevel f \<noteq> [] then [(''risk_level = ?'', ArgString (tf_RiskLevel f))] else [])"

definition trafficEventWhereClause :: "trafficEventFilter \<Rightarrow> string \<times> query_arg list" where
  "trafficEventWhereClause f =
     (''WHERE '' @ join_with '' AND '' (''1 = 1'' # map fst (where_conditions f)), map snd (where_conditions f))"

text \<open>The lines of a query text, as the raw strings of the source have them.\<close>

definition query_line :: "nat \<Rightarrow> string \<Rightarrow> string" where
  "query_line tabs s = [CHR 0x0A] @ replicate tabs (CHR 0x09) @ s"

definition summary_query :: "string \<Rightarrow> string" where
  "summary_query where_clause =
     query_line 2 ''SELECT'' @ query_line 3 ''count(),'' @
     query_line 3 (''countIf(action = '' @ [CHR 0x27] @ ''block'' @ [CHR 0x27] @ ''),'') @
     query_line 3 (''countIf(error_type = '' @ [CHR 0x27] @ ''upstream_error'' @ [CHR 0x27] @ '' OR upstream_status >= 500),'') @
     query_line 3 ''countIf(fallback_triggered)'' @ query_line 2 ''FROM kiwiguard_traffic_events'' @ query_line 2 where_clause"

definition itemColumns :: "string list" where
  "itemColumns = [''event_time'', ''request_id'', ''correlation_id'', ''route_id'', ''provider_id'', ''direction'', ''action'',
     ''gateway_status'', ''upstream_status'', ''error_type'', ''block_reason'', ''risk_level'', ''requested_model'',
     ''mapped_model'', ''total_latency_ms'', ''verdict_latency_ms'', ''detector_latency_ms'', ''matched_span_count'',
     ''fallback_triggered'', ''request_hash'', ''response_hash'', ''request_payload'', ''response_payload'', ''spool_status'']"

definition items_query :: "string \<Rightarrow> nat \<Rightarrow> string" where
  "items_query where_clause limit =
     query_line 2 ''SELECT'' @ join_with '','' (map (query_line 3) itemColumns) @ query_line 2 ''FROM kiwiguard_traffic_events'' @
     query_line 2 where_clause @ query_line 2 ''ORDER BY event_time DESC'' @ query_line 2 (''LIMIT '' @ dec limit)"

section \<open>The reader\<close>

text \<open>The rows of an answer: for each row its scanned columns or the error of the scan, and the error the
  iteration ends with.\<close>

record ('e, 'row) rows =
  rows_scans :: "('e + 'row) list"
  rows_Err :: "'e option"

text \<open>A connection, by the two shapes of row that are scanned.\<close>

record ('e, 'w) traffic_conn =
  tc_summary :: "string \<Rightarrow> query_arg list \<Rightarrow> 'w \<Rightarrow> ('e + ('e, trafficEventsSummaryDTO) rows) \<times> 'w"
  tc_items :: "string \<Rightarrow> query_arg list \<Rightarrow> 'w \<Rightarrow> ('e + ('e, trafficEventDTO) rows) \<times> 'w"

datatype 'e reader_error = ReaderConnectionRequired | QuerySummaryFailed 'e | ScanSummaryFailed 'e | IterateSummaryFailed 'e
  | QueryItemsFailed 'e | ScanItemFailed 'e | IterateItemsFailed 'e

definition zero_summary :: trafficEventsSummaryDTO where
  "zero_summary = \<lparr>ts_Total = 0, ts_Blocked = 0, ts_UpstreamErrors = 0, ts_Fallbacks = 0\<rparr>"

definition querySummary ::
  "('e, 'w) traffic_conn option \<Rightarrow> string \<Rightarrow> query_arg list \<Rightarrow> 'w \<Rightarrow> ('e reader_error + trafficEventsSummaryDTO) \<times> 'w" where
  "querySummary conn where_clause args w =
     (case conn of
        None \<Rightarrow> (Inl ReaderConnectionRequired, w)
      | Some conn \<Rightarrow>
          (case tc_summary conn (summary_query where_clause) args w of
             (Inl e, w) \<Rightarrow> (Inl (QuerySummaryFailed e), w)
           | (Inr rs, w) \<Rightarrow>
               (case (case rows_scans rs of [] \<Rightarrow> Inr zero_summary | scan # _ \<Rightarrow> scan) of
                  Inl e \<Rightarrow> (Inl (ScanSummaryFailed e), w)
                | Inr summary \<Rightarrow>
                    (case rows_Err rs of
                       Some e \<Rightarrow> (Inl (IterateSummaryFailed e), w)
                     | None \<Rightarrow> (Inr summary, w)))))"

fun scan_items :: "('e + trafficEventDTO) list \<Rightarrow> trafficEventDTO list \<Rightarrow> 'e + trafficEventDTO list" where
  "scan_items [] items = Inr items"
| "scan_items (Inl e # scans) items = Inl e"
| "scan_items (Inr item # scans) items = scan_items scans (items @ [item])"

definition queryItems ::
  "('e, 'w) traffic_conn option \<Rightarrow> string \<Rightarrow> query_arg list \<Rightarrow> nat \<Rightarrow> 'w \<Rightarrow> ('e reader_error + trafficEventDTO list) \<times> 'w" where
  "queryItems conn where_clause args limit w =
     (case conn of
        None \<Rightarrow> (Inl ReaderConnectionRequired, w)
      | Some conn \<Rightarrow>
          (case tc_items conn (items_query where_clause limit) args w of
             (Inl e, w) \<Rightarrow> (Inl (QueryItemsFailed e), w)
           | (Inr rs, w) \<Rightarrow>
               (case scan_items (rows_scans rs) [] of
                  Inl e \<Rightarrow> (Inl (ScanItemFailed e), w)
                | Inr items \<Rightarrow>
                    (case rows_Err rs of
                       Some e \<Rightarrow> (Inl (IterateItemsFailed e), w)
                     | None \<Rightarrow> (Inr items, w)))))"

definition clamp_limit :: "int \<Rightarrow> int" where
  "clamp_limit limit =
     (let limit = (if limit \<le> 0 then defaultTrafficEventLimit else limit)
      in if limit > maxTrafficEventLimit then maxTrafficEventLimit else limit)"

definition ListTrafficEvents ::
  "('e, 'w) traffic_conn option \<Rightarrow> trafficEventFilter \<Rightarrow> 'w \<Rightarrow> ('e reader_error + trafficEventsResponse) \<times> 'w" where
  "ListTrafficEvents conn f w =
     (let f = f\<lparr>tf_Limit := clamp_limit (tf_Limit f)\<rparr>;
          (where_clause, args) = trafficEventWhereClause f
      in case querySummary conn where_clause args w of
           (Inl e, w) \<Rightarrow> (Inl e, w)
         | (Inr summary, w) \<Rightarrow>
             (case queryItems conn where_clause args (nat (tf_Limit f)) w of
                (Inl e, w) \<Rightarrow> (Inl e, w)
              | (Inr items, w) \<Rightarrow> (Inr \<lparr>tr_Items = items, tr_Summary = summary\<rparr>, w)))"

definition SummarizeTrafficEvents ::
  "('e, 'w) traffic_conn option \<Rightarrow> trafficEventFilter \<Rightarrow> 'w \<Rightarrow> ('e reader_error + trafficEventsSummaryDTO) \<times> 'w" where
  "SummarizeTrafficEvents conn f w =
     (let (where_clause, args) = trafficEventWhereClause f in querySummary conn where_clause args w)"

text \<open>
  The properties of reading traffic events: limits are bounded, values never reach the text of a query,
  and the queries fit the table that the schema check admits.
\<close>

lemma parsed_filter:
  assumes "parseTrafficEventFilter query = Inr f"
  shows "1 \<le> tf_Limit f \<and> tf_Limit f \<le> 200 \<and> tf_Direction f \<in> {[], ''input'', ''output''} \<and> clamp_limit (tf_Limit f) = tf_Limit f"
  using assms
  by (auto simp: parseTrafficEventFilter_def Let_def clamp_limit_def defaultTrafficEventLimit_def maxTrafficEventLimit_def
      split: if_splits option.splits)

definition same_shape :: "trafficEventFilter \<Rightarrow> trafficEventFilter \<Rightarrow> bool" where
  "same_shape f g \<longleftrightarrow> (tf_RouteID f = []) = (tf_RouteID g = []) \<and> (tf_ProviderID f = []) = (tf_ProviderID g = []) \<and>
     (tf_Direction f = []) = (tf_Direction g = []) \<and> (tf_Status f = 0) = (tf_Status g = 0) \<and> (tf_RiskLevel f = []) = (tf_RiskLevel g = [])"

lemma count_join: "c \<notin> set sep \<Longrightarrow> count_list (join_with sep xs) c = sum_list (map (\<lambda>x. count_list x c) xs)"
proof -
  assume c: "c \<notin> set sep"
  have "count_list (concat (map (\<lambda>z. sep @ z) ys)) c = sum_list (map (\<lambda>x. count_list x c) ys)" for ys
    using c by (induction ys) (simp_all add: count_list_append count_notin)
  then show ?thesis by (simp add: join_with_def count_list_append split: list.split)
qed

definition arg_kind :: "query_arg \<Rightarrow> value_kind" where
  "arg_kind a = (case a of ArgString _ \<Rightarrow> KString | ArgUInt16 _ \<Rightarrow> KUInt16)"

definition item_kinds :: "value_kind list" where
  "item_kinds = [KTime, KString, KString, KString, KString, KString, KString, KUInt16, KUInt16, KString, KString, KString,
     KString, KString, KUInt32, KUInt32, KUInt32, KUInt32, KBool, KString, KString, KString, KString, KString]"

text \<open>The values of an item in the order in which its columns are scanned.\<close>

definition item_values :: "trafficEventDTO \<Rightarrow> column_value list" where
  "item_values i = [VTime (te_EventTime i), VString (te_RequestID i), VString (te_CorrelationID i), VString (te_RouteID i),
     VString (te_ProviderID i), VString (te_Direction i), VString (te_Action i), VUInt16 (te_GatewayStatus i),
     VUInt16 (te_UpstreamStatus i), VString (te_ErrorType i), VString (te_BlockReason i), VString (te_RiskLevel i),
     VString (te_RequestedModel i), VString (te_MappedModel i), VUInt32 (te_LatencyMS i), VUInt32 (te_VerdictLatencyMS i),
     VUInt32 (te_DetectorLatencyMS i), VUInt32 (te_MatchedSpanCount i), VBool (te_FallbackTriggered i), VString (te_RequestHash i),
     VString (te_ResponseHash i), VString (te_RequestPayload i), VString (te_ResponsePayload i), VString (te_SpoolStatus i)]"

lemma item_kinds: "map kind_of (item_values i) = item_kinds"
  by (simp add: item_values_def item_kinds_def kind_of_def)

lemma items_fit: "list_all2 column_fits itemColumns item_kinds"
  by code_simp

lemma conditions_fit:
  "c \<in> set (where_conditions f) \<Longrightarrow> \<exists>col. fst c = col @ '' = ?'' \<and> column_fits col (arg_kind (snd c))"
proof -
  have fits: "column_fits ''route_id'' KString" "column_fits ''provider_id'' KString" "column_fits ''direction'' KString"
    "column_fits ''gateway_status'' KUInt16" "column_fits ''risk_level'' KString" by code_simp+
  let ?P = "\<lambda>c. \<exists>col. fst c = col @ '' = ?'' \<and> column_fits col (arg_kind (snd c))"
  have "?P (''route_id = ?'', ArgString v)" "?P (''provider_id = ?'', ArgString v)" "?P (''direction = ?'', ArgString v)"
    "?P (''gateway_status = ?'', ArgUInt16 n)" "?P (''risk_level = ?'', ArgString v)" for v n
    using fits(1) fits(2) fits(3) fits(4) fits(5)
    by (auto simp: arg_kind_def
        intro: exI [of _ "''route_id''"] exI [of _ "''provider_id''"] exI [of _ "''direction''"] exI [of _ "''gateway_status''"] exI [of _ "''risk_level''"])
  then show "c \<in> set (where_conditions f) \<Longrightarrow> ?P c" by (auto simp: where_conditions_def split: if_splits)
qed


definition sample_filter :: "string \<Rightarrow> trafficEventFilter" where
  "sample_filter direction = zero_filter\<lparr>tf_Direction := direction, tf_Status := 502\<rparr>"

definition sample_item :: trafficEventDTO where
  "sample_item = \<lparr>te_EventTime = 0, te_RequestID = [], te_CorrelationID = [], te_RouteID = [], te_ProviderID = [], te_Direction = [],
     te_Action = [], te_GatewayStatus = 502, te_UpstreamStatus = 0, te_ErrorType = [], te_BlockReason = [], te_RiskLevel = [],
     te_RequestedModel = [], te_MappedModel = [], te_LatencyMS = 0, te_VerdictLatencyMS = 0, te_DetectorLatencyMS = 0,
     te_MatchedSpanCount = 0, te_FallbackTriggered = False, te_RequestHash = [], te_ResponseHash = [], te_RequestPayload = [],
     te_ResponsePayload = [], te_SpoolStatus = []\<rparr>"


end
