(* ===== verification/ControlHttp.thy ===== *)
theory ControlHttp
  imports Control Http TrafficReader
begin

text \<open>
  The HTTP adapter of the control plane, \<open>internal/contexts/control/adapters/httpapi\<close>: the data transfer
  types of \<open>policy\_dto.go\<close>, their conversions, the handlers, the health check, the console summary, and
  the server with its bearer token and its table of routes.

  Types that Go converts to the application's by a plain conversion are those types.  Decoding a JSON body
  is a parameter, one decoder for every type; a response keeps its body as a value.  The router is a
  parameter too: it picks an entry of the table of routes and the parameters of its pattern.  The store
  is any repository with the state \<open>'s\<close>; which of its errors \<open>errors.Is\<close> recognises is an argument.
\<close>

section \<open>Data transfer types\<close>

record scopeDTO =
  dto_RouteKey :: string
  dto_Provider :: string
  dto_Model :: string
  dto_Direction :: string

record ruleDTO =
  dto_rule_Key :: string
  dto_Enabled :: bool
  dto_Severity :: string
  dto_Action :: string
  dto_DetectorKeys :: "string list"
  dto_Scope :: scopeDTO

record detectorDTO =
  dto_detector_Key :: string
  dto_Kind :: string
  dto_Pattern :: string
  dto_Categories :: "string list"

record policyBundleDTO =
  dto_Key :: string
  dto_Version :: string
  dto_Source :: string
  dto_DefaultAction :: string
  dto_Detectors :: "detectorDTO list"
  dto_Rules :: "ruleDTO list"

type_synonym modelMappingDTO = ControlTypes.ModelMapping
type_synonym verdictProviderDTO = ControlTypes.VerdictProvider
type_synonym gatewayClientDTO = GatewayClient
type_synonym createGatewayClientRequest = CreateGatewayClientRequest
type_synonym routeLimitDTO = RouteLimit
type_synonym clientRouteLimitDTO = ClientRouteLimit

record policyActivationRequest =
  dto_act_Keys :: "string list"
  dto_act_Reason :: string

record policyDryRunRequest =
  dto_dry_RouteKey :: string
  dto_dry_Provider :: string
  dto_dry_Model :: string
  dto_dry_Direction :: string
  dto_dry_Text :: string
  dto_dry_Bundle :: policyBundleDTO

record regexTestRequest =
  dto_re_Pattern :: string
  dto_re_Text :: string

record regexMatchDTO =
  dto_match_Start :: nat
  dto_match_End :: nat
  dto_match_Text :: string

record findingDTO =
  dto_DetectorKey :: string
  dto_Category :: string
  dto_Start :: int
  dto_End :: int
  dto_ValueHash :: string

record ruleHitDTO =
  dto_hit_BundleKey :: string
  dto_hit_RuleKey :: string
  dto_hit_Severity :: string
  dto_hit_Action :: string
  dto_hit_Findings :: "findingDTO list"

record decisionDTO =
  dto_dec_Action :: string
  dto_dec_DefaultAction :: string
  dto_dec_RuleHits :: "ruleHitDTO list"
  dto_dec_Findings :: "findingDTO list"
  dto_dec_ModelSignalApplied :: bool
  dto_dec_SnapshotHash :: string
  dto_dec_BundleKeys :: "string list"

section \<open>Conversions\<close>

definition detectorToApp :: "detectorDTO \<Rightarrow> ControlDetector" where
  "detectorToApp d =
     \<lparr>cd_Key = dto_detector_Key d, cd_Kind = dto_Kind d, cd_Pattern = dto_Pattern d, cd_Categories = dto_Categories d\<rparr>"

definition ruleToApp :: "ruleDTO \<Rightarrow> ControlRule" where
  "ruleToApp r =
     \<lparr>cr_Key = dto_rule_Key r, cr_Enabled = dto_Enabled r, cr_Severity = dto_Severity r, cr_Action = dto_Action r,
      cr_DetectorKeys = dto_DetectorKeys r,
      cr_Scope = \<lparr>cs_RouteKey = dto_RouteKey (dto_Scope r), cs_Provider = dto_Provider (dto_Scope r),
        cs_Model = dto_Model (dto_Scope r), cs_Direction = dto_Direction (dto_Scope r)\<rparr>\<rparr>"

definition policyBundleToApp :: "policyBundleDTO \<Rightarrow> PolicyBundle" where
  "policyBundleToApp b =
     \<lparr>pb_Key = dto_Key b, pb_Version = dto_Version b, pb_Source = dto_Source b, pb_DefaultAction = dto_DefaultAction b,
      pb_Detectors = map detectorToApp (dto_Detectors b), pb_Rules = map ruleToApp (dto_Rules b)\<rparr>"

definition detectorFromApp :: "ControlDetector \<Rightarrow> detectorDTO" where
  "detectorFromApp d =
     \<lparr>dto_detector_Key = cd_Key d, dto_Kind = cd_Kind d, dto_Pattern = cd_Pattern d, dto_Categories = cd_Categories d\<rparr>"

definition ruleFromApp :: "ControlRule \<Rightarrow> ruleDTO" where
  "ruleFromApp r =
     \<lparr>dto_rule_Key = cr_Key r, dto_Enabled = cr_Enabled r, dto_Severity = cr_Severity r, dto_Action = cr_Action r,
      dto_DetectorKeys = cr_DetectorKeys r,
      dto_Scope = \<lparr>dto_RouteKey = cs_RouteKey (cr_Scope r), dto_Provider = cs_Provider (cr_Scope r),
        dto_Model = cs_Model (cr_Scope r), dto_Direction = cs_Direction (cr_Scope r)\<rparr>\<rparr>"

definition policyBundleFromApp :: "PolicyBundle \<Rightarrow> policyBundleDTO" where
  "policyBundleFromApp b =
     \<lparr>dto_Key = pb_Key b, dto_Version = pb_Version b, dto_Source = pb_Source b, dto_DefaultAction = pb_DefaultAction b,
      dto_Detectors = map detectorFromApp (pb_Detectors b), dto_Rules = map ruleFromApp (pb_Rules b)\<rparr>"

definition policyActivationRequestToApp :: "policyActivationRequest \<Rightarrow> PolicyActivationRequest" where
  "policyActivationRequestToApp r = \<lparr>ar_Keys = dto_act_Keys r, ar_Reason = dto_act_Reason r, ar_SnapshotHash = []\<rparr>"

definition policyDryRunRequestToApp :: "policyDryRunRequest \<Rightarrow> PolicyDryRunRequest" where
  "policyDryRunRequestToApp r =
     \<lparr>dr_RouteKey = dto_dry_RouteKey r, dr_Provider = dto_dry_Provider r, dr_Model = dto_dry_Model r,
      dr_Direction = dto_dry_Direction r, dr_Text = dto_dry_Text r, dr_Bundle = policyBundleToApp (dto_dry_Bundle r)\<rparr>"

definition toFindingDTOs :: "Finding list \<Rightarrow> findingDTO list" where
  "toFindingDTOs findings =
     map (\<lambda>f. \<lparr>dto_DetectorKey = fnd_DetectorKey f, dto_Category = fnd_Category f, dto_Start = fnd_Start f, dto_End = fnd_End f,
            dto_ValueHash = fnd_ValueHash f\<rparr>) findings"

definition toDecisionDTO :: "Decision \<Rightarrow> decisionDTO" where
  "toDecisionDTO d =
     \<lparr>dto_dec_Action = dec_Action d, dto_dec_DefaultAction = dec_DefaultAction d,
      dto_dec_RuleHits = map (\<lambda>h. \<lparr>dto_hit_BundleKey = hit_BundleKey h, dto_hit_RuleKey = hit_RuleKey h, dto_hit_Severity = hit_Severity h,
          dto_hit_Action = hit_Action h, dto_hit_Findings = toFindingDTOs (hit_Findings h)\<rparr>) (dec_RuleHits d),
      dto_dec_Findings = toFindingDTOs (dec_Findings d), dto_dec_ModelSignalApplied = dec_ModelSignalApplied d,
      dto_dec_SnapshotHash = dec_SnapshotHash d, dto_dec_BundleKeys = dec_BundleKeys d\<rparr>"

section \<open>Health, spool and summary types\<close>

record SpoolStatus =
  ss_Enabled :: bool
  ss_Status :: string
  ss_Reason :: string
  ss_Depth :: int
  ss_Bytes :: int
  ss_MaxBytes :: int
  ss_OldestAgeSeconds :: rat
  ss_OverflowCount :: uint64

record healthCheck =
  hc_Status :: string
  hc_Reason :: string
  hc_Depth :: int
  hc_Bytes :: int
  hc_MaxBytes :: int
  hc_OldestAgeSeconds :: rat
  hc_OverflowCount :: uint64

record healthResponse =
  hr_Status :: string
  hr_Version :: string
  hr_Timestamp :: string
  hr_Checks :: "(string \<times> healthCheck) list"

record consoleSummary =
  su_Version :: string
  su_ActivePolicyBundleKeys :: "string list"
  su_PolicySnapshotHash :: string
  su_ConfigAvailable :: bool
  su_ActiveBundleKeyCount :: nat
  su_BundleCount :: nat
  su_ModelMappingCount :: nat
  su_VerdictProviderCount :: nat
  su_Traffic :: trafficEventsSummaryDTO
  su_Storage :: "SpoolStatus option"

section \<open>Responses\<close>

text \<open>The text of an error: a constant of the handler, the text of an error of the service, or the text
  of the error with which a pattern does not compile.\<close>

datatype 'e message = Literal string | ErrorText "'e service_error" | PatternText string

datatype 'e control_body =
    ErrorBody string "'e message"
  | StatusBody ConfigStatus
  | BundlesBody "policyBundleDTO list"
  | BundleBody policyBundleDTO
  | ValidationBody bool "'e message" string
  | ActivationBody PolicyActivationResponse
  | MappingsBody "modelMappingDTO list"
  | MappingBody modelMappingDTO
  | ProvidersBody "verdictProviderDTO list"
  | ProviderBody verdictProviderDTO
  | ClientsBody "gatewayClientDTO list"
  | ClientBody gatewayClientDTO
  | CreatedClientBody CreateGatewayClientResponse
  | RouteLimitsBody "routeLimitDTO list"
  | RouteLimitBody routeLimitDTO
  | ClientLimitsBody "clientRouteLimitDTO list"
  | ClientLimitBody clientRouteLimitDTO
  | MatchesBody "regexMatchDTO list"
  | DecisionBody decisionDTO
  | HealthBody healthResponse
  | SummaryBody consoleSummary
  | EventsBody trafficEventsResponse
  | SpoolBody SpoolStatus
  | NoBody
  | OtherBody string

record 'e control_response =
  an_status :: nat
  an_json :: bool
  an_body :: "'e control_body"

definition writeJSON :: "nat \<Rightarrow> 'e control_body \<Rightarrow> 'e control_response" where
  "writeJSON status body = \<lparr>an_status = status, an_json = True, an_body = body\<rparr>"

definition writeError :: "nat \<Rightarrow> string \<Rightarrow> 'e message \<Rightarrow> 'e control_response" where
  "writeError status code m = writeJSON status (ErrorBody code m)"

section \<open>Requests\<close>

text \<open>A request, with the path of its URL and the encoded one, which is empty unless it differs from the
  default encoding, and with the parameters the router found; and the decoders of its body.\<close>

record control_request =
  cq_method :: string
  cq_path :: string
  cq_raw_path :: string
  cq_header :: header
  cq_query :: "string \<Rightarrow> string"
  cq_body :: string
  cq_param :: "string \<Rightarrow> string"

record control_codec =
  cj_bundle :: "string \<Rightarrow> policyBundleDTO option"
  cj_activation :: "string \<Rightarrow> policyActivationRequest option"
  cj_mapping :: "string \<Rightarrow> modelMappingDTO option"
  cj_provider :: "string \<Rightarrow> verdictProviderDTO option"
  cj_client :: "string \<Rightarrow> gatewayClientDTO option"
  cj_create_client :: "string \<Rightarrow> createGatewayClientRequest option"
  cj_route_limit :: "string \<Rightarrow> routeLimitDTO option"
  cj_client_limit :: "string \<Rightarrow> clientRouteLimitDTO option"
  cj_regex :: "string \<Rightarrow> regexTestRequest option"
  cj_dry_run :: "string \<Rightarrow> policyDryRunRequest option"

text \<open>Which errors of the store wrap the sentinel errors.\<close>

record 'e store_errors =
  se_invalid :: "'e \<Rightarrow> bool"
  se_not_found :: "'e \<Rightarrow> bool"
  se_exists :: "'e \<Rightarrow> bool"

definition is_invalid_input :: "'e store_errors \<Rightarrow> 'e service_error \<Rightarrow> bool" where
  "is_invalid_input X e = (case e of InvalidInput _ \<Rightarrow> True | PolicyBundleNotFound \<Rightarrow> False | RepositoryError e \<Rightarrow> se_invalid X e)"

definition is_client_not_found :: "'e store_errors \<Rightarrow> 'e service_error \<Rightarrow> bool" where
  "is_client_not_found X e = (case e of RepositoryError e \<Rightarrow> se_not_found X e | _ \<Rightarrow> False)"

definition is_client_exists :: "'e store_errors \<Rightarrow> 'e service_error \<Rightarrow> bool" where
  "is_client_exists X e = (case e of RepositoryError e \<Rightarrow> se_exists X e | _ \<Rightarrow> False)"

section \<open>Helpers\<close>

definition normalizePathID :: "string \<Rightarrow> string \<Rightarrow> 'e control_response + string" where
  "normalizePathID pathID bodyID =
     (if bodyID \<noteq> [] \<and> bodyID \<noteq> pathID
      then Inl (writeError 400 ''id_mismatch'' (Literal ''path id and body id must match''))
      else Inr pathID)"

definition decodeJSON :: "(string \<Rightarrow> 'a option) \<Rightarrow> control_request \<Rightarrow> 'e control_response + 'a" where
  "decodeJSON decode q =
     (case decode (cq_body q) of
        None \<Rightarrow> Inl (writeError 400 ''invalid_json'' (Literal ''invalid json''))
      | Some x \<Rightarrow> Inr x)"

definition writeGatewayClientStoreError :: "'e store_errors \<Rightarrow> 'e service_error \<Rightarrow> string \<Rightarrow> 'e message \<Rightarrow> 'e control_response" where
  "writeGatewayClientStoreError X e fallbackCode fallbackMessage =
     (if is_invalid_input X e then writeError 400 fallbackCode (ErrorText e)
      else if is_client_not_found X e then writeError 404 ''gateway_client_not_found'' (Literal ''gateway client not found'')
      else if is_client_exists X e then writeError 409 ''gateway_client_exists'' (Literal ''gateway client already exists'')
      else writeError 500 fallbackCode fallbackMessage)"

definition gatewayClientErrorMessage :: "'e store_errors \<Rightarrow> 'e service_error \<Rightarrow> string \<Rightarrow> 'e message" where
  "gatewayClientErrorMessage X e fallback = (if is_invalid_input X e then ErrorText e else Literal fallback)"

definition gatewayClientErrorCode :: "'e store_errors \<Rightarrow> 'e service_error \<Rightarrow> string \<Rightarrow> string" where
  "gatewayClientErrorCode X e fallback = (if is_invalid_input X e then ''invalid_gateway_client'' else fallback)"

definition policyBundleStatus :: "'e store_errors \<Rightarrow> 'e service_error \<Rightarrow> nat" where
  "policyBundleStatus X e = (if is_invalid_input X e then 400 else 500)"

definition policyBundleErrorCode :: "'e store_errors \<Rightarrow> 'e service_error \<Rightarrow> string \<Rightarrow> string" where
  "policyBundleErrorCode X e fallback = (if is_invalid_input X e then ''invalid_policy_bundle'' else fallback)"

definition activationStatus :: "'e store_errors \<Rightarrow> 'e service_error \<Rightarrow> nat" where
  "activationStatus X e = (if is_client_not_found X e then 404 else 400)"

definition verdictProviderStatus :: "'e store_errors \<Rightarrow> 'e service_error \<Rightarrow> nat" where
  "verdictProviderStatus X e = (if is_invalid_input X e then 400 else 500)"

definition verdictProviderErrorCode :: "'e store_errors \<Rightarrow> 'e service_error \<Rightarrow> string" where
  "verdictProviderErrorCode X e = (if is_invalid_input X e then ''unsupported_verdict_provider_mode'' else ''put_verdict_provider_failed'')"

definition routeLimitStatus :: "'e store_errors \<Rightarrow> 'e service_error \<Rightarrow> nat" where
  "routeLimitStatus X e = (if is_invalid_input X e then 400 else 500)"

definition routeLimitErrorCode :: "'e store_errors \<Rightarrow> 'e service_error \<Rightarrow> string \<Rightarrow> string" where
  "routeLimitErrorCode X e fallback = (if is_invalid_input X e then ''invalid_route_limit'' else fallback)"

definition clientRouteLimitErrorCode :: "'e store_errors \<Rightarrow> 'e service_error \<Rightarrow> string \<Rightarrow> string" where
  "clientRouteLimitErrorCode X e fallback = (if is_invalid_input X e then ''invalid_client_route_limit'' else fallback)"

end
