(* ===== verification/ControlServer.thy ===== *)
theory ControlServer
  imports ControlHttp
begin

text \<open>
  The handlers of the control plane and its server: \<open>policies.go\<close>, \<open>policy\_bundles\_http.go\<close>,
  \<open>policy\_gateway\_clients\_http.go\<close>, \<open>policy\_model\_mappings\_http.go\<close>, \<open>policy\_verdict\_providers\_http.go\<close>,
  \<open>policy\_route\_limits\_http.go\<close>, \<open>policy\_tools\_http.go\<close>, \<open>health.go\<close>, \<open>spool.go\<close>, \<open>traffic.go\<close>,
  \<open>console\_summary.go\<close> and \<open>server.go\<close>.
\<close>

text \<open>What the handlers of the policy controller are given.\<close>

record ('e, 's) controller =
  pc_compiler :: policy_compiler
  pc_store :: "('e, 's) ControlRepository"
  pc_errors :: "'e store_errors"
  pc_codec :: control_codec
  pc_notifier :: "(int \<Rightarrow> bool) option"

type_synonym ('e, 's) handler = "control_request \<Rightarrow> 's \<Rightarrow> 'e control_response \<times> 's"

text \<open>A listing, and the frame of a handler that decodes its body first.\<close>

definition list_answer :: "string \<Rightarrow> string \<Rightarrow> ('a \<Rightarrow> 'e control_body) \<Rightarrow> ('e service_error + 'a) \<times> 's \<Rightarrow> 'e control_response \<times> 's" where
  "list_answer code m body out =
     (case out of (Inl e, s) \<Rightarrow> (writeError 500 code (Literal m), s) | (Inr x, s) \<Rightarrow> (writeJSON 200 (body x), s))"

definition with_body :: "'e control_response + 'a \<Rightarrow> ('a \<Rightarrow> 's \<Rightarrow> 'e control_response \<times> 's) \<Rightarrow> 's \<Rightarrow> 'e control_response \<times> 's" where
  "with_body r f s = (case r of Inl answer \<Rightarrow> (answer, s) | Inr x \<Rightarrow> f x s)"

section \<open>Bundles\<close>

definition handle_configStatus :: "('e, 's) controller \<Rightarrow> ('e, 's) handler" where
  "handle_configStatus K q s =
     list_answer ''config_status_failed'' ''config status failed'' StatusBody (Service_ConfigStatus (pc_store K) s)"

definition handle_listPolicyBundles :: "('e, 's) controller \<Rightarrow> ('e, 's) handler" where
  "handle_listPolicyBundles K q s =
     list_answer ''list_policy_bundles_failed'' ''list policy bundles failed'' (\<lambda>bs. BundlesBody (map policyBundleFromApp bs))
       (Service_ListPolicyBundles (pc_store K) s)"

definition handle_createPolicyBundle :: "('e, 's) controller \<Rightarrow> ('e, 's) handler" where
  "handle_createPolicyBundle K q =
     with_body (decodeJSON (cj_bundle (pc_codec K)) q) (\<lambda>bundle s.
       case Service_CreatePolicyBundle (pc_compiler K) (pc_store K) (policyBundleToApp bundle) s of
         (Inl e, s) \<Rightarrow>
           (writeError (policyBundleStatus (pc_errors K) e) (policyBundleErrorCode (pc_errors K) e ''create_policy_bundle_failed'') (ErrorText e), s)
       | (Inr _, s) \<Rightarrow> (writeJSON 201 (BundleBody bundle), s))"

definition handle_validatePolicyBundle :: "('e, 's) controller \<Rightarrow> ('e, 's) handler" where
  "handle_validatePolicyBundle K q =
     with_body (decodeJSON (cj_bundle (pc_codec K)) q) (\<lambda>bundle s.
       case ValidatePolicyBundle (pc_compiler K) (policyBundleToApp bundle) of
         Inl e \<Rightarrow> (writeJSON 200 (ValidationBody False (ErrorText (InvalidInput e)) []), s)
       | Inr hash \<Rightarrow> (writeJSON 200 (ValidationBody True (Literal []) hash), s))"

definition handle_activatePolicyBundles :: "('e, 's) controller \<Rightarrow> ('e, 's) handler" where
  "handle_activatePolicyBundles K q =
     with_body (decodeJSON (cj_activation (pc_codec K)) q) (\<lambda>request s.
       case Service_ActivatePolicyBundles (pc_compiler K) (pc_store K) (pc_notifier K) (policyActivationRequestToApp request) s of
         (Inl e, s) \<Rightarrow> (writeError (activationStatus (pc_errors K) e) ''activate_policy_bundles_failed'' (ErrorText e), s)
       | (Inr response, s) \<Rightarrow> (writeJSON 200 (ActivationBody response), s))"

section \<open>Mappings and verdict providers\<close>

definition handle_listModelMappings :: "('e, 's) controller \<Rightarrow> ('e, 's) handler" where
  "handle_listModelMappings K q s =
     list_answer ''list_model_mappings_failed'' ''list model mappings failed'' MappingsBody (Service_ListModelMappings (pc_store K) s)"

definition handle_putModelMapping :: "('e, 's) controller \<Rightarrow> ('e, 's) handler" where
  "handle_putModelMapping K q =
     with_body (decodeJSON (cj_mapping (pc_codec K)) q) (\<lambda>mapping.
     with_body (normalizePathID (cq_param q ''id'') (mm_ID mapping)) (\<lambda>id s.
       let mapping = mapping\<lparr>mm_ID := id\<rparr>
       in case Service_PutModelMapping (pc_store K) mapping s of
            (Inl e, s) \<Rightarrow> (writeError 500 ''put_model_mapping_failed'' (Literal ''put model mapping failed''), s)
          | (Inr _, s) \<Rightarrow> (writeJSON 200 (MappingBody mapping), s)))"

definition handle_listVerdictProviders :: "('e, 's) controller \<Rightarrow> ('e, 's) handler" where
  "handle_listVerdictProviders K q s =
     list_answer ''list_verdict_providers_failed'' ''list verdict providers failed'' ProvidersBody (Service_ListVerdictProviders (pc_store K) s)"

definition handle_putVerdictProvider :: "('e, 's) controller \<Rightarrow> ('e, 's) handler" where
  "handle_putVerdictProvider K q =
     with_body (decodeJSON (cj_provider (pc_codec K)) q) (\<lambda>provider.
     with_body (normalizePathID (cq_param q ''id'') (vp_ID provider)) (\<lambda>id s.
       let provider = provider\<lparr>vp_ID := id\<rparr>
       in case Service_PutVerdictProvider (pc_store K) provider s of
            (Inl e, s) \<Rightarrow> (writeError (verdictProviderStatus (pc_errors K) e) (verdictProviderErrorCode (pc_errors K) e) (ErrorText e), s)
          | (Inr _, s) \<Rightarrow> (writeJSON 200 (ProviderBody (provider\<lparr>vp_Mode := ''inline''\<rparr>)), s)))"

section \<open>Clients\<close>

definition handle_listGatewayClients :: "('e, 's) controller \<Rightarrow> ('e, 's) handler" where
  "handle_listGatewayClients K q s =
     list_answer ''list_gateway_clients_failed'' ''list gateway clients failed'' ClientsBody (Service_ListGatewayClients (pc_store K) s)"

definition handle_createGatewayClient :: "('e, 's) controller \<Rightarrow> ('e, 's) handler" where
  "handle_createGatewayClient K q =
     with_body (decodeJSON (cj_create_client (pc_codec K)) q) (\<lambda>request s.
       case Service_CreateGatewayClient (pc_store K) request s of
         (Inl e, s) \<Rightarrow>
           (writeGatewayClientStoreError (pc_errors K) e (gatewayClientErrorCode (pc_errors K) e ''create_gateway_client_failed'')
              (gatewayClientErrorMessage (pc_errors K) e ''create gateway client failed''), s)
       | (Inr response, s) \<Rightarrow> (writeJSON 201 (CreatedClientBody response), s))"

definition handle_patchGatewayClient :: "('e, 's) controller \<Rightarrow> ('e, 's) handler" where
  "handle_patchGatewayClient K q =
     with_body (decodeJSON (cj_client (pc_codec K)) q) (\<lambda>client.
     with_body (normalizePathID (TrimSpace (cq_param q ''client_id'')) (gc_ID client)) (\<lambda>id s.
       case Service_PatchGatewayClient (pc_store K) (client\<lparr>gc_ID := id\<rparr>) s of
         (Inl e, s) \<Rightarrow>
           (writeGatewayClientStoreError (pc_errors K) e (gatewayClientErrorCode (pc_errors K) e ''patch_gateway_client_failed'')
              (gatewayClientErrorMessage (pc_errors K) e ''patch gateway client failed''), s)
       | (Inr updated, s) \<Rightarrow> (writeJSON 200 (ClientBody updated), s)))"

definition handle_revokeGatewayClient :: "('e, 's) controller \<Rightarrow> ('e, 's) handler" where
  "handle_revokeGatewayClient K q s =
     (let clientID = TrimSpace (cq_param q ''client_id'')
      in if clientID = [] then (writeError 400 ''invalid_gateway_client'' (Literal ''client_id is required''), s)
         else case Service_RevokeGatewayClient (pc_store K) clientID s of
                (Inl e, s) \<Rightarrow>
                  (writeGatewayClientStoreError (pc_errors K) e ''revoke_gateway_client_failed'' (Literal ''revoke gateway client failed''), s)
              | (Inr client, s) \<Rightarrow> (writeJSON 200 (ClientBody client), s))"

section \<open>Limits\<close>

definition handle_listRouteLimits :: "('e, 's) controller \<Rightarrow> ('e, 's) handler" where
  "handle_listRouteLimits K q s =
     list_answer ''list_route_limits_failed'' ''list route limits failed'' RouteLimitsBody (Service_ListRouteLimits (pc_store K) s)"

definition handle_putRouteLimit :: "('e, 's) controller \<Rightarrow> ('e, 's) handler" where
  "handle_putRouteLimit K q =
     with_body (decodeJSON (cj_route_limit (pc_codec K)) q) (\<lambda>limit.
     with_body (normalizePathID (TrimSpace (cq_param q ''route_key'')) (rl_RouteKey limit)) (\<lambda>key s.
       case Service_PutRouteLimit (pc_store K) (limit\<lparr>rl_RouteKey := key\<rparr>) s of
         (Inl e, s) \<Rightarrow> (writeError (routeLimitStatus (pc_errors K) e) (routeLimitErrorCode (pc_errors K) e ''put_route_limit_failed'') (ErrorText e), s)
       | (Inr saved, s) \<Rightarrow> (writeJSON 200 (RouteLimitBody saved), s)))"

definition handle_listClientRouteLimits :: "('e, 's) controller \<Rightarrow> ('e, 's) handler" where
  "handle_listClientRouteLimits K q s =
     (let clientID = TrimSpace (cq_param q ''client_id'')
      in if clientID = [] then (writeError 400 ''invalid_client_route_limit'' (Literal ''client_id is required''), s)
         else case Service_ListClientRouteLimits (pc_store K) clientID s of
                (Inl e, s) \<Rightarrow>
                  (writeGatewayClientStoreError (pc_errors K) e ''list_client_route_limits_failed'' (Literal ''list client route limits failed''), s)
              | (Inr items, s) \<Rightarrow> (writeJSON 200 (ClientLimitsBody items), s))"

definition handle_putClientRouteLimit :: "('e, 's) controller \<Rightarrow> ('e, 's) handler" where
  "handle_putClientRouteLimit K q =
     with_body (decodeJSON (cj_client_limit (pc_codec K)) q) (\<lambda>limit.
     with_body (normalizePathID (TrimSpace (cq_param q ''client_id'')) (crl_ClientID limit)) (\<lambda>clientID.
     with_body (normalizePathID (TrimSpace (cq_param q ''route_key'')) (crl_RouteKey limit)) (\<lambda>key s.
       case Service_PutClientRouteLimit (pc_store K) (limit\<lparr>crl_ClientID := clientID, crl_RouteKey := key\<rparr>) s of
         (Inl e, s) \<Rightarrow>
           (writeGatewayClientStoreError (pc_errors K) e (clientRouteLimitErrorCode (pc_errors K) e ''put_client_route_limit_failed'') (ErrorText e), s)
       | (Inr saved, s) \<Rightarrow> (writeJSON 200 (ClientLimitBody saved), s))))"

definition handle_deleteClientRouteLimit :: "('e, 's) controller \<Rightarrow> ('e, 's) handler" where
  "handle_deleteClientRouteLimit K q s =
     (let clientID = TrimSpace (cq_param q ''client_id'');
          routeKey = TrimSpace (cq_param q ''route_key'')
      in if clientID = [] then (writeError 400 ''invalid_client_route_limit'' (Literal ''client_id is required''), s)
         else if routeKey = [] then (writeError 400 ''invalid_client_route_limit'' (Literal ''route key is required''), s)
         else case Service_DeleteClientRouteLimit (pc_store K) clientID routeKey s of
                (Inl e, s) \<Rightarrow>
                  (writeGatewayClientStoreError (pc_errors K) e (clientRouteLimitErrorCode (pc_errors K) e ''delete_client_route_limit_failed'')
                     (ErrorText e), s)
              | (Inr _, s) \<Rightarrow> (\<lparr>an_status = 204, an_json = False, an_body = NoBody\<rparr>, s))"

section \<open>Tools\<close>

text \<open>Slicing the text panics out of range; \<open>None\<close> is the panic.\<close>

definition regex_matches :: "platform \<Rightarrow> string \<Rightarrow> string \<Rightarrow> regexMatchDTO list option" where
  "regex_matches P pattern subject =
     (let indexes = regexp_find_all P pattern subject
      in if list_all (\<lambda>(i, j). i \<le> j \<and> j \<le> length subject) indexes
         then Some (map (\<lambda>(i, j). \<lparr>dto_match_Start = i, dto_match_End = j, dto_match_Text = substr subject i j\<rparr>) indexes)
         else None)"

text \<open>A panic is answered by the recoverer of the router, with status 500 and no body.\<close>

definition recovered :: "'e control_response" where
  "recovered = \<lparr>an_status = 500, an_json = False, an_body = NoBody\<rparr>"

definition handle_regexTest :: "('e, 's) controller \<Rightarrow> ('e, 's) handler" where
  "handle_regexTest K q =
     with_body (decodeJSON (cj_regex (pc_codec K)) q) (\<lambda>request s.
       if \<not> regexp_compiles (pc_platform (pc_compiler K)) (dto_re_Pattern request)
       then (writeError 400 ''invalid_regex'' (PatternText (dto_re_Pattern request)), s)
       else case regex_matches (pc_platform (pc_compiler K)) (dto_re_Pattern request) (dto_re_Text request) of
              None \<Rightarrow> (recovered, s)
            | Some ms \<Rightarrow> (writeJSON 200 (MatchesBody ms), s))"

definition policyDryRunErrorCode :: "policyDryRunRequest \<Rightarrow> string" where
  "policyDryRunErrorCode request =
     (if dto_dry_Direction request \<noteq> ''input'' \<and> dto_dry_Direction request \<noteq> ''output'' then ''invalid_direction''
      else ''invalid_policy_bundle'')"

text \<open>Every error of \<open>PolicyDryRun\<close> is invalid input, so the branch of the handler for others is never taken.\<close>

definition handle_policyDryRun :: "('e, 's) controller \<Rightarrow> ('e, 's) handler" where
  "handle_policyDryRun K q =
     with_body (decodeJSON (cj_dry_run (pc_codec K)) q) (\<lambda>request s.
       case PolicyDryRun (pc_compiler K) (policyDryRunRequestToApp request) of
         Inl e \<Rightarrow> (writeError 400 (policyDryRunErrorCode request) (ErrorText (InvalidInput e)), s)
       | Inr response \<Rightarrow> (writeJSON 200 (DecisionBody (toDecisionDTO (dr_Decision response))), s))"

section \<open>Health and spool\<close>

text \<open>What the server asks about the process: readiness and audit health with their reasons, the spool,
  and the traffic reader over the world of its connection.  A nil dependency is \<open>None\<close>.\<close>

record ('te, 'w) control_world =
  cw_config :: "(bool \<times> string) option"
  cw_audit :: "(bool \<times> string) option"
  cw_spool :: "SpoolStatus option"
  cw_now :: string
  cw_list :: "(trafficEventFilter \<Rightarrow> 'w \<Rightarrow> ('te + trafficEventsResponse) \<times> 'w) option"
  cw_summarize :: "(trafficEventFilter \<Rightarrow> 'w \<Rightarrow> ('te + trafficEventsSummaryDTO) \<times> 'w) option"
  cw_traffic :: 'w

definition plain_check :: "string \<Rightarrow> string \<Rightarrow> healthCheck" where
  "plain_check status reason =
     \<lparr>hc_Status = status, hc_Reason = reason, hc_Depth = 0, hc_Bytes = 0, hc_MaxBytes = 0, hc_OldestAgeSeconds = 0, hc_OverflowCount = 0\<rparr>"

definition spool_check :: "SpoolStatus \<Rightarrow> healthCheck" where
  "spool_check spool =
     \<lparr>hc_Status = (if ss_Status spool = [] then ''unknown'' else ss_Status spool), hc_Reason = ss_Reason spool, hc_Depth = ss_Depth spool,
      hc_Bytes = ss_Bytes spool, hc_MaxBytes = ss_MaxBytes spool, hc_OldestAgeSeconds = ss_OldestAgeSeconds spool,
      hc_OverflowCount = ss_OverflowCount spool\<rparr>"

text \<open>The status, the code and the checks, as the handler passes them from one dependency to the next.\<close>

type_synonym health_state = "string \<times> nat \<times> (string \<times> healthCheck) list"

definition config_health :: "(bool \<times> string) option \<Rightarrow> health_state \<Rightarrow> health_state" where
  "config_health dep h =
     (case (dep, h) of
        (None, _) \<Rightarrow> h
      | (Some (is_ready, reason), (status, code, checks)) \<Rightarrow>
          if is_ready then (status, code, checks @ [(''config'', plain_check ''ok'' [])])
          else (''degraded'', 503, checks @ [(''config'', plain_check ''degraded'' reason)]))"

definition audit_health :: "(bool \<times> string) option \<Rightarrow> health_state \<Rightarrow> health_state" where
  "audit_health dep h =
     (case (dep, h) of
        (None, _) \<Rightarrow> h
      | (Some (is_healthy, reason), (status, code, checks)) \<Rightarrow>
          if is_healthy then (status, code, checks @ [(''audit_sink'', plain_check ''ok'' [])])
          else (''unhealthy'', 503, checks @ [(''audit_sink'', plain_check ''unhealthy'' reason)]))"

definition spool_health :: "SpoolStatus option \<Rightarrow> health_state \<Rightarrow> health_state" where
  "spool_health dep h =
     (case (dep, h) of
        (None, _) \<Rightarrow> h
      | (Some spool, (status, code, checks)) \<Rightarrow>
          (let check = spool_check spool;
               bad = (hc_Status check \<noteq> ''ok'' \<and> hc_Status check \<noteq> ''disabled'')
           in (if bad \<and> status = ''ok'' then ''degraded'' else status, if bad \<and> code = 200 then 503 else code,
               checks @ [(''event_spool'', check)])))"

definition healthHandler :: "string \<Rightarrow> ('te, 'w) control_world \<Rightarrow> 'e control_response" where
  "healthHandler version W =
     (case spool_health (cw_spool W) (audit_health (cw_audit W) (config_health (cw_config W) (''ok'', 200, []))) of
        (status, code, checks) \<Rightarrow>
          writeJSON code (HealthBody \<lparr>hr_Status = status, hr_Version = version, hr_Timestamp = cw_now W, hr_Checks = checks\<rparr>))"

definition trafficSpoolHandler :: "('te, 'w) control_world \<Rightarrow> 'e control_response" where
  "trafficSpoolHandler W =
     (case cw_spool W of
        None \<Rightarrow> writeError 503 ''spool_status_unavailable'' (Literal ''spool status is unavailable'')
      | Some spool \<Rightarrow> writeJSON 200 (SpoolBody spool))"

section \<open>Traffic\<close>

definition filter_error_answer :: "filter_error \<Rightarrow> 'e control_response" where
  "filter_error_answer e =
     (case e of
        InvalidDirection \<Rightarrow> writeError 400 ''invalid_direction'' (Literal ''direction must be input or output'')
      | InvalidStatus \<Rightarrow> writeError 400 ''invalid_status'' (Literal ''status must be an HTTP status code'')
      | InvalidLimit \<Rightarrow> writeError 400 ''invalid_limit'' (Literal ''limit must be a positive integer''))"

definition trafficEventsHandler :: "control_request \<Rightarrow> ('te, 'w) control_world \<Rightarrow> 'e control_response \<times> ('te, 'w) control_world" where
  "trafficEventsHandler q W =
     (case cw_list W of
        None \<Rightarrow> (writeError 503 ''traffic_reader_unavailable'' (Literal ''traffic reader is unavailable''), W)
      | Some list_events \<Rightarrow>
          (case parseTrafficEventFilter (cq_query q) of
             Inl e \<Rightarrow> (filter_error_answer e, W)
           | Inr f \<Rightarrow>
               (case list_events f (cw_traffic W) of
                  (Inl _, w) \<Rightarrow> (writeError 500 ''traffic_query_failed'' (Literal ''traffic events query failed''), W\<lparr>cw_traffic := w\<rparr>)
                | (Inr response, w) \<Rightarrow> (writeJSON 200 (EventsBody response), W\<lparr>cw_traffic := w\<rparr>))))"

section \<open>The console summary\<close>

definition zero_console :: "string \<Rightarrow> consoleSummary" where
  "zero_console version =
     \<lparr>su_Version = version, su_ActivePolicyBundleKeys = [], su_PolicySnapshotHash = [], su_ConfigAvailable = False,
      su_ActiveBundleKeyCount = 0, su_BundleCount = 0, su_ModelMappingCount = 0, su_VerdictProviderCount = 0,
      su_Traffic = zero_summary, su_Storage = None\<rparr>"

text \<open>The part read from the store; the reason names the query that failed.\<close>

definition console_store :: "('e, 's) ControlRepository \<Rightarrow> consoleSummary \<Rightarrow> 's \<Rightarrow> (string + consoleSummary) \<times> 's" where
  "console_store R summary s =
     (case cr_ConfigStatus R s of
        (Inl _, s) \<Rightarrow> (Inl ''config status query failed'', s)
      | (Inr status, s) \<Rightarrow>
          (case cr_ListPolicyBundles R s of
             (Inl _, s) \<Rightarrow> (Inl ''policy bundle query failed'', s)
           | (Inr bundles, s) \<Rightarrow>
               (case cr_ListModelMappings R s of
                  (Inl _, s) \<Rightarrow> (Inl ''model mapping query failed'', s)
                | (Inr mappings, s) \<Rightarrow>
                    (case cr_ListVerdictProviders R s of
                       (Inl _, s) \<Rightarrow> (Inl ''verdict provider query failed'', s)
                     | (Inr providers, s) \<Rightarrow>
                         (Inr (summary\<lparr>su_ActivePolicyBundleKeys := cs_ActivePolicyBundleKeys status,
                            su_PolicySnapshotHash := cs_PolicySnapshotHash status, su_ConfigAvailable := True,
                            su_ActiveBundleKeyCount := length (cs_ActivePolicyBundleKeys status), su_BundleCount := length bundles,
                            su_ModelMappingCount := length mappings, su_VerdictProviderCount := length providers\<rparr>), s)))))"

definition consoleSummaryHandler ::
  "string \<Rightarrow> ('e, 's) ControlRepository option \<Rightarrow> 's \<Rightarrow> ('te, 'w) control_world \<Rightarrow> 'e control_response \<times> 's \<times> ('te, 'w) control_world" where
  "consoleSummaryHandler version store s W =
     (case (case store of None \<Rightarrow> (Inr (zero_console version), s) | Some R \<Rightarrow> console_store R (zero_console version) s) of
        (Inl m, s) \<Rightarrow> (writeError 500 ''console_summary_failed'' (Literal m), s, W)
      | (Inr summary, s) \<Rightarrow>
          (case (case cw_summarize W of
                   None \<Rightarrow> (Inr (su_Traffic summary), cw_traffic W)
                 | Some summarize \<Rightarrow> summarize zero_filter (cw_traffic W)) of
             (Inl _, w) \<Rightarrow> (writeError 500 ''console_summary_failed'' (Literal ''traffic summary query failed''), s, W\<lparr>cw_traffic := w\<rparr>)
           | (Inr ts, w) \<Rightarrow>
               (writeJSON 200 (SummaryBody (summary\<lparr>su_Traffic := ts, su_Storage := cw_spool W\<rparr>)), s, W\<lparr>cw_traffic := w\<rparr>)))"

section \<open>The server\<close>

datatype endpoint =
    Healthz | ConsoleSummary | ConfigActive | ListBundles | PostBundle | PostValidation | PostActivation
  | ListMappings | PutMappingEndpoint | ListProviders | PutProviderEndpoint | ListClients | PostClient | PatchClientEndpoint | RevokeClientEndpoint
  | ListRouteLimitsEndpoint | PutRouteLimitEndpoint | ListClientLimits | PutClientLimitEndpoint | DeleteClientLimitEndpoint
  | TrafficEvents | TrafficSpool | Metrics | RegexTest | DryRun

text \<open>The table of routes: the method, empty for any, the pattern and the endpoint.\<close>

definition control_routes :: "bool \<Rightarrow> (string \<times> string \<times> endpoint) list" where
  "control_routes with_metrics =
     [(''GET'', ''/api/healthz'', Healthz),
      (''GET'', ''/api/console/summary'', ConsoleSummary),
      (''GET'', ''/api/config/active'', ConfigActive),
      (''GET'', ''/api/policy-bundles'', ListBundles),
      (''POST'', ''/api/policy-bundles'', PostBundle),
      (''POST'', ''/api/policy-bundles/validate'', PostValidation),
      (''POST'', ''/api/policy-bundles/activate'', PostActivation),
      (''GET'', ''/api/model-mappings'', ListMappings),
      (''PUT'', ''/api/model-mappings/{id}'', PutMappingEndpoint),
      (''GET'', ''/api/verdict-providers'', ListProviders),
      (''PUT'', ''/api/verdict-providers/{id}'', PutProviderEndpoint),
      (''GET'', ''/api/gateway-clients'', ListClients),
      (''POST'', ''/api/gateway-clients'', PostClient),
      (''PATCH'', ''/api/gateway-clients/{client_id}'', PatchClientEndpoint),
      (''POST'', ''/api/gateway-clients/{client_id}/revoke'', RevokeClientEndpoint),
      (''GET'', ''/api/gateway-limits/routes'', ListRouteLimitsEndpoint),
      (''PUT'', ''/api/gateway-limits/routes/{route_key}'', PutRouteLimitEndpoint),
      (''GET'', ''/api/gateway-limits/clients/{client_id}/routes'', ListClientLimits),
      (''PUT'', ''/api/gateway-limits/clients/{client_id}/routes/{route_key}'', PutClientLimitEndpoint),
      (''DELETE'', ''/api/gateway-limits/clients/{client_id}/routes/{route_key}'', DeleteClientLimitEndpoint),
      (''GET'', ''/api/traffic/events'', TrafficEvents),
      (''GET'', ''/api/traffic/spool'', TrafficSpool),
      (''GET'', ''/api/policies/bundles'', ListBundles),
      (''POST'', ''/api/policies/bundles'', PostBundle),
      (''POST'', ''/api/policies/bundles/validate'', PostValidation),
      (''POST'', ''/api/policies/bundles/activate'', PostActivation),
      (''GET'', ''/api/routing/model-mappings'', ListMappings),
      (''PUT'', ''/api/routing/model-mappings/{id}'', PutMappingEndpoint),
      (''GET'', ''/api/providers/verdict'', ListProviders),
      (''PUT'', ''/api/providers/verdict/{id}'', PutProviderEndpoint),
      (''GET'', ''/api/storage/event-spool'', TrafficSpool)] @
     (if with_metrics then [([], ''/metrics'', Metrics)] else []) @
     [(''POST'', ''/api/tools/regex-test'', RegexTest),
      (''POST'', ''/api/tools/policy-dry-run'', DryRun)]"

record ('e, 's) server_options =
  so_Version :: string
  so_controller :: "('e, 's) controller"
  so_MetricsHandler :: "(control_request \<Rightarrow> 'e control_response) option"
  so_BearerToken :: string

text \<open>The router: given the table, the method, the path and the encoded path, the endpoint and the parameters,
  or the answer of the router itself when nothing matches.\<close>

type_synonym 'e router = "(string \<times> string \<times> endpoint) list \<Rightarrow> string \<Rightarrow> string \<Rightarrow> string \<Rightarrow> 'e control_response + endpoint \<times> (string \<Rightarrow> string)"

definition control_dispatch ::
  "('e, 's) server_options \<Rightarrow> endpoint \<Rightarrow> control_request \<Rightarrow> 's \<times> ('te, 'w) control_world \<Rightarrow> 'e control_response \<times> 's \<times> ('te, 'w) control_world" where
  "control_dispatch srv e q x =
     (case x of (s, W) \<Rightarrow>
       (let K = so_controller srv; run = (\<lambda>h. case h K q s of (answer, s) \<Rightarrow> (answer, s, W))
        in case e of
             Healthz \<Rightarrow> (healthHandler (so_Version srv) W, s, W)
           | ConsoleSummary \<Rightarrow> consoleSummaryHandler (so_Version srv) (Some (pc_store K)) s W
           | ConfigActive \<Rightarrow> run handle_configStatus
           | ListBundles \<Rightarrow> run handle_listPolicyBundles
           | PostBundle \<Rightarrow> run handle_createPolicyBundle
           | PostValidation \<Rightarrow> run handle_validatePolicyBundle
           | PostActivation \<Rightarrow> run handle_activatePolicyBundles
           | ListMappings \<Rightarrow> run handle_listModelMappings
           | PutMappingEndpoint \<Rightarrow> run handle_putModelMapping
           | ListProviders \<Rightarrow> run handle_listVerdictProviders
           | PutProviderEndpoint \<Rightarrow> run handle_putVerdictProvider
           | ListClients \<Rightarrow> run handle_listGatewayClients
           | PostClient \<Rightarrow> run handle_createGatewayClient
           | PatchClientEndpoint \<Rightarrow> run handle_patchGatewayClient
           | RevokeClientEndpoint \<Rightarrow> run handle_revokeGatewayClient
           | ListRouteLimitsEndpoint \<Rightarrow> run handle_listRouteLimits
           | PutRouteLimitEndpoint \<Rightarrow> run handle_putRouteLimit
           | ListClientLimits \<Rightarrow> run handle_listClientRouteLimits
           | PutClientLimitEndpoint \<Rightarrow> run handle_putClientRouteLimit
           | DeleteClientLimitEndpoint \<Rightarrow> run handle_deleteClientRouteLimit
           | TrafficEvents \<Rightarrow> (case trafficEventsHandler q W of (answer, W) \<Rightarrow> (answer, s, W))
           | TrafficSpool \<Rightarrow> (trafficSpoolHandler W, s, W)
           | Metrics \<Rightarrow> (case so_MetricsHandler srv of None \<Rightarrow> (recovered, s, W) | Some metrics \<Rightarrow> (metrics q, s, W))
           | RegexTest \<Rightarrow> run handle_regexTest
           | DryRun \<Rightarrow> run handle_policyDryRun))"

definition control_route ::
  "'e router \<Rightarrow> ('e, 's) server_options \<Rightarrow> control_request \<Rightarrow> 's \<times> ('te, 'w) control_world \<Rightarrow> 'e control_response \<times> 's \<times> ('te, 'w) control_world" where
  "control_route pick srv q x =
     (case pick (control_routes (so_MetricsHandler srv \<noteq> None)) (cq_method q) (cq_path q) (cq_raw_path q) of
        Inl answer \<Rightarrow> (answer, x)
      | Inr (e, params) \<Rightarrow> control_dispatch srv e (q\<lparr>cq_param := params\<rparr>) x)"

definition controlPathAllowsAnonymous :: "string \<Rightarrow> bool" where
  "controlPathAllowsAnonymous path \<longleftrightarrow> path = ''/api/healthz'' \<or> path = ''/metrics''"

definition bearerTokenMiddleware ::
  "string \<Rightarrow> (control_request \<Rightarrow> 'x \<Rightarrow> 'e control_response \<times> 'x) \<Rightarrow> control_request \<Rightarrow> 'x \<Rightarrow> 'e control_response \<times> 'x" where
  "bearerTokenMiddleware token next_handler q x =
     (if controlPathAllowsAnonymous (cq_path q) then next_handler q x
      else if header_get (cq_header q) ''Authorization'' \<noteq> ''Bearer '' @ token
        then (writeError 401 ''unauthorized'' (Literal ''control API bearer token is required''), x)
      else next_handler q x)"

definition control_serve ::
  "'e router \<Rightarrow> ('e, 's) server_options \<Rightarrow> control_request \<Rightarrow> 's \<times> ('te, 'w) control_world \<Rightarrow> 'e control_response \<times> 's \<times> ('te, 'w) control_world" where
  "control_serve pick srv =
     (if so_BearerToken srv \<noteq> [] then bearerTokenMiddleware (so_BearerToken srv) (control_route pick srv) else control_route pick srv)"

end
