(* ===== verification/ControlServer_Claims.thy ===== *)
theory ControlServer_Claims
  imports ControlServer Control_Claims
begin

text \<open>
  The properties of the control server: nothing of the control plane is reached without the token, a
  failed call changes nothing, what is created is listed, and what the health check answers.
\<close>

section \<open>The router\<close>

text \<open>What the router does with a pattern: a literal pattern matches its own path; one with parameters matches
  only paths that begin with what precedes the first parameter.  It routes by the encoded path if there is
  one.\<close>

definition pattern_matches :: "string \<Rightarrow> string \<Rightarrow> bool" where
  "pattern_matches p path = (if CHR ''{'' \<in> set p then has_prefix (takeWhile (\<lambda>c. c \<noteq> CHR ''{'') p) path else p = path)"

definition router_ok :: "'e router \<Rightarrow> bool" where
  "router_ok pick \<longleftrightarrow>
     (\<forall>tbl m path raw e ps. pick tbl m path raw = Inr (e, ps) \<longrightarrow>
        (\<exists>p m'. (m', p, e) \<in> set tbl \<and> (m' = [] \<or> m' = m) \<and> pattern_matches p (if raw = [] then path else raw)))"

text \<open>The path of a URL decodes its encoded path.\<close>

fun path_unescape :: "string \<Rightarrow> string option" where
  "path_unescape [] = Some []"
| "path_unescape (c # cs) =
     (if c = CHR 0x25 then
        (case cs of
           a # b # rest \<Rightarrow>
             (case (hex_value a, hex_value b) of
                (Some x, Some y) \<Rightarrow> map_option ((#) (of_byte (16 * x + y))) (path_unescape rest)
              | _ \<Rightarrow> None)
         | _ \<Rightarrow> None)
      else map_option ((#) c) (path_unescape cs))"

definition url_ok :: "control_request \<Rightarrow> bool" where
  "url_ok q \<longleftrightarrow> cq_raw_path q = [] \<or> path_unescape (cq_raw_path q) = Some (cq_path q)"

lemma unescape_append:
  "CHR 0x25 \<notin> set p \<Longrightarrow> path_unescape (p @ s) = map_option ((@) p) (path_unescape s)"
  by (cases "path_unescape s"; induction p) (auto simp del: list.case)

lemma pattern_matches_decoded:
  assumes "pattern_matches p raw" "path_unescape raw = Some path" "CHR 0x25 \<notin> set p"
  shows "pattern_matches p path"
proof (cases "CHR ''{'' \<in> set p")
  case True
  let ?l = "takeWhile (\<lambda>c. c \<noteq> CHR ''{'') p"
  have "raw = ?l @ List.drop (length ?l) raw" using assms(1) True by (metis pattern_matches_def append_take_drop_id)
  moreover have "CHR 0x25 \<notin> set ?l" using assms(3) by (auto dest: set_takeWhileD)
  ultimately obtain t where "path = ?l @ t" using assms(2) unescape_append by (metis map_option_eq_Some)
  then have "has_prefix ?l path" by simp
  with True show ?thesis by (simp add: pattern_matches_def)
next
  case False
  then have "p = raw" using assms(1) by (simp add: pattern_matches_def)
  moreover have "path_unescape p = Some p" using unescape_append [OF assms(3), of "[]"] by simp
  ultimately show ?thesis using assms(2) False by (simp add: pattern_matches_def)
qed

lemma anonymous_routes:
  "list_all (\<lambda>(m, p, e). CHR 0x25 \<notin> set p \<and> (pattern_matches p ''/api/healthz'' \<longrightarrow> e = Healthz) \<and> (pattern_matches p ''/metrics'' \<longrightarrow> e = Metrics))
    (control_routes b)"
  by (cases b) (simp_all only:, code_simp+)

lemma anonymous_endpoint:
  assumes "router_ok pick" "url_ok q" "controlPathAllowsAnonymous (cq_path q)"
    and "pick (control_routes b) (cq_method q) (cq_path q) (cq_raw_path q) = Inr (e, ps)"
  shows "e = Healthz \<or> e = Metrics"
proof -
  obtain p m where p: "(m, p, e) \<in> set (control_routes b)" "pattern_matches p (if cq_raw_path q = [] then cq_path q else cq_raw_path q)"
    using assms(1,4) unfolding router_ok_def by blast
  have no: "CHR 0x25 \<notin> set p" "pattern_matches p ''/api/healthz'' \<longrightarrow> e = Healthz" "pattern_matches p ''/metrics'' \<longrightarrow> e = Metrics"
    using anonymous_routes [of b] p(1) by (auto simp: list_all_iff)
  have "pattern_matches p (cq_path q)"
    using p(2) assms(2) no(1) pattern_matches_decoded by (auto simp: url_ok_def split: if_splits)
  with assms(3) no show ?thesis by (auto simp: controlPathAllowsAnonymous_def)
qed

text \<open>C8. Without the token nothing of the control plane is reached: when a token is configured, a request that
  does not carry it is answered \<open>401\<close>, or it asks for one of the two anonymous paths and is answered by the
  router itself, by the health check or by the metrics; the store and what the traffic reader sees are
  left as they were, however the path is encoded.\<close>

theorem control_plane_needs_the_token:
  assumes "so_BearerToken srv \<noteq> []" "router_ok pick" "url_ok q"
    and "header_get (cq_header q) ''Authorization'' \<noteq> ''Bearer '' @ so_BearerToken srv"
  shows "snd (control_serve pick srv q (s, W)) = (s, W) \<and>
    (fst (control_serve pick srv q (s, W)) = writeError 401 ''unauthorized'' (Literal ''control API bearer token is required'') \<or>
     controlPathAllowsAnonymous (cq_path q) \<and>
       (fst (control_serve pick srv q (s, W)) = healthHandler (so_Version srv) W \<or>
        (\<exists>ps. fst (control_serve pick srv q (s, W)) = (case so_MetricsHandler srv of None \<Rightarrow> recovered | Some metrics \<Rightarrow> metrics (q\<lparr>cq_param := ps\<rparr>))) \<or>
        pick (control_routes (so_MetricsHandler srv \<noteq> None)) (cq_method q) (cq_path q) (cq_raw_path q) =
          Inl (fst (control_serve pick srv q (s, W)))))"
proof (cases "controlPathAllowsAnonymous (cq_path q)")
  case False
  with assms(1,4) show ?thesis by (simp add: control_serve_def bearerTokenMiddleware_def)
next
  case True
  have serve: "control_serve pick srv q (s, W) = control_route pick srv q (s, W)"
    using assms(1) True by (simp add: control_serve_def bearerTokenMiddleware_def)
  show ?thesis
  proof (cases "pick (control_routes (so_MetricsHandler srv \<noteq> None)) (cq_method q) (cq_path q) (cq_raw_path q)")
    case (Inl answer)
    with True show ?thesis by (simp add: serve control_route_def)
  next
    case (Inr x)
    obtain e ps where x: "x = (e, ps)" by fastforce
    from anonymous_endpoint [OF assms(2,3) True Inr [unfolded x]]
    show ?thesis
    proof
      assume "e = Healthz"
      with True Inr x show ?thesis by (simp add: serve control_route_def control_dispatch_def Let_def)
    next
      assume "e = Metrics"
      with True Inr x show ?thesis by (auto simp: serve control_route_def control_dispatch_def Let_def split: option.split)
    qed
  qed
qed

section \<open>Health\<close>

text \<open>The code that goes with a status, and what each dependency makes of it.\<close>

definition health_good :: "bool \<Rightarrow> health_state \<Rightarrow> bool" where
  "health_good good h \<longleftrightarrow> (fst h = ''ok'') = good \<and> fst (snd h) = (if good then 200 else 503)"

lemma config_health_good:
  "health_good good h \<Longrightarrow> health_good (good \<and> (\<forall>d. dep = Some d \<longrightarrow> fst d)) (config_health dep h)"
  by (cases dep; cases h) (auto simp: health_good_def config_health_def split: if_splits)

lemma audit_health_good:
  "health_good good h \<Longrightarrow> health_good (good \<and> (\<forall>d. dep = Some d \<longrightarrow> fst d)) (audit_health dep h)"
  by (cases dep; cases h) (auto simp: health_good_def audit_health_def split: if_splits)

lemma spool_health_good:
  "health_good good h \<Longrightarrow> health_good (good \<and> (\<forall>d. dep = Some d \<longrightarrow> ss_Status d \<in> {''ok'', ''disabled''})) (spool_health dep h)"
  by (cases dep; cases h) (auto simp: health_good_def spool_health_def spool_check_def Let_def)

text \<open>The health check answers \<open>200\<close> with status \<open>ok\<close> exactly if every dependency that is wired is well: the
  configuration is ready, the audit sink is healthy, and the spool is ok or disabled; and otherwise \<open>503\<close>
  with another status.\<close>

theorem health_is_ok_iff:
  "\<exists>body. healthHandler version W = writeJSON (if hr_Status body = ''ok'' then 200 else 503) (HealthBody body) \<and>
    (hr_Status body = ''ok'' \<longleftrightarrow>
       (\<forall>c. cw_config W = Some c \<longrightarrow> fst c) \<and> (\<forall>a. cw_audit W = Some a \<longrightarrow> fst a) \<and>
       (\<forall>d. cw_spool W = Some d \<longrightarrow> ss_Status d \<in> {''ok'', ''disabled''}))"
proof -
  have "health_good True (''ok'', 200, [])" by (simp add: health_good_def)
  from spool_health_good [OF audit_health_good [OF config_health_good [OF this]]]
  have "health_good (((True \<and> (\<forall>c. cw_config W = Some c \<longrightarrow> fst c)) \<and> (\<forall>a. cw_audit W = Some a \<longrightarrow> fst a)) \<and>
       (\<forall>d. cw_spool W = Some d \<longrightarrow> ss_Status d \<in> {''ok'', ''disabled''}))
     (spool_health (cw_spool W) (audit_health (cw_audit W) (config_health (cw_config W) (''ok'', 200, []))))" .
  then show ?thesis unfolding healthHandler_def health_good_def
    by (auto split: prod.split intro!: exI)
qed

section \<open>Conversions\<close>

lemma detector_conversion [simp]: "detectorToApp (detectorFromApp d) = d" "detectorFromApp (detectorToApp e) = e"
  by (simp_all add: detectorToApp_def detectorFromApp_def)

lemma rule_conversion [simp]: "ruleToApp (ruleFromApp d) = d" "ruleFromApp (ruleToApp e) = e"
  by (simp_all add: ruleToApp_def ruleFromApp_def)

lemma bundle_conversion [simp]: "policyBundleToApp (policyBundleFromApp b) = b" "policyBundleFromApp (policyBundleToApp d) = d"
  by (simp_all add: policyBundleToApp_def policyBundleFromApp_def comp_def)

section \<open>Requests over the memory repository\<close>

text \<open>After a failed request only the number that names the next client may differ.\<close>

definition same_store :: "MemoryRepository \<Rightarrow> MemoryRepository \<Rightarrow> bool" where
  "same_store r r' \<longleftrightarrow> r'\<lparr>mr_nextClientNumber := 0\<rparr> = r\<lparr>mr_nextClientNumber := 0\<rparr>"

lemma same_store_refl [simp]: "same_store r r"
  by (simp add: same_store_def)

lemma same_store_number [simp]: "same_store r (r\<lparr>mr_nextClientNumber := n\<rparr>)"
  by (simp add: same_store_def)

abbreviation over_memory :: "(memory_error, MemoryRepository) controller \<Rightarrow> _ \<Rightarrow> listing_orders \<Rightarrow> bool" where
  "over_memory K rand L \<equiv> pc_store K = memory_repository (pc_compiler K) rand L"

lemmas listing_defs = pass_def Service_ConfigStatus_def Service_ListPolicyBundles_def Service_ListModelMappings_def
  Service_ListVerdictProviders_def Service_ListGatewayClients_def Service_ListRouteLimits_def Service_ListClientRouteLimits_def
  memory_repository_def memory_ConfigStatus_def memory_ListClientRouteLimits_def

text \<open>A call of the service that fails.\<close>

lemma failed_call:
  fixes C rand L
  defines "R \<equiv> memory_repository C rand L"
  shows "Service_CreatePolicyBundle C R b r = (Inl e1, r') \<Longrightarrow> same_store r r'"
    and "Service_ActivatePolicyBundles C R n a r = (Inl e2, r') \<Longrightarrow> same_store r r'"
    and "Service_PutModelMapping R m r = (Inl e3, r') \<Longrightarrow> same_store r r'"
    and "Service_PutVerdictProvider R p r = (Inl e4, r') \<Longrightarrow> same_store r r'"
    and "Service_CreateGatewayClient R c r = (Inl e5, r') \<Longrightarrow> same_store r r'"
    and "Service_PatchGatewayClient R g r = (Inl e6, r') \<Longrightarrow> same_store r r'"
    and "Service_RevokeGatewayClient R i r = (Inl e7, r') \<Longrightarrow> same_store r r'"
    and "Service_PutRouteLimit R l r = (Inl e8, r') \<Longrightarrow> same_store r r'"
    and "Service_PutClientRouteLimit R cl r = (Inl e9, r') \<Longrightarrow> same_store r r'"
    and "Service_DeleteClientRouteLimit R i k r = (Inl e10, r') \<Longrightarrow> same_store r r'"
  unfolding R_def
  subgoal by (auto simp: Service_CreatePolicyBundle_def pass_def memory_repository_def memory_CreatePolicyBundle_def split: sum.splits)
  subgoal by (auto simp: Service_ActivatePolicyBundles_def activationSnapshotHash_def memory_repository_def memory_ActivatePolicyBundles_def
        split: sum.splits prod.splits if_splits)
  subgoal by (auto simp: Service_PutModelMapping_def pass_def memory_repository_def memory_PutModelMapping_def)
  subgoal by (auto simp: Service_PutVerdictProvider_def pass_def memory_repository_def memory_PutVerdictProvider_def split: sum.splits)
  subgoal by (auto simp: Service_CreateGatewayClient_def pass_def memory_repository_def memory_CreateGatewayClient_def Let_def split: sum.splits if_splits)
  subgoal by (auto simp: Service_PatchGatewayClient_def pass_def memory_repository_def memory_PatchGatewayClient_def split: option.splits)
  subgoal by (auto simp: Service_RevokeGatewayClient_def pass_def memory_repository_def memory_RevokeGatewayClient_def Let_def split: option.splits if_splits)
  subgoal by (auto simp: Service_PutRouteLimit_def pass_def memory_repository_def memory_PutRouteLimit_def split: option.splits)
  subgoal by (auto simp: Service_PutClientRouteLimit_def pass_def memory_repository_def memory_PutClientRouteLimit_def split: option.splits if_splits)
  subgoal by (auto simp: Service_DeleteClientRouteLimit_def pass_def memory_repository_def memory_DeleteClientRouteLimit_def split: if_splits)
  done

lemma activation_ignores_notifier:
  "snd (Service_ActivatePolicyBundles C R n q r) = snd (Service_ActivatePolicyBundles C R None q r)"
  by (auto simp: Service_ActivatePolicyBundles_def split: sum.split prod.split)

text \<open>What a request may do: nothing to the store, or one call of the service; and nothing when it fails.\<close>

definition one_call :: "policy_compiler \<Rightarrow> (memory_error, MemoryRepository) ControlRepository \<Rightarrow> MemoryRepository \<Rightarrow>
    'e control_response \<Rightarrow> MemoryRepository \<Rightarrow> bool" where
  "one_call C R r answer r' \<longleftrightarrow>
     (r' = r \<or> (\<exists>c. r' = control_step C R c r)) \<and> (400 \<le> an_status answer \<longrightarrow> same_store r r')"

lemma one_call_same [simp]: "one_call C R r answer r"
  by (simp add: one_call_def)

lemma one_call_failed: "r' = control_step C R c r \<Longrightarrow> same_store r r' \<Longrightarrow> one_call C R r answer r'"
  by (auto simp: one_call_def)

lemma one_call_ok: "r' = control_step C R c r \<Longrightarrow> an_status answer < 400 \<Longrightarrow> one_call C R r answer r'"
  by (auto simp: one_call_def)

lemma with_body_call:
  assumes "\<And>x. one_call C R r (fst (f x r)) (snd (f x r))"
  shows "one_call C R r (fst (with_body d f r)) (snd (with_body d f r))"
  using assms by (cases d) (simp_all add: with_body_def)

lemma list_call: "snd out = r \<Longrightarrow> one_call C R r (fst (list_answer code m body out)) (snd (list_answer code m body out))"
  by (cases out) (auto simp: list_answer_def split: sum.split)

text \<open>The end of a handler: an answer for the error and one for the result.\<close>

lemma answer_call:
  assumes "snd out = control_step C R c r" "\<And>e. fst out = Inl e \<Longrightarrow> same_store r (snd out)" "\<And>x. an_status (good x) < 400"
  shows "one_call C R r (fst (case out of (Inl e, s) \<Rightarrow> (bad e, s) | (Inr x, s) \<Rightarrow> (good x, s)))
    (snd (case out of (Inl e, s) \<Rightarrow> (bad e, s) | (Inr x, s) \<Rightarrow> (good x, s)))"
  using assms by (cases out; cases "fst out") (auto intro: one_call_failed one_call_ok)

lemma failed_pair: "(\<And>e r'. out = (Inl e, r') \<Longrightarrow> same_store r r') \<Longrightarrow> fst out = Inl e \<Longrightarrow> same_store r (snd out)"
  by (metis prod.collapse)

lemma listing_calls:
  assumes "over_memory K rand L"
  shows "one_call (pc_compiler K) (pc_store K) r (fst (handle_configStatus K q r)) (snd (handle_configStatus K q r))"
    and "one_call (pc_compiler K) (pc_store K) r (fst (handle_listPolicyBundles K q r)) (snd (handle_listPolicyBundles K q r))"
    and "one_call (pc_compiler K) (pc_store K) r (fst (handle_listModelMappings K q r)) (snd (handle_listModelMappings K q r))"
    and "one_call (pc_compiler K) (pc_store K) r (fst (handle_listVerdictProviders K q r)) (snd (handle_listVerdictProviders K q r))"
    and "one_call (pc_compiler K) (pc_store K) r (fst (handle_listGatewayClients K q r)) (snd (handle_listGatewayClients K q r))"
    and "one_call (pc_compiler K) (pc_store K) r (fst (handle_listRouteLimits K q r)) (snd (handle_listRouteLimits K q r))"
  unfolding handle_configStatus_def handle_listPolicyBundles_def handle_listModelMappings_def handle_listVerdictProviders_def
    handle_listGatewayClients_def handle_listRouteLimits_def assms
  by (intro list_call; simp add: listing_defs)+

lemma client_limits_call:
  assumes "over_memory K rand L"
  shows "one_call (pc_compiler K) (pc_store K) r (fst (handle_listClientRouteLimits K q r)) (snd (handle_listClientRouteLimits K q r))"
proof -
  have "snd (Service_ListClientRouteLimits (pc_store K) i r) = r" for i unfolding assms by (auto simp: listing_defs)
  then have "snd (handle_listClientRouteLimits K q r) = r"
    by (auto simp: handle_listClientRouteLimits_def Let_def split: prod.split sum.split) (metis snd_conv)+
  then show ?thesis by simp
qed

lemma pure_calls:
  "one_call C R r (fst (handle_validatePolicyBundle K q r)) (snd (handle_validatePolicyBundle K q r))"
  "one_call C R r (fst (handle_regexTest K q r)) (snd (handle_regexTest K q r))"
  "one_call C R r (fst (handle_policyDryRun K q r)) (snd (handle_policyDryRun K q r))"
  unfolding handle_validatePolicyBundle_def handle_regexTest_def handle_policyDryRun_def
  by (rule with_body_call; simp split: sum.split option.split)+

lemma changing_calls:
  assumes "over_memory K rand L"
  shows "one_call (pc_compiler K) (pc_store K) r (fst (handle_createPolicyBundle K q r)) (snd (handle_createPolicyBundle K q r))"
    and "one_call (pc_compiler K) (pc_store K) r (fst (handle_activatePolicyBundles K q r)) (snd (handle_activatePolicyBundles K q r))"
    and "one_call (pc_compiler K) (pc_store K) r (fst (handle_putModelMapping K q r)) (snd (handle_putModelMapping K q r))"
    and "one_call (pc_compiler K) (pc_store K) r (fst (handle_putVerdictProvider K q r)) (snd (handle_putVerdictProvider K q r))"
    and "one_call (pc_compiler K) (pc_store K) r (fst (handle_createGatewayClient K q r)) (snd (handle_createGatewayClient K q r))"
    and "one_call (pc_compiler K) (pc_store K) r (fst (handle_patchGatewayClient K q r)) (snd (handle_patchGatewayClient K q r))"
    and "one_call (pc_compiler K) (pc_store K) r (fst (handle_revokeGatewayClient K q r)) (snd (handle_revokeGatewayClient K q r))"
    and "one_call (pc_compiler K) (pc_store K) r (fst (handle_putRouteLimit K q r)) (snd (handle_putRouteLimit K q r))"
    and "one_call (pc_compiler K) (pc_store K) r (fst (handle_putClientRouteLimit K q r)) (snd (handle_putClientRouteLimit K q r))"
    and "one_call (pc_compiler K) (pc_store K) r (fst (handle_deleteClientRouteLimit K q r)) (snd (handle_deleteClientRouteLimit K q r))"
  unfolding assms
  subgoal unfolding handle_createPolicyBundle_def assms
    by (intro with_body_call answer_call [where c = "CreateBundle b" for b]) (auto simp: control_step_def writeJSON_def intro: failed_pair failed_call)
  subgoal unfolding handle_activatePolicyBundles_def assms
    by (intro with_body_call answer_call [where c = "ActivateBundles b" for b])
      (auto simp: control_step_def writeJSON_def intro: failed_pair failed_call activation_ignores_notifier)
  subgoal unfolding handle_putModelMapping_def assms Let_def
    by (intro with_body_call answer_call [where c = "PutMapping b" for b]) (auto simp: control_step_def writeJSON_def intro: failed_pair failed_call)
  subgoal unfolding handle_putVerdictProvider_def assms Let_def
    by (intro with_body_call answer_call [where c = "PutProvider b" for b]) (auto simp: control_step_def writeJSON_def intro: failed_pair failed_call)
  subgoal unfolding handle_createGatewayClient_def assms
    by (intro with_body_call answer_call [where c = "CreateClient b" for b]) (auto simp: control_step_def writeJSON_def intro: failed_pair failed_call)
  subgoal unfolding handle_patchGatewayClient_def assms
    by (intro with_body_call answer_call [where c = "PatchClient b" for b]) (auto simp: control_step_def writeJSON_def intro: failed_pair failed_call)
  subgoal unfolding handle_revokeGatewayClient_def assms Let_def
    by (simp split del: prod.split sum.split, intro impI answer_call [where c = "RevokeClient b" for b])
      (auto simp: control_step_def writeJSON_def intro: failed_pair failed_call)
  subgoal unfolding handle_putRouteLimit_def assms
    by (intro with_body_call answer_call [where c = "PutLimit b" for b]) (auto simp: control_step_def writeJSON_def intro: failed_pair failed_call)
  subgoal unfolding handle_putClientRouteLimit_def assms
    by (intro with_body_call answer_call [where c = "PutClientLimit b" for b]) (auto simp: control_step_def writeJSON_def intro: failed_pair failed_call)
  subgoal unfolding handle_deleteClientRouteLimit_def assms Let_def
    by (simp split del: prod.split sum.split, intro impI answer_call [where c = "DeleteClientLimit a b" for a b])
      (auto simp: control_step_def intro: failed_pair failed_call)
  done

lemma console_store_same:
  "snd (console_store (memory_repository C rand L) summary r) = r"
  by (simp add: console_store_def memory_repository_def memory_ConfigStatus_def)

lemma console_summary_same:
  "fst (snd (consoleSummaryHandler version (Some (memory_repository C rand L)) r W)) = r"
  using console_store_same [of C rand L "zero_console version" r]
  by (auto simp: consoleSummaryHandler_def split: prod.split sum.split)

lemma dispatch_call:
  assumes "over_memory (so_controller srv) rand L"
  shows "one_call (pc_compiler (so_controller srv)) (pc_store (so_controller srv)) r
    (fst (control_dispatch srv e q (r, W))) (fst (snd (control_dispatch srv e q (r, W))))"
proof -
  let ?K = "so_controller srv"
  have run: "one_call C R r (fst (case x of (answer, s) \<Rightarrow> (answer, s, W))) (fst (snd (case x of (answer, s) \<Rightarrow> (answer, s, W))))"
    if "one_call C R r (fst x) (snd x)" for C R and x :: "memory_error control_response \<times> MemoryRepository"
    using that by (cases x) simp
  note calls = listing_calls [OF assms] client_limits_call [OF assms] pure_calls changing_calls [OF assms]
  show ?thesis
    unfolding control_dispatch_def Let_def prod.case
    by (cases e; simp only: endpoint.case; (rule run, rule calls)?)
      (simp_all add: assms console_summary_same split: prod.split option.split)
qed


section \<open>A concrete server\<close>

definition sample_codec :: control_codec where
  "sample_codec =
     \<lparr>cj_bundle = (\<lambda>_. Some (policyBundleFromApp control_bundle)), cj_activation = (\<lambda>_. None), cj_mapping = (\<lambda>_. None), cj_provider = (\<lambda>_. None),
      cj_client = (\<lambda>_. None), cj_create_client = (\<lambda>_. None), cj_route_limit = (\<lambda>_. None), cj_client_limit = (\<lambda>_. None),
      cj_regex = (\<lambda>_. None), cj_dry_run = (\<lambda>_. None)\<rparr>"

definition sample_control :: "(memory_error, MemoryRepository) server_options" where
  "sample_control =
     \<lparr>so_Version = ''1'',
      so_controller = \<lparr>pc_compiler = control_compiler, pc_store = control_memory,
        pc_errors = \<lparr>se_invalid = (\<lambda>_. False), se_not_found = (\<lambda>e. e = ErrGatewayClientNotFound), se_exists = (\<lambda>e. e = ErrGatewayClientAlreadyExists)\<rparr>,
        pc_codec = sample_codec, pc_notifier = None\<rparr>,
      so_MetricsHandler = None, so_BearerToken = ''secret''\<rparr>"

definition sample_world :: "(unit, unit) control_world" where
  "sample_world = \<lparr>cw_config = None, cw_audit = None, cw_spool = None, cw_now = [], cw_list = None, cw_summarize = None, cw_traffic = ()\<rparr>"

text \<open>A router that knows literal patterns only.\<close>

definition literal_router :: "'e router" where
  "literal_router tbl m path raw =
     (case filter (\<lambda>(m', p, e). m' = m \<and> CHR ''{'' \<notin> set p \<and> p = (if raw = [] then path else raw)) tbl of
        [] \<Rightarrow> Inl \<lparr>an_status = 404, an_json = False, an_body = NoBody\<rparr>
      | (_, _, e) # _ \<Rightarrow> Inr (e, \<lambda>_. []))"

lemma literal_router_ok: "router_ok literal_router"
  unfolding router_ok_def
proof (intro allI impI)
  fix tbl m path raw e ps
  assume "literal_router tbl m path raw = (Inr (e, ps) :: 'e control_response + _)"
  then obtain m' p rest where f: "filter (\<lambda>(m', p, e). m' = m \<and> CHR ''{'' \<notin> set p \<and> p = (if raw = [] then path else raw)) tbl = (m', p, e) # rest"
    by (auto simp: literal_router_def split: list.splits prod.splits)
  then have "(m', p, e) \<in> set (filter (\<lambda>(m', p, e). m' = m \<and> CHR ''{'' \<notin> set p \<and> p = (if raw = [] then path else raw)) tbl)"
    by simp
  then have "(m', p, e) \<in> set tbl \<and> m' = m \<and> CHR ''{'' \<notin> set p \<and> p = (if raw = [] then path else raw)"
    by auto
  then show "\<exists>p m'. (m', p, e) \<in> set tbl \<and> (m' = [] \<or> m' = m) \<and> pattern_matches p (if raw = [] then path else raw)"
    unfolding pattern_matches_def by metis
qed

definition sample_post :: "string \<Rightarrow> control_request" where
  "sample_post path =
     \<lparr>cq_method = ''POST'', cq_path = path, cq_raw_path = [], cq_header = [], cq_query = (\<lambda>_. []), cq_body = [], cq_param = (\<lambda>_. [])\<rparr>"

theorem control_plane_needs_the_token_witness:
  "snd (control_serve literal_router sample_control (sample_post ''/api/policy-bundles'') (NewMemoryRepository, sample_world)) =
     (NewMemoryRepository, sample_world) \<and>
   fst (control_serve literal_router sample_control (sample_post ''/api/policy-bundles'') (NewMemoryRepository, sample_world)) =
     writeError 401 ''unauthorized'' (Literal ''control API bearer token is required'')"
proof -
  have token: "so_BearerToken sample_control \<noteq> []" by (simp add: sample_control_def)
  have url: "url_ok (sample_post ''/api/policy-bundles'')" by (simp add: url_ok_def sample_post_def)
  have auth: "header_get (cq_header (sample_post ''/api/policy-bundles'')) ''Authorization'' \<noteq> ''Bearer '' @ so_BearerToken sample_control"
    by (simp add: sample_post_def header_get_def header_values_def)
  have "\<not> controlPathAllowsAnonymous (cq_path (sample_post ''/api/policy-bundles''))"
    by (simp add: sample_post_def controlPathAllowsAnonymous_def)
  with control_plane_needs_the_token [OF token literal_router_ok url auth, of NewMemoryRepository sample_world] show ?thesis
    by (simp only: simp_thms)
qed

definition sample_authorised :: control_request where
  "sample_authorised = (sample_post ''/api/policy-bundles'')\<lparr>cq_header := [(CanonicalHeaderKey ''Authorization'', [''Bearer secret''])]\<rparr>"

lemma sample_created:
  "\<exists>r'. control_serve literal_router sample_control sample_authorised (NewMemoryRepository, sample_world) =
     (writeJSON 201 (BundleBody (policyBundleFromApp control_bundle)), r', sample_world)"
proof -
  obtain r' where "Service_CreatePolicyBundle control_compiler control_memory control_bundle NewMemoryRepository = (Inr (), r')"
    using control_created by (metis prod.collapse)
  then have h: "handle_createPolicyBundle (so_controller sample_control) q NewMemoryRepository =
      (writeJSON 201 (BundleBody (policyBundleFromApp control_bundle)), r')" for q
    by (simp add: handle_createPolicyBundle_def with_body_def decodeJSON_def sample_control_def sample_codec_def)
  have auth: "header_get (cq_header sample_authorised) ''Authorization'' = ''Bearer '' @ so_BearerToken sample_control"
    by (simp add: sample_authorised_def header_get_def header_values_def sample_control_def)
  have "case literal_router (control_routes False) ''POST'' ''/api/policy-bundles'' [] of Inl _ \<Rightarrow> False | Inr (e, _) \<Rightarrow> e = PostBundle"
    by code_simp
  then obtain ps where pick: "literal_router (control_routes False) ''POST'' ''/api/policy-bundles'' [] = (Inr (PostBundle, ps) :: memory_error control_response + _)"
    by (auto split: sum.splits)
  have q: "cq_method sample_authorised = ''POST''" "cq_path sample_authorised = ''/api/policy-bundles''" "cq_raw_path sample_authorised = []"
    "so_MetricsHandler sample_control = None"
    by (simp_all add: sample_authorised_def sample_post_def sample_control_def)
  have "control_route literal_router sample_control sample_authorised (NewMemoryRepository, sample_world) =
      (writeJSON 201 (BundleBody (policyBundleFromApp control_bundle)), r', sample_world)"
    by (simp add: control_route_def q pick control_dispatch_def Let_def h)
  with auth show ?thesis by (simp add: control_serve_def bearerTokenMiddleware_def)
qed


end
