(* ===== verification/Config.thy ===== *)
theory Config
  imports Strconv
begin

text \<open>
  \<open>internal/config\<close>: the configuration of the process, read from its environment, with the groups of
  \<open>groups.go\<close>.  The environment is a parameter: \<open>os.Getenv\<close> answers the empty string for a variable
  that is not set.  \<open>Config\<close> and \<open>GatewayConfig\<close> are renamed here, since other components have types of
  these names.
\<close>

record process_env =
  os_Getenv :: "string \<Rightarrow> string"
  float_product :: "nat \<Rightarrow> nat \<Rightarrow> nat \<Rightarrow> nat"

record ServiceConfig =
  kc_HTTPAddr :: string
  kc_GatewayAddr :: string
  kc_ControlAddr :: string
  kc_ControlAuthToken :: string
  kc_ControlInsecure :: bool
  kc_UpstreamBaseURL :: string
  kc_UpstreamAPIKey :: string
  kc_VerdictEndpoint :: string
  kc_MaxBodyBytes :: int
  kc_PolicySnapshotPath :: string
  kc_PostgresDSN :: string
  kc_ClickHouseAddr :: string
  kc_ClickHouseDatabase :: string
  kc_ClickHouseUsername :: string
  kc_ClickHousePassword :: string
  kc_EventSinkType :: string
  kc_EventQueueCapacity :: int
  kc_EventBatchSize :: int
  kc_EventSpoolDir :: string
  kc_EventSpoolMaxBytes :: int
  kc_EventSpoolMaxAge :: duration
  kc_EventSpoolReplayInterval :: duration
  kc_EventSpoolBatchSize :: int
  kc_LogLevel :: string
  kc_UpstreamTimeout :: duration
  kc_VerdictTimeout :: duration
  kc_ServerReadHeaderTimeout :: duration
  kc_ServerReadTimeout :: duration
  kc_ServerWriteTimeout :: duration
  kc_ServerIdleTimeout :: duration
  kc_ShutdownTimeout :: duration

record HTTPServerConfig =
  hsc_ReadHeaderTimeout :: duration
  hsc_ReadTimeout :: duration
  hsc_WriteTimeout :: duration
  hsc_IdleTimeout :: duration
  hsc_ShutdownTimeout :: duration

record StorageConfig =
  stc_PostgresDSN :: string
  stc_ClickHouseAddr :: string
  stc_ClickHouseDatabase :: string
  stc_ClickHouseUsername :: string
  stc_ClickHousePassword :: string

record EventsConfig =
  evc_SinkType :: string
  evc_QueueCapacity :: int
  evc_BatchSize :: int
  evc_SpoolDir :: string
  evc_SpoolMaxBytes :: int
  evc_SpoolMaxAge :: duration
  evc_SpoolReplayInterval :: duration
  evc_SpoolBatchSize :: int

record GatewayServiceConfig =
  gwc_Addr :: string
  gwc_UpstreamBaseURL :: string
  gwc_UpstreamAPIKey :: string
  gwc_VerdictEndpoint :: string
  gwc_MaxBodyBytes :: int
  gwc_PolicySnapshotPath :: string
  gwc_UpstreamTimeout :: duration
  gwc_VerdictTimeout :: duration

record ControlConfig =
  ctc_Addr :: string
  ctc_AuthToken :: string
  ctc_Insecure :: bool

section \<open>Variables\<close>

datatype config_error = NumberInvalid string | DurationInvalid string | BoolInvalid string
  | PostgresDSNRequired | ClickHouseAddrRequired | ControlAuthTokenRequired

definition getEnv :: "process_env \<Rightarrow> string \<Rightarrow> string \<Rightarrow> string" where
  "getEnv E key fallback = (if os_Getenv E key = [] then fallback else os_Getenv E key)"

definition parse_env :: "config_error \<Rightarrow> (string \<Rightarrow> 'a option) \<Rightarrow> string \<Rightarrow> 'a \<Rightarrow> config_error + 'a" where
  "parse_env failure parse text fallback =
     (if text = [] then Inr fallback else case parse text of None \<Rightarrow> Inl failure | Some v \<Rightarrow> Inr v)"

definition getEnvInt :: "process_env \<Rightarrow> string \<Rightarrow> int \<Rightarrow> config_error + int" where
  "getEnvInt E key fallback = parse_env (NumberInvalid key) Atoi (os_Getenv E key) fallback"

definition getEnvInt64 :: "process_env \<Rightarrow> string \<Rightarrow> int \<Rightarrow> config_error + int" where
  "getEnvInt64 E key fallback = parse_env (NumberInvalid key) (ParseInt 64) (os_Getenv E key) fallback"

definition getEnvDuration :: "process_env \<Rightarrow> string \<Rightarrow> duration \<Rightarrow> config_error + duration" where
  "getEnvDuration E key fallback = parse_env (DurationInvalid key) (ParseDuration (float_product E)) (os_Getenv E key) fallback"

definition getEnvBool :: "process_env \<Rightarrow> string \<Rightarrow> bool \<Rightarrow> config_error + bool" where
  "getEnvBool E key fallback = parse_env (BoolInvalid key) ParseBool (os_Getenv E key) fallback"

section \<open>The control address\<close>

definition control_host :: "string \<Rightarrow> string" where
  "control_host addr =
     trim_set {CHR ''['', CHR '']''}
       (case SplitHostPort addr of
          Some (host, _) \<Rightarrow> host
        | None \<Rightarrow> (case cut_at (CHR '':'') addr of None \<Rightarrow> addr | Some (before, _) \<Rightarrow> before))"

definition controlAddressIsPublic :: "string \<Rightarrow> bool" where
  "controlAddressIsPublic addr =
     (if addr = [] then False
      else if has_prefix '':'' addr then True
      else (let host = control_host addr
            in if host = ''localhost'' \<or> host = ''::1'' then False
               else case ParseIP host of
                      Some ip \<Rightarrow> \<not> IsLoopback ip
                    | None \<Rightarrow> host \<noteq> []))"

section \<open>Loading\<close>

definition and_then_env :: "'e + 'a \<Rightarrow> ('a \<Rightarrow> 'e + 'b) \<Rightarrow> 'e + 'b" where
  "and_then_env r f = (case r of Inl e \<Rightarrow> Inl e | Inr v \<Rightarrow> f v)"

definition LoadFromEnv :: "process_env \<Rightarrow> config_error + ServiceConfig" where
  "LoadFromEnv E =
     and_then_env (getEnvInt64 E ''KIWIGUARD_MAX_BODY_BYTES'' (2 ^ 20)) (\<lambda>maxBodyBytes.
     and_then_env (getEnvInt E ''KIWIGUARD_EVENT_QUEUE_CAPACITY'' 1024) (\<lambda>eventQueueCapacity.
     and_then_env (getEnvInt E ''KIWIGUARD_EVENT_BATCH_SIZE'' 100) (\<lambda>eventBatchSize.
     and_then_env (getEnvInt64 E ''KIWIGUARD_EVENT_SPOOL_MAX_BYTES'' (2 ^ 30)) (\<lambda>eventSpoolMaxBytes.
     and_then_env (getEnvDuration E ''KIWIGUARD_EVENT_SPOOL_MAX_AGE'' 86400000000000) (\<lambda>eventSpoolMaxAge.
     and_then_env (getEnvDuration E ''KIWIGUARD_EVENT_SPOOL_REPLAY_INTERVAL'' 5000000000) (\<lambda>eventSpoolReplayInterval.
     and_then_env (getEnvInt E ''KIWIGUARD_EVENT_SPOOL_BATCH_SIZE'' eventBatchSize) (\<lambda>eventSpoolBatchSize.
     and_then_env (getEnvDuration E ''KIWIGUARD_UPSTREAM_TIMEOUT'' 30000000000) (\<lambda>upstreamTimeout.
     and_then_env (getEnvDuration E ''KIWIGUARD_VERDICT_TIMEOUT'' 5000000000) (\<lambda>verdictTimeout.
     and_then_env (getEnvDuration E ''KIWIGUARD_SERVER_READ_HEADER_TIMEOUT'' 5000000000) (\<lambda>serverReadHeaderTimeout.
     and_then_env (getEnvDuration E ''KIWIGUARD_SERVER_READ_TIMEOUT'' 15000000000) (\<lambda>serverReadTimeout.
     and_then_env (getEnvDuration E ''KIWIGUARD_SERVER_WRITE_TIMEOUT'' 60000000000) (\<lambda>serverWriteTimeout.
     and_then_env (getEnvDuration E ''KIWIGUARD_SERVER_IDLE_TIMEOUT'' 120000000000) (\<lambda>serverIdleTimeout.
     and_then_env (getEnvDuration E ''KIWIGUARD_SHUTDOWN_TIMEOUT'' 10000000000) (\<lambda>shutdownTimeout.
     and_then_env (getEnvBool E ''KIWIGUARD_CONTROL_INSECURE'' False) (\<lambda>controlInsecure.
     (let gatewayAddr = getEnv E ''KIWIGUARD_HTTP_ADDR'' '':8080'';
          cfg = \<lparr>
            kc_HTTPAddr = gatewayAddr,
            kc_GatewayAddr = gatewayAddr,
            kc_ControlAddr = getEnv E ''KIWIGUARD_CONTROL_ADDR'' ''127.0.0.1:8081'',
            kc_ControlAuthToken = os_Getenv E ''KIWIGUARD_CONTROL_AUTH_TOKEN'',
            kc_ControlInsecure = controlInsecure,
            kc_UpstreamBaseURL = os_Getenv E ''KIWIGUARD_UPSTREAM_BASE_URL'',
            kc_UpstreamAPIKey = os_Getenv E ''KIWIGUARD_UPSTREAM_API_KEY'',
            kc_VerdictEndpoint = os_Getenv E ''KIWIGUARD_VERDICT_ENDPOINT'',
            kc_MaxBodyBytes = maxBodyBytes,
            kc_PolicySnapshotPath = os_Getenv E ''KIWIGUARD_POLICY_SNAPSHOT_PATH'',
            kc_PostgresDSN = os_Getenv E ''KIWIGUARD_POSTGRES_DSN'',
            kc_ClickHouseAddr = os_Getenv E ''KIWIGUARD_CLICKHOUSE_ADDR'',
            kc_ClickHouseDatabase = getEnv E ''KIWIGUARD_CLICKHOUSE_DATABASE'' ''kiwiguard'',
            kc_ClickHouseUsername = getEnv E ''KIWIGUARD_CLICKHOUSE_USERNAME'' ''default'',
            kc_ClickHousePassword = os_Getenv E ''KIWIGUARD_CLICKHOUSE_PASSWORD'',
            kc_EventSinkType = getEnv E ''KIWIGUARD_EVENT_SINK_TYPE'' ''clickhouse'',
            kc_EventQueueCapacity = eventQueueCapacity,
            kc_EventBatchSize = eventBatchSize,
            kc_EventSpoolDir = getEnv E ''KIWIGUARD_EVENT_SPOOL_DIR'' ''./data/event-spool'',
            kc_EventSpoolMaxBytes = eventSpoolMaxBytes,
            kc_EventSpoolMaxAge = eventSpoolMaxAge,
            kc_EventSpoolReplayInterval = eventSpoolReplayInterval,
            kc_EventSpoolBatchSize = eventSpoolBatchSize,
            kc_LogLevel = getEnv E ''KIWIGUARD_LOG_LEVEL'' ''info'',
            kc_UpstreamTimeout = upstreamTimeout,
            kc_VerdictTimeout = verdictTimeout,
            kc_ServerReadHeaderTimeout = serverReadHeaderTimeout,
            kc_ServerReadTimeout = serverReadTimeout,
            kc_ServerWriteTimeout = serverWriteTimeout,
            kc_ServerIdleTimeout = serverIdleTimeout,
            kc_ShutdownTimeout = shutdownTimeout\<rparr>
      in if kc_PostgresDSN cfg = [] then Inl PostgresDSNRequired
         else if kc_ClickHouseAddr cfg = [] then Inl ClickHouseAddrRequired
         else if controlAddressIsPublic (kc_ControlAddr cfg) \<and> kc_ControlAuthToken cfg = [] \<and> \<not> kc_ControlInsecure cfg
           then Inl ControlAuthTokenRequired
         else Inr cfg))))))))))))))))"

section \<open>Groups\<close>

definition Config_HTTPServer :: "ServiceConfig \<Rightarrow> HTTPServerConfig" where
  "Config_HTTPServer c =
     \<lparr>hsc_ReadHeaderTimeout = kc_ServerReadHeaderTimeout c,
      hsc_ReadTimeout = kc_ServerReadTimeout c,
      hsc_WriteTimeout = kc_ServerWriteTimeout c,
      hsc_IdleTimeout = kc_ServerIdleTimeout c,
      hsc_ShutdownTimeout = kc_ShutdownTimeout c\<rparr>"

definition Config_Storage :: "ServiceConfig \<Rightarrow> StorageConfig" where
  "Config_Storage c =
     \<lparr>stc_PostgresDSN = kc_PostgresDSN c,
      stc_ClickHouseAddr = kc_ClickHouseAddr c,
      stc_ClickHouseDatabase = kc_ClickHouseDatabase c,
      stc_ClickHouseUsername = kc_ClickHouseUsername c,
      stc_ClickHousePassword = kc_ClickHousePassword c\<rparr>"

definition Config_Events :: "ServiceConfig \<Rightarrow> EventsConfig" where
  "Config_Events c =
     \<lparr>evc_SinkType = kc_EventSinkType c,
      evc_QueueCapacity = kc_EventQueueCapacity c,
      evc_BatchSize = kc_EventBatchSize c,
      evc_SpoolDir = kc_EventSpoolDir c,
      evc_SpoolMaxBytes = kc_EventSpoolMaxBytes c,
      evc_SpoolMaxAge = kc_EventSpoolMaxAge c,
      evc_SpoolReplayInterval = kc_EventSpoolReplayInterval c,
      evc_SpoolBatchSize = kc_EventSpoolBatchSize c\<rparr>"

definition Config_Gateway :: "ServiceConfig \<Rightarrow> GatewayServiceConfig" where
  "Config_Gateway c =
     \<lparr>gwc_Addr = kc_GatewayAddr c,
      gwc_UpstreamBaseURL = kc_UpstreamBaseURL c,
      gwc_UpstreamAPIKey = kc_UpstreamAPIKey c,
      gwc_VerdictEndpoint = kc_VerdictEndpoint c,
      gwc_MaxBodyBytes = kc_MaxBodyBytes c,
      gwc_PolicySnapshotPath = kc_PolicySnapshotPath c,
      gwc_UpstreamTimeout = kc_UpstreamTimeout c,
      gwc_VerdictTimeout = kc_VerdictTimeout c\<rparr>"

definition Config_Control :: "ServiceConfig \<Rightarrow> ControlConfig" where
  "Config_Control c =
     \<lparr>ctc_Addr = kc_ControlAddr c,
      ctc_AuthToken = kc_ControlAuthToken c,
      ctc_Insecure = kc_ControlInsecure c\<rparr>"

text \<open>The properties of loading the configuration: a control listener without a token stays on the host.\<close>

section \<open>Hosts\<close>

lemma index_of_Some: "index_of c s = Some i \<Longrightarrow> i < length s \<and> s ! i = c \<and> c \<notin> set (take i s)"
  by (induction s arbitrary: i) (auto split: if_splits)

lemma trim_set_clean:
  assumes "cs \<inter> set s = {}"
  shows "trim_set cs s = s"
proof -
  have "dropWhile (\<lambda>c. c \<in> cs) xs = xs" if "cs \<inter> set xs = {}" for xs using that by (cases xs) auto
  from this [of s] this [of "rev s"] assms show ?thesis by (simp add: trim_set_def)
qed

text \<open>A host that was split off has no brackets; an empty one was given in brackets, or before the colon.\<close>

lemma split_host:
  assumes "SplitHostPort addr = Some (host, port)"
  shows "set host \<inter> {CHR ''['', CHR '']''} = {}"
    and "host = [] \<Longrightarrow> addr = '':'' @ port \<or> addr = ''[]:'' @ port"
proof -
  obtain i where i: "last_index (CHR '':'') addr = Some i" using assms by (auto simp: SplitHostPort_def split: option.splits)
  note at = last_index_Some [OF i]
  have whole: "addr = take i addr @ CHR '':'' # List.drop (i + 1) addr" using at id_take_nth_drop [of i addr] by simp
  have "set host \<inter> {CHR ''['', CHR '']''} = {} \<and> (host = [] \<longrightarrow> addr = '':'' @ port \<or> addr = ''[]:'' @ port)"
  proof (cases "hd addr = CHR ''[''")
    case True
    then obtain e where e: "index_of (CHR '']'') addr = Some e" "e + 1 = i" "CHR ''['' \<notin> set (tl addr)"
      "host = substr addr 1 e" "port = List.drop (i + 1) addr"
      using assms i by (auto simp: SplitHostPort_def split: option.splits if_splits)
    note close = index_of_Some [OF e(1)]
    obtain a where addr: "addr = CHR ''['' # a" using True at by (cases addr) auto
    then obtain k where k: "e = Suc k" using close by (cases e) auto
    have h: "host = take k a" by (simp add: e(4) substr_def addr k)
    have "CHR '']'' \<notin> set host" using close by (simp add: h addr k)
    moreover have "CHR ''['' \<notin> set host" using e(3) by (auto simp: h addr dest: in_set_takeD)
    moreover have "addr = ''[]:'' @ port" if "host = []"
    proof -
      have "k = 0 \<or> a = []" using that h by auto
      then have "k = 0" using close addr k by auto
      then have "i = 2" using e(2) k by simp
      with whole e(5) have "addr = take 2 addr @ CHR '':'' # port" by simp
      moreover have "take 2 addr = ''[]''" using close addr k \<open>k = 0\<close> by (cases a) auto
      ultimately show ?thesis by simp
    qed
    ultimately show ?thesis by blast
  next
    case False
    then have h: "host = take i addr" "port = List.drop (i + 1) addr" "CHR ''['' \<notin> set addr" "CHR '']'' \<notin> set addr"
      using assms i by (auto simp: SplitHostPort_def split: if_splits)
    then have "CHR ''['' \<notin> set host" "CHR '']'' \<notin> set host" by (auto dest: in_set_takeD)
    moreover have "addr = '':'' @ port" if "host = []"
    proof -
      have "i = 0" using h(1) that at by auto
      with whole h(2) show ?thesis by simp
    qed
    ultimately show ?thesis by blast
  qed
  then show "set host \<inter> {CHR ''['', CHR '']''} = {}" "host = [] \<Longrightarrow> addr = '':'' @ port \<or> addr = ''[]:'' @ port" by auto
qed

lemma split_control_host: "SplitHostPort addr = Some (host, port) \<Longrightarrow> control_host addr = host"
  using split_host(1) by (auto simp: control_host_def intro!: trim_set_clean)

lemma loopback_v6: "ParseIP ''::1'' = Some (replicate 15 0 @ [1])" "IsLoopback (replicate 15 0 @ [1])"
  by code_simp+

section \<open>Loading\<close>

lemma load_checks:
  assumes "LoadFromEnv E = Inr cfg"
  shows "kc_PostgresDSN cfg \<noteq> [] \<and> kc_ClickHouseAddr cfg \<noteq> [] \<and> kc_ControlAddr cfg \<noteq> [] \<and>
    (controlAddressIsPublic (kc_ControlAddr cfg) \<longrightarrow> kc_ControlAuthToken cfg \<noteq> [] \<or> kc_ControlInsecure cfg)"
proof -
  have bind: "and_then_env r f = Inr v \<Longrightarrow> \<exists>x. f x = Inr v" for r :: "config_error + 'a" and f and v :: ServiceConfig
    by (auto simp: and_then_env_def split: sum.splits)
  have "getEnv E key fallback \<noteq> []" if "fallback \<noteq> []" for key fallback using that by (simp add: getEnv_def)
  then show ?thesis using assms unfolding LoadFromEnv_def
    by (auto dest!: bind simp: Let_def split: if_splits)
qed

text \<open>C24. A control listener that is neither protected by a token nor explicitly declared insecure does not
  leave the machine: when the configuration loads without a token and without the flag, and its control
  address splits into a host and a port, the host is \<open>localhost\<close> or a loopback address, with one exception,
  the address that gives the empty host in brackets.\<close>

theorem control_listener_is_local:
  assumes "LoadFromEnv E = Inr cfg" "kc_ControlAuthToken cfg = []" "\<not> kc_ControlInsecure cfg"
    and "SplitHostPort (kc_ControlAddr cfg) = Some (host, port)"
  shows "host = ''localhost'' \<or> (\<exists>ip. ParseIP host = Some ip \<and> IsLoopback ip) \<or> kc_ControlAddr cfg = ''[]:'' @ port"
proof -
  have nonpublic: "\<not> controlAddressIsPublic (kc_ControlAddr cfg)" and some: "kc_ControlAddr cfg \<noteq> []"
    using load_checks [OF assms(1)] assms(2,3) by auto
  note host = split_control_host [OF assms(4)]
  show ?thesis
  proof (cases "host = []")
    case True
    with split_host(2) [OF assms(4)] nonpublic show ?thesis by (auto simp: controlAddressIsPublic_def)
  next
    case False
    with nonpublic some host have "host = ''localhost'' \<or> host = ''::1'' \<or> (\<exists>ip. ParseIP host = Some ip \<and> IsLoopback ip)"
      by (auto simp: controlAddressIsPublic_def Let_def split: if_splits option.splits)
    then show ?thesis using loopback_v6 by auto
  qed
qed

section \<open>Concrete environments\<close>

definition sample_env :: "string \<Rightarrow> process_env" where
  "sample_env addr =
     \<lparr>os_Getenv = (\<lambda>key. if key = ''KIWIGUARD_POSTGRES_DSN'' then ''postgres://db''
         else if key = ''KIWIGUARD_CLICKHOUSE_ADDR'' then ''ch:9000''
         else if key = ''KIWIGUARD_CONTROL_ADDR'' then addr else []),
      float_product = (\<lambda>f unit k. f * unit div 10 ^ k)\<rparr>"

lemma sample_loads:
  assumes "\<not> controlAddressIsPublic addr" "addr \<noteq> []"
  shows "\<exists>cfg. LoadFromEnv (sample_env addr) = Inr cfg \<and> kc_ControlAddr cfg = addr \<and> kc_ControlAuthToken cfg = [] \<and> \<not> kc_ControlInsecure cfg"
  using assms
  by (simp add: LoadFromEnv_def and_then_env_def getEnvInt64_def getEnvInt_def getEnvDuration_def getEnvBool_def parse_env_def getEnv_def
      sample_env_def Let_def)

theorem control_listener_is_local_witness:
  "''127.0.0.1'' = ''localhost'' \<or> (\<exists>ip. ParseIP ''127.0.0.1'' = Some ip \<and> IsLoopback ip) \<or> ''127.0.0.1:8081'' = ''[]:8081''"
proof -
  have "\<not> controlAddressIsPublic ''127.0.0.1:8081''" by code_simp
  then obtain cfg where cfg: "LoadFromEnv (sample_env ''127.0.0.1:8081'') = Inr cfg" "kc_ControlAddr cfg = ''127.0.0.1:8081''"
    "kc_ControlAuthToken cfg = []" "\<not> kc_ControlInsecure cfg"
    using sample_loads by blast
  have "SplitHostPort (kc_ControlAddr cfg) = Some (''127.0.0.1'', ''8081'')" unfolding cfg(2) by code_simp
  from control_listener_is_local [OF cfg(1,3,4) this] show ?thesis unfolding cfg(2) by simp
qed

text \<open>The exception is real: an address that gives the empty host in brackets binds every interface, as
  the one that starts with the colon does, and loads without a token.\<close>

lemma empty_brackets_are_accepted:
  "\<exists>cfg. LoadFromEnv (sample_env ''[]:8081'') = Inr cfg \<and> kc_ControlAuthToken cfg = [] \<and> \<not> kc_ControlInsecure cfg \<and>
    SplitHostPort (kc_ControlAddr cfg) = SplitHostPort '':8081''"
  and "controlAddressIsPublic '':8081''"
proof -
  have "\<not> controlAddressIsPublic ''[]:8081''" by code_simp
  moreover have "SplitHostPort ''[]:8081'' = SplitHostPort '':8081''" by code_simp
  ultimately show "\<exists>cfg. LoadFromEnv (sample_env ''[]:8081'') = Inr cfg \<and> kc_ControlAuthToken cfg = [] \<and> \<not> kc_ControlInsecure cfg \<and>
    SplitHostPort (kc_ControlAddr cfg) = SplitHostPort '':8081''" using sample_loads [of "''[]:8081''"] by auto
  show "controlAddressIsPublic '':8081''" by code_simp
qed

end
