(* ===== verification/Database.thy ===== *)
theory Database
  imports Prelude
begin

text \<open>
  The PostgreSQL adapters' database: the records and the tables, the connection, its statements and transactions.

  A uuid is its text, empty for a null reference, as the queries read it (\<open>coalesce(x::text, '')\<close>) and the
  inserts write it (\<open>nullif($n, '')::uuid\<close>).  A row of a table is the record its loader scans, extended by the
  revision the row belongs to; the tables of providers keep the timeout in milliseconds and have rows of their
  own.  A jsonb column is the text it was given.

  A statement is the function on the tables that its text in the source says, with the schema of
  \<open>configstore/migrations\<close>: primary keys and the unique constraints are checked, an insert takes the next random
  uuid.  What the server adds is an argument of the model: for every statement by its number an error, if it
  fails (a lost connection, a check or a foreign key that is violated), the uuid it generates, the time, the order in
  which it finds rows when none is asked for, and the collation of text.
\<close>

type_synonym uuid = string
type_synonym raw_json = "string option"

section \<open>Routing\<close>

record RouteRecord =
  rtr_ID :: uuid
  rtr_Name :: string
  rtr_Enabled :: bool
  rtr_Priority :: int
  rtr_Method :: string
  rtr_Path :: string
  rtr_PathPrefix :: string
  rtr_Provider :: string
  rtr_UpstreamModel :: string
  rtr_ModelMappingID :: uuid
  rtr_ExecutionMode :: string
  rtr_FallbackAction :: string

record route_row = RouteRecord + rtr_revision :: uuid

record ProviderRecord =
  pvr_ID :: uuid
  pvr_Name :: string
  pvr_BaseURL :: string
  pvr_CredentialRef :: string
  pvr_Timeout :: duration
  pvr_ProviderType :: string
  pvr_Headers :: raw_json
  pvr_RetryConfig :: raw_json
  pvr_CircuitBreakerConfig :: raw_json
  pvr_Capabilities :: raw_json

record provider_row =
  pw_id :: uuid
  pw_name :: string
  pw_base_url :: string
  pw_credential_ref :: string
  pw_timeout_ms :: int
  pw_provider_type :: string
  pw_headers :: string
  pw_retry_config :: string
  pw_circuit_breaker_config :: string
  pw_capabilities :: string
  pw_revision :: uuid

record ModelMappingRecord =
  mmr_ID :: uuid
  mmr_Name :: string
  mmr_SourceModel :: string
  mmr_TargetProviderID :: uuid
  mmr_TargetModel :: string
  mmr_Parameters :: raw_json

record mapping_row = ModelMappingRecord + mmr_revision :: uuid

record VerdictProviderRecord =
  vpr_ID :: uuid
  vpr_Name :: string
  vpr_Adapter :: string
  vpr_Endpoint :: string
  vpr_CredentialRef :: string
  vpr_ModelName :: string
  vpr_Timeout :: duration
  vpr_AdapterConfig :: raw_json
  vpr_RetryConfig :: raw_json
  vpr_CircuitBreakerConfig :: raw_json
  vpr_MaxConcurrency :: int
  vpr_Enabled :: bool

record verdict_row =
  vw_id :: uuid
  vw_name :: string
  vw_adapter :: string
  vw_endpoint :: string
  vw_timeout_ms :: int
  vw_credential_ref :: string
  vw_adapter_config :: string
  vw_model_name :: string
  vw_retry_config :: string
  vw_circuit_breaker_config :: string
  vw_max_concurrency :: int
  vw_enabled :: bool
  vw_revision :: uuid

record RouteVerdictProviderBindingRecord =
  rbr_ID :: uuid
  rbr_RouteID :: uuid
  rbr_VerdictProviderID :: uuid
  rbr_Enabled :: bool
  rbr_ExecutionMode :: string
  rbr_Priority :: int

section \<open>Policy\<close>

record RuleScopeRecord =
  rsr_RouteID :: uuid
  rsr_ProviderID :: uuid
  rsr_Model :: string
  rsr_Direction :: string

record DetectorRecord =
  dtr_ID :: uuid
  dtr_Key :: string
  dtr_Kind :: string
  dtr_Pattern :: string
  dtr_Categories :: "string list"
  dtr_Config :: raw_json
  dtr_Enabled :: bool

record RuleRecord =
  rlr_ID :: uuid
  rlr_Key :: string
  rlr_Description :: string
  rlr_Enabled :: bool
  rlr_Severity :: string
  rlr_Action :: string
  rlr_Priority :: int
  rlr_Config :: raw_json
  rlr_DetectorKeys :: "string list"
  rlr_Scopes :: "RuleScopeRecord list"

record BundleRecord =
  bdr_ID :: uuid
  bdr_Key :: string
  bdr_Version :: string
  bdr_Source :: string
  bdr_Description :: string
  bdr_DefaultAction :: string
  bdr_Enabled :: bool
  bdr_Metadata :: raw_json
  bdr_Detectors :: "DetectorRecord list"
  bdr_Rules :: "RuleRecord list"

record bundle_row =
  bw_id :: uuid
  bw_name :: string
  bw_source :: string
  bw_version :: string
  bw_description :: string
  bw_default_action :: string
  bw_enabled :: bool
  bw_metadata :: string
  bw_revision :: uuid

record detector_row =
  dw_id :: uuid
  dw_bundle :: uuid
  dw_name :: string
  dw_type :: string
  dw_pattern :: string
  dw_config :: string
  dw_enabled :: bool

record rule_row =
  rw_id :: uuid
  rw_bundle :: uuid
  rw_name :: string
  rw_description :: string
  rw_severity :: string
  rw_action :: string
  rw_enabled :: bool
  rw_priority :: int
  rw_config :: string

record rule_detector_row =
  rdw_rule :: uuid
  rdw_detector :: uuid
  rdw_match_mode :: string

record scope_row = RuleScopeRecord + rsr_rule :: uuid

record policy_binding_row =
  pbw_route :: uuid
  pbw_bundle :: uuid
  pbw_enabled :: bool
  pbw_priority :: int

section \<open>Clients and limits\<close>

record GatewayClientRecord =
  gcr_ID :: uuid
  gcr_ExternalID :: string
  gcr_Name :: string
  gcr_Status :: string
  gcr_KeyPrefix :: string
  gcr_KeyHash :: string
  gcr_Notes :: string
  gcr_CreatedAt :: gotime
  gcr_UpdatedAt :: gotime
  gcr_RevokedAt :: "gotime option"

record RoutePolicyRecord =
  rpr_ID :: uuid
  rpr_RouteID :: uuid
  rpr_RequestsPerWindow :: int
  rpr_WindowSeconds :: int
  rpr_MaxConcurrentRequests :: int
  rpr_MaxBodyBytes :: int
  rpr_Enabled :: bool

record route_limit_row = RoutePolicyRecord + rpr_revision :: uuid

record ClientRouteOverrideRecord =
  cor_ID :: uuid
  cor_ClientID :: uuid
  cor_RouteID :: uuid
  cor_RequestsPerWindow :: int
  cor_WindowSeconds :: int
  cor_MaxConcurrentRequests :: int
  cor_MaxBodyBytes :: int
  cor_Enabled :: bool

record client_limit_row = ClientRouteOverrideRecord + cor_revision :: uuid

section \<open>Observability\<close>

record SinkRecord =
  skr_ID :: uuid
  skr_Name :: string
  skr_Kind :: string
  skr_Enabled :: bool
  skr_Config :: raw_json

record sink_row = SinkRecord + skr_revision :: uuid

record RetentionPolicyRecord =
  ror_ID :: uuid
  ror_Name :: string
  ror_SinkID :: uuid
  ror_EventType :: string
  ror_RetentionDays :: int

record retention_row = RetentionPolicyRecord + ror_revision :: uuid

record RawCapturePolicyRecord =
  rcr_ID :: uuid
  rcr_Name :: string
  rcr_RouteID :: uuid
  rcr_Direction :: string
  rcr_Enabled :: bool
  rcr_SampleRate :: rat
  rcr_RedactionMode :: string

record capture_row = RawCapturePolicyRecord + rcr_revision :: uuid

section \<open>Revisions\<close>

record ConfigRevision =
  crv_ID :: uuid
  crv_Number :: int
  crv_Source :: string
  crv_Status :: string
  crv_Actor :: string
  crv_CompiledSnapshotHash :: string
  crv_CompiledSnapshotRef :: string
  crv_ActivatedAt :: gotime

record revision_row =
  vn_id :: uuid
  vn_number :: int
  vn_source :: string
  vn_status :: string
  vn_summary :: string
  vn_actor :: string
  vn_validation_status :: string
  vn_hash :: string
  vn_ref :: string
  vn_activated_at :: "gotime option"

record snapshot_row =
  sn_id :: uuid
  sn_revision :: uuid
  sn_hash :: string
  sn_status :: string
  sn_compiled_at :: gotime

record activation_row =
  ac_revision :: uuid
  ac_snapshot :: uuid
  ac_actor :: string
  ac_status :: string
  ac_reason :: string

section \<open>The tables\<close>

record tables =
  tb_revisions :: "revision_row list"
  tb_generation :: int
  tb_routes :: "route_row list"
  tb_providers :: "provider_row list"
  tb_mappings :: "mapping_row list"
  tb_verdicts :: "verdict_row list"
  tb_verdict_bindings :: "RouteVerdictProviderBindingRecord list"
  tb_bundles :: "bundle_row list"
  tb_detectors :: "detector_row list"
  tb_rules :: "rule_row list"
  tb_rule_detectors :: "rule_detector_row list"
  tb_scopes :: "scope_row list"
  tb_policy_bindings :: "policy_binding_row list"
  tb_clients :: "GatewayClientRecord list"
  tb_route_limits :: "route_limit_row list"
  tb_client_limits :: "client_limit_row list"
  tb_sinks :: "sink_row list"
  tb_retention :: "retention_row list"
  tb_captures :: "capture_row list"
  tb_snapshots :: "snapshot_row list"
  tb_activations :: "activation_row list"
  tb_notifications :: "(string \<times> string) list"

section \<open>The connection\<close>

datatype pg_error = UniqueViolation | PgFailed string

text \<open>Where a query fails: when it is sent, at the scan of a row, or at the end of the iteration.\<close>

datatype stage = AtQuery | AtScan | AtIteration

record pg =
  pg_tables :: tables
  pg_step :: nat
  pg_sequence :: int
  pg_fault :: "nat \<Rightarrow> (stage \<times> pg_error) option"
  pg_lost :: "nat \<Rightarrow> bool"
  pg_uuid :: "nat \<Rightarrow> uuid"
  pg_clock :: "nat \<Rightarrow> gotime"
  pg_order :: "nat \<Rightarrow> nat \<Rightarrow> nat"
  pg_collate :: "string \<Rightarrow> string \<Rightarrow> bool"

datatype store_error =
    Statement string pg_error
  | Message string string
  | MissingClone string uuid
  | ErrActiveRevisionNotFound
  | ErrAlreadyExists

type_synonym 'a db = "(pg, store_error, 'a) effect"

definition tick :: "pg \<Rightarrow> pg" where
  "tick d = d\<lparr>pg_step := pg_step d + 1\<rparr>"

section \<open>Order\<close>

text \<open>The rows in the order the server finds them, and sorted by what \<open>order by\<close> asks for.\<close>

definition found :: "(nat \<Rightarrow> nat) \<Rightarrow> 'r list \<Rightarrow> 'r list" where
  "found place xs = map (nth xs) (sort_key place [0..<length xs])"

fun insert_by :: "('r \<Rightarrow> 'r \<Rightarrow> bool) \<Rightarrow> 'r \<Rightarrow> 'r list \<Rightarrow> 'r list" where
  "insert_by le x [] = [x]"
| "insert_by le x (y # ys) = (if le x y then x # y # ys else y # insert_by le x ys)"

definition order_by :: "('r \<Rightarrow> 'r \<Rightarrow> bool) \<Rightarrow> 'r list \<Rightarrow> 'r list" where
  "order_by le xs = foldr (insert_by le) xs []"

text \<open>A key, and a second one for the rows the first does not tell apart.\<close>

definition by_key :: "('k \<Rightarrow> 'k \<Rightarrow> bool) \<Rightarrow> ('r \<Rightarrow> 'k) \<Rightarrow> 'r \<Rightarrow> 'r \<Rightarrow> bool" where
  "by_key le f x y = le (f x) (f y)"

definition then_by :: "('r \<Rightarrow> 'r \<Rightarrow> bool) \<Rightarrow> ('r \<Rightarrow> 'r \<Rightarrow> bool) \<Rightarrow> 'r \<Rightarrow> 'r \<Rightarrow> bool" where
  "then_by le1 le2 x y \<longleftrightarrow> le1 x y \<and> (le1 y x \<longrightarrow> le2 x y)"

lemma mset_found [simp]: "mset (found place xs) = mset xs"
proof -
  have "mset (map (nth xs) (sort_key place [0..<length xs])) = image_mset (nth xs) (mset [0..<length xs])" by simp
  also have "\<dots> = mset (map (nth xs) [0..<length xs])" by simp
  finally show ?thesis by (simp add: found_def map_nth)
qed

lemma mset_insert_by [simp]: "mset (insert_by le x xs) = add_mset x (mset xs)"
  by (induction xs) auto

lemma mset_order_by [simp]: "mset (order_by le xs) = mset xs"
  by (induction xs) (auto simp: order_by_def)

lemma set_order_by [simp]: "set (order_by le xs) = set xs"
  by (metis mset_order_by set_mset_mset)

lemma set_found [simp]: "set (found place xs) = set xs"
  by (metis mset_found set_mset_mset)

section \<open>Statements\<close>

text \<open>A query of many rows: the three places where it fails have their messages.\<close>

definition select_rows :: "string \<Rightarrow> string \<Rightarrow> string \<Rightarrow> (pg \<Rightarrow> 'r list) \<Rightarrow> 'r list db" where
  "select_rows load scan iterate sel = (\<lambda>d.
     let rows = sel d
     in (case pg_fault d (pg_step d) of
           None \<Rightarrow> Inr rows
         | Some (AtQuery, e) \<Rightarrow> Inl (Statement load e)
         | Some (AtScan, e) \<Rightarrow> if rows = [] then Inr rows else Inl (Statement scan e)
         | Some (AtIteration, e) \<Rightarrow> Inl (Statement iterate e), tick d))"

text \<open>A query of at most one row, whose error and whose absence the caller tells apart.\<close>

datatype 'r row_result = Row 'r | NoRows | RowError pg_error

definition select_row :: "(pg \<Rightarrow> 'r list) \<Rightarrow> 'r row_result db" where
  "select_row sel = (\<lambda>d.
     (Inr (case pg_fault d (pg_step d) of
             Some (_, e) \<Rightarrow> RowError e
           | None \<Rightarrow> (case sel d of [] \<Rightarrow> NoRows | r # _ \<Rightarrow> Row r)), tick d))"

text \<open>A statement that changes the tables and answers a value, or the error it fails with.\<close>

definition run_statement :: "(pg \<Rightarrow> pg_error + 'a \<times> tables) \<Rightarrow> (pg_error + 'a) db" where
  "run_statement f = (\<lambda>d.
     case pg_fault d (pg_step d) of
       Some (_, e) \<Rightarrow> (Inr (Inl e), tick d)
     | None \<Rightarrow>
         (case f d of
            Inl e \<Rightarrow> (Inr (Inl e), tick d)
          | Inr (x, T) \<Rightarrow> (Inr (Inr x), tick (d\<lparr>pg_tables := T\<rparr>))))"

definition or_fail :: "string \<Rightarrow> (pg_error + 'a) db \<Rightarrow> 'a db" where
  "or_fail label m = and_then m (\<lambda>r. case r of Inl e \<Rightarrow> fail (Statement label e) | Inr x \<Rightarrow> ret x)"

text \<open>An insert into one table: the row is built of the uuid that is generated, and must not clash with a row that is
  there; \<open>on conflict do update\<close> changes the row it clashes with.\<close>

definition insert_row ::
  "(tables \<Rightarrow> 'r list) \<Rightarrow> (('r list \<Rightarrow> 'r list) \<Rightarrow> tables \<Rightarrow> tables) \<Rightarrow> ('r \<Rightarrow> 'r \<Rightarrow> bool) \<Rightarrow> (uuid \<Rightarrow> 'r) \<Rightarrow>
   pg \<Rightarrow> pg_error + uuid \<times> tables" where
  "insert_row tbl upd clash row d =
     (let i = pg_uuid d (pg_step d)
      in if \<exists>r \<in> set (tbl (pg_tables d)). clash r (row i) then Inl UniqueViolation
         else Inr (i, upd (\<lambda>rs. rs @ [row i]) (pg_tables d)))"

definition upsert_row ::
  "(tables \<Rightarrow> 'r list) \<Rightarrow> (('r list \<Rightarrow> 'r list) \<Rightarrow> tables \<Rightarrow> tables) \<Rightarrow> ('r \<Rightarrow> uuid) \<Rightarrow> ('r \<Rightarrow> 'r \<Rightarrow> bool) \<Rightarrow> ('r \<Rightarrow> 'r \<Rightarrow> bool) \<Rightarrow>
   ('r \<Rightarrow> 'r \<Rightarrow> 'r) \<Rightarrow> (uuid \<Rightarrow> 'r) \<Rightarrow> pg \<Rightarrow> pg_error + uuid \<times> tables" where
  "upsert_row tbl upd key target clash merge row d =
     (let new = row (pg_uuid d (pg_step d))
      in (case filter (\<lambda>r. target r new) (tbl (pg_tables d)) of
            r # _ \<Rightarrow>
              if \<exists>q \<in> set (tbl (pg_tables d)). \<not> target q new \<and> clash q (merge r new) then Inl UniqueViolation
              else Inr (key r, upd (map (\<lambda>q. if target q new then merge q new else q)) (pg_tables d))
          | [] \<Rightarrow> insert_row tbl upd clash row d))"

section \<open>Transactions\<close>

text \<open>A transaction that does not commit leaves the tables as they were; the steps, and what a sequence has given
  out, stay used.  When a commit fails its effect is lost, unless only the answer is.\<close>

definition transaction :: "string \<Rightarrow> string \<Rightarrow> 'a db \<Rightarrow> 'a db" where
  "transaction begin_label commit_label body = (\<lambda>d.
     case pg_fault d (pg_step d) of
       Some (_, e) \<Rightarrow> (Inl (Statement begin_label e), tick d)
     | None \<Rightarrow>
         (case body (tick d) of
            (Inl e, d') \<Rightarrow> (Inl e, d'\<lparr>pg_tables := pg_tables d\<rparr>)
          | (Inr x, d') \<Rightarrow>
              (case pg_fault d' (pg_step d') of
                 None \<Rightarrow> (Inr x, tick d')
               | Some (_, e) \<Rightarrow>
                   (Inl (Statement commit_label e),
                    tick (if pg_lost d' (pg_step d') then d' else d'\<lparr>pg_tables := pg_tables d\<rparr>)))))"

section \<open>Clones\<close>

text \<open>The loop of a clone that keeps which new uuid an old one has, and the two ways a reference is looked up.\<close>

fun clone_each :: "('r \<Rightarrow> uuid) \<Rightarrow> ('r \<Rightarrow> uuid db) \<Rightarrow> 'r list \<Rightarrow> (uuid \<rightharpoonup> uuid) \<Rightarrow> (uuid \<rightharpoonup> uuid) db" where
  "clone_each old insert_item [] ids = ret ids"
| "clone_each old insert_item (item # items) ids =
     and_then (insert_item item) (\<lambda>newID. clone_each old insert_item items (ids(old item \<mapsto> newID)))"

definition remapRequiredID :: "uuid \<Rightarrow> (uuid \<rightharpoonup> uuid) \<Rightarrow> string \<Rightarrow> uuid db" where
  "remapRequiredID oldID ids label = (case ids oldID of Some newID \<Rightarrow> ret newID | None \<Rightarrow> fail (MissingClone label oldID))"

definition remapOptionalID :: "uuid \<Rightarrow> (uuid \<rightharpoonup> uuid) \<Rightarrow> string \<Rightarrow> uuid db" where
  "remapOptionalID oldID ids label = (if oldID = [] then ret [] else remapRequiredID oldID ids label)"

text \<open>The orders the queries ask for.\<close>

abbreviation by_text :: "pg \<Rightarrow> ('r \<Rightarrow> string) \<Rightarrow> 'r \<Rightarrow> 'r \<Rightarrow> bool" where
  "by_text d f \<equiv> by_key (pg_collate d) f"

abbreviation by_number :: "('r \<Rightarrow> int) \<Rightarrow> 'r \<Rightarrow> 'r \<Rightarrow> bool" where
  "by_number f \<equiv> by_key (\<le>) f"

abbreviation by_uuid :: "('r \<Rightarrow> uuid) \<Rightarrow> 'r \<Rightarrow> 'r \<Rightarrow> bool" where
  "by_uuid f \<equiv> by_key (\<le>) f"

abbreviation selected :: "pg \<Rightarrow> 'r list \<Rightarrow> 'r list" where
  "selected d rows \<equiv> found (pg_order d (pg_step d)) rows"

end
