(* ===== verification/RoutingStore.thy ===== *)
theory RoutingStore
  imports Database
begin

text \<open>\<open>internal/contexts/routing/adapters/postgres\<close>: routes, providers, model mappings and verdict providers in PostgreSQL.\<close>

abbreviation milliseconds :: "int \<Rightarrow> duration" where
  "milliseconds n \<equiv> n * 1000000"

section \<open>Loaders\<close>

definition LoadRoutes :: "uuid \<Rightarrow> RouteRecord list db" where
  "LoadRoutes revisionID =
     select_rows ''load routes'' ''scan route'' ''iterate routes''
       (\<lambda>d. map RouteRecord.truncate
          (order_by (then_by (by_number rtr_Priority) (by_text d rtr_Name))
            (selected d (filter (\<lambda>r. rtr_revision r = revisionID) (tb_routes (pg_tables d))))))"

definition provider_of :: "provider_row \<Rightarrow> ProviderRecord" where
  "provider_of r =
     \<lparr>pvr_ID = pw_id r, pvr_Name = pw_name r, pvr_BaseURL = pw_base_url r, pvr_CredentialRef = pw_credential_ref r,
      pvr_Timeout = milliseconds (pw_timeout_ms r), pvr_ProviderType = pw_provider_type r, pvr_Headers = Some (pw_headers r),
      pvr_RetryConfig = Some (pw_retry_config r), pvr_CircuitBreakerConfig = Some (pw_circuit_breaker_config r),
      pvr_Capabilities = Some (pw_capabilities r)\<rparr>"

definition LoadProviders :: "uuid \<Rightarrow> ProviderRecord list db" where
  "LoadProviders revisionID =
     select_rows ''load providers'' ''scan provider'' ''iterate providers''
       (\<lambda>d. map provider_of
          (order_by (by_text d pw_name) (selected d (filter (\<lambda>r. pw_revision r = revisionID) (tb_providers (pg_tables d))))))"

definition LoadModelMappings :: "uuid \<Rightarrow> ModelMappingRecord list db" where
  "LoadModelMappings revisionID =
     select_rows ''load model mappings'' ''scan model mapping'' ''iterate model mappings''
       (\<lambda>d. map ModelMappingRecord.truncate
          (order_by (by_text d mmr_Name) (selected d (filter (\<lambda>r. mmr_revision r = revisionID) (tb_mappings (pg_tables d))))))"

definition verdict_provider_of :: "verdict_row \<Rightarrow> VerdictProviderRecord" where
  "verdict_provider_of r =
     \<lparr>vpr_ID = vw_id r, vpr_Name = vw_name r, vpr_Adapter = vw_adapter r, vpr_Endpoint = vw_endpoint r,
      vpr_CredentialRef = vw_credential_ref r, vpr_ModelName = vw_model_name r, vpr_Timeout = milliseconds (vw_timeout_ms r),
      vpr_AdapterConfig = Some (vw_adapter_config r), vpr_RetryConfig = Some (vw_retry_config r),
      vpr_CircuitBreakerConfig = Some (vw_circuit_breaker_config r), vpr_MaxConcurrency = vw_max_concurrency r,
      vpr_Enabled = vw_enabled r\<rparr>"

definition LoadVerdictProviders :: "uuid \<Rightarrow> VerdictProviderRecord list db" where
  "LoadVerdictProviders revisionID =
     select_rows ''load verdict providers'' ''scan verdict provider'' ''iterate verdict providers''
       (\<lambda>d. map verdict_provider_of
          (order_by (by_text d vw_name) (selected d (filter (\<lambda>r. vw_revision r = revisionID) (tb_verdicts (pg_tables d))))))"

text \<open>The rows of a table joined to the routes of a revision.\<close>

definition of_routes :: "uuid \<Rightarrow> ('b \<Rightarrow> uuid) \<Rightarrow> route_row list \<Rightarrow> 'b list \<Rightarrow> (route_row \<times> 'b) list" where
  "of_routes revisionID ref routes bs =
     concat (map (\<lambda>b. map (\<lambda>r. (r, b)) (filter (\<lambda>r. rtr_ID r = ref b \<and> rtr_revision r = revisionID) routes)) bs)"

definition LoadRouteVerdictProviderBindings :: "uuid \<Rightarrow> RouteVerdictProviderBindingRecord list db" where
  "LoadRouteVerdictProviderBindings revisionID =
     select_rows ''load route verdict provider bindings'' ''scan route verdict provider binding'' ''iterate route verdict provider bindings''
       (\<lambda>d. map snd
          (order_by (then_by (by_text d (rtr_Name \<circ> fst)) (then_by (by_number (rbr_Priority \<circ> snd)) (by_uuid (rbr_ID \<circ> snd))))
            (selected d (of_routes revisionID rbr_RouteID (tb_routes (pg_tables d)) (tb_verdict_bindings (pg_tables d))))))"

section \<open>Mutations\<close>

definition mapping_clash :: "mapping_row \<Rightarrow> mapping_row \<Rightarrow> bool" where
  "mapping_clash r n \<longleftrightarrow> mmr_ID r = mmr_ID n \<or>
     mmr_revision r = mmr_revision n \<and> (mmr_Name r = mmr_Name n \<or> mmr_SourceModel r = mmr_SourceModel n)"

definition UpsertModelMapping :: "uuid \<Rightarrow> ModelMappingRecord \<Rightarrow> unit db" where
  "UpsertModelMapping revisionID mapping =
     (let parameters = (case mmr_Parameters mapping of None \<Rightarrow> Some ''{}'' | Some p \<Rightarrow> Some p);
          row = (\<lambda>i. ModelMappingRecord.extend
            \<lparr>mmr_ID = i, mmr_Name = mmr_Name mapping, mmr_SourceModel = mmr_SourceModel mapping,
             mmr_TargetProviderID = mmr_TargetProviderID mapping, mmr_TargetModel = mmr_TargetModel mapping, mmr_Parameters = parameters\<rparr>
            (mapping_row.fields revisionID))
      in and_then
           (or_fail ''upsert model mapping''
             (run_statement (upsert_row tb_mappings tb_mappings_update mmr_ID
               (\<lambda>r n. mmr_revision r = mmr_revision n \<and> mmr_Name r = mmr_Name n) mapping_clash
               (\<lambda>r n. r\<lparr>mmr_SourceModel := mmr_SourceModel n, mmr_TargetProviderID := mmr_TargetProviderID n,
                  mmr_TargetModel := mmr_TargetModel n, mmr_Parameters := mmr_Parameters n\<rparr>)
               row)))
           (\<lambda>_. ret ()))"

definition defaultJSONObject :: "raw_json \<Rightarrow> string" where
  "defaultJSONObject raw = (case raw of None \<Rightarrow> ''{}'' | Some s \<Rightarrow> if s = [] then ''{}'' else s)"

text \<open>Whole milliseconds of a duration, towards zero.\<close>

definition Store_durationMillis :: "duration \<Rightarrow> int" where
  "Store_durationMillis t = sgn t * (\<bar>t\<bar> div 1000000)"

definition verdict_clash :: "verdict_row \<Rightarrow> verdict_row \<Rightarrow> bool" where
  "verdict_clash r n \<longleftrightarrow> vw_id r = vw_id n \<or> vw_revision r = vw_revision n \<and> vw_name r = vw_name n"

definition UpsertVerdictProvider :: "uuid \<Rightarrow> VerdictProviderRecord \<Rightarrow> unit db" where
  "UpsertVerdictProvider revisionID provider =
     (let adapter = (if vpr_Adapter provider = [] then ''http'' else vpr_Adapter provider);
          timeout = (if vpr_Timeout provider \<le> 0 then milliseconds 5000 else vpr_Timeout provider);
          maxConcurrency = (if vpr_MaxConcurrency provider \<le> 0 then 16 else vpr_MaxConcurrency provider);
          row = (\<lambda>i. \<lparr>vw_id = i, vw_name = vpr_Name provider, vw_adapter = adapter, vw_endpoint = vpr_Endpoint provider,
            vw_timeout_ms = Store_durationMillis timeout, vw_credential_ref = vpr_CredentialRef provider,
            vw_adapter_config = defaultJSONObject (vpr_AdapterConfig provider), vw_model_name = vpr_ModelName provider,
            vw_retry_config = defaultJSONObject (vpr_RetryConfig provider),
            vw_circuit_breaker_config = defaultJSONObject (vpr_CircuitBreakerConfig provider),
            vw_max_concurrency = maxConcurrency, vw_enabled = vpr_Enabled provider, vw_revision = revisionID\<rparr>)
      in and_then
           (or_fail ''upsert verdict provider''
             (run_statement (upsert_row tb_verdicts tb_verdicts_update vw_id
               (\<lambda>r n. vw_revision r = vw_revision n \<and> vw_name r = vw_name n) verdict_clash
               (\<lambda>r n. n\<lparr>vw_id := vw_id r, vw_name := vw_name r, vw_revision := vw_revision r\<rparr>)
               row)))
           (\<lambda>_. ret ()))"

section \<open>Clones\<close>

definition CloneProviders :: "uuid \<Rightarrow> uuid \<Rightarrow> (uuid \<rightharpoonup> uuid) db" where
  "CloneProviders sourceRevisionID draftRevisionID =
     and_then
       (select_rows ''load providers for draft clone'' ''scan provider for draft clone'' ''iterate providers for draft clone''
         (\<lambda>d. order_by (by_text d pw_name) (selected d (filter (\<lambda>r. pw_revision r = sourceRevisionID) (tb_providers (pg_tables d))))))
       (\<lambda>items. clone_each pw_id
         (\<lambda>item. or_fail (''clone provider '' @ pw_name item)
           (run_statement (insert_row tb_providers tb_providers_update
             (\<lambda>r n. pw_id r = pw_id n \<or> pw_revision r = pw_revision n \<and> pw_name r = pw_name n)
             (\<lambda>i. \<lparr>pw_id = i, pw_name = pw_name item, pw_base_url = pw_base_url item, pw_credential_ref = pw_credential_ref item,
               pw_timeout_ms = pw_timeout_ms item, pw_provider_type = pw_provider_type item, pw_headers = pw_headers item,
               pw_retry_config = pw_retry_config item, pw_circuit_breaker_config = pw_circuit_breaker_config item,
               pw_capabilities = pw_capabilities item, pw_revision = draftRevisionID\<rparr>))))
         items Map.empty)"

definition CloneModelMappings :: "uuid \<Rightarrow> uuid \<Rightarrow> (uuid \<rightharpoonup> uuid) \<Rightarrow> (uuid \<rightharpoonup> uuid) db" where
  "CloneModelMappings sourceRevisionID draftRevisionID providerIDs =
     and_then
       (select_rows ''load model mappings for draft clone'' ''scan model mapping for draft clone'' ''iterate model mappings for draft clone''
         (\<lambda>d. order_by (by_text d mmr_Name) (selected d (filter (\<lambda>r. mmr_revision r = sourceRevisionID) (tb_mappings (pg_tables d))))))
       (\<lambda>items. clone_each mmr_ID
         (\<lambda>item. and_then (remapOptionalID (mmr_TargetProviderID item) providerIDs ''model mapping target provider'') (\<lambda>targetProviderID.
           or_fail (''clone model mapping '' @ mmr_Name item)
             (run_statement (insert_row tb_mappings tb_mappings_update mapping_clash
               (\<lambda>i. \<lparr>mmr_ID = i, mmr_Name = mmr_Name item, mmr_SourceModel = mmr_SourceModel item,
                 mmr_TargetProviderID = targetProviderID, mmr_TargetModel = mmr_TargetModel item,
                 mmr_Parameters = mmr_Parameters item, mmr_revision = draftRevisionID\<rparr>)))))
         items Map.empty)"

definition CloneRoutes :: "uuid \<Rightarrow> uuid \<Rightarrow> (uuid \<rightharpoonup> uuid) \<Rightarrow> (uuid \<rightharpoonup> uuid) db" where
  "CloneRoutes sourceRevisionID draftRevisionID mappingIDs =
     and_then
       (select_rows ''load routes for draft clone'' ''scan route for draft clone'' ''iterate routes for draft clone''
         (\<lambda>d. order_by (then_by (by_number rtr_Priority) (by_text d rtr_Name))
            (selected d (filter (\<lambda>r. rtr_revision r = sourceRevisionID) (tb_routes (pg_tables d))))))
       (\<lambda>items. clone_each rtr_ID
         (\<lambda>item. and_then (remapOptionalID (rtr_ModelMappingID item) mappingIDs ''route model mapping'') (\<lambda>modelMappingID.
           or_fail (''clone route '' @ rtr_Name item)
             (run_statement (insert_row tb_routes tb_routes_update
               (\<lambda>r n. rtr_ID r = rtr_ID n \<or> rtr_revision r = rtr_revision n \<and> rtr_Name r = rtr_Name n)
               (\<lambda>i. \<lparr>rtr_ID = i, rtr_Name = rtr_Name item, rtr_Enabled = rtr_Enabled item, rtr_Priority = rtr_Priority item,
                 rtr_Method = rtr_Method item, rtr_Path = rtr_Path item, rtr_PathPrefix = rtr_PathPrefix item,
                 rtr_Provider = rtr_Provider item, rtr_UpstreamModel = rtr_UpstreamModel item, rtr_ModelMappingID = modelMappingID,
                 rtr_ExecutionMode = rtr_ExecutionMode item, rtr_FallbackAction = rtr_FallbackAction item,
                 rtr_revision = draftRevisionID\<rparr>)))))
         items Map.empty)"

definition CloneVerdictProviders :: "uuid \<Rightarrow> uuid \<Rightarrow> (uuid \<rightharpoonup> uuid) db" where
  "CloneVerdictProviders sourceRevisionID draftRevisionID =
     and_then
       (select_rows ''load verdict providers for draft clone'' ''scan verdict provider for draft clone'' ''iterate verdict providers for draft clone''
         (\<lambda>d. order_by (by_text d vw_name) (selected d (filter (\<lambda>r. vw_revision r = sourceRevisionID) (tb_verdicts (pg_tables d))))))
       (\<lambda>items. clone_each vw_id
         (\<lambda>item. or_fail (''clone verdict provider '' @ vw_name item)
           (run_statement (insert_row tb_verdicts tb_verdicts_update verdict_clash
             (\<lambda>i. \<lparr>vw_id = i, vw_name = vw_name item, vw_adapter = vw_adapter item, vw_endpoint = vw_endpoint item,
               vw_timeout_ms = vw_timeout_ms item, vw_credential_ref = vw_credential_ref item, vw_adapter_config = vw_adapter_config item,
               vw_model_name = vw_model_name item, vw_retry_config = vw_retry_config item,
               vw_circuit_breaker_config = vw_circuit_breaker_config item, vw_max_concurrency = vw_max_concurrency item,
               vw_enabled = vw_enabled item, vw_revision = draftRevisionID\<rparr>))))
         items Map.empty)"

definition CloneRouteVerdictProviderBindings :: "uuid \<Rightarrow> (uuid \<rightharpoonup> uuid) \<Rightarrow> (uuid \<rightharpoonup> uuid) \<Rightarrow> unit db" where
  "CloneRouteVerdictProviderBindings sourceRevisionID routeIDs verdictProviderIDs =
     and_then
       (select_rows ''load route verdict provider bindings for draft clone'' ''scan route verdict provider binding for draft clone''
         ''iterate route verdict provider bindings for draft clone''
         (\<lambda>d. map snd (selected d (of_routes sourceRevisionID rbr_RouteID (tb_routes (pg_tables d)) (tb_verdict_bindings (pg_tables d))))))
       (for_each (\<lambda>item.
         and_then (remapRequiredID (rbr_RouteID item) routeIDs ''route verdict provider binding route'') (\<lambda>routeID.
         and_then (remapRequiredID (rbr_VerdictProviderID item) verdictProviderIDs ''route verdict provider binding verdict provider'') (\<lambda>verdictProviderID.
         and_then (or_fail ''clone route verdict provider binding''
           (run_statement (insert_row tb_verdict_bindings tb_verdict_bindings_update
             (\<lambda>r n. rbr_ID r = rbr_ID n \<or> rbr_RouteID r = rbr_RouteID n \<and> rbr_VerdictProviderID r = rbr_VerdictProviderID n)
             (\<lambda>i. \<lparr>rbr_ID = i, rbr_RouteID = routeID, rbr_VerdictProviderID = verdictProviderID, rbr_Enabled = rbr_Enabled item,
               rbr_ExecutionMode = rbr_ExecutionMode item, rbr_Priority = rbr_Priority item\<rparr>)))) (\<lambda>_. ret ())))))"

end
