(* ===== verification/PolicyStore.thy ===== *)
theory PolicyStore
  imports RoutingStore Policy
begin

text \<open>\<open>internal/contexts/policy/adapters/postgres\<close>: policy bundles with their detectors and rules in PostgreSQL.\<close>

section \<open>Conversion\<close>

text \<open>\<open>encoding/json\<close> on the configuration of a detector: the object that is written, and the two fields that are read
  from one, if it can be decoded.\<close>

record detector_codec =
  dc_marshal :: "string \<Rightarrow> string list \<Rightarrow> string option"
  dc_kind :: "string \<Rightarrow> string option"
  dc_categories :: "string \<Rightarrow> string list option"

definition detectorConfig :: "detector_codec \<Rightarrow> string \<Rightarrow> string list \<Rightarrow> string" where
  "detectorConfig K kind categories = (case dc_marshal K kind categories of None \<Rightarrow> ''{}'' | Some encoded \<Rightarrow> encoded)"

definition detectorStorageKind :: "string \<Rightarrow> string" where
  "detectorStorageKind kind =
     (if kind = KindRegex then KindRegex
      else if kind \<in> {KindEmail, KindPhone, KindPaymentCard, KindSecret} then ''builtin''
      else kind)"

definition detectorPolicyKind :: "detector_codec \<Rightarrow> string \<Rightarrow> string \<Rightarrow> string" where
  "detectorPolicyKind K storageKind raw =
     (if storageKind \<noteq> ''builtin'' then storageKind
      else case dc_kind K raw of
             None \<Rightarrow> storageKind
           | Some kind \<Rightarrow> if kind = [] then storageKind else kind)"

definition detectorCategories :: "detector_codec \<Rightarrow> string \<Rightarrow> string list" where
  "detectorCategories K raw = (case dc_categories K raw of None \<Rightarrow> [] | Some categories \<Rightarrow> categories)"

definition storageDirection :: "string \<Rightarrow> string" where
  "storageDirection direction =
     (if direction = DirectionInput \<or> direction = ''request'' then ''request''
      else if direction = DirectionOutput \<or> direction = ''response'' then ''response''
      else ''both'')"

definition policyDirection :: "string \<Rightarrow> string" where
  "policyDirection direction =
     (if direction = ''request'' then DirectionInput else if direction = ''response'' then DirectionOutput else [])"

definition defaultBundleSource :: "string \<Rightarrow> string" where
  "defaultBundleSource source = (if source \<noteq> [] then source else SourceUser)"

definition defaultBundleAction :: "string \<Rightarrow> string" where
  "defaultBundleAction action = (if action \<noteq> [] then action else ActionAllow)"

definition policy_defaultJSONObject :: "raw_json \<Rightarrow> string" where
  "policy_defaultJSONObject raw = (case raw of None \<Rightarrow> ''{}'' | Some s \<Rightarrow> s)"

section \<open>Loaders\<close>

definition bundle_of :: "bundle_row \<Rightarrow> BundleRecord" where
  "bundle_of r =
     \<lparr>bdr_ID = bw_id r, bdr_Key = bw_name r, bdr_Version = bw_version r, bdr_Source = bw_source r, bdr_Description = bw_description r,
      bdr_DefaultAction = bw_default_action r, bdr_Enabled = bw_enabled r, bdr_Metadata = Some (bw_metadata r),
      bdr_Detectors = [], bdr_Rules = []\<rparr>"

definition detector_of :: "detector_codec \<Rightarrow> detector_row \<Rightarrow> DetectorRecord" where
  "detector_of K r =
     \<lparr>dtr_ID = dw_id r, dtr_Key = dw_name r, dtr_Kind = detectorPolicyKind K (dw_type r) (dw_config r), dtr_Pattern = dw_pattern r,
      dtr_Categories = detectorCategories K (dw_config r), dtr_Config = Some (dw_config r), dtr_Enabled = dw_enabled r\<rparr>"

definition rule_of :: "rule_row \<Rightarrow> RuleRecord" where
  "rule_of r =
     \<lparr>rlr_ID = rw_id r, rlr_Key = rw_name r, rlr_Description = rw_description r, rlr_Enabled = rw_enabled r,
      rlr_Severity = rw_severity r, rlr_Action = rw_action r, rlr_Priority = rw_priority r, rlr_Config = Some (rw_config r),
      rlr_DetectorKeys = [], rlr_Scopes = []\<rparr>"

text \<open>A change of the bundle, or of the rule of a bundle, at a position; a position that no map knows is the zero value.\<close>

definition index_in :: "('k \<rightharpoonup> nat) \<Rightarrow> 'k \<Rightarrow> nat" where
  "index_in m k = (case m k of None \<Rightarrow> 0 | Some i \<Rightarrow> i)"

definition at_bundle :: "nat \<Rightarrow> (BundleRecord \<Rightarrow> BundleRecord) \<Rightarrow> BundleRecord list \<Rightarrow> BundleRecord list" where
  "at_bundle i f bundles = bundles[i := f (bundles ! i)]"

definition at_rule :: "nat \<Rightarrow> (RuleRecord \<Rightarrow> RuleRecord) \<Rightarrow> BundleRecord \<Rightarrow> BundleRecord" where
  "at_rule j f bundle = bundle\<lparr>bdr_Rules := (bdr_Rules bundle)[j := f (bdr_Rules bundle ! j)]\<rparr>"

definition add_detector :: "detector_codec \<Rightarrow> (uuid \<rightharpoonup> nat) \<Rightarrow> detector_row \<Rightarrow> BundleRecord list \<Rightarrow> BundleRecord list" where
  "add_detector K bundleIndex row bundles =
     (case bundleIndex (dw_bundle row) of
        None \<Rightarrow> bundles
      | Some i \<Rightarrow> at_bundle i (\<lambda>b. b\<lparr>bdr_Detectors := bdr_Detectors b @ [detector_of K row]\<rparr>) bundles)"

definition hydratePolicyBundleDetectors ::
  "detector_codec \<Rightarrow> BundleRecord list \<Rightarrow> uuid list \<Rightarrow> (uuid \<rightharpoonup> nat) \<Rightarrow> BundleRecord list db" where
  "hydratePolicyBundleDetectors K bundles bundleIDs bundleIndex =
     and_then
       (select_rows ''load policy detectors'' ''scan policy detector'' ''iterate policy detectors''
         (\<lambda>d. order_by (then_by (by_uuid dw_bundle) (by_text d dw_name))
            (selected d (filter (\<lambda>r. dw_bundle r \<in> set bundleIDs) (tb_detectors (pg_tables d))))))
       (\<lambda>rows. ret (fold (add_detector K bundleIndex) rows bundles))"

text \<open>What the loop over the rules keeps: the bundles, where each rule is, and the rules that were seen.\<close>

record rule_index =
  ri_bundles :: "BundleRecord list"
  ri_ruleBundle :: "uuid \<rightharpoonup> uuid"
  ri_ruleIndex :: "uuid \<rightharpoonup> nat"
  ri_ruleIDs :: "uuid list"

definition add_rule :: "(uuid \<rightharpoonup> nat) \<Rightarrow> rule_row \<Rightarrow> rule_index \<Rightarrow> rule_index" where
  "add_rule bundleIndex row x =
     (case bundleIndex (rw_bundle row) of
        None \<Rightarrow> x
      | Some i \<Rightarrow>
          (let bundles = at_bundle i (\<lambda>b. b\<lparr>bdr_Rules := bdr_Rules b @ [rule_of row]\<rparr>) (ri_bundles x)
           in x\<lparr>ri_bundles := bundles,
               ri_ruleBundle := (ri_ruleBundle x)(rw_id row \<mapsto> rw_bundle row),
               ri_ruleIndex := (ri_ruleIndex x)(rw_id row \<mapsto> length (bdr_Rules (bundles ! i)) - 1),
               ri_ruleIDs := ri_ruleIDs x @ [rw_id row]\<rparr>))"

definition at_rule_id :: "(uuid \<rightharpoonup> nat) \<Rightarrow> rule_index \<Rightarrow> uuid \<Rightarrow> (RuleRecord \<Rightarrow> RuleRecord) \<Rightarrow> BundleRecord list \<Rightarrow> BundleRecord list" where
  "at_rule_id bundleIndex x ruleID f bundles =
     at_bundle (index_in bundleIndex (case ri_ruleBundle x ruleID of None \<Rightarrow> [] | Some bundleID \<Rightarrow> bundleID))
       (at_rule (index_in (ri_ruleIndex x) ruleID) f) bundles"

definition hydratePolicyRuleDetectorKeys :: "(uuid \<rightharpoonup> nat) \<Rightarrow> rule_index \<Rightarrow> BundleRecord list db" where
  "hydratePolicyRuleDetectorKeys bundleIndex x =
     and_then
       (select_rows ''load policy rule detectors'' ''scan policy rule detector'' ''iterate policy rule detectors''
         (\<lambda>d. order_by (then_by (by_uuid (rdw_rule \<circ> fst)) (by_text d (dw_name \<circ> snd)))
            (selected d (concat (map (\<lambda>rd. map (Pair rd) (filter (\<lambda>t. dw_id t = rdw_detector rd) (tb_detectors (pg_tables d))))
              (filter (\<lambda>rd. rdw_rule rd \<in> set (ri_ruleIDs x)) (tb_rule_detectors (pg_tables d))))))))
       (\<lambda>rows. ret (fold (\<lambda>(rd, t). at_rule_id bundleIndex x (rdw_rule rd)
          (\<lambda>r. r\<lparr>rlr_DetectorKeys := rlr_DetectorKeys r @ [dw_name t]\<rparr>)) rows (ri_bundles x)))"

definition scope_of :: "scope_row \<Rightarrow> RuleScopeRecord" where
  "scope_of r = \<lparr>rsr_RouteID = rsr_RouteID r, rsr_ProviderID = rsr_ProviderID r, rsr_Model = rsr_Model r,
     rsr_Direction = policyDirection (rsr_Direction r)\<rparr>"

definition hydratePolicyRuleScopes :: "(uuid \<rightharpoonup> nat) \<Rightarrow> rule_index \<Rightarrow> BundleRecord list \<Rightarrow> BundleRecord list db" where
  "hydratePolicyRuleScopes bundleIndex x bundles =
     and_then
       (select_rows ''load policy rule scopes'' ''scan policy rule scope'' ''iterate policy rule scopes''
         (\<lambda>d. order_by (then_by (by_uuid rsr_rule) (then_by (by_text d rsr_Model) (by_text d rsr_Direction)))
            (selected d (filter (\<lambda>r. rsr_rule r \<in> set (ri_ruleIDs x)) (tb_scopes (pg_tables d))))))
       (\<lambda>rows. ret (fold (\<lambda>row. at_rule_id bundleIndex x (rsr_rule row)
          (\<lambda>r. r\<lparr>rlr_Scopes := rlr_Scopes r @ [scope_of row]\<rparr>)) rows bundles))"

definition hydratePolicyBundleRules :: "BundleRecord list \<Rightarrow> uuid list \<Rightarrow> (uuid \<rightharpoonup> nat) \<Rightarrow> BundleRecord list db" where
  "hydratePolicyBundleRules bundles bundleIDs bundleIndex =
     and_then
       (select_rows ''load policy rules'' ''scan policy rule'' ''iterate policy rules''
         (\<lambda>d. order_by (then_by (by_uuid rw_bundle) (then_by (by_number rw_priority) (by_text d rw_name)))
            (selected d (filter (\<lambda>r. rw_bundle r \<in> set bundleIDs) (tb_rules (pg_tables d))))))
       (\<lambda>rows.
         let x = fold (add_rule bundleIndex) rows
               \<lparr>ri_bundles = bundles, ri_ruleBundle = Map.empty, ri_ruleIndex = Map.empty, ri_ruleIDs = []\<rparr>
         in if ri_ruleIDs x = [] then ret (ri_bundles x)
            else and_then (hydratePolicyRuleDetectorKeys bundleIndex x) (hydratePolicyRuleScopes bundleIndex x))"

definition hydratePolicyBundles :: "detector_codec \<Rightarrow> BundleRecord list \<Rightarrow> BundleRecord list db" where
  "hydratePolicyBundles K bundles =
     (if bundles = [] then ret bundles
      else let bundleIDs = map bdr_ID bundles;
               bundleIndex = fold (\<lambda>i m. m(bdr_ID (bundles ! i) \<mapsto> i)) [0..<length bundles] Map.empty
           in and_then (hydratePolicyBundleDetectors K bundles bundleIDs bundleIndex)
                (\<lambda>bundles. hydratePolicyBundleRules bundles bundleIDs bundleIndex))"

definition LoadBundles :: "detector_codec \<Rightarrow> uuid \<Rightarrow> BundleRecord list db" where
  "LoadBundles K revisionID =
     and_then
       (select_rows ''load policy bundles'' ''scan policy bundle'' ''iterate policy bundles''
         (\<lambda>d. map bundle_of (order_by (by_text d bw_name)
            (selected d (filter (\<lambda>r. bw_revision r = revisionID) (tb_bundles (pg_tables d)))))))
       (hydratePolicyBundles K)"

definition LoadBundlesByKeys :: "detector_codec \<Rightarrow> uuid \<Rightarrow> string list \<Rightarrow> BundleRecord list db" where
  "LoadBundlesByKeys K revisionID keys =
     (if keys = [] then ret []
      else and_then
        (select_rows ''load policy bundles by keys'' ''scan policy bundle by key'' ''iterate policy bundles by keys''
          (\<lambda>d. map bundle_of (order_by (by_text d bw_name)
             (selected d (filter (\<lambda>r. bw_revision r = revisionID \<and> bw_name r \<in> set keys) (tb_bundles (pg_tables d)))))))
        (hydratePolicyBundles K))"

section \<open>Mutations\<close>

definition update_tables :: "(tables \<Rightarrow> tables) \<Rightarrow> (pg_error + unit) db" where
  "update_tables f = run_statement (\<lambda>d. Inr ((), f (pg_tables d)))"

definition UpdateDraftBundleActivation :: "uuid \<Rightarrow> string list \<Rightarrow> unit db" where
  "UpdateDraftBundleActivation revisionID keys =
     or_fail ''update policy bundle activation state''
       (update_tables (tb_bundles_update (map (\<lambda>r. if bw_revision r = revisionID then r\<lparr>bw_enabled := bw_name r \<in> set keys\<rparr> else r))))"

definition RecordActivation :: "uuid \<Rightarrow> uuid \<Rightarrow> string \<Rightarrow> string \<Rightarrow> unit db" where
  "RecordActivation revisionID snapshotID actor reason =
     or_fail ''record policy activation''
       (update_tables (tb_activations_update (\<lambda>rs. rs @
          [\<lparr>ac_revision = revisionID, ac_snapshot = snapshotID, ac_actor = actor, ac_status = ''active'', ac_reason = reason\<rparr>])))"

text \<open>Detectors and rules that are deleted take the rows that refer to them along.\<close>

definition delete_detectors :: "uuid \<Rightarrow> tables \<Rightarrow> tables" where
  "delete_detectors bundleID T =
     (let gone = map dw_id (filter (\<lambda>r. dw_bundle r = bundleID) (tb_detectors T))
      in T\<lparr>tb_detectors := filter (\<lambda>r. dw_bundle r \<noteq> bundleID) (tb_detectors T),
           tb_rule_detectors := filter (\<lambda>r. rdw_detector r \<notin> set gone) (tb_rule_detectors T)\<rparr>)"

definition delete_rules :: "uuid \<Rightarrow> tables \<Rightarrow> tables" where
  "delete_rules bundleID T =
     (let gone = map rw_id (filter (\<lambda>r. rw_bundle r = bundleID) (tb_rules T))
      in T\<lparr>tb_rules := filter (\<lambda>r. rw_bundle r \<noteq> bundleID) (tb_rules T),
           tb_rule_detectors := filter (\<lambda>r. rdw_rule r \<notin> set gone) (tb_rule_detectors T),
           tb_scopes := filter (\<lambda>r. rsr_rule r \<notin> set gone) (tb_scopes T)\<rparr>)"

definition bundle_clash :: "bundle_row \<Rightarrow> bundle_row \<Rightarrow> bool" where
  "bundle_clash r n \<longleftrightarrow> bw_id r = bw_id n \<or> bw_revision r = bw_revision n \<and> bw_name r = bw_name n"

definition detector_clash :: "detector_row \<Rightarrow> detector_row \<Rightarrow> bool" where
  "detector_clash r n \<longleftrightarrow> dw_id r = dw_id n \<or> dw_bundle r = dw_bundle n \<and> dw_name r = dw_name n"

definition rule_clash :: "rule_row \<Rightarrow> rule_row \<Rightarrow> bool" where
  "rule_clash r n \<longleftrightarrow> rw_id r = rw_id n \<or> rw_bundle r = rw_bundle n \<and> rw_name r = rw_name n"

definition rule_detector_clash :: "rule_detector_row \<Rightarrow> rule_detector_row \<Rightarrow> bool" where
  "rule_detector_clash r n \<longleftrightarrow> rdw_rule r = rdw_rule n \<and> rdw_detector r = rdw_detector n"

text \<open>A null is distinct from every null, so rows without a route or without a provider never clash.\<close>

definition scope_clash :: "scope_row \<Rightarrow> scope_row \<Rightarrow> bool" where
  "scope_clash r n \<longleftrightarrow> rsr_rule r = rsr_rule n \<and> rsr_RouteID r = rsr_RouteID n \<and> rsr_RouteID n \<noteq> [] \<and>
     rsr_ProviderID r = rsr_ProviderID n \<and> rsr_ProviderID n \<noteq> [] \<and> rsr_Model r = rsr_Model n \<and> rsr_Direction r = rsr_Direction n"

definition upsert_bundle_row :: "uuid \<Rightarrow> BundleRecord \<Rightarrow> uuid db" where
  "upsert_bundle_row revisionID bundle =
     or_fail ''upsert policy bundle''
       (run_statement (upsert_row tb_bundles tb_bundles_update bw_id
         (\<lambda>r n. bw_revision r = bw_revision n \<and> bw_name r = bw_name n) bundle_clash
         (\<lambda>r n. n\<lparr>bw_id := bw_id r, bw_revision := bw_revision r, bw_name := bw_name r\<rparr>)
         (\<lambda>i. \<lparr>bw_id = i, bw_name = bdr_Key bundle, bw_source = bdr_Source bundle, bw_version = bdr_Version bundle,
           bw_description = bdr_Description bundle, bw_default_action = bdr_DefaultAction bundle, bw_enabled = bdr_Enabled bundle,
           bw_metadata = policy_defaultJSONObject (bdr_Metadata bundle), bw_revision = revisionID\<rparr>)))"

definition insert_detector :: "detector_codec \<Rightarrow> uuid \<Rightarrow> DetectorRecord \<Rightarrow> uuid db" where
  "insert_detector K bundleID detector =
     (let config = (case dtr_Config detector of None \<Rightarrow> detectorConfig K (dtr_Kind detector) (dtr_Categories detector) | Some c \<Rightarrow> c);
          kind = detectorStorageKind (dtr_Kind detector)
      in or_fail ''insert policy detector''
           (run_statement (insert_row tb_detectors tb_detectors_update detector_clash
             (\<lambda>i. \<lparr>dw_id = i, dw_bundle = bundleID, dw_name = dtr_Key detector, dw_type = kind, dw_pattern = dtr_Pattern detector,
               dw_config = config, dw_enabled = dtr_Enabled detector\<rparr>))))"

fun insert_detectors :: "detector_codec \<Rightarrow> uuid \<Rightarrow> DetectorRecord list \<Rightarrow> (string \<rightharpoonup> uuid) \<Rightarrow> (string \<rightharpoonup> uuid) db" where
  "insert_detectors K bundleID [] detectorIDs = ret detectorIDs"
| "insert_detectors K bundleID (detector # detectors) detectorIDs =
     and_then (insert_detector K bundleID detector) (\<lambda>detectorID.
       insert_detectors K bundleID detectors (detectorIDs(dtr_Key detector \<mapsto> detectorID)))"

text \<open>An insert of a row that has no uuid anyone refers to.\<close>

definition append_row ::
  "(tables \<Rightarrow> 'r list) \<Rightarrow> (('r list \<Rightarrow> 'r list) \<Rightarrow> tables \<Rightarrow> tables) \<Rightarrow> ('r \<Rightarrow> 'r \<Rightarrow> bool) \<Rightarrow> 'r \<Rightarrow> (pg_error + unit) db" where
  "append_row tbl upd clash row =
     run_statement (\<lambda>d. case insert_row tbl upd clash (\<lambda>_. row) d of Inl e \<Rightarrow> Inl e | Inr (_, T) \<Rightarrow> Inr ((), T))"

definition insert_rule :: "uuid \<Rightarrow> (string \<rightharpoonup> uuid) \<Rightarrow> RuleRecord \<Rightarrow> unit db" where
  "insert_rule bundleID detectorIDs rule =
     (let config = (case rlr_Config rule of None \<Rightarrow> ''{}'' | Some c \<Rightarrow> c)
      in and_then (or_fail ''insert policy rule''
           (run_statement (insert_row tb_rules tb_rules_update rule_clash
             (\<lambda>i. \<lparr>rw_id = i, rw_bundle = bundleID, rw_name = rlr_Key rule, rw_description = rlr_Description rule,
               rw_severity = rlr_Severity rule, rw_action = rlr_Action rule, rw_enabled = rlr_Enabled rule,
               rw_priority = rlr_Priority rule, rw_config = config\<rparr>)))) (\<lambda>ruleID.
         and_then
           (for_each (\<lambda>detectorKey.
              case detectorIDs detectorKey of
                None \<Rightarrow> fail (Message ''insert policy rule detector: detector not found'' detectorKey)
              | Some detectorID \<Rightarrow>
                  or_fail ''insert policy rule detector''
                    (append_row tb_rule_detectors tb_rule_detectors_update rule_detector_clash
                      \<lparr>rdw_rule = ruleID, rdw_detector = detectorID, rdw_match_mode = ''any''\<rparr>))
             (rlr_DetectorKeys rule))
           (\<lambda>_. for_each (\<lambda>scope.
              or_fail ''insert policy rule scope''
                (append_row tb_scopes tb_scopes_update scope_clash
                  \<lparr>rsr_RouteID = rsr_RouteID scope, rsr_ProviderID = rsr_ProviderID scope, rsr_Model = rsr_Model scope,
                   rsr_Direction = storageDirection (rsr_Direction scope), rsr_rule = ruleID\<rparr>))
             (rlr_Scopes rule))))"

definition UpsertBundle :: "detector_codec \<Rightarrow> uuid \<Rightarrow> BundleRecord \<Rightarrow> unit db" where
  "UpsertBundle K revisionID bundle =
     (let bundle = bundle\<lparr>bdr_Source := defaultBundleSource (bdr_Source bundle), bdr_DefaultAction := defaultBundleAction (bdr_DefaultAction bundle),
            bdr_Metadata := Some (policy_defaultJSONObject (bdr_Metadata bundle))\<rparr>
      in and_then (upsert_bundle_row revisionID bundle) (\<lambda>bundleID.
         and_then (or_fail ''replace policy detectors'' (update_tables (delete_detectors bundleID))) (\<lambda>_.
         and_then (or_fail ''replace policy rules'' (update_tables (delete_rules bundleID))) (\<lambda>_.
         and_then (insert_detectors K bundleID (bdr_Detectors bundle) Map.empty) (\<lambda>detectorIDs.
           for_each (insert_rule bundleID detectorIDs) (bdr_Rules bundle))))))"

section \<open>Clones\<close>

text \<open>The rows of detectors, or of rules, with the bundle of the revision they belong to.\<close>

definition of_bundles :: "uuid \<Rightarrow> ('b \<Rightarrow> uuid) \<Rightarrow> bundle_row list \<Rightarrow> 'b list \<Rightarrow> (bundle_row \<times> 'b) list" where
  "of_bundles revisionID ref bundles rs =
     concat (map (\<lambda>r. map (\<lambda>b. (b, r)) (filter (\<lambda>b. bw_id b = ref r \<and> bw_revision b = revisionID) bundles)) rs)"

text \<open>The rows that refer to a rule of a bundle of the revision.\<close>

definition of_rules :: "uuid \<Rightarrow> ('c \<Rightarrow> uuid) \<Rightarrow> bundle_row list \<Rightarrow> rule_row list \<Rightarrow> 'c list \<Rightarrow> 'c list" where
  "of_rules revisionID ref bundles rules xs =
     concat (map (\<lambda>x. map (\<lambda>_. x) (filter (\<lambda>(b, r). rw_id r = ref x) (of_bundles revisionID rw_bundle bundles rules))) xs)"

definition clonePolicyBundles :: "uuid \<Rightarrow> uuid \<Rightarrow> (uuid \<rightharpoonup> uuid) db" where
  "clonePolicyBundles sourceRevisionID draftRevisionID =
     and_then
       (select_rows ''load policy bundles for draft clone'' ''scan policy bundle for draft clone'' ''iterate policy bundles for draft clone''
         (\<lambda>d. order_by (by_text d bw_name) (selected d (filter (\<lambda>r. bw_revision r = sourceRevisionID) (tb_bundles (pg_tables d))))))
       (\<lambda>items. clone_each bw_id
         (\<lambda>item. or_fail (''clone policy bundle '' @ bw_name item)
           (run_statement (insert_row tb_bundles tb_bundles_update bundle_clash
             (\<lambda>i. \<lparr>bw_id = i, bw_name = bw_name item, bw_source = bw_source item, bw_version = bw_version item,
               bw_description = bw_description item, bw_default_action = bw_default_action item, bw_enabled = bw_enabled item,
               bw_metadata = bw_metadata item, bw_revision = draftRevisionID\<rparr>))))
         items Map.empty)"

definition clonePolicyDetectors :: "uuid \<Rightarrow> (uuid \<rightharpoonup> uuid) \<Rightarrow> (uuid \<rightharpoonup> uuid) db" where
  "clonePolicyDetectors sourceRevisionID bundleIDs =
     and_then
       (select_rows ''load policy detectors for draft clone'' ''scan policy detector for draft clone'' ''iterate policy detectors for draft clone''
         (\<lambda>d. map snd (order_by (then_by (by_text d (bw_name \<circ> fst)) (by_text d (dw_name \<circ> snd)))
            (selected d (of_bundles sourceRevisionID dw_bundle (tb_bundles (pg_tables d)) (tb_detectors (pg_tables d)))))))
       (\<lambda>items. clone_each dw_id
         (\<lambda>item. and_then (remapRequiredID (dw_bundle item) bundleIDs ''policy detector bundle'') (\<lambda>bundleID.
           or_fail (''clone policy detector '' @ dw_name item)
             (run_statement (insert_row tb_detectors tb_detectors_update detector_clash
               (\<lambda>i. \<lparr>dw_id = i, dw_bundle = bundleID, dw_name = dw_name item, dw_type = dw_type item, dw_pattern = dw_pattern item,
                 dw_config = dw_config item, dw_enabled = dw_enabled item\<rparr>)))))
         items Map.empty)"

definition clonePolicyRules :: "uuid \<Rightarrow> (uuid \<rightharpoonup> uuid) \<Rightarrow> (uuid \<rightharpoonup> uuid) db" where
  "clonePolicyRules sourceRevisionID bundleIDs =
     and_then
       (select_rows ''load policy rules for draft clone'' ''scan policy rule for draft clone'' ''iterate policy rules for draft clone''
         (\<lambda>d. map snd (order_by (then_by (by_text d (bw_name \<circ> fst)) (then_by (by_number (rw_priority \<circ> snd)) (by_text d (rw_name \<circ> snd))))
            (selected d (of_bundles sourceRevisionID rw_bundle (tb_bundles (pg_tables d)) (tb_rules (pg_tables d)))))))
       (\<lambda>items. clone_each rw_id
         (\<lambda>item. and_then (remapRequiredID (rw_bundle item) bundleIDs ''policy rule bundle'') (\<lambda>bundleID.
           or_fail (''clone policy rule '' @ rw_name item)
             (run_statement (insert_row tb_rules tb_rules_update rule_clash
               (\<lambda>i. \<lparr>rw_id = i, rw_bundle = bundleID, rw_name = rw_name item, rw_description = rw_description item,
                 rw_severity = rw_severity item, rw_action = rw_action item, rw_enabled = rw_enabled item,
                 rw_priority = rw_priority item, rw_config = rw_config item\<rparr>)))))
         items Map.empty)"

definition CloneGraph :: "uuid \<Rightarrow> uuid \<Rightarrow> ((uuid \<rightharpoonup> uuid) \<times> (uuid \<rightharpoonup> uuid) \<times> (uuid \<rightharpoonup> uuid)) db" where
  "CloneGraph sourceRevisionID draftRevisionID =
     and_then (clonePolicyBundles sourceRevisionID draftRevisionID) (\<lambda>bundleIDs.
     and_then (clonePolicyDetectors sourceRevisionID bundleIDs) (\<lambda>detectorIDs.
     and_then (clonePolicyRules sourceRevisionID bundleIDs) (\<lambda>ruleIDs.
       ret (bundleIDs, detectorIDs, ruleIDs))))"

definition clonePolicyRuleDetectors :: "uuid \<Rightarrow> (uuid \<rightharpoonup> uuid) \<Rightarrow> (uuid \<rightharpoonup> uuid) \<Rightarrow> unit db" where
  "clonePolicyRuleDetectors sourceRevisionID ruleIDs detectorIDs =
     and_then
       (select_rows ''load policy rule detectors for draft clone'' ''scan policy rule detector for draft clone''
         ''iterate policy rule detectors for draft clone''
         (\<lambda>d. selected d (of_rules sourceRevisionID rdw_rule (tb_bundles (pg_tables d)) (tb_rules (pg_tables d)) (tb_rule_detectors (pg_tables d)))))
       (for_each (\<lambda>item.
         and_then (remapRequiredID (rdw_rule item) ruleIDs ''policy rule detector rule'') (\<lambda>ruleID.
         and_then (remapRequiredID (rdw_detector item) detectorIDs ''policy rule detector detector'') (\<lambda>detectorID.
           or_fail ''clone policy rule detector''
             (append_row tb_rule_detectors tb_rule_detectors_update rule_detector_clash
               \<lparr>rdw_rule = ruleID, rdw_detector = detectorID, rdw_match_mode = rdw_match_mode item\<rparr>)))))"

definition clonePolicyRuleScopes :: "uuid \<Rightarrow> (uuid \<rightharpoonup> uuid) \<Rightarrow> (uuid \<rightharpoonup> uuid) \<Rightarrow> (uuid \<rightharpoonup> uuid) \<Rightarrow> unit db" where
  "clonePolicyRuleScopes sourceRevisionID ruleIDs routeIDs providerIDs =
     and_then
       (select_rows ''load policy rule scopes for draft clone'' ''scan policy rule scope for draft clone''
         ''iterate policy rule scopes for draft clone''
         (\<lambda>d. selected d (of_rules sourceRevisionID rsr_rule (tb_bundles (pg_tables d)) (tb_rules (pg_tables d)) (tb_scopes (pg_tables d)))))
       (for_each (\<lambda>item.
         and_then (remapRequiredID (rsr_rule item) ruleIDs ''policy rule scope rule'') (\<lambda>ruleID.
         and_then (remapOptionalID (rsr_RouteID item) routeIDs ''policy rule scope route'') (\<lambda>routeID.
         and_then (remapOptionalID (rsr_ProviderID item) providerIDs ''policy rule scope provider'') (\<lambda>providerID.
           or_fail ''clone policy rule scope''
             (append_row tb_scopes tb_scopes_update scope_clash
               \<lparr>rsr_RouteID = routeID, rsr_ProviderID = providerID, rsr_Model = rsr_Model item, rsr_Direction = rsr_Direction item,
                rsr_rule = ruleID\<rparr>))))))"

definition policy_binding_clash :: "policy_binding_row \<Rightarrow> policy_binding_row \<Rightarrow> bool" where
  "policy_binding_clash r n \<longleftrightarrow> pbw_route r = pbw_route n \<and> pbw_bundle r = pbw_bundle n"

definition cloneRoutePolicyBindings :: "uuid \<Rightarrow> (uuid \<rightharpoonup> uuid) \<Rightarrow> (uuid \<rightharpoonup> uuid) \<Rightarrow> unit db" where
  "cloneRoutePolicyBindings sourceRevisionID routeIDs bundleIDs =
     and_then
       (select_rows ''load route policy bindings for draft clone'' ''scan route policy binding for draft clone''
         ''iterate route policy bindings for draft clone''
         (\<lambda>d. map snd (selected d (of_routes sourceRevisionID pbw_route (tb_routes (pg_tables d)) (tb_policy_bindings (pg_tables d))))))
       (for_each (\<lambda>item.
         and_then (remapRequiredID (pbw_route item) routeIDs ''route policy binding route'') (\<lambda>routeID.
         and_then (remapRequiredID (pbw_bundle item) bundleIDs ''route policy binding bundle'') (\<lambda>bundleID.
           or_fail ''clone route policy binding''
             (append_row tb_policy_bindings tb_policy_bindings_update policy_binding_clash
               \<lparr>pbw_route = routeID, pbw_bundle = bundleID, pbw_enabled = pbw_enabled item, pbw_priority = pbw_priority item\<rparr>)))))"

definition CloneBindings :: "uuid \<Rightarrow> (uuid \<rightharpoonup> uuid) \<Rightarrow> (uuid \<rightharpoonup> uuid) \<Rightarrow> (uuid \<rightharpoonup> uuid) \<Rightarrow> (uuid \<rightharpoonup> uuid) \<Rightarrow> (uuid \<rightharpoonup> uuid) \<Rightarrow> unit db" where
  "CloneBindings sourceRevisionID ruleIDs detectorIDs routeIDs providerIDs bundleIDs =
     and_then (clonePolicyRuleDetectors sourceRevisionID ruleIDs detectorIDs) (\<lambda>_.
     and_then (clonePolicyRuleScopes sourceRevisionID ruleIDs routeIDs providerIDs) (\<lambda>_.
       cloneRoutePolicyBindings sourceRevisionID routeIDs bundleIDs))"

end
