(* ===== verification/RevisionStore.thy ===== *)
theory RevisionStore
  imports Database
begin

text \<open>\<open>internal/adapters/postgres/revisionstore\<close>: revisions of the configuration and the transactions around them.\<close>

section \<open>Lookups\<close>

text \<open>The revisions with a status, the newest first.\<close>

definition newest_first :: "revision_row \<Rightarrow> revision_row \<Rightarrow> bool" where
  "newest_first x y \<longleftrightarrow> vn_number y \<le> vn_number x"

definition with_status :: "string \<Rightarrow> pg \<Rightarrow> revision_row list" where
  "with_status status d = order_by newest_first (selected d (filter (\<lambda>r. vn_status r = status) (tb_revisions (pg_tables d))))"

definition CurrentRevisionID :: "uuid db" where
  "CurrentRevisionID =
     and_then (select_row (\<lambda>d. order_by (then_by (by_number (\<lambda>r. if vn_status r = ''draft'' then 0 else 1)) newest_first)
         (selected d (filter (\<lambda>r. vn_status r \<in> {''draft'', ''active''}) (tb_revisions (pg_tables d))))))
       (\<lambda>r. case r of
          NoRows \<Rightarrow> fail ErrActiveRevisionNotFound
        | RowError e \<Rightarrow> fail (Statement ''load current config revision'' e)
        | Row r \<Rightarrow> ret (vn_id r))"

text \<open>The token of the runtime: the number of the revision, moved by the generation of the clients.\<close>

definition activeRevisionNumber :: "int db" where
  "activeRevisionNumber =
     and_then (select_row (\<lambda>d. map (\<lambda>r. vn_number r + tb_generation (pg_tables d)) (with_status ''active'' d)))
       (\<lambda>r. case r of
          NoRows \<Rightarrow> fail ErrActiveRevisionNotFound
        | RowError e \<Rightarrow> fail (Statement ''load active revision number'' e)
        | Row n \<Rightarrow> ret n)"

definition revision_of :: "int \<Rightarrow> revision_row \<Rightarrow> ConfigRevision" where
  "revision_of generation r =
     \<lparr>crv_ID = vn_id r, crv_Number = vn_number r + generation, crv_Source = vn_source r, crv_Status = vn_status r, crv_Actor = vn_actor r,
      crv_CompiledSnapshotHash = vn_hash r, crv_CompiledSnapshotRef = vn_ref r,
      crv_ActivatedAt = (case vn_activated_at r of None \<Rightarrow> 0 | Some t \<Rightarrow> t)\<rparr>"

definition activeRevision :: "ConfigRevision db" where
  "activeRevision =
     and_then (select_row (\<lambda>d. map (revision_of (tb_generation (pg_tables d))) (with_status ''active'' d)))
       (\<lambda>r. case r of
          NoRows \<Rightarrow> fail ErrActiveRevisionNotFound
        | RowError e \<Rightarrow> fail (Statement ''load active config revision'' e)
        | Row revision \<Rightarrow> ret revision)"

definition latestDraftRevisionID :: "uuid db" where
  "latestDraftRevisionID =
     and_then (select_row (with_status ''draft''))
       (\<lambda>r. case r of
          NoRows \<Rightarrow> fail ErrActiveRevisionNotFound
        | RowError e \<Rightarrow> fail (Statement ''load draft config revision'' e)
        | Row r \<Rightarrow> ret (vn_id r))"

section \<open>Drafts\<close>

text \<open>The number of a new revision comes from a sequence, which a transaction that is rolled back does not give back.\<close>

definition createEmptyDraftRevision :: "uuid db" where
  "createEmptyDraftRevision =
     and_then (modify (\<lambda>d. d\<lparr>pg_sequence := pg_sequence d + 1\<rparr>)) (\<lambda>_.
       or_fail ''create draft config revision''
         (run_statement (\<lambda>d. insert_row tb_revisions tb_revisions_update (\<lambda>r n. vn_id r = vn_id n \<or> vn_number r = vn_number n)
           (\<lambda>i. \<lparr>vn_id = i, vn_number = pg_sequence d, vn_source = ''control'', vn_status = ''draft'', vn_summary = ''control changes'',
             vn_actor = ''system'', vn_validation_status = ''pending'', vn_hash = [], vn_ref = [], vn_activated_at = None\<rparr>) d)))"

definition ensureDraftRevision :: "(uuid \<Rightarrow> uuid \<Rightarrow> unit db) option \<Rightarrow> uuid db" where
  "ensureDraftRevision cloneActiveRevision =
     and_then (select_row (with_status ''draft''))
       (\<lambda>r. case r of
          Row r \<Rightarrow> ret (vn_id r)
        | RowError e \<Rightarrow> fail (Statement ''load draft config revision'' e)
        | NoRows \<Rightarrow>
            and_then (select_row (with_status ''active''))
              (\<lambda>r. case r of
                 Row active \<Rightarrow>
                   (case cloneActiveRevision of
                      None \<Rightarrow> fail (Message ''clone active config revision: clone hook is required'' [])
                    | Some clone \<Rightarrow>
                        and_then createEmptyDraftRevision (\<lambda>draftID. and_then (clone (vn_id active) draftID) (\<lambda>_. ret draftID)))
               | RowError e \<Rightarrow> fail (Statement ''load active config revision for draft clone'' e)
               | NoRows \<Rightarrow> createEmptyDraftRevision))"

section \<open>The unit of work\<close>

definition ActiveRevisionNumber :: "int db" where
  "ActiveRevisionNumber = activeRevisionNumber"

definition WithCurrentRevision :: "(uuid \<Rightarrow> 'a db) \<Rightarrow> 'a db" where
  "WithCurrentRevision f = and_then CurrentRevisionID f"

definition WithActiveRevision :: "(ConfigRevision \<Rightarrow> 'a db) \<Rightarrow> 'a db" where
  "WithActiveRevision f =
     transaction ''begin active revision transaction'' ''commit active revision transaction'' (and_then activeRevision f)"

definition WithDraftRevision :: "(uuid \<Rightarrow> uuid \<Rightarrow> unit db) option \<Rightarrow> string \<Rightarrow> (uuid \<Rightarrow> 'a db) \<Rightarrow> 'a db" where
  "WithDraftRevision clone label f =
     transaction (''begin '' @ label @ '' transaction'') (''commit '' @ label @ '' transaction'') (and_then (ensureDraftRevision clone) f)"

definition WithTransaction :: "string \<Rightarrow> 'a db \<Rightarrow> 'a db" where
  "WithTransaction label f = transaction (''begin '' @ label @ '' transaction'') (''commit '' @ label @ '' transaction'') f"

section \<open>Activation\<close>

record ActivationRequest =
  arq_Actor :: string
  arq_Reason :: string
  arq_SnapshotHash :: string

record ActivationRecord =
  acr_RevisionID :: uuid
  acr_SnapshotID :: uuid
  acr_Actor :: string
  acr_Reason :: string

record ActivationHooks =
  ah_ValidateDraft :: "(uuid \<Rightarrow> unit db) option"
  ah_BeforeActivation :: "(uuid \<Rightarrow> unit db) option"
  ah_RecordActivation :: "(ActivationRecord \<Rightarrow> unit db) option"

record RevisionActivationResult =
  rar_RevisionNumber :: int
  rar_SnapshotHash :: string

definition run_hook :: "('a \<Rightarrow> unit db) option \<Rightarrow> 'a \<Rightarrow> unit db" where
  "run_hook hook x = (case hook of None \<Rightarrow> ret () | Some f \<Rightarrow> f x)"

definition record_snapshot :: "uuid \<Rightarrow> string \<Rightarrow> uuid db" where
  "record_snapshot revisionID hash =
     or_fail ''record compiled snapshot''
       (run_statement (\<lambda>d. upsert_row tb_snapshots tb_snapshots_update sn_id (\<lambda>r n. sn_revision r = sn_revision n \<and> sn_hash r = sn_hash n)
         (\<lambda>r n. sn_id r = sn_id n) (\<lambda>r n. r\<lparr>sn_status := sn_status n, sn_compiled_at := sn_compiled_at n\<rparr>)
         (\<lambda>i. \<lparr>sn_id = i, sn_revision = revisionID, sn_hash = hash, sn_status = ''compiled'',
           sn_compiled_at = pg_clock d (pg_step d)\<rparr>) d))"

definition deactivate_previous :: "unit db" where
  "deactivate_previous =
     or_fail ''deactivate previous config revisions''
       (run_statement (\<lambda>d. Inr ((), tb_revisions_update (map (\<lambda>r. if vn_status r = ''active'' then r\<lparr>vn_status := ''rejected''\<rparr> else r)) (pg_tables d))))"

definition activate_revision :: "uuid \<Rightarrow> string \<Rightarrow> string \<Rightarrow> unit db" where
  "activate_revision revisionID actor hash =
     or_fail ''activate config revision''
       (run_statement (\<lambda>d. Inr ((), tb_revisions_update (map (\<lambda>r. if vn_id r = revisionID
          then r\<lparr>vn_status := ''active'', vn_actor := actor, vn_validation_status := ''valid'', vn_hash := hash,
                 vn_activated_at := Some (pg_clock d (pg_step d))\<rparr> else r)) (pg_tables d))))"

definition ActivateDraftRevision :: "ActivationRequest \<Rightarrow> ActivationHooks \<Rightarrow> RevisionActivationResult db" where
  "ActivateDraftRevision request hooks =
     transaction ''begin activate draft revision transaction'' ''commit activate draft revision transaction''
       (and_then latestDraftRevisionID (\<lambda>revisionID.
        and_then (run_hook (ah_ValidateDraft hooks) revisionID) (\<lambda>_.
        if arq_SnapshotHash request = [] then fail (Message ''activate draft revision: snapshot hash is required'' [])
        else
        and_then (run_hook (ah_BeforeActivation hooks) revisionID) (\<lambda>_.
        and_then (record_snapshot revisionID (arq_SnapshotHash request)) (\<lambda>snapshotID.
        and_then deactivate_previous (\<lambda>_.
        let actor = (if arq_Actor request = [] then ''system'' else arq_Actor request)
        in and_then (activate_revision revisionID actor (arq_SnapshotHash request)) (\<lambda>_.
        and_then (run_hook (ah_RecordActivation hooks)
          \<lparr>acr_RevisionID = revisionID, acr_SnapshotID = snapshotID, acr_Actor = actor, acr_Reason = arq_Reason request\<rparr>) (\<lambda>_.
        and_then activeRevisionNumber (\<lambda>runtimeRevisionNumber.
          ret \<lparr>rar_RevisionNumber = runtimeRevisionNumber, rar_SnapshotHash = arq_SnapshotHash request\<rparr>)))))))))"

end
