(* ===== verification/ClientStore.thy ===== *)
theory ClientStore
  imports RoutingStore RevisionStore Strings
begin

text \<open>
  \<open>internal/contexts/clients/adapters/postgres\<close>: gateway clients, which belong to no revision, and their limits; and
  \<open>internal/contexts/traffic/adapters/postgres/observability\<close>: sinks, retention and raw capture.
\<close>

section \<open>Clients\<close>

definition LoadGatewayClients :: "GatewayClientRecord list db" where
  "LoadGatewayClients =
     select_rows ''load gateway clients'' ''scan gateway client'' ''iterate gateway clients''
       (\<lambda>d. order_by (then_by (by_text d gcr_Name) (by_text d gcr_ExternalID)) (selected d (tb_clients (pg_tables d))))"

definition client_clash :: "GatewayClientRecord \<Rightarrow> GatewayClientRecord \<Rightarrow> bool" where
  "client_clash r n \<longleftrightarrow> gcr_ID r = gcr_ID n \<or> gcr_ExternalID r = gcr_ExternalID n \<or> gcr_KeyPrefix r = gcr_KeyPrefix n"

text \<open>The row an insert makes of a client.\<close>

definition client_row :: "GatewayClientRecord \<Rightarrow> gotime \<Rightarrow> uuid \<Rightarrow> GatewayClientRecord" where
  "client_row client now i =
     \<lparr>gcr_ID = i, gcr_ExternalID = gcr_ExternalID client, gcr_Name = gcr_Name client, gcr_Status = gcr_Status client,
      gcr_KeyPrefix = gcr_KeyPrefix client, gcr_KeyHash = gcr_KeyHash client, gcr_Notes = gcr_Notes client,
      gcr_CreatedAt = now, gcr_UpdatedAt = now,
      gcr_RevokedAt = (case gcr_RevokedAt client of Some t \<Rightarrow> Some t | None \<Rightarrow> if gcr_Status client = ''revoked'' then Some now else None)\<rparr>"

definition default_status :: "GatewayClientRecord \<Rightarrow> GatewayClientRecord" where
  "default_status client = (if gcr_Status client = [] then client\<lparr>gcr_Status := ''enabled''\<rparr> else client)"

definition Client_Create :: "GatewayClientRecord \<Rightarrow> unit db" where
  "Client_Create client =
     (let client = default_status client
      in and_then (run_statement (\<lambda>d. insert_row tb_clients tb_clients_update client_clash (client_row client (pg_clock d (pg_step d))) d))
           (\<lambda>r. case r of
              Inl UniqueViolation \<Rightarrow> fail ErrAlreadyExists
            | Inl e \<Rightarrow> fail (Statement ''create gateway client'' e)
            | Inr _ \<Rightarrow> ret ()))"

text \<open>A client that is revoked stays revoked.\<close>

definition merge_client :: "gotime \<Rightarrow> GatewayClientRecord \<Rightarrow> GatewayClientRecord \<Rightarrow> GatewayClientRecord" where
  "merge_client now r n =
     r\<lparr>gcr_Name := gcr_Name n,
       gcr_Status := (if gcr_Status r = ''revoked'' then gcr_Status r else gcr_Status n),
       gcr_KeyPrefix := gcr_KeyPrefix n, gcr_KeyHash := gcr_KeyHash n, gcr_Notes := gcr_Notes n, gcr_UpdatedAt := now,
       gcr_RevokedAt :=
         (if gcr_Status r = ''revoked'' then gcr_RevokedAt r
          else if gcr_Status n = ''revoked'' then (case gcr_RevokedAt n of Some t \<Rightarrow> Some t | None \<Rightarrow> Some now)
          else gcr_RevokedAt n)\<rparr>"

definition Client_Upsert :: "GatewayClientRecord \<Rightarrow> unit db" where
  "Client_Upsert client =
     (let client = default_status client
      in and_then (or_fail ''upsert gateway client''
           (run_statement (\<lambda>d. upsert_row tb_clients tb_clients_update gcr_ID (\<lambda>r n. gcr_ExternalID r = gcr_ExternalID n) client_clash
             (merge_client (pg_clock d (pg_step d))) (client_row client (pg_clock d (pg_step d))) d)))
           (\<lambda>_. ret ()))"

definition revoke_row :: "gotime \<Rightarrow> GatewayClientRecord \<Rightarrow> GatewayClientRecord" where
  "revoke_row now r = r\<lparr>gcr_Status := ''revoked'', gcr_UpdatedAt := now, gcr_RevokedAt := (case gcr_RevokedAt r of Some t \<Rightarrow> Some t | None \<Rightarrow> Some now)\<rparr>"

definition revocable :: "string \<Rightarrow> GatewayClientRecord \<Rightarrow> bool" where
  "revocable clientID r \<longleftrightarrow> (gcr_ID r = clientID \<or> gcr_ExternalID r = clientID) \<and> gcr_Status r \<noteq> ''revoked''"

definition Client_Revoke :: "string \<Rightarrow> bool db" where
  "Client_Revoke clientID =
     or_fail ''revoke gateway client''
       (run_statement (\<lambda>d. Inr (\<exists>r \<in> set (tb_clients (pg_tables d)). revocable clientID r,
          tb_clients_update (map (\<lambda>r. if revocable clientID r then revoke_row (pg_clock d (pg_step d)) r else r)) (pg_tables d))))"

text \<open>\<open>strconv.FormatInt\<close> to the base ten.\<close>

definition FormatInt :: "int \<Rightarrow> string" where
  "FormatInt n = (if n < 0 then CHR ''-'' # dec (nat (- n)) else dec (nat n))"

text \<open>The package's own lookup of the token, whose missing row the caller takes as nothing to tell.\<close>

definition BumpGeneration :: "string \<Rightarrow> unit db" where
  "BumpGeneration channel =
     and_then (or_fail ''bump gateway client generation''
       (run_statement (\<lambda>d. Inr ((), tb_generation_update (\<lambda>g. g + 1) (pg_tables d))))) (\<lambda>_.
     and_then (select_row (\<lambda>d. map (\<lambda>r. vn_number r + tb_generation (pg_tables d)) (with_status ''active'' d)))
       (\<lambda>r. case r of
          NoRows \<Rightarrow> ret ()
        | RowError e \<Rightarrow> fail (Statement ''load active revision number'' e)
        | Row revisionNumber \<Rightarrow>
            or_fail ''notify gateway client generation''
              (run_statement (\<lambda>d. Inr ((), tb_notifications_update (\<lambda>ns. ns @ [(channel, FormatInt revisionNumber)]) (pg_tables d))))))"

section \<open>Limits\<close>

definition LoadRoutePolicies :: "uuid \<Rightarrow> RoutePolicyRecord list db" where
  "LoadRoutePolicies revisionID =
     select_rows ''load route limit policies'' ''scan route limit policy'' ''iterate route limit policies''
       (\<lambda>d. map RoutePolicyRecord.truncate
          (order_by (by_uuid rpr_RouteID) (selected d (filter (\<lambda>r. rpr_revision r = revisionID) (tb_route_limits (pg_tables d))))))"

definition LoadClientRouteOverrides :: "uuid \<Rightarrow> uuid \<Rightarrow> ClientRouteOverrideRecord list db" where
  "LoadClientRouteOverrides revisionID clientID =
     select_rows ''load client route limit overrides'' ''scan client route limit override'' ''iterate client route limit overrides''
       (\<lambda>d. map ClientRouteOverrideRecord.truncate
          (order_by (then_by (by_uuid cor_ClientID) (by_uuid cor_RouteID))
            (selected d (filter (\<lambda>r. cor_revision r = revisionID \<and> (clientID = [] \<or> cor_ClientID r = clientID)) (tb_client_limits (pg_tables d))))))"

definition UpsertRoutePolicy :: "uuid \<Rightarrow> RoutePolicyRecord \<Rightarrow> unit db" where
  "UpsertRoutePolicy revisionID policy =
     and_then (or_fail ''upsert route limit policy''
       (run_statement (upsert_row tb_route_limits tb_route_limits_update rpr_ID
         (\<lambda>r n. rpr_revision r = rpr_revision n \<and> rpr_RouteID r = rpr_RouteID n) (\<lambda>r n. rpr_ID r = rpr_ID n)
         (\<lambda>r n. n\<lparr>rpr_ID := rpr_ID r, rpr_revision := rpr_revision r, rpr_RouteID := rpr_RouteID r\<rparr>)
         (\<lambda>i. \<lparr>rpr_ID = i, rpr_RouteID = rpr_RouteID policy, rpr_RequestsPerWindow = rpr_RequestsPerWindow policy,
           rpr_WindowSeconds = rpr_WindowSeconds policy, rpr_MaxConcurrentRequests = rpr_MaxConcurrentRequests policy,
           rpr_MaxBodyBytes = rpr_MaxBodyBytes policy, rpr_Enabled = rpr_Enabled policy, rpr_revision = revisionID\<rparr>))))
       (\<lambda>_. ret ())"

definition UpsertClientRouteOverride :: "uuid \<Rightarrow> ClientRouteOverrideRecord \<Rightarrow> unit db" where
  "UpsertClientRouteOverride revisionID override =
     and_then (or_fail ''upsert client route limit override''
       (run_statement (upsert_row tb_client_limits tb_client_limits_update cor_ID
         (\<lambda>r n. cor_revision r = cor_revision n \<and> cor_ClientID r = cor_ClientID n \<and> cor_RouteID r = cor_RouteID n) (\<lambda>r n. cor_ID r = cor_ID n)
         (\<lambda>r n. n\<lparr>cor_ID := cor_ID r, cor_revision := cor_revision r, cor_ClientID := cor_ClientID r, cor_RouteID := cor_RouteID r\<rparr>)
         (\<lambda>i. \<lparr>cor_ID = i, cor_ClientID = cor_ClientID override, cor_RouteID = cor_RouteID override,
           cor_RequestsPerWindow = cor_RequestsPerWindow override, cor_WindowSeconds = cor_WindowSeconds override,
           cor_MaxConcurrentRequests = cor_MaxConcurrentRequests override, cor_MaxBodyBytes = cor_MaxBodyBytes override,
           cor_Enabled = cor_Enabled override, cor_revision = revisionID\<rparr>))))
       (\<lambda>_. ret ())"

definition DeleteClientRouteOverride :: "uuid \<Rightarrow> uuid \<Rightarrow> uuid \<Rightarrow> unit db" where
  "DeleteClientRouteOverride revisionID clientID routeID =
     or_fail ''delete client route limit override''
       (run_statement (\<lambda>d. Inr ((), tb_client_limits_update
          (filter (\<lambda>r. \<not> (cor_revision r = revisionID \<and> cor_ClientID r = clientID \<and> cor_RouteID r = routeID))) (pg_tables d))))"

definition RouteIDForRevision :: "uuid \<Rightarrow> uuid \<Rightarrow> uuid db" where
  "RouteIDForRevision revisionID routeID =
     and_then (select_row (\<lambda>d. selected d (filter (\<lambda>r. rtr_revision r = revisionID \<and> rtr_ID r = routeID) (tb_routes (pg_tables d)))))
       (\<lambda>r. case r of
          Row current \<Rightarrow> ret (rtr_ID current)
        | RowError e \<Rightarrow> fail (Statement ''resolve route for revision'' e)
        | NoRows \<Rightarrow>
            and_then (select_row (\<lambda>d. selected d (filter (\<lambda>r. rtr_ID r = routeID) (tb_routes (pg_tables d)))))
              (\<lambda>r. case r of
                 NoRows \<Rightarrow> ret routeID
               | RowError e \<Rightarrow> fail (Statement ''resolve route name'' e)
               | Row old \<Rightarrow>
                   and_then (select_row (\<lambda>d. selected d (filter (\<lambda>r. rtr_revision r = revisionID \<and> rtr_Name r = rtr_Name old) (tb_routes (pg_tables d)))))
                     (\<lambda>r. case r of
                        NoRows \<Rightarrow> fail (Message ''resolve route for revision: route was not cloned'' routeID)
                      | RowError e \<Rightarrow> fail (Statement ''resolve cloned route'' e)
                      | Row current \<Rightarrow> ret (rtr_ID current))))"

definition CloneRoutePolicies :: "uuid \<Rightarrow> uuid \<Rightarrow> (uuid \<rightharpoonup> uuid) \<Rightarrow> unit db" where
  "CloneRoutePolicies sourceRevisionID draftRevisionID routeIDs =
     and_then
       (select_rows ''load route limit policies for draft clone'' ''scan route limit policy for draft clone''
         ''iterate route limit policies for draft clone''
         (\<lambda>d. order_by (by_uuid rpr_RouteID) (selected d (filter (\<lambda>r. rpr_revision r = sourceRevisionID) (tb_route_limits (pg_tables d))))))
       (for_each (\<lambda>item.
         and_then (remapRequiredID (rpr_RouteID item) routeIDs ''route limit policy route'') (\<lambda>routeID.
         and_then (or_fail ''clone route limit policy''
           (run_statement (insert_row tb_route_limits tb_route_limits_update
             (\<lambda>r n. rpr_ID r = rpr_ID n \<or> rpr_revision r = rpr_revision n \<and> rpr_RouteID r = rpr_RouteID n)
             (\<lambda>i. \<lparr>rpr_ID = i, rpr_RouteID = routeID, rpr_RequestsPerWindow = rpr_RequestsPerWindow item,
               rpr_WindowSeconds = rpr_WindowSeconds item, rpr_MaxConcurrentRequests = rpr_MaxConcurrentRequests item,
               rpr_MaxBodyBytes = rpr_MaxBodyBytes item, rpr_Enabled = rpr_Enabled item, rpr_revision = draftRevisionID\<rparr>))))
           (\<lambda>_. ret ()))))"

definition CloneClientRouteOverrides :: "uuid \<Rightarrow> uuid \<Rightarrow> (uuid \<rightharpoonup> uuid) \<Rightarrow> unit db" where
  "CloneClientRouteOverrides sourceRevisionID draftRevisionID routeIDs =
     and_then
       (select_rows ''load client route limit overrides for draft clone'' ''scan client route limit override for draft clone''
         ''iterate client route limit overrides for draft clone''
         (\<lambda>d. order_by (then_by (by_uuid cor_ClientID) (by_uuid cor_RouteID))
           (selected d (filter (\<lambda>r. cor_revision r = sourceRevisionID) (tb_client_limits (pg_tables d))))))
       (for_each (\<lambda>item.
         and_then (remapRequiredID (cor_RouteID item) routeIDs ''client route limit override route'') (\<lambda>routeID.
         and_then (or_fail ''clone client route limit override''
           (run_statement (insert_row tb_client_limits tb_client_limits_update
             (\<lambda>r n. cor_ID r = cor_ID n \<or> cor_revision r = cor_revision n \<and> cor_ClientID r = cor_ClientID n \<and> cor_RouteID r = cor_RouteID n)
             (\<lambda>i. \<lparr>cor_ID = i, cor_ClientID = cor_ClientID item, cor_RouteID = routeID,
               cor_RequestsPerWindow = cor_RequestsPerWindow item, cor_WindowSeconds = cor_WindowSeconds item,
               cor_MaxConcurrentRequests = cor_MaxConcurrentRequests item, cor_MaxBodyBytes = cor_MaxBodyBytes item,
               cor_Enabled = cor_Enabled item, cor_revision = draftRevisionID\<rparr>))))
           (\<lambda>_. ret ()))))"

definition CloneGatewayRecords :: "uuid \<Rightarrow> uuid \<Rightarrow> (uuid \<rightharpoonup> uuid) \<Rightarrow> unit db" where
  "CloneGatewayRecords sourceRevisionID draftRevisionID routeIDs =
     and_then (CloneRoutePolicies sourceRevisionID draftRevisionID routeIDs)
       (\<lambda>_. CloneClientRouteOverrides sourceRevisionID draftRevisionID routeIDs)"

section \<open>Observability\<close>

definition LoadSinks :: "uuid \<Rightarrow> SinkRecord list db" where
  "LoadSinks revisionID =
     select_rows ''load sinks'' ''scan sink'' ''iterate sinks''
       (\<lambda>d. map SinkRecord.truncate
          (order_by (by_text d skr_Name) (selected d (filter (\<lambda>r. skr_revision r = revisionID) (tb_sinks (pg_tables d))))))"

definition LoadRetentionPolicies :: "uuid \<Rightarrow> RetentionPolicyRecord list db" where
  "LoadRetentionPolicies revisionID =
     select_rows ''load retention policies'' ''scan retention policy'' ''iterate retention policies''
       (\<lambda>d. map RetentionPolicyRecord.truncate
          (order_by (by_text d ror_Name) (selected d (filter (\<lambda>r. ror_revision r = revisionID) (tb_retention (pg_tables d))))))"

definition LoadRawCapturePolicies :: "uuid \<Rightarrow> RawCapturePolicyRecord list db" where
  "LoadRawCapturePolicies revisionID =
     select_rows ''load raw capture policies'' ''scan raw capture policy'' ''iterate raw capture policies''
       (\<lambda>d. map RawCapturePolicyRecord.truncate
          (order_by (by_text d rcr_Name) (selected d (filter (\<lambda>r. rcr_revision r = revisionID) (tb_captures (pg_tables d))))))"

definition CloneSinks :: "uuid \<Rightarrow> uuid \<Rightarrow> (uuid \<rightharpoonup> uuid) db" where
  "CloneSinks sourceRevisionID draftRevisionID =
     and_then
       (select_rows ''load sinks for draft clone'' ''scan sink for draft clone'' ''iterate sinks for draft clone''
         (\<lambda>d. order_by (by_text d skr_Name) (selected d (filter (\<lambda>r. skr_revision r = sourceRevisionID) (tb_sinks (pg_tables d))))))
       (\<lambda>items. clone_each skr_ID
         (\<lambda>item. or_fail (''clone sink '' @ skr_Name item)
           (run_statement (insert_row tb_sinks tb_sinks_update
             (\<lambda>r n. skr_ID r = skr_ID n \<or> skr_revision r = skr_revision n \<and> skr_Name r = skr_Name n)
             (\<lambda>i. \<lparr>skr_ID = i, skr_Name = skr_Name item, skr_Kind = skr_Kind item, skr_Enabled = skr_Enabled item,
               skr_Config = skr_Config item, skr_revision = draftRevisionID\<rparr>))))
         items Map.empty)"

definition CloneRetentionPolicies :: "uuid \<Rightarrow> uuid \<Rightarrow> (uuid \<rightharpoonup> uuid) \<Rightarrow> unit db" where
  "CloneRetentionPolicies sourceRevisionID draftRevisionID sinkIDs =
     and_then
       (select_rows ''load retention policies for draft clone'' ''scan retention policy for draft clone''
         ''iterate retention policies for draft clone''
         (\<lambda>d. order_by (by_text d ror_Name) (selected d (filter (\<lambda>r. ror_revision r = sourceRevisionID) (tb_retention (pg_tables d))))))
       (for_each (\<lambda>item.
         and_then (remapOptionalID (ror_SinkID item) sinkIDs ''retention policy sink'') (\<lambda>sinkID.
         and_then (or_fail (''clone retention policy '' @ ror_Name item)
           (run_statement (insert_row tb_retention tb_retention_update
             (\<lambda>r n. ror_ID r = ror_ID n \<or> ror_revision r = ror_revision n \<and> ror_Name r = ror_Name n)
             (\<lambda>i. \<lparr>ror_ID = i, ror_Name = ror_Name item, ror_SinkID = sinkID, ror_EventType = ror_EventType item,
               ror_RetentionDays = ror_RetentionDays item, ror_revision = draftRevisionID\<rparr>))))
           (\<lambda>_. ret ()))))"

definition CloneRawCapturePolicies :: "uuid \<Rightarrow> uuid \<Rightarrow> (uuid \<rightharpoonup> uuid) \<Rightarrow> unit db" where
  "CloneRawCapturePolicies sourceRevisionID draftRevisionID routeIDs =
     and_then
       (select_rows ''load raw capture policies for draft clone'' ''scan raw capture policy for draft clone''
         ''iterate raw capture policies for draft clone''
         (\<lambda>d. order_by (by_text d rcr_Name) (selected d (filter (\<lambda>r. rcr_revision r = sourceRevisionID) (tb_captures (pg_tables d))))))
       (for_each (\<lambda>item.
         and_then (remapOptionalID (rcr_RouteID item) routeIDs ''raw capture policy route'') (\<lambda>routeID.
         and_then (or_fail (''clone raw capture policy '' @ rcr_Name item)
           (run_statement (insert_row tb_captures tb_captures_update
             (\<lambda>r n. rcr_ID r = rcr_ID n \<or> rcr_revision r = rcr_revision n \<and> rcr_Name r = rcr_Name n)
             (\<lambda>i. \<lparr>rcr_ID = i, rcr_Name = rcr_Name item, rcr_RouteID = routeID, rcr_Direction = rcr_Direction item,
               rcr_Enabled = rcr_Enabled item, rcr_SampleRate = rcr_SampleRate item, rcr_RedactionMode = rcr_RedactionMode item,
               rcr_revision = draftRevisionID\<rparr>))))
           (\<lambda>_. ret ()))))"

end
