(* ===== verification/ConfigStore.thy ===== *)
theory ConfigStore
  imports PolicyStore ClientStore Strconv
begin

text \<open>
  \<open>internal/adapters/postgres/configstore\<close>: the clone of a revision, and
  \<open>internal/contexts/control/adapters/postgres/config\_backed\_*.go\<close>: the repository the control plane's adapter uses, each
  operation a read of the current revision, or a transaction on a draft.
\<close>

section \<open>The clone of a revision\<close>

definition clonePolicyBindings ::
  "uuid \<Rightarrow> (uuid \<rightharpoonup> uuid) \<Rightarrow> (uuid \<rightharpoonup> uuid) \<Rightarrow> (uuid \<rightharpoonup> uuid) \<Rightarrow> (uuid \<rightharpoonup> uuid) \<Rightarrow> (uuid \<rightharpoonup> uuid) \<Rightarrow> (uuid \<rightharpoonup> uuid) \<Rightarrow> unit db" where
  "clonePolicyBindings sourceRevisionID ruleIDs detectorIDs routeIDs providerIDs bundleIDs verdictProviderIDs =
     and_then (CloneBindings sourceRevisionID ruleIDs detectorIDs routeIDs providerIDs bundleIDs)
       (\<lambda>_. CloneRouteVerdictProviderBindings sourceRevisionID routeIDs verdictProviderIDs)"

definition cloneActiveRevisionAsDraft :: "uuid \<Rightarrow> uuid \<Rightarrow> unit db" where
  "cloneActiveRevisionAsDraft activeRevisionID draftID =
     and_then (CloneProviders activeRevisionID draftID) (\<lambda>providerIDs.
     and_then (CloneModelMappings activeRevisionID draftID providerIDs) (\<lambda>mappingIDs.
     and_then (CloneRoutes activeRevisionID draftID mappingIDs) (\<lambda>routeIDs.
     and_then (CloneGatewayRecords activeRevisionID draftID routeIDs) (\<lambda>_.
     and_then (CloneVerdictProviders activeRevisionID draftID) (\<lambda>verdictProviderIDs.
     and_then (CloneGraph activeRevisionID draftID) (\<lambda>(bundleIDs, detectorIDs, ruleIDs).
     and_then (clonePolicyBindings activeRevisionID ruleIDs detectorIDs routeIDs providerIDs bundleIDs verdictProviderIDs) (\<lambda>_.
     and_then (CloneSinks activeRevisionID draftID) (\<lambda>sinkIDs.
     and_then (CloneRetentionPolicies activeRevisionID draftID sinkIDs) (\<lambda>_.
       CloneRawCapturePolicies activeRevisionID draftID routeIDs)))))))))"

definition ConfigActivatedChannel :: string where
  "ConfigActivatedChannel = ''kiwiguard_config_activated''"

text \<open>The publisher of an activation.\<close>

definition NotifyConfigActivated :: "int \<Rightarrow> unit db" where
  "NotifyConfigActivated revisionNumber =
     or_fail ''notify config activated''
       (update_tables (tb_notifications_update (\<lambda>ns. ns @ [(ConfigActivatedChannel, FormatInt revisionNumber)])))"

text \<open>What the subscriber hands on of the notifications that arrive: the payloads that are numbers.\<close>

fun revision_notifications :: "string list \<Rightarrow> int list" where
  "revision_notifications [] = []"
| "revision_notifications (payload # payloads) =
     (case ParseInt 64 payload of
        None \<Rightarrow> revision_notifications payloads
      | Some revision \<Rightarrow> revision # revision_notifications payloads)"

section \<open>The repository behind the control plane\<close>

definition draft :: "string \<Rightarrow> (uuid \<Rightarrow> 'a db) \<Rightarrow> 'a db" where
  "draft = WithDraftRevision (Some cloneActiveRevisionAsDraft)"

definition repo_ListPolicyBundles :: "detector_codec \<Rightarrow> BundleRecord list db" where
  "repo_ListPolicyBundles K = WithCurrentRevision (LoadBundles K)"

definition repo_UpsertPolicyBundle :: "detector_codec \<Rightarrow> BundleRecord \<Rightarrow> unit db" where
  "repo_UpsertPolicyBundle K bundle = draft ''upsert policy bundle'' (\<lambda>revisionID. UpsertBundle K revisionID bundle)"

record BundleActivationRequest =
  baq_Keys :: "string list"
  baq_Actor :: string
  baq_Reason :: string
  baq_SnapshotHash :: string

record BundleActivationResult =
  bas_RevisionNumber :: int
  bas_SnapshotHash :: string
  bas_ActiveKeys :: "string list"

definition bundle_hooks :: "detector_codec \<Rightarrow> string list \<Rightarrow> ActivationHooks" where
  "bundle_hooks K keys =
     \<lparr>ah_ValidateDraft = Some (\<lambda>revisionID. and_then (LoadBundlesByKeys K revisionID keys) (\<lambda>bundles.
        if length bundles \<noteq> length keys then fail (Message ''activate policy bundles: requested bundle not found'' []) else ret ())),
      ah_BeforeActivation = Some (\<lambda>revisionID. UpdateDraftBundleActivation revisionID keys),
      ah_RecordActivation = Some (\<lambda>r. RecordActivation (acr_RevisionID r) (acr_SnapshotID r) (acr_Actor r) (acr_Reason r))\<rparr>"

definition repo_ActivatePolicyBundles :: "detector_codec \<Rightarrow> BundleActivationRequest \<Rightarrow> BundleActivationResult db" where
  "repo_ActivatePolicyBundles K request =
     and_then
       (ActivateDraftRevision
         \<lparr>arq_Actor = baq_Actor request, arq_Reason = baq_Reason request, arq_SnapshotHash = baq_SnapshotHash request\<rparr>
         (bundle_hooks K (baq_Keys request)))
       (\<lambda>result. ret \<lparr>bas_RevisionNumber = rar_RevisionNumber result, bas_SnapshotHash = rar_SnapshotHash result,
          bas_ActiveKeys = baq_Keys request\<rparr>)"

definition repo_ListRoutes :: "RouteRecord list db" where
  "repo_ListRoutes = WithCurrentRevision LoadRoutes"

definition repo_ListProviders :: "ProviderRecord list db" where
  "repo_ListProviders = WithCurrentRevision LoadProviders"

definition repo_ListModelMappings :: "ModelMappingRecord list db" where
  "repo_ListModelMappings = WithCurrentRevision LoadModelMappings"

definition repo_UpsertModelMapping :: "ModelMappingRecord \<Rightarrow> unit db" where
  "repo_UpsertModelMapping mapping = draft ''upsert model mapping'' (\<lambda>revisionID. UpsertModelMapping revisionID mapping)"

definition repo_ListVerdictProviders :: "VerdictProviderRecord list db" where
  "repo_ListVerdictProviders = WithCurrentRevision LoadVerdictProviders"

definition repo_UpsertVerdictProvider :: "VerdictProviderRecord \<Rightarrow> unit db" where
  "repo_UpsertVerdictProvider provider = draft ''upsert verdict provider'' (\<lambda>revisionID. UpsertVerdictProvider revisionID provider)"

definition repo_ListGatewayClients :: "GatewayClientRecord list db" where
  "repo_ListGatewayClients = WithTransaction ''list gateway clients'' LoadGatewayClients"

definition bump :: "unit db" where
  "bump = BumpGeneration ConfigActivatedChannel"

definition repo_CreateGatewayClient :: "GatewayClientRecord \<Rightarrow> unit db" where
  "repo_CreateGatewayClient client = WithTransaction ''create gateway client'' (and_then (Client_Create client) (\<lambda>_. bump))"

definition repo_UpsertGatewayClient :: "GatewayClientRecord \<Rightarrow> unit db" where
  "repo_UpsertGatewayClient client = WithTransaction ''upsert gateway client'' (and_then (Client_Upsert client) (\<lambda>_. bump))"

definition repo_RevokeGatewayClient :: "string \<Rightarrow> unit db" where
  "repo_RevokeGatewayClient clientID =
     WithTransaction ''revoke gateway client'' (and_then (Client_Revoke clientID) (\<lambda>changed. if changed then bump else ret ()))"

definition repo_ListRouteLimitPolicies :: "RoutePolicyRecord list db" where
  "repo_ListRouteLimitPolicies = WithCurrentRevision LoadRoutePolicies"

definition repo_UpsertRouteLimitPolicy :: "RoutePolicyRecord \<Rightarrow> unit db" where
  "repo_UpsertRouteLimitPolicy policy =
     draft ''upsert route limit policy'' (\<lambda>revisionID.
       and_then (RouteIDForRevision revisionID (rpr_RouteID policy)) (\<lambda>routeID. UpsertRoutePolicy revisionID (policy\<lparr>rpr_RouteID := routeID\<rparr>)))"

definition repo_ListClientRouteLimitOverrides :: "uuid \<Rightarrow> ClientRouteOverrideRecord list db" where
  "repo_ListClientRouteLimitOverrides clientID = WithCurrentRevision (\<lambda>revisionID. LoadClientRouteOverrides revisionID clientID)"

definition repo_UpsertClientRouteLimitOverride :: "ClientRouteOverrideRecord \<Rightarrow> unit db" where
  "repo_UpsertClientRouteLimitOverride override =
     draft ''upsert client route limit override'' (\<lambda>revisionID.
       and_then (RouteIDForRevision revisionID (cor_RouteID override)) (\<lambda>routeID.
         UpsertClientRouteOverride revisionID (override\<lparr>cor_RouteID := routeID\<rparr>)))"

definition repo_DeleteClientRouteLimitOverride :: "uuid \<Rightarrow> uuid \<Rightarrow> unit db" where
  "repo_DeleteClientRouteLimitOverride clientID routeID =
     draft ''delete client route limit override'' (\<lambda>revisionID.
       and_then (RouteIDForRevision revisionID routeID) (\<lambda>currentRouteID. DeleteClientRouteOverride revisionID clientID currentRouteID))"

record configSnapshot =
  cfs_Routes :: "RouteRecord list"
  cfs_Providers :: "ProviderRecord list"
  cfs_PolicyBundles :: "BundleRecord list"

definition repo_LoadActiveConfigSnapshot :: "detector_codec \<Rightarrow> configSnapshot db" where
  "repo_LoadActiveConfigSnapshot K =
     WithActiveRevision (\<lambda>revision.
       and_then (LoadRoutes (crv_ID revision)) (\<lambda>routes.
       and_then (LoadProviders (crv_ID revision)) (\<lambda>providers.
       and_then (LoadBundles K (crv_ID revision)) (\<lambda>bundles.
         ret \<lparr>cfs_Routes = routes, cfs_Providers = providers, cfs_PolicyBundles = bundles\<rparr>))))"

end
