(* ===== verification/Store_Tables.thy ===== *)
theory Store_Tables
  imports ConfigStore
begin

text \<open>
  Facts about statements that succeed: what a query returns, what an insert leaves, and the rows a clone adds to one
  table.  A table is a component of the database that is read and replaced on its own.
\<close>

section \<open>Statements\<close>

text \<open>Two connections that differ in their tables and in the number of statements that were run.\<close>

definition same_server :: "pg \<Rightarrow> pg \<Rightarrow> bool" where
  "same_server d d' \<longleftrightarrow> pg_fault d' = pg_fault d \<and> pg_lost d' = pg_lost d \<and> pg_uuid d' = pg_uuid d \<and> pg_clock d' = pg_clock d \<and>
     pg_order d' = pg_order d \<and> pg_collate d' = pg_collate d \<and> pg_sequence d' = pg_sequence d"

lemma same_server_refl [simp]: "same_server d d"
  by (simp add: same_server_def)

lemma same_server_trans: "same_server a b \<Longrightarrow> same_server b c \<Longrightarrow> same_server a c"
  by (simp add: same_server_def)

lemma tick_simps [simp]: "pg_tables (tick d) = pg_tables d" "pg_sequence (tick d) = pg_sequence d" "same_server d (tick d)"
  by (simp_all add: tick_def same_server_def)

lemma select_rows_Inr:
  "select_rows l s i sel d = (Inr rows, d') \<Longrightarrow> rows = sel d \<and> pg_tables d' = pg_tables d \<and> same_server d d'"
  by (auto simp: select_rows_def Let_def split: option.splits prod.splits stage.splits if_splits)

lemma select_row_Inr:
  "select_row sel d = (Inr r, d') \<Longrightarrow> pg_tables d' = pg_tables d \<and> same_server d d' \<and> (\<forall>x. r = Row x \<longrightarrow> (\<exists>xs. sel d = x # xs)) \<and> (r = NoRows \<longrightarrow> sel d = [])"
  by (auto simp: select_row_def split: option.splits prod.splits list.splits)

lemma run_statement_Inr:
  "or_fail l (run_statement f) d = (Inr x, d') \<Longrightarrow> \<exists>T. f d = Inr (x, T) \<and> d' = tick (d\<lparr>pg_tables := T\<rparr>)"
  by (auto simp: or_fail_def run_statement_def and_then_def fail_def ret_def split: option.splits sum.splits prod.splits)

lemma remap_Inr:
  "remapRequiredID old ids l d = (Inr new, d') \<longleftrightarrow> ids old = Some new \<and> d' = d"
  "remapOptionalID old ids l d = (Inr new, d') \<longleftrightarrow> (if old = [] then new = [] else ids old = Some new) \<and> d' = d"
  by (auto simp: remapRequiredID_def remapOptionalID_def ret_def fail_def split: option.splits)

text \<open>A reference in the copy of a row.\<close>

definition rename :: "(uuid \<rightharpoonup> uuid) \<Rightarrow> uuid \<Rightarrow> uuid" where
  "rename ids old = (if old = [] then [] else the (ids old))"

lemma remap_rename:
  "remapRequiredID old ids l d = (Inr new, d') \<Longrightarrow> the (ids old) = new \<and> d' = d"
  "remapOptionalID old ids l d = (Inr new, d') \<Longrightarrow> rename ids old = new \<and> d' = d"
  by (auto simp: remap_Inr rename_def split: if_splits)

text \<open>A map of uuids that gives every old one a new one of its own, which no row has yet.\<close>

definition renames :: "(uuid \<rightharpoonup> uuid) \<Rightarrow> uuid set \<Rightarrow> uuid set \<Rightarrow> bool" where
  "renames ids old used \<longleftrightarrow> dom ids = old \<and> inj_on ids old \<and> ran ids \<inter> used = {}"

lemma mset_map_mset: "mset xs = mset ys \<Longrightarrow> mset (map f xs) = mset (map f ys)"
  by simp

lemma renames_intro:
  assumes "dom ids = ks" "inj_on ids ks" "ids ` ks \<inter> Some ` used = {}"
  shows "renames ids ks used"
  using assms by (fastforce simp: renames_def ran_def)

lemma renamed_keys:
  assumes "mset new = mset (map (\<lambda>k. the (ids k)) ks)" "distinct ks" "renames ids (set ks) used"
  shows "distinct new \<and> set new \<inter> used = {}"
proof -
  have some: "ids k = Some (the (ids k))" if "k \<in> set ks" for k
  proof -
    have "k \<in> dom ids" using that assms(3) by (simp add: renames_def)
    then show ?thesis by auto
  qed
  have "inj_on (\<lambda>k. the (ids k)) (set ks)"
  proof (rule inj_onI)
    fix k l assume k: "k \<in> set ks" and l: "l \<in> set ks" and "the (ids k) = the (ids l)"
    then have "ids k = ids l" using some by metis
    moreover have "inj_on ids (set ks)" using assms(3) by (simp add: renames_def)
    ultimately show "k = l" using k l by (simp add: inj_on_eq_iff)
  qed
  then have "distinct (map (\<lambda>k. the (ids k)) ks)" using assms(2) by (simp add: distinct_map)
  moreover have "set new \<subseteq> ran ids" using mset_eq_setD [OF assms(1)] some by (auto simp: ran_def)
  ultimately show ?thesis using assms(1,3) mset_eq_imp_distinct_iff [OF assms(1)] unfolding renames_def by blast
qed

section \<open>One table\<close>

locale table =
  fixes tbl :: "tables \<Rightarrow> 'r list" and upd :: "('r list \<Rightarrow> 'r list) \<Rightarrow> tables \<Rightarrow> tables"
  assumes get_upd: "tbl (upd f T) = f (tbl T)"
    and upd_upd: "upd f (upd g T) = upd (f \<circ> g) T"
    and upd_same: "upd (\<lambda>rs. rs) T = T"
    and upd_as_const: "upd f T = upd (\<lambda>_. f (tbl T)) T"
begin

definition inserted :: "('r \<Rightarrow> 'r \<Rightarrow> bool) \<Rightarrow> (uuid \<Rightarrow> 'r) \<Rightarrow> pg \<Rightarrow> uuid \<Rightarrow> pg \<Rightarrow> bool" where
  "inserted clash mk d i d' \<longleftrightarrow>
     (\<forall>r \<in> set (tbl (pg_tables d)). \<not> clash r (mk i)) \<and> pg_tables d' = upd (\<lambda>rs. rs @ [mk i]) (pg_tables d) \<and> same_server d d'"

lemma insert_Inr:
  assumes "or_fail l (run_statement (insert_row tbl upd clash mk)) d = (Inr i, d')"
  shows "inserted clash mk d i d'"
  using run_statement_Inr [OF assms]
  by (auto simp: inserted_def insert_row_def Let_def same_server_def tick_def split: if_splits)

lemma append_Inr:
  assumes "or_fail l (append_row tbl upd clash row) d = (Inr u, d')"
  shows "inserted clash (\<lambda>_. row) d i d'"
  using run_statement_Inr [OF assms [unfolded append_row_def]]
  by (auto simp: inserted_def insert_row_def Let_def same_server_def tick_def split: if_splits)

lemma insert_as:
  "or_fail l (run_statement (insert_row tbl upd clash mk')) d = (Inr i, d') \<Longrightarrow> mk' i = mk i \<Longrightarrow> inserted clash mk d i d'"
  using insert_Inr [of l clash mk' d i d'] by (simp add: inserted_def)

lemma append_as:
  "or_fail l (append_row tbl upd clash row) d = (Inr u, d') \<Longrightarrow> row = mk i \<Longrightarrow> inserted clash mk d i d'"
  using append_Inr [of l clash row d u d' i] by (simp add: inserted_def)

text \<open>An upsert that succeeds changes the rows of its target, or adds one.\<close>

lemma upsert_Inr:
  assumes "or_fail l (run_statement (upsert_row tbl upd key target clash merge row)) d = (Inr i, d')"
  shows "(\<exists>n. n \<in> range row \<and> pg_tables d' = upd (map (\<lambda>q. if target q n then merge q n else q)) (pg_tables d) \<and>
      (\<exists>q \<in> set (tbl (pg_tables d)). target q n \<and> i = key q)) \<or>
    (pg_tables d' = upd (\<lambda>rs. rs @ [row i]) (pg_tables d) \<and> (\<forall>r \<in> set (tbl (pg_tables d)). \<not> clash r (row i)))"
proof -
  let ?n = "row (pg_uuid d (pg_step d))"
  obtain T where T: "upsert_row tbl upd key target clash merge row d = Inr (i, T)" and d': "pg_tables d' = T"
    using run_statement_Inr [OF assms] by auto
  show ?thesis
  proof (cases "filter (\<lambda>r. target r ?n) (tbl (pg_tables d))")
    case Nil
    then show ?thesis using T d' by (auto simp: upsert_row_def insert_row_def Let_def split: if_splits)
  next
    case (Cons q qs)
    then have "q \<in> set (filter (\<lambda>r. target r ?n) (tbl (pg_tables d)))" by simp
    then have "q \<in> set (tbl (pg_tables d)) \<and> target q ?n" by simp
    moreover have "i = key q \<and> pg_tables d' = upd (map (\<lambda>q. if target q ?n then merge q ?n else q)) (pg_tables d)"
      using T d' Cons by (auto simp: upsert_row_def Let_def split: if_splits)
    ultimately show ?thesis by blast
  qed
qed

lemma upsert_rows:
  assumes "or_fail l (run_statement (upsert_row tbl upd key target clash merge row)) d = (Inr i, d')"
    and "\<And>q u. target q (row u) \<Longrightarrow> P q \<and> P (merge q (row u))" "\<And>u. P (row u)"
  shows "\<exists>rows. pg_tables d' = upd (\<lambda>_. rows) (pg_tables d) \<and> filter (\<lambda>r. \<not> P r) rows = filter (\<lambda>r. \<not> P r) (tbl (pg_tables d))"
  using upsert_Inr [OF assms(1)]
proof (elim disjE exE conjE)
  fix n assume n: "n \<in> range row" and d': "pg_tables d' = upd (map (\<lambda>q. if target q n then merge q n else q)) (pg_tables d)"
  have "filter (\<lambda>r. \<not> P r) (map (\<lambda>q. if target q n then merge q n else q) rs) = filter (\<lambda>r. \<not> P r) rs" for rs
    using n assms(2) by (induction rs) auto
  with upd_as_const [of "map (\<lambda>q. if target q n then merge q n else q)" "pg_tables d"] d' show ?thesis by metis
next
  assume "pg_tables d' = upd (\<lambda>rs. rs @ [row i]) (pg_tables d)"
  with upd_as_const [of "\<lambda>rs. rs @ [row i]" "pg_tables d"] assms(3) show ?thesis by auto
qed

lemma upsert_outside:
  assumes "or_fail l (run_statement (upsert_row tbl upd key target clash merge row)) d = (Inr i, d')"
    and "\<And>q u. target q (row u) \<Longrightarrow> P q \<and> P (merge q (row u)) \<and> key (merge q (row u)) = key q"
    and "\<And>u. P (row u) \<and> key (row u) = u" "\<And>r n. key r = key n \<Longrightarrow> clash r n" "distinct (map key (tbl (pg_tables d)))"
  shows "\<exists>rows. pg_tables d' = upd (\<lambda>_. rows) (pg_tables d) \<and> filter (\<lambda>r. \<not> P r) rows = filter (\<lambda>r. \<not> P r) (tbl (pg_tables d)) \<and>
    distinct (map key rows) \<and> (\<exists>r \<in> set rows. key r = i \<and> P r) \<and> key ` set (tbl (pg_tables d)) \<subseteq> key ` set rows"
  using upsert_Inr [OF assms(1)]
proof (elim disjE exE conjE)
  fix n assume n: "n \<in> range row" and d': "pg_tables d' = upd (map (\<lambda>q. if target q n then merge q n else q)) (pg_tables d)"
    and i: "\<exists>q \<in> set (tbl (pg_tables d)). target q n \<and> i = key q"
  let ?f = "\<lambda>q. if target q n then merge q n else q"
  have merged: "target q n \<Longrightarrow> P q \<and> P (merge q n) \<and> key (merge q n) = key q" for q using n assms(2) by blast
  have keys: "map key (map ?f rs) = map key rs" and kept: "filter (\<lambda>r. \<not> P r) (map ?f rs) = filter (\<lambda>r. \<not> P r) rs" for rs
    by (induction rs) (simp_all add: merged)
  obtain q where q: "q \<in> set (tbl (pg_tables d))" "target q n" "i = key q" using i by blast
  have "?f q \<in> set (map ?f (tbl (pg_tables d)))" using q(1) by simp
  then have "\<exists>r \<in> set (map ?f (tbl (pg_tables d))). key r = i \<and> P r" using q(2,3) merged by (metis (no_types, lifting))
  moreover have "key ` set (map ?f (tbl (pg_tables d))) = key ` set (tbl (pg_tables d))" using keys by (metis list.set_map)
  moreover have "distinct (map key (map ?f (tbl (pg_tables d))))" unfolding keys by (rule assms(5))
  moreover have "pg_tables d' = upd (\<lambda>_. map ?f (tbl (pg_tables d))) (pg_tables d)" unfolding d' by (rule upd_as_const)
  ultimately show ?thesis using kept by blast
next
  assume d': "pg_tables d' = upd (\<lambda>rs. rs @ [row i]) (pg_tables d)" and new: "\<forall>r \<in> set (tbl (pg_tables d)). \<not> clash r (row i)"
  let ?rows = "tbl (pg_tables d) @ [row i]"
  have whole: "pg_tables d' = upd (\<lambda>_. ?rows) (pg_tables d)"
    unfolding d' by (rule upd_as_const)
  have "i \<notin> key ` set (tbl (pg_tables d))" using new assms(3,4) by auto
  with whole assms(3,5) show ?thesis by (intro exI [of _ ?rows] conjI) auto
qed

text \<open>Every item that is inserted without an error has its row.\<close>

definition inserts :: "('a \<Rightarrow> 'u db) \<Rightarrow> ('r \<Rightarrow> 'r \<Rightarrow> bool) \<Rightarrow> ('a \<Rightarrow> uuid \<Rightarrow> 'r) \<Rightarrow> 'a list \<Rightarrow> bool" where
  "inserts ins clash mk items \<longleftrightarrow>
     (\<forall>item \<in> set items. \<forall>d u d'. ins item d = (Inr u, d') \<longrightarrow> (\<exists>i. inserted clash (mk item) d i d'))"

definition inserts_id :: "('a \<Rightarrow> uuid db) \<Rightarrow> ('r \<Rightarrow> 'r \<Rightarrow> bool) \<Rightarrow> ('a \<Rightarrow> uuid \<Rightarrow> 'r) \<Rightarrow> 'a list \<Rightarrow> bool" where
  "inserts_id ins clash mk items \<longleftrightarrow>
     (\<forall>item \<in> set items. \<forall>d i d'. ins item d = (Inr i, d') \<longrightarrow> inserted clash (mk item) d i d')"

text \<open>The loop of a clone whose inserts all succeed: every item has its row, the map says which.\<close>

lemma clone_each_rows:
  assumes "clone_each old ins items ids0 d = (Inr ids, d')"
    and "inserts_id ins clash mk items"
    and "\<And>item i. key (mk item i) = i" "\<And>r n. key r = key n \<Longrightarrow> clash r n"
    and "distinct (map old items)"
  shows "pg_tables d' = upd (\<lambda>rs. rs @ map (\<lambda>item. mk item (the (ids (old item)))) items) (pg_tables d) \<and>
    dom ids = dom ids0 \<union> old ` set items \<and> (\<forall>k. k \<notin> old ` set items \<longrightarrow> ids k = ids0 k) \<and> inj_on ids (old ` set items) \<and>
    ids ` (old ` set items) \<inter> Some ` key ` set (tbl (pg_tables d)) = {} \<and> same_server d d'"
  using assms(1,2,5)
proof (induction items arbitrary: ids0 d)
  case Nil
  then show ?case by (simp add: ret_def upd_same)
next
  case (Cons item items)
  from Cons.prems(1) obtain i d1 where i: "ins item d = (Inr i, d1)"
    and rest: "clone_each old ins items (ids0(old item \<mapsto> i)) d1 = (Inr ids, d')" by (auto simp: effect_Inr)
  have ins: "inserted clash (mk item) d i d1" and later: "inserts_id ins clash mk items"
    using Cons.prems(2) i by (auto simp: inserts_id_def)
  have new: "old item \<notin> old ` set items" and distinct: "distinct (map old items)" using Cons.prems(3) by auto
  note IH = Cons.IH [OF rest later distinct]
  have T1: "tbl (pg_tables d1) = tbl (pg_tables d) @ [mk item i]" using ins by (simp add: inserted_def get_upd)
  have here: "ids (old item) = Some i" using IH new by simp
  have fresh: "i \<notin> key ` set (tbl (pg_tables d))" using ins assms(3,4) by (auto simp: inserted_def)
  have disj: "ids ` (old ` set items) \<inter> Some ` key ` set (tbl (pg_tables d1)) = {}" using IH by blast
  then have apart: "Some i \<notin> ids ` (old ` set items)" by (auto simp: T1 assms(3))
  show ?case
  proof (intro conjI)
    show "pg_tables d' = upd (\<lambda>rs. rs @ map (\<lambda>item. mk item (the (ids (old item)))) (item # items)) (pg_tables d)"
      using IH ins here by (simp add: inserted_def upd_upd comp_def)
    show "dom ids = dom ids0 \<union> old ` set (item # items)" using IH by auto
    show "\<forall>k. k \<notin> old ` set (item # items) \<longrightarrow> ids k = ids0 k" using IH by auto
    show "inj_on ids (old ` set (item # items))" using IH here apart by auto
    show "ids ` (old ` set (item # items)) \<inter> Some ` key ` set (tbl (pg_tables d)) = {}"
      using disj here fresh by (auto simp: T1)
    show "same_server d d'" using IH ins same_server_trans by (auto simp: inserted_def)
  qed
qed

text \<open>A clone of the rows \<open>P\<close> selects adds their copies, and maps their uuids to new ones.\<close>

lemma clone_rows:
  assumes "clone_each old ins items Map.empty d = (Inr ids, d')"
    and "inserts_id ins clash mk items"
    and "\<And>item i. old (mk item i) = i" "\<And>r n. old r = old n \<Longrightarrow> clash r n"
    and "mset items = mset (filter P (tbl (pg_tables d)))" "distinct (map old (tbl (pg_tables d)))"
  shows "\<exists>new. pg_tables d' = upd (\<lambda>rs. rs @ new) (pg_tables d) \<and>
    mset new = mset (map (\<lambda>r. mk r (the (ids (old r)))) (filter P (tbl (pg_tables d)))) \<and>
    renames ids (old ` {r \<in> set (tbl (pg_tables d)). P r}) (old ` set (tbl (pg_tables d))) \<and> same_server d d'"
proof -
  let ?rows = "tbl (pg_tables d)"
  have set: "set items = {r \<in> set ?rows. P r}" using mset_eq_setD [OF assms(5)] by auto
  have "mset (map old items) = mset (map old (filter P ?rows))" using assms(5) by (metis mset_map)
  moreover have "distinct (map old (filter P ?rows))" using assms(6) by (rule distinct_map_filter)
  ultimately have "distinct (map old items)" by (metis mset_eq_imp_distinct_iff)
  note all = clone_each_rows [OF assms(1,2,3,4) this]
  let ?new = "map (\<lambda>item. mk item (the (ids (old item)))) items"
  have "renames ids (old ` set items) (old ` set ?rows)" using all by (intro renames_intro) simp_all
  moreover have "mset ?new = mset (map (\<lambda>r. mk r (the (ids (old r)))) (filter P ?rows))" using assms(5) by (rule mset_map_mset)
  moreover have "pg_tables d' = upd (\<lambda>rs. rs @ ?new) (pg_tables d)" "same_server d d'" using all by blast+
  ultimately show ?thesis unfolding set by (intro exI [of _ ?new]) simp
qed

lemma clone_distinct:
  assumes "pg_tables d' = upd (\<lambda>rs. rs @ new) (pg_tables d)" "mset new = mset (map (\<lambda>r. mk r (the (ids (old r)))) (filter P (tbl (pg_tables d))))"
    and "renames ids (old ` {r \<in> set (tbl (pg_tables d)). P r}) (old ` set (tbl (pg_tables d)))"
    and "\<And>item i. old (mk item i) = i" "distinct (map old (tbl (pg_tables d)))"
  shows "distinct (map old (tbl (pg_tables d')))"
proof -
  have "mset (map old new) = mset (map (\<lambda>k. the (ids k)) (map old (filter P (tbl (pg_tables d)))))"
    using mset_map_mset [OF assms(2), of old] assms(4) by (simp add: comp_def)
  from renamed_keys [OF this distinct_map_filter [OF assms(5)], of "old ` set (tbl (pg_tables d))"] assms(1,3,5)
  show ?thesis by (simp add: get_upd Int_commute)
qed

text \<open>The same for a table nothing refers to.\<close>

lemma for_each_rows:
  assumes "for_each ins items d = (Inr u, d')"
    and "inserts ins clash mk items"
  shows "\<exists>js. length js = length items \<and> pg_tables d' = upd (\<lambda>rs. rs @ map2 mk items js) (pg_tables d) \<and> same_server d d'"
  using assms
proof (induction items arbitrary: d)
  case Nil
  then show ?case by (simp add: ret_def upd_same)
next
  case (Cons item items)
  from Cons.prems(1) obtain u d1 where i: "ins item d = (Inr u, d1)" and rest: "for_each ins items d1 = (Inr (), d')" by (auto simp: effect_Inr)
  obtain i where ins: "inserted clash (mk item) d i d1" using Cons.prems(2) i unfolding inserts_def by fastforce
  have later: "inserts ins clash mk items" using Cons.prems(2) by (simp add: inserts_def)
  from Cons.IH [OF _ later] rest obtain js where "length js = length items"
    "pg_tables d' = upd (\<lambda>rs. rs @ map2 mk items js) (pg_tables d1)" "same_server d1 d'" by auto
  with ins same_server_trans show ?case by (intro exI [of _ "i # js"]) (auto simp: inserted_def upd_upd comp_def)
qed

lemma for_rows:
  assumes "for_each ins items d = (Inr u, d')"
    and "inserts ins clash mk items"
    and "mset items = mset (filter P (tbl (pg_tables d)))" "\<And>item i. forget (mk item i) = row item"
  shows "\<exists>new. pg_tables d' = upd (\<lambda>rs. rs @ new) (pg_tables d) \<and>
    mset (map forget new) = mset (map row (filter P (tbl (pg_tables d)))) \<and> same_server d d'"
proof -
  from assms(1,2) have "\<exists>js. length js = length items \<and> pg_tables d' = upd (\<lambda>rs. rs @ map2 mk items js) (pg_tables d) \<and> same_server d d'"
    by (rule for_each_rows)
  then obtain js where js: "length js = length items" "pg_tables d' = upd (\<lambda>rs. rs @ map2 mk items js) (pg_tables d)" "same_server d d'"
    by blast
  have "map forget (map2 mk items js) = map row items" using js(1) by (intro nth_equalityI) (auto simp: assms(4))
  then have "mset (map forget (map2 mk items js)) = mset (map row (filter P (tbl (pg_tables d))))"
    using mset_map_mset [OF assms(3), of row] by simp
  with js show ?thesis by blast
qed

text \<open>The two kinds of clone, with the query that finds the rows.\<close>

lemma clone_query:
  assumes "and_then (select_rows l s t sel) (\<lambda>items. clone_each old ins items Map.empty) d = (Inr ids, d')"
    and "\<And>items. inserts_id ins clash mk items" "\<And>item i. old (mk item i) = i" "\<And>r n. old r = old n \<Longrightarrow> clash r n"
    and "mset (sel d) = mset (filter P (tbl (pg_tables d)))" "distinct (map old (tbl (pg_tables d)))"
  shows "\<exists>new. pg_tables d' = upd (\<lambda>rs. rs @ new) (pg_tables d) \<and>
    mset new = mset (map (\<lambda>r. mk r (the (ids (old r)))) (filter P (tbl (pg_tables d)))) \<and>
    renames ids (old ` {r \<in> set (tbl (pg_tables d)). P r}) (old ` set (tbl (pg_tables d))) \<and> distinct (map old (tbl (pg_tables d')))"
proof -
  obtain items d1 where sel: "select_rows l s t sel d = (Inr items, d1)" and loop: "clone_each old ins items Map.empty d1 = (Inr ids, d')"
    using assms(1) by (auto simp: effect_Inr)
  from select_rows_Inr [OF sel] assms(5,6) have T1: "pg_tables d1 = pg_tables d"
    and items: "mset items = mset (filter P (tbl (pg_tables d1)))" "distinct (map old (tbl (pg_tables d1)))" by simp_all
  from clone_rows [OF loop assms(2-4) items] obtain new where new: "pg_tables d' = upd (\<lambda>rs. rs @ new) (pg_tables d)"
    "mset new = mset (map (\<lambda>r. mk r (the (ids (old r)))) (filter P (tbl (pg_tables d))))"
    "renames ids (old ` {r \<in> set (tbl (pg_tables d)). P r}) (old ` set (tbl (pg_tables d)))"
    unfolding T1 by blast
  with clone_distinct [OF new assms(3,6)] show ?thesis by blast
qed

lemma for_query:
  assumes "and_then (select_rows l s t sel) (for_each ins) d = (Inr u, d')"
    and "\<And>items. inserts ins clash mk items" "mset (sel d) = mset (filter P (tbl (pg_tables d)))" "\<And>item i. forget (mk item i) = row item"
  shows "\<exists>new. pg_tables d' = upd (\<lambda>rs. rs @ new) (pg_tables d) \<and> mset (map forget new) = mset (map row (filter P (tbl (pg_tables d))))"
proof -
  obtain items d1 where sel: "select_rows l s t sel d = (Inr items, d1)" and loop: "for_each ins items d1 = (Inr u, d')"
    using assms(1) by (auto simp: effect_Inr)
  from select_rows_Inr [OF sel] assms(3) have T1: "pg_tables d1 = pg_tables d"
    and items: "mset items = mset (filter P (tbl (pg_tables d1)))" by simp_all
  from for_rows [where forget = forget and row = row and mk = mk, OF loop assms(2) items] assms(4) show ?thesis unfolding T1 by blast
qed

end

interpretation routes: table tb_routes tb_routes_update by unfold_locales (auto simp: comp_def)
interpretation providers: table tb_providers tb_providers_update by unfold_locales (auto simp: comp_def)
interpretation mappings: table tb_mappings tb_mappings_update by unfold_locales (auto simp: comp_def)
interpretation verdicts: table tb_verdicts tb_verdicts_update by unfold_locales (auto simp: comp_def)
interpretation verdict_bindings: table tb_verdict_bindings tb_verdict_bindings_update by unfold_locales (auto simp: comp_def)
interpretation bundles: table tb_bundles tb_bundles_update by unfold_locales (auto simp: comp_def)
interpretation detectors: table tb_detectors tb_detectors_update by unfold_locales (auto simp: comp_def)
interpretation rules: table tb_rules tb_rules_update by unfold_locales (auto simp: comp_def)
interpretation rule_detectors: table tb_rule_detectors tb_rule_detectors_update by unfold_locales (auto simp: comp_def)
interpretation scopes: table tb_scopes tb_scopes_update by unfold_locales (auto simp: comp_def)
interpretation policy_bindings: table tb_policy_bindings tb_policy_bindings_update by unfold_locales (auto simp: comp_def)
interpretation route_limits: table tb_route_limits tb_route_limits_update by unfold_locales (auto simp: comp_def)
interpretation client_limits: table tb_client_limits tb_client_limits_update by unfold_locales (auto simp: comp_def)
interpretation sinks: table tb_sinks tb_sinks_update by unfold_locales (auto simp: comp_def)
interpretation retention: table tb_retention tb_retention_update by unfold_locales (auto simp: comp_def)
interpretation snapshots: table tb_snapshots tb_snapshots_update by unfold_locales (auto simp: comp_def)
interpretation clients: table tb_clients tb_clients_update by unfold_locales (auto simp: comp_def)
interpretation captures: table tb_captures tb_captures_update by unfold_locales (auto simp: comp_def)

end
