(* ===== verification/Store_Clone.thy ===== *)
theory Store_Clone
  imports Store_Tables
begin

text \<open>
  What the clone of a revision is: for every table the copy of a row, and for every clone of the adapters that it adds
  exactly the copies of the source revision's rows.
\<close>

section \<open>Copies\<close>

text \<open>The new uuids of everything a row refers to.\<close>

record clone_maps =
  cm_providers :: "uuid \<rightharpoonup> uuid"
  cm_mappings :: "uuid \<rightharpoonup> uuid"
  cm_routes :: "uuid \<rightharpoonup> uuid"
  cm_verdicts :: "uuid \<rightharpoonup> uuid"
  cm_bundles :: "uuid \<rightharpoonup> uuid"
  cm_detectors :: "uuid \<rightharpoonup> uuid"
  cm_rules :: "uuid \<rightharpoonup> uuid"
  cm_sinks :: "uuid \<rightharpoonup> uuid"

text \<open>The copy of a row belongs to the draft, has its own uuid, and refers to the copies; every other column is the row's.
  A uuid nobody refers to is left out of the comparison.\<close>

definition copy_provider :: "uuid \<Rightarrow> (uuid \<rightharpoonup> uuid) \<Rightarrow> provider_row \<Rightarrow> provider_row" where
  "copy_provider D ids r = r\<lparr>pw_id := the (ids (pw_id r)), pw_revision := D\<rparr>"

definition copy_mapping :: "uuid \<Rightarrow> (uuid \<rightharpoonup> uuid) \<Rightarrow> (uuid \<rightharpoonup> uuid) \<Rightarrow> mapping_row \<Rightarrow> mapping_row" where
  "copy_mapping D ids providerIDs r =
     r\<lparr>mmr_ID := the (ids (mmr_ID r)), mmr_TargetProviderID := rename providerIDs (mmr_TargetProviderID r), mmr_revision := D\<rparr>"

definition copy_route :: "uuid \<Rightarrow> (uuid \<rightharpoonup> uuid) \<Rightarrow> (uuid \<rightharpoonup> uuid) \<Rightarrow> route_row \<Rightarrow> route_row" where
  "copy_route D ids mappingIDs r =
     r\<lparr>rtr_ID := the (ids (rtr_ID r)), rtr_ModelMappingID := rename mappingIDs (rtr_ModelMappingID r), rtr_revision := D\<rparr>"

definition copy_verdict :: "uuid \<Rightarrow> (uuid \<rightharpoonup> uuid) \<Rightarrow> verdict_row \<Rightarrow> verdict_row" where
  "copy_verdict D ids r = r\<lparr>vw_id := the (ids (vw_id r)), vw_revision := D\<rparr>"

definition copy_bundle :: "uuid \<Rightarrow> (uuid \<rightharpoonup> uuid) \<Rightarrow> bundle_row \<Rightarrow> bundle_row" where
  "copy_bundle D ids r = r\<lparr>bw_id := the (ids (bw_id r)), bw_revision := D\<rparr>"

definition copy_detector :: "(uuid \<rightharpoonup> uuid) \<Rightarrow> (uuid \<rightharpoonup> uuid) \<Rightarrow> detector_row \<Rightarrow> detector_row" where
  "copy_detector ids bundleIDs r = r\<lparr>dw_id := the (ids (dw_id r)), dw_bundle := the (bundleIDs (dw_bundle r))\<rparr>"

definition copy_rule :: "(uuid \<rightharpoonup> uuid) \<Rightarrow> (uuid \<rightharpoonup> uuid) \<Rightarrow> rule_row \<Rightarrow> rule_row" where
  "copy_rule ids bundleIDs r = r\<lparr>rw_id := the (ids (rw_id r)), rw_bundle := the (bundleIDs (rw_bundle r))\<rparr>"

definition copy_sink :: "uuid \<Rightarrow> (uuid \<rightharpoonup> uuid) \<Rightarrow> sink_row \<Rightarrow> sink_row" where
  "copy_sink D ids r = r\<lparr>skr_ID := the (ids (skr_ID r)), skr_revision := D\<rparr>"

definition copy_rule_detector :: "(uuid \<rightharpoonup> uuid) \<Rightarrow> (uuid \<rightharpoonup> uuid) \<Rightarrow> rule_detector_row \<Rightarrow> rule_detector_row" where
  "copy_rule_detector ruleIDs detectorIDs r = r\<lparr>rdw_rule := the (ruleIDs (rdw_rule r)), rdw_detector := the (detectorIDs (rdw_detector r))\<rparr>"

definition copy_scope :: "(uuid \<rightharpoonup> uuid) \<Rightarrow> (uuid \<rightharpoonup> uuid) \<Rightarrow> (uuid \<rightharpoonup> uuid) \<Rightarrow> scope_row \<Rightarrow> scope_row" where
  "copy_scope ruleIDs routeIDs providerIDs r =
     r\<lparr>rsr_rule := the (ruleIDs (rsr_rule r)), rsr_RouteID := rename routeIDs (rsr_RouteID r), rsr_ProviderID := rename providerIDs (rsr_ProviderID r)\<rparr>"

definition copy_policy_binding :: "(uuid \<rightharpoonup> uuid) \<Rightarrow> (uuid \<rightharpoonup> uuid) \<Rightarrow> policy_binding_row \<Rightarrow> policy_binding_row" where
  "copy_policy_binding routeIDs bundleIDs r = r\<lparr>pbw_route := the (routeIDs (pbw_route r)), pbw_bundle := the (bundleIDs (pbw_bundle r))\<rparr>"

definition copy_verdict_binding ::
  "(uuid \<rightharpoonup> uuid) \<Rightarrow> (uuid \<rightharpoonup> uuid) \<Rightarrow> RouteVerdictProviderBindingRecord \<Rightarrow> RouteVerdictProviderBindingRecord" where
  "copy_verdict_binding routeIDs verdictIDs r =
     r\<lparr>rbr_ID := [], rbr_RouteID := the (routeIDs (rbr_RouteID r)), rbr_VerdictProviderID := the (verdictIDs (rbr_VerdictProviderID r))\<rparr>"

definition copy_route_limit :: "uuid \<Rightarrow> (uuid \<rightharpoonup> uuid) \<Rightarrow> route_limit_row \<Rightarrow> route_limit_row" where
  "copy_route_limit D routeIDs r = r\<lparr>rpr_ID := [], rpr_RouteID := the (routeIDs (rpr_RouteID r)), rpr_revision := D\<rparr>"

definition copy_client_limit :: "uuid \<Rightarrow> (uuid \<rightharpoonup> uuid) \<Rightarrow> client_limit_row \<Rightarrow> client_limit_row" where
  "copy_client_limit D routeIDs r = r\<lparr>cor_ID := [], cor_RouteID := the (routeIDs (cor_RouteID r)), cor_revision := D\<rparr>"

definition copy_retention :: "uuid \<Rightarrow> (uuid \<rightharpoonup> uuid) \<Rightarrow> retention_row \<Rightarrow> retention_row" where
  "copy_retention D sinkIDs r = r\<lparr>ror_ID := [], ror_SinkID := rename sinkIDs (ror_SinkID r), ror_revision := D\<rparr>"

definition copy_capture :: "uuid \<Rightarrow> (uuid \<rightharpoonup> uuid) \<Rightarrow> capture_row \<Rightarrow> capture_row" where
  "copy_capture D routeIDs r = r\<lparr>rcr_ID := [], rcr_RouteID := rename routeIDs (rcr_RouteID r), rcr_revision := D\<rparr>"

lemmas copy_defs = copy_provider_def copy_mapping_def copy_route_def copy_verdict_def copy_bundle_def copy_detector_def copy_rule_def
  copy_sink_def copy_rule_detector_def copy_scope_def copy_policy_binding_def copy_verdict_binding_def copy_route_limit_def
  copy_client_limit_def copy_retention_def copy_capture_def

section \<open>Tables that others refer to\<close>

lemma CloneProviders_Inr:
  assumes "CloneProviders A D d = (Inr ids, d')" "distinct (map pw_id (tb_providers (pg_tables d)))"
  shows "\<exists>new. pg_tables d' = tb_providers_update (\<lambda>rs. rs @ new) (pg_tables d) \<and>
    mset new = mset (map (copy_provider D ids) (filter (\<lambda>r. pw_revision r = A) (tb_providers (pg_tables d)))) \<and>
    renames ids (pw_id ` {r \<in> set (tb_providers (pg_tables d)). pw_revision r = A}) (pw_id ` set (tb_providers (pg_tables d))) \<and>
    distinct (map pw_id (tb_providers (pg_tables d')))"
  unfolding copy_provider_def
  by (rule providers.clone_query [OF assms(1) [unfolded CloneProviders_def], where mk = "\<lambda>r i. r\<lparr>pw_id := i, pw_revision := D\<rparr>"],
    clarsimp simp: providers.inserts_id_def effect_Inr dest!: remap_rename, erule providers.insert_as, rule provider_row.equality,
    simp_all add: assms(2))

lemma CloneModelMappings_Inr:
  assumes "CloneModelMappings A D providerIDs d = (Inr ids, d')" "distinct (map mmr_ID (tb_mappings (pg_tables d)))"
  shows "\<exists>new. pg_tables d' = tb_mappings_update (\<lambda>rs. rs @ new) (pg_tables d) \<and>
    mset new = mset (map (copy_mapping D ids providerIDs) (filter (\<lambda>r. mmr_revision r = A) (tb_mappings (pg_tables d)))) \<and>
    renames ids (mmr_ID ` {r \<in> set (tb_mappings (pg_tables d)). mmr_revision r = A}) (mmr_ID ` set (tb_mappings (pg_tables d))) \<and>
    distinct (map mmr_ID (tb_mappings (pg_tables d')))"
  unfolding copy_mapping_def
  by (rule mappings.clone_query [OF assms(1) [unfolded CloneModelMappings_def], where mk = "\<lambda>r i. r\<lparr>mmr_ID := i, mmr_TargetProviderID := rename providerIDs (mmr_TargetProviderID r), mmr_revision := D\<rparr>"],
    clarsimp simp: mappings.inserts_id_def effect_Inr dest!: remap_rename, erule mappings.insert_as, rule mapping_row.equality,
    simp_all add: assms(2) mapping_clash_def)

lemma CloneRoutes_Inr:
  assumes "CloneRoutes A D mappingIDs d = (Inr ids, d')" "distinct (map rtr_ID (tb_routes (pg_tables d)))"
  shows "\<exists>new. pg_tables d' = tb_routes_update (\<lambda>rs. rs @ new) (pg_tables d) \<and>
    mset new = mset (map (copy_route D ids mappingIDs) (filter (\<lambda>r. rtr_revision r = A) (tb_routes (pg_tables d)))) \<and>
    renames ids (rtr_ID ` {r \<in> set (tb_routes (pg_tables d)). rtr_revision r = A}) (rtr_ID ` set (tb_routes (pg_tables d))) \<and>
    distinct (map rtr_ID (tb_routes (pg_tables d')))"
  unfolding copy_route_def
  by (rule routes.clone_query [OF assms(1) [unfolded CloneRoutes_def], where mk = "\<lambda>r i. r\<lparr>rtr_ID := i, rtr_ModelMappingID := rename mappingIDs (rtr_ModelMappingID r), rtr_revision := D\<rparr>"],
    clarsimp simp: routes.inserts_id_def effect_Inr dest!: remap_rename, erule routes.insert_as, rule route_row.equality,
    simp_all add: assms(2))

lemma CloneVerdictProviders_Inr:
  assumes "CloneVerdictProviders A D d = (Inr ids, d')" "distinct (map vw_id (tb_verdicts (pg_tables d)))"
  shows "\<exists>new. pg_tables d' = tb_verdicts_update (\<lambda>rs. rs @ new) (pg_tables d) \<and>
    mset new = mset (map (copy_verdict D ids) (filter (\<lambda>r. vw_revision r = A) (tb_verdicts (pg_tables d)))) \<and>
    renames ids (vw_id ` {r \<in> set (tb_verdicts (pg_tables d)). vw_revision r = A}) (vw_id ` set (tb_verdicts (pg_tables d))) \<and>
    distinct (map vw_id (tb_verdicts (pg_tables d')))"
  unfolding copy_verdict_def
  by (rule verdicts.clone_query [OF assms(1) [unfolded CloneVerdictProviders_def], where mk = "\<lambda>r i. r\<lparr>vw_id := i, vw_revision := D\<rparr>"],
    clarsimp simp: verdicts.inserts_id_def effect_Inr dest!: remap_rename, erule verdicts.insert_as, rule verdict_row.equality,
    simp_all add: assms(2) verdict_clash_def)

lemma clonePolicyBundles_Inr:
  assumes "clonePolicyBundles A D d = (Inr ids, d')" "distinct (map bw_id (tb_bundles (pg_tables d)))"
  shows "\<exists>new. pg_tables d' = tb_bundles_update (\<lambda>rs. rs @ new) (pg_tables d) \<and>
    mset new = mset (map (copy_bundle D ids) (filter (\<lambda>r. bw_revision r = A) (tb_bundles (pg_tables d)))) \<and>
    renames ids (bw_id ` {r \<in> set (tb_bundles (pg_tables d)). bw_revision r = A}) (bw_id ` set (tb_bundles (pg_tables d))) \<and>
    distinct (map bw_id (tb_bundles (pg_tables d')))"
  unfolding copy_bundle_def
  by (rule bundles.clone_query [OF assms(1) [unfolded clonePolicyBundles_def], where mk = "\<lambda>r i. r\<lparr>bw_id := i, bw_revision := D\<rparr>"],
    clarsimp simp: bundles.inserts_id_def effect_Inr dest!: remap_rename, erule bundles.insert_as, rule bundle_row.equality,
    simp_all add: assms(2) bundle_clash_def)

lemma CloneSinks_Inr:
  assumes "CloneSinks A D d = (Inr ids, d')" "distinct (map skr_ID (tb_sinks (pg_tables d)))"
  shows "\<exists>new. pg_tables d' = tb_sinks_update (\<lambda>rs. rs @ new) (pg_tables d) \<and>
    mset new = mset (map (copy_sink D ids) (filter (\<lambda>r. skr_revision r = A) (tb_sinks (pg_tables d)))) \<and>
    renames ids (skr_ID ` {r \<in> set (tb_sinks (pg_tables d)). skr_revision r = A}) (skr_ID ` set (tb_sinks (pg_tables d))) \<and>
    distinct (map skr_ID (tb_sinks (pg_tables d')))"
  unfolding copy_sink_def
  by (rule sinks.clone_query [OF assms(1) [unfolded CloneSinks_def], where mk = "\<lambda>r i. r\<lparr>skr_ID := i, skr_revision := D\<rparr>"],
    clarsimp simp: sinks.inserts_id_def effect_Inr dest!: remap_rename, erule sinks.insert_as, rule sink_row.equality,
    simp_all add: assms(2))

section \<open>Rows that belong to a bundle, a rule or a route\<close>

definition bundle_in :: "uuid \<Rightarrow> bundle_row list \<Rightarrow> uuid \<Rightarrow> bool" where
  "bundle_in A bundles k \<longleftrightarrow> (\<exists>b \<in> set bundles. bw_id b = k \<and> bw_revision b = A)"

definition rule_in :: "uuid \<Rightarrow> bundle_row list \<Rightarrow> rule_row list \<Rightarrow> uuid \<Rightarrow> bool" where
  "rule_in A bundles rules k \<longleftrightarrow> (\<exists>r \<in> set rules. rw_id r = k \<and> bundle_in A bundles (rw_bundle r))"

definition route_in :: "uuid \<Rightarrow> route_row list \<Rightarrow> uuid \<Rightarrow> bool" where
  "route_in A routes k \<longleftrightarrow> (\<exists>r \<in> set routes. rtr_ID r = k \<and> rtr_revision r = A)"

text \<open>A join with the one row that has the key.\<close>

lemma map_filter_key:
  "distinct (map f xs) \<Longrightarrow> map (\<lambda>_. c) (filter (\<lambda>x. f x = k \<and> Q x) xs) = (if \<exists>x \<in> set xs. f x = k \<and> Q x then [c] else [])"
proof (induction xs)
  case (Cons x xs)
  show ?case
  proof (cases "f x = k")
    case True
    then have "filter (\<lambda>x. f x = k \<and> Q x) xs = []" using Cons.prems by (auto simp: filter_empty_conv) (metis imageI)
    then show ?thesis using True Cons.prems by (auto simp: filter_empty_conv)
  next
    case False
    then show ?thesis using Cons by auto
  qed
qed simp

lemma of_routes_filter:
  assumes "distinct (map rtr_ID routes)"
  shows "map snd (of_routes A ref routes xs) = filter (\<lambda>x. route_in A routes (ref x)) xs"
  unfolding of_routes_def map_concat
  by (induction xs) (simp_all add: comp_def map_filter_key [OF assms, of _ _ "\<lambda>r. rtr_revision r = A"] route_in_def)

lemma of_bundles_filter:
  assumes "distinct (map bw_id bundles)"
  shows "map snd (of_bundles A ref bundles xs) = filter (\<lambda>x. bundle_in A bundles (ref x)) xs"
  unfolding of_bundles_def map_concat
  by (induction xs) (simp_all add: comp_def map_filter_key [OF assms, of _ _ "\<lambda>r. bw_revision r = A"] bundle_in_def)

lemma of_rules_filter:
  assumes "distinct (map bw_id bundles)" "distinct (map rw_id rules)"
  shows "of_rules A ref bundles rules xs = filter (\<lambda>x. rule_in A bundles rules (ref x)) xs"
proof -
  have one: "map (\<lambda>_. x) (filter (\<lambda>(b, r). rw_id r = ref x) (of_bundles A rw_bundle bundles rules)) =
    map (\<lambda>_. x) (filter (\<lambda>r. rw_id r = ref x \<and> bundle_in A bundles (rw_bundle r)) rules)" for x
  proof -
    have "map (\<lambda>_. x) (filter (\<lambda>(b, r). rw_id r = ref x) (of_bundles A rw_bundle bundles rules)) =
      map (\<lambda>_. x) (filter (\<lambda>r. rw_id r = ref x) (map snd (of_bundles A rw_bundle bundles rules)))"
      by (simp add: filter_map comp_def case_prod_beta')
    then show ?thesis by (simp add: of_bundles_filter [OF assms(1)] conj_commute)
  qed
  show ?thesis
    unfolding of_rules_def one
    by (induction xs) (simp_all add: map_filter_key [OF assms(2), of _ _ "\<lambda>r. bundle_in A bundles (rw_bundle r)"] rule_in_def)
qed

lemma mset_of [simp]:
  "distinct (map rtr_ID routes) \<Longrightarrow> image_mset snd (mset (of_routes A ref routes xs)) = mset (filter (\<lambda>x. route_in A routes (ref x)) xs)"
  "distinct (map bw_id bundles) \<Longrightarrow> image_mset snd (mset (of_bundles A ref' bundles ys)) = mset (filter (\<lambda>x. bundle_in A bundles (ref' x)) ys)"
  by (simp_all add: of_routes_filter of_bundles_filter flip: mset_map)

lemma clonePolicyDetectors_Inr:
  assumes "clonePolicyDetectors A bundleIDs d = (Inr ids, d')" "distinct (map dw_id (tb_detectors (pg_tables d)))" "distinct (map bw_id (tb_bundles (pg_tables d)))"
  shows "\<exists>new. pg_tables d' = tb_detectors_update (\<lambda>rs. rs @ new) (pg_tables d) \<and>
    mset new = mset (map (copy_detector ids bundleIDs) (filter (\<lambda>r. bundle_in A (tb_bundles (pg_tables d)) (dw_bundle r)) (tb_detectors (pg_tables d)))) \<and>
    renames ids (dw_id ` {r \<in> set (tb_detectors (pg_tables d)). bundle_in A (tb_bundles (pg_tables d)) (dw_bundle r)}) (dw_id ` set (tb_detectors (pg_tables d))) \<and>
    distinct (map dw_id (tb_detectors (pg_tables d')))"
  unfolding copy_detector_def
  by (rule detectors.clone_query [OF assms(1) [unfolded clonePolicyDetectors_def], where mk = "\<lambda>r i. r\<lparr>dw_id := i, dw_bundle := the (bundleIDs (dw_bundle r))\<rparr>"],
    clarsimp simp: detectors.inserts_id_def effect_Inr dest!: remap_rename, erule detectors.insert_as, rule detector_row.equality,
    simp_all add: assms(2,3) detector_clash_def)

lemma clonePolicyRules_Inr:
  assumes "clonePolicyRules A bundleIDs d = (Inr ids, d')" "distinct (map rw_id (tb_rules (pg_tables d)))" "distinct (map bw_id (tb_bundles (pg_tables d)))"
  shows "\<exists>new. pg_tables d' = tb_rules_update (\<lambda>rs. rs @ new) (pg_tables d) \<and>
    mset new = mset (map (copy_rule ids bundleIDs) (filter (\<lambda>r. bundle_in A (tb_bundles (pg_tables d)) (rw_bundle r)) (tb_rules (pg_tables d)))) \<and>
    renames ids (rw_id ` {r \<in> set (tb_rules (pg_tables d)). bundle_in A (tb_bundles (pg_tables d)) (rw_bundle r)}) (rw_id ` set (tb_rules (pg_tables d))) \<and>
    distinct (map rw_id (tb_rules (pg_tables d')))"
  unfolding copy_rule_def
  by (rule rules.clone_query [OF assms(1) [unfolded clonePolicyRules_def], where mk = "\<lambda>r i. r\<lparr>rw_id := i, rw_bundle := the (bundleIDs (rw_bundle r))\<rparr>"],
    clarsimp simp: rules.inserts_id_def effect_Inr dest!: remap_rename, erule rules.insert_as, rule rule_row.equality,
    simp_all add: assms(2,3) rule_clash_def)

section \<open>Tables that no other refers to\<close>

lemma CloneRoutePolicies_Inr:
  assumes "CloneRoutePolicies A D routeIDs d = (Inr u, d')"
  shows "\<exists>new. pg_tables d' = tb_route_limits_update (\<lambda>rs. rs @ new) (pg_tables d) \<and>
    mset (map (\<lambda>r. r\<lparr>rpr_ID := []\<rparr>) new) = mset (map (copy_route_limit D routeIDs) (filter (\<lambda>r. rpr_revision r = A) (tb_route_limits (pg_tables d))))"
  unfolding copy_route_limit_def
  by (rule route_limits.for_query [OF assms(1) [unfolded CloneRoutePolicies_def], where forget = "\<lambda>r. r\<lparr>rpr_ID := []\<rparr>" and mk = "\<lambda>r i. r\<lparr>rpr_ID := i, rpr_RouteID := the (routeIDs (rpr_RouteID r)), rpr_revision := D\<rparr>", simplified list.map_ident],
    clarsimp simp: route_limits.inserts_def effect_Inr dest!: remap_rename, rule exI, erule route_limits.insert_as, rule route_limit_row.equality,
    simp_all)

lemma CloneClientRouteOverrides_Inr:
  assumes "CloneClientRouteOverrides A D routeIDs d = (Inr u, d')"
  shows "\<exists>new. pg_tables d' = tb_client_limits_update (\<lambda>rs. rs @ new) (pg_tables d) \<and>
    mset (map (\<lambda>r. r\<lparr>cor_ID := []\<rparr>) new) = mset (map (copy_client_limit D routeIDs) (filter (\<lambda>r. cor_revision r = A) (tb_client_limits (pg_tables d))))"
  unfolding copy_client_limit_def
  by (rule client_limits.for_query [OF assms(1) [unfolded CloneClientRouteOverrides_def], where forget = "\<lambda>r. r\<lparr>cor_ID := []\<rparr>" and mk = "\<lambda>r i. r\<lparr>cor_ID := i, cor_RouteID := the (routeIDs (cor_RouteID r)), cor_revision := D\<rparr>", simplified list.map_ident],
    clarsimp simp: client_limits.inserts_def effect_Inr dest!: remap_rename, rule exI, erule client_limits.insert_as, rule client_limit_row.equality,
    simp_all)

lemma CloneRetentionPolicies_Inr:
  assumes "CloneRetentionPolicies A D sinkIDs d = (Inr u, d')"
  shows "\<exists>new. pg_tables d' = tb_retention_update (\<lambda>rs. rs @ new) (pg_tables d) \<and>
    mset (map (\<lambda>r. r\<lparr>ror_ID := []\<rparr>) new) = mset (map (copy_retention D sinkIDs) (filter (\<lambda>r. ror_revision r = A) (tb_retention (pg_tables d))))"
  unfolding copy_retention_def
  by (rule retention.for_query [OF assms(1) [unfolded CloneRetentionPolicies_def], where forget = "\<lambda>r. r\<lparr>ror_ID := []\<rparr>" and mk = "\<lambda>r i. r\<lparr>ror_ID := i, ror_SinkID := rename sinkIDs (ror_SinkID r), ror_revision := D\<rparr>", simplified list.map_ident],
    clarsimp simp: retention.inserts_def effect_Inr dest!: remap_rename, rule exI, erule retention.insert_as, rule retention_row.equality,
    simp_all)

lemma CloneRawCapturePolicies_Inr:
  assumes "CloneRawCapturePolicies A D routeIDs d = (Inr u, d')"
  shows "\<exists>new. pg_tables d' = tb_captures_update (\<lambda>rs. rs @ new) (pg_tables d) \<and>
    mset (map (\<lambda>r. r\<lparr>rcr_ID := []\<rparr>) new) = mset (map (copy_capture D routeIDs) (filter (\<lambda>r. rcr_revision r = A) (tb_captures (pg_tables d))))"
  unfolding copy_capture_def
  by (rule captures.for_query [OF assms(1) [unfolded CloneRawCapturePolicies_def], where forget = "\<lambda>r. r\<lparr>rcr_ID := []\<rparr>" and mk = "\<lambda>r i. r\<lparr>rcr_ID := i, rcr_RouteID := rename routeIDs (rcr_RouteID r), rcr_revision := D\<rparr>", simplified list.map_ident],
    clarsimp simp: captures.inserts_def effect_Inr dest!: remap_rename, rule exI, erule captures.insert_as, rule capture_row.equality,
    simp_all)

lemma CloneRouteVerdictProviderBindings_Inr:
  assumes "CloneRouteVerdictProviderBindings A routeIDs verdictIDs d = (Inr u, d')" "distinct (map rtr_ID (tb_routes (pg_tables d)))"
  shows "\<exists>new. pg_tables d' = tb_verdict_bindings_update (\<lambda>rs. rs @ new) (pg_tables d) \<and>
    mset (map (\<lambda>r. r\<lparr>rbr_ID := []\<rparr>) new) = mset (map (copy_verdict_binding routeIDs verdictIDs) (filter (\<lambda>r. route_in A (tb_routes (pg_tables d)) (rbr_RouteID r)) (tb_verdict_bindings (pg_tables d))))"
  unfolding copy_verdict_binding_def
  by (rule verdict_bindings.for_query [OF assms(1) [unfolded CloneRouteVerdictProviderBindings_def], where forget = "\<lambda>r. r\<lparr>rbr_ID := []\<rparr>" and mk = "\<lambda>r i. r\<lparr>rbr_ID := i, rbr_RouteID := the (routeIDs (rbr_RouteID r)), rbr_VerdictProviderID := the (verdictIDs (rbr_VerdictProviderID r))\<rparr>", simplified list.map_ident],
    clarsimp simp: verdict_bindings.inserts_def effect_Inr dest!: remap_rename, rule exI, erule verdict_bindings.insert_as, rule RouteVerdictProviderBindingRecord.equality,
    simp_all add: assms(2))

lemma cloneRoutePolicyBindings_Inr:
  assumes "cloneRoutePolicyBindings A routeIDs bundleIDs d = (Inr u, d')" "distinct (map rtr_ID (tb_routes (pg_tables d)))"
  shows "\<exists>new. pg_tables d' = tb_policy_bindings_update (\<lambda>rs. rs @ new) (pg_tables d) \<and>
    mset (new) = mset (map (copy_policy_binding routeIDs bundleIDs) (filter (\<lambda>r. route_in A (tb_routes (pg_tables d)) (pbw_route r)) (tb_policy_bindings (pg_tables d))))"
  unfolding copy_policy_binding_def
  by (rule policy_bindings.for_query [OF assms(1) [unfolded cloneRoutePolicyBindings_def], where forget = "\<lambda>r. r" and mk = "\<lambda>r i. r\<lparr>pbw_route := the (routeIDs (pbw_route r)), pbw_bundle := the (bundleIDs (pbw_bundle r))\<rparr>", simplified list.map_ident],
    clarsimp simp: policy_bindings.inserts_def effect_Inr dest!: remap_rename, rule exI, erule policy_bindings.append_as, rule policy_binding_row.equality,
    simp_all add: assms(2))

lemma clonePolicyRuleDetectors_Inr:
  assumes "clonePolicyRuleDetectors A ruleIDs detectorIDs d = (Inr u, d')" "distinct (map bw_id (tb_bundles (pg_tables d)))" "distinct (map rw_id (tb_rules (pg_tables d)))"
  shows "\<exists>new. pg_tables d' = tb_rule_detectors_update (\<lambda>rs. rs @ new) (pg_tables d) \<and>
    mset (new) = mset (map (copy_rule_detector ruleIDs detectorIDs) (filter (\<lambda>r. rule_in A (tb_bundles (pg_tables d)) (tb_rules (pg_tables d)) (rdw_rule r)) (tb_rule_detectors (pg_tables d))))"
  unfolding copy_rule_detector_def
  by (rule rule_detectors.for_query [OF assms(1) [unfolded clonePolicyRuleDetectors_def], where forget = "\<lambda>r. r" and mk = "\<lambda>r i. r\<lparr>rdw_rule := the (ruleIDs (rdw_rule r)), rdw_detector := the (detectorIDs (rdw_detector r))\<rparr>", simplified list.map_ident],
    clarsimp simp: rule_detectors.inserts_def effect_Inr dest!: remap_rename, rule exI, erule rule_detectors.append_as, rule rule_detector_row.equality,
    simp_all add: assms(2,3) of_rules_filter)

lemma clonePolicyRuleScopes_Inr:
  assumes "clonePolicyRuleScopes A ruleIDs routeIDs providerIDs d = (Inr u, d')" "distinct (map bw_id (tb_bundles (pg_tables d)))" "distinct (map rw_id (tb_rules (pg_tables d)))"
  shows "\<exists>new. pg_tables d' = tb_scopes_update (\<lambda>rs. rs @ new) (pg_tables d) \<and>
    mset (new) = mset (map (copy_scope ruleIDs routeIDs providerIDs) (filter (\<lambda>r. rule_in A (tb_bundles (pg_tables d)) (tb_rules (pg_tables d)) (rsr_rule r)) (tb_scopes (pg_tables d))))"
  unfolding copy_scope_def
  by (rule scopes.for_query [OF assms(1) [unfolded clonePolicyRuleScopes_def], where forget = "\<lambda>r. r" and mk = "\<lambda>r i. r\<lparr>rsr_rule := the (ruleIDs (rsr_rule r)), rsr_RouteID := rename routeIDs (rsr_RouteID r), rsr_ProviderID := rename providerIDs (rsr_ProviderID r)\<rparr>", simplified list.map_ident],
    clarsimp simp: scopes.inserts_def effect_Inr dest!: remap_rename, rule exI, erule scopes.append_as, rule scope_row.equality,
    simp_all add: assms(2,3) of_rules_filter)

section \<open>The copy of a revision\<close>

text \<open>The rows that are added to a table, compared by what \<open>forget\<close> leaves of them.\<close>

definition added :: "('r \<Rightarrow> 'r) \<Rightarrow> 'r list \<Rightarrow> 'r list \<Rightarrow> 'r list \<Rightarrow> bool" where
  "added forget rows xs ys \<longleftrightarrow> (\<exists>new. ys = xs @ new \<and> mset (map forget new) = mset rows)"

lemma added_intro: "ys = xs @ new \<Longrightarrow> mset (map forget new) = mset rows \<Longrightarrow> added forget rows xs ys"
  by (auto simp: added_def)

text \<open>A primary key in every table others refer to.\<close>

definition distinct_ids :: "tables \<Rightarrow> bool" where
  "distinct_ids T \<longleftrightarrow>
     distinct (map pw_id (tb_providers T)) \<and> distinct (map mmr_ID (tb_mappings T)) \<and> distinct (map rtr_ID (tb_routes T)) \<and>
     distinct (map vw_id (tb_verdicts T)) \<and> distinct (map bw_id (tb_bundles T)) \<and> distinct (map dw_id (tb_detectors T)) \<and>
     distinct (map rw_id (tb_rules T)) \<and> distinct (map skr_ID (tb_sinks T))"

definition new_uuids :: "uuid \<Rightarrow> tables \<Rightarrow> clone_maps \<Rightarrow> bool" where
  "new_uuids A T M \<longleftrightarrow>
     renames (cm_providers M) (pw_id ` {r \<in> set (tb_providers T). pw_revision r = A}) (pw_id ` set (tb_providers T)) \<and>
     renames (cm_mappings M) (mmr_ID ` {r \<in> set (tb_mappings T). mmr_revision r = A}) (mmr_ID ` set (tb_mappings T)) \<and>
     renames (cm_routes M) (rtr_ID ` {r \<in> set (tb_routes T). rtr_revision r = A}) (rtr_ID ` set (tb_routes T)) \<and>
     renames (cm_verdicts M) (vw_id ` {r \<in> set (tb_verdicts T). vw_revision r = A}) (vw_id ` set (tb_verdicts T)) \<and>
     renames (cm_bundles M) (bw_id ` {r \<in> set (tb_bundles T). bw_revision r = A}) (bw_id ` set (tb_bundles T)) \<and>
     renames (cm_detectors M) (dw_id ` {r \<in> set (tb_detectors T). bundle_in A (tb_bundles T) (dw_bundle r)}) (dw_id ` set (tb_detectors T)) \<and>
     renames (cm_rules M) (rw_id ` {r \<in> set (tb_rules T). bundle_in A (tb_bundles T) (rw_bundle r)}) (rw_id ` set (tb_rules T)) \<and>
     renames (cm_sinks M) (skr_ID ` {r \<in> set (tb_sinks T). skr_revision r = A}) (skr_ID ` set (tb_sinks T))"

text \<open>The tables with the copy of the rows of \<open>A\<close> added as rows of \<open>D\<close>, and nothing else changed.\<close>

definition copied_routing :: "uuid \<Rightarrow> uuid \<Rightarrow> clone_maps \<Rightarrow> tables \<Rightarrow> tables \<Rightarrow> bool" where
  "copied_routing A D M T T' \<longleftrightarrow>
     added id (map (copy_provider D (cm_providers M)) (filter (\<lambda>r. pw_revision r = A) (tb_providers T))) (tb_providers T) (tb_providers T') \<and>
     added id (map (copy_mapping D (cm_mappings M) (cm_providers M)) (filter (\<lambda>r. mmr_revision r = A) (tb_mappings T)))
       (tb_mappings T) (tb_mappings T') \<and>
     added id (map (copy_route D (cm_routes M) (cm_mappings M)) (filter (\<lambda>r. rtr_revision r = A) (tb_routes T))) (tb_routes T) (tb_routes T') \<and>
     added id (map (copy_verdict D (cm_verdicts M)) (filter (\<lambda>r. vw_revision r = A) (tb_verdicts T))) (tb_verdicts T) (tb_verdicts T') \<and>
     added (\<lambda>r. r\<lparr>rbr_ID := []\<rparr>)
       (map (copy_verdict_binding (cm_routes M) (cm_verdicts M))
         (filter (\<lambda>r. route_in A (tb_routes T) (rbr_RouteID r)) (tb_verdict_bindings T))) (tb_verdict_bindings T) (tb_verdict_bindings T')"

definition copied_policy :: "uuid \<Rightarrow> uuid \<Rightarrow> clone_maps \<Rightarrow> tables \<Rightarrow> tables \<Rightarrow> bool" where
  "copied_policy A D M T T' \<longleftrightarrow>
     added id (map (copy_bundle D (cm_bundles M)) (filter (\<lambda>r. bw_revision r = A) (tb_bundles T))) (tb_bundles T) (tb_bundles T') \<and>
     added id (map (copy_detector (cm_detectors M) (cm_bundles M)) (filter (\<lambda>r. bundle_in A (tb_bundles T) (dw_bundle r)) (tb_detectors T)))
       (tb_detectors T) (tb_detectors T') \<and>
     added id (map (copy_rule (cm_rules M) (cm_bundles M)) (filter (\<lambda>r. bundle_in A (tb_bundles T) (rw_bundle r)) (tb_rules T)))
       (tb_rules T) (tb_rules T') \<and>
     added id (map (copy_rule_detector (cm_rules M) (cm_detectors M))
         (filter (\<lambda>r. rule_in A (tb_bundles T) (tb_rules T) (rdw_rule r)) (tb_rule_detectors T))) (tb_rule_detectors T) (tb_rule_detectors T') \<and>
     added id (map (copy_scope (cm_rules M) (cm_routes M) (cm_providers M))
         (filter (\<lambda>r. rule_in A (tb_bundles T) (tb_rules T) (rsr_rule r)) (tb_scopes T))) (tb_scopes T) (tb_scopes T') \<and>
     added id (map (copy_policy_binding (cm_routes M) (cm_bundles M)) (filter (\<lambda>r. route_in A (tb_routes T) (pbw_route r)) (tb_policy_bindings T)))
       (tb_policy_bindings T) (tb_policy_bindings T')"

definition copied_limits :: "uuid \<Rightarrow> uuid \<Rightarrow> clone_maps \<Rightarrow> tables \<Rightarrow> tables \<Rightarrow> bool" where
  "copied_limits A D M T T' \<longleftrightarrow>
     added (\<lambda>r. r\<lparr>rpr_ID := []\<rparr>) (map (copy_route_limit D (cm_routes M)) (filter (\<lambda>r. rpr_revision r = A) (tb_route_limits T)))
       (tb_route_limits T) (tb_route_limits T') \<and>
     added (\<lambda>r. r\<lparr>cor_ID := []\<rparr>) (map (copy_client_limit D (cm_routes M)) (filter (\<lambda>r. cor_revision r = A) (tb_client_limits T)))
       (tb_client_limits T) (tb_client_limits T')"

definition copied_observability :: "uuid \<Rightarrow> uuid \<Rightarrow> clone_maps \<Rightarrow> tables \<Rightarrow> tables \<Rightarrow> bool" where
  "copied_observability A D M T T' \<longleftrightarrow>
     added id (map (copy_sink D (cm_sinks M)) (filter (\<lambda>r. skr_revision r = A) (tb_sinks T))) (tb_sinks T) (tb_sinks T') \<and>
     added (\<lambda>r. r\<lparr>ror_ID := []\<rparr>) (map (copy_retention D (cm_sinks M)) (filter (\<lambda>r. ror_revision r = A) (tb_retention T)))
       (tb_retention T) (tb_retention T') \<and>
     added (\<lambda>r. r\<lparr>rcr_ID := []\<rparr>) (map (copy_capture D (cm_routes M)) (filter (\<lambda>r. rcr_revision r = A) (tb_captures T)))
       (tb_captures T) (tb_captures T')"

definition same_elsewhere :: "tables \<Rightarrow> tables \<Rightarrow> bool" where
  "same_elsewhere T T' \<longleftrightarrow> tb_revisions T' = tb_revisions T \<and> tb_generation T' = tb_generation T \<and> tb_clients T' = tb_clients T \<and>
     tb_snapshots T' = tb_snapshots T \<and> tb_activations T' = tb_activations T \<and> tb_notifications T' = tb_notifications T"

definition copied :: "uuid \<Rightarrow> uuid \<Rightarrow> clone_maps \<Rightarrow> tables \<Rightarrow> tables \<Rightarrow> bool" where
  "copied A D M T T' \<longleftrightarrow> copied_routing A D M T T' \<and> copied_policy A D M T T' \<and> copied_limits A D M T T' \<and>
     copied_observability A D M T T' \<and> same_elsewhere T T'"

text \<open>What is of the source is not changed by rows that are of the draft.\<close>

lemma route_in_new: "(\<And>r. r \<in> set new \<Longrightarrow> rtr_revision r \<noteq> A) \<Longrightarrow> route_in A (routes @ new) = route_in A routes"
  by (auto simp: route_in_def fun_eq_iff)

lemma bundle_in_new: "(\<And>r. r \<in> set new \<Longrightarrow> bw_revision r \<noteq> A) \<Longrightarrow> bundle_in A (bundles @ new) = bundle_in A bundles"
  by (auto simp: bundle_in_def fun_eq_iff)

lemma rule_in_new:
  "(\<And>r. r \<in> set new \<Longrightarrow> \<not> bundle_in A bundles (rw_bundle r)) \<Longrightarrow> rule_in A bundles (rules @ new) = rule_in A bundles rules"
  by (auto simp: rule_in_def fun_eq_iff)

lemma clone_routing:
  assumes "CloneProviders A D d0 = (Inr pids, d1)" "CloneModelMappings A D pids d1 = (Inr mids, d2)"
    and "CloneRoutes A D mids d2 = (Inr rids, d3)" "distinct_ids (pg_tables d0)"
  shows "\<exists>ps ms rs. pg_tables d3 =
      (pg_tables d0)\<lparr>tb_providers := tb_providers (pg_tables d0) @ ps, tb_mappings := tb_mappings (pg_tables d0) @ ms,
        tb_routes := tb_routes (pg_tables d0) @ rs\<rparr> \<and>
    mset ps = mset (map (copy_provider D pids) (filter (\<lambda>r. pw_revision r = A) (tb_providers (pg_tables d0)))) \<and>
    mset ms = mset (map (copy_mapping D mids pids) (filter (\<lambda>r. mmr_revision r = A) (tb_mappings (pg_tables d0)))) \<and>
    mset rs = mset (map (copy_route D rids mids) (filter (\<lambda>r. rtr_revision r = A) (tb_routes (pg_tables d0)))) \<and>
    renames pids (pw_id ` {r \<in> set (tb_providers (pg_tables d0)). pw_revision r = A}) (pw_id ` set (tb_providers (pg_tables d0))) \<and>
    renames mids (mmr_ID ` {r \<in> set (tb_mappings (pg_tables d0)). mmr_revision r = A}) (mmr_ID ` set (tb_mappings (pg_tables d0))) \<and>
    renames rids (rtr_ID ` {r \<in> set (tb_routes (pg_tables d0)). rtr_revision r = A}) (rtr_ID ` set (tb_routes (pg_tables d0))) \<and>
    distinct (map rtr_ID (tb_routes (pg_tables d3)))"
proof -
  note ids = assms(4) [unfolded distinct_ids_def]
  obtain ps where ps: "pg_tables d1 = tb_providers_update (\<lambda>rs. rs @ ps) (pg_tables d0)"
    "mset ps = mset (map (copy_provider D pids) (filter (\<lambda>r. pw_revision r = A) (tb_providers (pg_tables d0))))"
    "renames pids (pw_id ` {r \<in> set (tb_providers (pg_tables d0)). pw_revision r = A}) (pw_id ` set (tb_providers (pg_tables d0)))"
    using CloneProviders_Inr [OF assms(1)] ids by blast
  obtain ms where ms: "pg_tables d2 = tb_mappings_update (\<lambda>rs. rs @ ms) (pg_tables d1)"
    "mset ms = mset (map (copy_mapping D mids pids) (filter (\<lambda>r. mmr_revision r = A) (tb_mappings (pg_tables d1))))"
    "renames mids (mmr_ID ` {r \<in> set (tb_mappings (pg_tables d1)). mmr_revision r = A}) (mmr_ID ` set (tb_mappings (pg_tables d1)))"
    using CloneModelMappings_Inr [OF assms(2)] ids ps(1) by auto
  obtain rs where rs: "pg_tables d3 = tb_routes_update (\<lambda>xs. xs @ rs) (pg_tables d2)"
    "mset rs = mset (map (copy_route D rids mids) (filter (\<lambda>r. rtr_revision r = A) (tb_routes (pg_tables d2))))"
    "renames rids (rtr_ID ` {r \<in> set (tb_routes (pg_tables d2)). rtr_revision r = A}) (rtr_ID ` set (tb_routes (pg_tables d2)))"
    "distinct (map rtr_ID (tb_routes (pg_tables d3)))"
    using CloneRoutes_Inr [OF assms(3)] ids ps(1) ms(1) by auto
  from ps ms rs show ?thesis by (intro exI [of _ ps] exI [of _ ms] exI [of _ rs] conjI) simp_all
qed

text \<open>The copies of bundles are of the draft, and so are the copies of rules.\<close>

lemma new_bundles:
  "mset bs = mset (map (copy_bundle D ids) xs) \<Longrightarrow> r \<in> set bs \<Longrightarrow> bw_revision r = D"
  by (drule mset_eq_setD) (auto simp: copy_bundle_def)

lemma new_routes:
  "mset rs = mset (map (copy_route D ids mids) xs) \<Longrightarrow> r \<in> set rs \<Longrightarrow> rtr_revision r = D"
  by (drule mset_eq_setD) (auto simp: copy_route_def)

lemma new_rules:
  assumes "mset rs = mset (map (copy_rule ids bundleIDs) (filter (\<lambda>r. bundle_in A bundles (rw_bundle r)) rules))"
    and "renames bundleIDs (bw_id ` {r \<in> set bundles. bw_revision r = A}) (bw_id ` set bundles)" "r \<in> set rs"
  shows "\<not> bundle_in A bundles (rw_bundle r)"
proof -
  obtain q where q: "bundle_in A bundles (rw_bundle q)" "r = copy_rule ids bundleIDs q"
    using assms(3) mset_eq_setD [OF assms(1)] by auto
  then have "rw_bundle q \<in> dom bundleIDs" using assms(2) by (fastforce simp: renames_def bundle_in_def image_iff)
  then have "rw_bundle r \<in> ran bundleIDs" using q(2) by (auto simp: copy_rule_def ran_def)
  then have "rw_bundle r \<notin> bw_id ` set bundles" using assms(2) unfolding renames_def by blast
  then show ?thesis unfolding bundle_in_def by (metis imageI)
qed

lemma CloneGraph_Inr:
  assumes "CloneGraph A D d0 = (Inr (bids, dids, uids), d3)" "A \<noteq> D"
    and ids: "distinct (map bw_id (tb_bundles (pg_tables d0)))" "distinct (map dw_id (tb_detectors (pg_tables d0)))"
      "distinct (map rw_id (tb_rules (pg_tables d0)))"
  shows "\<exists>bs ds us. pg_tables d3 =
      (pg_tables d0)\<lparr>tb_bundles := tb_bundles (pg_tables d0) @ bs, tb_detectors := tb_detectors (pg_tables d0) @ ds,
        tb_rules := tb_rules (pg_tables d0) @ us\<rparr> \<and>
    mset bs = mset (map (copy_bundle D bids) (filter (\<lambda>r. bw_revision r = A) (tb_bundles (pg_tables d0)))) \<and>
    mset ds = mset (map (copy_detector dids bids) (filter (\<lambda>r. bundle_in A (tb_bundles (pg_tables d0)) (dw_bundle r)) (tb_detectors (pg_tables d0)))) \<and>
    mset us = mset (map (copy_rule uids bids) (filter (\<lambda>r. bundle_in A (tb_bundles (pg_tables d0)) (rw_bundle r)) (tb_rules (pg_tables d0)))) \<and>
    renames bids (bw_id ` {r \<in> set (tb_bundles (pg_tables d0)). bw_revision r = A}) (bw_id ` set (tb_bundles (pg_tables d0))) \<and>
    renames dids (dw_id ` {r \<in> set (tb_detectors (pg_tables d0)). bundle_in A (tb_bundles (pg_tables d0)) (dw_bundle r)})
      (dw_id ` set (tb_detectors (pg_tables d0))) \<and>
    renames uids (rw_id ` {r \<in> set (tb_rules (pg_tables d0)). bundle_in A (tb_bundles (pg_tables d0)) (rw_bundle r)})
      (rw_id ` set (tb_rules (pg_tables d0))) \<and>
    distinct (map bw_id (tb_bundles (pg_tables d3))) \<and> distinct (map rw_id (tb_rules (pg_tables d3)))"
proof -
  obtain d1 d2 where b: "clonePolicyBundles A D d0 = (Inr bids, d1)" and d: "clonePolicyDetectors A bids d1 = (Inr dids, d2)"
    and u: "clonePolicyRules A bids d2 = (Inr uids, d3)"
    using assms(1) by (auto simp: CloneGraph_def effect_Inr)
  let ?T = "pg_tables d0"
  obtain bs where bs: "pg_tables d1 = tb_bundles_update (\<lambda>rs. rs @ bs) ?T"
    "mset bs = mset (map (copy_bundle D bids) (filter (\<lambda>r. bw_revision r = A) (tb_bundles ?T)))"
    "renames bids (bw_id ` {r \<in> set (tb_bundles ?T). bw_revision r = A}) (bw_id ` set (tb_bundles ?T))"
    "distinct (map bw_id (tb_bundles (pg_tables d1)))"
    using clonePolicyBundles_Inr [OF b] ids by blast
  have own: "bundle_in A (tb_bundles (pg_tables d1)) = bundle_in A (tb_bundles ?T)"
    using bundle_in_new [of bs A "tb_bundles ?T"] new_bundles [OF bs(2)] assms(2) bs(1) by simp
  obtain ds where ds: "pg_tables d2 = tb_detectors_update (\<lambda>rs. rs @ ds) (pg_tables d1)"
    "mset ds = mset (map (copy_detector dids bids) (filter (\<lambda>r. bundle_in A (tb_bundles ?T) (dw_bundle r)) (tb_detectors ?T)))"
    "renames dids (dw_id ` {r \<in> set (tb_detectors ?T). bundle_in A (tb_bundles ?T) (dw_bundle r)}) (dw_id ` set (tb_detectors ?T))"
    using clonePolicyDetectors_Inr [OF d] ids bs(4) unfolding own by (auto simp: bs(1))
  have own2: "bundle_in A (tb_bundles (pg_tables d2)) = bundle_in A (tb_bundles ?T)" using own by (simp add: ds(1))
  obtain us where us: "pg_tables d3 = tb_rules_update (\<lambda>rs. rs @ us) (pg_tables d2)"
    "mset us = mset (map (copy_rule uids bids) (filter (\<lambda>r. bundle_in A (tb_bundles ?T) (rw_bundle r)) (tb_rules ?T)))"
    "renames uids (rw_id ` {r \<in> set (tb_rules ?T). bundle_in A (tb_bundles ?T) (rw_bundle r)}) (rw_id ` set (tb_rules ?T))"
    "distinct (map rw_id (tb_rules (pg_tables d3)))"
    using clonePolicyRules_Inr [OF u] ids bs(4) unfolding own2 by (auto simp: bs(1) ds(1))
  from bs ds us show ?thesis by (intro exI [of _ bs] exI [of _ ds] exI [of _ us] conjI) simp_all
qed

lemma CloneGatewayRecords_Inr:
  assumes "CloneGatewayRecords A D rids d0 = (Inr u, d2)"
  shows "\<exists>ls cs. pg_tables d2 =
      (pg_tables d0)\<lparr>tb_route_limits := tb_route_limits (pg_tables d0) @ ls, tb_client_limits := tb_client_limits (pg_tables d0) @ cs\<rparr> \<and>
    mset (map (\<lambda>r. r\<lparr>rpr_ID := []\<rparr>) ls) = mset (map (copy_route_limit D rids) (filter (\<lambda>r. rpr_revision r = A) (tb_route_limits (pg_tables d0)))) \<and>
    mset (map (\<lambda>r. r\<lparr>cor_ID := []\<rparr>) cs) = mset (map (copy_client_limit D rids) (filter (\<lambda>r. cor_revision r = A) (tb_client_limits (pg_tables d0))))"
proof -
  obtain u1 d1 where one: "CloneRoutePolicies A D rids d0 = (Inr u1, d1)" and two: "CloneClientRouteOverrides A D rids d1 = (Inr u, d2)"
    using assms by (auto simp: CloneGatewayRecords_def effect_Inr)
  obtain ls where "pg_tables d1 = tb_route_limits_update (\<lambda>rs. rs @ ls) (pg_tables d0)"
    "mset (map (\<lambda>r. r\<lparr>rpr_ID := []\<rparr>) ls) = mset (map (copy_route_limit D rids) (filter (\<lambda>r. rpr_revision r = A) (tb_route_limits (pg_tables d0))))"
    using CloneRoutePolicies_Inr [OF one] by blast
  moreover obtain cs where "pg_tables d2 = tb_client_limits_update (\<lambda>rs. rs @ cs) (pg_tables d1)"
    "mset (map (\<lambda>r. r\<lparr>cor_ID := []\<rparr>) cs) = mset (map (copy_client_limit D rids) (filter (\<lambda>r. cor_revision r = A) (tb_client_limits (pg_tables d1))))"
    using CloneClientRouteOverrides_Inr [OF two] by blast
  ultimately show ?thesis by (intro exI [of _ ls] exI [of _ cs] conjI) simp_all
qed

lemma clonePolicyBindings_Inr:
  assumes "clonePolicyBindings A uids dids rids pids bids vids d0 = (Inr u, d4)"
    and "distinct (map bw_id (tb_bundles (pg_tables d0)))" "distinct (map rw_id (tb_rules (pg_tables d0)))"
    and "distinct (map rtr_ID (tb_routes (pg_tables d0)))"
  shows "\<exists>xs ss ps vs. pg_tables d4 =
      (pg_tables d0)\<lparr>tb_rule_detectors := tb_rule_detectors (pg_tables d0) @ xs, tb_scopes := tb_scopes (pg_tables d0) @ ss,
        tb_policy_bindings := tb_policy_bindings (pg_tables d0) @ ps, tb_verdict_bindings := tb_verdict_bindings (pg_tables d0) @ vs\<rparr> \<and>
    mset xs = mset (map (copy_rule_detector uids dids)
      (filter (\<lambda>r. rule_in A (tb_bundles (pg_tables d0)) (tb_rules (pg_tables d0)) (rdw_rule r)) (tb_rule_detectors (pg_tables d0)))) \<and>
    mset ss = mset (map (copy_scope uids rids pids)
      (filter (\<lambda>r. rule_in A (tb_bundles (pg_tables d0)) (tb_rules (pg_tables d0)) (rsr_rule r)) (tb_scopes (pg_tables d0)))) \<and>
    mset ps = mset (map (copy_policy_binding rids bids)
      (filter (\<lambda>r. route_in A (tb_routes (pg_tables d0)) (pbw_route r)) (tb_policy_bindings (pg_tables d0)))) \<and>
    mset (map (\<lambda>r. r\<lparr>rbr_ID := []\<rparr>) vs) = mset (map (copy_verdict_binding rids vids)
      (filter (\<lambda>r. route_in A (tb_routes (pg_tables d0)) (rbr_RouteID r)) (tb_verdict_bindings (pg_tables d0))))"
proof -
  let ?T = "pg_tables d0"
  obtain u1 d1 u2 d2 u3 d3 where 1: "clonePolicyRuleDetectors A uids dids d0 = (Inr u1, d1)"
    and 2: "clonePolicyRuleScopes A uids rids pids d1 = (Inr u2, d2)" and 3: "cloneRoutePolicyBindings A rids bids d2 = (Inr u3, d3)"
    and 4: "CloneRouteVerdictProviderBindings A rids vids d3 = (Inr u, d4)"
    using assms(1) by (auto simp: clonePolicyBindings_def CloneBindings_def effect_Inr)
  obtain xs where xs: "pg_tables d1 = tb_rule_detectors_update (\<lambda>rs. rs @ xs) ?T"
    "mset xs = mset (map (copy_rule_detector uids dids) (filter (\<lambda>r. rule_in A (tb_bundles ?T) (tb_rules ?T) (rdw_rule r)) (tb_rule_detectors ?T)))"
    using clonePolicyRuleDetectors_Inr [OF 1] assms by blast
  obtain ss where ss: "pg_tables d2 = tb_scopes_update (\<lambda>rs. rs @ ss) (pg_tables d1)"
    "mset ss = mset (map (copy_scope uids rids pids) (filter (\<lambda>r. rule_in A (tb_bundles ?T) (tb_rules ?T) (rsr_rule r)) (tb_scopes ?T)))"
    using clonePolicyRuleScopes_Inr [OF 2] assms by (auto simp: xs(1))
  obtain ps where ps: "pg_tables d3 = tb_policy_bindings_update (\<lambda>rs. rs @ ps) (pg_tables d2)"
    "mset ps = mset (map (copy_policy_binding rids bids) (filter (\<lambda>r. route_in A (tb_routes ?T) (pbw_route r)) (tb_policy_bindings ?T)))"
    using cloneRoutePolicyBindings_Inr [OF 3] assms by (auto simp: xs(1) ss(1))
  obtain vs where vs: "pg_tables d4 = tb_verdict_bindings_update (\<lambda>rs. rs @ vs) (pg_tables d3)"
    "mset (map (\<lambda>r. r\<lparr>rbr_ID := []\<rparr>) vs) =
      mset (map (copy_verdict_binding rids vids) (filter (\<lambda>r. route_in A (tb_routes ?T) (rbr_RouteID r)) (tb_verdict_bindings ?T)))"
    using CloneRouteVerdictProviderBindings_Inr [OF 4] assms by (auto simp: xs(1) ss(1) ps(1))
  from xs ss ps vs show ?thesis
    by (intro exI [of _ xs] exI [of _ ss] exI [of _ ps] exI [of _ vs] conjI) simp_all
qed

lemma clone_observability:
  assumes "CloneSinks A D d0 = (Inr sids, d1)" "CloneRetentionPolicies A D sids d1 = (Inr u, d2)"
    and "CloneRawCapturePolicies A D rids d2 = (Inr u', d3)" "distinct (map skr_ID (tb_sinks (pg_tables d0)))"
  shows "\<exists>ss rs cs. pg_tables d3 =
      (pg_tables d0)\<lparr>tb_sinks := tb_sinks (pg_tables d0) @ ss, tb_retention := tb_retention (pg_tables d0) @ rs,
        tb_captures := tb_captures (pg_tables d0) @ cs\<rparr> \<and>
    mset ss = mset (map (copy_sink D sids) (filter (\<lambda>r. skr_revision r = A) (tb_sinks (pg_tables d0)))) \<and>
    mset (map (\<lambda>r. r\<lparr>ror_ID := []\<rparr>) rs) = mset (map (copy_retention D sids) (filter (\<lambda>r. ror_revision r = A) (tb_retention (pg_tables d0)))) \<and>
    mset (map (\<lambda>r. r\<lparr>rcr_ID := []\<rparr>) cs) = mset (map (copy_capture D rids) (filter (\<lambda>r. rcr_revision r = A) (tb_captures (pg_tables d0)))) \<and>
    renames sids (skr_ID ` {r \<in> set (tb_sinks (pg_tables d0)). skr_revision r = A}) (skr_ID ` set (tb_sinks (pg_tables d0)))"
proof -
  let ?T = "pg_tables d0"
  obtain ss where ss: "pg_tables d1 = tb_sinks_update (\<lambda>rs. rs @ ss) ?T"
    "mset ss = mset (map (copy_sink D sids) (filter (\<lambda>r. skr_revision r = A) (tb_sinks ?T)))"
    "renames sids (skr_ID ` {r \<in> set (tb_sinks ?T). skr_revision r = A}) (skr_ID ` set (tb_sinks ?T))"
    using CloneSinks_Inr [OF assms(1,4)] by blast
  obtain rs where rs: "pg_tables d2 = tb_retention_update (\<lambda>xs. xs @ rs) (pg_tables d1)"
    "mset (map (\<lambda>r. r\<lparr>ror_ID := []\<rparr>) rs) = mset (map (copy_retention D sids) (filter (\<lambda>r. ror_revision r = A) (tb_retention (pg_tables d1))))"
    using CloneRetentionPolicies_Inr [OF assms(2)] by blast
  obtain cs where cs: "pg_tables d3 = tb_captures_update (\<lambda>xs. xs @ cs) (pg_tables d2)"
    "mset (map (\<lambda>r. r\<lparr>rcr_ID := []\<rparr>) cs) = mset (map (copy_capture D rids) (filter (\<lambda>r. rcr_revision r = A) (tb_captures (pg_tables d2))))"
    using CloneRawCapturePolicies_Inr [OF assms(3)] by blast
  from ss rs cs show ?thesis by (intro exI [of _ ss] exI [of _ rs] exI [of _ cs] conjI) simp_all
qed

lemma clone_before_policy:
  assumes "CloneProviders A D d0 = (Inr pids, d1)" "CloneModelMappings A D pids d1 = (Inr mids, d2)" "CloneRoutes A D mids d2 = (Inr rids, d3)"
    and "CloneGatewayRecords A D rids d3 = (Inr u, d4)" "CloneVerdictProviders A D d4 = (Inr vids, d5)" "distinct_ids (pg_tables d0)"
  shows "\<exists>ps ms rs ls cs vs. pg_tables d5 =
      (pg_tables d0)\<lparr>tb_providers := tb_providers (pg_tables d0) @ ps, tb_mappings := tb_mappings (pg_tables d0) @ ms,
        tb_routes := tb_routes (pg_tables d0) @ rs, tb_route_limits := tb_route_limits (pg_tables d0) @ ls,
        tb_client_limits := tb_client_limits (pg_tables d0) @ cs, tb_verdicts := tb_verdicts (pg_tables d0) @ vs\<rparr> \<and>
    mset ps = mset (map (copy_provider D pids) (filter (\<lambda>r. pw_revision r = A) (tb_providers (pg_tables d0)))) \<and>
    mset ms = mset (map (copy_mapping D mids pids) (filter (\<lambda>r. mmr_revision r = A) (tb_mappings (pg_tables d0)))) \<and>
    mset rs = mset (map (copy_route D rids mids) (filter (\<lambda>r. rtr_revision r = A) (tb_routes (pg_tables d0)))) \<and>
    mset (map (\<lambda>r. r\<lparr>rpr_ID := []\<rparr>) ls) = mset (map (copy_route_limit D rids) (filter (\<lambda>r. rpr_revision r = A) (tb_route_limits (pg_tables d0)))) \<and>
    mset (map (\<lambda>r. r\<lparr>cor_ID := []\<rparr>) cs) = mset (map (copy_client_limit D rids) (filter (\<lambda>r. cor_revision r = A) (tb_client_limits (pg_tables d0)))) \<and>
    mset vs = mset (map (copy_verdict D vids) (filter (\<lambda>r. vw_revision r = A) (tb_verdicts (pg_tables d0)))) \<and>
    renames pids (pw_id ` {r \<in> set (tb_providers (pg_tables d0)). pw_revision r = A}) (pw_id ` set (tb_providers (pg_tables d0))) \<and>
    renames mids (mmr_ID ` {r \<in> set (tb_mappings (pg_tables d0)). mmr_revision r = A}) (mmr_ID ` set (tb_mappings (pg_tables d0))) \<and>
    renames rids (rtr_ID ` {r \<in> set (tb_routes (pg_tables d0)). rtr_revision r = A}) (rtr_ID ` set (tb_routes (pg_tables d0))) \<and>
    renames vids (vw_id ` {r \<in> set (tb_verdicts (pg_tables d0)). vw_revision r = A}) (vw_id ` set (tb_verdicts (pg_tables d0))) \<and>
    distinct (map rtr_ID (tb_routes (pg_tables d5)))"
proof -
  note ids = assms(6) [unfolded distinct_ids_def]
  obtain ps ms rs where T3: "pg_tables d3 = (pg_tables d0)\<lparr>tb_providers := tb_providers (pg_tables d0) @ ps,
      tb_mappings := tb_mappings (pg_tables d0) @ ms, tb_routes := tb_routes (pg_tables d0) @ rs\<rparr>"
    and routing: "mset ps = mset (map (copy_provider D pids) (filter (\<lambda>r. pw_revision r = A) (tb_providers (pg_tables d0))))"
      "mset ms = mset (map (copy_mapping D mids pids) (filter (\<lambda>r. mmr_revision r = A) (tb_mappings (pg_tables d0))))"
      "mset rs = mset (map (copy_route D rids mids) (filter (\<lambda>r. rtr_revision r = A) (tb_routes (pg_tables d0))))"
      "renames pids (pw_id ` {r \<in> set (tb_providers (pg_tables d0)). pw_revision r = A}) (pw_id ` set (tb_providers (pg_tables d0)))"
      "renames mids (mmr_ID ` {r \<in> set (tb_mappings (pg_tables d0)). mmr_revision r = A}) (mmr_ID ` set (tb_mappings (pg_tables d0)))"
      "renames rids (rtr_ID ` {r \<in> set (tb_routes (pg_tables d0)). rtr_revision r = A}) (rtr_ID ` set (tb_routes (pg_tables d0)))"
      "distinct (map rtr_ID (tb_routes (pg_tables d3)))"
    using clone_routing [OF assms(1-3,6)] by blast
  obtain ls cs where T4: "pg_tables d4 = (pg_tables d3)\<lparr>tb_route_limits := tb_route_limits (pg_tables d3) @ ls,
      tb_client_limits := tb_client_limits (pg_tables d3) @ cs\<rparr>"
    and limits: "mset (map (\<lambda>r. r\<lparr>rpr_ID := []\<rparr>) ls) = mset (map (copy_route_limit D rids) (filter (\<lambda>r. rpr_revision r = A) (tb_route_limits (pg_tables d3))))"
      "mset (map (\<lambda>r. r\<lparr>cor_ID := []\<rparr>) cs) = mset (map (copy_client_limit D rids) (filter (\<lambda>r. cor_revision r = A) (tb_client_limits (pg_tables d3))))"
    using CloneGatewayRecords_Inr [OF assms(4)] by blast
  obtain vs where vs: "pg_tables d5 = tb_verdicts_update (\<lambda>rs. rs @ vs) (pg_tables d4)"
    "mset vs = mset (map (copy_verdict D vids) (filter (\<lambda>r. vw_revision r = A) (tb_verdicts (pg_tables d4))))"
    "renames vids (vw_id ` {r \<in> set (tb_verdicts (pg_tables d4)). vw_revision r = A}) (vw_id ` set (tb_verdicts (pg_tables d4)))"
    using CloneVerdictProviders_Inr [OF assms(5)] ids T3 T4 by auto
  from T3 routing T4 limits vs show ?thesis
    by (intro exI [of _ ps] exI [of _ ms] exI [of _ rs] exI [of _ ls] exI [of _ cs] exI [of _ vs] conjI) simp_all
qed

lemma clone_copies:
  assumes "cloneActiveRevisionAsDraft A D d = (Inr u, d')" "distinct_ids (pg_tables d)" "A \<noteq> D"
  shows "\<exists>M. new_uuids A (pg_tables d) M \<and> copied A D M (pg_tables d) (pg_tables d')"
proof -
  let ?T = "pg_tables d"
  obtain pids d1 mids d2 rids d3 u4 d4 vids d5 bids dids uids d6 u7 d7 sids d8 u9 d9
    where steps: "CloneProviders A D d = (Inr pids, d1)" "CloneModelMappings A D pids d1 = (Inr mids, d2)" "CloneRoutes A D mids d2 = (Inr rids, d3)"
      "CloneGatewayRecords A D rids d3 = (Inr u4, d4)" "CloneVerdictProviders A D d4 = (Inr vids, d5)"
    and graph: "CloneGraph A D d5 = (Inr (bids, dids, uids), d6)" and binds: "clonePolicyBindings A uids dids rids pids bids vids d6 = (Inr u7, d7)"
    and obs: "CloneSinks A D d7 = (Inr sids, d8)" "CloneRetentionPolicies A D sids d8 = (Inr u9, d9)" "CloneRawCapturePolicies A D rids d9 = (Inr u, d')"
    using assms(1) by (auto simp: cloneActiveRevisionAsDraft_def effect_Inr)
  from clone_before_policy [OF steps assms(2)] obtain ps ms rs ls cs vs where T5: "pg_tables d5 =
      ?T\<lparr>tb_providers := tb_providers ?T @ ps, tb_mappings := tb_mappings ?T @ ms, tb_routes := tb_routes ?T @ rs,
        tb_route_limits := tb_route_limits ?T @ ls, tb_client_limits := tb_client_limits ?T @ cs, tb_verdicts := tb_verdicts ?T @ vs\<rparr>"
    and rs: "mset rs = mset (map (copy_route D rids mids) (filter (\<lambda>r. rtr_revision r = A) (tb_routes ?T)))"
    and before: "mset ps = mset (map (copy_provider D pids) (filter (\<lambda>r. pw_revision r = A) (tb_providers ?T)))"
      "mset ms = mset (map (copy_mapping D mids pids) (filter (\<lambda>r. mmr_revision r = A) (tb_mappings ?T)))"
      "mset (map (\<lambda>r. r\<lparr>rpr_ID := []\<rparr>) ls) = mset (map (copy_route_limit D rids) (filter (\<lambda>r. rpr_revision r = A) (tb_route_limits ?T)))"
      "mset (map (\<lambda>r. r\<lparr>cor_ID := []\<rparr>) cs) = mset (map (copy_client_limit D rids) (filter (\<lambda>r. cor_revision r = A) (tb_client_limits ?T)))"
      "mset vs = mset (map (copy_verdict D vids) (filter (\<lambda>r. vw_revision r = A) (tb_verdicts ?T)))"
      "renames pids (pw_id ` {r \<in> set (tb_providers ?T). pw_revision r = A}) (pw_id ` set (tb_providers ?T))"
      "renames mids (mmr_ID ` {r \<in> set (tb_mappings ?T). mmr_revision r = A}) (mmr_ID ` set (tb_mappings ?T))"
      "renames rids (rtr_ID ` {r \<in> set (tb_routes ?T). rtr_revision r = A}) (rtr_ID ` set (tb_routes ?T))"
      "renames vids (vw_id ` {r \<in> set (tb_verdicts ?T). vw_revision r = A}) (vw_id ` set (tb_verdicts ?T))"
    and routes: "distinct (map rtr_ID (tb_routes (pg_tables d5)))" by blast
  have same5: "tb_bundles (pg_tables d5) = tb_bundles ?T" "tb_detectors (pg_tables d5) = tb_detectors ?T" "tb_rules (pg_tables d5) = tb_rules ?T"
    by (simp_all add: T5)
  have keys5: "distinct (map bw_id (tb_bundles (pg_tables d5)))" "distinct (map dw_id (tb_detectors (pg_tables d5)))"
    "distinct (map rw_id (tb_rules (pg_tables d5)))"
    using assms(2) unfolding distinct_ids_def same5 by blast+
  obtain bs ds us where T6: "pg_tables d6 =
      (pg_tables d5)\<lparr>tb_bundles := tb_bundles ?T @ bs, tb_detectors := tb_detectors ?T @ ds, tb_rules := tb_rules ?T @ us\<rparr>"
    and bs: "mset bs = mset (map (copy_bundle D bids) (filter (\<lambda>r. bw_revision r = A) (tb_bundles ?T)))"
    and ds: "mset ds = mset (map (copy_detector dids bids) (filter (\<lambda>r. bundle_in A (tb_bundles ?T) (dw_bundle r)) (tb_detectors ?T)))"
    and us: "mset us = mset (map (copy_rule uids bids) (filter (\<lambda>r. bundle_in A (tb_bundles ?T) (rw_bundle r)) (tb_rules ?T)))"
    and bids: "renames bids (bw_id ` {r \<in> set (tb_bundles ?T). bw_revision r = A}) (bw_id ` set (tb_bundles ?T))"
    and gids: "renames dids (dw_id ` {r \<in> set (tb_detectors ?T). bundle_in A (tb_bundles ?T) (dw_bundle r)}) (dw_id ` set (tb_detectors ?T))"
      "renames uids (rw_id ` {r \<in> set (tb_rules ?T). bundle_in A (tb_bundles ?T) (rw_bundle r)}) (rw_id ` set (tb_rules ?T))"
    and keys: "distinct (map bw_id (tb_bundles (pg_tables d6)))" "distinct (map rw_id (tb_rules (pg_tables d6)))"
    using CloneGraph_Inr [OF graph assms(3) keys5] unfolding same5 by blast
  have own: "route_in A (tb_routes ?T @ rs) = route_in A (tb_routes ?T)" "bundle_in A (tb_bundles ?T @ bs) = bundle_in A (tb_bundles ?T)"
    using route_in_new [of rs A "tb_routes ?T"] bundle_in_new [of bs A "tb_bundles ?T"] new_routes [OF rs] new_bundles [OF bs] assms(3) by auto
  have "rule_in A (tb_bundles ?T) (tb_rules ?T @ us) = rule_in A (tb_bundles ?T) (tb_rules ?T)"
    using rule_in_new new_rules [OF us bids] by blast
  then have own_rule: "rule_in A (tb_bundles ?T @ bs) (tb_rules ?T @ us) = rule_in A (tb_bundles ?T) (tb_rules ?T)"
    unfolding rule_in_def own .
  have routes6: "distinct (map rtr_ID (tb_routes (pg_tables d6)))" using routes by (simp add: T6)
  obtain xs ss bps vbs where T7: "pg_tables d7 =
      (pg_tables d6)\<lparr>tb_rule_detectors := tb_rule_detectors ?T @ xs, tb_scopes := tb_scopes ?T @ ss,
        tb_policy_bindings := tb_policy_bindings ?T @ bps, tb_verdict_bindings := tb_verdict_bindings ?T @ vbs\<rparr>"
    and bound: "mset xs = mset (map (copy_rule_detector uids dids) (filter (\<lambda>r. rule_in A (tb_bundles ?T) (tb_rules ?T) (rdw_rule r)) (tb_rule_detectors ?T)))"
      "mset ss = mset (map (copy_scope uids rids pids) (filter (\<lambda>r. rule_in A (tb_bundles ?T) (tb_rules ?T) (rsr_rule r)) (tb_scopes ?T)))"
      "mset bps = mset (map (copy_policy_binding rids bids) (filter (\<lambda>r. route_in A (tb_routes ?T) (pbw_route r)) (tb_policy_bindings ?T)))"
      "mset (map (\<lambda>r. r\<lparr>rbr_ID := []\<rparr>) vbs) =
        mset (map (copy_verdict_binding rids vids) (filter (\<lambda>r. route_in A (tb_routes ?T) (rbr_RouteID r)) (tb_verdict_bindings ?T)))"
    using clonePolicyBindings_Inr [OF binds keys routes6] by (auto simp: T6 T5 own own_rule)
  obtain sks rts cps where T10: "pg_tables d' =
      (pg_tables d7)\<lparr>tb_sinks := tb_sinks ?T @ sks, tb_retention := tb_retention ?T @ rts, tb_captures := tb_captures ?T @ cps\<rparr>"
    and seen: "mset sks = mset (map (copy_sink D sids) (filter (\<lambda>r. skr_revision r = A) (tb_sinks ?T)))"
      "mset (map (\<lambda>r. r\<lparr>ror_ID := []\<rparr>) rts) = mset (map (copy_retention D sids) (filter (\<lambda>r. ror_revision r = A) (tb_retention ?T)))"
      "mset (map (\<lambda>r. r\<lparr>rcr_ID := []\<rparr>) cps) = mset (map (copy_capture D rids) (filter (\<lambda>r. rcr_revision r = A) (tb_captures ?T)))"
      "renames sids (skr_ID ` {r \<in> set (tb_sinks ?T). skr_revision r = A}) (skr_ID ` set (tb_sinks ?T))"
    using clone_observability [OF obs] assms(2) by (auto simp: distinct_ids_def T7 T6 T5)
  let ?M = "\<lparr>cm_providers = pids, cm_mappings = mids, cm_routes = rids, cm_verdicts = vids, cm_bundles = bids, cm_detectors = dids,
    cm_rules = uids, cm_sinks = sids\<rparr>"
  note T' = T10 [unfolded T7 T6 T5]
  have "new_uuids A ?T ?M" using before bids gids seen by (simp add: new_uuids_def)
  moreover have "copied_routing A D ?M ?T (pg_tables d')"
    unfolding copied_routing_def T' using before rs bound by (intro conjI added_intro) simp_all
  moreover have "copied_policy A D ?M ?T (pg_tables d')"
    unfolding copied_policy_def T' using bs ds us bound by (intro conjI added_intro) simp_all
  moreover have "copied_limits A D ?M ?T (pg_tables d')"
    unfolding copied_limits_def T' using before by (intro conjI added_intro) simp_all
  moreover have "copied_observability A D ?M ?T (pg_tables d')"
    unfolding copied_observability_def T' using seen by (intro conjI added_intro) simp_all
  ultimately show ?thesis by (auto simp: copied_def same_elsewhere_def T')
qed

end
