(* ===== verification/Store_Edits.thy ===== *)
theory Store_Edits
  imports Store_Clone
begin

text \<open>
  What an edit of the configuration leaves alone: the rows of every revision but the draft, of every table, and the
  integrity of the store.
\<close>

section \<open>The rows of other revisions\<close>

definition outside_bundle :: "uuid \<Rightarrow> bundle_row list \<Rightarrow> uuid \<Rightarrow> bool" where
  "outside_bundle D bundles k \<longleftrightarrow> (\<exists>b \<in> set bundles. bw_id b = k \<and> bw_revision b \<noteq> D)"

definition outside_rule :: "uuid \<Rightarrow> tables \<Rightarrow> uuid \<Rightarrow> bool" where
  "outside_rule D T k \<longleftrightarrow> (\<exists>r \<in> set (tb_rules T). rw_id r = k \<and> outside_bundle D (tb_bundles T) (rw_bundle r))"

definition outside_route :: "uuid \<Rightarrow> tables \<Rightarrow> uuid \<Rightarrow> bool" where
  "outside_route D T k \<longleftrightarrow> (\<exists>r \<in> set (tb_routes T). rtr_ID r = k \<and> rtr_revision r \<noteq> D)"

definition same_routing :: "uuid \<Rightarrow> tables \<Rightarrow> tables \<Rightarrow> bool" where
  "same_routing D T T' \<longleftrightarrow>
     filter (\<lambda>r. rtr_revision r \<noteq> D) (tb_routes T') = filter (\<lambda>r. rtr_revision r \<noteq> D) (tb_routes T) \<and>
     filter (\<lambda>r. pw_revision r \<noteq> D) (tb_providers T') = filter (\<lambda>r. pw_revision r \<noteq> D) (tb_providers T) \<and>
     filter (\<lambda>r. mmr_revision r \<noteq> D) (tb_mappings T') = filter (\<lambda>r. mmr_revision r \<noteq> D) (tb_mappings T) \<and>
     filter (\<lambda>r. vw_revision r \<noteq> D) (tb_verdicts T') = filter (\<lambda>r. vw_revision r \<noteq> D) (tb_verdicts T) \<and>
     filter (\<lambda>r. outside_route D T (rbr_RouteID r)) (tb_verdict_bindings T') =
       filter (\<lambda>r. outside_route D T (rbr_RouteID r)) (tb_verdict_bindings T)"

definition same_policy :: "uuid \<Rightarrow> tables \<Rightarrow> tables \<Rightarrow> bool" where
  "same_policy D T T' \<longleftrightarrow>
     filter (\<lambda>r. bw_revision r \<noteq> D) (tb_bundles T') = filter (\<lambda>r. bw_revision r \<noteq> D) (tb_bundles T) \<and>
     filter (\<lambda>r. outside_bundle D (tb_bundles T) (dw_bundle r)) (tb_detectors T') =
       filter (\<lambda>r. outside_bundle D (tb_bundles T) (dw_bundle r)) (tb_detectors T) \<and>
     filter (\<lambda>r. outside_bundle D (tb_bundles T) (rw_bundle r)) (tb_rules T') =
       filter (\<lambda>r. outside_bundle D (tb_bundles T) (rw_bundle r)) (tb_rules T) \<and>
     filter (\<lambda>r. outside_rule D T (rdw_rule r)) (tb_rule_detectors T') = filter (\<lambda>r. outside_rule D T (rdw_rule r)) (tb_rule_detectors T) \<and>
     filter (\<lambda>r. outside_rule D T (rsr_rule r)) (tb_scopes T') = filter (\<lambda>r. outside_rule D T (rsr_rule r)) (tb_scopes T) \<and>
     filter (\<lambda>r. outside_route D T (pbw_route r)) (tb_policy_bindings T') =
       filter (\<lambda>r. outside_route D T (pbw_route r)) (tb_policy_bindings T)"

definition same_limits_and_sinks :: "uuid \<Rightarrow> tables \<Rightarrow> tables \<Rightarrow> bool" where
  "same_limits_and_sinks D T T' \<longleftrightarrow>
     filter (\<lambda>r. rpr_revision r \<noteq> D) (tb_route_limits T') = filter (\<lambda>r. rpr_revision r \<noteq> D) (tb_route_limits T) \<and>
     filter (\<lambda>r. cor_revision r \<noteq> D) (tb_client_limits T') = filter (\<lambda>r. cor_revision r \<noteq> D) (tb_client_limits T) \<and>
     filter (\<lambda>r. skr_revision r \<noteq> D) (tb_sinks T') = filter (\<lambda>r. skr_revision r \<noteq> D) (tb_sinks T) \<and>
     filter (\<lambda>r. ror_revision r \<noteq> D) (tb_retention T') = filter (\<lambda>r. ror_revision r \<noteq> D) (tb_retention T) \<and>
     filter (\<lambda>r. rcr_revision r \<noteq> D) (tb_captures T') = filter (\<lambda>r. rcr_revision r \<noteq> D) (tb_captures T)"

definition same_revisions :: "uuid \<Rightarrow> tables \<Rightarrow> tables \<Rightarrow> bool" where
  "same_revisions D T T' \<longleftrightarrow>
     filter (\<lambda>r. vn_id r \<noteq> D) (tb_revisions T') = filter (\<lambda>r. vn_id r \<noteq> D) (tb_revisions T) \<and>
     tb_generation T' = tb_generation T \<and> tb_clients T' = tb_clients T \<and> tb_snapshots T' = tb_snapshots T \<and>
     tb_activations T' = tb_activations T \<and> tb_notifications T' = tb_notifications T"

definition same_outside :: "uuid \<Rightarrow> tables \<Rightarrow> tables \<Rightarrow> bool" where
  "same_outside D T T' \<longleftrightarrow> same_routing D T T' \<and> same_policy D T T' \<and> same_limits_and_sinks D T T' \<and> same_revisions D T T'"

lemmas same_defs = same_outside_def same_routing_def same_policy_def same_limits_and_sinks_def same_revisions_def

lemma same_outside_refl [simp]: "same_outside D T T"
  by (simp add: same_defs)

lemma filter_set_cong: "filter P xs = filter P ys \<Longrightarrow> {x \<in> set xs. P x} = {x \<in> set ys. P x}"
  by (metis set_filter)

lemma outside_cong:
  assumes "same_outside D T T'"
  shows "outside_bundle D (tb_bundles T') = outside_bundle D (tb_bundles T)" "outside_rule D T' = outside_rule D T"
    "outside_route D T' = outside_route D T"
proof -
  note filtered = assms [unfolded same_defs]
  have b: "{r \<in> set (tb_bundles T'). bw_revision r \<noteq> D} = {r \<in> set (tb_bundles T). bw_revision r \<noteq> D}"
    using filtered by (intro filter_set_cong) blast
  show bundles: "outside_bundle D (tb_bundles T') = outside_bundle D (tb_bundles T)"
    unfolding outside_bundle_def using b by blast
  have r: "{r \<in> set (tb_rules T'). outside_bundle D (tb_bundles T) (rw_bundle r)} = {r \<in> set (tb_rules T). outside_bundle D (tb_bundles T) (rw_bundle r)}"
    using filtered by (intro filter_set_cong) blast
  show "outside_rule D T' = outside_rule D T" unfolding outside_rule_def bundles using r by blast
  have t: "{r \<in> set (tb_routes T'). rtr_revision r \<noteq> D} = {r \<in> set (tb_routes T). rtr_revision r \<noteq> D}"
    using filtered by (intro filter_set_cong) blast
  show "outside_route D T' = outside_route D T" unfolding outside_route_def using t by blast
qed

lemma same_outside_trans:
  assumes "same_outside D T T'" "same_outside D T' T''"
  shows "same_outside D T T''"
  using assms(2) assms(1) outside_cong [OF assms(1)] unfolding same_defs by simp

section \<open>The integrity of the store\<close>

text \<open>Primary keys, and the foreign keys of the link of a rule and a detector, which are of one bundle.\<close>

definition linked :: "tables \<Rightarrow> bool" where
  "linked T \<longleftrightarrow> (\<forall>x \<in> set (tb_rule_detectors T). \<exists>r \<in> set (tb_rules T). \<exists>t \<in> set (tb_detectors T).
     rw_id r = rdw_rule x \<and> dw_id t = rdw_detector x \<and> rw_bundle r = dw_bundle t)"

definition store_ok :: "tables \<Rightarrow> bool" where
  "store_ok T \<longleftrightarrow> distinct (map vn_id (tb_revisions T)) \<and> distinct_ids T \<and> linked T"

text \<open>A step of an edit of the draft.\<close>

definition edits :: "uuid \<Rightarrow> tables \<Rightarrow> tables \<Rightarrow> bool" where
  "edits D T T' \<longleftrightarrow> (store_ok T \<longrightarrow> store_ok T' \<and> same_outside D T T' \<and> tb_revisions T' = tb_revisions T)"

lemma edits_trans: "edits D T T' \<Longrightarrow> edits D T' T'' \<Longrightarrow> edits D T T''"
  using same_outside_trans by (auto simp: edits_def)

lemma edits_refl [simp]: "edits D T T"
  by (simp add: edits_def)

section \<open>Single tables\<close>

lemma UpsertModelMapping_rows:
  assumes "UpsertModelMapping D mapping d = (Inr u, d')" "distinct (map mmr_ID (tb_mappings (pg_tables d)))"
  shows "\<exists>rows. pg_tables d' = tb_mappings_update (\<lambda>_. rows) (pg_tables d) \<and>
    filter (\<lambda>r. mmr_revision r \<noteq> D) rows = filter (\<lambda>r. mmr_revision r \<noteq> D) (tb_mappings (pg_tables d)) \<and> distinct (map mmr_ID rows)"
  by (insert assms(1) [unfolded UpsertModelMapping_def Let_def effect_Inr], elim exE conjE, drule mappings.upsert_outside [where P = "\<lambda>r. mmr_revision r = D"])
    (auto simp: assms(2) ModelMappingRecord.defs mapping_row.defs mapping_clash_def)

lemma UpsertVerdictProvider_rows:
  assumes "UpsertVerdictProvider D provider d = (Inr u, d')" "distinct (map vw_id (tb_verdicts (pg_tables d)))"
  shows "\<exists>rows. pg_tables d' = tb_verdicts_update (\<lambda>_. rows) (pg_tables d) \<and>
    filter (\<lambda>r. vw_revision r \<noteq> D) rows = filter (\<lambda>r. vw_revision r \<noteq> D) (tb_verdicts (pg_tables d)) \<and> distinct (map vw_id rows)"
  by (insert assms(1) [unfolded UpsertVerdictProvider_def Let_def effect_Inr], elim exE conjE, drule verdicts.upsert_outside [where P = "\<lambda>r. vw_revision r = D"])
    (auto simp: assms(2) verdict_clash_def)

text \<open>Limits have no key anyone refers to.\<close>

lemma UpsertRoutePolicy_rows:
  assumes "UpsertRoutePolicy D policy d = (Inr u, d')"
  shows "\<exists>rows. pg_tables d' = tb_route_limits_update (\<lambda>_. rows) (pg_tables d) \<and>
    filter (\<lambda>r. rpr_revision r \<noteq> D) rows = filter (\<lambda>r. rpr_revision r \<noteq> D) (tb_route_limits (pg_tables d))"
  by (insert assms [unfolded UpsertRoutePolicy_def Let_def effect_Inr], elim exE conjE, drule route_limits.upsert_rows [where P = "\<lambda>r. rpr_revision r = D"], auto)

lemma UpsertClientRouteOverride_rows:
  assumes "UpsertClientRouteOverride D override d = (Inr u, d')"
  shows "\<exists>rows. pg_tables d' = tb_client_limits_update (\<lambda>_. rows) (pg_tables d) \<and>
    filter (\<lambda>r. cor_revision r \<noteq> D) rows = filter (\<lambda>r. cor_revision r \<noteq> D) (tb_client_limits (pg_tables d))"
  by (insert assms [unfolded UpsertClientRouteOverride_def Let_def effect_Inr], elim exE conjE, drule client_limits.upsert_rows [where P = "\<lambda>r. cor_revision r = D"], auto)

lemma DeleteClientRouteOverride_rows:
  assumes "DeleteClientRouteOverride D clientID routeID d = (Inr u, d')"
  shows "\<exists>rows. pg_tables d' = tb_client_limits_update (\<lambda>_. rows) (pg_tables d) \<and>
    filter (\<lambda>r. cor_revision r \<noteq> D) rows = filter (\<lambda>r. cor_revision r \<noteq> D) (tb_client_limits (pg_tables d))"
proof -
  have "pg_tables d' = tb_client_limits_update
      (filter (\<lambda>r. \<not> (cor_revision r = D \<and> cor_ClientID r = clientID \<and> cor_RouteID r = routeID))) (pg_tables d)"
    using run_statement_Inr [OF assms [unfolded DeleteClientRouteOverride_def]] by auto
  then show ?thesis
    by (intro exI [of _ "filter (\<lambda>r. \<not> (cor_revision r = D \<and> cor_ClientID r = clientID \<and> cor_RouteID r = routeID)) (tb_client_limits (pg_tables d))"])
      (auto intro!: filter_cong)
qed

lemmas outside_defs = store_ok_def distinct_ids_def linked_def same_defs outside_rule_def outside_route_def

lemma table_edits:
  "UpsertModelMapping D mapping d = (Inr u, d') \<Longrightarrow> edits D (pg_tables d) (pg_tables d')"
  "UpsertVerdictProvider D provider d = (Inr u, d') \<Longrightarrow> edits D (pg_tables d) (pg_tables d')"
  "UpsertRoutePolicy D policy d = (Inr u, d') \<Longrightarrow> edits D (pg_tables d) (pg_tables d')"
  "UpsertClientRouteOverride D override d = (Inr u, d') \<Longrightarrow> edits D (pg_tables d) (pg_tables d')"
  "DeleteClientRouteOverride D clientID routeID d = (Inr u, d') \<Longrightarrow> edits D (pg_tables d) (pg_tables d')"
  unfolding edits_def
  by (auto simp: outside_defs dest!: UpsertModelMapping_rows UpsertVerdictProvider_rows UpsertRoutePolicy_rows
      UpsertClientRouteOverride_rows DeleteClientRouteOverride_rows)

section \<open>A policy bundle\<close>

definition own :: "uuid \<Rightarrow> uuid \<Rightarrow> tables \<Rightarrow> bool" where
  "own D k T \<longleftrightarrow> (\<exists>b \<in> set (tb_bundles T). bw_id b = k \<and> bw_revision b = D)"

text \<open>A step inside the bundle \<open>k\<close> of the draft.\<close>

definition inside :: "uuid \<Rightarrow> uuid \<Rightarrow> tables \<Rightarrow> tables \<Rightarrow> bool" where
  "inside D k T T' \<longleftrightarrow> (store_ok T \<and> own D k T \<longrightarrow> store_ok T' \<and> own D k T' \<and> same_outside D T T' \<and> tb_revisions T' = tb_revisions T)"

lemma inside_refl [simp]: "inside D k T T"
  by (simp add: inside_def)

lemma inside_trans: "inside D k T T' \<Longrightarrow> inside D k T' T'' \<Longrightarrow> inside D k T T''"
  using same_outside_trans by (auto simp: inside_def)

lemma distinct_key: "distinct (map f xs) \<Longrightarrow> x \<in> set xs \<Longrightarrow> y \<in> set xs \<Longrightarrow> f x = f y \<Longrightarrow> x = y"
  by (auto simp: distinct_map inj_on_def)

lemma own_not_outside: "store_ok T \<Longrightarrow> own D k T \<Longrightarrow> \<not> outside_bundle D (tb_bundles T) k"
  unfolding own_def outside_bundle_def store_ok_def distinct_ids_def by (metis distinct_key)

lemma own_rule_not_outside:
  "store_ok T \<Longrightarrow> own D k T \<Longrightarrow> r \<in> set (tb_rules T) \<Longrightarrow> rw_bundle r = k \<Longrightarrow> \<not> outside_rule D T (rw_id r)"
  using own_not_outside unfolding outside_rule_def store_ok_def distinct_ids_def by (metis distinct_key)

lemma upsert_bundle_row_inside:
  assumes "upsert_bundle_row D bundle d = (Inr k, d')" "store_ok (pg_tables d)"
  shows "store_ok (pg_tables d') \<and> own D k (pg_tables d') \<and> same_outside D (pg_tables d) (pg_tables d') \<and>
    tb_revisions (pg_tables d') = tb_revisions (pg_tables d)"
proof -
  have keys: "distinct (map bw_id (tb_bundles (pg_tables d)))" using assms(2) by (simp add: store_ok_def distinct_ids_def)
  have "\<exists>rows. pg_tables d' = tb_bundles_update (\<lambda>_. rows) (pg_tables d) \<and>
    filter (\<lambda>r. bw_revision r \<noteq> D) rows = filter (\<lambda>r. bw_revision r \<noteq> D) (tb_bundles (pg_tables d)) \<and> distinct (map bw_id rows) \<and>
    (\<exists>r \<in> set rows. bw_id r = k \<and> bw_revision r = D) \<and> bw_id ` set (tb_bundles (pg_tables d)) \<subseteq> bw_id ` set rows"
    by (rule bundles.upsert_outside [OF assms(1) [unfolded upsert_bundle_row_def]]) (auto simp: bundle_clash_def keys)
  then show ?thesis using assms(2) by (auto simp: outside_defs own_def)
qed

lemma delete_detectors_inside: "inside D k T (delete_detectors k T)"
  unfolding inside_def
proof (intro impI, elim conjE)
  assume ok: "store_ok T" and k: "own D k T"
  let ?gone = "dw_id ` {t \<in> set (tb_detectors T). dw_bundle t = k}"
  have T': "delete_detectors k T = T\<lparr>tb_detectors := filter (\<lambda>r. dw_bundle r \<noteq> k) (tb_detectors T),
      tb_rule_detectors := filter (\<lambda>r. rdw_detector r \<notin> ?gone) (tb_rule_detectors T)\<rparr>"
    by (simp add: delete_detectors_def Let_def)
  have stays: "t \<in> set (tb_detectors T) \<Longrightarrow> dw_id t \<notin> ?gone \<longleftrightarrow> dw_bundle t \<noteq> k" for t
    using ok by (auto simp: store_ok_def distinct_ids_def dest: distinct_key)
  have link: "\<exists>r \<in> set (tb_rules T). \<exists>t \<in> set (tb_detectors T). rw_id r = rdw_rule x \<and> dw_id t = rdw_detector x \<and> rw_bundle r = dw_bundle t"
    if "x \<in> set (tb_rule_detectors T)" for x using ok that by (simp add: store_ok_def linked_def)
  have other: "rdw_detector x \<notin> ?gone" if x: "x \<in> set (tb_rule_detectors T)" and "outside_rule D T (rdw_rule x)" for x
  proof -
    obtain r t where rt: "r \<in> set (tb_rules T)" "t \<in> set (tb_detectors T)" "rw_id r = rdw_rule x" "dw_id t = rdw_detector x" "rw_bundle r = dw_bundle t"
      using link [OF x] by blast
    then have "dw_bundle t \<noteq> k" using own_rule_not_outside [OF ok k rt(1)] that(2) by auto
    then show ?thesis using stays [OF rt(2)] rt(4) by simp
  qed
  have "linked (delete_detectors k T)"
    unfolding linked_def
  proof
    fix x assume "x \<in> set (tb_rule_detectors (delete_detectors k T))"
    then have x: "x \<in> set (tb_rule_detectors T)" "rdw_detector x \<notin> ?gone" by (auto simp: T')
    obtain r t where rt: "r \<in> set (tb_rules T)" "t \<in> set (tb_detectors T)" "rw_id r = rdw_rule x" "dw_id t = rdw_detector x" "rw_bundle r = dw_bundle t"
      using link [OF x(1)] by blast
    then show "\<exists>r \<in> set (tb_rules (delete_detectors k T)). \<exists>t \<in> set (tb_detectors (delete_detectors k T)).
        rw_id r = rdw_rule x \<and> dw_id t = rdw_detector x \<and> rw_bundle r = dw_bundle t"
      using stays [OF rt(2)] x(2) by (intro bexI [of _ r] bexI [of _ t]) (auto simp: T')
  qed
  moreover have "filter (\<lambda>r. outside_rule D T (rdw_rule r)) (filter (\<lambda>r. rdw_detector r \<notin> ?gone) (tb_rule_detectors T)) =
      filter (\<lambda>r. outside_rule D T (rdw_rule r)) (tb_rule_detectors T)"
    unfolding filter_filter using other by (intro filter_cong) auto
  moreover have "filter (\<lambda>r. outside_bundle D (tb_bundles T) (dw_bundle r)) (filter (\<lambda>r. dw_bundle r \<noteq> k) (tb_detectors T)) =
      filter (\<lambda>r. outside_bundle D (tb_bundles T) (dw_bundle r)) (tb_detectors T)"
    unfolding filter_filter using own_not_outside [OF ok k] by (intro filter_cong) auto
  ultimately show "store_ok (delete_detectors k T) \<and> own D k (delete_detectors k T) \<and> same_outside D T (delete_detectors k T) \<and> tb_revisions (delete_detectors k T) = tb_revisions T"
    using ok k by (auto simp: T' store_ok_def distinct_ids_def same_defs own_def intro: distinct_map_filter)
qed

lemma delete_rules_inside: "inside D k T (delete_rules k T)"
  unfolding inside_def
proof (intro impI, elim conjE)
  assume ok: "store_ok T" and k: "own D k T"
  let ?gone = "rw_id ` {r \<in> set (tb_rules T). rw_bundle r = k}"
  have T': "delete_rules k T = T\<lparr>tb_rules := filter (\<lambda>r. rw_bundle r \<noteq> k) (tb_rules T),
      tb_rule_detectors := filter (\<lambda>r. rdw_rule r \<notin> ?gone) (tb_rule_detectors T), tb_scopes := filter (\<lambda>r. rsr_rule r \<notin> ?gone) (tb_scopes T)\<rparr>"
    by (simp add: delete_rules_def Let_def)
  have other: "outside_rule D T i \<Longrightarrow> i \<notin> ?gone" for i
    using own_rule_not_outside [OF ok k] by auto
  have stays: "r \<in> set (tb_rules T) \<Longrightarrow> rw_id r \<notin> ?gone \<longleftrightarrow> rw_bundle r \<noteq> k" for r
    using ok by (auto simp: store_ok_def distinct_ids_def dest: distinct_key)
  have "linked (delete_rules k T)"
    unfolding linked_def
  proof
    fix x assume "x \<in> set (tb_rule_detectors (delete_rules k T))"
    then have x: "x \<in> set (tb_rule_detectors T)" "rdw_rule x \<notin> ?gone" by (auto simp: T')
    obtain r t where rt: "r \<in> set (tb_rules T)" "t \<in> set (tb_detectors T)" "rw_id r = rdw_rule x" "dw_id t = rdw_detector x" "rw_bundle r = dw_bundle t"
      using ok x(1) unfolding store_ok_def linked_def by blast
    then show "\<exists>r \<in> set (tb_rules (delete_rules k T)). \<exists>t \<in> set (tb_detectors (delete_rules k T)).
        rw_id r = rdw_rule x \<and> dw_id t = rdw_detector x \<and> rw_bundle r = dw_bundle t"
      using stays [OF rt(1)] x(2) by (intro bexI [of _ r] bexI [of _ t]) (auto simp: T')
  qed
  moreover have "filter (\<lambda>r. outside_rule D T (rdw_rule r)) (filter (\<lambda>r. rdw_rule r \<notin> ?gone) (tb_rule_detectors T)) =
      filter (\<lambda>r. outside_rule D T (rdw_rule r)) (tb_rule_detectors T)"
    unfolding filter_filter using other by (intro filter_cong) auto
  moreover have "filter (\<lambda>r. outside_rule D T (rsr_rule r)) (filter (\<lambda>r. rsr_rule r \<notin> ?gone) (tb_scopes T)) =
      filter (\<lambda>r. outside_rule D T (rsr_rule r)) (tb_scopes T)"
    unfolding filter_filter using other by (intro filter_cong) auto
  moreover have "filter (\<lambda>r. outside_bundle D (tb_bundles T) (rw_bundle r)) (filter (\<lambda>r. rw_bundle r \<noteq> k) (tb_rules T)) =
      filter (\<lambda>r. outside_bundle D (tb_bundles T) (rw_bundle r)) (tb_rules T)"
    unfolding filter_filter using own_not_outside [OF ok k] by (intro filter_cong) auto
  ultimately show "store_ok (delete_rules k T) \<and> own D k (delete_rules k T) \<and> same_outside D T (delete_rules k T) \<and> tb_revisions (delete_rules k T) = tb_revisions T"
    using ok k by (auto simp: T' store_ok_def distinct_ids_def same_defs own_def intro: distinct_map_filter)
qed

text \<open>Inserts of a detector, a rule, a link and a scope into the bundle.\<close>

lemma insert_detector_inside:
  assumes "insert_detector K k detector d = (Inr i, d')"
  shows "inside D k (pg_tables d) (pg_tables d') \<and> (\<exists>t. pg_tables d' = tb_detectors_update (\<lambda>ts. ts @ [t]) (pg_tables d) \<and> dw_id t = i \<and> dw_bundle t = k)"
proof -
  from detectors.insert_Inr [OF assms [unfolded insert_detector_def Let_def]] obtain t where
    T': "pg_tables d' = tb_detectors_update (\<lambda>ts. ts @ [t]) (pg_tables d)" and t: "dw_id t = i" "dw_bundle t = k"
    and new: "\<forall>r \<in> set (tb_detectors (pg_tables d)). \<not> detector_clash r t"
    by (auto simp: detectors.inserted_def)
  have "inside D k (pg_tables d) (pg_tables d')"
    using new t own_not_outside [of "pg_tables d" D k]
    by (fastforce simp: inside_def T' store_ok_def distinct_ids_def linked_def same_defs own_def detector_clash_def outside_rule_def outside_route_def)
  with T' t show ?thesis by blast
qed

definition detectors_of :: "uuid \<Rightarrow> ('k \<rightharpoonup> uuid) \<Rightarrow> tables \<Rightarrow> bool" where
  "detectors_of k ids T \<longleftrightarrow> (\<forall>i \<in> ran ids. \<exists>t \<in> set (tb_detectors T). dw_id t = i \<and> dw_bundle t = k)"

lemma insert_detectors_inside:
  "insert_detectors K k detectors ids d = (Inr ids', d') \<Longrightarrow> detectors_of k ids (pg_tables d) \<Longrightarrow>
     inside D k (pg_tables d) (pg_tables d') \<and> detectors_of k ids' (pg_tables d')"
proof (induction detectors arbitrary: ids d)
  case Nil
  then show ?case by (auto simp: effect_Inr)
next
  case (Cons detector detectors)
  from Cons.prems(1) obtain i d1 where i: "insert_detector K k detector d = (Inr i, d1)"
    and rest: "insert_detectors K k detectors (ids(dtr_Key detector \<mapsto> i)) d1 = (Inr ids', d')" by (auto simp: effect_Inr)
  note one = insert_detector_inside [OF i, of D]
  then have "detectors_of k (ids(dtr_Key detector \<mapsto> i)) (pg_tables d1)"
    using Cons.prems(2) by (fastforce simp: detectors_of_def ran_def)
  with Cons.IH [OF rest] one show ?case using inside_trans by blast
qed

definition rule_of :: "uuid \<Rightarrow> uuid \<Rightarrow> tables \<Rightarrow> bool" where
  "rule_of k i T \<longleftrightarrow> (\<exists>r \<in> set (tb_rules T). rw_id r = i \<and> rw_bundle r = k)"

lemma rule_of_not_outside: "store_ok T \<Longrightarrow> own D k T \<Longrightarrow> rule_of k i T \<Longrightarrow> \<not> outside_rule D T i"
  using own_rule_not_outside by (auto simp: rule_of_def)

lemma append_link_inside:
  assumes "rule_of k (rdw_rule x) T" "\<exists>t \<in> set (tb_detectors T). dw_id t = rdw_detector x \<and> dw_bundle t = k"
  shows "inside D k T (tb_rule_detectors_update (\<lambda>xs. xs @ [x]) T)"
proof -
  have "\<exists>r \<in> set (tb_rules T). \<exists>t \<in> set (tb_detectors T). rw_id r = rdw_rule x \<and> dw_id t = rdw_detector x \<and> rw_bundle r = dw_bundle t"
    using assms unfolding rule_of_def by metis
  then show ?thesis using rule_of_not_outside [OF _ _ assms(1), of D]
    by (auto simp: inside_def store_ok_def distinct_ids_def linked_def same_defs own_def)
qed

lemma append_scope_inside:
  assumes "rule_of k (rsr_rule x) T"
  shows "inside D k T (tb_scopes_update (\<lambda>xs. xs @ [x]) T)"
  using rule_of_not_outside [OF _ _ assms, of D]
  by (auto simp: inside_def store_ok_def distinct_ids_def linked_def same_defs own_def)

text \<open>A loop whose steps are inside the bundle and keep what the next ones need.\<close>

lemma for_each_inside:
  assumes "for_each f xs d = (Inr u, d')" "N (pg_tables d)"
    and "\<And>x d u d'. f x d = (Inr u, d') \<Longrightarrow> N (pg_tables d) \<Longrightarrow> inside D k (pg_tables d) (pg_tables d') \<and> N (pg_tables d')"
  shows "inside D k (pg_tables d) (pg_tables d') \<and> N (pg_tables d')"
  using assms(1,2)
proof (induction xs arbitrary: d)
  case (Cons x xs)
  from Cons.prems(1) obtain d1 where "f x d = (Inr (), d1)" "for_each f xs d1 = (Inr u, d')" by (auto simp: effect_Inr)
  with Cons.IH assms(3) Cons.prems(2) show ?case using inside_trans by meson
qed (simp add: ret_def)

lemma insert_rule_row_inside:
  assumes "or_fail l (run_statement (insert_row tb_rules tb_rules_update rule_clash mk)) d = (Inr i, d')" "\<And>i. rw_id (mk i) = i" "\<And>i. rw_bundle (mk i) = k"
  shows "inside D k (pg_tables d) (pg_tables d') \<and> rule_of k i (pg_tables d') \<and> tb_detectors (pg_tables d') = tb_detectors (pg_tables d)"
proof -
  from rules.insert_Inr [OF assms(1)] have T': "pg_tables d' = tb_rules_update (\<lambda>rs. rs @ [mk i]) (pg_tables d)"
    and new: "\<forall>r \<in> set (tb_rules (pg_tables d)). \<not> rule_clash r (mk i)" by (simp_all add: rules.inserted_def)
  have "inside D k (pg_tables d) (pg_tables d')"
    using new assms(2,3) own_not_outside [of "pg_tables d" D k]
    by (fastforce simp: inside_def T' store_ok_def distinct_ids_def linked_def same_defs own_def rule_clash_def)
  with assms(2,3) show ?thesis by (auto simp: T' rule_of_def)
qed

lemma insert_rule_inside:
  assumes "insert_rule k ids rule d = (Inr u, d')" "detectors_of k ids (pg_tables d)"
  shows "inside D k (pg_tables d) (pg_tables d') \<and> detectors_of k ids (pg_tables d')"
proof -
  let ?config = "case rlr_Config rule of None \<Rightarrow> ''{}'' | Some c \<Rightarrow> c"
  obtain i d1 d2 where row: "or_fail ''insert policy rule'' (run_statement (insert_row tb_rules tb_rules_update rule_clash
        (\<lambda>i. \<lparr>rw_id = i, rw_bundle = k, rw_name = rlr_Key rule, rw_description = rlr_Description rule, rw_severity = rlr_Severity rule,
          rw_action = rlr_Action rule, rw_enabled = rlr_Enabled rule, rw_priority = rlr_Priority rule, rw_config = ?config\<rparr>))) d = (Inr i, d1)"
    and links: "for_each (\<lambda>detectorKey. case ids detectorKey of
          None \<Rightarrow> fail (Message ''insert policy rule detector: detector not found'' detectorKey)
        | Some detectorID \<Rightarrow> or_fail ''insert policy rule detector'' (append_row tb_rule_detectors tb_rule_detectors_update rule_detector_clash
            \<lparr>rdw_rule = i, rdw_detector = detectorID, rdw_match_mode = ''any''\<rparr>)) (rlr_DetectorKeys rule) d1 = (Inr (), d2)"
    and scopes: "for_each (\<lambda>scope. or_fail ''insert policy rule scope'' (append_row tb_scopes tb_scopes_update scope_clash
          \<lparr>rsr_RouteID = rsr_RouteID scope, rsr_ProviderID = rsr_ProviderID scope, rsr_Model = rsr_Model scope,
           rsr_Direction = storageDirection (rsr_Direction scope), rsr_rule = i\<rparr>)) (rlr_Scopes rule) d2 = (Inr (), d')"
    using assms(1) by (auto simp: insert_rule_def Let_def effect_Inr)
  let ?N = "\<lambda>T. rule_of k i T \<and> detectors_of k ids T"
  note one = insert_rule_row_inside [where k = k, OF row, simplified]
  have "?N (pg_tables d1)" using one assms(2) by (simp add: detectors_of_def)
  have link: "inside D k (pg_tables d) (pg_tables d') \<and> ?N (pg_tables d')"
    if step: "or_fail l (append_row tb_rule_detectors tb_rule_detectors_update rule_detector_clash
        \<lparr>rdw_rule = i, rdw_detector = j, rdw_match_mode = ''any''\<rparr>) d = (Inr u, d')" and "ids x = Some j" "?N (pg_tables d)" for l j x d u d'
  proof -
    from rule_detectors.append_Inr [OF step] have T': "pg_tables d' = tb_rule_detectors_update
        (\<lambda>xs. xs @ [\<lparr>rdw_rule = i, rdw_detector = j, rdw_match_mode = ''any''\<rparr>]) (pg_tables d)"
      by (simp add: rule_detectors.inserted_def)
    show ?thesis unfolding T' using that(2,3)
      by (intro conjI append_link_inside) (auto simp: detectors_of_def rule_of_def ran_def)
  qed
  have two: "inside D k (pg_tables d1) (pg_tables d2) \<and> ?N (pg_tables d2)"
    by (rule for_each_inside [where N = ?N, OF links \<open>?N (pg_tables d1)\<close>]) (use link in \<open>auto simp: effect_Inr split: option.splits\<close>)
  have scope: "inside D k (pg_tables d) (pg_tables d') \<and> ?N (pg_tables d')"
    if step: "or_fail l (append_row tb_scopes tb_scopes_update scope_clash x) d = (Inr u, d')" and "rsr_rule x = i" "?N (pg_tables d)" for l x d u d'
  proof -
    from scopes.append_Inr [OF step] have T': "pg_tables d' = tb_scopes_update (\<lambda>xs. xs @ [x]) (pg_tables d)"
      by (simp add: scopes.inserted_def)
    show ?thesis unfolding T' using that(2,3)
      by (intro conjI append_scope_inside) (auto simp: detectors_of_def rule_of_def)
  qed
  have "inside D k (pg_tables d2) (pg_tables d') \<and> ?N (pg_tables d')"
    by (rule for_each_inside [where N = ?N, OF scopes conjunct2 [OF two]]) (erule scope, simp_all)
  with one two show ?thesis using inside_trans by blast
qed

lemma UpsertBundle_edits:
  assumes "UpsertBundle K D b d = (Inr u, d')"
  shows "edits D (pg_tables d) (pg_tables d')"
  unfolding edits_def
proof
  assume ok: "store_ok (pg_tables d)"
  let ?B = "b\<lparr>bdr_Source := defaultBundleSource (bdr_Source b), bdr_DefaultAction := defaultBundleAction (bdr_DefaultAction b),
    bdr_Metadata := Some (policy_defaultJSONObject (bdr_Metadata b))\<rparr>"
  obtain k d1 u2 d2 u3 d3 ids d4 where row: "upsert_bundle_row D ?B d = (Inr k, d1)"
    and 2: "or_fail ''replace policy detectors'' (update_tables (delete_detectors k)) d1 = (Inr u2, d2)"
    and 3: "or_fail ''replace policy rules'' (update_tables (delete_rules k)) d2 = (Inr u3, d3)"
    and 4: "insert_detectors K k (bdr_Detectors ?B) Map.empty d3 = (Inr ids, d4)"
    and 5: "for_each (insert_rule k ids) (bdr_Rules ?B) d4 = (Inr u, d')"
    using assms by (auto simp: UpsertBundle_def Let_def effect_Inr)
  have T2: "pg_tables d2 = delete_detectors k (pg_tables d1)" and T3: "pg_tables d3 = delete_rules k (pg_tables d2)"
    using run_statement_Inr [OF 2 [unfolded update_tables_def]] run_statement_Inr [OF 3 [unfolded update_tables_def]] by auto
  have four: "inside D k (pg_tables d3) (pg_tables d4) \<and> detectors_of k ids (pg_tables d4)"
    by (rule insert_detectors_inside [OF 4]) (simp add: detectors_of_def)
  have "inside D k (pg_tables d4) (pg_tables d') \<and> detectors_of k ids (pg_tables d')"
    by (rule for_each_inside [where N = "detectors_of k ids", OF 5 conjunct2 [OF four]]) (rule insert_rule_inside)
  then have "inside D k (pg_tables d1) (pg_tables d')"
    using four T2 T3 delete_detectors_inside delete_rules_inside inside_trans by metis
  with upsert_bundle_row_inside [OF row ok]
  show "store_ok (pg_tables d') \<and> same_outside D (pg_tables d) (pg_tables d') \<and> tb_revisions (pg_tables d') = tb_revisions (pg_tables d)"
    using same_outside_trans by (auto simp: inside_def)
qed

section \<open>The clone\<close>

lemma added_filter:
  assumes "added forget rows xs ys" "\<And>r. Q (forget r) = Q r" "\<And>r. r \<in> set rows \<Longrightarrow> \<not> Q r"
  shows "filter Q ys = filter Q xs"
proof -
  obtain new where new: "ys = xs @ new" "mset (map forget new) = mset rows" using assms(1) by (auto simp: added_def)
  have "\<not> Q r" if "r \<in> set new" for r
  proof -
    have "forget r \<in> set rows" using that mset_eq_setD [OF new(2)] by auto
    then show ?thesis using assms(2,3) by blast
  qed
  then show ?thesis by (simp add: new(1) filter_empty_conv)
qed

lemma added_distinct:
  assumes "added id (map f (filter P xs)) xs ys" "\<And>r. key (f r) = the (ids (key r))"
    and "renames ids (key ` {r \<in> set xs. P r}) (key ` set xs)" "distinct (map key xs)"
  shows "distinct (map key ys)"
proof -
  obtain new where new: "ys = xs @ new" "mset new = mset (map f (filter P xs))" using assms(1) by (auto simp: added_def)
  have "mset (map key new) = mset (map (\<lambda>k. the (ids k)) (map key (filter P xs)))"
    using mset_map_mset [OF new(2), of key] assms(2) by (simp add: comp_def)
  from renamed_keys [OF this distinct_map_filter [OF assms(4)], of "key ` set xs"] assms(3,4) show ?thesis by (simp add: new(1) Int_commute)
qed

lemma copied_distinct_ids:
  assumes "copied A D M T T'" "new_uuids A T M" "distinct_ids T"
  shows "distinct_ids T'"
proof -
  note c = assms(1) [unfolded copied_def copied_routing_def copied_policy_def copied_observability_def]
  note n = assms(2) [unfolded new_uuids_def] and i = assms(3) [unfolded distinct_ids_def]
  have "distinct (map pw_id (tb_providers T'))"
    by (rule added_distinct [where f = "copy_provider D (cm_providers M)" and ids = "cm_providers M" and xs = "tb_providers T"]) (use c n i in \<open>blast | simp add: copy_defs\<close>)+
  moreover have "distinct (map mmr_ID (tb_mappings T'))"
    by (rule added_distinct [where f = "copy_mapping D (cm_mappings M) (cm_providers M)" and ids = "cm_mappings M" and xs = "tb_mappings T"]) (use c n i in \<open>blast | simp add: copy_defs\<close>)+
  moreover have "distinct (map rtr_ID (tb_routes T'))"
    by (rule added_distinct [where f = "copy_route D (cm_routes M) (cm_mappings M)" and ids = "cm_routes M" and xs = "tb_routes T"]) (use c n i in \<open>blast | simp add: copy_defs\<close>)+
  moreover have "distinct (map vw_id (tb_verdicts T'))"
    by (rule added_distinct [where f = "copy_verdict D (cm_verdicts M)" and ids = "cm_verdicts M" and xs = "tb_verdicts T"]) (use c n i in \<open>blast | simp add: copy_defs\<close>)+
  moreover have "distinct (map bw_id (tb_bundles T'))"
    by (rule added_distinct [where f = "copy_bundle D (cm_bundles M)" and ids = "cm_bundles M" and xs = "tb_bundles T"]) (use c n i in \<open>blast | simp add: copy_defs\<close>)+
  moreover have "distinct (map dw_id (tb_detectors T'))"
    by (rule added_distinct [where f = "copy_detector (cm_detectors M) (cm_bundles M)" and ids = "cm_detectors M" and xs = "tb_detectors T"]) (use c n i in \<open>blast | simp add: copy_defs\<close>)+
  moreover have "distinct (map rw_id (tb_rules T'))"
    by (rule added_distinct [where f = "copy_rule (cm_rules M) (cm_bundles M)" and ids = "cm_rules M" and xs = "tb_rules T"]) (use c n i in \<open>blast | simp add: copy_defs\<close>)+
  moreover have "distinct (map skr_ID (tb_sinks T'))"
    by (rule added_distinct [where f = "copy_sink D (cm_sinks M)" and ids = "cm_sinks M" and xs = "tb_sinks T"]) (use c n i in \<open>blast | simp add: copy_defs\<close>)+
  ultimately show ?thesis by (simp add: distinct_ids_def)
qed

text \<open>What a copy refers to is new, so no row outside the draft has it.\<close>

lemma renamed_outside:
  assumes "renames ids ks used" "k \<in> ks"
  shows "the (ids k) \<notin> used"
proof -
  have "k \<in> dom ids" using assms by (simp add: renames_def)
  then have "the (ids k) \<in> ran ids" by (auto simp: ran_def)
  then show ?thesis using assms(1) by (auto simp: renames_def)
qed

lemma copied_outside:
  assumes "copied A D M T T'" "new_uuids A T M"
  shows "same_outside D T T'"
proof -
  have of_bundle: "\<not> outside_bundle D (tb_bundles T) (the (cm_bundles M k))" if "bundle_in A (tb_bundles T) k" for k
  proof -
    have "the (cm_bundles M k) \<notin> bw_id ` set (tb_bundles T)"
      by (rule renamed_outside [where ks = "bw_id ` {r \<in> set (tb_bundles T). bw_revision r = A}"])
        (use assms(2) that in \<open>auto simp: new_uuids_def bundle_in_def\<close>)
    then show ?thesis unfolding outside_bundle_def by (metis imageI)
  qed
  have of_rule: "\<not> outside_rule D T (the (cm_rules M k))" if "rule_in A (tb_bundles T) (tb_rules T) k" for k
  proof -
    have "the (cm_rules M k) \<notin> rw_id ` set (tb_rules T)"
      by (rule renamed_outside [where ks = "rw_id ` {r \<in> set (tb_rules T). bundle_in A (tb_bundles T) (rw_bundle r)}"])
        (use assms(2) that in \<open>auto simp: new_uuids_def rule_in_def\<close>)
    then show ?thesis unfolding outside_rule_def by (metis imageI)
  qed
  have of_route: "\<not> outside_route D T (the (cm_routes M k))" if "route_in A (tb_routes T) k" for k
  proof -
    have "the (cm_routes M k) \<notin> rtr_ID ` set (tb_routes T)"
      by (rule renamed_outside [where ks = "rtr_ID ` {r \<in> set (tb_routes T). rtr_revision r = A}"])
        (use assms(2) that in \<open>auto simp: new_uuids_def route_in_def\<close>)
    then show ?thesis unfolding outside_route_def by (metis imageI)
  qed
  note c = assms(1) [unfolded copied_def copied_routing_def copied_policy_def copied_limits_def copied_observability_def same_elsewhere_def]
  note new = of_bundle of_rule of_route
  have "same_routing D T T'"
    unfolding same_routing_def by (insert c, elim conjE, intro conjI; (rule added_filter, assumption, auto simp: copy_defs new))
  moreover have "same_policy D T T'"
    unfolding same_policy_def by (insert c, elim conjE, intro conjI; (rule added_filter, assumption, auto simp: copy_defs new))
  moreover have "same_limits_and_sinks D T T'"
    unfolding same_limits_and_sinks_def by (insert c, elim conjE, intro conjI; (rule added_filter, assumption, auto simp: copy_defs new))
  ultimately show ?thesis using c by (simp add: same_outside_def same_revisions_def)
qed

lemma added_set: "added id (map f (filter P xs)) xs ys \<Longrightarrow> set ys = set xs \<union> f ` {x \<in> set xs. P x}"
  by (auto simp: added_def simp del: mset_map mset_filter dest!: mset_eq_setD)

lemma copied_linked:
  assumes "copied A D M T T'" "distinct_ids T" "linked T"
  shows "linked T'"
  unfolding linked_def
proof
  fix x assume x: "x \<in> set (tb_rule_detectors T')"
  note c = assms(1) [unfolded copied_def copied_policy_def]
  have links: "set (tb_rule_detectors T') = set (tb_rule_detectors T) \<union> copy_rule_detector (cm_rules M) (cm_detectors M) `
      {r \<in> set (tb_rule_detectors T). rule_in A (tb_bundles T) (tb_rules T) (rdw_rule r)}"
    and rules: "set (tb_rules T') = set (tb_rules T) \<union> copy_rule (cm_rules M) (cm_bundles M) ` {r \<in> set (tb_rules T). bundle_in A (tb_bundles T) (rw_bundle r)}"
    and detectors: "set (tb_detectors T') = set (tb_detectors T) \<union>
      copy_detector (cm_detectors M) (cm_bundles M) ` {r \<in> set (tb_detectors T). bundle_in A (tb_bundles T) (dw_bundle r)}"
    by (insert c, elim conjE, erule added_set)+
  have link: "\<exists>r \<in> set (tb_rules T). \<exists>t \<in> set (tb_detectors T). rw_id r = rdw_rule y \<and> dw_id t = rdw_detector y \<and> rw_bundle r = dw_bundle t"
    if "y \<in> set (tb_rule_detectors T)" for y using assms(3) that by (simp add: linked_def)
  consider "x \<in> set (tb_rule_detectors T)"
    | y where "y \<in> set (tb_rule_detectors T)" "rule_in A (tb_bundles T) (tb_rules T) (rdw_rule y)" "x = copy_rule_detector (cm_rules M) (cm_detectors M) y"
    using x links by auto
  then show "\<exists>r \<in> set (tb_rules T'). \<exists>t \<in> set (tb_detectors T'). rw_id r = rdw_rule x \<and> dw_id t = rdw_detector x \<and> rw_bundle r = dw_bundle t"
  proof cases
    case 1
    then show ?thesis using link rules detectors by blast
  next
    case (2 y)
    obtain r t where rt: "r \<in> set (tb_rules T)" "t \<in> set (tb_detectors T)" "rw_id r = rdw_rule y" "dw_id t = rdw_detector y" "rw_bundle r = dw_bundle t"
      using link [OF 2(1)] by blast
    have "bundle_in A (tb_bundles T) (rw_bundle r)"
      using 2(2) rt(1,3) assms(2) unfolding rule_in_def distinct_ids_def by (metis distinct_key)
    then have "copy_rule (cm_rules M) (cm_bundles M) r \<in> set (tb_rules T')" "copy_detector (cm_detectors M) (cm_bundles M) t \<in> set (tb_detectors T')"
      using rules detectors rt(1,2,5) by auto
    then show ?thesis using rt(3-5) 2(3) by (intro bexI) (auto simp: copy_defs)
  qed
qed

section \<open>The draft\<close>

definition draft_row :: "uuid \<Rightarrow> int \<Rightarrow> revision_row" where
  "draft_row D n =
     \<lparr>vn_id = D, vn_number = n, vn_source = ''control'', vn_status = ''draft'', vn_summary = ''control changes'',
      vn_actor = ''system'', vn_validation_status = ''pending'', vn_hash = [], vn_ref = [], vn_activated_at = None\<rparr>"

definition revisions_with :: "string \<Rightarrow> tables \<Rightarrow> revision_row set" where
  "revisions_with status T = {r \<in> set (tb_revisions T). vn_status r = status}"

lemma set_with_status [simp]: "set (with_status status d) = revisions_with status (pg_tables d)"
  by (auto simp: with_status_def revisions_with_def)

lemma createEmptyDraftRevision_Inr:
  assumes "createEmptyDraftRevision d = (Inr D, d')"
  shows "pg_tables d' = tb_revisions_update (\<lambda>rs. rs @ [draft_row D (pg_sequence d + 1)]) (pg_tables d) \<and> pg_sequence d' = pg_sequence d + 1 \<and>
    D \<notin> vn_id ` set (tb_revisions (pg_tables d))"
proof -
  let ?d = "d\<lparr>pg_sequence := pg_sequence d + 1\<rparr>"
  from assms obtain T where "insert_row tb_revisions tb_revisions_update (\<lambda>r n. vn_id r = vn_id n \<or> vn_number r = vn_number n)
      (\<lambda>i. draft_row i (pg_sequence ?d)) ?d = Inr (D, T)" "d' = tick (?d\<lparr>pg_tables := T\<rparr>)"
    by (auto simp: createEmptyDraftRevision_def effect_Inr draft_row_def dest!: run_statement_Inr)
  then show ?thesis by (auto simp: insert_row_def Let_def draft_row_def split: if_splits)
qed

text \<open>How the draft an edit works on comes about.\<close>

definition draft_from :: "uuid \<Rightarrow> int \<Rightarrow> tables \<Rightarrow> tables \<Rightarrow> bool" where
  "draft_from D n T T' \<longleftrightarrow>
     (if revisions_with ''draft'' T \<noteq> {} then T' = T \<and> D \<in> vn_id ` revisions_with ''draft'' T
      else D \<notin> vn_id ` set (tb_revisions T) \<and>
        (let T1 = tb_revisions_update (\<lambda>rs. rs @ [draft_row D n]) T
         in if revisions_with ''active'' T = {} then T' = T1
            else \<exists>A M. A \<in> vn_id ` revisions_with ''active'' T \<and> new_uuids A T1 M \<and> copied A D M T1 T'))"

lemma select_row_cases:
  assumes "select_row sel d = (Inr r, d')"
  shows "pg_tables d' = pg_tables d \<and> pg_sequence d' = pg_sequence d \<and> (\<forall>x. r = Row x \<longrightarrow> x \<in> set (sel d)) \<and> (r = NoRows \<longrightarrow> sel d = [])"
  using select_row_Inr [OF assms] by (auto simp: same_server_def)

lemma ensureDraftRevision_cases:
  assumes "ensureDraftRevision (Some cloneActiveRevisionAsDraft) d = (Inr D, d')"
  obtains (old) x where "x \<in> revisions_with ''draft'' (pg_tables d)" "vn_id x = D" "pg_tables d' = pg_tables d" "pg_sequence d' = pg_sequence d"
  | (cloned) d2 d3 x u where "revisions_with ''draft'' (pg_tables d) = {}" "x \<in> revisions_with ''active'' (pg_tables d)"
      "pg_tables d2 = pg_tables d" "pg_sequence d2 = pg_sequence d" "createEmptyDraftRevision d2 = (Inr D, d3)"
      "cloneActiveRevisionAsDraft (vn_id x) D d3 = (Inr u, d')"
  | (empty) d2 where "revisions_with ''draft'' (pg_tables d) = {}" "revisions_with ''active'' (pg_tables d) = {}"
      "pg_tables d2 = pg_tables d" "pg_sequence d2 = pg_sequence d" "createEmptyDraftRevision d2 = (Inr D, d')"
proof -
  obtain r d1 where r: "select_row (with_status ''draft'') d = (Inr r, d1)" and rest: "(case r of
      Row r \<Rightarrow> ret (vn_id r) | RowError e \<Rightarrow> fail (Statement ''load draft config revision'' e)
    | NoRows \<Rightarrow> and_then (select_row (with_status ''active''))
        (\<lambda>r. case r of
           Row active \<Rightarrow> and_then createEmptyDraftRevision (\<lambda>draftID. and_then (cloneActiveRevisionAsDraft (vn_id active) draftID) (\<lambda>_. ret draftID))
         | RowError e \<Rightarrow> fail (Statement ''load active config revision for draft clone'' e)
         | NoRows \<Rightarrow> createEmptyDraftRevision)) d1 = (Inr D, d')"
    using assms(1) unfolding ensureDraftRevision_def effect_Inr option.case by blast
  note one = select_row_cases [OF r]
  show thesis
  proof (cases r)
    case (Row x)
    then show thesis using old one rest by (auto simp: effect_Inr)
  next
    case NoRows
    then have none: "revisions_with ''draft'' (pg_tables d) = {}" using one by (metis set_with_status list.set(1))
    obtain a d2 where a: "select_row (with_status ''active'') d1 = (Inr a, d2)" and rest2: "(case a of
        Row active \<Rightarrow> and_then createEmptyDraftRevision (\<lambda>draftID. and_then (cloneActiveRevisionAsDraft (vn_id active) draftID) (\<lambda>_. ret draftID))
      | RowError e \<Rightarrow> fail (Statement ''load active config revision for draft clone'' e)
      | NoRows \<Rightarrow> createEmptyDraftRevision) d2 = (Inr D, d')"
      using rest NoRows by (auto simp: effect_Inr)
    note two = select_row_cases [OF a]
    have same2: "pg_tables d2 = pg_tables d" "pg_sequence d2 = pg_sequence d" using one two by simp_all
    show thesis
    proof (cases a)
      case (Row x)
      then have x: "x \<in> revisions_with ''active'' (pg_tables d)" using two one by (metis set_with_status)
      obtain u d3 where "createEmptyDraftRevision d2 = (Inr D, d3)" "cloneActiveRevisionAsDraft (vn_id x) D d3 = (Inr u, d')"
        using rest2 Row by (auto simp: effect_Inr)
      with cloned [OF none x same2] show thesis .
    next
      case NoRows
      then have "revisions_with ''active'' (pg_tables d) = {}" using two one by (metis set_with_status list.set(1))
      with empty [OF none _ same2] rest2 NoRows show thesis by simp
    qed (use rest2 in \<open>simp add: effect_Inr\<close>)
  qed (use rest in \<open>simp add: effect_Inr\<close>)
qed

lemma ensureDraftRevision_Inr:
  assumes "ensureDraftRevision (Some cloneActiveRevisionAsDraft) d = (Inr D, d')" "distinct_ids (pg_tables d)"
  shows "draft_from D (pg_sequence d + 1) (pg_tables d) (pg_tables d')"
  using assms(1)
proof (cases rule: ensureDraftRevision_cases)
  case (old x)
  then show ?thesis by (auto simp: draft_from_def)
next
  case (cloned d2 d3 x u)
  note new = createEmptyDraftRevision_Inr [OF cloned(5), unfolded cloned(3,4)]
  have "distinct_ids (pg_tables d3)" "vn_id x \<noteq> D" using assms(2) new cloned(2) by (auto simp: distinct_ids_def revisions_with_def)
  from clone_copies [OF cloned(6) this] new cloned(1,2) show ?thesis by (auto simp: draft_from_def Let_def)
next
  case (empty d2)
  then show ?thesis using createEmptyDraftRevision_Inr [OF empty(5)] by (auto simp: draft_from_def Let_def)
qed

lemma draft_from_ok:
  assumes "draft_from D n T T'" "store_ok T"
  shows "store_ok T' \<and> same_outside D T T' \<and> (tb_revisions T' = tb_revisions T \<or> revisions_with ''draft'' T = {} \<and> tb_revisions T' = tb_revisions T @ [draft_row D n])"
proof (cases "revisions_with ''draft'' T = {}")
  case False
  then show ?thesis using assms by (simp add: draft_from_def)
next
  case True
  let ?T1 = "tb_revisions_update (\<lambda>rs. rs @ [draft_row D n]) T"
  have D: "D \<notin> vn_id ` set (tb_revisions T)"
    and T': "if revisions_with ''active'' T = {} then T' = ?T1
      else \<exists>A M. A \<in> vn_id ` revisions_with ''active'' T \<and> new_uuids A ?T1 M \<and> copied A D M ?T1 T'"
    using assms(1) [unfolded draft_from_def Let_def True] unfolding simp_thms if_False by (rule conjunct1, rule conjunct2)
  have one: "store_ok ?T1 \<and> same_outside D T ?T1" using D assms(2) by (auto simp: outside_defs draft_row_def)
  have "store_ok T' \<and> same_outside D ?T1 T' \<and> tb_revisions T' = tb_revisions ?T1" if "new_uuids A ?T1 M" "copied A D M ?T1 T'" for A M
  proof -
    have ids: "distinct_ids ?T1" and link: "linked ?T1" using one by (auto simp: store_ok_def)
    have "tb_revisions T' = tb_revisions ?T1" using that(2) unfolding copied_def same_elsewhere_def by blast
    then show ?thesis
      using one copied_distinct_ids [OF that(2,1) ids] copied_linked [OF that(2) ids link] copied_outside [OF that(2,1)] by (simp add: store_ok_def)
  qed
  with T' one True show ?thesis using same_outside_trans [of D T ?T1 T'] by (auto split: if_splits)
qed

text \<open>A transaction leaves the tables as they were, or as its body left them.\<close>

lemma transaction_cases:
  assumes "transaction b c body d = (r, d')"
  shows "pg_tables d' = pg_tables d \<and> (\<exists>e. r = Inl e) \<or>
    (\<exists>x d1. body (tick d) = (Inr x, d1) \<and> pg_tables d' = pg_tables d1 \<and> pg_sequence d' = pg_sequence d1 \<and> (r = Inr x \<or> (\<exists>e. r = Inl e)))"
  using assms by (auto simp: transaction_def split: option.splits prod.splits sum.splits if_splits)

section \<open>The edits\<close>

datatype store_edit =
    PutBundle BundleRecord
  | PutMapping ModelMappingRecord
  | PutVerdict VerdictProviderRecord
  | PutRouteLimit RoutePolicyRecord
  | PutClientLimit ClientRouteOverrideRecord
  | DeleteClientLimit uuid uuid

fun run_edit :: "detector_codec \<Rightarrow> store_edit \<Rightarrow> unit db" where
  "run_edit K (PutBundle b) = repo_UpsertPolicyBundle K b"
| "run_edit K (PutMapping m) = repo_UpsertModelMapping m"
| "run_edit K (PutVerdict p) = repo_UpsertVerdictProvider p"
| "run_edit K (PutRouteLimit l) = repo_UpsertRouteLimitPolicy l"
| "run_edit K (PutClientLimit l) = repo_UpsertClientRouteLimitOverride l"
| "run_edit K (DeleteClientLimit c r) = repo_DeleteClientRouteLimitOverride c r"

text \<open>An operation that only reads.\<close>

definition reads :: "'a db \<Rightarrow> bool" where
  "reads m \<longleftrightarrow> (\<forall>d. pg_tables (snd (m d)) = pg_tables d)"

lemma reads_intros [intro!]:
  "reads m \<Longrightarrow> (\<And>x. reads (f x)) \<Longrightarrow> reads (and_then m f)" "reads (ret x)" "reads (fail e)" "reads (select_row sel)" "reads (select_rows l s i rows)"
  by (auto simp: reads_def and_then_def ret_def fail_def select_row_def select_rows_def Let_def split: prod.split sum.split option.split list.split stage.split)
    (metis snd_conv)+

lemma reads_RouteIDForRevision: "reads (RouteIDForRevision D r)"
  by (auto simp: RouteIDForRevision_def split: row_result.split)

lemma RouteIDForRevision_Inr: "RouteIDForRevision D r d = (Inr i, d') \<Longrightarrow> pg_tables d' = pg_tables d"
  using reads_RouteIDForRevision [of D r] unfolding reads_def by (metis snd_conv)

text \<open>What an edit does to the store, when it does anything.\<close>

definition edited :: "int \<Rightarrow> tables \<Rightarrow> tables \<Rightarrow> bool" where
  "edited n T T' \<longleftrightarrow> (\<exists>D T1. draft_from D n T T1 \<and> edits D T1 T' \<and> store_ok T' \<and> same_outside D T T')"

lemma draft_edits:
  assumes "draft l f d = (r, d')" "\<And>D d x d'. f D d = (Inr x, d') \<Longrightarrow> edits D (pg_tables d) (pg_tables d')" "store_ok (pg_tables d)"
  shows "pg_tables d' = pg_tables d \<and> (\<exists>e. r = Inl e) \<or> edited (pg_sequence d + 1) (pg_tables d) (pg_tables d')"
proof -
  consider "pg_tables d' = pg_tables d \<and> (\<exists>e. r = Inl e)"
    | x d1 where "and_then (ensureDraftRevision (Some cloneActiveRevisionAsDraft)) f (tick d) = (Inr x, d1)" "pg_tables d' = pg_tables d1"
    using transaction_cases [OF assms(1) [unfolded draft_def WithDraftRevision_def]] by blast
  then show ?thesis
  proof cases
    case (2 x d1)
    then obtain D d0 where D: "ensureDraftRevision (Some cloneActiveRevisionAsDraft) (tick d) = (Inr D, d0)" and f: "f D d0 = (Inr x, d1)"
      by (auto simp: effect_Inr)
    have from_draft: "draft_from D (pg_sequence d + 1) (pg_tables d) (pg_tables d0)"
      using ensureDraftRevision_Inr [OF D] assms(3) by (simp add: store_ok_def)
    moreover have "edits D (pg_tables d0) (pg_tables d')" using assms(2) [OF f] 2(2) by simp
    ultimately show ?thesis using draft_from_ok [OF from_draft assms(3)] same_outside_trans unfolding edits_def edited_def by metis
  qed blast
qed

text \<open>Every edit of the repository is one of the draft.\<close>

lemma edits_in_the_draft:
  assumes "run_edit K e d = (r, d')" "store_ok (pg_tables d)"
  shows "pg_tables d' = pg_tables d \<and> (\<exists>e. r = Inl e) \<or> edited (pg_sequence d + 1) (pg_tables d) (pg_tables d')"
proof (cases e)
  case (PutBundle b)
  with assms show ?thesis by (intro draft_edits [where f = "\<lambda>D. UpsertBundle K D b"]) (auto simp: repo_UpsertPolicyBundle_def UpsertBundle_edits)
next
  case (PutMapping m)
  with assms show ?thesis by (intro draft_edits [where f = "\<lambda>D. UpsertModelMapping D m"]) (auto simp: repo_UpsertModelMapping_def table_edits)
next
  case (PutVerdict p)
  with assms show ?thesis by (intro draft_edits [where f = "\<lambda>D. UpsertVerdictProvider D p"]) (auto simp: repo_UpsertVerdictProvider_def table_edits)
next
  case (PutRouteLimit l)
  with assms show ?thesis
    by (intro draft_edits [OF _ _ assms(2)]) (auto simp: repo_UpsertRouteLimitPolicy_def effect_Inr dest!: RouteIDForRevision_Inr table_edits)
next
  case (PutClientLimit l)
  with assms show ?thesis
    by (intro draft_edits [OF _ _ assms(2)]) (auto simp: repo_UpsertClientRouteLimitOverride_def effect_Inr dest!: RouteIDForRevision_Inr table_edits)
next
  case (DeleteClientLimit c i)
  with assms show ?thesis
    by (intro draft_edits [OF _ _ assms(2)]) (auto simp: repo_DeleteClientRouteLimitOverride_def effect_Inr dest!: RouteIDForRevision_Inr table_edits)
qed

end
