(* ===== verification/Store_Tokens.thy ===== *)
theory Store_Tokens
  imports Store_Edits
begin

text \<open>
  The token the runtime watches, that is the number of the active revision moved by the generation of the clients, over
  every operation of the repository; and clients that are revoked.
\<close>

section \<open>The sequence\<close>

text \<open>A relation between the connection before and after that holds for every statement holds for every operation.\<close>

locale frame =
  fixes R :: "pg \<Rightarrow> pg \<Rightarrow> bool"
  assumes same: "R d d" and trans: "R a b \<Longrightarrow> R b c \<Longrightarrow> R a c" and ticks: "R d (tick d)" and writes: "R d (d\<lparr>pg_tables := T\<rparr>)"
begin

definition keeps :: "'a db \<Rightarrow> bool" where
  "keeps m \<longleftrightarrow> (\<forall>d. R d (snd (m d)))"

lemma keeps_and_then [intro]: "keeps m \<Longrightarrow> (\<And>x. keeps (f x)) \<Longrightarrow> keeps (and_then m f)"
  unfolding keeps_def and_then_def by (auto split: prod.split sum.split) (metis snd_conv trans)+

lemma keeps_basic [intro!, simp]: "keeps (ret x)" "keeps (fail e)" "keeps (select_rows l s i rows)" "keeps (select_row sel)"
  by (auto simp: keeps_def ret_def fail_def select_rows_def select_row_def Let_def same ticks split: option.split prod.split list.split stage.split)

lemma keeps_run_statement [intro!, simp]: "keeps (run_statement f)"
  unfolding keeps_def run_statement_def by (auto simp: ticks split: option.split prod.split sum.split) (metis trans ticks writes)

lemma keeps_or_fail [intro]: "keeps m \<Longrightarrow> keeps (or_fail l m)"
  unfolding or_fail_def by (auto split: sum.split)

lemma keeps_for_each [intro]: "(\<And>x. keeps (f x)) \<Longrightarrow> keeps (for_each f xs)"
  by (induction xs) auto

lemma keeps_clone_each [intro]: "(\<And>x. keeps (ins x)) \<Longrightarrow> keeps (clone_each old ins items ids)"
  by (induction items arbitrary: ids) auto

lemma keeps_remap [intro!, simp]: "keeps (remapRequiredID k ids l)" "keeps (remapOptionalID k ids l)"
  by (auto simp: remapOptionalID_def remapRequiredID_def split: option.split)

lemma keeps_transaction [intro]:
  assumes "keeps m"
  shows "keeps (transaction b c m)"
  unfolding keeps_def
proof
  fix d
  obtain r d1 where d1: "m (tick d) = (r, d1)" by fastforce
  have "R (tick d) d1" using assms d1 unfolding keeps_def by (metis snd_conv)
  then have "R d d1" using ticks trans by blast
  then have "R d (d1\<lparr>pg_tables := T\<rparr>)" "R d (tick d1)" "R d (tick (d1\<lparr>pg_tables := T\<rparr>))" for T
    using ticks writes trans by blast+
  then show "R d (snd (transaction b c m d))"
    using d1 ticks by (auto simp: transaction_def split: option.split prod.split sum.split)
qed

end

interpretation seq: frame "\<lambda>d d'. pg_sequence d \<le> pg_sequence d'"
  by unfold_locales (auto simp: tick_def)

lemma seq_next [intro!, simp]: "seq.keeps (modify (\<lambda>d. d\<lparr>pg_sequence := pg_sequence d + 1\<rparr>))"
  by (simp add: seq.keeps_def modify_def)

lemma keeps_append_row [intro!, simp]: "seq.keeps (append_row tbl upd clash row)"
  by (simp add: append_row_def)

lemmas keeps_intros = seq.keeps_and_then seq.keeps_or_fail seq.keeps_for_each seq.keeps_clone_each seq.keeps_basic seq.keeps_run_statement
  seq.keeps_remap keeps_append_row

lemma seq_routing_clones [intro!, simp]:
  "seq.keeps (CloneProviders A D)" "seq.keeps (CloneModelMappings A D pids)" "seq.keeps (CloneRoutes A D mids)"
  "seq.keeps (CloneVerdictProviders A D)" "seq.keeps (CloneRouteVerdictProviderBindings A rids vids)" "seq.keeps (CloneGatewayRecords A D rids)"
  unfolding CloneProviders_def CloneModelMappings_def CloneRoutes_def CloneVerdictProviders_def CloneRouteVerdictProviderBindings_def
    CloneGatewayRecords_def CloneRoutePolicies_def CloneClientRouteOverrides_def
  by (intro keeps_intros)+

lemma seq_policy_clones [intro!, simp]: "seq.keeps (CloneGraph A D)" "seq.keeps (CloneBindings A uids dids rids pids bids)"
  unfolding CloneGraph_def CloneBindings_def clonePolicyBundles_def clonePolicyDetectors_def clonePolicyRules_def
    clonePolicyRuleDetectors_def clonePolicyRuleScopes_def cloneRoutePolicyBindings_def
  by (intro keeps_intros)+

lemma seq_observability_clones [intro!, simp]:
  "seq.keeps (CloneSinks A D)" "seq.keeps (CloneRetentionPolicies A D sids)" "seq.keeps (CloneRawCapturePolicies A D rids)"
  unfolding CloneSinks_def CloneRetentionPolicies_def CloneRawCapturePolicies_def
  by (intro keeps_intros)+

lemma seq_clone [intro!, simp]: "seq.keeps (cloneActiveRevisionAsDraft A D)"
  unfolding cloneActiveRevisionAsDraft_def clonePolicyBindings_def by (auto intro!: seq.keeps_and_then split: prod.split)

lemma seq_createEmptyDraftRevision [intro!, simp]: "seq.keeps createEmptyDraftRevision"
  unfolding createEmptyDraftRevision_def by (intro seq.keeps_and_then seq.keeps_or_fail seq_next seq.keeps_run_statement)

lemma seq_ensureDraftRevision [intro!, simp]: "seq.keeps (ensureDraftRevision (Some cloneActiveRevisionAsDraft))"
  unfolding ensureDraftRevision_def by (auto intro!: seq.keeps_and_then split: row_result.split)

text \<open>The number of a revision that was made is one the sequence has given out.\<close>

lemma ensureDraftRevision_number:
  assumes "ensureDraftRevision (Some cloneActiveRevisionAsDraft) d = (Inr D, d')" "revisions_with ''draft'' (pg_tables d) = {}"
  shows "pg_sequence d + 1 \<le> pg_sequence d'"
proof -
  have clone: "pg_sequence d1 \<le> pg_sequence d2" if "cloneActiveRevisionAsDraft A D d1 = (Inr u, d2)" for A D d1 u d2
    using seq_clone [of A D] that unfolding seq.keeps_def by (metis snd_conv)
  from assms(1) show ?thesis
  proof (cases rule: ensureDraftRevision_cases)
    case (cloned d2 d3 x u)
    then show ?thesis using createEmptyDraftRevision_Inr [OF cloned(5)] clone [OF cloned(6)] by simp
  qed (use assms(2) createEmptyDraftRevision_Inr in fastforce)+
qed

lemma seq_mutations [intro!, simp]:
  "seq.keeps (UpsertModelMapping D m)" "seq.keeps (UpsertVerdictProvider D p)" "seq.keeps (UpsertRoutePolicy D l)"
  "seq.keeps (UpsertClientRouteOverride D c)" "seq.keeps (DeleteClientRouteOverride D i j)" "seq.keeps (UpsertBundle K D b)"
  "seq.keeps (RouteIDForRevision D k)"
proof -
  have detectors: "seq.keeps (insert_detectors K k ds ids)" for k ds ids
    by (induction ds arbitrary: ids) (auto simp: insert_detector_def Let_def intro!: keeps_intros)
  have rule: "seq.keeps (insert_rule k ids r)" for k ids r
    by (auto simp: insert_rule_def Let_def intro!: keeps_intros split: option.split)
  show "seq.keeps (UpsertBundle K D b)"
    by (auto simp: UpsertBundle_def upsert_bundle_row_def update_tables_def Let_def intro!: keeps_intros detectors rule)
qed (auto simp: UpsertModelMapping_def UpsertVerdictProvider_def UpsertRoutePolicy_def UpsertClientRouteOverride_def
    DeleteClientRouteOverride_def RouteIDForRevision_def Let_def intro!: keeps_intros split: row_result.split)

section \<open>Revisions\<close>

text \<open>Every revision has a number the sequence has given out, there is one draft at most, and it is newer than what is active.\<close>

definition revisions_ok :: "pg \<Rightarrow> bool" where
  "revisions_ok d \<longleftrightarrow>
     (\<forall>r \<in> set (tb_revisions (pg_tables d)). vn_number r \<le> pg_sequence d) \<and>
     (\<forall>r \<in> revisions_with ''draft'' (pg_tables d). \<forall>q \<in> revisions_with ''draft'' (pg_tables d). r = q) \<and>
     (\<forall>r \<in> revisions_with ''draft'' (pg_tables d). \<forall>q \<in> revisions_with ''active'' (pg_tables d). vn_number q < vn_number r)"

lemma draft_numbers:
  assumes "draft l f d = (r, d')" "\<And>D. seq.keeps (f D)" "store_ok (pg_tables d)" "revisions_ok d"
    and "\<And>D d x d'. f D d = (Inr x, d') \<Longrightarrow> edits D (pg_tables d) (pg_tables d')"
  shows "revisions_ok d'"
proof -
  have seq: "pg_sequence d \<le> pg_sequence d'"
    using assms(1,2) seq.keeps_transaction [of "and_then (ensureDraftRevision (Some cloneActiveRevisionAsDraft)) f"]
    unfolding draft_def WithDraftRevision_def seq.keeps_def by (metis seq.keeps_and_then seq_ensureDraftRevision seq.keeps_def snd_conv)
  consider "pg_tables d' = pg_tables d"
    | x d1 where "and_then (ensureDraftRevision (Some cloneActiveRevisionAsDraft)) f (tick d) = (Inr x, d1)" "pg_tables d' = pg_tables d1"
        "pg_sequence d' = pg_sequence d1"
    using transaction_cases [OF assms(1) [unfolded draft_def WithDraftRevision_def]] by blast
  then show ?thesis
  proof cases
    case 1
    then show ?thesis using assms(4) seq by (auto simp: revisions_ok_def)
  next
    case (2 x d1)
    then obtain D d0 where D: "ensureDraftRevision (Some cloneActiveRevisionAsDraft) (tick d) = (Inr D, d0)" and f: "f D d0 = (Inr x, d1)"
      by (auto simp: effect_Inr)
    have revs: "store_ok (pg_tables d0) \<and> (tb_revisions (pg_tables d0) = tb_revisions (pg_tables d) \<or> revisions_with ''draft'' (pg_tables d) = {} \<and>
        tb_revisions (pg_tables d0) = tb_revisions (pg_tables d) @ [draft_row D (pg_sequence d + 1)])"
      using draft_from_ok [OF ensureDraftRevision_Inr [OF D]] assms(3) by (simp add: store_ok_def)
    then have same: "tb_revisions (pg_tables d') = tb_revisions (pg_tables d0)"
      using assms(5) [OF f] 2(2) by (simp add: edits_def)
    have "pg_sequence d0 \<le> pg_sequence d'" using assms(2) [of D] f 2(3) unfolding seq.keeps_def by (metis snd_conv)
    with ensureDraftRevision_number [OF D] revs same seq assms(4) show ?thesis
      by (fastforce simp: revisions_ok_def revisions_with_def draft_row_def)
  qed
qed

section \<open>The token\<close>

definition runtime_token :: "tables \<Rightarrow> int option" where
  "runtime_token T = (if revisions_with ''active'' T = {} then None
     else Some (Max (vn_number ` revisions_with ''active'' T) + tb_generation T))"

text \<open>The first of rows that are ordered.\<close>

lemma set_insert_by [simp]: "set (insert_by le x xs) = insert x (set xs)"
  by (induction xs) auto

lemma insert_by_head:
  assumes "\<And>x y. le x y \<or> le y x" "\<And>x y z. le x y \<Longrightarrow> le y z \<Longrightarrow> le x z" "\<forall>y \<in> set ys. le (hd ys) y"
  shows "\<forall>y \<in> set (insert_by le x ys). le (hd (insert_by le x ys)) y"
proof (cases ys)
  case Nil
  then show ?thesis using assms(1) [of x x] by simp
next
  case (Cons a as)
  show ?thesis
  proof (cases "le x a")
    case True
    then have "le x y" if "y \<in> set ys" for y using assms(2) [of x a y] assms(3) that Cons by auto
    then show ?thesis using True Cons assms(1) [of x x] by simp
  next
    case False
    then have "le a x" using assms(1) by blast
    then show ?thesis using False Cons assms(3) by simp
  qed
qed

lemma order_by_head:
  assumes "\<And>x y. le x y \<or> le y x" "\<And>x y z. le x y \<Longrightarrow> le y z \<Longrightarrow> le x z"
  shows "\<forall>y \<in> set (order_by le xs). le (hd (order_by le xs)) y"
proof (induction xs)
  case (Cons x xs)
  from insert_by_head [OF assms Cons] show ?case by (simp add: order_by_def)
qed (simp add: order_by_def)

lemma with_status_newest:
  assumes "with_status status d = x # xs"
  shows "x \<in> revisions_with status (pg_tables d) \<and> vn_number x = Max (vn_number ` revisions_with status (pg_tables d))"
proof -
  have mem: "x \<in> revisions_with status (pg_tables d)" using assms set_with_status [of status d] by auto
  have "\<forall>y \<in> set (with_status status d). newest_first (hd (with_status status d)) y"
    unfolding with_status_def by (rule order_by_head) (auto simp: newest_first_def)
  then have "\<forall>y \<in> revisions_with status (pg_tables d). vn_number y \<le> vn_number x"
    using assms by (simp add: newest_first_def flip: set_with_status)
  moreover have "finite (revisions_with status (pg_tables d))" by (simp add: revisions_with_def)
  ultimately show ?thesis using mem by (auto intro!: Max_eqI [symmetric])
qed

lemma activeRevisionNumber_Inr:
  assumes "activeRevisionNumber d = (Inr n, d')"
  shows "runtime_token (pg_tables d) = Some n \<and> pg_tables d' = pg_tables d"
proof -
  obtain r d1 where r: "select_row (\<lambda>d. map (\<lambda>r. vn_number r + tb_generation (pg_tables d)) (with_status ''active'' d)) d = (Inr r, d1)"
    and rest: "(case r of NoRows \<Rightarrow> fail ErrActiveRevisionNotFound | RowError e \<Rightarrow> fail (Statement ''load active revision number'' e) | Row n \<Rightarrow> ret n) d1
      = (Inr n, d')"
    using assms unfolding activeRevisionNumber_def effect_Inr by blast
  then have "r = Row n" "d' = d1" by (auto simp: effect_Inr split: row_result.splits)
  with select_row_Inr [OF r] obtain x xs where "with_status ''active'' d = x # xs" "n = vn_number x + tb_generation (pg_tables d)" "pg_tables d' = pg_tables d"
    by auto
  with with_status_newest [of "''active''" d x xs] show ?thesis by (auto simp: runtime_token_def)
qed

text \<open>What an activation does to the revisions: the draft is active, and nothing else is.\<close>

text \<open>What an activation does to the revisions: the draft is active, and nothing else is.\<close>

definition activated :: "uuid \<Rightarrow> revision_row \<Rightarrow> revision_row \<Rightarrow> bool" where
  "activated D r r' \<longleftrightarrow> vn_id r' = vn_id r \<and> vn_number r' = vn_number r \<and>
     vn_status r' = (if vn_id r = D then ''active'' else if vn_status r = ''active'' then ''rejected'' else vn_status r)"

text \<open>An operation that leaves the revisions, the generation and the clients, and the integrity of the store.\<close>

definition beside :: "tables \<Rightarrow> tables \<Rightarrow> bool" where
  "beside T T' \<longleftrightarrow> tb_revisions T' = tb_revisions T \<and> tb_generation T' = tb_generation T \<and> tb_clients T' = tb_clients T \<and>
     (distinct_ids T \<and> linked T \<longrightarrow> distinct_ids T' \<and> linked T')"

lemma beside_refl [simp]: "beside T T"
  by (simp add: beside_def)

lemma beside_trans: "beside T T' \<Longrightarrow> beside T' T'' \<Longrightarrow> beside T T''"
  by (simp add: beside_def)

lemma reads_Inr: "reads m \<Longrightarrow> m d = (Inr x, d') \<Longrightarrow> pg_tables d' = pg_tables d"
  unfolding reads_def by (metis snd_conv)

lemma row_result_Inr:
  "(case r of Row x \<Rightarrow> g x | NoRows \<Rightarrow> z | RowError e \<Rightarrow> h e) s = (Inr y, s') \<longleftrightarrow>
     (\<exists>x. r = Row x \<and> g x s = (Inr y, s')) \<or> (r = NoRows \<and> z s = (Inr y, s')) \<or> (\<exists>e. r = RowError e \<and> h e s = (Inr y, s'))"
  by (cases r) auto

lemma ActivateDraftRevision_body:
  assumes "and_then latestDraftRevisionID (\<lambda>revisionID. f revisionID) d = (Inr res, d')"
  shows "\<exists>D d1. D \<in> vn_id ` revisions_with ''draft'' (pg_tables d) \<and> f D d1 = (Inr res, d') \<and> pg_tables d1 = pg_tables d"
  using assms unfolding latestDraftRevisionID_def effect_Inr
  by (fastforce simp: effect_Inr row_result_Inr dest!: select_row_cases)

lemma reads_LoadBundlesByKeys: "reads (LoadBundlesByKeys K D keys)"
  by (auto simp: LoadBundlesByKeys_def hydratePolicyBundles_def hydratePolicyBundleDetectors_def hydratePolicyBundleRules_def
      hydratePolicyRuleDetectorKeys_def hydratePolicyRuleScopes_def Let_def split: prod.split)

lemma bundle_hooks_beside:
  "run_hook (ah_ValidateDraft (bundle_hooks K keys)) D d = (Inr u, d') \<Longrightarrow> beside (pg_tables d) (pg_tables d')"
  "run_hook (ah_BeforeActivation (bundle_hooks K keys)) D d = (Inr u, d') \<Longrightarrow> beside (pg_tables d) (pg_tables d')"
  "run_hook (ah_RecordActivation (bundle_hooks K keys)) r d = (Inr u, d') \<Longrightarrow> beside (pg_tables d) (pg_tables d')"
proof -
  have "reads (run_hook (ah_ValidateDraft (bundle_hooks K keys)) D)"
    unfolding run_hook_def bundle_hooks_def by (auto intro!: reads_LoadBundlesByKeys)
  then show "run_hook (ah_ValidateDraft (bundle_hooks K keys)) D d = (Inr u, d') \<Longrightarrow> beside (pg_tables d) (pg_tables d')"
    using reads_Inr by fastforce
  have ids: "map bw_id (map (\<lambda>r. if bw_revision r = D then r\<lparr>bw_enabled := bw_name r \<in> set keys\<rparr> else r) rs) = map bw_id rs" for rs
    by (induction rs) auto
  show "run_hook (ah_BeforeActivation (bundle_hooks K keys)) D d = (Inr u, d') \<Longrightarrow> beside (pg_tables d) (pg_tables d')"
    by (auto simp: run_hook_def bundle_hooks_def UpdateDraftBundleActivation_def update_tables_def beside_def distinct_ids_def linked_def ids
        simp del: map_map dest!: run_statement_Inr)
qed (auto simp: run_hook_def bundle_hooks_def RecordActivation_def update_tables_def beside_def distinct_ids_def linked_def dest!: run_statement_Inr)

lemma record_snapshot_beside:
  assumes "record_snapshot D h d = (Inr i, d')"
  shows "beside (pg_tables d) (pg_tables d')"
  using assms
  by (auto simp: record_snapshot_def upsert_row_def insert_row_def Let_def beside_def distinct_ids_def linked_def
      split: list.splits if_splits dest!: run_statement_Inr)

lemma status_steps:
  "deactivate_previous d = (Inr u, d') \<Longrightarrow>
     pg_tables d' = tb_revisions_update (map (\<lambda>r. if vn_status r = ''active'' then r\<lparr>vn_status := ''rejected''\<rparr> else r)) (pg_tables d)"
  "activate_revision D a h d = (Inr u, d') \<Longrightarrow>
     \<exists>t. pg_tables d' = tb_revisions_update (map (\<lambda>r. if vn_id r = D then r\<lparr>vn_status := ''active'', vn_actor := a, vn_validation_status := ''valid'',
        vn_hash := h, vn_activated_at := Some t\<rparr> else r)) (pg_tables d)"
  by (auto simp: deactivate_previous_def activate_revision_def dest!: run_statement_Inr)

text \<open>An activation, apart from the statuses, is beside the revisions.\<close>

definition activates :: "uuid \<Rightarrow> tables \<Rightarrow> tables \<Rightarrow> bool" where
  "activates D T T' \<longleftrightarrow> D \<in> vn_id ` revisions_with ''draft'' T \<and> list_all2 (activated D) (tb_revisions T) (tb_revisions T') \<and>
     tb_generation T' = tb_generation T \<and> tb_clients T' = tb_clients T \<and> (distinct_ids T \<and> linked T \<longrightarrow> distinct_ids T' \<and> linked T')"

definition activation_of :: "detector_codec \<Rightarrow> BundleActivationRequest \<Rightarrow> uuid \<Rightarrow> RevisionActivationResult db" where
  "activation_of K request D =
     (let hooks = bundle_hooks K (baq_Keys request); h = baq_SnapshotHash request;
          actor = (if baq_Actor request = [] then ''system'' else baq_Actor request)
      in and_then (run_hook (ah_ValidateDraft hooks) D) (\<lambda>_.
         if h = [] then fail (Message ''activate draft revision: snapshot hash is required'' [])
         else and_then (run_hook (ah_BeforeActivation hooks) D) (\<lambda>_. and_then (record_snapshot D h) (\<lambda>snapshotID.
           and_then deactivate_previous (\<lambda>_. and_then (activate_revision D actor h) (\<lambda>_.
           and_then (run_hook (ah_RecordActivation hooks)
             \<lparr>acr_RevisionID = D, acr_SnapshotID = snapshotID, acr_Actor = actor, acr_Reason = baq_Reason request\<rparr>) (\<lambda>_.
           and_then activeRevisionNumber (\<lambda>n. ret \<lparr>rar_RevisionNumber = n, rar_SnapshotHash = h\<rparr>))))))))"

lemma repo_ActivatePolicyBundles_eq:
  "repo_ActivatePolicyBundles K request =
     and_then (transaction ''begin activate draft revision transaction'' ''commit activate draft revision transaction''
       (and_then latestDraftRevisionID (activation_of K request)))
     (\<lambda>result. ret \<lparr>bas_RevisionNumber = rar_RevisionNumber result, bas_SnapshotHash = rar_SnapshotHash result, bas_ActiveKeys = baq_Keys request\<rparr>)"
  unfolding repo_ActivatePolicyBundles_def ActivateDraftRevision_def activation_of_def [abs_def] Let_def ActivationRequest.select_convs
  by (rule refl)

lemma activation_body:
  assumes "activation_of K request D d1 = (Inr r, d9)" "D \<in> vn_id ` revisions_with ''draft'' (pg_tables d1)"
  shows "activates D (pg_tables d1) (pg_tables d9) \<and> runtime_token (pg_tables d9) = Some (rar_RevisionNumber r)"
proof -
  define keys h where "keys = baq_Keys request" and "h = baq_SnapshotHash request"
  define actor where "actor = (if baq_Actor request = [] then ''system'' else baq_Actor request)"
  obtain u2 d2 u3 d3 i d4 u5 d5 u6 d6 u7 d7 n where steps: "run_hook (ah_ValidateDraft (bundle_hooks K keys)) D d1 = (Inr u2, d2)"
      "run_hook (ah_BeforeActivation (bundle_hooks K keys)) D d2 = (Inr u3, d3)" "record_snapshot D h d3 = (Inr i, d4)"
    and flip: "deactivate_previous d4 = (Inr u5, d5)" "activate_revision D actor h d5 = (Inr u6, d6)"
    and hook: "run_hook (ah_RecordActivation (bundle_hooks K keys))
      \<lparr>acr_RevisionID = D, acr_SnapshotID = i, acr_Actor = actor, acr_Reason = baq_Reason request\<rparr> d6 = (Inr u7, d7)"
    and number: "activeRevisionNumber d7 = (Inr n, d9)" "rar_RevisionNumber r = n"
    using assms(1) by (auto simp: activation_of_def Let_def effect_Inr keys_def h_def actor_def split: if_splits)
  have before: "beside (pg_tables d1) (pg_tables d4)"
    using bundle_hooks_beside(1) [OF steps(1)] bundle_hooks_beside(2) [OF steps(2)] record_snapshot_beside [OF steps(3)] beside_trans by blast
  note after = bundle_hooks_beside(3) [OF hook] activeRevisionNumber_Inr [OF number(1)]
  obtain t where T6: "pg_tables d6 = tb_revisions_update (map (\<lambda>r. if vn_id r = D then r\<lparr>vn_status := ''active'', vn_actor := actor,
      vn_validation_status := ''valid'', vn_hash := h, vn_activated_at := Some t\<rparr> else r)) (pg_tables d5)"
    using status_steps(2) [OF flip(2)] by blast
  note T5 = status_steps(1) [OF flip(1)]
  have "list_all2 (activated D) (tb_revisions (pg_tables d1)) (tb_revisions (pg_tables d6))"
    using before unfolding T6 T5 by (auto simp: beside_def activated_def list_all2_map2 intro!: list_all2_refl)
  moreover have "tb_generation (pg_tables d6) = tb_generation (pg_tables d1)" "tb_clients (pg_tables d6) = tb_clients (pg_tables d1)"
    "distinct_ids (pg_tables d1) \<and> linked (pg_tables d1) \<longrightarrow> distinct_ids (pg_tables d6) \<and> linked (pg_tables d6)"
    using before unfolding T6 T5 by (auto simp: beside_def distinct_ids_def linked_def)
  ultimately show ?thesis using after assms(2) number(2) by (auto simp: activates_def beside_def)
qed

lemma activation_steps:
  assumes "repo_ActivatePolicyBundles K request d = (r, d')"
  shows "pg_tables d' = pg_tables d \<and> (\<exists>e. r = Inl e) \<or>
    (\<exists>D. activates D (pg_tables d) (pg_tables d') \<and> (\<forall>res. r = Inr res \<longrightarrow> runtime_token (pg_tables d') = Some (bas_RevisionNumber res)))"
proof -
  obtain q where q: "transaction ''begin activate draft revision transaction'' ''commit activate draft revision transaction''
      (and_then latestDraftRevisionID (activation_of K request)) d = (q, d')"
    and r: "\<forall>e. q = Inl e \<longrightarrow> r = Inl e" "\<forall>x. q = Inr x \<longrightarrow> (\<exists>res. r = Inr res \<and> bas_RevisionNumber res = rar_RevisionNumber x)"
    using assms by (auto simp: repo_ActivatePolicyBundles_eq and_then_def ret_def split: prod.splits sum.splits)
  consider "pg_tables d' = pg_tables d \<and> (\<exists>e. q = Inl e)"
    | x d1 where "and_then latestDraftRevisionID (activation_of K request) (tick d) = (Inr x, d1)" "pg_tables d' = pg_tables d1" "q = Inr x \<or> (\<exists>e. q = Inl e)"
    using transaction_cases [OF q] by blast
  then show ?thesis
  proof cases
    case 1
    then show ?thesis using r(1) by blast
  next
    case (2 x d1)
    obtain D d0 where D: "D \<in> vn_id ` revisions_with ''draft'' (pg_tables d)" "pg_tables d0 = pg_tables d" and body: "activation_of K request D d0 = (Inr x, d1)"
      using ActivateDraftRevision_body [OF 2(1)] unfolding tick_simps(1) by blast
    have "activates D (pg_tables d) (pg_tables d') \<and> runtime_token (pg_tables d') = Some (rar_RevisionNumber x)"
      using activation_body [OF body] D 2(2) by simp
    then show ?thesis using r 2(3) by (intro disjI2 exI [of _ D]) auto
  qed
qed

lemma seq_activation [intro!, simp]: "seq.keeps (repo_ActivatePolicyBundles K request)"
proof -
  have reads: "seq.keeps (LoadBundlesByKeys K D keys)" for D keys
    by (auto simp: LoadBundlesByKeys_def hydratePolicyBundles_def hydratePolicyBundleDetectors_def hydratePolicyBundleRules_def
        hydratePolicyRuleDetectorKeys_def hydratePolicyRuleScopes_def Let_def intro!: keeps_intros split: prod.split)
  have hooks: "seq.keeps (run_hook (ah_ValidateDraft (bundle_hooks K keys)) D)" "seq.keeps (run_hook (ah_BeforeActivation (bundle_hooks K keys)) D)"
    "seq.keeps (run_hook (ah_RecordActivation (bundle_hooks K keys)) x)" for keys D x
    by (auto simp: run_hook_def bundle_hooks_def UpdateDraftBundleActivation_def RecordActivation_def update_tables_def intro!: keeps_intros reads)
  have "seq.keeps (activation_of K request D)" for D
    unfolding activation_of_def Let_def record_snapshot_def deactivate_previous_def activate_revision_def activeRevisionNumber_def
    by (auto intro!: keeps_intros hooks split: row_result.split)
  moreover have "seq.keeps latestDraftRevisionID"
    unfolding latestDraftRevisionID_def by (auto intro!: keeps_intros split: row_result.split)
  ultimately show ?thesis unfolding repo_ActivatePolicyBundles_eq by (intro keeps_intros seq.keeps_transaction) auto
qed

text \<open>An activation moves the token past every one before it.\<close>

lemma activates_revisions:
  assumes "activates D T T'" "distinct (map vn_id (tb_revisions T))"
  shows "revisions_with ''active'' T' \<noteq> {} \<and> (\<forall>r \<in> revisions_with ''active'' T'. \<exists>q \<in> revisions_with ''draft'' T. vn_id q = D \<and> vn_number r = vn_number q) \<and>
    (\<forall>r \<in> revisions_with ''draft'' T'. \<exists>q \<in> revisions_with ''draft'' T. vn_id q = vn_id r \<and> vn_id q \<noteq> D) \<and>
    map vn_number (tb_revisions T') = map vn_number (tb_revisions T) \<and> map vn_id (tb_revisions T') = map vn_id (tb_revisions T)"
proof -
  have rel: "list_all2 (activated D) (tb_revisions T) (tb_revisions T')" using assms(1) by (simp add: activates_def)
  obtain q where q: "q \<in> set (tb_revisions T)" "vn_id q = D" "vn_status q = ''draft''"
    using assms(1) by (auto simp: activates_def revisions_with_def)
  have from_old: "\<exists>r \<in> set (tb_revisions T). activated D r r'" if "r' \<in> set (tb_revisions T')" for r'
    using rel that by (auto simp: list_all2_conv_all_nth in_set_conv_nth) (metis nth_mem)
  obtain q' where "q' \<in> set (tb_revisions T')" "activated D q q'"
    using rel q(1) by (metis list_all2_conv_all_nth in_set_conv_nth)
  then have "q' \<in> revisions_with ''active'' T'" using q(2) by (simp add: activated_def revisions_with_def)
  moreover have "\<exists>q \<in> revisions_with ''draft'' T. vn_id q = D \<and> vn_number r = vn_number q" if r: "r \<in> revisions_with ''active'' T'" for r
  proof -
    obtain p where p: "p \<in> set (tb_revisions T)" "activated D p r" using from_old r by (auto simp: revisions_with_def)
    then have "vn_id p = D" using r by (auto simp: activated_def revisions_with_def split: if_splits)
    then have "p = q" using distinct_key [OF assms(2) p(1) q(1)] q(2) by simp
    then show ?thesis using p q by (intro bexI [of _ q]) (auto simp: activated_def revisions_with_def)
  qed
  moreover have "\<exists>q \<in> revisions_with ''draft'' T. vn_id q = vn_id r \<and> vn_id q \<noteq> D" if r: "r \<in> revisions_with ''draft'' T'" for r
  proof -
    obtain p where p: "p \<in> set (tb_revisions T)" "activated D p r" using from_old r by (auto simp: revisions_with_def)
    then show ?thesis using r by (intro bexI [of _ p]) (auto simp: activated_def revisions_with_def split: if_splits)
  qed
  moreover have "map vn_number (tb_revisions T') = map vn_number (tb_revisions T) \<and> map vn_id (tb_revisions T') = map vn_id (tb_revisions T)"
    using rel by (induction rule: list_all2_induct) (auto simp: activated_def)
  ultimately show ?thesis by blast
qed

text \<open>No token is at most any token.\<close>

definition token_le :: "int option \<Rightarrow> int option \<Rightarrow> bool" where
  "token_le x y \<longleftrightarrow> (case x of None \<Rightarrow> True | Some n \<Rightarrow> (case y of None \<Rightarrow> False | Some m \<Rightarrow> n \<le> m))"

lemma activation_token:
  assumes "activates D (pg_tables d) T'" "store_ok (pg_tables d)" "revisions_ok d" "runtime_token (pg_tables d) = Some n"
  shows "\<exists>m. runtime_token T' = Some m \<and> n < m"
proof -
  let ?T = "pg_tables d"
  note a = activates_revisions [OF assms(1)]
  have ids: "distinct (map vn_id (tb_revisions ?T))" using assms(2) by (simp add: store_ok_def)
  obtain r where r: "r \<in> revisions_with ''active'' T'" using a [OF ids] by blast
  then obtain q where q: "q \<in> revisions_with ''draft'' ?T" "vn_number r = vn_number q" using a [OF ids] by blast
  have old: "revisions_with ''active'' ?T \<noteq> {}" "n = Max (vn_number ` revisions_with ''active'' ?T) + tb_generation ?T"
    using assms(4) by (auto simp: runtime_token_def split: if_splits)
  have finite: "finite (revisions_with s U)" for s U by (simp add: revisions_with_def)
  have "Max (vn_number ` revisions_with ''active'' ?T) < vn_number q"
    using assms(3) q(1) old(1) finite by (auto simp: revisions_ok_def)
  moreover have "vn_number r \<le> Max (vn_number ` revisions_with ''active'' T')" using r finite by (intro Max_ge) auto
  moreover have "tb_generation T' = tb_generation ?T" using assms(1) by (simp add: activates_def)
  ultimately show ?thesis using r old(2) q(2) by (auto simp: runtime_token_def)
qed

lemma activation_ok:
  assumes "activates D (pg_tables d) (pg_tables d')" "store_ok (pg_tables d)" "revisions_ok d" "pg_sequence d \<le> pg_sequence d'"
  shows "store_ok (pg_tables d') \<and> revisions_ok d'"
proof -
  have ids: "distinct (map vn_id (tb_revisions (pg_tables d)))" using assms(2) by (simp add: store_ok_def)
  note a = activates_revisions [OF assms(1) ids]
  have "store_ok (pg_tables d')" using a assms(1,2) by (simp add: store_ok_def activates_def)
  moreover have "vn_number r \<le> pg_sequence d'" if "r \<in> set (tb_revisions (pg_tables d'))" for r
  proof -
    have "vn_number r \<in> set (map vn_number (tb_revisions (pg_tables d)))" using a that by (metis image_eqI list.set_map)
    then show ?thesis using assms(3,4) by (auto simp: revisions_ok_def)
  qed
  moreover have "revisions_with ''draft'' (pg_tables d') = {}"
  proof -
    obtain q where q: "q \<in> revisions_with ''draft'' (pg_tables d)" "vn_id q = D" using assms(1) by (auto simp: activates_def)
    have one: "p = q" if "p \<in> revisions_with ''draft'' (pg_tables d)" for p
      using assms(3) q(1) that unfolding revisions_ok_def by blast
    have "\<forall>r \<in> revisions_with ''draft'' (pg_tables d'). \<exists>p \<in> revisions_with ''draft'' (pg_tables d). vn_id p \<noteq> D" using a by blast
    then show ?thesis using one q(2) by blast
  qed
  ultimately show ?thesis by (simp add: revisions_ok_def)
qed

section \<open>Clients\<close>

text \<open>A client of a revision of the store is still there, and revoked if it was.\<close>

definition clients_kept :: "tables \<Rightarrow> tables \<Rightarrow> bool" where
  "clients_kept T T' \<longleftrightarrow> (\<forall>c \<in> set (tb_clients T). \<exists>c' \<in> set (tb_clients T').
     gcr_ID c' = gcr_ID c \<and> gcr_ExternalID c' = gcr_ExternalID c \<and>
     (gcr_Status c = ''revoked'' \<longrightarrow> gcr_Status c' = ''revoked'' \<and> gcr_RevokedAt c' = gcr_RevokedAt c))"

lemma clients_kept_refl [simp]: "tb_clients T' = tb_clients T \<Longrightarrow> clients_kept T T'"
  by (auto simp: clients_kept_def)

lemma clients_kept_trans: "clients_kept T T' \<Longrightarrow> clients_kept T' T'' \<Longrightarrow> clients_kept T T''"
  unfolding clients_kept_def by metis

text \<open>A change of the clients and of the generation.\<close>

definition client_step :: "tables \<Rightarrow> tables \<Rightarrow> bool" where
  "client_step T T' \<longleftrightarrow> clients_kept T T' \<and> tb_revisions T' = tb_revisions T \<and> (store_ok T \<longrightarrow> store_ok T')"

lemma BumpGeneration_Inr:
  assumes "BumpGeneration channel d = (Inr u, d')"
  shows "\<exists>ns. pg_tables d' = (pg_tables d)\<lparr>tb_generation := tb_generation (pg_tables d) + 1, tb_notifications := ns\<rparr>"
proof -
  obtain x d1 r d2 where 1: "or_fail ''bump gateway client generation'' (run_statement (\<lambda>d. Inr ((), tb_generation_update (\<lambda>g. g + 1) (pg_tables d)))) d
      = (Inr x, d1)" and 2: "select_row (\<lambda>d. map (\<lambda>r. vn_number r + tb_generation (pg_tables d)) (with_status ''active'' d)) d1 = (Inr r, d2)"
    and 3: "(case r of NoRows \<Rightarrow> ret () | RowError e \<Rightarrow> fail (Statement ''load active revision number'' e)
      | Row revisionNumber \<Rightarrow> or_fail ''notify gateway client generation''
          (run_statement (\<lambda>d. Inr ((), tb_notifications_update (\<lambda>ns. ns @ [(channel, FormatInt revisionNumber)]) (pg_tables d))))) d2 = (Inr u, d')"
    using assms unfolding BumpGeneration_def effect_Inr by blast
  have T2: "pg_tables d2 = tb_generation_update (\<lambda>g. g + 1) (pg_tables d)"
    using run_statement_Inr [OF 1] select_row_cases [OF 2] by auto
  show ?thesis
  proof (cases r)
    case (Row n)
    with 3 have "or_fail ''notify gateway client generation''
          (run_statement (\<lambda>d. Inr ((), tb_notifications_update (\<lambda>ns. ns @ [(channel, FormatInt n)]) (pg_tables d)))) d2 = (Inr u, d')" by simp
    from run_statement_Inr [OF this] T2 show ?thesis by (auto intro!: exI [of _ "tb_notifications (pg_tables d) @ [(channel, FormatInt n)]"])
  next
    case NoRows
    then show ?thesis using 3 T2 by (auto simp: effect_Inr intro!: exI [of _ "tb_notifications (pg_tables d)"])
  qed (use 3 in \<open>simp add: effect_Inr\<close>)
qed

lemma Client_Create_Inr:
  assumes "Client_Create client d = (Inr u, d')"
  shows "\<exists>c. pg_tables d' = tb_clients_update (\<lambda>cs. cs @ [c]) (pg_tables d)"
  using assms unfolding Client_Create_def Let_def effect_Inr
  by (auto simp: run_statement_def insert_row_def Let_def tick_def fail_def ret_def
      split: option.splits prod.splits sum.splits if_splits pg_error.splits)

lemma merge_client_kept:
  "gcr_ID (merge_client t r n) = gcr_ID r" "gcr_ExternalID (merge_client t r n) = gcr_ExternalID r"
  "gcr_Status r = ''revoked'' \<Longrightarrow> gcr_Status (merge_client t r n) = ''revoked'' \<and> gcr_RevokedAt (merge_client t r n) = gcr_RevokedAt r"
  by (auto simp: merge_client_def)

lemma clients_kept_map:
  assumes "\<And>c. gcr_ID (f c) = gcr_ID c \<and> gcr_ExternalID (f c) = gcr_ExternalID c \<and>
    (gcr_Status c = ''revoked'' \<longrightarrow> gcr_Status (f c) = ''revoked'' \<and> gcr_RevokedAt (f c) = gcr_RevokedAt c)"
  shows "clients_kept T (tb_clients_update (map f) T)"
  unfolding clients_kept_def
proof
  fix c assume "c \<in> set (tb_clients T)"
  then show "\<exists>c' \<in> set (tb_clients (tb_clients_update (map f) T)). gcr_ID c' = gcr_ID c \<and> gcr_ExternalID c' = gcr_ExternalID c \<and>
      (gcr_Status c = ''revoked'' \<longrightarrow> gcr_Status c' = ''revoked'' \<and> gcr_RevokedAt c' = gcr_RevokedAt c)"
    using assms by (intro bexI [of _ "f c"]) simp_all
qed

lemma Client_Upsert_Inr:
  assumes "Client_Upsert client d = (Inr u, d')"
  shows "clients_kept (pg_tables d) (pg_tables d') \<and> (\<exists>f. pg_tables d' = tb_clients_update f (pg_tables d))"
proof -
  let ?row = "client_row (default_status client) (pg_clock d (pg_step d))" and ?n = "client_row (default_status client) (pg_clock d (pg_step d)) (pg_uuid d (pg_step d))"
  obtain i T where T: "upsert_row tb_clients tb_clients_update gcr_ID (\<lambda>r n. gcr_ExternalID r = gcr_ExternalID n) client_clash
      (merge_client (pg_clock d (pg_step d))) ?row d = Inr (i, T)" and d': "pg_tables d' = T"
    using assms unfolding Client_Upsert_def Let_def effect_Inr by (auto dest!: run_statement_Inr)
  have "T = tb_clients_update (map (\<lambda>q. if gcr_ExternalID q = gcr_ExternalID ?n then merge_client (pg_clock d (pg_step d)) q ?n else q)) (pg_tables d) \<or>
      T = tb_clients_update (\<lambda>cs. cs @ [?n]) (pg_tables d)"
    using T by (auto simp: upsert_row_def insert_row_def Let_def split: list.splits if_splits)
  then show ?thesis
  proof
    assume "T = tb_clients_update (\<lambda>cs. cs @ [?n]) (pg_tables d)"
    then show ?thesis using d' by (auto simp: clients_kept_def)
  next
    assume T: "T = tb_clients_update (map (\<lambda>q. if gcr_ExternalID q = gcr_ExternalID ?n then merge_client (pg_clock d (pg_step d)) q ?n else q)) (pg_tables d)"
    have "clients_kept (pg_tables d) T" unfolding T by (rule clients_kept_map) (simp add: merge_client_kept)
    then show ?thesis using T unfolding d' by auto
  qed
qed

lemma Client_Revoke_Inr:
  assumes "Client_Revoke i d = (Inr changed, d')"
  shows "clients_kept (pg_tables d) (pg_tables d') \<and> (\<exists>f. pg_tables d' = tb_clients_update f (pg_tables d))"
proof -
  have T': "pg_tables d' = tb_clients_update (map (\<lambda>r. if revocable i r then revoke_row (pg_clock d (pg_step d)) r else r)) (pg_tables d)"
    using run_statement_Inr [OF assms [unfolded Client_Revoke_def]] by auto
  have "clients_kept (pg_tables d) (pg_tables d')"
    unfolding T' by (rule clients_kept_map) (auto simp: revocable_def revoke_row_def)
  then show ?thesis using T' by blast
qed

section \<open>Every call of the repository\<close>

datatype store_call =
    Edit store_edit
  | Activate BundleActivationRequest
  | CreateClient GatewayClientRecord
  | UpsertClient GatewayClientRecord
  | RevokeClient string

fun run_call :: "detector_codec \<Rightarrow> store_call \<Rightarrow> unit db" where
  "run_call K (Edit e) = run_edit K e"
| "run_call K (Activate request) = and_then (repo_ActivatePolicyBundles K request) (\<lambda>_. ret ())"
| "run_call K (CreateClient client) = repo_CreateGatewayClient client"
| "run_call K (UpsertClient client) = repo_UpsertGatewayClient client"
| "run_call K (RevokeClient i) = repo_RevokeGatewayClient i"

text \<open>The calls one after the other, whatever each of them answers.\<close>

definition after_calls :: "detector_codec \<Rightarrow> store_call list \<Rightarrow> pg \<Rightarrow> pg" where
  "after_calls K calls d = foldl (\<lambda>d call. snd (run_call K call d)) d calls"

definition good :: "pg \<Rightarrow> bool" where
  "good d \<longleftrightarrow> store_ok (pg_tables d) \<and> revisions_ok d"

definition call_keeps :: "pg \<Rightarrow> pg \<Rightarrow> bool" where
  "call_keeps d d' \<longleftrightarrow> (good d \<longrightarrow> good d' \<and> token_le (runtime_token (pg_tables d)) (runtime_token (pg_tables d')) \<and>
     clients_kept (pg_tables d) (pg_tables d'))"

lemma token_le_refl [simp]: "token_le x x"
  by (simp add: token_le_def split: option.split)

lemma token_le_trans: "token_le x y \<Longrightarrow> token_le y z \<Longrightarrow> token_le x z"
  by (auto simp: token_le_def split: option.splits)

lemma call_keeps_trans: "call_keeps a b \<Longrightarrow> call_keeps b c \<Longrightarrow> call_keeps a c"
  using token_le_trans clients_kept_trans unfolding call_keeps_def by blast

text \<open>A transaction that leaves the tables as they were.\<close>

lemma call_keeps_same:
  assumes "pg_tables d' = pg_tables d" "pg_sequence d \<le> pg_sequence d'"
  shows "call_keeps d d'"
  using assms by (auto simp: call_keeps_def good_def revisions_ok_def)

lemma client_call_keeps:
  assumes "WithTransaction l (and_then m f) d = (r, d')" "seq.keeps (and_then m f)"
    and "\<And>e x e'. m e = (Inr x, e') \<Longrightarrow> clients_kept (pg_tables e) (pg_tables e') \<and> (\<exists>g. pg_tables e' = tb_clients_update g (pg_tables e))"
    and "\<And>x e u e'. f x e = (Inr u, e') \<Longrightarrow> pg_tables e' = pg_tables e \<or> (\<exists>ns. pg_tables e' = (pg_tables e)\<lparr>tb_generation := tb_generation (pg_tables e) + 1, tb_notifications := ns\<rparr>)"
  shows "call_keeps d d'"
proof -
  have seq: "pg_sequence d \<le> pg_sequence d'"
    using seq.keeps_transaction [OF assms(2)] assms(1) unfolding WithTransaction_def seq.keeps_def by (metis snd_conv)
  consider "pg_tables d' = pg_tables d" | u d1 where "and_then m f (tick d) = (Inr u, d1)" "pg_tables d' = pg_tables d1"
    using transaction_cases [OF assms(1) [unfolded WithTransaction_def]] by blast
  then show ?thesis
  proof cases
    case (2 u d1)
    then obtain x d0 where m: "m (tick d) = (Inr x, d0)" and f: "f x d0 = (Inr u, d1)" by (auto simp: effect_Inr)
    obtain g where kept: "clients_kept (pg_tables d) (pg_tables d0)" "pg_tables d0 = tb_clients_update g (pg_tables d)"
      using assms(3) [OF m] by auto
    have "clients_kept (pg_tables d0) (pg_tables d')" "tb_revisions (pg_tables d') = tb_revisions (pg_tables d)"
      "store_ok (pg_tables d) \<Longrightarrow> store_ok (pg_tables d')" "tb_generation (pg_tables d) \<le> tb_generation (pg_tables d')"
      using assms(4) [OF f] 2(2) kept(2) by (auto simp: store_ok_def distinct_ids_def linked_def)
    then show ?thesis
      using kept(1) clients_kept_trans seq
      by (auto simp: call_keeps_def good_def revisions_ok_def runtime_token_def token_le_def revisions_with_def)
  qed (simp add: call_keeps_same seq)
qed

text \<open>An edit leaves the token and the clients.\<close>

lemma edit_keeps:
  assumes "draft l f d = (r, d')" "\<And>D d x d'. f D d = (Inr x, d') \<Longrightarrow> edits D (pg_tables d) (pg_tables d')" "\<And>D. seq.keeps (f D)"
  shows "call_keeps d d'"
  unfolding call_keeps_def
proof
  assume good: "good d"
  then have ok: "store_ok (pg_tables d)" and revs: "revisions_ok d" by (auto simp: good_def)
  have "revisions_ok d'" by (rule draft_numbers [OF assms(1,3) ok revs assms(2)])
  moreover have "store_ok (pg_tables d') \<and> tb_clients (pg_tables d') = tb_clients (pg_tables d) \<and>
      revisions_with ''active'' (pg_tables d') = revisions_with ''active'' (pg_tables d) \<and> tb_generation (pg_tables d') = tb_generation (pg_tables d)"
    using draft_edits [OF assms(1,2) ok]
  proof
    assume "edited (pg_sequence d + 1) (pg_tables d) (pg_tables d')"
    then obtain D T1 where T1: "draft_from D (pg_sequence d + 1) (pg_tables d) T1" and T': "edits D T1 (pg_tables d')" "store_ok (pg_tables d')"
      and same: "same_outside D (pg_tables d) (pg_tables d')" by (auto simp: edited_def)
    have "tb_revisions (pg_tables d') = tb_revisions T1" using T'(1) draft_from_ok [OF T1 ok] by (simp add: edits_def)
    then have "revisions_with ''active'' (pg_tables d') = revisions_with ''active'' (pg_tables d)"
      using draft_from_ok [OF T1 ok] by (auto simp: revisions_with_def draft_row_def)
    with same T'(2) show ?thesis by (simp add: same_defs)
  next
    assume "pg_tables d' = pg_tables d \<and> (\<exists>e. r = Inl e)"
    with ok show ?thesis by simp
  qed
  ultimately show "good d' \<and> token_le (runtime_token (pg_tables d)) (runtime_token (pg_tables d')) \<and> clients_kept (pg_tables d) (pg_tables d')"
    by (simp add: good_def runtime_token_def)
qed

lemma run_edit_keeps: "run_edit K e d = (r, d') \<Longrightarrow> call_keeps d d'"
proof (cases e)
  case (PutBundle b)
  assume "run_edit K e d = (r, d')"
  with PutBundle show ?thesis by (intro edit_keeps [where f = "\<lambda>D. UpsertBundle K D b"]) (auto simp: repo_UpsertPolicyBundle_def UpsertBundle_edits)
next
  case (PutMapping m)
  assume "run_edit K e d = (r, d')"
  with PutMapping show ?thesis by (intro edit_keeps [where f = "\<lambda>D. UpsertModelMapping D m"]) (auto simp: repo_UpsertModelMapping_def table_edits)
next
  case (PutVerdict p)
  assume "run_edit K e d = (r, d')"
  with PutVerdict show ?thesis by (intro edit_keeps [where f = "\<lambda>D. UpsertVerdictProvider D p"]) (auto simp: repo_UpsertVerdictProvider_def table_edits)
next
  case (PutRouteLimit l)
  assume "run_edit K e d = (r, d')"
  with PutRouteLimit have "repo_UpsertRouteLimitPolicy l d = (r, d')" by simp
  then show ?thesis unfolding repo_UpsertRouteLimitPolicy_def
    by (rule edit_keeps) (auto simp: effect_Inr dest!: RouteIDForRevision_Inr table_edits)
next
  case (PutClientLimit l)
  assume "run_edit K e d = (r, d')"
  with PutClientLimit have "repo_UpsertClientRouteLimitOverride l d = (r, d')" by simp
  then show ?thesis unfolding repo_UpsertClientRouteLimitOverride_def
    by (rule edit_keeps) (auto simp: effect_Inr dest!: RouteIDForRevision_Inr table_edits)
next
  case (DeleteClientLimit c i)
  assume "run_edit K e d = (r, d')"
  with DeleteClientLimit have "repo_DeleteClientRouteLimitOverride c i d = (r, d')" by simp
  then show ?thesis unfolding repo_DeleteClientRouteLimitOverride_def
    by (rule edit_keeps) (auto simp: effect_Inr dest!: RouteIDForRevision_Inr table_edits)
qed

lemma activation_keeps:
  assumes "repo_ActivatePolicyBundles K request d = (r, d')"
  shows "call_keeps d d'"
proof -
  have seq: "pg_sequence d \<le> pg_sequence d'" using seq_activation [of K request] assms unfolding seq.keeps_def by (metis snd_conv)
  consider "pg_tables d' = pg_tables d" | D where "activates D (pg_tables d) (pg_tables d')" using activation_steps [OF assms] by blast
  then show ?thesis
  proof cases
    case (2 D)
    have "tb_clients (pg_tables d') = tb_clients (pg_tables d)" using 2 by (simp add: activates_def)
    moreover have "token_le (runtime_token (pg_tables d)) (runtime_token (pg_tables d'))" if "good d"
      using activation_token [OF 2] that by (cases "runtime_token (pg_tables d)") (fastforce simp: token_le_def good_def)+
    ultimately show ?thesis using activation_ok [OF 2 _ _ seq] by (simp add: call_keeps_def good_def)
  qed (simp add: call_keeps_same seq)
qed

lemma seq_clients [intro!, simp]: "seq.keeps (Client_Create c)" "seq.keeps (Client_Upsert c)" "seq.keeps (Client_Revoke i)" "seq.keeps bump"
  by (auto simp: Client_Create_def Client_Upsert_def Client_Revoke_def bump_def BumpGeneration_def Let_def intro!: keeps_intros
      split: sum.split pg_error.split row_result.split)

lemma client_calls_keep:
  "repo_CreateGatewayClient c d = (r, d') \<Longrightarrow> call_keeps d d'"
  "repo_UpsertGatewayClient c d = (r, d') \<Longrightarrow> call_keeps d d'"
  "repo_RevokeGatewayClient i d = (r, d') \<Longrightarrow> call_keeps d d'"
proof -
  have bumped: "\<exists>ns. pg_tables e' = (pg_tables e)\<lparr>tb_generation := tb_generation (pg_tables e) + 1, tb_notifications := ns\<rparr>"
    if "bump e = (Inr u, e')" for e u e' using BumpGeneration_Inr that by (simp add: bump_def)
  have created: "clients_kept (pg_tables e) (pg_tables e') \<and> (\<exists>g. pg_tables e' = tb_clients_update g (pg_tables e))"
    if "Client_Create c e = (Inr x, e')" for e x e' using Client_Create_Inr [OF that] by (auto simp: clients_kept_def)
  show "repo_CreateGatewayClient c d = (r, d') \<Longrightarrow> call_keeps d d'"
    unfolding repo_CreateGatewayClient_def
    by (erule client_call_keeps) (use created bumped in \<open>auto intro!: seq.keeps_and_then\<close>)
  show "repo_UpsertGatewayClient c d = (r, d') \<Longrightarrow> call_keeps d d'"
    unfolding repo_UpsertGatewayClient_def
    by (erule client_call_keeps) (use Client_Upsert_Inr bumped in \<open>auto intro!: seq.keeps_and_then\<close>)
  show "repo_RevokeGatewayClient i d = (r, d') \<Longrightarrow> call_keeps d d'"
    unfolding repo_RevokeGatewayClient_def
    by (erule client_call_keeps) (use Client_Revoke_Inr bumped in \<open>auto intro!: seq.keeps_and_then simp: effect_Inr split: if_splits\<close>)
qed

lemma run_call_keeps: "call_keeps d (snd (run_call K call d))"
proof -
  obtain r d' where run: "run_call K call d = (r, d')" by fastforce
  have "call_keeps d d'"
  proof (cases call)
    case (Activate request)
    obtain q e where q: "repo_ActivatePolicyBundles K request d = (q, e)" by fastforce
    with run Activate have "e = d'" by (auto simp: and_then_def ret_def split: sum.splits)
    then show ?thesis using activation_keeps [OF q] by simp
  qed (use run run_edit_keeps client_calls_keep in auto)
  then show ?thesis by (simp add: run)
qed

text \<open>And so does every run of calls.\<close>

lemma after_calls_keep: "call_keeps d (after_calls K calls d)"
  unfolding after_calls_def
proof (induction calls arbitrary: d)
  case Nil
  show ?case by (simp add: call_keeps_def)
next
  case (Cons call calls)
  show ?case using call_keeps_trans [OF run_call_keeps Cons] by simp
qed

end
