(* ===== verification/ControlStore.thy ===== *)
theory ControlStore
  imports ConfigStore Control
begin

text \<open>
  \<open>internal/contexts/control/adapters/postgres\<close>: the control plane's repository over PostgreSQL.  Names of routes and
  providers become their uuids in the revision that is current when the request arrives.
\<close>

section \<open>Errors and codecs\<close>

datatype control_store_error =
    StoreFailed store_error
  | PostgresClientNotFound
  | PostgresClientAlreadyExists
  | NameNotFound string string
  | ClientIDNotGenerated
  | KeyNotGenerated key_error
  | MappingParametersNotEncoded
  | MappingParametersNotDecoded
  | ActivePolicyNotCompiled compile_error

type_synonym 'a store_op = "(pg, control_store_error, 'a) effect"

definition store :: "'a db \<Rightarrow> 'a store_op" where
  "store m = (\<lambda>d. case m d of (Inl e, d') \<Rightarrow> (Inl (StoreFailed e), d') | (Inr x, d') \<Rightarrow> (Inr x, d'))"

text \<open>The same, with an absent configuration as \<open>None\<close>.\<close>

definition store_if_active :: "'a db \<Rightarrow> 'a option store_op" where
  "store_if_active m = (\<lambda>d.
     case m d of
       (Inl e, d') \<Rightarrow> (if e = ErrActiveRevisionNotFound then Inr None else Inl (StoreFailed e), d')
     | (Inr x, d') \<Rightarrow> (Inr (Some x), d'))"

record modelMappingParams =
  mp_RouteKey :: string
  mp_Provider :: string
  mp_Enabled :: bool

text \<open>\<open>encoding/json\<close> on the parameters of a mapping: the text of an object, and the object a text decodes to over a
  value that is there.  The random source gives ids until it fails.\<close>

record store_env =
  se_compiler :: policy_compiler
  se_detectors :: detector_codec
  se_marshalParams :: "modelMappingParams \<Rightarrow> string option"
  se_unmarshalParams :: "string \<Rightarrow> modelMappingParams \<Rightarrow> modelMappingParams option"
  se_ids :: "nat \<Rightarrow> string list"
  se_rand :: "nat \<Rightarrow> (nat \<Rightarrow> string option) \<times> (nat \<Rightarrow> string option)"

section \<open>Lookups\<close>

definition routeNamesByID :: "RouteRecord list \<Rightarrow> (uuid \<rightharpoonup> string)" where
  "routeNamesByID routes = foldl (\<lambda>m r. m(rtr_ID r \<mapsto> rtr_Name r)) Map.empty routes"

definition providerNamesByID :: "ProviderRecord list \<Rightarrow> (uuid \<rightharpoonup> string)" where
  "providerNamesByID providers = foldl (\<lambda>m p. m(pvr_ID p \<mapsto> pvr_Name p)) Map.empty providers"

definition routeIDsByName :: "RouteRecord list \<Rightarrow> (string \<rightharpoonup> uuid)" where
  "routeIDsByName routes = foldl (\<lambda>m r. m(rtr_Name r \<mapsto> rtr_ID r)) Map.empty routes"

definition providerIDsByName :: "ProviderRecord list \<Rightarrow> (string \<rightharpoonup> uuid)" where
  "providerIDsByName providers = foldl (\<lambda>m p. m(pvr_Name p \<mapsto> pvr_ID p)) Map.empty providers"

definition clientIDsByExternalID :: "GatewayClientRecord list \<Rightarrow> (string \<rightharpoonup> uuid)" where
  "clientIDsByExternalID clients = foldl (\<lambda>m c. m(gcr_ExternalID c \<mapsto> gcr_ID c)) Map.empty clients"

definition clientExternalIDsByID :: "GatewayClientRecord list \<Rightarrow> (uuid \<rightharpoonup> string)" where
  "clientExternalIDsByID clients = foldl (\<lambda>m c. m(gcr_ID c \<mapsto> gcr_ExternalID c)) Map.empty clients"

definition requiredClientIDByExternalID :: "string \<Rightarrow> GatewayClientRecord list \<Rightarrow> control_store_error + uuid" where
  "requiredClientIDByExternalID externalID clients =
     (case clientIDsByExternalID clients externalID of None \<Rightarrow> Inl PostgresClientNotFound | Some i \<Rightarrow> Inr i)"

definition requiredIDByName :: "string \<Rightarrow> (string \<rightharpoonup> uuid) \<Rightarrow> string \<Rightarrow> control_store_error + uuid" where
  "requiredIDByName name ids kind = (case ids name of None \<Rightarrow> Inl (NameNotFound kind name) | Some i \<Rightarrow> Inr i)"

definition optionalIDByName :: "string \<Rightarrow> (string \<rightharpoonup> uuid) \<Rightarrow> string \<Rightarrow> control_store_error + uuid" where
  "optionalIDByName name ids kind = (if name = [] then Inr [] else requiredIDByName name ids kind)"

text \<open>A missing name in a Go map is the empty string.\<close>

definition name_in :: "('k \<rightharpoonup> string) \<Rightarrow> 'k \<Rightarrow> string" where
  "name_in m k = (case m k of None \<Rightarrow> [] | Some s \<Rightarrow> s)"

section \<open>Policy bundles\<close>

definition scope_from_postgres :: "(uuid \<rightharpoonup> string) \<Rightarrow> (uuid \<rightharpoonup> string) \<Rightarrow> RuleScopeRecord list \<Rightarrow> ControlScope" where
  "scope_from_postgres routeNames providerNames scopes =
     (case scopes of
        [] \<Rightarrow> \<lparr>cs_RouteKey = [], cs_Provider = [], cs_Model = [], cs_Direction = []\<rparr>
      | scope # _ \<Rightarrow>
          \<lparr>cs_RouteKey = name_in routeNames (rsr_RouteID scope), cs_Provider = name_in providerNames (rsr_ProviderID scope),
           cs_Model = rsr_Model scope, cs_Direction = rsr_Direction scope\<rparr>)"

definition policyBundleFromPostgres :: "BundleRecord \<Rightarrow> (uuid \<rightharpoonup> string) \<Rightarrow> (uuid \<rightharpoonup> string) \<Rightarrow> PolicyBundle" where
  "policyBundleFromPostgres bundle routeNames providerNames =
     \<lparr>pb_Key = bdr_Key bundle, pb_Version = bdr_Version bundle, pb_Source = bdr_Source bundle,
      pb_DefaultAction = (if bdr_DefaultAction bundle = [] then ActionAllow else bdr_DefaultAction bundle),
      pb_Detectors = map (\<lambda>d. \<lparr>cd_Key = dtr_Key d, cd_Kind = dtr_Kind d, cd_Pattern = dtr_Pattern d, cd_Categories = dtr_Categories d\<rparr>)
        (bdr_Detectors bundle),
      pb_Rules = map (\<lambda>r. \<lparr>cr_Key = rlr_Key r, cr_Enabled = rlr_Enabled r, cr_Severity = rlr_Severity r, cr_Action = rlr_Action r,
        cr_DetectorKeys = rlr_DetectorKeys r, cr_Scope = scope_from_postgres routeNames providerNames (rlr_Scopes r)\<rparr>) (bdr_Rules bundle)\<rparr>"

definition scopes_to_postgres :: "ControlScope \<Rightarrow> (string \<rightharpoonup> uuid) \<Rightarrow> (string \<rightharpoonup> uuid) \<Rightarrow> control_store_error + RuleScopeRecord list" where
  "scopes_to_postgres scope routeIDs providerIDs =
     (if cs_RouteKey scope \<noteq> [] \<or> cs_Provider scope \<noteq> [] \<or> cs_Direction scope \<noteq> [] \<or> cs_Model scope \<noteq> [] then
        (case optionalIDByName (cs_RouteKey scope) routeIDs ''route'' of
           Inl e \<Rightarrow> Inl e
         | Inr routeID \<Rightarrow>
             (case optionalIDByName (cs_Provider scope) providerIDs ''provider'' of
                Inl e \<Rightarrow> Inl e
              | Inr providerID \<Rightarrow>
                  Inr [\<lparr>rsr_RouteID = routeID, rsr_ProviderID = providerID, rsr_Model = cs_Model scope, rsr_Direction = cs_Direction scope\<rparr>]))
      else Inr [])"

fun rules_to_postgres :: "ControlRule list \<Rightarrow> (string \<rightharpoonup> uuid) \<Rightarrow> (string \<rightharpoonup> uuid) \<Rightarrow> control_store_error + RuleRecord list" where
  "rules_to_postgres [] routeIDs providerIDs = Inr []"
| "rules_to_postgres (rule # rules) routeIDs providerIDs =
     (case scopes_to_postgres (cr_Scope rule) routeIDs providerIDs of
        Inl e \<Rightarrow> Inl e
      | Inr scopes \<Rightarrow>
          (case rules_to_postgres rules routeIDs providerIDs of
             Inl e \<Rightarrow> Inl e
           | Inr out \<Rightarrow>
               Inr (\<lparr>rlr_ID = [], rlr_Key = cr_Key rule, rlr_Description = [], rlr_Enabled = cr_Enabled rule, rlr_Severity = cr_Severity rule,
                 rlr_Action = cr_Action rule, rlr_Priority = 0, rlr_Config = None, rlr_DetectorKeys = cr_DetectorKeys rule,
                 rlr_Scopes = scopes\<rparr> # out)))"

definition policyBundleToPostgres :: "PolicyBundle \<Rightarrow> (string \<rightharpoonup> uuid) \<Rightarrow> (string \<rightharpoonup> uuid) \<Rightarrow> control_store_error + BundleRecord" where
  "policyBundleToPostgres bundle routeIDs providerIDs =
     (case rules_to_postgres (pb_Rules bundle) routeIDs providerIDs of
        Inl e \<Rightarrow> Inl e
      | Inr rules \<Rightarrow>
          Inr \<lparr>bdr_ID = [], bdr_Key = pb_Key bundle, bdr_Version = pb_Version bundle, bdr_Source = pb_Source bundle, bdr_Description = [],
            bdr_DefaultAction = (if pb_DefaultAction bundle = [] then ActionAllow else pb_DefaultAction bundle), bdr_Enabled = True,
            bdr_Metadata = None,
            bdr_Detectors = map (\<lambda>d. \<lparr>dtr_ID = [], dtr_Key = cd_Key d, dtr_Kind = cd_Kind d, dtr_Pattern = cd_Pattern d,
              dtr_Categories = cd_Categories d, dtr_Config = None, dtr_Enabled = True\<rparr>) (pb_Detectors bundle),
            bdr_Rules = rules\<rparr>)"

definition postgres_ListPolicyBundles :: "store_env \<Rightarrow> PolicyBundle list store_op" where
  "postgres_ListPolicyBundles V =
     and_then (store_if_active (repo_ListPolicyBundles (se_detectors V)))
       (\<lambda>found. case found of
          None \<Rightarrow> ret []
        | Some bundles \<Rightarrow>
            and_then (store repo_ListRoutes) (\<lambda>routes.
            and_then (store repo_ListProviders) (\<lambda>providers.
              ret (map (\<lambda>b. policyBundleFromPostgres b (routeNamesByID routes) (providerNamesByID providers)) bundles))))"

definition or_empty :: "'a list option \<Rightarrow> 'a list" where
  "or_empty x = (case x of None \<Rightarrow> [] | Some xs \<Rightarrow> xs)"

definition postgres_CreatePolicyBundle :: "store_env \<Rightarrow> PolicyBundle \<Rightarrow> unit store_op" where
  "postgres_CreatePolicyBundle V bundle =
     and_then (store_if_active repo_ListRoutes) (\<lambda>routes.
     and_then (store_if_active repo_ListProviders) (\<lambda>providers.
     and_then (from_sum (policyBundleToPostgres bundle (routeIDsByName (or_empty routes)) (providerIDsByName (or_empty providers)))) (\<lambda>postgresBundle.
       store (repo_UpsertPolicyBundle (se_detectors V) postgresBundle))))"

definition postgres_ActivatePolicyBundles :: "store_env \<Rightarrow> PolicyActivationRequest \<Rightarrow> PolicyActivationResponse store_op" where
  "postgres_ActivatePolicyBundles V request =
     and_then
       (store (repo_ActivatePolicyBundles (se_detectors V)
         \<lparr>baq_Keys = ar_Keys request, baq_Actor = ''control-api'', baq_Reason = ar_Reason request, baq_SnapshotHash = ar_SnapshotHash request\<rparr>))
       (\<lambda>result. ret \<lparr>as_ActiveKeys = bas_ActiveKeys result, as_Hash = bas_SnapshotHash result, as_NotificationError = [],
          as_RevisionNumber = bas_RevisionNumber result\<rparr>)"

definition postgres_ConfigStatus :: "store_env \<Rightarrow> ConfigStatus store_op" where
  "postgres_ConfigStatus V =
     and_then (store_if_active (repo_LoadActiveConfigSnapshot (se_detectors V)))
       (\<lambda>found. case found of
          None \<Rightarrow> ret \<lparr>cs_ActivePolicyBundleKeys = [], cs_PolicySnapshotHash = []\<rparr>
        | Some cfg \<Rightarrow>
            (let dtos = map (\<lambda>b. policyBundleFromPostgres b (routeNamesByID (cfs_Routes cfg)) (providerNamesByID (cfs_Providers cfg)))
                   (filter bdr_Enabled (cfs_PolicyBundles cfg))
             in case compile_with (se_compiler V) (map ToPolicyBundle dtos) of
                  Inl e \<Rightarrow> fail (ActivePolicyNotCompiled e)
                | Inr snapshot \<Rightarrow>
                    ret \<lparr>cs_ActivePolicyBundleKeys = map pb_Key dtos, cs_PolicySnapshotHash = Hash (Some snapshot)\<rparr>))"

section \<open>Model mappings and verdict providers\<close>

fun mappings_from_postgres :: "store_env \<Rightarrow> ModelMappingRecord list \<Rightarrow> control_store_error + ModelMapping list" where
  "mappings_from_postgres V [] = Inr []"
| "mappings_from_postgres V (mapping # mappings) =
     (let zero = \<lparr>mp_RouteKey = [], mp_Provider = [], mp_Enabled = True\<rparr>;
          decoded = (case mmr_Parameters mapping of
             None \<Rightarrow> Some zero
           | Some raw \<Rightarrow> if raw = [] then Some zero else se_unmarshalParams V raw zero)
      in case decoded of
           None \<Rightarrow> Inl MappingParametersNotDecoded
         | Some params \<Rightarrow>
             (case mappings_from_postgres V mappings of
                Inl e \<Rightarrow> Inl e
              | Inr items \<Rightarrow>
                  Inr (\<lparr>mm_ID = mmr_Name mapping, mm_RouteKey = mp_RouteKey params, mm_Provider = mp_Provider params,
                    mm_Model = mmr_TargetModel mapping, mm_Enabled = mp_Enabled params\<rparr> # items)))"

definition postgres_ListModelMappings :: "store_env \<Rightarrow> ModelMapping list store_op" where
  "postgres_ListModelMappings V =
     and_then (store_if_active repo_ListModelMappings)
       (\<lambda>found. case found of None \<Rightarrow> ret [] | Some mappings \<Rightarrow> from_sum (mappings_from_postgres V mappings))"

definition postgres_PutModelMapping :: "store_env \<Rightarrow> ModelMapping \<Rightarrow> unit store_op" where
  "postgres_PutModelMapping V mapping =
     (case se_marshalParams V \<lparr>mp_RouteKey = mm_RouteKey mapping, mp_Provider = mm_Provider mapping, mp_Enabled = mm_Enabled mapping\<rparr> of
        None \<Rightarrow> fail MappingParametersNotEncoded
      | Some params \<Rightarrow>
          store (repo_UpsertModelMapping
            \<lparr>mmr_ID = [], mmr_Name = mm_ID mapping, mmr_SourceModel = mm_Model mapping, mmr_TargetProviderID = [],
             mmr_TargetModel = mm_Model mapping, mmr_Parameters = Some params\<rparr>))"

definition postgres_ListVerdictProviders :: "VerdictProvider list store_op" where
  "postgres_ListVerdictProviders =
     and_then (store_if_active repo_ListVerdictProviders)
       (\<lambda>found. ret (map (\<lambda>p. \<lparr>vp_ID = vpr_Name p, vp_Name = vpr_Name p, vp_Endpoint = vpr_Endpoint p,
          vp_CredentialRef = vpr_CredentialRef p, vp_Mode = ''inline'', vp_Enabled = vpr_Enabled p\<rparr>) (or_empty found)))"

fun firstNonEmpty :: "string list \<Rightarrow> string" where
  "firstNonEmpty [] = []"
| "firstNonEmpty (v # vs) = (if v \<noteq> [] then v else firstNonEmpty vs)"

definition postgres_PutVerdictProvider :: "VerdictProvider \<Rightarrow> unit store_op" where
  "postgres_PutVerdictProvider provider =
     store (repo_UpsertVerdictProvider
       \<lparr>vpr_ID = [], vpr_Name = firstNonEmpty [vp_Name provider, vp_ID provider], vpr_Adapter = ''http'', vpr_Endpoint = vp_Endpoint provider,
        vpr_CredentialRef = vp_CredentialRef provider, vpr_ModelName = [], vpr_Timeout = 0, vpr_AdapterConfig = None,
        vpr_RetryConfig = None, vpr_CircuitBreakerConfig = None, vpr_MaxConcurrency = 0, vpr_Enabled = vp_Enabled provider\<rparr>)"

section \<open>Clients\<close>

definition gatewayClientFromPostgres :: "GatewayClientRecord \<Rightarrow> GatewayClient" where
  "gatewayClientFromPostgres c =
     \<lparr>gc_ID = gcr_ExternalID c, gc_Name = gcr_Name c, gc_Status = gcr_Status c, gc_KeyPrefix = gcr_KeyPrefix c, gc_Notes = gcr_Notes c\<rparr>"

definition findGatewayClient :: "string \<Rightarrow> GatewayClientRecord store_op" where
  "findGatewayClient clientID =
     and_then (store repo_ListGatewayClients)
       (\<lambda>clients. case filter (\<lambda>c. gcr_ExternalID c = clientID \<or> gcr_ID c = clientID) clients of
          [] \<Rightarrow> fail PostgresClientNotFound
        | c # _ \<Rightarrow> ret c)"

text \<open>Whether a client is known, with every other error passed on.\<close>

definition client_known :: "string \<Rightarrow> bool store_op" where
  "client_known clientID = (\<lambda>d.
     case findGatewayClient clientID d of
       (Inl e, d') \<Rightarrow> (if e = PostgresClientNotFound then Inr False else Inl e, d')
     | (Inr _, d') \<Rightarrow> (Inr True, d'))"

text \<open>The ids the random source gives are tried until one is not known; the source fails when it has no more.\<close>

fun unused_id :: "string list \<Rightarrow> string store_op" where
  "unused_id [] = fail ClientIDNotGenerated"
| "unused_id (bytes # readings) =
     (let i = ''client-'' @ hex_encode bytes
      in and_then (client_known i) (\<lambda>known. if known then unused_id readings else ret i))"

definition client_id :: "store_env \<Rightarrow> CreateGatewayClientRequest \<Rightarrow> string store_op" where
  "client_id V request =
     (if cg_ID request \<noteq> [] then
        and_then (client_known (cg_ID request)) (\<lambda>known. if known then fail PostgresClientAlreadyExists else ret (cg_ID request))
      else and_then (get pg_step) (\<lambda>n. unused_id (se_ids V n)))"

definition insert_client :: "GatewayClientRecord \<Rightarrow> unit store_op" where
  "insert_client client = (\<lambda>d.
     case repo_CreateGatewayClient client d of
       (Inl e, d') \<Rightarrow> (Inl (if e = ErrAlreadyExists then PostgresClientAlreadyExists else StoreFailed e), d')
     | (Inr (), d') \<Rightarrow> (Inr (), d'))"

definition postgres_CreateGatewayClient :: "store_env \<Rightarrow> CreateGatewayClientRequest \<Rightarrow> CreateGatewayClientResponse store_op" where
  "postgres_CreateGatewayClient V request =
     and_then (client_id V request) (\<lambda>i.
     and_then (get pg_step) (\<lambda>n.
       case GenerateKey (pc_platform (se_compiler V)) (fst (se_rand V n)) (snd (se_rand V n)) i of
         Inl e \<Rightarrow> fail (KeyNotGenerated e)
       | Inr (key, material) \<Rightarrow>
           and_then (insert_client
             \<lparr>gcr_ID = [], gcr_ExternalID = i, gcr_Name = cg_Name request, gcr_Status = cg_Status request, gcr_KeyPrefix = km_Prefix material,
              gcr_KeyHash = km_Hash material, gcr_Notes = cg_Notes request, gcr_CreatedAt = 0, gcr_UpdatedAt = 0, gcr_RevokedAt = None\<rparr>) (\<lambda>_.
           and_then (findGatewayClient i) (\<lambda>persisted.
             if gcr_Status persisted \<noteq> cg_Status request then fail PostgresClientAlreadyExists
             else ret \<lparr>cg_Client = gatewayClientFromPostgres persisted, cg_Key = key\<rparr>))))"

definition postgres_ListGatewayClients :: "GatewayClient list store_op" where
  "postgres_ListGatewayClients = and_then (store repo_ListGatewayClients) (\<lambda>clients. ret (map gatewayClientFromPostgres clients))"

definition postgres_PatchGatewayClient :: "GatewayClient \<Rightarrow> GatewayClient store_op" where
  "postgres_PatchGatewayClient client =
     and_then (findGatewayClient (gc_ID client)) (\<lambda>existing.
     and_then (store (repo_UpsertGatewayClient
       (existing\<lparr>gcr_Name := gc_Name client, gcr_Status := gc_Status client, gcr_Notes := gc_Notes client\<rparr>))) (\<lambda>_.
     and_then (findGatewayClient (gc_ID client)) (\<lambda>persisted. ret (gatewayClientFromPostgres persisted))))"

definition postgres_RevokeGatewayClient :: "string \<Rightarrow> GatewayClient store_op" where
  "postgres_RevokeGatewayClient clientID =
     and_then (findGatewayClient clientID) (\<lambda>_.
     and_then (store (repo_RevokeGatewayClient clientID)) (\<lambda>_.
     and_then (findGatewayClient clientID) (\<lambda>client. ret (gatewayClientFromPostgres (client\<lparr>gcr_Status := StatusRevoked\<rparr>)))))"

section \<open>Limits\<close>

definition routeLimitFromPostgres :: "RoutePolicyRecord \<Rightarrow> (uuid \<rightharpoonup> string) \<Rightarrow> RouteLimit" where
  "routeLimitFromPostgres p routeNames =
     \<lparr>rl_RouteKey = name_in routeNames (rpr_RouteID p), rl_RequestsPerWindow = rpr_RequestsPerWindow p, rl_WindowSeconds = rpr_WindowSeconds p,
      rl_MaxConcurrentRequests = rpr_MaxConcurrentRequests p, rl_MaxBodyBytes = rpr_MaxBodyBytes p, rl_Enabled = rpr_Enabled p\<rparr>"

definition routeLimitToPostgres :: "RouteLimit \<Rightarrow> uuid \<Rightarrow> RoutePolicyRecord" where
  "routeLimitToPostgres l routeID =
     \<lparr>rpr_ID = [], rpr_RouteID = routeID, rpr_RequestsPerWindow = rl_RequestsPerWindow l, rpr_WindowSeconds = rl_WindowSeconds l,
      rpr_MaxConcurrentRequests = rl_MaxConcurrentRequests l, rpr_MaxBodyBytes = rl_MaxBodyBytes l, rpr_Enabled = rl_Enabled l\<rparr>"

definition clientRouteLimitFromPostgres :: "ClientRouteOverrideRecord \<Rightarrow> (uuid \<rightharpoonup> string) \<Rightarrow> (uuid \<rightharpoonup> string) \<Rightarrow> ClientRouteLimit" where
  "clientRouteLimitFromPostgres r routeNames clientExternalIDs =
     \<lparr>crl_ClientID = name_in clientExternalIDs (cor_ClientID r), crl_RouteKey = name_in routeNames (cor_RouteID r),
      crl_RequestsPerWindow = cor_RequestsPerWindow r, crl_WindowSeconds = cor_WindowSeconds r,
      crl_MaxConcurrentRequests = cor_MaxConcurrentRequests r, crl_MaxBodyBytes = cor_MaxBodyBytes r, crl_Enabled = cor_Enabled r\<rparr>"

definition clientRouteLimitToPostgres :: "ClientRouteLimit \<Rightarrow> uuid \<Rightarrow> uuid \<Rightarrow> ClientRouteOverrideRecord" where
  "clientRouteLimitToPostgres l clientID routeID =
     \<lparr>cor_ID = [], cor_ClientID = clientID, cor_RouteID = routeID, cor_RequestsPerWindow = crl_RequestsPerWindow l,
      cor_WindowSeconds = crl_WindowSeconds l, cor_MaxConcurrentRequests = crl_MaxConcurrentRequests l,
      cor_MaxBodyBytes = crl_MaxBodyBytes l, cor_Enabled = crl_Enabled l\<rparr>"

definition postgres_ListRouteLimits :: "RouteLimit list store_op" where
  "postgres_ListRouteLimits =
     and_then (store repo_ListRoutes) (\<lambda>routes.
     and_then (store repo_ListRouteLimitPolicies) (\<lambda>policies.
       ret (map (\<lambda>p. routeLimitFromPostgres p (routeNamesByID routes)) policies)))"

definition postgres_PutRouteLimit :: "RouteLimit \<Rightarrow> RouteLimit store_op" where
  "postgres_PutRouteLimit limit =
     and_then (store repo_ListRoutes) (\<lambda>routes.
     and_then (from_sum (requiredIDByName (rl_RouteKey limit) (routeIDsByName routes) ''route'')) (\<lambda>routeID.
     and_then (store (repo_UpsertRouteLimitPolicy (routeLimitToPostgres limit routeID))) (\<lambda>_.
       ret (routeLimitFromPostgres (routeLimitToPostgres limit routeID) (routeNamesByID routes)))))"

definition postgres_ListClientRouteLimits :: "string \<Rightarrow> ClientRouteLimit list store_op" where
  "postgres_ListClientRouteLimits clientID =
     and_then (store repo_ListGatewayClients) (\<lambda>clients.
     and_then (from_sum (requiredClientIDByExternalID clientID clients)) (\<lambda>postgresClientID.
     and_then (store repo_ListRoutes) (\<lambda>routes.
     and_then (store (repo_ListClientRouteLimitOverrides postgresClientID)) (\<lambda>overrides.
       ret (map (\<lambda>r. clientRouteLimitFromPostgres r (routeNamesByID routes) (clientExternalIDsByID clients)) overrides)))))"

definition postgres_PutClientRouteLimit :: "ClientRouteLimit \<Rightarrow> ClientRouteLimit store_op" where
  "postgres_PutClientRouteLimit limit =
     and_then (store repo_ListGatewayClients) (\<lambda>clients.
     and_then (from_sum (requiredClientIDByExternalID (crl_ClientID limit) clients)) (\<lambda>postgresClientID.
     and_then (store repo_ListRoutes) (\<lambda>routes.
     and_then (from_sum (requiredIDByName (crl_RouteKey limit) (routeIDsByName routes) ''route'')) (\<lambda>routeID.
     and_then (store (repo_UpsertClientRouteLimitOverride (clientRouteLimitToPostgres limit postgresClientID routeID))) (\<lambda>_.
       ret (clientRouteLimitFromPostgres (clientRouteLimitToPostgres limit postgresClientID routeID) (routeNamesByID routes)
         (clientExternalIDsByID clients)))))))"

definition postgres_DeleteClientRouteLimit :: "string \<Rightarrow> string \<Rightarrow> unit store_op" where
  "postgres_DeleteClientRouteLimit clientID routeKey =
     and_then (store repo_ListGatewayClients) (\<lambda>clients.
     and_then (from_sum (requiredClientIDByExternalID clientID clients)) (\<lambda>postgresClientID.
     and_then (store repo_ListRoutes) (\<lambda>routes.
     and_then (from_sum (requiredIDByName routeKey (routeIDsByName routes) ''route'')) (\<lambda>routeID.
       store (repo_DeleteClientRouteLimitOverride postgresClientID routeID)))))"

section \<open>The repository\<close>

definition postgres_repository :: "store_env \<Rightarrow> (control_store_error, pg) ControlRepository" where
  "postgres_repository V =
     \<lparr>cr_ConfigStatus = postgres_ConfigStatus V,
      cr_ListPolicyBundles = postgres_ListPolicyBundles V,
      cr_CreatePolicyBundle = postgres_CreatePolicyBundle V,
      cr_ActivatePolicyBundles = postgres_ActivatePolicyBundles V,
      cr_ListModelMappings = postgres_ListModelMappings V,
      cr_PutModelMapping = postgres_PutModelMapping V,
      cr_ListVerdictProviders = postgres_ListVerdictProviders,
      cr_PutVerdictProvider = postgres_PutVerdictProvider,
      cr_ListGatewayClients = postgres_ListGatewayClients,
      cr_CreateGatewayClient = postgres_CreateGatewayClient V,
      cr_PatchGatewayClient = postgres_PatchGatewayClient,
      cr_RevokeGatewayClient = postgres_RevokeGatewayClient,
      cr_ListRouteLimits = postgres_ListRouteLimits,
      cr_PutRouteLimit = postgres_PutRouteLimit,
      cr_ListClientRouteLimits = postgres_ListClientRouteLimits,
      cr_PutClientRouteLimit = postgres_PutClientRouteLimit,
      cr_DeleteClientRouteLimit = postgres_DeleteClientRouteLimit\<rparr>"

end
