(* ===== verification/RuntimeStore.thy ===== *)
theory RuntimeStore
  imports ConfigStore RuntimeTypes
begin

text \<open>
  \<open>internal/contexts/runtime/adapters/postgres\<close>: the active revision as the runtime configuration the gateway is compiled
  of.  References by uuid become the names of the records they refer to.
\<close>

section \<open>The aggregate\<close>

record postgresRuntimeConfig =
  prc_Revision :: ConfigRevision
  prc_Routes :: "RouteRecord list"
  prc_Providers :: "ProviderRecord list"
  prc_ModelMappings :: "ModelMappingRecord list"
  prc_VerdictProviders :: "VerdictProviderRecord list"
  prc_RouteVerdictProviderBindings :: "RouteVerdictProviderBindingRecord list"
  prc_PolicyBundles :: "BundleRecord list"
  prc_Sinks :: "SinkRecord list"
  prc_Retention :: "RetentionPolicyRecord list"
  prc_RawCapture :: "RawCapturePolicyRecord list"
  prc_GatewayClients :: "GatewayClientRecord list"
  prc_RouteLimitPolicies :: "RoutePolicyRecord list"
  prc_ClientRouteLimitOverrides :: "ClientRouteOverrideRecord list"

definition zero_runtime_config :: "ConfigRevision \<Rightarrow> postgresRuntimeConfig" where
  "zero_runtime_config revision =
     \<lparr>prc_Revision = revision, prc_Routes = [], prc_Providers = [], prc_ModelMappings = [], prc_VerdictProviders = [],
      prc_RouteVerdictProviderBindings = [], prc_PolicyBundles = [], prc_Sinks = [], prc_Retention = [], prc_RawCapture = [],
      prc_GatewayClients = [], prc_RouteLimitPolicies = [], prc_ClientRouteLimitOverrides = []\<rparr>"

definition loadRuntimeRouting :: "uuid \<Rightarrow> postgresRuntimeConfig \<Rightarrow> postgresRuntimeConfig db" where
  "loadRuntimeRouting revisionID cfg =
     and_then (LoadRoutes revisionID) (\<lambda>routes.
     and_then (LoadProviders revisionID) (\<lambda>providers.
     and_then (LoadModelMappings revisionID) (\<lambda>mappings.
     and_then (LoadVerdictProviders revisionID) (\<lambda>verdictProviders.
     and_then (LoadRouteVerdictProviderBindings revisionID) (\<lambda>bindings.
       ret (cfg\<lparr>prc_Routes := routes, prc_Providers := providers, prc_ModelMappings := mappings,
         prc_VerdictProviders := verdictProviders, prc_RouteVerdictProviderBindings := bindings\<rparr>))))))"

definition loadRuntimePolicy :: "detector_codec \<Rightarrow> uuid \<Rightarrow> postgresRuntimeConfig \<Rightarrow> postgresRuntimeConfig db" where
  "loadRuntimePolicy K revisionID cfg =
     and_then (LoadBundles K revisionID) (\<lambda>bundles. ret (cfg\<lparr>prc_PolicyBundles := bundles\<rparr>))"

definition loadRuntimeObservability :: "uuid \<Rightarrow> postgresRuntimeConfig \<Rightarrow> postgresRuntimeConfig db" where
  "loadRuntimeObservability revisionID cfg =
     and_then (LoadSinks revisionID) (\<lambda>sinks.
     and_then (LoadRetentionPolicies revisionID) (\<lambda>retention.
     and_then (LoadRawCapturePolicies revisionID) (\<lambda>rawCapture.
       ret (cfg\<lparr>prc_Sinks := sinks, prc_Retention := retention, prc_RawCapture := rawCapture\<rparr>))))"

definition loadRuntimeClientsAndLimits :: "uuid \<Rightarrow> postgresRuntimeConfig \<Rightarrow> postgresRuntimeConfig db" where
  "loadRuntimeClientsAndLimits revisionID cfg =
     and_then LoadGatewayClients (\<lambda>clients.
     and_then (LoadRoutePolicies revisionID) (\<lambda>routeLimits.
     and_then (LoadClientRouteOverrides revisionID []) (\<lambda>overrides.
       ret (cfg\<lparr>prc_GatewayClients := clients, prc_RouteLimitPolicies := routeLimits, prc_ClientRouteLimitOverrides := overrides\<rparr>))))"

definition loadPostgresRuntimeConfig :: "detector_codec \<Rightarrow> postgresRuntimeConfig db" where
  "loadPostgresRuntimeConfig K =
     WithActiveRevision (\<lambda>revision.
       and_then (loadRuntimeRouting (crv_ID revision) (zero_runtime_config revision)) (\<lambda>cfg.
       and_then (loadRuntimePolicy K (crv_ID revision) cfg) (\<lambda>cfg.
       and_then (loadRuntimeObservability (crv_ID revision) cfg) (\<lambda>cfg.
         loadRuntimeClientsAndLimits (crv_ID revision) cfg))))"

section \<open>Conversion\<close>

text \<open>\<open>encoding/json\<close> on the headers of a provider and on the parameters of a mapping.\<close>

record postgresModelMappingParams =
  pmp_RouteKey :: string
  pmp_Provider :: string
  pmp_Enabled :: "bool option"

record runtime_codec =
  rk_stringMap :: "string \<Rightarrow> (string \<times> string) list option"
  rk_params :: "string \<Rightarrow> postgresModelMappingParams option"

record postgresRuntimeLookups =
  lk_routeNames :: "uuid \<rightharpoonup> string"
  lk_clientExternalIDs :: "uuid \<rightharpoonup> string"
  lk_providerNames :: "uuid \<rightharpoonup> string"
  lk_verdictProviderNames :: "uuid \<rightharpoonup> string"
  lk_sinkNames :: "uuid \<rightharpoonup> string"
  lk_modelMappingsByID :: "uuid \<rightharpoonup> ModelMappingRecord"

definition index_records :: "('r \<Rightarrow> uuid) \<Rightarrow> ('r \<Rightarrow> 'v) \<Rightarrow> 'r list \<Rightarrow> (uuid \<rightharpoonup> 'v)" where
  "index_records key val rs = foldl (\<lambda>m r. m(key r \<mapsto> val r)) Map.empty rs"

definition newPostgresRuntimeLookups :: "postgresRuntimeConfig \<Rightarrow> postgresRuntimeLookups" where
  "newPostgresRuntimeLookups input =
     \<lparr>lk_routeNames = index_records rtr_ID rtr_Name (prc_Routes input),
      lk_clientExternalIDs = index_records gcr_ID gcr_ExternalID (prc_GatewayClients input),
      lk_providerNames = index_records pvr_ID pvr_Name (prc_Providers input),
      lk_verdictProviderNames = index_records vpr_ID vpr_Name (prc_VerdictProviders input),
      lk_sinkNames = index_records skr_ID skr_Name (prc_Sinks input),
      lk_modelMappingsByID = index_records mmr_ID id (prc_ModelMappings input)\<rparr>"

text \<open>A name that is not there is empty.\<close>

definition name_of :: "(uuid \<rightharpoonup> string) \<Rightarrow> uuid \<Rightarrow> string" where
  "name_of m i = (case m i of None \<Rightarrow> [] | Some s \<Rightarrow> s)"

fun first_given :: "string list \<Rightarrow> string" where
  "first_given [] = []"
| "first_given (v # vs) = (if v \<noteq> [] then v else first_given vs)"

definition convertPostgresRoutes :: "RouteRecord list \<Rightarrow> (uuid \<rightharpoonup> ModelMappingRecord) \<Rightarrow> RouteConfig list" where
  "convertPostgresRoutes input mappings =
     map (\<lambda>r. let m = mappings (rtr_ModelMappingID r);
                  source = (case m of None \<Rightarrow> [] | Some x \<Rightarrow> mmr_SourceModel x);
                  target = (case m of None \<Rightarrow> [] | Some x \<Rightarrow> mmr_TargetModel x)
              in \<lparr>rtc_Key = rtr_Name r, rtc_Method = rtr_Method r, rtc_Path = first_given [rtr_Path r, rtr_PathPrefix r],
                  rtc_ProviderKey = rtr_Provider r, rtc_RequestedModel = source, rtc_MappedModel = target,
                  rtc_UpstreamModel = first_given [target, rtr_UpstreamModel r], rtc_ExecutionMode = rtr_ExecutionMode r,
                  rtc_FallbackAction = rtr_FallbackAction r, rtc_Disabled = (\<not> rtr_Enabled r)\<rparr>) input"

datatype convert_error = HeadersNotDecoded string | ParametersNotDecoded string

definition decodeStringMap :: "runtime_codec \<Rightarrow> raw_json \<Rightarrow> (string \<times> string) list option" where
  "decodeStringMap J raw = (case raw of None \<Rightarrow> Some [] | Some s \<Rightarrow> if s = [] then Some [] else rk_stringMap J s)"

fun convertPostgresProviders :: "runtime_codec \<Rightarrow> ProviderRecord list \<Rightarrow> convert_error + ProviderConfig list" where
  "convertPostgresProviders J [] = Inr []"
| "convertPostgresProviders J (p # ps) =
     (case decodeStringMap J (pvr_Headers p) of
        None \<Rightarrow> Inl (HeadersNotDecoded (pvr_Name p))
      | Some headers \<Rightarrow>
          (case convertPostgresProviders J ps of
             Inl e \<Rightarrow> Inl e
           | Inr out \<Rightarrow>
               Inr (\<lparr>pvc_Key = pvr_Name p, pvc_BaseURL = pvr_BaseURL p, pvc_APIKey = [], pvc_CredentialRef = pvr_CredentialRef p,
                 pvc_Headers = headers, pvc_Timeout = pvr_Timeout p, pvc_Disabled = False\<rparr> # out)))"

definition decodeModelMappingParams :: "runtime_codec \<Rightarrow> raw_json \<Rightarrow> postgresModelMappingParams option" where
  "decodeModelMappingParams J raw =
     (let zero = \<lparr>pmp_RouteKey = [], pmp_Provider = [], pmp_Enabled = None\<rparr>
      in case raw of None \<Rightarrow> Some zero | Some s \<Rightarrow> if s = [] then Some zero else rk_params J s)"

fun convertPostgresModelMappings :: "runtime_codec \<Rightarrow> ModelMappingRecord list \<Rightarrow> (uuid \<rightharpoonup> string) \<Rightarrow> convert_error + ModelMappingConfig list" where
  "convertPostgresModelMappings J [] providerNames = Inr []"
| "convertPostgresModelMappings J (m # ms) providerNames =
     (case decodeModelMappingParams J (mmr_Parameters m) of
        None \<Rightarrow> Inl (ParametersNotDecoded (mmr_Name m))
      | Some params \<Rightarrow>
          (case convertPostgresModelMappings J ms providerNames of
             Inl e \<Rightarrow> Inl e
           | Inr out \<Rightarrow>
               Inr (\<lparr>mmc_Key = mmr_Name m, mmc_RouteKey = pmp_RouteKey params,
                 mmc_ProviderKey = first_given [pmp_Provider params, name_of providerNames (mmr_TargetProviderID m)],
                 mmc_RequestedModel = mmr_SourceModel m, mmc_MappedModel = mmr_TargetModel m, mmc_UpstreamModel = mmr_TargetModel m,
                 mmc_Disabled = (pmp_Enabled params = Some False)\<rparr> # out)))"

definition convertPostgresVerdictProviders :: "VerdictProviderRecord list \<Rightarrow> VerdictProviderConfig list" where
  "convertPostgresVerdictProviders input =
     map (\<lambda>p. \<lparr>vpc_Key = vpr_Name p, vpc_Name = vpr_Name p, vpc_Endpoint = vpr_Endpoint p, vpc_CredentialRef = vpr_CredentialRef p,
       vpc_Enabled = vpr_Enabled p, vpc_Timeout = vpr_Timeout p\<rparr>) input"

definition convertPostgresRouteVerdictProviderBindings ::
  "RouteVerdictProviderBindingRecord list \<Rightarrow> (uuid \<rightharpoonup> string) \<Rightarrow> (uuid \<rightharpoonup> string) \<Rightarrow> RouteVerdictProviderBindingConfig list" where
  "convertPostgresRouteVerdictProviderBindings bindings routeNames verdictProviderNames =
     map (\<lambda>b. \<lparr>rvb_RouteKey = name_of routeNames (rbr_RouteID b),
       rvb_VerdictProviderKey = name_of verdictProviderNames (rbr_VerdictProviderID b), rvb_ExecutionMode = rbr_ExecutionMode b,
       rvb_Disabled = (\<not> rbr_Enabled b), rvb_Priority = rbr_Priority b\<rparr>) bindings"

definition convertPostgresSinks :: "SinkRecord list \<Rightarrow> SinkConfig list" where
  "convertPostgresSinks input =
     map (\<lambda>s. \<lparr>skc_ID = skr_ID s, skc_Key = skr_Name s, skc_Kind = skr_Kind s, skc_Disabled = False,
       skc_Config = (case skr_Config s of None \<Rightarrow> [] | Some c \<Rightarrow> c)\<rparr>) (filter skr_Enabled input)"

definition convertPostgresRetentionPolicies :: "RetentionPolicyRecord list \<Rightarrow> (uuid \<rightharpoonup> string) \<Rightarrow> RetentionPolicyConfig list" where
  "convertPostgresRetentionPolicies policies sinkNames =
     map (\<lambda>p. \<lparr>rpc_ID = ror_ID p, rpc_Key = ror_Name p, rpc_SinkKey = name_of sinkNames (ror_SinkID p), rpc_EventType = ror_EventType p,
       rpc_RetentionDays = ror_RetentionDays p\<rparr>) policies"

definition convertPostgresRawCapturePolicies :: "RawCapturePolicyRecord list \<Rightarrow> (uuid \<rightharpoonup> string) \<Rightarrow> RawCaptureConfig list" where
  "convertPostgresRawCapturePolicies policies routeNames =
     map (\<lambda>c. \<lparr>rcc_ID = rcr_ID c, rcc_RouteKey = name_of routeNames (rcr_RouteID c), rcc_Direction = rcr_Direction c,
       rcc_Enabled = rcr_Enabled c, rcc_SampleRate = rcr_SampleRate c, rcc_RedactionMode = rcr_RedactionMode c\<rparr>) policies"

definition convertPostgresRule :: "RuleRecord \<Rightarrow> Scope \<Rightarrow> Rule" where
  "convertPostgresRule r scope =
     \<lparr>rule_Key = rlr_Key r, rule_Enabled = rlr_Enabled r, rule_Severity = rlr_Severity r, rule_Action = rlr_Action r,
      rule_DetectorKeys = rlr_DetectorKeys r, rule_Scope = scope\<rparr>"

text \<open>The rules of one stored rule: one for every scope, numbered from the second on.\<close>

definition scope_rule :: "RuleRecord \<Rightarrow> (uuid \<rightharpoonup> string) \<Rightarrow> (uuid \<rightharpoonup> string) \<Rightarrow> nat \<Rightarrow> RuleScopeRecord \<Rightarrow> Rule" where
  "scope_rule r routeNames providerNames i scope =
     (let converted = convertPostgresRule r
            \<lparr>sc_RouteKey = name_of routeNames (rsr_RouteID scope), sc_Provider = name_of providerNames (rsr_ProviderID scope),
             sc_Model = rsr_Model scope, sc_Direction = rsr_Direction scope\<rparr>
      in if i > 0 then converted\<lparr>rule_Key := rule_Key converted @ ''-scope-'' @ dec (i + 1)\<rparr> else converted)"

definition convert_rules :: "(uuid \<rightharpoonup> string) \<Rightarrow> (uuid \<rightharpoonup> string) \<Rightarrow> RuleRecord \<Rightarrow> Rule list" where
  "convert_rules routeNames providerNames r =
     (if \<not> rlr_Enabled r then []
      else if rlr_Scopes r = [] then [convertPostgresRule r \<lparr>sc_RouteKey = [], sc_Provider = [], sc_Model = [], sc_Direction = []\<rparr>]
      else map (\<lambda>(i, scope). scope_rule r routeNames providerNames i scope) (enumerate 0 (rlr_Scopes r)))"

definition convertPostgresPolicyBundle :: "BundleRecord \<Rightarrow> (uuid \<rightharpoonup> string) \<Rightarrow> (uuid \<rightharpoonup> string) \<Rightarrow> Bundle" where
  "convertPostgresPolicyBundle bundle routeNames providerNames =
     \<lparr>b_Key = bdr_Key bundle, b_Version = bdr_Version bundle, b_Source = bdr_Source bundle,
      b_DefaultAction = (if bdr_DefaultAction bundle = [] then ActionAllow else bdr_DefaultAction bundle),
      b_Detectors = map (\<lambda>d. \<lparr>def_Key = dtr_Key d, def_Kind = dtr_Kind d, def_Pattern = dtr_Pattern d, def_Categories = dtr_Categories d\<rparr>)
        (filter dtr_Enabled (bdr_Detectors bundle)),
      b_Rules = concat (map (convert_rules routeNames providerNames) (bdr_Rules bundle))\<rparr>"

definition convertPostgresPolicyBundles :: "BundleRecord list \<Rightarrow> (uuid \<rightharpoonup> string) \<Rightarrow> (uuid \<rightharpoonup> string) \<Rightarrow> Bundle list" where
  "convertPostgresPolicyBundles bundles routeNames providerNames =
     map (\<lambda>b. convertPostgresPolicyBundle b routeNames providerNames) (filter bdr_Enabled bundles)"

definition convertPostgresGatewayClients :: "GatewayClientRecord list \<Rightarrow> GatewayClientConfig list" where
  "convertPostgresGatewayClients clients =
     map (\<lambda>c. \<lparr>gcc_ID = gcr_ExternalID c, gcc_Name = gcr_Name c, gcc_Status = gcr_Status c, gcc_KeyPrefix = gcr_KeyPrefix c,
       gcc_KeyHash = gcr_KeyHash c\<rparr>) clients"

definition convertPostgresRouteLimits :: "RoutePolicyRecord list \<Rightarrow> (uuid \<rightharpoonup> string) \<Rightarrow> RouteLimitConfig list" where
  "convertPostgresRouteLimits policies routeNames =
     map (\<lambda>p. \<lparr>rlc_RouteKey = name_of routeNames (rpr_RouteID p), rlc_RequestsPerWindow = rpr_RequestsPerWindow p,
       rlc_Window = rpr_WindowSeconds p * 1000000000, rlc_MaxConcurrentRequests = rpr_MaxConcurrentRequests p,
       rlc_MaxBodyBytes = rpr_MaxBodyBytes p, rlc_Disabled = (\<not> rpr_Enabled p)\<rparr>) policies"

definition convertPostgresClientRouteLimitOverrides ::
  "ClientRouteOverrideRecord list \<Rightarrow> (uuid \<rightharpoonup> string) \<Rightarrow> (uuid \<rightharpoonup> string) \<Rightarrow> ClientRouteLimitOverrideConfig list" where
  "convertPostgresClientRouteLimitOverrides overrides clientExternalIDs routeNames =
     map (\<lambda>r. \<lparr>crl_ClientID = name_of clientExternalIDs (cor_ClientID r), crl_RouteKey = name_of routeNames (cor_RouteID r),
       crl_RequestsPerWindow = cor_RequestsPerWindow r, crl_Window = cor_WindowSeconds r * 1000000000,
       crl_MaxConcurrentRequests = cor_MaxConcurrentRequests r, crl_MaxBodyBytes = cor_MaxBodyBytes r,
       crl_Disabled = (\<not> cor_Enabled r)\<rparr>) overrides"

definition convertPostgresRuntimeConfig :: "runtime_codec \<Rightarrow> postgresRuntimeConfig \<Rightarrow> convert_error + RuntimeConfig" where
  "convertPostgresRuntimeConfig J input =
     (let lookups = newPostgresRuntimeLookups input;
          routes = convertPostgresRoutes (prc_Routes input) (lk_modelMappingsByID lookups)
      in case convertPostgresProviders J (prc_Providers input) of
           Inl e \<Rightarrow> Inl e
         | Inr providers \<Rightarrow>
             (case convertPostgresModelMappings J (prc_ModelMappings input) (lk_providerNames lookups) of
                Inl e \<Rightarrow> Inl e
              | Inr modelMappings \<Rightarrow>
                  Inr \<lparr>rc_Revision = crv_Number (prc_Revision input), rc_Routes = routes, rc_Providers = providers,
                    rc_ModelMappings = modelMappings,
                    rc_VerdictProviders = convertPostgresVerdictProviders (prc_VerdictProviders input),
                    rc_RouteVerdictProviderBindings = convertPostgresRouteVerdictProviderBindings
                      (prc_RouteVerdictProviderBindings input) (lk_routeNames lookups) (lk_verdictProviderNames lookups),
                    rc_Sinks = convertPostgresSinks (prc_Sinks input),
                    rc_Retention = convertPostgresRetentionPolicies (prc_Retention input) (lk_sinkNames lookups),
                    rc_PolicyBundles = convertPostgresPolicyBundles (prc_PolicyBundles input) (lk_routeNames lookups) (lk_providerNames lookups),
                    rc_RawCapture = convertPostgresRawCapturePolicies (prc_RawCapture input) (lk_routeNames lookups),
                    rc_GatewayClients = convertPostgresGatewayClients (prc_GatewayClients input),
                    rc_RouteLimits = convertPostgresRouteLimits (prc_RouteLimitPolicies input) (lk_routeNames lookups),
                    rc_ClientRouteLimitOverrides = convertPostgresClientRouteLimitOverrides
                      (prc_ClientRouteLimitOverrides input) (lk_clientExternalIDs lookups) (lk_routeNames lookups)\<rparr>))"

section \<open>The repository of the runtime\<close>

datatype runtime_store_error = RuntimeRepositoryRequired | ErrActiveRuntimeConfigNotFound | RuntimeStoreFailed store_error
  | ConvertFailed convert_error

definition mapPostgresRuntimeError :: "store_error \<Rightarrow> runtime_store_error" where
  "mapPostgresRuntimeError e = (if e = ErrActiveRevisionNotFound then ErrActiveRuntimeConfigNotFound else RuntimeStoreFailed e)"

definition Repository_ActiveRevisionNumber :: "int db option \<Rightarrow> (pg, runtime_store_error, int) effect" where
  "Repository_ActiveRevisionNumber repo = (\<lambda>d.
     case repo of
       None \<Rightarrow> (Inl RuntimeRepositoryRequired, d)
     | Some number \<Rightarrow>
         (case number d of
            (Inl e, d') \<Rightarrow> (Inl (mapPostgresRuntimeError e), d')
          | (Inr revision, d') \<Rightarrow> (Inr revision, d')))"

definition Repository_LoadRuntimeConfig :: "runtime_codec \<Rightarrow> postgresRuntimeConfig db option \<Rightarrow> (pg, runtime_store_error, RuntimeConfig) effect" where
  "Repository_LoadRuntimeConfig J repo = (\<lambda>d.
     case repo of
       None \<Rightarrow> (Inl RuntimeRepositoryRequired, d)
     | Some load \<Rightarrow>
         (case load d of
            (Inl e, d') \<Rightarrow> (Inl (mapPostgresRuntimeError e), d')
          | (Inr cfg, d') \<Rightarrow>
              (case convertPostgresRuntimeConfig J cfg of
                 Inl e \<Rightarrow> (Inl (ConvertFailed e), d')
               | Inr converted \<Rightarrow> (Inr converted, d'))))"

end
