(* ===== verification/Store_Samples.thy ===== *)
theory Store_Samples
  imports ControlStore RuntimeStore
begin

text \<open>A small database, a bundle with a rule for one route, and what becomes of the rule's scope.\<close>

text \<open>A server that never fails, gives out numbered uuids and finds rows in the order they were inserted.\<close>

definition sample_db :: "tables \<Rightarrow> nat \<Rightarrow> pg" where
  "sample_db T n =
     \<lparr>pg_tables = T, pg_step = n, pg_sequence = 1, pg_fault = (\<lambda>_. None), pg_lost = (\<lambda>_. False), pg_uuid = (\<lambda>n. ''id-'' @ dec n),
      pg_clock = int, pg_order = (\<lambda>_ i. i), pg_collate = (\<le>)\<rparr>"

definition empty_tables :: tables where
  "empty_tables =
     \<lparr>tb_revisions = [], tb_generation = 0, tb_routes = [], tb_providers = [], tb_mappings = [], tb_verdicts = [], tb_verdict_bindings = [],
      tb_bundles = [], tb_detectors = [], tb_rules = [], tb_rule_detectors = [], tb_scopes = [], tb_policy_bindings = [], tb_clients = [],
      tb_route_limits = [], tb_client_limits = [], tb_sinks = [], tb_retention = [], tb_captures = [], tb_snapshots = [],
      tb_activations = [], tb_notifications = []\<rparr>"

definition active_row :: revision_row where
  "active_row =
     \<lparr>vn_id = ''active'', vn_number = 1, vn_source = ''seed'', vn_status = ''active'', vn_summary = [], vn_actor = ''system'',
      vn_validation_status = ''valid'', vn_hash = ''h0'', vn_ref = [], vn_activated_at = Some 0\<rparr>"

definition chat_route :: route_row where
  "chat_route =
     \<lparr>rtr_ID = ''route-1'', rtr_Name = ''chat'', rtr_Enabled = True, rtr_Priority = 100, rtr_Method = ''POST'', rtr_Path = ''/v1/chat/completions'',
      rtr_PathPrefix = [], rtr_Provider = ''openai'', rtr_UpstreamModel = ''gpt'', rtr_ModelMappingID = [], rtr_ExecutionMode = ''inline'',
      rtr_FallbackAction = ''block'', rtr_revision = ''active''\<rparr>"

definition seeded :: pg where
  "seeded = sample_db (empty_tables\<lparr>tb_revisions := [active_row], tb_routes := [chat_route]\<rparr>) 0"

definition sample_detectors :: detector_codec where
  "sample_detectors =
     \<lparr>dc_marshal = (\<lambda>kind categories. Some (kind @ '':'' @ join_with '','' categories)),
      dc_kind = (\<lambda>raw. map_option fst (cut_at (CHR '':'') raw)),
      dc_categories = (\<lambda>raw. Some [])\<rparr>"

definition sample_store :: store_env where
  "sample_store =
     \<lparr>se_compiler = \<lparr>pc_platform = sample_platform, pc_marshal = (\<lambda>_. Some [])\<rparr>, se_detectors = sample_detectors,
      se_marshalParams = (\<lambda>p. Some (mp_RouteKey p)), se_unmarshalParams = (\<lambda>s p. Some (p\<lparr>mp_RouteKey := s\<rparr>)),
      se_ids = (\<lambda>_. []), se_rand = (\<lambda>_. (\<lambda>_. None, \<lambda>_. None))\<rparr>"

definition scoped_bundle :: PolicyBundle where
  "scoped_bundle =
     \<lparr>pb_Key = ''b'', pb_Version = ''1'', pb_Source = ''user'', pb_DefaultAction = ''allow'',
      pb_Detectors = [\<lparr>cd_Key = ''mail'', cd_Kind = ''email'', cd_Pattern = [], cd_Categories = []\<rparr>],
      pb_Rules = [\<lparr>cr_Key = ''r'', cr_Enabled = True, cr_Severity = ''high'', cr_Action = ''block'', cr_DetectorKeys = [''mail''],
        cr_Scope = \<lparr>cs_RouteKey = ''chat'', cs_Provider = [], cs_Model = [], cs_Direction = []\<rparr>\<rparr>]\<rparr>"

definition activation :: PolicyActivationRequest where
  "activation = \<lparr>ar_Keys = [''b''], ar_Reason = [], ar_SnapshotHash = ''h1''\<rparr>"

definition sample_runtime_codec :: runtime_codec where
  "sample_runtime_codec = \<lparr>rk_stringMap = (\<lambda>_. Some []), rk_params = (\<lambda>_. None)\<rparr>"

definition result_of :: "('s, 'e, 'a) effect \<Rightarrow> 's \<Rightarrow> 'e + 'a" where
  "result_of m s = fst (m s)"

definition after :: "('s, 'e, 'a) effect \<Rightarrow> 's \<Rightarrow> 's" where
  "after m s = snd (m s)"

definition stored_db :: pg where "stored_db = after (postgres_CreatePolicyBundle sample_store scoped_bundle) seeded"
definition activated_db :: pg where "activated_db = after (postgres_ActivatePolicyBundles sample_store activation) stored_db"

end
