(* ===== verification/Store_Claims.thy ===== *)
theory Store_Claims
  imports Store_Tokens Store_Samples
begin

text \<open>
  The properties of the PostgreSQL store with inputs that meet their hypotheses, and what happens to the scope of a
  rule that is created when no draft is there.
\<close>

section \<open>A draft is a copy\<close>

text \<open>C10. The draft an edit works on is one that is there, the tables unchanged, or a new one: then its revision has a
  fresh uuid, and if a revision is active, every table has, for every row of the active revision and no other, one
  row more, which is that row with the draft's revision, a new uuid, and references to the copies of what it referred to.
\<close>

theorem draft_is_a_copy:
  assumes "ensureDraftRevision (Some cloneActiveRevisionAsDraft) d = (Inr D, d')" "distinct_ids (pg_tables d)"
  shows "if revisions_with ''draft'' (pg_tables d) \<noteq> {}
    then pg_tables d' = pg_tables d \<and> D \<in> vn_id ` revisions_with ''draft'' (pg_tables d)
    else D \<notin> vn_id ` set (tb_revisions (pg_tables d)) \<and>
      (let T1 = tb_revisions_update (\<lambda>rs. rs @ [draft_row D (pg_sequence d + 1)]) (pg_tables d)
       in if revisions_with ''active'' (pg_tables d) = {} then pg_tables d' = T1
          else \<exists>A M. A \<in> vn_id ` revisions_with ''active'' (pg_tables d) \<and> new_uuids A T1 M \<and> copied A D M T1 (pg_tables d'))"
  using ensureDraftRevision_Inr [OF assms] unfolding draft_from_def .

lemma seeded_drafts: "revisions_with ''draft'' (pg_tables seeded) = {}"
  by (simp add: revisions_with_def seeded_def sample_db_def empty_tables_def active_row_def)

lemma seeded_good: "good seeded"
  by (auto simp: good_def store_ok_def distinct_ids_def linked_def revisions_ok_def revisions_with_def seeded_def sample_db_def
      empty_tables_def active_row_def)

lemma seeded_clone: "fst (ensureDraftRevision (Some cloneActiveRevisionAsDraft) seeded) = Inr ''id-2''"
  by code_simp

lemma draft_is_a_copy_witness:
  "''id-2'' \<notin> vn_id ` set (tb_revisions (pg_tables seeded)) \<and>
   (let T1 = tb_revisions_update (\<lambda>rs. rs @ [draft_row ''id-2'' (pg_sequence seeded + 1)]) (pg_tables seeded);
        T' = pg_tables (snd (ensureDraftRevision (Some cloneActiveRevisionAsDraft) seeded))
    in if revisions_with ''active'' (pg_tables seeded) = {} then T' = T1
       else \<exists>A M. A \<in> vn_id ` revisions_with ''active'' (pg_tables seeded) \<and> new_uuids A T1 M \<and> copied A ''id-2'' M T1 T')"
proof -
  have run: "ensureDraftRevision (Some cloneActiveRevisionAsDraft) seeded =
      (Inr ''id-2'', snd (ensureDraftRevision (Some cloneActiveRevisionAsDraft) seeded))"
    using seeded_clone by (metis prod.collapse)
  have ids: "distinct_ids (pg_tables seeded)" using seeded_good by (simp add: good_def store_ok_def)
  show ?thesis using draft_is_a_copy [OF run ids] unfolding seeded_drafts Let_def simp_thms if_False .
qed

section \<open>Edits, activations and clients\<close>

text \<open>C9. An edit of the configuration either fails and changes nothing, or changes the rows of one draft only, one that
  was there or a copy of an active revision: the rows of every other revision, of every table, stay as they are and in
  their order, and so do the clients and the generation.  It keeps the integrity of the store.
\<close>

theorem edits_stay_in_the_draft:
  assumes "run_edit K e d = (r, d')" "store_ok (pg_tables d)"
  shows "pg_tables d' = pg_tables d \<and> (\<exists>e. r = Inl e) \<or> edited (pg_sequence d + 1) (pg_tables d) (pg_tables d')"
  using assms by (rule edits_in_the_draft)

definition sample_edit :: store_edit where
  "sample_edit = PutBundle
     \<lparr>bdr_ID = [], bdr_Key = ''b'', bdr_Version = ''1'', bdr_Source = ''user'', bdr_Description = [], bdr_DefaultAction = ''allow'',
      bdr_Enabled = True, bdr_Metadata = None,
      bdr_Detectors = [\<lparr>dtr_ID = [], dtr_Key = ''mail'', dtr_Kind = ''email'', dtr_Pattern = [], dtr_Categories = [], dtr_Config = None, dtr_Enabled = True\<rparr>],
      bdr_Rules = []\<rparr>"

lemma seeded_edit: "fst (run_edit sample_detectors sample_edit seeded) = Inr ()"
  by code_simp

lemma edits_stay_in_the_draft_witness:
  "edited (pg_sequence seeded + 1) (pg_tables seeded) (pg_tables (snd (run_edit sample_detectors sample_edit seeded)))"
proof -
  have run: "run_edit sample_detectors sample_edit seeded = (Inr (), snd (run_edit sample_detectors sample_edit seeded))"
    using seeded_edit by (metis prod.collapse)
  show ?thesis using edits_stay_in_the_draft [OF run] seeded_good by (auto simp: good_def)
qed

text \<open>C11. Whatever the control plane calls on its PostgreSQL store, and whatever each statement answers, lost commits
  included: the store keeps its integrity (keys, links inside one bundle, one draft at most and newer than what is
  active, numbers of revisions the sequence has given out), the token the runtime watches never decreases, every
  gateway client is still there, and a revoked one is revoked.
\<close>

theorem calls_keep_the_store:
  assumes "good d"
  shows "good (after_calls K calls d) \<and> token_le (runtime_token (pg_tables d)) (runtime_token (pg_tables (after_calls K calls d))) \<and>
    clients_kept (pg_tables d) (pg_tables (after_calls K calls d))"
  using after_calls_keep [of d K calls] assms by (simp add: call_keeps_def)

definition sample_request :: BundleActivationRequest where
  "sample_request = \<lparr>baq_Keys = [''b''], baq_Actor = [], baq_Reason = [], baq_SnapshotHash = ''h1''\<rparr>"

lemma calls_keep_the_store_witness:
  "let d' = after_calls sample_detectors [Edit sample_edit, Activate sample_request, RevokeClient ''c''] seeded
   in good d' \<and> token_le (runtime_token (pg_tables seeded)) (runtime_token (pg_tables d')) \<and> clients_kept (pg_tables seeded) (pg_tables d')"
  using calls_keep_the_store [OF seeded_good, of sample_detectors "[Edit sample_edit, Activate sample_request, RevokeClient ''c'']"]
  by (simp add: Let_def)

text \<open>C30. An activation in PostgreSQL that reports success answers the token the store then has, and it is past the
  token before, so a runtime that compares the two reloads.
\<close>

theorem activation_moves_the_token:
  assumes "repo_ActivatePolicyBundles K request d = (Inr result, d')" "good d"
  shows "runtime_token (pg_tables d') = Some (bas_RevisionNumber result) \<and>
    (\<forall>n. runtime_token (pg_tables d) = Some n \<longrightarrow> n < bas_RevisionNumber result)"
proof -
  obtain D where "activates D (pg_tables d) (pg_tables d')" and token: "runtime_token (pg_tables d') = Some (bas_RevisionNumber result)"
    using activation_steps [OF assms(1)] by auto
  with activation_token [OF this(1)] assms(2) show ?thesis by (fastforce simp: good_def)
qed

definition edited_db :: pg where "edited_db = snd (run_edit sample_detectors sample_edit seeded)"

lemma edited_db_activates: "map_sum id bas_RevisionNumber (fst (repo_ActivatePolicyBundles sample_detectors sample_request edited_db)) = Inr 2"
  by code_simp

lemma edited_db_token: "runtime_token (pg_tables edited_db) = Some 1"
  by code_simp

lemma activation_moves_the_token_witness:
  "runtime_token (pg_tables (snd (repo_ActivatePolicyBundles sample_detectors sample_request edited_db))) = Some 2 \<and>
   runtime_token (pg_tables edited_db) = Some 1 \<and> (1 :: int) < 2"
proof -
  obtain result where "fst (repo_ActivatePolicyBundles sample_detectors sample_request edited_db) = Inr result" and two: "bas_RevisionNumber result = 2"
    using edited_db_activates by (cases "fst (repo_ActivatePolicyBundles sample_detectors sample_request edited_db)") auto
  then have run: "repo_ActivatePolicyBundles sample_detectors sample_request edited_db =
      (Inr result, snd (repo_ActivatePolicyBundles sample_detectors sample_request edited_db))" by (metis prod.collapse)
  have "good edited_db"
    using run_call_keeps [of seeded sample_detectors "Edit sample_edit"] seeded_good by (simp add: call_keeps_def edited_db_def)
  from activation_moves_the_token [OF run this] two edited_db_token show ?thesis by simp
qed

section \<open>The scope of a rule\<close>

text \<open>
  A bundle whose rule is for one route, created when no draft is there: the name of the route becomes the uuid it has in
  the active revision, and the draft, a copy with uuids of its own, keeps that uuid.  Activated, the rule is read with
  an empty route, that is for every route; and every later edit of the configuration fails, since the scope cannot
  be copied into the next draft.
\<close>

lemma scoped_rule_is_stored: "result_of (postgres_CreatePolicyBundle sample_store scoped_bundle) seeded = Inr ()"
  by code_simp

lemma scoped_rule_loses_its_route:
  "map_sum id (map (\<lambda>b. map rule_Scope (b_Rules b)) \<circ> rc_PolicyBundles)
     (result_of (Repository_LoadRuntimeConfig sample_runtime_codec (Some (loadPostgresRuntimeConfig sample_detectors))) activated_db) =
   Inr [[\<lparr>sc_RouteKey = [], sc_Provider = [], sc_Model = [], sc_Direction = []\<rparr>]]"
  by code_simp

lemma scoped_bundle_blocks_edits:
  "result_of (postgres_CreatePolicyBundle sample_store scoped_bundle) activated_db = Inl (StoreFailed (MissingClone ''policy rule scope route'' ''route-1''))"
  by code_simp

end
