(* ===== verification/Spec2Isabelle.thy ===== *)
theory Spec2Isabelle
  imports Policy_Claims Redaction_Claims RouteLimits_Claims Admission Evaluation OpenAIText_Claims Planners Verdict Http_Claims SSE_Claims Streaming_Claims ServerBuilder_Claims Delivery_Claims Runtime_Claims Control_Claims ClickHouse_Claims ControlServer_Claims TrafficReader Config Store_Claims
begin

text \<open>
  KiwiGuard, a gateway in front of OpenAI-compatible services.
\<close>

end
